(* ===== verification/Prelude.thy ===== *)
theory Prelude
  imports Complex_Main "HOL-Library.Char_ord" "HOL-Library.List_Lexorder"
    "HOL-Library.Product_Lexorder" "HOL-Library.Multiset"
begin

text \<open>
  Shared vocabulary of the development.  Python's exceptions become the left summand of a sum
  (\<open>bindE\<close>, \<open>traverseE\<close>, \<open>checkE\<close>), a \<^verbatim>\<open>dict\<close> comprehension becomes \<open>dict_of\<close> (the last
  binding of a key wins), \<^verbatim>\<open>max\<close>/\<^verbatim>\<open>min\<close> over a non-empty generator become \<open>max_by\<close> and
  \<open>Min \<circ> set\<close>, and a Python \<^verbatim>\<open>str\<close> is a \<^typ>\<open>string\<close> ordered lexicographically (the UTF-8
  byte order, which is the code point order Python compares by).  The lemmas below carry the
  component proofs.
\<close>

named_theorems result_simps \<open>evaluation of the exception monad\<close>
named_theorems dict_simps \<open>lookup in dictionaries built by comprehension\<close>

section \<open>Exceptions as values\<close>

fun bindE :: "'e + 'a \<Rightarrow> ('a \<Rightarrow> 'e + 'b) \<Rightarrow> 'e + 'b" where
  "bindE (Inl e) f = Inl e"
| "bindE (Inr x) f = f x"

fun traverseE :: "('a \<Rightarrow> 'e + 'b) \<Rightarrow> 'a list \<Rightarrow> 'e + 'b list" where
  "traverseE f [] = Inr []"
| "traverseE f (x # xs) = bindE (f x) (\<lambda>y. bindE (traverseE f xs) (\<lambda>ys. Inr (y # ys)))"

definition checkE :: "bool \<Rightarrow> 'e \<Rightarrow> 'e + unit" where
  "checkE b e = (if b then Inr () else Inl e)"

definition raised :: "'e + 'a \<Rightarrow> bool" where
  "raised r = (case r of Inl _ \<Rightarrow> True | Inr _ \<Rightarrow> False)"

lemma bindE_Inr_iff [result_simps]: "bindE m f = Inr y \<longleftrightarrow> (\<exists>x. m = Inr x \<and> f x = Inr y)"
  by (cases m) auto

lemma bindE_Inl_iff [result_simps]:
  "bindE m f = Inl e \<longleftrightarrow> m = Inl e \<or> (\<exists>x. m = Inr x \<and> f x = Inl e)"
  by (cases m) auto

lemma checkE_Inr_iff [result_simps]: "checkE b e = Inr u \<longleftrightarrow> b"
  by (simp add: checkE_def)

lemma checkE_Inl_iff [result_simps]: "checkE b e = Inl e' \<longleftrightarrow> \<not> b \<and> e' = e"
  by (auto simp: checkE_def)

lemma bindE_cong [fundef_cong]:
  "m = m' \<Longrightarrow> (\<And>x. m' = Inr x \<Longrightarrow> f x = g x) \<Longrightarrow> bindE m f = bindE m' g"
  by (cases m) auto

lemma bindE_checkE: "bindE (checkE b e) f = (if b then f () else Inl e)"
  by (simp add: checkE_def)

lemma traverseE_Inr_iff:
  "traverseE f xs = Inr ys \<longleftrightarrow> list_all2 (\<lambda>x y. f x = Inr y) xs ys"
  by (induction xs arbitrary: ys) (auto simp: result_simps list_all2_Cons1)

lemma traverseE_Inr_map:
  assumes "traverseE f xs = Inr ys"
  shows "map f xs = map Inr ys"
  using assms by (induction xs arbitrary: ys) (auto simp: result_simps)

lemma traverseE_Inr_length: "traverseE f xs = Inr ys \<Longrightarrow> length ys = length xs"
  by (simp add: traverseE_Inr_iff list_all2_lengthD)

lemma traverseE_Inr_all:
  assumes "traverseE f xs = Inr ys" and "x \<in> set xs"
  obtains y where "f x = Inr y" and "y \<in> set ys"
proof -
  from assms have "f x \<in> set (map Inr ys)"
    by (metis image_eqI list.set_map traverseE_Inr_map)
  then show ?thesis using that by auto
qed

lemma traverseE_Inl_ex: "traverseE f xs = Inl e \<Longrightarrow> \<exists>x \<in> set xs. f x = Inl e"
  by (induction xs) (auto simp: result_simps)

text \<open>A sequence of guards: the first that fails raises its error.\<close>

fun guardsE :: "(bool \<times> 'e) list \<Rightarrow> 'e + unit" where
  "guardsE [] = Inr ()"
| "guardsE ((b, e) # gs) = (if b then guardsE gs else Inl e)"

lemma guardsE_Inr_iff [result_simps]: "guardsE gs = Inr u \<longleftrightarrow> list_all fst gs"
  by (induction gs rule: guardsE.induct) auto

lemma guardsE_append: "guardsE (gs @ hs) = bindE (guardsE gs) (\<lambda>_. guardsE hs)"
  by (induction gs rule: guardsE.induct) auto

lemma guardsE_raises: "(\<exists>e. guardsE gs = Inl e) \<longleftrightarrow> \<not> list_all fst gs"
  by (induction gs rule: guardsE.induct) auto

lemma traverseE_checkE:
  "(\<exists>us. traverseE (\<lambda>x. checkE (P x) (e x)) xs = Inr us) \<longleftrightarrow> (\<forall>x \<in> set xs. P x)"
  by (induction xs) (auto simp: result_simps)

lemma traverseE_total:
  "(\<And>x. x \<in> set xs \<Longrightarrow> \<exists>y. f x = Inr y) \<Longrightarrow> \<exists>ys. traverseE f xs = Inr ys"
  by (induction xs) (force simp: result_simps)+

section \<open>Dictionaries built by comprehension\<close>

definition dict_of :: "('k \<times> 'v) list \<Rightarrow> 'k \<Rightarrow> 'v option" where
  "dict_of kvs = map_of (rev kvs)"

lemma dict_of_None [dict_simps]: "dict_of kvs k = None \<longleftrightarrow> k \<notin> fst ` set kvs"
  by (simp add: dict_of_def map_of_eq_None_iff)

lemma dict_of_SomeD: "dict_of kvs k = Some v \<Longrightarrow> (k, v) \<in> set kvs"
  unfolding dict_of_def by (drule map_of_SomeD) simp

lemma dict_of_distinct:
  assumes "distinct (map fst kvs)" and "(k, v) \<in> set kvs"
  shows "dict_of kvs k = Some v"
  using assms unfolding dict_of_def by (intro map_of_is_SomeI) (auto simp: rev_map [symmetric])

lemma dict_of_keyed:
  assumes "distinct (map key xs)" and "x \<in> set xs"
  shows "dict_of (map (\<lambda>x. (key x, f x)) xs) (key x) = Some (f x)"
  by (rule dict_of_distinct) (use assms in \<open>auto simp: comp_def\<close>)

lemma dict_of_keyed_None:
  "dict_of (map (\<lambda>x. (key x, f x)) xs) k = None \<longleftrightarrow> k \<notin> key ` set xs"
  by (simp add: dict_simps image_image)

section \<open>Extrema and deduplication\<close>

text \<open>\<open>max_by key (x # xs)\<close> is Python's \<^verbatim>\<open>max(..., key=key)\<close>: the first element with a maximal key.\<close>

fun max_by :: "('a \<Rightarrow> 'b::linorder) \<Rightarrow> 'a \<Rightarrow> 'a list \<Rightarrow> 'a" where
  "max_by key x [] = x"
| "max_by key x (y # ys) = (if key x < key y then max_by key y ys else max_by key x ys)"

lemma max_by_in: "max_by key x ys \<in> insert x (set ys)"
  by (induction ys arbitrary: x) auto

lemma max_by_ge: "z \<in> insert x (set ys) \<Longrightarrow> key z \<le> key (max_by key x ys)"
proof (induction ys arbitrary: x z)
  case (Cons y ys)
  show ?case
  proof (cases "key x < key y")
    case True
    then have "key x \<le> key (max_by key y ys)"
      using Cons.IH [of y y] by simp
    then show ?thesis using Cons True by auto
  next
    case False
    then have "key y \<le> key (max_by key x ys)"
      using Cons.IH [of x x] by (meson insertI1 linorder_not_less order_trans)
    then show ?thesis using Cons False by auto
  qed
qed simp

lemma max_by_key: "key (max_by key x ys) = Max (key ` insert x (set ys))"
proof (rule Max_eqI [symmetric])
  show "key (max_by key x ys) \<in> key ` insert x (set ys)"
    using max_by_in by (rule imageI)
qed (auto intro: max_by_ge)

text \<open>\<open>sorted_set xs\<close> is Python's \<^verbatim>\<open>sorted(set(xs))\<close>.\<close>

definition sorted_set :: "'a::linorder list \<Rightarrow> 'a list" where
  "sorted_set xs = sort (remdups xs)"

lemma set_sorted_set [simp]: "set (sorted_set xs) = set xs"
  by (simp add: sorted_set_def)

lemma distinct_sorted_set [simp]: "distinct (sorted_set xs)"
  by (simp add: sorted_set_def)

lemma sorted_sorted_set [simp]: "sorted (sorted_set xs)"
  by (simp add: sorted_set_def)

lemma sorted_set_eq_iff: "sorted_set xs = sorted_set ys \<longleftrightarrow> set xs = set ys"
proof
  show "sorted_set xs = sorted_set ys \<Longrightarrow> set xs = set ys"
    by (metis set_sorted_set)
  assume "set xs = set ys"
  then show "sorted_set xs = sorted_set ys"
    by (intro sorted_distinct_set_unique) auto
qed

lemma sorted_set_Nil_iff [simp]: "sorted_set xs = [] \<longleftrightarrow> xs = []"
  by (metis set_empty set_sorted_set)

lemma sorted_set_idem: "sorted xs \<Longrightarrow> distinct xs \<Longrightarrow> sorted_set xs = xs"
  by (intro sorted_distinct_set_unique) auto

text \<open>Over a sorted vocabulary, \<^verbatim>\<open>sorted(set(xs))\<close> is the vocabulary filtered by membership.\<close>

lemma sorted_set_filter:
  assumes "set xs \<subseteq> set ks" and "sorted ks" and "distinct ks"
  shows "sorted_set xs = filter (\<lambda>k. k \<in> set xs) ks"
  using assms by (intro sorted_distinct_set_unique) (auto simp: sorted_wrt_filter)

section \<open>Positions in a vocabulary\<close>

fun index_of :: "'a list \<Rightarrow> 'a \<Rightarrow> nat option" where
  "index_of [] y = None"
| "index_of (x # xs) y = (if x = y then Some 0 else map_option Suc (index_of xs y))"

lemma index_of_None [simp]: "index_of xs y = None \<longleftrightarrow> y \<notin> set xs"
  by (induction xs) auto

lemma index_of_SomeD: "index_of xs y = Some i \<Longrightarrow> i < length xs \<and> xs ! i = y"
  by (induction xs arbitrary: i) (auto split: if_splits)

lemma index_of_nth: "distinct xs \<Longrightarrow> i < length xs \<Longrightarrow> index_of xs (xs ! i) = Some i"
  by (induction xs arbitrary: i) (auto simp: nth_Cons split: nat.splits)

section \<open>Sorting by a key\<close>

lemma hd_sort_key_least:
  assumes "xs \<noteq> []"
  shows "hd (sort_key f xs) \<in> set xs \<and> (\<forall>y \<in> set xs. f (hd (sort_key f xs)) \<le> f y)"
proof -
  from assms have ne: "sort_key f xs \<noteq> []"
    by (metis set_empty set_sort)
  then have "hd (sort_key f xs) \<in> set (sort_key f xs)" by (rule hd_in_set)
  moreover have "\<forall>y \<in> set (sort_key f xs). f (hd (sort_key f xs)) \<le> f y"
    using sorted_sort_key [of f xs] ne by (cases "sort_key f xs") auto
  ultimately show ?thesis by simp
qed

lemma sort_key_perm_inj:
  assumes "mset xs = mset ys" and "inj_on f (set xs)"
  shows "sort_key f xs = sort_key f ys"
  using assms by (metis mset_sort properties_for_sort_key set_mset_mset set_sort sorted_sort_key
      sort_key_inj_key_eq)

end
