(* ===== verification/Binary64.thy ===== *)
theory Binary64
  imports Prelude "HOL-Library.Log_Nat"
begin

text \<open>
  Python's \<^verbatim>\<open>float\<close>: IEEE binary64 arithmetic, round to nearest with ties to even, on the
  rational value of a float.  A finite float is the rational it denotes; \<open>rnd64\<close> rounds an exact
  result to the nearest representable one (53 significant bits, least exponent \<open>-1074\<close>), and
  \<open>fadd\<close>, \<open>fsub\<close>, \<open>fmul\<close> round the exact sum, difference and product.  \<open>decimal n d\<close> is the value of
  the literal \<open>n/d\<close>.  \<open>py_sum\<close> is the built-in \<^verbatim>\<open>sum\<close> over floats since Python 3.12 (the version
  the project requires): Neumaier's compensated summation.  Overflow to infinity and NaN are not
  values of the model; every number the components accept lies in a bounded range.
\<close>

type_synonym float64 = rat

definition round_even :: "rat \<Rightarrow> int" where
  "round_even x = (let f = floor x; d = x - of_int f in
     if d < 1/2 then f else if 1/2 < d then f + 1 else if even f then f else f + 1)"

definition ilog2 :: "rat \<Rightarrow> int" where
  "ilog2 x = (let (p, q) = quotient_of x; k = bitlen p - bitlen q
     in if 2 powi k \<le> x then k else k - 1)"

definition expo64 :: "rat \<Rightarrow> int" where
  "expo64 x = max (ilog2 \<bar>x\<bar> - 52) (- 1074)"

definition rnd64 :: "rat \<Rightarrow> float64" where
  "rnd64 x = (if x = 0 then 0 else of_int (round_even (x / 2 powi expo64 x)) * 2 powi expo64 x)"

definition decimal :: "int \<Rightarrow> int \<Rightarrow> float64" where
  "decimal n d = rnd64 (of_int n / of_int d)"

definition fadd :: "float64 \<Rightarrow> float64 \<Rightarrow> float64" where
  "fadd x y = rnd64 (x + y)"

definition fsub :: "float64 \<Rightarrow> float64 \<Rightarrow> float64" where
  "fsub x y = rnd64 (x - y)"

definition fmul :: "float64 \<Rightarrow> float64 \<Rightarrow> float64" where
  "fmul x y = rnd64 (x * y)"

definition fdiv :: "float64 \<Rightarrow> float64 \<Rightarrow> float64" where
  "fdiv x y = rnd64 (x / y)"

text \<open>The built-in \<^verbatim>\<open>round(x, n)\<close>: the nearest decimal with \<open>n\<close> places, ties to even on the exact value.\<close>

definition round_places :: "nat \<Rightarrow> float64 \<Rightarrow> float64" where
  "round_places n x = rnd64 (of_int (round_even (x * 10 ^ n)) / 10 ^ n)"

text \<open>The compensated loop: running sum \<open>s\<close>, running compensation \<open>c\<close>.\<close>

fun py_sum_loop :: "float64 \<Rightarrow> float64 \<Rightarrow> float64 list \<Rightarrow> float64" where
  "py_sum_loop s c [] = (if c = 0 then s else fadd s c)"
| "py_sum_loop s c (x # xs) =
     (let t = fadd s x;
          c' = (if \<bar>x\<bar> \<le> \<bar>s\<bar> then fadd c (fadd (fsub s t) x) else fadd c (fadd (fsub x t) s))
      in py_sum_loop t c' xs)"

fun py_sum :: "float64 list \<Rightarrow> float64" where
  "py_sum [] = 0"
| "py_sum (x # xs) = py_sum_loop (fadd 0 x) 0 xs"

definition is_float64 :: "rat \<Rightarrow> bool" where
  "is_float64 x \<longleftrightarrow> rnd64 x = x"

section \<open>Rounding to an integer\<close>

lemma round_even_of_int [simp]: "round_even (of_int n) = n"
  by (simp add: round_even_def)

lemma round_even_bounds: "of_int (round_even x) - 1/2 \<le> x" "x \<le> of_int (round_even x) + 1/2"
  unfolding round_even_def Let_def
  by (auto split: if_splits) (linarith)+

lemma round_even_mono:
  assumes "x \<le> y"
  shows "round_even x \<le> round_even y"
proof (cases "floor x = floor y")
  case True
  with assms show ?thesis by (auto simp: round_even_def Let_def)
next
  case False
  with assms have lt: "floor x < floor y" by (simp add: floor_mono order_le_neq_trans)
  have "round_even x \<le> floor x + 1" "floor y \<le> round_even y"
    by (auto simp: round_even_def Let_def)
  with lt show ?thesis by linarith
qed

lemma round_even_minus: "round_even (- x) = - round_even x"
proof (cases "x = of_int (floor x)")
  case True
  then show ?thesis by (metis of_int_minus round_even_of_int)
next
  case False
  then have fl: "floor (- x) = - floor x - 1"
    by (smt (verit) ceiling_def floor_le_iff le_floor_iff ceiling_altdef)
  have ev: "even (- floor x - 1) \<longleftrightarrow> \<not> even (floor x)" by simp
  show ?thesis
    unfolding round_even_def Let_def fl ev by (auto simp: field_simps)
qed

lemma round_even_nonneg: "0 \<le> x \<Longrightarrow> 0 \<le> round_even x"
  using round_even_mono [of 0 x] round_even_of_int [of 0] by simp

section \<open>The binary exponent\<close>

lemma bitlen_powi:
  assumes "0 < p"
  shows "2 powi (bitlen p - 1) \<le> (of_int p :: rat)" "(of_int p :: rat) < 2 powi bitlen p"
proof -
  have pos: "0 < bitlen p" using assms by (metis bitlen_eq_zero_iff bitlen_nonneg linorder_not_less order_le_less)
  have b: "2 ^ nat (bitlen p - 1) \<le> p" "p < 2 ^ nat (bitlen p)"
    using bitlen_bounds [OF assms] by auto
  have "(2 :: rat) powi (bitlen p - 1) = of_int (2 ^ nat (bitlen p - 1))"
    using pos by (simp add: power_int_def)
  with b(1) show "2 powi (bitlen p - 1) \<le> (of_int p :: rat)" by (metis of_int_le_iff)
  have "(2 :: rat) powi bitlen p = of_int (2 ^ nat (bitlen p))"
    using pos by (simp add: power_int_def)
  with b(2) show "(of_int p :: rat) < 2 powi bitlen p" by (metis of_int_less_iff)
qed

lemma ilog2_bounds:
  assumes "0 < x"
  shows "2 powi ilog2 x \<le> x" "x < 2 powi (ilog2 x + 1)"
proof -
  obtain p q where pq: "quotient_of x = (p, q)" by fastforce
  have q: "0 < q" using pq by (rule quotient_of_denom_pos)
  have x: "x = of_int p / of_int q" using pq by (rule quotient_of_div)
  with assms q have p: "0 < p" by (simp add: zero_less_divide_iff)
  let ?k = "bitlen p - bitlen q"
  have up: "x < 2 powi (?k + 1)"
  proof -
    have "x < 2 powi bitlen p / 2 powi (bitlen q - 1)"
      unfolding x using bitlen_powi [OF p] bitlen_powi [OF q] p
      by (intro frac_less) auto
    also have "\<dots> = 2 powi (?k + 1)" by (simp add: power_int_diff [symmetric] algebra_simps)
    finally show ?thesis .
  qed
  have lo: "2 powi (?k - 1) \<le> x"
  proof -
    have "2 powi (bitlen p - 1) / 2 powi bitlen q \<le> x"
      unfolding x using bitlen_powi [OF p] bitlen_powi [OF q] p q
      by (intro frac_le) auto
    moreover have "(2 :: rat) powi (bitlen p - 1) / 2 powi bitlen q = 2 powi (?k - 1)"
      by (simp add: power_int_diff [symmetric] algebra_simps)
    ultimately show ?thesis by simp
  qed
  have k: "ilog2 x = (if 2 powi ?k \<le> x then ?k else ?k - 1)"
    by (simp add: ilog2_def pq)
  show "2 powi ilog2 x \<le> x" using lo by (simp add: k)
  show "x < 2 powi (ilog2 x + 1)" using up by (simp add: k)
qed

lemma powi_less_imp: "(2 :: rat) powi a < 2 powi b \<Longrightarrow> a < b"
  by (metis linorder_not_less one_le_numeral power_int_increasing)

lemma ilog2_less: "0 < x \<Longrightarrow> x < 2 powi n \<Longrightarrow> ilog2 x < n"
  using ilog2_bounds(1) [of x] by (intro powi_less_imp) simp

lemma ilog2_mono:
  assumes "0 < x" "x \<le> y"
  shows "ilog2 x \<le> ilog2 y"
  using ilog2_less [of x "ilog2 y + 1"] ilog2_bounds(2) [of y] assms by simp

section \<open>Rounding to binary64\<close>

lemma rnd64_0 [simp]: "rnd64 0 = 0"
  by (simp add: rnd64_def)

lemma expo64_minus [simp]: "expo64 (- x) = expo64 x"
  by (simp add: expo64_def)

lemma rnd64_minus: "rnd64 (- x) = - rnd64 x"
  by (simp add: rnd64_def round_even_minus [of "x / _", simplified])

lemma rnd64_nonneg: "0 \<le> x \<Longrightarrow> 0 \<le> rnd64 x"
  by (simp add: rnd64_def round_even_nonneg)

lemma rnd64_mono_pos:
  assumes "0 < x" "x \<le> y"
  shows "rnd64 x \<le> rnd64 y"
proof -
  from assms have y: "0 < y" by simp
  have le: "expo64 x \<le> expo64 y" using ilog2_mono [OF assms] assms by (simp add: expo64_def)
  show ?thesis
  proof (cases "expo64 x = expo64 y")
    case True
    have "round_even (x / 2 powi expo64 y) \<le> round_even (y / 2 powi expo64 y)"
      using assms by (intro round_even_mono divide_right_mono) auto
    then show ?thesis using True assms y by (simp add: rnd64_def mult_right_mono)
  next
    case False
    with le have lt: "expo64 x < expo64 y" by simp
    let ?i = "ilog2 y"
    have ey: "expo64 y = ?i - 52" and ix: "ilog2 x < ?i"
      using lt assms y by (auto simp: expo64_def max_def split: if_splits)
    have "x < 2 powi (ilog2 x + 1)" by (rule ilog2_bounds(2) [OF assms(1)])
    also have "\<dots> \<le> 2 powi ?i" using ix by (intro power_int_increasing) auto
    finally have x_lt: "x < 2 powi ?i" .
    have e0: "0 \<le> ?i - expo64 x" using lt ey by simp
    define n :: int where "n = 2 ^ nat (?i - expo64 x)"
    have n: "(of_int n :: rat) = 2 powi (?i - expo64 x)"
      using e0 by (simp add: n_def power_int_def)
    have "x / 2 powi expo64 x \<le> of_int n"
      unfolding n using x_lt by (simp add: power_int_diff divide_right_mono)
    then have "round_even (x / 2 powi expo64 x) \<le> n"
      using round_even_mono round_even_of_int by metis
    then have "rnd64 x \<le> of_int n * 2 powi expo64 x"
      using assms(1) by (simp add: rnd64_def mult_right_mono)
    also have "\<dots> = 2 powi ?i" by (simp add: n power_int_diff)
    finally have 1: "rnd64 x \<le> 2 powi ?i" .
    have "of_int (2 ^ 52) \<le> y / 2 powi expo64 y"
      using ilog2_bounds(1) [OF y] by (simp add: ey power_int_diff field_simps)
    then have "2 ^ 52 \<le> round_even (y / 2 powi expo64 y)"
      using round_even_mono round_even_of_int by metis
    then have "of_int (2 ^ 52) * 2 powi expo64 y \<le> rnd64 y"
      using y by (simp only: rnd64_def) (simp add: mult_right_mono del: of_int_power)
    moreover have "of_int (2 ^ 52) * 2 powi expo64 y = (2 powi ?i :: rat)"
      by (simp add: ey power_int_diff)
    ultimately show ?thesis using 1 by simp
  qed
qed

theorem rnd64_mono: "x \<le> y \<Longrightarrow> rnd64 x \<le> rnd64 y"
proof (cases "0 < x")
  case True
  then show "x \<le> y \<Longrightarrow> rnd64 x \<le> rnd64 y" by (rule rnd64_mono_pos)
next
  case False
  assume xy: "x \<le> y"
  show "rnd64 x \<le> rnd64 y"
  proof (cases "y < 0")
    case True
    with xy have "rnd64 (- y) \<le> rnd64 (- x)" by (intro rnd64_mono_pos) auto
    then show ?thesis by (simp add: rnd64_minus)
  next
    case nonneg: False
    have "rnd64 x \<le> 0" using False rnd64_nonneg [of "- x"] by (simp add: rnd64_minus)
    also have "0 \<le> rnd64 y" using nonneg by (simp add: rnd64_nonneg)
    finally show ?thesis .
  qed
qed

text \<open>A multiple of a unit in the last place with at most 53 significant bits is representable.\<close>

lemma rnd64_int_multiple:
  assumes e: "- 1074 \<le> e" and m: "\<bar>m\<bar> \<le> 2 ^ 53"
  shows "rnd64 (of_int m * 2 powi e) = of_int m * 2 powi e"
proof (cases "m = 0")
  case False
  let ?r = "of_int m * 2 powi e :: rat"
  have r0: "0 < \<bar>?r\<bar>" using False by simp
  have "\<exists>k. ?r = of_int k * 2 powi expo64 ?r"
  proof (cases "expo64 ?r \<le> e")
    case True
    define d where "d = e - expo64 ?r"
    have "(2 :: rat) powi d = of_int (2 ^ nat d)" using True by (simp add: d_def power_int_def)
    moreover have "(2 :: rat) powi e = 2 powi d * 2 powi expo64 ?r"
      by (simp add: d_def flip: power_int_add)
    ultimately have "?r = of_int (m * 2 ^ nat d) * 2 powi expo64 ?r" by simp
    then show ?thesis by blast
  next
    case gt: False
    have "\<not> \<bar>m\<bar> < 2 ^ 53"
    proof
      assume lt: "\<bar>m\<bar> < 2 ^ 53"
      then have "(of_int \<bar>m\<bar> :: rat) < 2 powi 53" by (metis of_int_less_iff of_int_numeral
            of_int_power power_int_numeral)
      then have "\<bar>?r\<bar> < 2 powi (e + 53)" by (simp add: abs_mult power_int_add)
      then have "ilog2 \<bar>?r\<bar> < e + 53" using r0 by (rule ilog2_less [rotated])
      with gt e show False by (simp add: expo64_def)
    qed
    with m have m_eq: "\<bar>m\<bar> = 2 ^ 53" by simp
    have ex: "expo64 ?r \<le> e + 1"
    proof -
      have "\<bar>?r\<bar> < 2 powi (e + 54)"
        by (simp add: abs_mult power_int_add flip: of_int_abs) (simp add: m_eq)
      then have "ilog2 \<bar>?r\<bar> < e + 54" using r0 by (rule ilog2_less [rotated])
      with e show ?thesis by (simp add: expo64_def)
    qed
    with gt have ex1: "expo64 ?r = e + 1" by simp
    have "even m" using m_eq by (metis dvd_abs_iff even_power even_numeral zero_less_numeral)
    then obtain k where "m = 2 * k" by blast
    then have "?r = of_int k * 2 powi expo64 ?r" unfolding ex1 by (simp add: power_int_add)
    then show ?thesis by blast
  qed
  then obtain k where k: "?r = of_int k * 2 powi expo64 ?r" by blast
  then have "?r / 2 powi expo64 ?r = of_int k" by (metis nonzero_mult_div_cancel_right
        power_int_eq_0_iff zero_neq_numeral)
  then show ?thesis using False k by (simp add: rnd64_def)
qed simp

lemma rnd64_significand: "\<bar>round_even (x / 2 powi expo64 x)\<bar> \<le> 2 ^ 53" if "x \<noteq> 0"
proof -
  have "\<bar>x\<bar> < 2 powi (ilog2 \<bar>x\<bar> + 1)" using ilog2_bounds(2) [of "\<bar>x\<bar>"] that by simp
  also have "\<dots> \<le> 2 powi (expo64 x + 53)" by (intro power_int_increasing) (auto simp: expo64_def)
  finally have lt: "\<bar>x\<bar> / 2 powi expo64 x \<le> of_int (2 ^ 53)"
    by (simp add: power_int_add field_simps)
  have "round_even (\<bar>x\<bar> / 2 powi expo64 x) \<le> 2 ^ 53"
    using round_even_mono [OF lt] round_even_of_int by metis
  moreover have "0 \<le> round_even (\<bar>x\<bar> / 2 powi expo64 x)" by (intro round_even_nonneg) simp
  moreover have "\<bar>round_even (x / 2 powi expo64 x)\<bar> = \<bar>round_even (\<bar>x\<bar> / 2 powi expo64 x)\<bar>"
    using round_even_minus [of "x / 2 powi expo64 x"] by (cases "0 \<le> x") auto
  ultimately show ?thesis by simp
qed

theorem rnd64_idem [simp]: "rnd64 (rnd64 x) = rnd64 x"
proof (cases "x = 0")
  case False
  then have "rnd64 x = of_int (round_even (x / 2 powi expo64 x)) * 2 powi expo64 x"
    by (simp add: rnd64_def)
  moreover have "- 1074 \<le> expo64 x" by (simp add: expo64_def)
  ultimately show ?thesis using rnd64_int_multiple rnd64_significand [OF False] by metis
qed simp

lemma is_float64_ops [simp]:
  "is_float64 (fadd x y)" "is_float64 (fsub x y)" "is_float64 (fmul x y)" "is_float64 (decimal n d)"
  by (simp_all add: is_float64_def fadd_def fsub_def fmul_def decimal_def)

lemma fadd_ge:
  assumes "is_float64 x" and "0 \<le> y"
  shows "x \<le> fadd x y"
  using rnd64_mono [of x "x + y"] assms by (simp add: fadd_def is_float64_def)

lemma fadd_mono: "x \<le> x' \<Longrightarrow> y \<le> y' \<Longrightarrow> fadd x y \<le> fadd x' y'"
  by (simp add: fadd_def rnd64_mono add_mono)

lemma fsub_mono: "x \<le> x' \<Longrightarrow> y' \<le> y \<Longrightarrow> fsub x y \<le> fsub x' y'"
  by (simp add: fsub_def rnd64_mono diff_mono)

lemma fmul_mono: "0 \<le> k \<Longrightarrow> x \<le> x' \<Longrightarrow> fmul k x \<le> fmul k x'"
  by (simp add: fmul_def rnd64_mono mult_left_mono)

lemma is_float64_more [simp]: "is_float64 (fdiv x y)" "is_float64 (round_places n x)" "is_float64 0" "is_float64 1"
  using rnd64_int_multiple [of 0 1] by (simp_all add: is_float64_def fdiv_def round_places_def)

lemma round_places_mono: "x \<le> y \<Longrightarrow> round_places n x \<le> round_places n y"
  by (simp add: round_places_def rnd64_mono round_even_mono divide_right_mono mult_right_mono)

lemma round_places_0 [simp]: "round_places n 0 = 0"
  by (simp add: round_places_def round_even_def)

lemma round_places_1 [simp]: "round_places n 1 = 1"
  using round_even_of_int [of "10 ^ n"] is_float64_more(4) by (simp add: round_places_def is_float64_def)

lemma round_places_unit: "0 \<le> x \<Longrightarrow> x \<le> 1 \<Longrightarrow> 0 \<le> round_places n x \<and> round_places n x \<le> 1"
  using round_places_mono [of 0 x n] round_places_mono [of x 1 n] by simp

lemma fdiv_unit:
  assumes "0 \<le> x" and "x \<le> y"
  shows "0 \<le> fdiv x y \<and> fdiv x y \<le> 1"
proof -
  have "x / y \<le> 1" using assms by (cases "y = 0") (simp_all add: divide_le_eq)
  then show ?thesis
    using assms rnd64_mono [of "x / y" 1] rnd64_nonneg [of "x / y"] is_float64_more(4)
    by (simp add: fdiv_def is_float64_def)
qed

lemma fmul_nonneg: "0 \<le> x \<Longrightarrow> 0 \<le> y \<Longrightarrow> 0 \<le> fmul x y"
  by (simp add: fmul_def rnd64_nonneg)

lemma fadd_nonneg: "0 \<le> x \<Longrightarrow> 0 \<le> y \<Longrightarrow> 0 \<le> fadd x y"
  by (simp add: fadd_def rnd64_nonneg)

lemma decimal_nonneg: "0 \<le> n \<Longrightarrow> 0 \<le> d \<Longrightarrow> 0 \<le> decimal n d"
  by (simp add: decimal_def rnd64_nonneg)

lemma fmul_le:
  assumes "is_float64 y" and "0 \<le> y" and "x \<le> 1"
  shows "fmul x y \<le> y"
  using rnd64_mono [of "x * y" y] assms mult_right_mono [of x 1 y] by (simp add: fmul_def is_float64_def)

lemma fsub_self [simp]: "fsub x x = 0"
  by (simp add: fsub_def)

lemma fsub_nonneg: "y \<le> x \<Longrightarrow> 0 \<le> fsub x y"
  by (simp add: fsub_def rnd64_nonneg)

end
