(* ===== verification/Planner_Types.thy ===== *)
theory Planner_Types
  imports Binary64
begin

text \<open>
  The planner's vocabulary: the enumerations of \<^verbatim>\<open>elc/planner/types.py\<close>, \<^verbatim>\<open>elc/planner/kernel.py\<close>
  and \<^verbatim>\<open>elc/platform/types.py\<close> as datatypes (constructors carry a prefix where two Python enums
  share a word), and the frozen dataclasses as records (fields carry a short prefix per record).
  A planner id is a \<^typ>\<open>string\<close>; a factor vector is a finite map from factor names to floats.
\<close>

section \<open>Enumerations\<close>

datatype initiative_class = REACTIVE | OPPORTUNISTIC | PROACTIVE

datatype target_mode = RESOURCE_PRACTICE | CAPABILITY_PRACTICE | MODE_PROBE | REVIEW | MODE_TRANSFER

datatype learning_intent = ESTABLISH | DEVELOP | WITHDRAW_SUPPORT | CONSOLIDATE | INTENT_PROBE
  | INTENT_TRANSFER | EXPAND_REPERTOIRE

datatype user_intent_scope = OPEN | LEARNING_REQUEST | TARGETED_LEARNING_REQUEST | JUST_CHAT
  | NON_LEARNING_TASK | ACTIVE_TEACHING_CONTINUATION

datatype evidence_modality = TEXT_PRODUCTION | TEXT_COMPREHENSION

datatype planner_decision_outcome = SELECT | NO_TARGET

datatype execution_status = SUCCEEDED | DEGRADED | FAILED | UNAVAILABLE

datatype runtime_outcome = NORMAL | DEGRADED_NO_AUTOMATIC_TEACHING

datatype review_state = NOT_SCHEDULED | UPCOMING | DUE | OVERDUE

datatype benefit_factor = LEARNING_NEED | UNCERTAINTY_REDUCTION | CURRICULUM_VALUE | GOAL_RELEVANCE
  | SCHEDULE_URGENCY | CONTEXT_FIT | PERSONAL_RELEVANCE | TRANSFER_VALUE | COVERAGE_DEBT
  | OPPORTUNITY_EXPIRY | COMMUNICATIVE_IMPACT

datatype cost_factor = INTERRUPTION_COST | COGNITIVE_LOAD | OVEREXPOSURE | SUPPORT_COST | USER_RESISTANCE

datatype goal_relation = GOAL_NONE | PREPARATORY | DIRECT_TARGET_LEVEL

datatype readiness_level = R0_INDEXED | R1_LEXICALLY_RESOLVED | R2_PLANNER_READY
  | R3_TEACHING_READY | R4_DETECTION_READY

datatype prerequisite_state = READY | READY_WITH_SCAFFOLD | PREREQ_UNKNOWN | BLOCKED

datatype coverage_service_state = COVERAGE_NONE | WATCH | COVERAGE_DUE | CRITICAL

datatype activation_path = AUTOMATIC | USER_INITIATED

datatype exclusion_reason = EXPIRED | DEPRECATED | SUPPRESSED | MODALITY_UNAVAILABLE
  | HARD_PREREQUISITE_BLOCKED | PREREQUISITE_UNKNOWN_UNRESOLVED | EXCLUDED_JUST_CHAT
  | OUTSIDE_TARGETED_SCOPE | NON_LEARNING_TASK_SCOPE | CONTENT_NOT_READY

datatype no_target_reason = NO_ELIGIBLE_CANDIDATE | BELOW_ACTIVATION_THRESHOLD

datatype degraded_reason = FEATURE_ASSEMBLY_INCOMPLETE | SNAPSHOT_INVALID | FACTOR_AUTHORITY_UNKNOWN
  | PLANNING_CONTEXT_UNAVAILABLE

datatype factor_source = AUTHORITY | DECLARED

datatype kernel_step = CANONICALIZE | FEATURE_ASSEMBLY | CONTEXT_VALIDITY | HARD_ELIGIBILITY
  | POLICY_UTILITY | COVERAGE_SAFEGUARD | ACTIVATION | REQUEST_PRIORITY | PARETO_PRUNE | TIE_BREAK
  | DECIDE

definition BENEFIT_FACTORS :: "benefit_factor list" where
  "BENEFIT_FACTORS = [LEARNING_NEED, UNCERTAINTY_REDUCTION, CURRICULUM_VALUE, GOAL_RELEVANCE,
     SCHEDULE_URGENCY, CONTEXT_FIT, PERSONAL_RELEVANCE, TRANSFER_VALUE, COVERAGE_DEBT,
     OPPORTUNITY_EXPIRY, COMMUNICATIVE_IMPACT]"

definition COST_FACTORS :: "cost_factor list" where
  "COST_FACTORS = [INTERRUPTION_COST, COGNITIVE_LOAD, OVEREXPOSURE, SUPPORT_COST, USER_RESISTANCE]"

definition KERNEL_STEP_ORDER :: "kernel_step list" where
  "KERNEL_STEP_ORDER = [CANONICALIZE, FEATURE_ASSEMBLY, CONTEXT_VALIDITY, HARD_ELIGIBILITY,
     POLICY_UTILITY, COVERAGE_SAFEGUARD, ACTIVATION, REQUEST_PRIORITY, PARETO_PRUNE, TIE_BREAK,
     DECIDE]"

lemma set_BENEFIT_FACTORS [simp]: "set BENEFIT_FACTORS = UNIV"
proof -
  have "f \<in> set BENEFIT_FACTORS" for f by (cases f) (simp_all add: BENEFIT_FACTORS_def)
  then show ?thesis by blast
qed

lemma set_COST_FACTORS [simp]: "set COST_FACTORS = UNIV"
proof -
  have "f \<in> set COST_FACTORS" for f by (cases f) (simp_all add: COST_FACTORS_def)
  then show ?thesis by blast
qed

fun target_mode_word :: "target_mode \<Rightarrow> string" where
  "target_mode_word RESOURCE_PRACTICE = ''RESOURCE_PRACTICE''"
| "target_mode_word CAPABILITY_PRACTICE = ''CAPABILITY_PRACTICE''"
| "target_mode_word MODE_PROBE = ''PROBE''"
| "target_mode_word REVIEW = ''REVIEW''"
| "target_mode_word MODE_TRANSFER = ''TRANSFER''"

fun learning_intent_word :: "learning_intent \<Rightarrow> string" where
  "learning_intent_word ESTABLISH = ''ESTABLISH''"
| "learning_intent_word DEVELOP = ''DEVELOP''"
| "learning_intent_word WITHDRAW_SUPPORT = ''WITHDRAW_SUPPORT''"
| "learning_intent_word CONSOLIDATE = ''CONSOLIDATE''"
| "learning_intent_word INTENT_PROBE = ''PROBE''"
| "learning_intent_word INTENT_TRANSFER = ''TRANSFER''"
| "learning_intent_word EXPAND_REPERTOIRE = ''EXPAND_REPERTOIRE''"

section \<open>Authority views\<close>

datatype feature_assembly_status = COMPLETE | INCOMPLETE

datatype snapshot_status = VALID | INVALID

datatype schedule_authority = CURRENT | STALE | MISSING

datatype authority_name = LEARNING_SNAPSHOT | SCHEDULE | TEACHING_POLICY | GOAL_PORTFOLIO
  | GOAL_ASSESSMENT_PACK_MAPPING | CURRICULUM_READINESS | PLANNER_CONSTRAINT

datatype planner_profile = LOUNGE | BALANCED | STUDY_FIRST

record schedule_row =
  review_state :: review_state
  review_urgency :: "float64 option"
  source_learning_watermark :: string

record schedule_view =
  due_items :: "schedule_row list"
  overdue_items :: "schedule_row list"
  upcoming :: "schedule_row list"

text \<open>The \<open>reasons\<close> trace of an assembly: one word per \<^verbatim>\<open>note(...)\<close> site of the source.\<close>

datatype authority_reason = NoLearningSnapshot | WatermarkUnreadable | SnapshotWatermarkStale
  | NoScheduleView | ScheduleWatermarkUnreadable | ScheduleRowStale | NoTeachingPolicy
  | UnmappedTeachingFrequency | NoGoalPortfolio | AssessmentTargetsUnmapped
  | NoCurriculumReadiness | UnknownReadinessLevels nat string | NoConstraintView

record feature_authority =
  fa_status :: feature_assembly_status
  fa_snapshot_status :: snapshot_status
  fa_schedule_authority :: schedule_authority
  fa_missing_authorities :: "authority_name list"
  fa_natural_break_available :: bool
  fa_planner_profile :: "planner_profile option"
  fa_automatic_teaching_enabled :: bool
  fa_policy_mapping_version :: string
  fa_reasons :: "authority_reason list"

section \<open>Candidates\<close>

record candidate_proposal =
  candidate_id :: string
  canonical_key :: string
  focus_target :: string
  target_mode :: target_mode
  learning_intent :: learning_intent
  evidence_modality :: evidence_modality
  opportunity_binding_class :: string
  initiative_class :: initiative_class
  benefit :: "benefit_factor \<Rightarrow> float64 option"
  cost :: "cost_factor \<Rightarrow> float64 option"
  origins :: "string list"
  user_initiated :: bool
  request_aligned :: bool
  request_priority :: int
  content_readiness :: readiness_level
  prerequisite_state :: prerequisite_state
  prerequisite_scaffoldable :: bool
  coverage_service_state :: coverage_service_state
  modality_available :: bool
  expired :: bool
  deprecated :: bool
  suppressed :: bool
  runtime_generated_ready :: bool
  task_aligned :: bool
  critical_repair :: bool
  goal_relation :: goal_relation
  schedule_row :: "schedule_row option"

text \<open>\<open>CanonicalCandidate\<close> has the fields of a proposal and the ids merged into it.\<close>

record canonical_candidate = candidate_proposal +
  candidate_ids :: "string list"

section \<open>Errors\<close>

text \<open>
  Every \<^verbatim>\<open>raise\<close> of the kernel and of the records it builds.  \<open>PlannerInputError\<close> is the input
  contract's exception, with one fault per raise site; \<open>ValueError\<close> stands for the two guards of the
  result records (a frontier whose halves overlap or do not cover, an outcome whose status and
  decision disagree).
\<close>

datatype factor_name = Benefit benefit_factor | Cost cost_factor

datatype identity_field = FOCUS_TARGET | TARGET_MODE | EVIDENCE_MODALITY | LEARNING_INTENT
  | OPPORTUNITY_BINDING_CLASS

datatype input_fault =
    NoCanonicalKey string
  | ConflictingIdentityField string identity_field
  | FactorVectorsDisagree string
  | SharedCandidateId
  | ContradictoryScope string
  | ModeCannotCarryIntent string
  | NegativeRequestPriority string
  | SupportCostBelowFloor string
  | CognitiveLoadBelowFloor string
  | FactorNotDeclared string factor_name
  | FactorOutsideUnitInterval string factor_name
  | ScheduleUrgencyDisagrees string
  | GoalRelevanceDisagrees string
  | AuthorityLegWithoutNumber

datatype value_fault = FrontierOverlap | FrontierStrayExclusion | OutcomeWithoutDecision
  | OutcomeWithForbiddenDecision

datatype planner_error = PlannerInputError input_fault | ValueError value_fault

section \<open>Results\<close>

record factor_reading =
  fr_factor :: factor_name
  fr_value :: float64
  fr_source :: factor_source
  fr_authority :: "authority_name option"

datatype gap_reason = NoPlanningContext | ScheduleAuthorityNotCurrent schedule_authority
  | NoScheduleRow | GoalMappingMissing

record factor_gap =
  fg_factor :: factor_name
  fg_authority :: authority_name
  fg_reason :: gap_reason

record factor_assembly =
  as_candidate_id :: string
  as_benefit :: "factor_reading list"
  as_cost :: "factor_reading list"
  as_gaps :: "factor_gap list"

record policy_profile_parameters =
  pp_profile :: planner_profile
  pp_initiative_multiplier :: "initiative_class \<Rightarrow> float64"
  pp_cost_multiplier :: float64
  pp_automatic_activation_threshold :: float64
  pp_coverage_service_bonus :: float64

record scored =
  sc_benefit :: float64
  sc_cost :: float64
  sc_bonus :: float64
  sc_utility :: float64

record planning_input =
  pi_decision_cycle_id :: string
  pi_planning_context :: "feature_authority option"
  pi_user_intent_scope :: user_intent_scope
  pi_proposals :: "candidate_proposal list"

record verdict =
  vd_status :: execution_status
  vd_error_code :: "degraded_reason option"
  vd_parameters :: "policy_profile_parameters option"

record candidate_trace =
  ct_candidate_id :: string
  ct_canonical_key :: string
  ct_merged_from :: "string list"
  ct_initiative_class :: initiative_class
  ct_request_priority :: int
  ct_coverage_service_state :: coverage_service_state
  ct_benefit :: "factor_reading list"
  ct_cost :: "factor_reading list"
  ct_gaps :: "factor_gap list"
  ct_excluded :: "exclusion_reason option"
  ct_benefit_score :: "float64 option"
  ct_cost_score :: "float64 option"
  ct_coverage_service_bonus :: "float64 option"
  ct_utility :: "float64 option"
  ct_activation_path :: "activation_path option"
  ct_activation_threshold :: "float64 option"
  ct_activated :: "bool option"
  ct_dominated_by :: "string list"
  ct_in_tie_set :: bool
  ct_selected :: bool

record context_trace =
  cx_feature_assembly_status :: "feature_assembly_status option"
  cx_snapshot_status :: "snapshot_status option"
  cx_schedule_authority :: "schedule_authority option"
  cx_missing_authorities :: "authority_name list"
  cx_natural_break_available :: bool
  cx_planner_profile :: "planner_profile option"
  cx_automatic_teaching_enabled :: bool
  cx_policy_mapping_version :: "string option"
  cx_reasons :: "authority_reason list"
  cx_execution_status :: execution_status
  cx_error_code :: "degraded_reason option"

text \<open>
  The reason trace: one constructor per line template of \<^verbatim>\<open>_undecided\<close> and \<^verbatim>\<open>_success_reasons\<close>,
  carrying the values the template formats.
\<close>

datatype reason_line =
    StatusLine execution_status "degraded_reason option"
  | MissingAuthoritiesLine "authority_name list"
  | AuthorityReasonLine nat authority_reason
  | FactorGapLine string factor_gap
  | ScopeLine user_intent_scope nat nat
  | ExcludedLine string "exclusion_reason option"
  | ScoredLine string scored "activation_path option" "float64 option" "bool option"
  | ParetoRemovedLine string "string list"
  | TieSetLine "string list" float64
  | SelectLine string float64 "activation_path option"
  | NoTargetLine no_target_reason

record target_candidate =
  tc_candidate_id :: string
  tc_canonical_key :: string
  tc_target_id :: string
  tc_initiative_class :: initiative_class
  tc_target_mode :: target_mode
  tc_learning_intent :: learning_intent
  tc_request_priority :: int
  tc_goal_relation :: goal_relation

record planner_evaluation =
  pe_planner_evaluation_id :: string
  pe_decision_cycle_id :: string
  pe_planner_version :: string
  pe_policy_version :: string
  pe_ranked_candidates :: "target_candidate list"
  pe_reason_trace :: "reason_line list"
  pe_frontier_candidate_ids :: "string list"

record planner_decision =
  pd_planner_decision_id :: string
  pd_decision_cycle_id :: string
  pd_decision :: planner_decision_outcome
  pd_planner_evaluation_id :: string
  pd_selected_candidate_id :: "string option"
  pd_no_target_reason :: "no_target_reason option"

record execution_status_record =
  es_decision_cycle_id :: string
  es_status :: execution_status
  es_error_code :: "degraded_reason option"

record planning_outcome =
  po_evaluation :: planner_evaluation
  po_execution_status :: execution_status_record
  po_decision :: "planner_decision option"

record planner_trace =
  pt_decision_cycle_id :: string
  pt_planner_version :: string
  pt_policy_version :: string
  pt_steps :: "kernel_step list"
  pt_context :: context_trace
  pt_candidates :: "candidate_trace list"
  pt_decision :: "planner_decision_outcome option"
  pt_selected_candidate_id :: "string option"
  pt_no_target_reason :: "no_target_reason option"
  pt_runtime_outcome :: runtime_outcome

record kernel_result =
  kr_outcome :: planning_outcome
  kr_trace :: planner_trace

text \<open>\<open>PlanningOutcome.__post_init__\<close>: a succeeded run carries a decision, any other status none.\<close>

definition mk_planning_outcome ::
  "planner_evaluation \<Rightarrow> execution_status_record \<Rightarrow> planner_decision option
     \<Rightarrow> planner_error + planning_outcome" where
  "mk_planning_outcome ev st d =
     (if es_status st = SUCCEEDED \<and> d = None then Inl (ValueError OutcomeWithoutDecision)
      else if es_status st \<noteq> SUCCEEDED \<and> d \<noteq> None then Inl (ValueError OutcomeWithForbiddenDecision)
      else Inr \<lparr>po_evaluation = ev, po_execution_status = st, po_decision = d\<rparr>)"

end
