(* ===== verification/Python_Text.thy ===== *)
theory Python_Text
  imports Prelude
begin

text \<open>
  Text and time of the Python standard library, as far as the durable layers use them: \<^verbatim>\<open>str\<close> of an
  integer, the canonical JSON document of a dictionary of strings
  (\<^verbatim>\<open>json.dumps(..., sort_keys=True, separators=(",", ":"), ensure_ascii=False)\<close>, its text read as the
  UTF-8 bytes that are hashed), and \<^verbatim>\<open>datetime\<close> values with their arithmetic.  A \<^verbatim>\<open>datetime\<close> is its local
  time in microseconds since 0001-01-01T00:00 and its UTC offset, absent for a naive value; two aware
  values compare by their instants.  The ISO reader and printer, \<^verbatim>\<open>float\<close> of a text, \<^verbatim>\<open>str\<close> of a float
  and the SHA-256 digest are the fields of \<open>py_env\<close>, an argument of every definition that uses them.
\<close>

section \<open>Decimal text\<close>

definition digit_char :: "nat \<Rightarrow> char" where
  "digit_char n = char_of (48 + n)"

fun nat_text :: "nat \<Rightarrow> string" where
  "nat_text n = (if n < 10 then [digit_char n] else nat_text (n div 10) @ [digit_char (n mod 10)])"

declare nat_text.simps [simp del]

definition int_text :: "int \<Rightarrow> string" where
  "int_text i = (if i < 0 then CHR ''-'' # nat_text (nat (- i)) else nat_text (nat i))"

definition text_nat :: "string \<Rightarrow> nat" where
  "text_nat s = foldl (\<lambda>a c. 10 * a + (of_char c - 48)) 0 s"

fun text_int :: "string \<Rightarrow> int" where
  "text_int [] = 0"
| "text_int (c # s) = (if c = CHR ''-'' then - int (text_nat s) else int (text_nat (c # s)))"

lemma digit_value: "n < 10 \<Longrightarrow> of_char (digit_char n) = 48 + (n :: nat)"
  by (simp add: digit_char_def of_char_of)

lemma text_nat_of: "text_nat (nat_text n) = n"
proof (induction n rule: nat_text.induct)
  case (1 n)
  show ?case
  proof (cases "n < 10")
    case True
    then show ?thesis by (subst nat_text.simps) (simp add: text_nat_def digit_value)
  next
    case False
    then have "foldl (\<lambda>a c. 10 * a + (of_char c - 48)) 0 (nat_text (n div 10)) = n div 10"
      using 1 by (simp add: text_nat_def)
    then show ?thesis
      using False by (subst nat_text.simps) (simp add: text_nat_def digit_value)
  qed
qed

lemma nat_text_digits: "c \<in> set (nat_text n) \<Longrightarrow> \<exists>k < 10. c = digit_char k"
proof (induction n rule: nat_text.induct)
  case (1 n)
  show ?case
  proof (cases "n < 10")
    case True
    then show ?thesis using 1 by (subst (asm) nat_text.simps) auto
  next
    case False
    then have "c \<in> set (nat_text (n div 10)) \<or> c = digit_char (n mod 10)"
      using 1 by (subst (asm) (2) nat_text.simps) auto
    moreover have "n mod 10 < 10" by simp
    ultimately show ?thesis using 1(1) False by blast
  qed
qed

lemma nat_text_no_sign: "CHR ''-'' \<notin> set (nat_text n)"
proof
  assume "CHR ''-'' \<in> set (nat_text n)"
  then obtain k where "k < 10" and "CHR ''-'' = digit_char k" using nat_text_digits by blast
  then have "of_char (CHR ''-'') = 48 + (k :: nat)" by (metis digit_value)
  then show False by simp
qed

lemma nat_text_not_Nil: "nat_text n \<noteq> []"
  by (subst nat_text.simps) simp

lemma text_int_of: "text_int (int_text i) = i"
proof (cases "i < 0")
  case True
  then show ?thesis by (simp add: int_text_def text_nat_of)
next
  case False
  obtain c s where cs: "nat_text (nat i) = c # s"
    using nat_text_not_Nil by (meson neq_Nil_conv)
  then have "c \<noteq> CHR ''-''"
    using nat_text_no_sign [of "nat i"] by auto
  then have "text_int (c # s) = int (text_nat (c # s))" by simp
  then show ?thesis
    using False cs text_nat_of [of "nat i"] by (simp add: int_text_def)
qed

lemma int_text_inject [simp]: "int_text i = int_text j \<longleftrightarrow> i = j"
  by (metis text_int_of)

section \<open>Canonical JSON\<close>

definition hex_digit :: "nat \<Rightarrow> char" where
  "hex_digit n = (if n < 10 then char_of (48 + n) else char_of (87 + n))"

definition json_escape :: "char \<Rightarrow> string" where
  "json_escape c =
    (if c = CHR 0x22 then [CHR 0x5C, CHR 0x22]
     else if c = CHR 0x5C then [CHR 0x5C, CHR 0x5C]
     else if c = CHR 0x0A then [CHR 0x5C, CHR ''n'']
     else if c = CHR 0x0D then [CHR 0x5C, CHR ''r'']
     else if c = CHR 0x09 then [CHR 0x5C, CHR ''t'']
     else if c = CHR 0x0C then [CHR 0x5C, CHR ''f'']
     else if c = CHR 0x08 then [CHR 0x5C, CHR ''b'']
     else if of_char c < (32 :: nat) then
       [CHR 0x5C, CHR ''u'', CHR ''0'', CHR ''0'', hex_digit (of_char c div 16), hex_digit (of_char c mod 16)]
     else [c])"

definition json_string :: "string \<Rightarrow> string" where
  "json_string s = CHR 0x22 # concat (map json_escape s) @ [CHR 0x22]"

fun json_members :: "(string \<times> string) list \<Rightarrow> string" where
  "json_members [] = []"
| "json_members [(k, v)] = json_string k @ '':'' @ json_string v"
| "json_members ((k, v) # kvs) = json_string k @ '':'' @ json_string v @ '','' @ json_members kvs"

definition json_dumps :: "(string \<times> string) list \<Rightarrow> string" where
  "json_dumps kvs = CHR ''{'' # json_members (sort_key fst kvs) @ [CHR ''}'']"

text \<open>The escapes are a prefix code that never starts with the closing quote, so text is read back.\<close>

definition hex_value :: "char \<Rightarrow> nat" where
  "hex_value c = (if of_char c < (58 :: nat) then of_char c - 48 else of_char c - 87)"

fun json_unescape :: "string \<Rightarrow> (char \<times> string) option" where
  "json_unescape [] = None"
| "json_unescape (c # s) =
    (if c \<noteq> CHR 0x5C then Some (c, s)
     else case s of [] \<Rightarrow> None
     | d # r \<Rightarrow>
       if d = CHR ''u'' then (case r of a # b # h # l # t \<Rightarrow> Some (char_of (16 * hex_value h + hex_value l), t) | _ \<Rightarrow> None)
       else Some (if d = CHR ''n'' then CHR 0x0A else if d = CHR ''r'' then CHR 0x0D
         else if d = CHR ''t'' then CHR 0x09 else if d = CHR ''f'' then CHR 0x0C
         else if d = CHR ''b'' then CHR 0x08 else d, r))"

lemma hex_value_digit: "n < 16 \<Longrightarrow> hex_value (hex_digit n) = n"
  by (simp add: hex_value_def hex_digit_def of_char_of)

lemma json_unescape_escape: "json_unescape (json_escape c @ s) = Some (c, s)"
proof (cases "of_char c < (32 :: nat)")
  case True
  then have "hex_value (hex_digit (of_char c div 16)) = of_char c div 16"
    and "hex_value (hex_digit (of_char c mod 16)) = of_char c mod 16"
    by (simp_all add: hex_value_digit)
  then have "16 * hex_value (hex_digit (of_char c div 16)) + hex_value (hex_digit (of_char c mod 16)) = (of_char c :: nat)"
    by simp
  then have "(char_of (16 * hex_value (hex_digit (of_char c div 16)) + hex_value (hex_digit (of_char c mod 16))) :: char) = c"
    by (metis char_of_char)
  then show ?thesis using True by (simp add: json_escape_def)
qed (auto simp: json_escape_def)

lemma json_escape_not_Nil: "json_escape c \<noteq> []"
  by (simp add: json_escape_def)

lemma json_escape_no_quote: "hd (json_escape c) \<noteq> CHR 0x22"
  by (simp add: json_escape_def)

lemma json_text_unique:
  assumes "concat (map json_escape s) @ CHR 0x22 # r = concat (map json_escape s') @ CHR 0x22 # r'"
  shows "s = s' \<and> r = r'"
  using assms
proof (induction s arbitrary: s')
  case Nil
  show ?case
  proof (cases s')
    case (Cons c t)
    then have "hd (json_escape c) = CHR 0x22"
      using Nil json_escape_not_Nil [of c] by (cases "json_escape c") auto
    then show ?thesis using json_escape_no_quote by blast
  qed (use Nil in simp)
next
  case (Cons c t)
  show ?case
  proof (cases s')
    case Nil
    then have "hd (json_escape c) = CHR 0x22"
      using Cons.prems json_escape_not_Nil [of c] by (cases "json_escape c") auto
    then show ?thesis using json_escape_no_quote by blast
  next
    case inner: (Cons c' t')
    have "json_unescape (json_escape c @ concat (map json_escape t) @ CHR 0x22 # r)
        = json_unescape (json_escape c' @ concat (map json_escape t') @ CHR 0x22 # r')"
      using Cons.prems inner by simp
    then have "c = c'" and "concat (map json_escape t) @ CHR 0x22 # r = concat (map json_escape t') @ CHR 0x22 # r'"
      by (simp_all add: json_unescape_escape)
    then show ?thesis using Cons.IH inner by blast
  qed
qed

lemma json_string_unique: "json_string s @ r = json_string s' @ r' \<longleftrightarrow> s = s' \<and> r = r'"
  using json_text_unique [of s r s' r'] by (auto simp: json_string_def)

lemma json_string_inject: "json_string s = json_string s' \<longleftrightarrow> s = s'"
  using json_string_unique [of s "[]" s' "[]"] by simp

lemma json_members_unique:
  assumes "map fst kvs = map fst kvs'" and "json_members kvs = json_members kvs'"
  shows "kvs = kvs'"
  using assms
proof (induction kvs arbitrary: kvs' rule: json_members.induct)
  case (2 k v)
  then obtain v' where single: "kvs' = [(k, v')]" by auto
  then have "json_string v = json_string v'" using 2 by simp
  then show ?case using single by (simp add: json_string_inject)
next
  case (3 k v kv kvs)
  from "3.prems"(1) obtain v' kv' rest where shape: "kvs' = (k, v') # kv' # rest"
    by (auto simp: Cons_eq_map_conv)
  then have "json_string v @ '','' @ json_members (kv # kvs) = json_string v' @ '','' @ json_members (kv' # rest)"
    using "3.prems"(2) by simp
  from iffD1 [OF json_string_unique this]
  have "v = v'" and "json_members (kv # kvs) = json_members (kv' # rest)"
    by simp_all
  then show ?case using "3.IH" [of "kv' # rest"] "3.prems"(1) shape by simp
qed simp

section \<open>Time\<close>

record py_datetime =
  dt_local :: int
  dt_utcoffset :: "int option"

definition DAY_MICROSECONDS :: int where
  "DAY_MICROSECONDS = 86400000000"

text \<open>\<^verbatim>\<open>datetime.max\<close> lies in the last of 3652059 days.\<close>

definition DATETIME_SPAN :: int where
  "DATETIME_SPAN = 3652059 * DAY_MICROSECONDS"

definition datetime_in_range :: "py_datetime \<Rightarrow> bool" where
  "datetime_in_range d \<longleftrightarrow> 0 \<le> dt_local d \<and> dt_local d < DATETIME_SPAN"

definition instant_of :: "py_datetime \<Rightarrow> int" where
  "instant_of d = dt_local d - (case dt_utcoffset d of None \<Rightarrow> 0 | Some off \<Rightarrow> off)"

text \<open>\<^verbatim>\<open>datetime + timedelta\<close>: the local time moves, the offset stays; out of range is \<^verbatim>\<open>OverflowError\<close>.\<close>

definition add_timedelta :: "py_datetime \<Rightarrow> int \<Rightarrow> py_datetime option" where
  "add_timedelta d us =
    (let moved = d\<lparr>dt_local := dt_local d + us\<rparr> in if datetime_in_range moved then Some moved else None)"

lemma add_timedelta_Some:
  "add_timedelta d us = Some d' \<longleftrightarrow> d' = d\<lparr>dt_local := dt_local d + us\<rparr> \<and> datetime_in_range d'"
  by (auto simp: add_timedelta_def Let_def)

lemma instant_of_moved [simp]: "instant_of (d\<lparr>dt_local := dt_local d + us\<rparr>) = instant_of d + us"
  by (simp add: instant_of_def)

record py_env =
  env_fromisoformat :: "string \<Rightarrow> py_datetime option"
  env_isoformat :: "py_datetime \<Rightarrow> string"
  env_sha256_hex :: "string \<Rightarrow> string"
  env_float_of_text :: "string \<Rightarrow> rat option"
  env_float_text :: "rat \<Rightarrow> string"
  env_real_text :: "rat \<Rightarrow> string"

text \<open>What the documentation of \<^verbatim>\<open>datetime\<close> states: a value in range has an ISO text that is read back.\<close>

definition iso_round_trip :: "py_env \<Rightarrow> bool" where
  "iso_round_trip env \<longleftrightarrow> (\<forall>d. datetime_in_range d \<longrightarrow>
    env_isoformat env d \<noteq> [] \<and> env_fromisoformat env (env_isoformat env d) = Some d)"

text \<open>The ruler that \<^verbatim>\<open>scheduler/spacing.py\<close> and \<^verbatim>\<open>teaching/budget.py\<close> declare alike.\<close>

datatype instant_fault = EMPTY_INSTANT | UNPARSEABLE_INSTANT | NAIVE_INSTANT

datatype instant_error = UnusableInstant string instant_fault

definition parse_instant :: "py_env \<Rightarrow> string \<Rightarrow> string \<Rightarrow> instant_error + py_datetime" where
  "parse_instant env text field =
    (if text = [] then Inl (UnusableInstant field EMPTY_INSTANT)
     else case env_fromisoformat env text of
       None \<Rightarrow> Inl (UnusableInstant field UNPARSEABLE_INSTANT)
     | Some d \<Rightarrow> if dt_utcoffset d = None then Inl (UnusableInstant field NAIVE_INSTANT) else Inr d)"

lemma parse_instant_Inr:
  "parse_instant env text field = Inr d \<longleftrightarrow>
    text \<noteq> [] \<and> env_fromisoformat env text = Some d \<and> dt_utcoffset d \<noteq> None"
  by (auto simp: parse_instant_def split: option.splits)

text \<open>An error of a part reported as an error of the whole.\<close>

fun wrapE :: "('e \<Rightarrow> 'f) \<Rightarrow> 'e + 'a \<Rightarrow> 'f + 'a" where
  "wrapE w (Inl e) = Inl (w e)"
| "wrapE w (Inr x) = Inr x"

lemma wrapE_Inr_iff [result_simps]: "wrapE w m = Inr x \<longleftrightarrow> m = Inr x"
  by (cases m) auto

lemma wrapE_Inl_iff [result_simps]: "wrapE w m = Inl f \<longleftrightarrow> (\<exists>e. m = Inl e \<and> f = w e)"
  by (cases m) auto

section \<open>A concrete environment\<close>

text \<open>A reader and a printer that invert each other, for the concrete runs of the development.\<close>

definition demo_isoformat :: "py_datetime \<Rightarrow> string" where
  "demo_isoformat d = (case dt_utcoffset d of None \<Rightarrow> [] | Some off \<Rightarrow> int_text off) @ CHR ''T'' # int_text (dt_local d)"

definition demo_fromisoformat :: "string \<Rightarrow> py_datetime option" where
  "demo_fromisoformat s =
    (let off = takeWhile (\<lambda>c. c \<noteq> CHR ''T'') s; rest = dropWhile (\<lambda>c. c \<noteq> CHR ''T'') s
     in if rest = [] then None
        else Some \<lparr>dt_local = text_int (tl rest), dt_utcoffset = (if off = [] then None else Some (text_int off))\<rparr>)"

definition demo_env :: py_env where
  "demo_env = \<lparr>env_fromisoformat = demo_fromisoformat, env_isoformat = demo_isoformat,
     env_sha256_hex = (\<lambda>s. s), env_float_of_text = (\<lambda>s. None), env_float_text = (\<lambda>x. int_text \<lfloor>100 * x\<rfloor>),
     env_real_text = (\<lambda>x. int_text \<lfloor>x\<rfloor>)\<rparr>"

lemma int_text_no_T: "CHR ''T'' \<notin> set (int_text i)"
proof
  assume "CHR ''T'' \<in> set (int_text i)"
  then obtain n where "CHR ''T'' \<in> set (nat_text n)"
    by (auto simp: int_text_def split: if_splits)
  then obtain k where "k < 10" and "CHR ''T'' = digit_char k" using nat_text_digits by blast
  then have "of_char (CHR ''T'') = 48 + (k :: nat)" by (metis digit_value)
  with \<open>k < 10\<close> show False by simp
qed

lemma int_text_not_Nil: "int_text i \<noteq> []"
  by (simp add: int_text_def nat_text_not_Nil)

lemma demo_round_trip: "demo_fromisoformat (demo_isoformat d) = Some d"
proof -
  have split: "takeWhile (\<lambda>c. c \<noteq> CHR ''T'') (s @ CHR ''T'' # r) = s"
    "dropWhile (\<lambda>c. c \<noteq> CHR ''T'') (s @ CHR ''T'' # r) = CHR ''T'' # r"
    if "CHR ''T'' \<notin> set s" for s r :: string
    using that by (auto simp: takeWhile_append dropWhile_append)
  show ?thesis
  proof (cases "dt_utcoffset d")
    case None
    then show ?thesis by (simp add: demo_isoformat_def demo_fromisoformat_def text_int_of)
  next
    case (Some off)
    then show ?thesis
      using split [OF int_text_no_T, of off "int_text (dt_local d)"]
      by (simp add: demo_isoformat_def demo_fromisoformat_def text_int_of int_text_not_Nil Let_def)
  qed
qed

lemma demo_iso_round_trip: "iso_round_trip demo_env"
  by (simp add: iso_round_trip_def demo_env_def demo_round_trip) (simp add: demo_isoformat_def)

definition demo_time :: "int \<Rightarrow> string" where
  "demo_time h = demo_isoformat \<lparr>dt_local = h, dt_utcoffset = Some 0\<rparr>"

lemma demo_reads: "env_fromisoformat demo_env (demo_time h) = Some \<lparr>dt_local = h, dt_utcoffset = Some 0\<rparr>"
  by (simp add: demo_env_def demo_time_def demo_round_trip)

lemma demo_time_not_Nil [simp]: "demo_time h \<noteq> []"
  by (simp add: demo_time_def demo_isoformat_def)

end
