(* ===== verification/Feature_Assembly.thy ===== *)
theory Feature_Assembly
  imports Planner_Types Python_Text
begin

text \<open>
  \<^verbatim>\<open>elc/planner/feature_assembly.py\<close>: the authority record of one planning context.  Every input is
  what the caller holds (an option where the source takes \<^verbatim>\<open>None\<close>); a gap is reported in
  \<open>fa_missing_authorities\<close> and \<open>fa_reasons\<close>, never filled with a number.
\<close>

section \<open>Profiles and the schedule authority\<close>

definition POLICY_PROFILE_MAPPING_VERSION :: string where
  "POLICY_PROFILE_MAPPING_VERSION = ''tp2bf02-v1''"

definition SCHEDULE_URGENCY_BANDS :: "review_state \<Rightarrow> float64" where
  "SCHEDULE_URGENCY_BANDS s = (case s of NOT_SCHEDULED \<Rightarrow> decimal 0 1 | UPCOMING \<Rightarrow> decimal 1 4
     | DUE \<Rightarrow> decimal 3 4 | OVERDUE \<Rightarrow> decimal 1 1)"

record profile_mapping =
  pm_profile :: planner_profile
  pm_automatic_teaching_enabled :: bool

definition TEACHING_FREQUENCY_TO_PROFILE :: "string \<Rightarrow> profile_mapping option" where
  "TEACHING_FREQUENCY_TO_PROFILE = dict_of [
     (''OFF'', \<lparr>pm_profile = LOUNGE, pm_automatic_teaching_enabled = False\<rparr>),
     (''MINIMAL'', \<lparr>pm_profile = LOUNGE, pm_automatic_teaching_enabled = True\<rparr>),
     (''BALANCED'', \<lparr>pm_profile = BALANCED, pm_automatic_teaching_enabled = True\<rparr>),
     (''EAGER'', \<lparr>pm_profile = STUDY_FIRST, pm_automatic_teaching_enabled = True\<rparr>)]"

record teaching_policy =
  teaching_frequency :: string

definition profile_mapping_of :: "teaching_policy \<Rightarrow> profile_mapping option" where
  "profile_mapping_of policy = TEACHING_FREQUENCY_TO_PROFILE (teaching_frequency policy)"

definition rows_of :: "schedule_view \<Rightarrow> schedule_row list" where
  "rows_of view = due_items view @ overdue_items view @ upcoming view"

definition schedule_authority_of :: "schedule_view option \<Rightarrow> int \<Rightarrow> schedule_authority" where
  "schedule_authority_of view watermark =
     (case view of None \<Rightarrow> MISSING
      | Some v \<Rightarrow> (let expected = int_text watermark in
          if list_ex (\<lambda>row. source_learning_watermark row \<noteq> expected) (rows_of v) then STALE
          else CURRENT))"

definition schedule_urgency_of :: "schedule_row option \<Rightarrow> schedule_authority \<Rightarrow> float64 option" where
  "schedule_urgency_of row authority =
     (if authority \<noteq> CURRENT then None
      else case row of None \<Rightarrow> None
        | Some r \<Rightarrow> (case review_urgency r of Some u \<Rightarrow> Some u
            | None \<Rightarrow> Some (SCHEDULE_URGENCY_BANDS (review_state r))))"

definition goal_relevance_of :: "goal_relation \<Rightarrow> float64 option" where
  "goal_relevance_of relation = None"

definition complete :: "feature_authority \<Rightarrow> bool" where
  "complete a \<longleftrightarrow> fa_status a = COMPLETE \<and> fa_snapshot_status a = VALID"

definition execution_status_of :: "feature_authority \<Rightarrow> execution_status" where
  "execution_status_of a = (if complete a then SUCCEEDED else DEGRADED)"

section \<open>The assembly\<close>

record learning_snapshot =
  evidence_watermark :: int

record goal_portfolio =
  assessment_targets :: "string list"

record assembly_input =
  ai_learning_snapshot :: "learning_snapshot option"
  ai_current_learning_watermark :: "int option"
  ai_schedule_view :: "schedule_view option"
  ai_teaching_policy :: "teaching_policy option"
  ai_goal_portfolio :: "goal_portfolio option"
  ai_curriculum_readiness :: "(string \<times> string option) list option"
  ai_constraint_view_present :: bool
  ai_natural_break_available :: bool

type_synonym gap_note = "authority_name \<times> authority_reason"

definition snapshot_leg :: "learning_snapshot option \<Rightarrow> int option \<Rightarrow> snapshot_status \<times> gap_note list" where
  "snapshot_leg snapshot watermark =
     (case snapshot of
        None \<Rightarrow> (INVALID, [(LEARNING_SNAPSHOT, NoLearningSnapshot)])
      | Some s \<Rightarrow> (case watermark of
            None \<Rightarrow> (INVALID, [(LEARNING_SNAPSHOT, WatermarkUnreadable)])
          | Some w \<Rightarrow> if evidence_watermark s \<noteq> w
              then (INVALID, [(LEARNING_SNAPSHOT, SnapshotWatermarkStale)]) else (VALID, [])))"

definition schedule_leg_of :: "schedule_view option \<Rightarrow> int option \<Rightarrow> schedule_authority \<times> gap_note list" where
  "schedule_leg_of view watermark =
     (case view of
        None \<Rightarrow> (MISSING, [(SCHEDULE, NoScheduleView)])
      | Some v \<Rightarrow> (case watermark of
            None \<Rightarrow> (STALE, [(SCHEDULE, ScheduleWatermarkUnreadable)])
          | Some w \<Rightarrow> (let auth = schedule_authority_of (Some v) w in
              (auth, if auth = STALE then [(SCHEDULE, ScheduleRowStale)] else []))))"

definition policy_leg :: "teaching_policy option \<Rightarrow> profile_mapping option \<times> gap_note list" where
  "policy_leg policy =
     (case policy of
        None \<Rightarrow> (None, [(TEACHING_POLICY, NoTeachingPolicy)])
      | Some p \<Rightarrow> (case profile_mapping_of p of
            None \<Rightarrow> (None, [(TEACHING_POLICY, UnmappedTeachingFrequency)])
          | Some m \<Rightarrow> (Some m, [])))"

definition goal_portfolio_leg :: "goal_portfolio option \<Rightarrow> gap_note list" where
  "goal_portfolio_leg portfolio =
     (case portfolio of
        None \<Rightarrow> [(GOAL_PORTFOLIO, NoGoalPortfolio)]
      | Some g \<Rightarrow> if assessment_targets g \<noteq> []
          then [(GOAL_ASSESSMENT_PACK_MAPPING, AssessmentTargetsUnmapped)] else [])"

definition readiness_leg :: "(string \<times> string option) list option \<Rightarrow> gap_note list" where
  "readiness_leg readiness =
     (case readiness of
        None \<Rightarrow> [(CURRICULUM_READINESS, NoCurriculumReadiness)]
      | Some levels \<Rightarrow>
          (case sort (map fst (filter (\<lambda>(target, level). level = None) levels)) of
             [] \<Rightarrow> []
           | t # ts \<Rightarrow> [(CURRICULUM_READINESS, UnknownReadinessLevels (length (t # ts)) t)]))"

definition constraint_leg :: "bool \<Rightarrow> gap_note list" where
  "constraint_leg present = (if present then [] else [(PLANNER_CONSTRAINT, NoConstraintView)])"

definition assemble_feature_authority :: "assembly_input \<Rightarrow> feature_authority" where
  "assemble_feature_authority inp =
     (let (snapshot, n1) = snapshot_leg (ai_learning_snapshot inp) (ai_current_learning_watermark inp);
          (auth, n2) = schedule_leg_of (ai_schedule_view inp) (ai_current_learning_watermark inp);
          (mapping, n3) = policy_leg (ai_teaching_policy inp);
          notes = n1 @ n2 @ n3 @ goal_portfolio_leg (ai_goal_portfolio inp)
            @ readiness_leg (ai_curriculum_readiness inp)
            @ constraint_leg (ai_constraint_view_present inp)
      in \<lparr>fa_status = (if notes = [] then COMPLETE else INCOMPLETE),
          fa_snapshot_status = snapshot,
          fa_schedule_authority = auth,
          fa_missing_authorities = map fst notes,
          fa_natural_break_available = ai_natural_break_available inp,
          fa_planner_profile = map_option pm_profile mapping,
          fa_automatic_teaching_enabled =
            (case mapping of None \<Rightarrow> False | Some m \<Rightarrow> pm_automatic_teaching_enabled m),
          fa_policy_mapping_version = POLICY_PROFILE_MAPPING_VERSION,
          fa_reasons = map snd notes\<rparr>)"

section \<open>Lemmas\<close>

lemmas leg_defs = snapshot_leg_def schedule_leg_of_def policy_leg_def goal_portfolio_leg_def
  readiness_leg_def constraint_leg_def

lemma schedule_authority_of_CURRENT_iff:
  "schedule_authority_of view w = CURRENT \<longleftrightarrow>
     (\<exists>v. view = Some v \<and> (\<forall>row \<in> set (rows_of v). source_learning_watermark row = int_text w))"
  by (auto simp: schedule_authority_of_def list_ex_iff Let_def split: option.splits)

lemma sort_Nil_iff: "sort xs = [] \<longleftrightarrow> xs = []"
  by (metis set_empty set_sort)

lemma snapshot_leg_Nil_iff:
  "snd (snapshot_leg s w) = [] \<longleftrightarrow> (\<exists>s' w'. s = Some s' \<and> w = Some w' \<and> evidence_watermark s' = w')"
  by (auto simp: snapshot_leg_def split: option.splits)

lemma readiness_leg_Nil_iff:
  "readiness_leg r = [] \<longleftrightarrow> (\<exists>levels. r = Some levels \<and> None \<notin> snd ` set levels)"
proof (cases r)
  case (Some levels)
  let ?unknown = "map fst (filter (\<lambda>(t, l). l = None) levels)"
  have "readiness_leg r = [] \<longleftrightarrow> sort ?unknown = []"
    by (simp add: Some readiness_leg_def split: list.split)
  also have "\<dots> \<longleftrightarrow> None \<notin> snd ` set levels"
    by (force simp: sort_Nil_iff filter_empty_conv)
  finally show ?thesis by (simp add: Some)
qed (simp add: readiness_leg_def)

lemma schedule_leg_Nil_iff:
  "snd (schedule_leg_of v w) = [] \<longleftrightarrow>
     (\<exists>v' w'. v = Some v' \<and> w = Some w' \<and> source_learning_watermark ` set (rows_of v') \<subseteq> {int_text w'})"
  by (auto simp: schedule_leg_of_def schedule_authority_of_def Let_def list_ex_iff split: option.splits)

lemma policy_leg_Nil_iff:
  "snd (policy_leg p) = [] \<longleftrightarrow>
     (\<exists>q m. p = Some q \<and> profile_mapping_of q = Some m \<and> fst (policy_leg p) = Some m)"
  by (auto simp: policy_leg_def split: option.splits)

lemma goal_portfolio_leg_Nil_iff:
  "goal_portfolio_leg g = [] \<longleftrightarrow> (\<exists>h. g = Some h \<and> assessment_targets h = [])"
  by (auto simp: goal_portfolio_leg_def split: option.splits if_splits)

lemma constraint_leg_Nil_iff: "constraint_leg b = [] \<longleftrightarrow> b"
  by (simp add: constraint_leg_def)

lemma leg_verdicts:
  "snd (schedule_leg_of v w) = [] \<Longrightarrow> fst (schedule_leg_of v w) = CURRENT"
  "snd (snapshot_leg s w) = [] \<Longrightarrow> fst (snapshot_leg s w) = VALID"
  by (auto simp: schedule_leg_of_def schedule_authority_of_def snapshot_leg_def Let_def
      split: option.splits if_splits)

lemma feature_authority_fields:
  "fa_status (assemble_feature_authority inp) = COMPLETE \<longleftrightarrow>
     snd (snapshot_leg (ai_learning_snapshot inp) (ai_current_learning_watermark inp)) = []
     \<and> snd (schedule_leg_of (ai_schedule_view inp) (ai_current_learning_watermark inp)) = []
     \<and> snd (policy_leg (ai_teaching_policy inp)) = [] \<and> goal_portfolio_leg (ai_goal_portfolio inp) = []
     \<and> readiness_leg (ai_curriculum_readiness inp) = [] \<and> constraint_leg (ai_constraint_view_present inp) = []"
  "fa_snapshot_status (assemble_feature_authority inp)
     = fst (snapshot_leg (ai_learning_snapshot inp) (ai_current_learning_watermark inp))"
  "fa_schedule_authority (assemble_feature_authority inp)
     = fst (schedule_leg_of (ai_schedule_view inp) (ai_current_learning_watermark inp))"
  "fa_missing_authorities (assemble_feature_authority inp) = map fst
     (snd (snapshot_leg (ai_learning_snapshot inp) (ai_current_learning_watermark inp))
      @ snd (schedule_leg_of (ai_schedule_view inp) (ai_current_learning_watermark inp))
      @ snd (policy_leg (ai_teaching_policy inp)) @ goal_portfolio_leg (ai_goal_portfolio inp)
      @ readiness_leg (ai_curriculum_readiness inp) @ constraint_leg (ai_constraint_view_present inp))"
  "fa_planner_profile (assemble_feature_authority inp) = map_option pm_profile (fst (policy_leg (ai_teaching_policy inp)))"
  by (simp_all add: assemble_feature_authority_def Let_def split_beta)

end
