(* ===== verification/Frontier.thy ===== *)
theory Frontier
  imports Planner_Types
begin

text \<open>
  \<^verbatim>\<open>elc/planner/frontier.py\<close>: the active learning frontier of one run, a view of hard eligibility's
  answer.  Members are the candidates step 4 kept, with the union families their origin words name;
  the excluded half records what step 4 removed.  The exclusions dictionary is an association list,
  because the source reads its key set.
\<close>

datatype frontier_member = CURRICULUM_CANDIDATES | SCHEDULED_REVIEW | CONFIRMED_GAPS | UNKNOWN_PROBES
  | TRANSFER_OPPORTUNITIES | PERSONAL_EXPRESSION_NEEDS | CURRENT_CONTEXT_OPPORTUNITIES

definition FRONTIER_MEMBERS :: "frontier_member list" where
  "FRONTIER_MEMBERS = [CURRICULUM_CANDIDATES, SCHEDULED_REVIEW, CONFIRMED_GAPS, UNKNOWN_PROBES,
     TRANSFER_OPPORTUNITIES, PERSONAL_EXPRESSION_NEEDS, CURRENT_CONTEXT_OPPORTUNITIES]"

definition SOURCE_FRONTIER_MEMBERS :: "string \<Rightarrow> frontier_member list option" where
  "SOURCE_FRONTIER_MEMBERS = dict_of [
     (''CURRENT_USER_ERROR'', [PERSONAL_EXPRESSION_NEEDS]),
     (''EXPRESSION_NEED'', [PERSONAL_EXPRESSION_NEEDS]),
     (''NATURAL_USE_EXPANSION'', [PERSONAL_EXPRESSION_NEEDS, CURRENT_CONTEXT_OPPORTUNITIES]),
     (''PRAGMATIC_REGISTER_OPPORTUNITY'', [CURRENT_CONTEXT_OPPORTUNITIES]),
     (''MANUAL_USER_REQUEST'', [PERSONAL_EXPRESSION_NEEDS]),
     (''CURRENT_CONTEXT_TRANSFER_OPPORTUNITY'', [TRANSFER_OPPORTUNITIES, CURRENT_CONTEXT_OPPORTUNITIES]),
     (''CONFIRMED_GAP'', [CONFIRMED_GAPS]),
     (''SCHEDULED_REVIEW'', [SCHEDULED_REVIEW]),
     (''UNKNOWN_PROBE'', [UNKNOWN_PROBES]),
     (''TRANSFER_EXPANSION'', [TRANSFER_OPPORTUNITIES]),
     (''SUPPORT_WITHDRAWAL'', [CURRICULUM_CANDIDATES]),
     (''CORE_COVERAGE'', [CURRICULUM_CANDIDATES]),
     (''GOAL_SPECIFIC_TARGET'', [CURRICULUM_CANDIDATES]),
     (''COVERAGE_DEBT'', [CURRICULUM_CANDIDATES])]"

record frontier_member_entry =
  fe_candidate_id :: string
  fe_focus_target :: string
  fe_origins :: "string list"
  fe_members :: "frontier_member list"
  fe_unmapped_origins :: "string list"

record excluded_candidate =
  xc_candidate_id :: string
  xc_exclusion :: exclusion_reason

record active_learning_frontier =
  alf_members :: "frontier_member_entry list"
  alf_excluded :: "excluded_candidate list"

definition frontier_candidate_ids :: "active_learning_frontier \<Rightarrow> string list" where
  "frontier_candidate_ids f = map fe_candidate_id (alf_members f)"

definition excluded_ids :: "active_learning_frontier \<Rightarrow> string list" where
  "excluded_ids f = map xc_candidate_id (alf_excluded f)"

text \<open>\<open>ActiveLearningFrontier.__post_init__\<close> refuses an id on both sides.\<close>

definition mk_active_learning_frontier ::
  "frontier_member_entry list \<Rightarrow> excluded_candidate list \<Rightarrow> planner_error + active_learning_frontier" where
  "mk_active_learning_frontier ms xs =
     (let overlap = filter (\<lambda>i. i \<in> set (map xc_candidate_id xs)) (map fe_candidate_id ms) in
      if overlap \<noteq> [] then Inl (ValueError FrontierOverlap)
      else Inr \<lparr>alf_members = ms, alf_excluded = xs\<rparr>)"

definition frontier_members_of_origins :: "string list \<Rightarrow> frontier_member list \<times> string list" where
  "frontier_members_of_origins os =
     (let member_set = concat (map (\<lambda>o'. case SOURCE_FRONTIER_MEMBERS o' of None \<Rightarrow> [] | Some ms \<Rightarrow> ms) os);
          unmapped = filter (\<lambda>o'. SOURCE_FRONTIER_MEMBERS o' = None) os
      in (filter (\<lambda>m. m \<in> set member_set) FRONTIER_MEMBERS, sorted_set unmapped))"

definition member_entry :: "('a candidate_proposal_scheme) \<Rightarrow> frontier_member_entry" where
  "member_entry c = (let (ms, unmapped) = frontier_members_of_origins (origins c) in
     \<lparr>fe_candidate_id = candidate_id c, fe_focus_target = focus_target c, fe_origins = origins c,
      fe_members = ms, fe_unmapped_origins = unmapped\<rparr>)"

definition frontier_of ::
  "canonical_candidate list \<Rightarrow> (string \<times> exclusion_reason) list
     \<Rightarrow> planner_error + active_learning_frontier" where
  "frontier_of candidates exclusions =
     (let ids = map candidate_id candidates;
          strays = sorted_set (filter (\<lambda>i. i \<notin> set ids) (map fst exclusions))
      in if strays \<noteq> [] then Inl (ValueError FrontierStrayExclusion)
         else mk_active_learning_frontier
           (map member_entry (filter (\<lambda>c. dict_of exclusions (candidate_id c) = None) candidates))
           (List.map_filter (\<lambda>c. map_option
               (\<lambda>r. \<lparr>xc_candidate_id = candidate_id c, xc_exclusion = r\<rparr>)
               (dict_of exclusions (candidate_id c))) candidates))"

section \<open>Lemmas\<close>

lemma member_entry_id [simp]: "fe_candidate_id (member_entry c) = candidate_id c"
  by (simp add: member_entry_def split: prod.split)

lemma frontier_of_strays:
  "frontier_of cs xs = Inl (ValueError FrontierStrayExclusion)" if "\<not> fst ` set xs \<subseteq> candidate_id ` set cs"
  using that by (auto simp: frontier_of_def Let_def filter_empty_conv)

text \<open>
  Over one candidate set the walk always succeeds on exclusions the set carries: the two halves are
  disjoint because a candidate's id decides its side.
\<close>

lemma frontier_of_Inr:
  assumes "fst ` set xs \<subseteq> candidate_id ` set cs"
  shows "frontier_of cs xs = Inr \<lparr>
     alf_members = map member_entry (filter (\<lambda>c. dict_of xs (candidate_id c) = None) cs),
     alf_excluded = List.map_filter (\<lambda>c. map_option
       (\<lambda>r. \<lparr>xc_candidate_id = candidate_id c, xc_exclusion = r\<rparr>) (dict_of xs (candidate_id c))) cs\<rparr>"
proof -
  have strays: "filter (\<lambda>i. i \<notin> set (map candidate_id cs)) (map fst xs) = []"
    using assms by (auto simp: filter_empty_conv)
  show ?thesis
    unfolding frontier_of_def Let_def strays mk_active_learning_frontier_def
    by (auto simp: filter_empty_conv sorted_set_def List.map_filter_def)
qed

end
