(* ===== verification/Planner_Kernel.thy ===== *)
theory Planner_Kernel
  imports Feature_Assembly Frontier
begin

text \<open>
  \<^verbatim>\<open>elc/planner/kernel.py\<close>: the eleven steps of the planner's decision, in the source's order.  The
  numbers are binary64 floats (\<open>Binary64\<close>); a raise of the source is a left value; a dictionary keyed
  by candidate id is built with \<open>dict_of\<close> (or an association list where its keys are read).  The
  local variables of \<^verbatim>\<open>plan\<close> between steps 4 and 10 are the fields of the record \<open>kernel_run\<close>.
\<close>

section \<open>Reference numbers\<close>

definition PLANNER_KERNEL_MODEL_VERSION :: string where
  "PLANNER_KERNEL_MODEL_VERSION = ''pk1''"

definition PLANNER_PROFILE_VERSION :: string where
  "PLANNER_PROFILE_VERSION = ''planner-v1.1-reference-2026-09-stress-tested''"

fun BENEFIT_WEIGHTS :: "benefit_factor \<Rightarrow> float64" where
  "BENEFIT_WEIGHTS LEARNING_NEED = decimal 17 100"
| "BENEFIT_WEIGHTS UNCERTAINTY_REDUCTION = decimal 10 100"
| "BENEFIT_WEIGHTS CURRICULUM_VALUE = decimal 8 100"
| "BENEFIT_WEIGHTS GOAL_RELEVANCE = decimal 9 100"
| "BENEFIT_WEIGHTS SCHEDULE_URGENCY = decimal 8 100"
| "BENEFIT_WEIGHTS CONTEXT_FIT = decimal 13 100"
| "BENEFIT_WEIGHTS PERSONAL_RELEVANCE = decimal 8 100"
| "BENEFIT_WEIGHTS TRANSFER_VALUE = decimal 5 100"
| "BENEFIT_WEIGHTS COVERAGE_DEBT = decimal 8 100"
| "BENEFIT_WEIGHTS OPPORTUNITY_EXPIRY = decimal 2 100"
| "BENEFIT_WEIGHTS COMMUNICATIVE_IMPACT = decimal 12 100"

fun COST_WEIGHTS :: "cost_factor \<Rightarrow> float64" where
  "COST_WEIGHTS INTERRUPTION_COST = decimal 40 100"
| "COST_WEIGHTS COGNITIVE_LOAD = decimal 20 100"
| "COST_WEIGHTS OVEREXPOSURE = decimal 20 100"
| "COST_WEIGHTS SUPPORT_COST = decimal 10 100"
| "COST_WEIGHTS USER_RESISTANCE = decimal 10 100"

fun POLICY_PROFILES :: "planner_profile \<Rightarrow> policy_profile_parameters" where
  "POLICY_PROFILES LOUNGE = \<lparr>pp_profile = LOUNGE,
     pp_initiative_multiplier = (\<lambda>i. case i of REACTIVE \<Rightarrow> decimal 1 1 | OPPORTUNISTIC \<Rightarrow> decimal 9 10
        | PROACTIVE \<Rightarrow> decimal 55 100),
     pp_cost_multiplier = decimal 1 1, pp_automatic_activation_threshold = decimal 36 100,
     pp_coverage_service_bonus = decimal 0 1\<rparr>"
| "POLICY_PROFILES BALANCED = \<lparr>pp_profile = BALANCED,
     pp_initiative_multiplier = (\<lambda>i. case i of REACTIVE \<Rightarrow> decimal 1 1 | OPPORTUNISTIC \<Rightarrow> decimal 95 100
        | PROACTIVE \<Rightarrow> decimal 8 10),
     pp_cost_multiplier = decimal 8 10, pp_automatic_activation_threshold = decimal 195 1000,
     pp_coverage_service_bonus = decimal 8 100\<rparr>"
| "POLICY_PROFILES STUDY_FIRST = \<lparr>pp_profile = STUDY_FIRST,
     pp_initiative_multiplier = (\<lambda>i. case i of REACTIVE \<Rightarrow> decimal 1 1 | OPPORTUNISTIC \<Rightarrow> decimal 98 100
        | PROACTIVE \<Rightarrow> decimal 95 100),
     pp_cost_multiplier = decimal 55 100, pp_automatic_activation_threshold = decimal 18 100,
     pp_coverage_service_bonus = decimal 10 100\<rparr>"

definition TIE_EPSILON :: float64 where
  "TIE_EPSILON = decimal 15 1000"

definition SCAFFOLD_MIN_SUPPORT_COST :: float64 where
  "SCAFFOLD_MIN_SUPPORT_COST = decimal 25 100"

definition SCAFFOLD_MIN_COGNITIVE_LOAD :: float64 where
  "SCAFFOLD_MIN_COGNITIVE_LOAD = decimal 20 100"

fun INITIATIVE_TIE_RANK :: "initiative_class \<Rightarrow> int" where
  "INITIATIVE_TIE_RANK REACTIVE = 3"
| "INITIATIVE_TIE_RANK OPPORTUNISTIC = 2"
| "INITIATIVE_TIE_RANK PROACTIVE = 1"

fun READINESS_RANK :: "readiness_level \<Rightarrow> int" where
  "READINESS_RANK R0_INDEXED = 0"
| "READINESS_RANK R1_LEXICALLY_RESOLVED = 1"
| "READINESS_RANK R2_PLANNER_READY = 2"
| "READINESS_RANK R3_TEACHING_READY = 3"
| "READINESS_RANK R4_DETECTION_READY = 4"

fun MODE_ALLOWED_INTENTS :: "target_mode \<Rightarrow> learning_intent list" where
  "MODE_ALLOWED_INTENTS RESOURCE_PRACTICE = [ESTABLISH, DEVELOP, WITHDRAW_SUPPORT, EXPAND_REPERTOIRE]"
| "MODE_ALLOWED_INTENTS CAPABILITY_PRACTICE = [ESTABLISH, DEVELOP, WITHDRAW_SUPPORT, EXPAND_REPERTOIRE]"
| "MODE_ALLOWED_INTENTS MODE_PROBE = [INTENT_PROBE]"
| "MODE_ALLOWED_INTENTS REVIEW = [CONSOLIDATE]"
| "MODE_ALLOWED_INTENTS MODE_TRANSFER = [INTENT_TRANSFER]"

section \<open>Step 1: canonicalization\<close>

definition or_zero :: "float64 option \<Rightarrow> float64" where
  "or_zero v = (case v of None \<Rightarrow> 0 | Some x \<Rightarrow> x)"

definition vector_of :: "candidate_proposal \<Rightarrow> float64 list \<times> float64 list" where
  "vector_of p = (map (\<lambda>f. or_zero (benefit p f)) BENEFIT_FACTORS,
                  map (\<lambda>f. or_zero (cost p f)) COST_FACTORS)"

definition identity_conflict :: "candidate_proposal \<Rightarrow> candidate_proposal \<Rightarrow> identity_field option" where
  "identity_conflict a b =
     (if focus_target a \<noteq> focus_target b then Some FOCUS_TARGET
      else if target_mode a \<noteq> target_mode b then Some TARGET_MODE
      else if evidence_modality a \<noteq> evidence_modality b then Some EVIDENCE_MODALITY
      else if learning_intent a \<noteq> learning_intent b then Some LEARNING_INTENT
      else if opportunity_binding_class a \<noteq> opportunity_binding_class b
        then Some OPPORTUNITY_BINDING_CLASS
      else None)"

definition check_mergeable :: "string \<Rightarrow> candidate_proposal \<Rightarrow> candidate_proposal \<Rightarrow> planner_error + unit" where
  "check_mergeable key first other =
     (case identity_conflict first other of
        Some field \<Rightarrow> Inl (PlannerInputError (ConflictingIdentityField key field))
      | None \<Rightarrow> checkE (vector_of other = vector_of first)
                  (PlannerInputError (FactorVectorsDisagree key)))"

definition merge_group :: "string \<Rightarrow> candidate_proposal \<Rightarrow> candidate_proposal list \<Rightarrow> canonical_candidate" where
  "merge_group key first others =
     (let group = first # others in
      \<lparr>candidate_id = Min (set (map candidate_id group)),
       canonical_key = key,
       focus_target = focus_target first,
       target_mode = target_mode first,
       learning_intent = learning_intent first,
       evidence_modality = evidence_modality first,
       opportunity_binding_class = opportunity_binding_class first,
       initiative_class = max_by INITIATIVE_TIE_RANK (initiative_class first) (map initiative_class others),
       benefit = benefit first,
       cost = cost first,
       origins = sorted_set (concat (map origins group)),
       user_initiated = list_ex user_initiated group,
       request_aligned = list_ex request_aligned group,
       request_priority = Min (set (map request_priority group)),
       content_readiness = content_readiness first,
       prerequisite_state = prerequisite_state first,
       prerequisite_scaffoldable = prerequisite_scaffoldable first,
       coverage_service_state = coverage_service_state first,
       modality_available = modality_available first,
       expired = expired first,
       deprecated = deprecated first,
       suppressed = suppressed first,
       runtime_generated_ready = runtime_generated_ready first,
       task_aligned = task_aligned first,
       critical_repair = critical_repair first,
       goal_relation = goal_relation first,
       schedule_row = schedule_row first,
       candidate_ids = sort (map candidate_id group)\<rparr>)"

definition group_of :: "candidate_proposal list \<Rightarrow> string \<Rightarrow> candidate_proposal list" where
  "group_of proposals key = filter (\<lambda>p. canonical_key p = key) proposals"

definition canonicalize_group :: "candidate_proposal list \<Rightarrow> string \<Rightarrow> planner_error + canonical_candidate" where
  "canonicalize_group proposals key =
     (let group = group_of proposals key; first = hd group; others = tl group in
      bindE (traverseE (check_mergeable key first) others) (\<lambda>_. Inr (merge_group key first others)))"

definition canonicalize_proposals :: "candidate_proposal list \<Rightarrow> planner_error + canonical_candidate list" where
  "canonicalize_proposals proposals =
     bindE (traverseE (\<lambda>p. checkE (canonical_key p \<noteq> [])
              (PlannerInputError (NoCanonicalKey (candidate_id p)))) proposals) (\<lambda>_.
     bindE (traverseE (canonicalize_group proposals)
              (sorted_set (map canonical_key proposals))) (\<lambda>canonical.
     bindE (checkE (distinct (map candidate_id canonical)) (PlannerInputError SharedCandidateId)) (\<lambda>_.
     Inr canonical)))"

definition refuse_contradictory_scope ::
  "user_intent_scope \<Rightarrow> canonical_candidate list \<Rightarrow> planner_error + unit" where
  "refuse_contradictory_scope scope candidates =
     (if scope \<noteq> JUST_CHAT then Inr ()
      else bindE (traverseE (\<lambda>c. checkE (\<not> user_initiated c)
             (PlannerInputError (ContradictoryScope (candidate_id c)))) candidates) (\<lambda>_. Inr ()))"

section \<open>Step 2: authoritative feature assembly\<close>

definition validate_identity :: "canonical_candidate \<Rightarrow> planner_error + unit" where
  "validate_identity c =
     bindE (checkE (learning_intent c \<in> set (MODE_ALLOWED_INTENTS (target_mode c)))
        (PlannerInputError (ModeCannotCarryIntent (candidate_id c)))) (\<lambda>_.
     checkE (0 \<le> request_priority c) (PlannerInputError (NegativeRequestPriority (candidate_id c))))"

definition checked_reading ::
  "string \<Rightarrow> factor_name \<Rightarrow> float64 option \<Rightarrow> planner_error + factor_reading" where
  "checked_reading cid factor v =
     (case v of
        None \<Rightarrow> Inl (PlannerInputError (FactorNotDeclared cid factor))
      | Some x \<Rightarrow>
          if \<not> (0 \<le> x \<and> x \<le> 1) then Inl (PlannerInputError (FactorOutsideUnitInterval cid factor))
          else Inr \<lparr>fr_factor = factor, fr_value = x, fr_source = DECLARED, fr_authority = None\<rparr>)"

definition validate_declared_vector ::
  "canonical_candidate \<Rightarrow> planner_error + factor_reading list \<times> factor_reading list" where
  "validate_declared_vector c =
     bindE (traverseE (\<lambda>f. checked_reading (candidate_id c) (Benefit f) (benefit c f)) BENEFIT_FACTORS) (\<lambda>bs.
     bindE (traverseE (\<lambda>f. checked_reading (candidate_id c) (Cost f) (cost c f)) COST_FACTORS) (\<lambda>cs.
     Inr (bs, cs)))"

definition scaffolded :: "canonical_candidate \<Rightarrow> bool" where
  "scaffolded c \<longleftrightarrow> prerequisite_state c = READY_WITH_SCAFFOLD
     \<or> prerequisite_state c = PREREQ_UNKNOWN \<and> prerequisite_scaffoldable c"

definition validate_scaffold_costs :: "canonical_candidate \<Rightarrow> planner_error + unit" where
  "validate_scaffold_costs c =
     (if \<not> scaffolded c then Inr ()
      else if the (cost c SUPPORT_COST) < SCAFFOLD_MIN_SUPPORT_COST
        then Inl (PlannerInputError (SupportCostBelowFloor (candidate_id c)))
      else if the (cost c COGNITIVE_LOAD) < SCAFFOLD_MIN_COGNITIVE_LOAD
        then Inl (PlannerInputError (CognitiveLoadBelowFloor (candidate_id c)))
      else Inr ())"

definition number :: "float64 option \<Rightarrow> planner_error + float64" where
  "number v = (case v of None \<Rightarrow> Inl (PlannerInputError AuthorityLegWithoutNumber) | Some x \<Rightarrow> Inr x)"

definition schedule_gap :: "gap_reason \<Rightarrow> factor_gap" where
  "schedule_gap r = \<lparr>fg_factor = Benefit SCHEDULE_URGENCY, fg_authority = SCHEDULE, fg_reason = r\<rparr>"

definition schedule_leg ::
  "canonical_candidate \<Rightarrow> feature_authority option \<Rightarrow> planner_error + float64 option \<times> factor_gap option" where
  "schedule_leg c authority =
     (let declared = the (benefit c SCHEDULE_URGENCY) in
      case authority of
        None \<Rightarrow> Inr (None, Some (schedule_gap NoPlanningContext))
      | Some a \<Rightarrow>
          if fa_schedule_authority a \<noteq> CURRENT
          then Inr (None, Some (schedule_gap (ScheduleAuthorityNotCurrent (fa_schedule_authority a))))
          else (case schedule_urgency_of (schedule_row c) (fa_schedule_authority a) of
              None \<Rightarrow> Inr (None, Some (schedule_gap NoScheduleRow))
            | Some v \<Rightarrow> if declared \<noteq> v then Inl (PlannerInputError (ScheduleUrgencyDisagrees (candidate_id c)))
                else Inr (Some v, None)))"

definition goal_leg ::
  "canonical_candidate \<Rightarrow> feature_authority option
     \<Rightarrow> planner_error + factor_reading option \<times> factor_gap option" where
  "goal_leg c authority =
     (let declared = the (benefit c GOAL_RELEVANCE) in
      if (case authority of None \<Rightarrow> False
          | Some a \<Rightarrow> GOAL_ASSESSMENT_PACK_MAPPING \<in> set (fa_missing_authorities a))
      then Inr (None, Some \<lparr>fg_factor = Benefit GOAL_RELEVANCE,
             fg_authority = GOAL_ASSESSMENT_PACK_MAPPING, fg_reason = GoalMappingMissing\<rparr>)
      else (case goal_relevance_of (goal_relation c) of
          Some v \<Rightarrow> if v \<noteq> declared then Inl (PlannerInputError (GoalRelevanceDisagrees (candidate_id c)))
            else Inr (Some \<lparr>fr_factor = Benefit GOAL_RELEVANCE, fr_value = v, fr_source = AUTHORITY,
              fr_authority = Some GOAL_ASSESSMENT_PACK_MAPPING\<rparr>, None)
        | None \<Rightarrow> Inr (Some \<lparr>fr_factor = Benefit GOAL_RELEVANCE, fr_value = declared,
              fr_source = DECLARED, fr_authority = None\<rparr>, None)))"

definition owned_schedule :: "float64 option \<Rightarrow> factor_gap option \<Rightarrow> planner_error + (benefit_factor \<times> factor_reading) list" where
  "owned_schedule v gap =
     (case gap of Some _ \<Rightarrow> Inr []
      | None \<Rightarrow> bindE (number v) (\<lambda>x. Inr [(SCHEDULE_URGENCY, \<lparr>fr_factor = Benefit SCHEDULE_URGENCY,
          fr_value = x, fr_source = AUTHORITY, fr_authority = Some SCHEDULE\<rparr>)]))"

definition owned_goal :: "factor_reading option \<Rightarrow> factor_gap option \<Rightarrow> (benefit_factor \<times> factor_reading) list" where
  "owned_goal r gap = (case gap of Some _ \<Rightarrow> []
     | None \<Rightarrow> (case r of None \<Rightarrow> [] | Some x \<Rightarrow> [(GOAL_RELEVANCE, x)]))"

definition assemble_candidate_factors ::
  "canonical_candidate \<Rightarrow> feature_authority option \<Rightarrow> planner_error + factor_assembly" where
  "assemble_candidate_factors c authority =
     bindE (validate_identity c) (\<lambda>_.
     bindE (validate_declared_vector c) (\<lambda>(bs, cs).
     bindE (validate_scaffold_costs c) (\<lambda>_.
     bindE (schedule_leg c authority) (\<lambda>(schedule_value, sgap).
     bindE (owned_schedule schedule_value sgap) (\<lambda>owned1.
     bindE (goal_leg c authority) (\<lambda>(goal_reading, ggap).
     Inr \<lparr>as_candidate_id = candidate_id c,
          as_benefit = map (\<lambda>(f, r). case dict_of (owned1 @ owned_goal goal_reading ggap) f of
                              Some r' \<Rightarrow> r' | None \<Rightarrow> r) (zip BENEFIT_FACTORS bs),
          as_cost = cs,
          as_gaps = (case sgap of None \<Rightarrow> [] | Some g \<Rightarrow> [g])
                  @ (case ggap of None \<Rightarrow> [] | Some g \<Rightarrow> [g])\<rparr>))))))"

text \<open>\<open>FactorAssembly.value_of\<close>: \<open>None\<close> is the source's \<^verbatim>\<open>KeyError\<close>.\<close>

definition value_of :: "factor_assembly \<Rightarrow> factor_name \<Rightarrow> float64 option" where
  "value_of a f = map_option fr_value (find (\<lambda>r. fr_factor r = f) (as_benefit a @ as_cost a))"

section \<open>Step 3: planning-context validity\<close>

definition context_verdict :: "feature_authority option \<Rightarrow> factor_assembly list \<Rightarrow> verdict" where
  "context_verdict authority assemblies =
     (case authority of
        None \<Rightarrow> \<lparr>vd_status = UNAVAILABLE, vd_error_code = Some PLANNING_CONTEXT_UNAVAILABLE, vd_parameters = None\<rparr>
      | Some a \<Rightarrow>
          if fa_status a \<noteq> COMPLETE
          then \<lparr>vd_status = DEGRADED, vd_error_code = Some FEATURE_ASSEMBLY_INCOMPLETE, vd_parameters = None\<rparr>
          else if fa_snapshot_status a \<noteq> VALID
          then \<lparr>vd_status = DEGRADED, vd_error_code = Some SNAPSHOT_INVALID, vd_parameters = None\<rparr>
          else (case fa_planner_profile a of
              None \<Rightarrow> \<lparr>vd_status = DEGRADED, vd_error_code = Some FEATURE_ASSEMBLY_INCOMPLETE, vd_parameters = None\<rparr>
            | Some profile \<Rightarrow>
                if list_ex (\<lambda>s. as_gaps s \<noteq> []) assemblies
                then \<lparr>vd_status = DEGRADED, vd_error_code = Some FACTOR_AUTHORITY_UNKNOWN, vd_parameters = None\<rparr>
                else \<lparr>vd_status = SUCCEEDED, vd_error_code = None,
                      vd_parameters = Some (POLICY_PROFILES profile)\<rparr>))"

definition context_trace_of :: "feature_authority option \<Rightarrow> verdict \<Rightarrow> context_trace" where
  "context_trace_of authority v =
     \<lparr>cx_feature_assembly_status = map_option fa_status authority,
      cx_snapshot_status = map_option fa_snapshot_status authority,
      cx_schedule_authority = map_option fa_schedule_authority authority,
      cx_missing_authorities = (case authority of None \<Rightarrow> [] | Some a \<Rightarrow> fa_missing_authorities a),
      cx_natural_break_available = (case authority of None \<Rightarrow> False | Some a \<Rightarrow> fa_natural_break_available a),
      cx_planner_profile = (case authority of None \<Rightarrow> None | Some a \<Rightarrow> fa_planner_profile a),
      cx_automatic_teaching_enabled =
        (case authority of None \<Rightarrow> False | Some a \<Rightarrow> fa_automatic_teaching_enabled a),
      cx_policy_mapping_version = map_option fa_policy_mapping_version authority,
      cx_reasons = (case authority of None \<Rightarrow> [] | Some a \<Rightarrow> fa_reasons a),
      cx_execution_status = vd_status v,
      cx_error_code = vd_error_code v\<rparr>"

fun runtime_decision_outcome_of :: "execution_status \<Rightarrow> runtime_outcome" where
  "runtime_decision_outcome_of SUCCEEDED = NORMAL"
| "runtime_decision_outcome_of _ = DEGRADED_NO_AUTOMATIC_TEACHING"

section \<open>Step 4: hard eligibility\<close>

definition readiness_floor :: "canonical_candidate \<Rightarrow> readiness_level" where
  "readiness_floor c =
     (if target_mode c = MODE_PROBE then R2_PLANNER_READY
      else if user_initiated c then R3_TEACHING_READY
      else if ''CURRENT_USER_ERROR'' \<in> set (origins c) then R4_DETECTION_READY
      else R3_TEACHING_READY)"

definition exclusion_of :: "canonical_candidate \<Rightarrow> user_intent_scope \<Rightarrow> exclusion_reason option" where
  "exclusion_of c scope =
     (if expired c then Some EXPIRED
      else if deprecated c then Some DEPRECATED
      else if suppressed c then Some SUPPRESSED
      else if \<not> modality_available c then Some MODALITY_UNAVAILABLE
      else if prerequisite_state c = BLOCKED then Some HARD_PREREQUISITE_BLOCKED
      else if prerequisite_state c = PREREQ_UNKNOWN
          \<and> \<not> (target_mode c = MODE_PROBE \<or> prerequisite_scaffoldable c)
        then Some PREREQUISITE_UNKNOWN_UNRESOLVED
      else if scope = JUST_CHAT then Some EXCLUDED_JUST_CHAT
      else if scope = TARGETED_LEARNING_REQUEST \<and> \<not> request_aligned c then Some OUTSIDE_TARGETED_SCOPE
      else if scope = NON_LEARNING_TASK
          \<and> \<not> (user_initiated c \<or> task_aligned c \<or> critical_repair c)
        then Some NON_LEARNING_TASK_SCOPE
      else if READINESS_RANK (content_readiness c) < READINESS_RANK (readiness_floor c)
          \<and> \<not> (runtime_generated_ready c \<and> user_initiated c)
        then Some CONTENT_NOT_READY
      else None)"

section \<open>Steps 5 to 7: utility, coverage safeguard, activation\<close>

definition score ::
  "factor_assembly \<Rightarrow> canonical_candidate \<Rightarrow> policy_profile_parameters \<Rightarrow> bool \<Rightarrow> scored" where
  "score assembly c parameters natural_break =
     (let ben = py_sum (map (\<lambda>f. fmul (BENEFIT_WEIGHTS f) (the (value_of assembly (Benefit f)))) BENEFIT_FACTORS);
          cst = py_sum (map (\<lambda>f. fmul (COST_WEIGHTS f) (the (value_of assembly (Cost f)))) COST_FACTORS);
          utility = fsub (fmul (pp_initiative_multiplier parameters (initiative_class c)) ben)
                         (fmul (pp_cost_multiplier parameters) cst)
      in if coverage_service_state c = CRITICAL \<and> natural_break
            \<and> 0 < pp_coverage_service_bonus parameters
         then \<lparr>sc_benefit = ben, sc_cost = cst, sc_bonus = pp_coverage_service_bonus parameters,
               sc_utility = fadd utility (pp_coverage_service_bonus parameters)\<rparr>
         else \<lparr>sc_benefit = ben, sc_cost = cst, sc_bonus = decimal 0 1, sc_utility = utility\<rparr>)"

definition activation_path_of :: "canonical_candidate \<Rightarrow> user_intent_scope \<Rightarrow> activation_path" where
  "activation_path_of c scope =
     (if user_initiated c \<and> scope \<in> {LEARNING_REQUEST, TARGETED_LEARNING_REQUEST}
      then USER_INITIATED else AUTOMATIC)"

section \<open>Step 9: Pareto dominance\<close>

type_synonym dominance_class = "activation_path \<times> initiative_class \<times> int \<times> coverage_service_state"

definition dominance_class_of :: "canonical_candidate \<Rightarrow> activation_path \<Rightarrow> dominance_class" where
  "dominance_class_of c path =
     (path, initiative_class c, request_priority c, coverage_service_state c)"

abbreviation factor_at :: "('f \<Rightarrow> float64 option) \<Rightarrow> 'f \<Rightarrow> float64" where
  "factor_at vec f \<equiv> the (vec f)"

definition dominates ::
  "(string \<Rightarrow> activation_path option) \<Rightarrow> canonical_candidate \<Rightarrow> canonical_candidate \<Rightarrow> bool" where
  "dominates paths a b \<longleftrightarrow>
     dominance_class_of a (the (paths (candidate_id a))) = dominance_class_of b (the (paths (candidate_id b)))
     \<and> list_all (\<lambda>f. factor_at (benefit b) f \<le> factor_at (benefit a) f) BENEFIT_FACTORS
     \<and> list_all (\<lambda>f. factor_at (cost a) f \<le> factor_at (cost b) f) COST_FACTORS
     \<and> (list_ex (\<lambda>f. factor_at (benefit b) f < factor_at (benefit a) f) BENEFIT_FACTORS
        \<or> list_ex (\<lambda>f. factor_at (cost a) f < factor_at (cost b) f) COST_FACTORS)"

definition dominators ::
  "(string \<Rightarrow> activation_path option) \<Rightarrow> canonical_candidate list \<Rightarrow> nat \<Rightarrow> canonical_candidate \<Rightarrow> string list" where
  "dominators paths active i c =
     map (\<lambda>(j, other). candidate_id other)
       (filter (\<lambda>(j, other). j \<noteq> i \<and> dominates paths other c) (enumerate 0 active))"

definition pareto_prune ::
  "canonical_candidate list \<Rightarrow> (string \<Rightarrow> activation_path option)
     \<Rightarrow> canonical_candidate list \<times> (string \<times> string list) list" where
  "pareto_prune active paths =
     (map snd (filter (\<lambda>(i, c). dominators paths active i c = []) (enumerate 0 active)),
      map (\<lambda>(i, c). (candidate_id c, dominators paths active i c))
        (filter (\<lambda>(i, c). dominators paths active i c \<noteq> []) (enumerate 0 active)))"

section \<open>Step 10: the near-tie tie-break\<close>

definition tie_key :: "canonical_candidate \<Rightarrow> float64 list" where
  "tie_key c =
     [if request_aligned c then 1 else 0,
      if user_initiated c then 1 else 0,
      of_int (INITIATIVE_TIE_RANK (initiative_class c)),
      factor_at (benefit c) OPPORTUNITY_EXPIRY,
      - factor_at (cost c) INTERRUPTION_COST,
      - factor_at (cost c) OVEREXPOSURE,
      - factor_at (cost c) COGNITIVE_LOAD]"

definition tie_break ::
  "canonical_candidate list \<Rightarrow> (string \<Rightarrow> scored option)
     \<Rightarrow> canonical_candidate list \<times> canonical_candidate list" where
  "tie_break active scores =
     (if active = [] then ([], [])
      else let utility = (\<lambda>c. sc_utility (the (scores (candidate_id c))));
               best = Max (set (map utility active));
               tie_set = filter (\<lambda>c. fsub best (utility c) \<le> TIE_EPSILON) active;
               best_key = Max (set (map tie_key tie_set))
           in (tie_set, sort_key candidate_id (filter (\<lambda>c. tie_key c = best_key) tie_set)))"

section \<open>The local state of steps 4 to 10\<close>

record kernel_run =
  kx_scored :: "canonical_candidate list"
  kx_exclusions :: "(string \<times> exclusion_reason) list"
  kx_scores :: "string \<Rightarrow> scored option"
  kx_paths :: "string \<Rightarrow> activation_path option"
  kx_thresholds :: "string \<Rightarrow> float64 option option"
  kx_activated :: "string \<Rightarrow> bool option"
  kx_active :: "canonical_candidate list"
  kx_requested :: "canonical_candidate list"
  kx_kept :: "canonical_candidate list"
  kx_dominated :: "(string \<times> string list) list"
  kx_tie_set :: "canonical_candidate list"
  kx_finalists :: "canonical_candidate list"

definition eligible :: "user_intent_scope \<Rightarrow> canonical_candidate list \<Rightarrow> canonical_candidate list" where
  "eligible scope candidates = filter (\<lambda>c. exclusion_of c scope = None) candidates"

definition exclusions_of ::
  "user_intent_scope \<Rightarrow> canonical_candidate list \<Rightarrow> (string \<times> exclusion_reason) list" where
  "exclusions_of scope candidates =
     List.map_filter (\<lambda>c. map_option (Pair (candidate_id c)) (exclusion_of c scope)) candidates"

definition threshold_of :: "policy_profile_parameters \<Rightarrow> activation_path \<Rightarrow> float64 option" where
  "threshold_of parameters path =
     (if path = USER_INITIATED then None else Some (pp_automatic_activation_threshold parameters))"

definition request_priority_class ::
  "(string \<Rightarrow> activation_path option) \<Rightarrow> canonical_candidate list \<Rightarrow> canonical_candidate list" where
  "request_priority_class paths active =
     (let user_active = filter (\<lambda>c. paths (candidate_id c) = Some USER_INITIATED) active in
      if user_active = [] then active
      else let minimum = Min (set (map request_priority user_active))
           in filter (\<lambda>c. request_priority c = minimum) user_active)"

definition kernel_run_of ::
  "policy_profile_parameters \<Rightarrow> user_intent_scope \<Rightarrow> bool \<Rightarrow> (string \<Rightarrow> factor_assembly option)
     \<Rightarrow> canonical_candidate list \<Rightarrow> kernel_run" where
  "kernel_run_of parameters scope natural_break assemblies candidates =
     (let scored = eligible scope candidates;
          scores = dict_of (map (\<lambda>c. (candidate_id c,
            score (the (assemblies (candidate_id c))) c parameters natural_break)) scored);
          paths = dict_of (map (\<lambda>c. (candidate_id c, activation_path_of c scope)) scored);
          thresholds = dict_of (map (\<lambda>c. (candidate_id c,
            threshold_of parameters (the (paths (candidate_id c))))) scored);
          activated = dict_of (map (\<lambda>c. (candidate_id c,
            case the (thresholds (candidate_id c)) of None \<Rightarrow> True
            | Some t \<Rightarrow> t \<le> sc_utility (the (scores (candidate_id c))))) scored);
          active = filter (\<lambda>c. the (activated (candidate_id c))) scored;
          requested = request_priority_class paths active;
          (kept, dominated) = pareto_prune requested paths;
          (tie_set, finalists) = tie_break kept scores
      in \<lparr>kx_scored = scored, kx_exclusions = exclusions_of scope candidates, kx_scores = scores,
          kx_paths = paths, kx_thresholds = thresholds, kx_activated = activated, kx_active = active,
          kx_requested = requested, kx_kept = kept, kx_dominated = dominated,
          kx_tie_set = tie_set, kx_finalists = finalists\<rparr>)"

text \<open>Step 11.\<close>

definition decide :: "kernel_run \<Rightarrow> canonical_candidate option \<times> no_target_reason option" where
  "decide run =
     (if kx_scored run = [] then (None, Some NO_ELIGIBLE_CANDIDATE)
      else if kx_kept run = [] then (None, Some BELOW_ACTIVATION_THRESHOLD)
      else (Some (hd (kx_finalists run)), None))"

section \<open>The records the kernel mints\<close>

definition candidate_trace_of ::
  "canonical_candidate \<Rightarrow> factor_assembly \<Rightarrow> exclusion_reason option \<Rightarrow> scored option
     \<Rightarrow> activation_path option \<Rightarrow> float64 option \<Rightarrow> bool option \<Rightarrow> string list \<Rightarrow> bool \<Rightarrow> bool
     \<Rightarrow> candidate_trace" where
  "candidate_trace_of c assembly exclusion sc path threshold activated dominated_by in_tie_set selected =
     \<lparr>ct_candidate_id = candidate_id c, ct_canonical_key = canonical_key c,
      ct_merged_from = candidate_ids c, ct_initiative_class = initiative_class c,
      ct_request_priority = request_priority c, ct_coverage_service_state = coverage_service_state c,
      ct_benefit = as_benefit assembly, ct_cost = as_cost assembly, ct_gaps = as_gaps assembly,
      ct_excluded = exclusion, ct_benefit_score = map_option sc_benefit sc,
      ct_cost_score = map_option sc_cost sc, ct_coverage_service_bonus = map_option sc_bonus sc,
      ct_utility = map_option sc_utility sc, ct_activation_path = path,
      ct_activation_threshold = threshold, ct_activated = activated, ct_dominated_by = dominated_by,
      ct_in_tie_set = in_tie_set, ct_selected = selected\<rparr>"

definition EVALUATION_PREFIX :: string where
  "EVALUATION_PREFIX = ''pe-''"

definition DECISION_PREFIX :: string where
  "DECISION_PREFIX = ''pd-''"

definition target_candidate_of :: "canonical_candidate \<Rightarrow> target_candidate" where
  "target_candidate_of c =
     \<lparr>tc_candidate_id = candidate_id c, tc_canonical_key = canonical_key c,
      tc_target_id = focus_target c, tc_initiative_class = initiative_class c,
      tc_target_mode = target_mode c, tc_learning_intent = learning_intent c,
      tc_request_priority = request_priority c, tc_goal_relation = goal_relation c\<rparr>"

definition ranking_key ::
  "(string \<Rightarrow> scored option) \<Rightarrow> canonical_candidate \<Rightarrow> float64 \<times> float64 list \<times> string" where
  "ranking_key scores c =
     (- sc_utility (the (scores (candidate_id c))), map uminus (tie_key c), candidate_id c)"

definition evaluation_of ::
  "string \<Rightarrow> canonical_candidate list \<Rightarrow> (string \<times> exclusion_reason) list \<Rightarrow> (string \<Rightarrow> scored option)
     \<Rightarrow> reason_line list \<Rightarrow> planner_error + planner_evaluation" where
  "evaluation_of cycle candidates exclusions scores reasons =
     bindE (frontier_of candidates exclusions) (\<lambda>frontier.
     let ranked = sort_key (ranking_key scores)
           (filter (\<lambda>c. candidate_id c \<notin> set (map fst exclusions)) candidates)
     in Inr \<lparr>pe_planner_evaluation_id = EVALUATION_PREFIX @ cycle, pe_decision_cycle_id = cycle,
             pe_planner_version = PLANNER_KERNEL_MODEL_VERSION,
             pe_policy_version = PLANNER_PROFILE_VERSION,
             pe_ranked_candidates = map target_candidate_of ranked,
             pe_reason_trace = reasons,
             pe_frontier_candidate_ids = frontier_candidate_ids frontier\<rparr>)"

definition undecided_reasons ::
  "context_trace \<Rightarrow> canonical_candidate list \<Rightarrow> (string \<Rightarrow> factor_assembly option) \<Rightarrow> reason_line list" where
  "undecided_reasons cx candidates assemblies =
     [StatusLine (cx_execution_status cx) (cx_error_code cx),
      MissingAuthoritiesLine (cx_missing_authorities cx)]
     @ map (\<lambda>(i, r). AuthorityReasonLine i r) (enumerate 0 (cx_reasons cx))
     @ concat (map (\<lambda>c. map (FactorGapLine (candidate_id c)) (as_gaps (the (assemblies (candidate_id c)))))
         candidates)"

definition undecided ::
  "planning_input \<Rightarrow> kernel_step list \<Rightarrow> context_trace \<Rightarrow> canonical_candidate list
     \<Rightarrow> (string \<Rightarrow> factor_assembly option) \<Rightarrow> planner_error + kernel_result" where
  "undecided inp steps cx candidates assemblies =
     (let cycle = pi_decision_cycle_id inp;
          evaluation = \<lparr>pe_planner_evaluation_id = EVALUATION_PREFIX @ cycle,
            pe_decision_cycle_id = cycle, pe_planner_version = PLANNER_KERNEL_MODEL_VERSION,
            pe_policy_version = PLANNER_PROFILE_VERSION, pe_ranked_candidates = [],
            pe_reason_trace = undecided_reasons cx candidates assemblies,
            pe_frontier_candidate_ids = []\<rparr>
      in bindE (mk_planning_outcome evaluation
            \<lparr>es_decision_cycle_id = cycle, es_status = cx_execution_status cx,
             es_error_code = cx_error_code cx\<rparr> None) (\<lambda>outcome.
         Inr \<lparr>kr_outcome = outcome,
              kr_trace = \<lparr>pt_decision_cycle_id = cycle,
                pt_planner_version = pe_planner_version evaluation,
                pt_policy_version = pe_policy_version evaluation,
                pt_steps = steps, pt_context = cx,
                pt_candidates = map (\<lambda>c. candidate_trace_of c (the (assemblies (candidate_id c)))
                  None None None None None [] False False) candidates,
                pt_decision = None, pt_selected_candidate_id = None, pt_no_target_reason = None,
                pt_runtime_outcome = runtime_decision_outcome_of (cx_execution_status cx)\<rparr>\<rparr>))"

definition success_reasons ::
  "planning_input \<Rightarrow> canonical_candidate list \<Rightarrow> kernel_run \<Rightarrow> canonical_candidate option
     \<Rightarrow> no_target_reason option \<Rightarrow> reason_line list" where
  "success_reasons inp candidates run selected no_target =
     [ScopeLine (pi_user_intent_scope inp) (length (pi_proposals inp)) (length candidates)]
     @ concat (map (\<lambda>c. case kx_scores run (candidate_id c) of
           None \<Rightarrow> [ExcludedLine (candidate_id c) (dict_of (kx_exclusions run) (candidate_id c))]
         | Some sc \<Rightarrow> ScoredLine (candidate_id c) sc (kx_paths run (candidate_id c))
               (the (kx_thresholds run (candidate_id c))) (kx_activated run (candidate_id c))
             # (case dict_of (kx_dominated run) (candidate_id c) of None \<Rightarrow> []
                | Some ds \<Rightarrow> [ParetoRemovedLine (candidate_id c) ds])) candidates)
     @ [TieSetLine (map candidate_id (kx_tie_set run)) TIE_EPSILON]
     @ (case selected of
          Some c \<Rightarrow> [SelectLine (candidate_id c) (sc_utility (the (kx_scores run (candidate_id c))))
            (kx_paths run (candidate_id c))]
        | None \<Rightarrow> [NoTargetLine (case no_target of Some r \<Rightarrow> r | None \<Rightarrow> NO_ELIGIBLE_CANDIDATE)])"

definition traces_of ::
  "canonical_candidate list \<Rightarrow> (string \<Rightarrow> factor_assembly option) \<Rightarrow> kernel_run \<Rightarrow> string option
     \<Rightarrow> candidate_trace list" where
  "traces_of candidates assemblies run selected_id =
     map (\<lambda>c. let cid = candidate_id c in candidate_trace_of c (the (assemblies cid))
       (dict_of (kx_exclusions run) cid) (kx_scores run cid) (kx_paths run cid)
       (case kx_thresholds run cid of None \<Rightarrow> None | Some t \<Rightarrow> t) (kx_activated run cid)
       (case dict_of (kx_dominated run) cid of None \<Rightarrow> [] | Some ds \<Rightarrow> ds)
       (cid \<in> set (map candidate_id (kx_tie_set run)))
       (Some cid = selected_id)) candidates"

section \<open>The entry point\<close>

definition decided ::
  "planning_input \<Rightarrow> context_trace \<Rightarrow> canonical_candidate list \<Rightarrow> (string \<Rightarrow> factor_assembly option)
     \<Rightarrow> kernel_run \<Rightarrow> planner_error + kernel_result" where
  "decided inp cx candidates assemblies run =
     (let cycle = pi_decision_cycle_id inp;
          (selected, no_target) = decide run;
          selected_id = map_option candidate_id selected;
          reasons = success_reasons inp candidates run selected no_target;
          decision = (if selected \<noteq> None then SELECT else NO_TARGET)
      in bindE (evaluation_of cycle candidates (kx_exclusions run) (kx_scores run) reasons) (\<lambda>evaluation.
         bindE (mk_planning_outcome evaluation
             \<lparr>es_decision_cycle_id = cycle, es_status = SUCCEEDED, es_error_code = None\<rparr>
             (Some \<lparr>pd_planner_decision_id = DECISION_PREFIX @ cycle, pd_decision_cycle_id = cycle,
                pd_decision = decision, pd_planner_evaluation_id = pe_planner_evaluation_id evaluation,
                pd_selected_candidate_id = selected_id, pd_no_target_reason = no_target\<rparr>)) (\<lambda>outcome.
         Inr \<lparr>kr_outcome = outcome,
              kr_trace = \<lparr>pt_decision_cycle_id = cycle,
                pt_planner_version = pe_planner_version evaluation,
                pt_policy_version = pe_policy_version evaluation,
                pt_steps = [CANONICALIZE, FEATURE_ASSEMBLY, CONTEXT_VALIDITY, HARD_ELIGIBILITY,
                  POLICY_UTILITY, COVERAGE_SAFEGUARD, ACTIVATION, REQUEST_PRIORITY, PARETO_PRUNE,
                  TIE_BREAK, DECIDE],
                pt_context = cx,
                pt_candidates = traces_of candidates assemblies run selected_id,
                pt_decision = Some decision, pt_selected_candidate_id = selected_id,
                pt_no_target_reason = no_target,
                pt_runtime_outcome = runtime_decision_outcome_of SUCCEEDED\<rparr>\<rparr>)))"

definition plan :: "planning_input \<Rightarrow> planner_error + kernel_result" where
  "plan inp =
     (let authority = pi_planning_context inp; scope = pi_user_intent_scope inp in
      bindE (canonicalize_proposals (pi_proposals inp)) (\<lambda>candidates.
      bindE (refuse_contradictory_scope scope candidates) (\<lambda>_.
      bindE (traverseE (\<lambda>c. assemble_candidate_factors c authority) candidates) (\<lambda>assembled.
      let assemblies = dict_of (zip (map candidate_id candidates) assembled);
          verdict = context_verdict authority assembled;
          cx = context_trace_of authority verdict
      in case vd_parameters verdict of
           None \<Rightarrow> undecided inp [CANONICALIZE, FEATURE_ASSEMBLY, CONTEXT_VALIDITY] cx candidates assemblies
         | Some parameters \<Rightarrow> decided inp cx candidates assemblies
             (kernel_run_of parameters scope (cx_natural_break_available cx) assemblies candidates)))))"

end
