(* ===== verification/Planner_Lemmas.thy ===== *)
theory Planner_Lemmas
  imports Planner_Kernel
begin

text \<open>
  The lemma library of the planner kernel: what canonicalization returns, what a successful assembly
  guarantees of a candidate's vector, the dictionaries of a run read back as functions of the
  candidate, the Pareto prune as the set of undominated candidates (over the locale
  \<open>strict_dominance\<close>), and the tie-break's choice.
\<close>

named_theorems run_simps \<open>a kernel run's fields as functions of the candidate\<close>

section \<open>Strict dominance\<close>

text \<open>
  The contract the prune relies on: a strict partial order.  On a finite set it leaves an undominated
  element, and every dominated element lies below an undominated one.
\<close>

locale strict_dominance =
  fixes dom :: "'a \<Rightarrow> 'a \<Rightarrow> bool"
  assumes irrefl: "\<not> dom a a"
    and trans: "dom a b \<Longrightarrow> dom b c \<Longrightarrow> dom a c"
begin

definition undominated :: "'a list \<Rightarrow> 'a list" where
  "undominated xs = filter (\<lambda>c. \<not> (\<exists>d \<in> set xs. dom d c)) xs"

lemma dominator_undominated:
  assumes "finite A" and "x \<in> A"
  shows "\<exists>m \<in> A. (m = x \<or> dom m x) \<and> \<not> (\<exists>d \<in> A. dom d m)"
  using assms
proof (induction "card {d \<in> A. dom d x}" arbitrary: x rule: less_induct)
  case less
  show ?case
  proof (cases "\<exists>d \<in> A. dom d x")
    case True
    then obtain d where d: "d \<in> A" "dom d x" by blast
    have "{e \<in> A. dom e d} \<subset> {e \<in> A. dom e x}"
      using d trans irrefl by blast
    then have "card {e \<in> A. dom e d} < card {e \<in> A. dom e x}"
      using less.prems(1) by (intro psubset_card_mono) auto
    from less.hyps [OF this less.prems(1) d(1)] show ?thesis
      using d(2) trans by blast
  next
    case False
    then show ?thesis using less.prems by blast
  qed
qed

lemma undominated_nonempty: "xs \<noteq> [] \<Longrightarrow> undominated xs \<noteq> []"
  using dominator_undominated [of "set xs" "hd xs"]
  by (auto simp: undominated_def filter_empty_conv)

lemma undominated_covers:
  assumes "x \<in> set xs"
  shows "\<exists>m \<in> set (undominated xs). m = x \<or> dom m x"
  using dominator_undominated [of "set xs" x] assms by (auto simp: undominated_def)

end

lemma dominates_trans:
  assumes "dominates paths a b" and "dominates paths b c"
  shows "dominates paths a c"
proof -
  have le: "\<And>f. factor_at (benefit c) f \<le> factor_at (benefit a) f"
    "\<And>f. factor_at (cost a) f \<le> factor_at (cost c) f"
    using assms by (auto simp: dominates_def list_all_iff intro: order_trans)
  have "(\<exists>f. factor_at (benefit c) f < factor_at (benefit a) f)
      \<or> (\<exists>f. factor_at (cost a) f < factor_at (cost c) f)"
    using assms by (simp add: dominates_def list_all_iff list_ex_iff)
      (meson order_le_less_trans order_less_le_trans)
  with le assms show ?thesis by (simp add: dominates_def list_all_iff list_ex_iff)
qed

interpretation pareto: strict_dominance "dominates paths" for paths
proof
  show "\<not> dominates paths a a" for a by (simp add: dominates_def list_ex_iff)
qed (rule dominates_trans)

lemma dominators_Nil_iff:
  assumes "i < length active"
  shows "dominators paths active i (active ! i) = []
     \<longleftrightarrow> \<not> (\<exists>d \<in> set active. dominates paths d (active ! i))"
proof -
  have "dominators paths active i (active ! i) = []
      \<longleftrightarrow> \<not> (\<exists>j < length active. j \<noteq> i \<and> dominates paths (active ! j) (active ! i))"
    by (auto simp: dominators_def filter_empty_conv in_set_enumerate_eq)
  also have "\<dots> \<longleftrightarrow> \<not> (\<exists>d \<in> set active. dominates paths d (active ! i))"
    using pareto.irrefl [of paths "active ! i"] by (metis in_set_conv_nth)
  finally show ?thesis .
qed

lemma map_snd_filter_enumerate:
  "map snd (filter (\<lambda>(i, c). P c) (enumerate n xs)) = filter P xs"
  by (induction xs arbitrary: n) auto

lemma pareto_prune_kept: "fst (pareto_prune active paths) = pareto.undominated paths active"
proof -
  have "filter (\<lambda>(i, c). dominators paths active i c = []) (enumerate 0 active)
      = filter (\<lambda>(i, c). \<not> (\<exists>d \<in> set active. dominates paths d c)) (enumerate 0 active)"
    by (rule filter_cong) (auto simp: in_set_enumerate_eq dominators_Nil_iff)
  then show ?thesis
    by (simp add: pareto_prune_def pareto.undominated_def map_snd_filter_enumerate)
qed

lemma pareto_prune_dominated:
  assumes "(cid, ds) \<in> set (snd (pareto_prune active paths))"
  shows "\<exists>c \<in> set active. candidate_id c = cid \<and> ds \<noteq> []
     \<and> set ds = candidate_id ` {d \<in> set active. dominates paths d c}"
proof -
  from assms obtain i where i: "i < length active" "cid = candidate_id (active ! i)"
    "ds = dominators paths active i (active ! i)" "ds \<noteq> []"
    by (auto simp: pareto_prune_def in_set_enumerate_eq)
  have "{j. j < length active \<and> j \<noteq> i \<and> dominates paths (active ! j) (active ! i)}
      = {j. j < length active \<and> dominates paths (active ! j) (active ! i)}"
    using pareto.irrefl by auto
  then have "set ds = (\<lambda>j. candidate_id (active ! j))
      ` {j. j < length active \<and> dominates paths (active ! j) (active ! i)}"
    by (auto simp: i(3) dominators_def in_set_enumerate_eq image_iff)
  also have "\<dots> = candidate_id ` {d \<in> set active. dominates paths d (active ! i)}"
    by (auto simp: in_set_conv_nth)
  finally show ?thesis using i by (metis nth_mem)
qed

section \<open>Canonicalization\<close>

lemma group_of_nonempty: "key \<in> canonical_key ` set ps \<Longrightarrow> group_of ps key \<noteq> []"
  by (auto simp: group_of_def filter_empty_conv)

lemma merge_group_key [simp]: "canonical_key (merge_group key p ps) = key"
  by (simp add: merge_group_def)

lemma canonicalize_group_Inr:
  "canonicalize_group ps key = Inr c \<Longrightarrow> c = merge_group key (hd (group_of ps key)) (tl (group_of ps key))"
  by (auto simp: canonicalize_group_def Let_def result_simps)

lemma canonicalize_proposals_Inr:
  assumes "canonicalize_proposals ps = Inr cs"
  shows "cs = map (\<lambda>key. merge_group key (hd (group_of ps key)) (tl (group_of ps key)))
      (sorted_set (map canonical_key ps))"
    and "distinct (map candidate_id cs)"
proof -
  from assms have tr: "traverseE (canonicalize_group ps) (sorted_set (map canonical_key ps)) = Inr cs"
    and d: "distinct (map candidate_id cs)"
    by (auto simp: canonicalize_proposals_def result_simps)
  from tr have "list_all2 (\<lambda>key c. c = merge_group key (hd (group_of ps key)) (tl (group_of ps key)))
      (sorted_set (map canonical_key ps)) cs"
    unfolding traverseE_Inr_iff by (rule list_all2_mono) (rule canonicalize_group_Inr)
  then show "cs = map (\<lambda>key. merge_group key (hd (group_of ps key)) (tl (group_of ps key)))
      (sorted_set (map canonical_key ps))"
    by (auto simp: list_all2_conv_all_nth intro!: nth_equalityI)
  show "distinct (map candidate_id cs)" by (rule d)
qed

lemma canonicalize_keys:
  "canonicalize_proposals ps = Inr cs \<Longrightarrow> map canonical_key cs = sorted_set (map canonical_key ps)"
  by (drule canonicalize_proposals_Inr(1)) (simp add: comp_def)

section \<open>Assembled vectors\<close>

definition complete_vector :: "canonical_candidate \<Rightarrow> bool" where
  "complete_vector c \<longleftrightarrow> (\<forall>f. \<exists>x. benefit c f = Some x \<and> 0 \<le> x \<and> x \<le> 1)
     \<and> (\<forall>f. \<exists>x. cost c f = Some x \<and> 0 \<le> x \<and> x \<le> 1)"

lemma checked_reading_Inr:
  "checked_reading cid f v = Inr r \<longleftrightarrow> (\<exists>x. v = Some x \<and> 0 \<le> x \<and> x \<le> 1
     \<and> r = \<lparr>fr_factor = f, fr_value = x, fr_source = DECLARED, fr_authority = None\<rparr>)"
  by (auto simp: checked_reading_def split: option.splits if_splits)

lemma validate_declared_vector_complete:
  assumes "validate_declared_vector c = Inr (bs, cs)"
  shows "complete_vector c"
    and "bs = map (\<lambda>f. \<lparr>fr_factor = Benefit f, fr_value = factor_at (benefit c) f,
           fr_source = DECLARED, fr_authority = None\<rparr>) BENEFIT_FACTORS"
    and "cs = map (\<lambda>f. \<lparr>fr_factor = Cost f, fr_value = factor_at (cost c) f,
           fr_source = DECLARED, fr_authority = None\<rparr>) COST_FACTORS"
proof -
  from assms have b: "traverseE (\<lambda>f. checked_reading (candidate_id c) (Benefit f) (benefit c f))
      BENEFIT_FACTORS = Inr bs"
    and k: "traverseE (\<lambda>f. checked_reading (candidate_id c) (Cost f) (cost c f)) COST_FACTORS = Inr cs"
    by (auto simp: validate_declared_vector_def result_simps)
  have "\<exists>x. benefit c f = Some x \<and> 0 \<le> x \<and> x \<le> 1" for f
    using traverseE_Inr_all [OF b, of f] by (auto simp: checked_reading_Inr)
  moreover have "\<exists>x. cost c f = Some x \<and> 0 \<le> x \<and> x \<le> 1" for f
    using traverseE_Inr_all [OF k, of f] by (auto simp: checked_reading_Inr)
  ultimately show "complete_vector c" by (simp add: complete_vector_def)
  show "bs = map (\<lambda>f. \<lparr>fr_factor = Benefit f, fr_value = factor_at (benefit c) f,
      fr_source = DECLARED, fr_authority = None\<rparr>) BENEFIT_FACTORS"
    using b unfolding traverseE_Inr_iff
    by (auto simp: checked_reading_Inr list_all2_conv_all_nth intro!: nth_equalityI)
  show "cs = map (\<lambda>f. \<lparr>fr_factor = Cost f, fr_value = factor_at (cost c) f,
      fr_source = DECLARED, fr_authority = None\<rparr>) COST_FACTORS"
    using k unfolding traverseE_Inr_iff
    by (auto simp: checked_reading_Inr list_all2_conv_all_nth intro!: nth_equalityI)
qed

lemma assemble_complete:
  "assemble_candidate_factors c authority = Inr a \<Longrightarrow> complete_vector c \<and> as_candidate_id a = candidate_id c"
  by (auto simp: assemble_candidate_factors_def result_simps dest: validate_declared_vector_complete
      split: prod.splits)

lemma find_reading:
  assumes "\<And>x. fr_factor (g x) = tag x" and "inj tag" and "f \<in> set fs"
  shows "find (\<lambda>r. fr_factor r = tag f) (map g fs @ rest) = Some (g f)"
  using assms(3) by (induction fs) (auto simp: assms(1) inj_eq [OF assms(2)])

lemma find_reading_None:
  "(\<And>x. fr_factor (g x) \<noteq> t) \<Longrightarrow> find (\<lambda>r. fr_factor r = t) (map g fs @ rest)
     = find (\<lambda>r. fr_factor r = t) rest"
  by (induction fs) auto

lemma schedule_leg_Inr:
  assumes "schedule_leg c a = Inr (v, g)" and "owned_schedule v g = Inr owned"
  shows "owned = [] \<or> (\<exists>r. owned = [(SCHEDULE_URGENCY, r)] \<and> fr_factor r = Benefit SCHEDULE_URGENCY
    \<and> fr_value r = factor_at (benefit c) SCHEDULE_URGENCY)"
    and "g = None \<longleftrightarrow> (\<exists>x. a = Some x \<and> fa_schedule_authority x = CURRENT \<and> schedule_row c \<noteq> None)"
  using assms by (auto simp: schedule_leg_def owned_schedule_def number_def Let_def schedule_urgency_of_def
      split: option.splits if_splits)

lemma goal_leg_Inr:
  assumes "goal_leg c a = Inr (r, g)"
  shows "owned_goal r g = [] \<or> (\<exists>x. owned_goal r g = [(GOAL_RELEVANCE, x)]
      \<and> fr_factor x = Benefit GOAL_RELEVANCE \<and> fr_value x = factor_at (benefit c) GOAL_RELEVANCE)"
    and "g = None \<longleftrightarrow> \<not> (\<exists>x. a = Some x \<and> GOAL_ASSESSMENT_PACK_MAPPING \<in> set (fa_missing_authorities x))"
  using assms by (auto simp: goal_leg_def owned_goal_def Let_def split: option.splits if_splits)

lemma owned_reading:
  assumes "owned1 = [] \<or> (\<exists>r. owned1 = [(SCHEDULE_URGENCY, r)] \<and> fr_factor r = Benefit SCHEDULE_URGENCY
      \<and> fr_value r = val SCHEDULE_URGENCY)"
    and "owned2 = [] \<or> (\<exists>r. owned2 = [(GOAL_RELEVANCE, r)] \<and> fr_factor r = Benefit GOAL_RELEVANCE
      \<and> fr_value r = val GOAL_RELEVANCE)"
    and "dict_of (owned1 @ owned2) f = Some r"
  shows "fr_factor r = Benefit f \<and> fr_value r = val f"
  using assms by (auto simp: dict_of_def split: if_splits)

text \<open>
  An assembly reads back the declared vector: where an authority owns a factor its number agrees with
  the declaration, since a disagreement is refused.
\<close>

lemma assemble_values:
  assumes "assemble_candidate_factors c a = Inr s"
  shows "value_of s (Benefit f) = benefit c f" and "value_of s (Cost h) = cost c h"
proof -
  from assms obtain bs cs v g owned r g' where
    vec: "validate_declared_vector c = Inr (bs, cs)" and sl: "schedule_leg c a = Inr (v, g)"
    and ow: "owned_schedule v g = Inr owned" and gl: "goal_leg c a = Inr (r, g')"
    and s: "as_benefit s = map (\<lambda>(f, x). case dict_of (owned @ owned_goal r g') f of Some y \<Rightarrow> y | None \<Rightarrow> x)
        (zip BENEFIT_FACTORS bs)" "as_cost s = cs"
    by (auto simp: assemble_candidate_factors_def result_simps split: prod.splits)
  let ?decl = "\<lambda>f. \<lparr>fr_factor = Benefit f, fr_value = factor_at (benefit c) f, fr_source = DECLARED,
      fr_authority = None\<rparr>"
  let ?g = "\<lambda>f. case dict_of (owned @ owned_goal r g') f of Some y \<Rightarrow> y | None \<Rightarrow> ?decl f"
  note v = validate_declared_vector_complete [OF vec]
  have some: "\<exists>x. benefit c f = Some x" "\<exists>x. cost c h = Some x" for f h
    using v(1) by (auto simp: complete_vector_def)
  have b: "as_benefit s = map ?g BENEFIT_FACTORS"
    unfolding s v(2) by (simp add: zip_map2 zip_same_conv_map comp_def)
  have key: "fr_factor (?g f) = Benefit f \<and> fr_value (?g f) = factor_at (benefit c) f" for f
    using owned_reading [OF schedule_leg_Inr(1) [OF sl ow] goal_leg_Inr(1) [OF gl]]
    by (simp split: option.split)
  have "find (\<lambda>x. fr_factor x = Benefit f) (as_benefit s @ as_cost s) = Some (?g f)"
    unfolding b by (rule find_reading) (use key in \<open>auto simp: inj_def\<close>)
  then show "value_of s (Benefit f) = benefit c f"
    using key [of f] some(1) [of f] by (auto simp: value_of_def)
  let ?k = "\<lambda>f. \<lparr>fr_factor = Cost f, fr_value = factor_at (cost c) f, fr_source = DECLARED, fr_authority = None\<rparr>"
  have "find (\<lambda>x. fr_factor x = Cost h) (as_benefit s @ as_cost s)
      = find (\<lambda>x. fr_factor x = Cost h) (map ?k COST_FACTORS @ [])"
    unfolding b s(2) v(3) append_Nil2 by (rule find_reading_None) (use key in auto)
  also have "\<dots> = Some (?k h)" by (rule find_reading) (auto simp: inj_def)
  finally show "value_of s (Cost h) = cost c h"
    using some(2) [of h] by (auto simp: value_of_def)
qed

lemma assemble_gaps:
  assumes "assemble_candidate_factors c a = Inr s"
  shows "as_gaps s = [] \<longleftrightarrow> (\<exists>x. a = Some x \<and> fa_schedule_authority x = CURRENT \<and> schedule_row c \<noteq> None
    \<and> GOAL_ASSESSMENT_PACK_MAPPING \<notin> set (fa_missing_authorities x))"
proof -
  from assms obtain v g owned r g' where sl: "schedule_leg c a = Inr (v, g)"
    and ow: "owned_schedule v g = Inr owned" and gl: "goal_leg c a = Inr (r, g')"
    and s: "as_gaps s = (case g of None \<Rightarrow> [] | Some x \<Rightarrow> [x]) @ (case g' of None \<Rightarrow> [] | Some x \<Rightarrow> [x])"
    by (auto simp: assemble_candidate_factors_def result_simps split: prod.splits)
  have "as_gaps s = [] \<longleftrightarrow> g = None \<and> g' = None" unfolding s by (auto split: option.splits)
  with schedule_leg_Inr(2) [OF sl ow] goal_leg_Inr(2) [OF gl] show ?thesis by auto
qed

section \<open>The run as functions of the candidate\<close>

definition utility_of ::
  "policy_profile_parameters \<Rightarrow> bool \<Rightarrow> (string \<Rightarrow> factor_assembly option) \<Rightarrow> canonical_candidate \<Rightarrow> float64" where
  "utility_of pars nb asm c = sc_utility (score (the (asm (candidate_id c))) c pars nb)"

definition activates ::
  "policy_profile_parameters \<Rightarrow> user_intent_scope \<Rightarrow> bool \<Rightarrow> (string \<Rightarrow> factor_assembly option)
     \<Rightarrow> canonical_candidate \<Rightarrow> bool" where
  "activates pars scope nb asm c \<longleftrightarrow> activation_path_of c scope = USER_INITIATED
     \<or> pp_automatic_activation_threshold pars \<le> utility_of pars nb asm c"

lemma distinct_eligible:
  "distinct (map candidate_id cs) \<Longrightarrow> distinct (map candidate_id (eligible scope cs))"
  unfolding eligible_def by (rule distinct_map_filter)

lemma kernel_run_paths [run_simps]:
  "distinct (map candidate_id cs) \<Longrightarrow> c \<in> set (eligible scope cs) \<Longrightarrow>
   kx_paths (kernel_run_of pars scope nb asm cs) (candidate_id c) = Some (activation_path_of c scope)"
  by (simp add: kernel_run_of_def Let_def split_beta dict_of_keyed [where key = candidate_id] distinct_eligible)

lemma kernel_run_scores [run_simps]:
  "distinct (map candidate_id cs) \<Longrightarrow> c \<in> set (eligible scope cs) \<Longrightarrow>
   kx_scores (kernel_run_of pars scope nb asm cs) (candidate_id c)
     = Some (score (the (asm (candidate_id c))) c pars nb)"
  by (simp add: kernel_run_of_def Let_def split_beta dict_of_keyed [where key = candidate_id] distinct_eligible)

lemma kernel_run_thresholds [run_simps]:
  "distinct (map candidate_id cs) \<Longrightarrow> c \<in> set (eligible scope cs) \<Longrightarrow>
   kx_thresholds (kernel_run_of pars scope nb asm cs) (candidate_id c)
     = Some (threshold_of pars (activation_path_of c scope))"
  by (simp add: kernel_run_of_def Let_def split_beta dict_of_keyed [where key = candidate_id] distinct_eligible)

lemma kernel_run_activated [run_simps]:
  "distinct (map candidate_id cs) \<Longrightarrow> c \<in> set (eligible scope cs) \<Longrightarrow>
   kx_activated (kernel_run_of pars scope nb asm cs) (candidate_id c)
     = Some (activates pars scope nb asm c)"
  by (simp add: kernel_run_of_def Let_def split_beta dict_of_keyed [where key = candidate_id] distinct_eligible threshold_of_def
      activates_def utility_of_def)

lemma kernel_run_scored [run_simps]: "kx_scored (kernel_run_of pars scope nb asm cs) = eligible scope cs"
  by (simp add: kernel_run_of_def Let_def split_beta)

lemma kernel_run_exclusions [run_simps]:
  "kx_exclusions (kernel_run_of pars scope nb asm cs) = exclusions_of scope cs"
  by (simp add: kernel_run_of_def Let_def split_beta)

lemma kernel_run_active [run_simps]:
  assumes "distinct (map candidate_id cs)"
  shows "kx_active (kernel_run_of pars scope nb asm cs)
    = filter (activates pars scope nb asm) (eligible scope cs)"
proof -
  let ?run = "kernel_run_of pars scope nb asm cs"
  have "kx_active ?run = filter (\<lambda>c. the (kx_activated ?run (candidate_id c))) (eligible scope cs)"
    by (simp add: kernel_run_of_def Let_def split_beta)
  also have "\<dots> = filter (activates pars scope nb asm) (eligible scope cs)"
    by (rule filter_cong) (simp_all add: kernel_run_activated assms)
  finally show ?thesis .
qed

lemma kernel_run_requested:
  "kx_requested (kernel_run_of pars scope nb asm cs)
     = request_priority_class (kx_paths (kernel_run_of pars scope nb asm cs))
         (kx_active (kernel_run_of pars scope nb asm cs))"
  by (simp add: kernel_run_of_def Let_def split_beta)

lemma kernel_run_kept:
  "kx_kept (kernel_run_of pars scope nb asm cs)
     = pareto.undominated (kx_paths (kernel_run_of pars scope nb asm cs))
         (kx_requested (kernel_run_of pars scope nb asm cs))"
  by (simp add: kernel_run_of_def Let_def split_beta pareto_prune_kept)

lemma kernel_run_dominated:
  "kx_dominated (kernel_run_of pars scope nb asm cs)
     = snd (pareto_prune (kx_requested (kernel_run_of pars scope nb asm cs))
         (kx_paths (kernel_run_of pars scope nb asm cs)))"
  by (simp add: kernel_run_of_def Let_def split_beta)

lemma kernel_run_ties:
  "(kx_tie_set (kernel_run_of pars scope nb asm cs), kx_finalists (kernel_run_of pars scope nb asm cs))
     = tie_break (kx_kept (kernel_run_of pars scope nb asm cs)) (kx_scores (kernel_run_of pars scope nb asm cs))"
  by (simp add: kernel_run_of_def Let_def split_beta)

lemma request_priority_class_subset: "set (request_priority_class paths active) \<subseteq> set active"
  by (auto simp: request_priority_class_def Let_def split: if_splits)

lemma request_priority_class_nonempty:
  assumes "active \<noteq> []"
  shows "request_priority_class paths active \<noteq> []"
proof (cases "filter (\<lambda>c. paths (candidate_id c) = Some USER_INITIATED) active = []")
  case True
  then show ?thesis using assms by (simp add: request_priority_class_def)
next
  case False
  let ?ua = "filter (\<lambda>c. paths (candidate_id c) = Some USER_INITIATED) active"
  have "Min (set (map request_priority ?ua)) \<in> set (map request_priority ?ua)"
    using False by (intro Min_in) (auto simp: filter_empty_conv)
  then show ?thesis using False
    by (auto simp: request_priority_class_def Let_def filter_empty_conv)
qed

lemma kept_subset:
  "set (kx_kept (kernel_run_of pars scope nb asm cs)) \<subseteq> set (kx_requested (kernel_run_of pars scope nb asm cs))"
  by (auto simp: kernel_run_kept pareto.undominated_def)

lemma requested_subset:
  "set (kx_requested (kernel_run_of pars scope nb asm cs)) \<subseteq> set (kx_active (kernel_run_of pars scope nb asm cs))"
  unfolding kernel_run_requested by (rule request_priority_class_subset)

lemma kept_nonempty_iff:
  "kx_kept (kernel_run_of pars scope nb asm cs) = [] \<longleftrightarrow> kx_active (kernel_run_of pars scope nb asm cs) = []"
proof
  assume "kx_kept (kernel_run_of pars scope nb asm cs) = []"
  then show "kx_active (kernel_run_of pars scope nb asm cs) = []"
    using pareto.undominated_nonempty request_priority_class_nonempty
    by (metis kernel_run_kept kernel_run_requested)
next
  assume "kx_active (kernel_run_of pars scope nb asm cs) = []"
  then show "kx_kept (kernel_run_of pars scope nb asm cs) = []"
    using kept_subset [of pars scope nb asm cs] requested_subset [of pars scope nb asm cs] by simp
qed

section \<open>The tie-break\<close>

lemma tie_break_finalists:
  assumes "active \<noteq> []" and ub: "tie_break active scores = (ties, finals)"
  defines "u \<equiv> \<lambda>c. sc_utility (the (scores (candidate_id c)))"
  shows "ties = filter (\<lambda>c. fsub (Max (u ` set active)) (u c) \<le> TIE_EPSILON) active"
    and "finals = sort_key candidate_id (filter (\<lambda>c. tie_key c = Max (tie_key ` set ties)) ties)"
    and "ties \<noteq> []" and "finals \<noteq> []"
proof -
  show t: "ties = filter (\<lambda>c. fsub (Max (u ` set active)) (u c) \<le> TIE_EPSILON) active"
    using assms by (simp add: tie_break_def Let_def image_image)
  show f: "finals = sort_key candidate_id (filter (\<lambda>c. tie_key c = Max (tie_key ` set ties)) ties)"
    using assms t by (simp add: tie_break_def Let_def)
  have "Max (u ` set active) \<in> u ` set active" using assms(1) by (intro Max_in) auto
  moreover have "0 \<le> TIE_EPSILON" by (simp add: TIE_EPSILON_def decimal_def rnd64_nonneg)
  ultimately show ne: "ties \<noteq> []" unfolding t by (force simp: filter_empty_conv)
  have "Max (tie_key ` set ties) \<in> tie_key ` set ties" using ne by (intro Max_in) auto
  then have "filter (\<lambda>c. tie_key c = Max (tie_key ` set ties)) ties \<noteq> []"
    by (auto simp: filter_empty_conv)
  then show "finals \<noteq> []" unfolding f by (metis set_empty set_sort)
qed


section \<open>Inversion of \<open>plan\<close>\<close>

text \<open>
  \<open>planned inp cs as\<close>: the input passes the refusals of steps 1 and 2, with the canonical candidates
  \<open>cs\<close> and their factor assemblies \<open>as\<close>.
\<close>

definition planned :: "planning_input \<Rightarrow> canonical_candidate list \<Rightarrow> factor_assembly list \<Rightarrow> bool" where
  "planned inp cs assembled \<longleftrightarrow> canonicalize_proposals (pi_proposals inp) = Inr cs
     \<and> refuse_contradictory_scope (pi_user_intent_scope inp) cs = Inr ()
     \<and> traverseE (\<lambda>c. assemble_candidate_factors c (pi_planning_context inp)) cs = Inr assembled"

definition assembly_dict ::
  "canonical_candidate list \<Rightarrow> factor_assembly list \<Rightarrow> string \<Rightarrow> factor_assembly option" where
  "assembly_dict cs assembled = dict_of (zip (map candidate_id cs) assembled)"

definition verdict_of :: "planning_input \<Rightarrow> factor_assembly list \<Rightarrow> verdict" where
  "verdict_of inp assembled = context_verdict (pi_planning_context inp) assembled"

definition context_of :: "planning_input \<Rightarrow> factor_assembly list \<Rightarrow> context_trace" where
  "context_of inp assembled = context_trace_of (pi_planning_context inp) (verdict_of inp assembled)"

definition break_of :: "planning_input \<Rightarrow> bool" where
  "break_of inp = (case pi_planning_context inp of None \<Rightarrow> False | Some a \<Rightarrow> fa_natural_break_available a)"

abbreviation run_of ::
  "planning_input \<Rightarrow> policy_profile_parameters \<Rightarrow> canonical_candidate list \<Rightarrow> factor_assembly list \<Rightarrow> kernel_run" where
  "run_of inp pars cs assembled \<equiv>
     kernel_run_of pars (pi_user_intent_scope inp) (break_of inp) (assembly_dict cs assembled) cs"

lemma plan_planned:
  assumes "planned inp cs assembled"
  shows "plan inp = (case vd_parameters (verdict_of inp assembled) of
      None \<Rightarrow> undecided inp [CANONICALIZE, FEATURE_ASSEMBLY, CONTEXT_VALIDITY] (context_of inp assembled) cs
        (assembly_dict cs assembled)
    | Some pars \<Rightarrow> decided inp (context_of inp assembled) cs (assembly_dict cs assembled)
        (run_of inp pars cs assembled))"
  using assms
  by (simp add: plan_def planned_def Let_def verdict_of_def context_of_def assembly_dict_def
      context_trace_of_def break_of_def cong: option.case_cong)

lemma plan_Inr_planned:
  assumes "plan inp = Inr r"
  obtains cs assembled where "planned inp cs assembled"
  using assms by (auto simp: plan_def planned_def Let_def result_simps)

lemma plan_Inl_cases:
  assumes "plan inp = Inl e"
  obtains (canonical) "canonicalize_proposals (pi_proposals inp) = Inl e"
    | (scope) cs where "refuse_contradictory_scope (pi_user_intent_scope inp) cs = Inl e"
    | (assembly) c where "assemble_candidate_factors c (pi_planning_context inp) = Inl e"
    | (late) cs assembled where "planned inp cs assembled"
proof (cases "canonicalize_proposals (pi_proposals inp)")
  case (Inr cs)
  note c = this
  show thesis
  proof (cases "refuse_contradictory_scope (pi_user_intent_scope inp) cs")
    case (Inr u)
    note s = this
    show thesis
    proof (cases "traverseE (\<lambda>c. assemble_candidate_factors c (pi_planning_context inp)) cs")
      case (Inl e')
      with c s assms have "e' = e" by (simp add: plan_def Let_def)
      with Inl assembly show thesis by (blast dest: traverseE_Inl_ex)
    next
      case (Inr assembled)
      with c s late show thesis by (simp add: planned_def)
    qed
  qed (use c assms scope in \<open>auto simp: plan_def Let_def\<close>)
qed (use assms canonical in \<open>auto simp: plan_def Let_def\<close>)

lemma planned_distinct: "planned inp cs assembled \<Longrightarrow> distinct (map candidate_id cs)"
  by (auto simp: planned_def dest: canonicalize_proposals_Inr)

lemma planned_assembly:
  assumes "planned inp cs assembled" and "c \<in> set cs"
  obtains a where "assembly_dict cs assembled (candidate_id c) = Some a"
    and "assemble_candidate_factors c (pi_planning_context inp) = Inr a" and "a \<in> set assembled"
proof -
  have l: "list_all2 (\<lambda>c a. assemble_candidate_factors c (pi_planning_context inp) = Inr a) cs assembled"
    using assms by (simp add: planned_def traverseE_Inr_iff)
  from assms(2) obtain i where i: "i < length cs" "cs ! i = c" by (metis in_set_conv_nth)
  have len: "length assembled = length cs" using l by (simp add: list_all2_lengthD)
  have "assembly_dict cs assembled (candidate_id c) = Some (assembled ! i)"
    unfolding assembly_dict_def
  proof (rule dict_of_distinct)
    show "distinct (map fst (zip (map candidate_id cs) assembled))"
      using planned_distinct [OF assms(1)] len by simp
    show "(candidate_id c, assembled ! i) \<in> set (zip (map candidate_id cs) assembled)"
      using i len by (auto simp: set_zip intro!: exI [of _ i])
  qed
  moreover have "assemble_candidate_factors c (pi_planning_context inp) = Inr (assembled ! i)"
    using list_all2_nthD [OF l i(1)] i(2) by simp
  ultimately show thesis using that i len by simp
qed

lemma planned_complete: "planned inp cs assembled \<Longrightarrow> c \<in> set cs \<Longrightarrow> complete_vector c"
  by (elim planned_assembly) (auto dest: assemble_complete)

section \<open>Exclusions and the frontier\<close>

lemma set_exclusions_of:
  "set (exclusions_of scope cs) = {(candidate_id c, r) | c r. c \<in> set cs \<and> exclusion_of c scope = Some r}"
  by (force simp: exclusions_of_def List.map_filter_def)

lemma dict_exclusions [run_simps]:
  assumes "distinct (map candidate_id cs)" and "c \<in> set cs"
  shows "dict_of (exclusions_of scope cs) (candidate_id c) = exclusion_of c scope"
proof (cases "exclusion_of c scope")
  case None
  have "candidate_id c \<notin> fst ` set (exclusions_of scope cs)"
    using assms None by (fastforce simp: set_exclusions_of distinct_map dest: inj_onD)
  then show ?thesis using None by (simp add: dict_simps)
next
  case (Some r)
  have "map fst (exclusions_of scope cs) = map candidate_id (filter (\<lambda>c. exclusion_of c scope \<noteq> None) cs)"
    by (auto simp: exclusions_of_def List.map_filter_def comp_def)
  then have "distinct (map fst (exclusions_of scope cs))"
    using assms(1) by (simp add: distinct_map_filter)
  moreover have "(candidate_id c, r) \<in> set (exclusions_of scope cs)"
    using assms(2) Some by (auto simp: set_exclusions_of)
  ultimately show ?thesis using Some by (simp add: dict_of_distinct)
qed

lemma not_excluded_iff:
  assumes "distinct (map candidate_id cs)" and "c \<in> set cs"
  shows "candidate_id c \<notin> set (map fst (exclusions_of scope cs)) \<longleftrightarrow> exclusion_of c scope = None"
  using dict_exclusions [OF assms, of scope] dict_of_None [of "exclusions_of scope cs" "candidate_id c"]
  by auto

definition evaluation_record ::
  "planning_input \<Rightarrow> canonical_candidate list \<Rightarrow> kernel_run \<Rightarrow> reason_line list \<Rightarrow> planner_evaluation" where
  "evaluation_record inp cs run reasons =
     \<lparr>pe_planner_evaluation_id = EVALUATION_PREFIX @ pi_decision_cycle_id inp,
      pe_decision_cycle_id = pi_decision_cycle_id inp,
      pe_planner_version = PLANNER_KERNEL_MODEL_VERSION, pe_policy_version = PLANNER_PROFILE_VERSION,
      pe_ranked_candidates = map target_candidate_of (sort_key (ranking_key (kx_scores run)) (kx_scored run)),
      pe_reason_trace = reasons, pe_frontier_candidate_ids = map candidate_id (kx_scored run)\<rparr>"

lemma evaluation_of_run:
  assumes "distinct (map candidate_id cs)"
  shows "evaluation_of (pi_decision_cycle_id inp) cs (kx_exclusions (kernel_run_of pars scope nb asm cs))
      (kx_scores (kernel_run_of pars scope nb asm cs)) reasons
    = Inr (evaluation_record inp cs (kernel_run_of pars scope nb asm cs) reasons)"
proof -
  have sub: "fst ` set (exclusions_of scope cs) \<subseteq> candidate_id ` set cs"
    by (auto simp: set_exclusions_of)
  have f1: "filter (\<lambda>c. dict_of (exclusions_of scope cs) (candidate_id c) = None) cs = eligible scope cs"
    unfolding eligible_def by (rule filter_cong) (simp_all add: dict_exclusions assms)
  have f2: "filter (\<lambda>c. candidate_id c \<notin> set (map fst (exclusions_of scope cs))) cs = eligible scope cs"
    unfolding eligible_def by (rule filter_cong) (simp_all only: not_excluded_iff assms)
  show ?thesis
    unfolding evaluation_of_def kernel_run_exclusions kernel_run_scored evaluation_record_def
      frontier_of_Inr [OF sub] f2
    by (simp add: f1 frontier_candidate_ids_def comp_def)
qed

end
