(* ===== verification/Planner_Spec.thy ===== *)
theory Planner_Spec
  imports Planner_Lemmas
begin

text \<open>
  The abstract choice the kernel promises, stated on sets of candidates with no dictionaries, lists or
  sorting: the admitted candidates, the strongest request class among them, its Pareto front, the
  near-best of the front and the least of those in the tie order.  The lemmas show that the lists the
  kernel computes have exactly these members; the refinement theorem itself is in
  \<open>Planner_Properties\<close>.
\<close>

section \<open>The specification\<close>

record choice_context =
  cc_scope :: user_intent_scope
  cc_parameters :: policy_profile_parameters
  cc_utility :: "canonical_candidate \<Rightarrow> float64"

definition admitted :: "choice_context \<Rightarrow> canonical_candidate set \<Rightarrow> canonical_candidate set" where
  "admitted k C = {c \<in> C. exclusion_of c (cc_scope k) = None
     \<and> (activation_path_of c (cc_scope k) = USER_INITIATED
        \<or> pp_automatic_activation_threshold (cc_parameters k) \<le> cc_utility k c)}"

definition asked_for :: "choice_context \<Rightarrow> canonical_candidate set \<Rightarrow> canonical_candidate set" where
  "asked_for k A = {c \<in> A. activation_path_of c (cc_scope k) = USER_INITIATED}"

definition strongest_request :: "choice_context \<Rightarrow> canonical_candidate set \<Rightarrow> canonical_candidate set" where
  "strongest_request k A =
     (if asked_for k A = {} then A
      else {c \<in> asked_for k A. \<forall>d \<in> asked_for k A. request_priority c \<le> request_priority d})"

definition outranks :: "choice_context \<Rightarrow> canonical_candidate \<Rightarrow> canonical_candidate \<Rightarrow> bool" where
  "outranks k a b \<longleftrightarrow>
     dominance_class_of a (activation_path_of a (cc_scope k))
       = dominance_class_of b (activation_path_of b (cc_scope k))
     \<and> (\<forall>f. factor_at (benefit b) f \<le> factor_at (benefit a) f)
     \<and> (\<forall>f. factor_at (cost a) f \<le> factor_at (cost b) f)
     \<and> ((\<exists>f. factor_at (benefit b) f < factor_at (benefit a) f)
        \<or> (\<exists>f. factor_at (cost a) f < factor_at (cost b) f))"

definition pareto_front :: "choice_context \<Rightarrow> canonical_candidate set \<Rightarrow> canonical_candidate set" where
  "pareto_front k R = {c \<in> R. \<not> (\<exists>d \<in> R. outranks k d c)}"

definition near_best :: "choice_context \<Rightarrow> canonical_candidate set \<Rightarrow> canonical_candidate set" where
  "near_best k F = {c \<in> F. \<forall>d \<in> F. fsub (cc_utility k d) (cc_utility k c) \<le> TIE_EPSILON}"

definition tie_winners :: "canonical_candidate set \<Rightarrow> canonical_candidate set" where
  "tie_winners T = {c \<in> T. \<forall>d \<in> T. tie_key d < tie_key c
     \<or> tie_key d = tie_key c \<and> candidate_id c \<le> candidate_id d}"

definition contenders :: "choice_context \<Rightarrow> canonical_candidate set \<Rightarrow> canonical_candidate set" where
  "contenders k C = pareto_front k (strongest_request k (admitted k C))"

definition choice :: "choice_context \<Rightarrow> canonical_candidate set \<Rightarrow> canonical_candidate set" where
  "choice k C = tie_winners (near_best k (contenders k C))"

definition context_for ::
  "planning_input \<Rightarrow> policy_profile_parameters \<Rightarrow> canonical_candidate list \<Rightarrow> factor_assembly list \<Rightarrow> choice_context" where
  "context_for inp pars cs assembled =
     \<lparr>cc_scope = pi_user_intent_scope inp, cc_parameters = pars,
      cc_utility = utility_of pars (break_of inp) (assembly_dict cs assembled)\<rparr>"

section \<open>The kernel's lists have the specification's members\<close>

lemma set_active:
  assumes "planned inp cs assembled"
  shows "set (kx_active (run_of inp pars cs assembled))
    = admitted (context_for inp pars cs assembled) (set cs)"
  using planned_distinct [OF assms]
  by (auto simp: run_simps admitted_def context_for_def eligible_def activates_def)

lemma admitted_eligible:
  "c \<in> admitted (context_for inp pars cs assembled) (set cs)
     \<Longrightarrow> c \<in> set (eligible (pi_user_intent_scope inp) cs)"
  by (simp add: admitted_def eligible_def context_for_def)

lemma path_of_admitted:
  assumes "planned inp cs assembled" and "c \<in> admitted (context_for inp pars cs assembled) (set cs)"
  shows "kx_paths (run_of inp pars cs assembled) (candidate_id c)
    = Some (activation_path_of c (cc_scope (context_for inp pars cs assembled)))"
  using kernel_run_paths [OF planned_distinct [OF assms(1)] admitted_eligible [OF assms(2)]]
  by (simp add: context_for_def)

lemma score_of_admitted:
  assumes "planned inp cs assembled" and "c \<in> admitted (context_for inp pars cs assembled) (set cs)"
  shows "sc_utility (the (kx_scores (run_of inp pars cs assembled) (candidate_id c)))
    = cc_utility (context_for inp pars cs assembled) c"
  using kernel_run_scores [OF planned_distinct [OF assms(1)] admitted_eligible [OF assms(2)]]
  by (simp add: context_for_def utility_of_def)

lemma request_priority_class_spec:
  assumes "\<And>c. c \<in> set active \<Longrightarrow> paths (candidate_id c) = Some (activation_path_of c (cc_scope k))"
  shows "set (request_priority_class paths active) = strongest_request k (set active)"
proof -
  let ?ua = "filter (\<lambda>c. paths (candidate_id c) = Some USER_INITIATED) active"
  have ua: "set ?ua = asked_for k (set active)" using assms by (auto simp: asked_for_def)
  show ?thesis
  proof (cases "?ua = []")
    case True
    with ua show ?thesis by (simp add: request_priority_class_def strongest_request_def)
  next
    case False
    let ?A = "asked_for k (set active)" and ?m = "Min (set (map request_priority ?ua))"
    have ne: "?A \<noteq> {}" using ua False by (metis set_empty)
    have "finite ?A" unfolding ua [symmetric] by (rule finite_set)
    then have min: "request_priority c = ?m \<longleftrightarrow> (\<forall>d \<in> ?A. request_priority c \<le> request_priority d)"
      if "c \<in> ?A" for c
      unfolding set_map ua using that by (auto intro!: Min_eqI [symmetric])
    have "request_priority_class paths active = filter (\<lambda>c. request_priority c = ?m) ?ua"
      unfolding request_priority_class_def Let_def using False by (simp only: if_False)
    then have "set (request_priority_class paths active) = {c \<in> ?A. request_priority c = ?m}"
      unfolding ua [symmetric] by auto
    with min ne show ?thesis by (auto simp: strongest_request_def)
  qed
qed

lemma set_requested:
  assumes "planned inp cs assembled"
  shows "set (kx_requested (run_of inp pars cs assembled))
    = strongest_request (context_for inp pars cs assembled)
        (admitted (context_for inp pars cs assembled) (set cs))"
  unfolding kernel_run_requested set_active [OF assms, symmetric]
  by (rule request_priority_class_spec) (simp add: set_active assms path_of_admitted)

lemma strongest_request_subset: "strongest_request k A \<subseteq> A"
  by (auto simp: strongest_request_def asked_for_def)

lemma dominates_outranks:
  assumes "planned inp cs assembled"
    and "a \<in> admitted (context_for inp pars cs assembled) (set cs)"
    and "b \<in> admitted (context_for inp pars cs assembled) (set cs)"
  shows "dominates (kx_paths (run_of inp pars cs assembled)) a b
    \<longleftrightarrow> outranks (context_for inp pars cs assembled) a b"
  using path_of_admitted [OF assms(1,2)] path_of_admitted [OF assms(1,3)]
  by (simp add: dominates_def outranks_def list_all_iff list_ex_iff)

lemma set_kept:
  assumes "planned inp cs assembled"
  shows "set (kx_kept (run_of inp pars cs assembled)) = contenders (context_for inp pars cs assembled) (set cs)"
proof -
  let ?k = "context_for inp pars cs assembled"
  have sub: "strongest_request ?k (admitted ?k (set cs)) \<subseteq> admitted ?k (set cs)"
    by (rule strongest_request_subset)
  show ?thesis
    unfolding kernel_run_kept pareto.undominated_def contenders_def pareto_front_def set_filter
      set_requested [OF assms]
    using sub dominates_outranks [OF assms] by blast
qed

lemma contenders_admitted: "c \<in> contenders k C \<Longrightarrow> c \<in> admitted k C"
  using strongest_request_subset by (auto simp: contenders_def pareto_front_def)

lemma contenders_empty_iff:
  assumes "planned inp cs assembled"
  shows "contenders (context_for inp pars cs assembled) (set cs) = {}
    \<longleftrightarrow> admitted (context_for inp pars cs assembled) (set cs) = {}"
  using kept_nonempty_iff by (metis assms set_active set_empty set_kept)

lemma near_tie_iff:
  assumes "finite F" and "F \<noteq> {}"
  shows "fsub (Max (u ` F)) x \<le> t \<longleftrightarrow> (\<forall>d \<in> F. fsub (u d) x \<le> t)"
proof
  assume "fsub (Max (u ` F)) x \<le> t"
  then show "\<forall>d \<in> F. fsub (u d) x \<le> t"
    using assms by (meson Max_ge finite_imageI fsub_mono image_eqI order_refl order_trans)
next
  assume "\<forall>d \<in> F. fsub (u d) x \<le> t"
  moreover have "Max (u ` F) \<in> u ` F" using assms by (intro Max_in) auto
  ultimately show "fsub (Max (u ` F)) x \<le> t" by auto
qed

lemma set_tie_set:
  assumes "planned inp cs assembled" and ne: "kx_kept (run_of inp pars cs assembled) \<noteq> []"
  shows "set (kx_tie_set (run_of inp pars cs assembled))
    = near_best (context_for inp pars cs assembled) (contenders (context_for inp pars cs assembled) (set cs))"
proof -
  let ?k = "context_for inp pars cs assembled" and ?run = "run_of inp pars cs assembled"
  let ?F = "contenders ?k (set cs)" and ?u = "\<lambda>c. sc_utility (the (kx_scores ?run (candidate_id c)))"
  have u: "?u c = cc_utility ?k c" if "c \<in> ?F" for c
    by (rule score_of_admitted [OF assms(1) contenders_admitted [OF that]])
  have im: "?u ` ?F = cc_utility ?k ` ?F" using u by (intro image_cong) auto
  have "kx_tie_set ?run = filter (\<lambda>c. fsub (Max (?u ` set (kx_kept ?run))) (?u c) \<le> TIE_EPSILON) (kx_kept ?run)"
    using tie_break_finalists(1) [OF ne kernel_run_ties [symmetric]] .
  moreover have "finite ?F" "?F \<noteq> {}"
    using set_kept [OF assms(1), of pars] ne by (metis finite_set, metis set_empty)
  moreover have "fsub (Max (?u ` ?F)) (?u c) \<le> TIE_EPSILON
      \<longleftrightarrow> (\<forall>d \<in> ?F. fsub (cc_utility ?k d) (cc_utility ?k c) \<le> TIE_EPSILON)" if "c \<in> ?F" for c
    unfolding im u [OF that] by (rule near_tie_iff) fact+
  ultimately show ?thesis
    by (auto simp: near_best_def set_kept [OF assms(1)])
qed

section \<open>The tie order picks one candidate\<close>

lemma tie_winners_unique:
  assumes "inj_on candidate_id T" and "c \<in> tie_winners T"
  shows "tie_winners T = {c}"
proof -
  have "d = c" if "d \<in> tie_winners T" for d
  proof -
    from that assms(2) have in_T: "d \<in> T" "c \<in> T"
      and "tie_key c < tie_key d \<or> tie_key c = tie_key d \<and> candidate_id d \<le> candidate_id c"
      and "tie_key d < tie_key c \<or> tie_key d = tie_key c \<and> candidate_id c \<le> candidate_id d"
      by (auto simp: tie_winners_def)
    then have "candidate_id d = candidate_id c" by auto
    with assms(1) in_T show ?thesis by (simp add: inj_on_eq_iff)
  qed
  with assms(2) show ?thesis by blast
qed

lemma hd_finalists_winner:
  assumes "ties \<noteq> []"
  defines "finals \<equiv> sort_key candidate_id (filter (\<lambda>c. tie_key c = Max (tie_key ` set ties)) ties)"
  shows "hd finals \<in> tie_winners (set ties)"
proof -
  let ?best = "Max (tie_key ` set ties)"
  let ?top = "filter (\<lambda>c. tie_key c = ?best) ties"
  have "?best \<in> tie_key ` set ties" using assms(1) by (intro Max_in) auto
  then have "?top \<noteq> []" by (auto simp: filter_empty_conv)
  from hd_sort_key_least [OF this, of candidate_id]
  have top: "hd finals \<in> set ?top" "\<forall>d \<in> set ?top. candidate_id (hd finals) \<le> candidate_id d"
    by (simp_all add: finals_def)
  have "tie_key d < ?best \<or> tie_key d = ?best" if "d \<in> set ties" for d
    using that by (simp add: le_less [symmetric])
  with top show ?thesis by (auto simp: tie_winners_def)
qed

lemma choice_of_run:
  assumes "planned inp cs assembled" and ne: "kx_kept (run_of inp pars cs assembled) \<noteq> []"
  shows "choice (context_for inp pars cs assembled) (set cs)
    = {hd (kx_finalists (run_of inp pars cs assembled))}"
proof -
  let ?k = "context_for inp pars cs assembled" and ?run = "run_of inp pars cs assembled"
  note ties = tie_break_finalists [OF ne kernel_run_ties [symmetric]]
  have "hd (kx_finalists ?run) \<in> tie_winners (set (kx_tie_set ?run))"
    unfolding ties(2) by (rule hd_finalists_winner [OF ties(3)])
  then have w: "hd (kx_finalists ?run) \<in> choice ?k (set cs)"
    by (simp add: choice_def set_tie_set [OF assms])
  have "near_best ?k (contenders ?k (set cs)) \<subseteq> set cs"
    using contenders_admitted [of _ ?k "set cs"] by (auto simp: near_best_def admitted_def)
  then have "inj_on candidate_id (near_best ?k (contenders ?k (set cs)))"
    using planned_distinct [OF assms(1)] by (auto simp: distinct_map intro: inj_on_subset)
  with w show ?thesis unfolding choice_def by (rule tie_winners_unique [rotated])
qed

end
