(* ===== verification/Planner_Results.thy ===== *)
theory Planner_Results
  imports Planner_Spec
begin

text \<open>
  The two results a planned input can have, written out as records: \<open>undecided_result\<close> when step 3
  stops the run and \<open>decided_result\<close> otherwise.  Past steps 1 and 2 no guard of the result records can
  fire, so the properties of \<open>Planner_Properties\<close> read their fields.  A small concrete input supplies
  the witnesses.
\<close>

section \<open>Results of a planned input\<close>

definition selected_id_of :: "kernel_run \<Rightarrow> string option" where
  "selected_id_of run = map_option candidate_id (fst (decide run))"

definition decided_result ::
  "planning_input \<Rightarrow> context_trace \<Rightarrow> canonical_candidate list \<Rightarrow> (string \<Rightarrow> factor_assembly option)
     \<Rightarrow> kernel_run \<Rightarrow> kernel_result" where
  "decided_result inp cx cs asm run =
     (let decision = (if fst (decide run) \<noteq> None then SELECT else NO_TARGET);
          ev = evaluation_record inp cs run (success_reasons inp cs run (fst (decide run)) (snd (decide run)))
      in \<lparr>kr_outcome = \<lparr>po_evaluation = ev,
            po_execution_status = \<lparr>es_decision_cycle_id = pi_decision_cycle_id inp,
              es_status = SUCCEEDED, es_error_code = None\<rparr>,
            po_decision = Some \<lparr>pd_planner_decision_id = DECISION_PREFIX @ pi_decision_cycle_id inp,
              pd_decision_cycle_id = pi_decision_cycle_id inp, pd_decision = decision,
              pd_planner_evaluation_id = pe_planner_evaluation_id ev,
              pd_selected_candidate_id = selected_id_of run, pd_no_target_reason = snd (decide run)\<rparr>\<rparr>,
          kr_trace = \<lparr>pt_decision_cycle_id = pi_decision_cycle_id inp,
            pt_planner_version = PLANNER_KERNEL_MODEL_VERSION, pt_policy_version = PLANNER_PROFILE_VERSION,
            pt_steps = KERNEL_STEP_ORDER, pt_context = cx,
            pt_candidates = traces_of cs asm run (selected_id_of run),
            pt_decision = Some decision, pt_selected_candidate_id = selected_id_of run,
            pt_no_target_reason = snd (decide run), pt_runtime_outcome = NORMAL\<rparr>\<rparr>)"

definition undecided_result ::
  "planning_input \<Rightarrow> context_trace \<Rightarrow> canonical_candidate list \<Rightarrow> (string \<Rightarrow> factor_assembly option)
     \<Rightarrow> kernel_result" where
  "undecided_result inp cx cs asm =
     \<lparr>kr_outcome = \<lparr>
        po_evaluation = \<lparr>pe_planner_evaluation_id = EVALUATION_PREFIX @ pi_decision_cycle_id inp,
          pe_decision_cycle_id = pi_decision_cycle_id inp,
          pe_planner_version = PLANNER_KERNEL_MODEL_VERSION, pe_policy_version = PLANNER_PROFILE_VERSION,
          pe_ranked_candidates = [], pe_reason_trace = undecided_reasons cx cs asm,
          pe_frontier_candidate_ids = []\<rparr>,
        po_execution_status = \<lparr>es_decision_cycle_id = pi_decision_cycle_id inp,
          es_status = cx_execution_status cx, es_error_code = cx_error_code cx\<rparr>,
        po_decision = None\<rparr>,
      kr_trace = \<lparr>pt_decision_cycle_id = pi_decision_cycle_id inp,
        pt_planner_version = PLANNER_KERNEL_MODEL_VERSION, pt_policy_version = PLANNER_PROFILE_VERSION,
        pt_steps = [CANONICALIZE, FEATURE_ASSEMBLY, CONTEXT_VALIDITY], pt_context = cx,
        pt_candidates = map (\<lambda>c. candidate_trace_of c (the (asm (candidate_id c)))
          None None None None None [] False False) cs,
        pt_decision = None, pt_selected_candidate_id = None, pt_no_target_reason = None,
        pt_runtime_outcome = runtime_decision_outcome_of (cx_execution_status cx)\<rparr>\<rparr>"

lemma decided_run:
  assumes "distinct (map candidate_id cs)"
  shows "decided inp cx cs asm (kernel_run_of pars scope nb asm cs)
    = Inr (decided_result inp cx cs asm (kernel_run_of pars scope nb asm cs))"
  by (simp add: decided_def Let_def split_beta evaluation_of_run [OF assms] mk_planning_outcome_def
      decided_result_def selected_id_of_def evaluation_record_def KERNEL_STEP_ORDER_def)

lemma vd_parameters_None_iff: "vd_parameters (context_verdict a s) = None
    \<longleftrightarrow> vd_status (context_verdict a s) \<noteq> SUCCEEDED"
  by (simp add: context_verdict_def split: option.split)

lemma undecided_run:
  assumes "vd_parameters (verdict_of inp assembled) = None"
  shows "undecided inp [CANONICALIZE, FEATURE_ASSEMBLY, CONTEXT_VALIDITY] (context_of inp assembled) cs asm
    = Inr (undecided_result inp (context_of inp assembled) cs asm)"
  using assms
  by (simp add: undecided_def Let_def mk_planning_outcome_def undecided_result_def context_of_def
      verdict_of_def vd_parameters_None_iff context_trace_of_def)

lemma plan_result:
  assumes "planned inp cs assembled"
  shows "plan inp = Inr (case vd_parameters (verdict_of inp assembled) of
      None \<Rightarrow> undecided_result inp (context_of inp assembled) cs (assembly_dict cs assembled)
    | Some pars \<Rightarrow> decided_result inp (context_of inp assembled) cs (assembly_dict cs assembled)
        (run_of inp pars cs assembled))"
  unfolding plan_planned [OF assms]
  by (auto simp: undecided_run decided_run planned_distinct [OF assms] split: option.split)

lemma plan_result_cases:
  assumes "plan inp = Inr r"
  obtains (undecided) cs assembled where "planned inp cs assembled"
      and "vd_status (verdict_of inp assembled) \<noteq> SUCCEEDED"
      and "r = undecided_result inp (context_of inp assembled) cs (assembly_dict cs assembled)"
    | (decided) cs assembled pars where "planned inp cs assembled"
      and "vd_parameters (verdict_of inp assembled) = Some pars"
      and "r = decided_result inp (context_of inp assembled) cs (assembly_dict cs assembled)
        (run_of inp pars cs assembled)"
proof -
  obtain cs assembled where p: "planned inp cs assembled" using assms by (rule plan_Inr_planned)
  from plan_result [OF p] assms have r: "r = (case vd_parameters (verdict_of inp assembled) of
      None \<Rightarrow> undecided_result inp (context_of inp assembled) cs (assembly_dict cs assembled)
    | Some pars \<Rightarrow> decided_result inp (context_of inp assembled) cs (assembly_dict cs assembled)
        (run_of inp pars cs assembled))" by simp
  show thesis
  proof (cases "vd_parameters (verdict_of inp assembled)")
    case None
    then have "vd_status (verdict_of inp assembled) \<noteq> SUCCEEDED"
      by (simp add: verdict_of_def vd_parameters_None_iff)
    with None p r undecided show thesis by simp
  next
    case (Some pars)
    with p r decided show thesis by simp
  qed
qed

lemma planned_functional:
  "planned inp cs assembled \<Longrightarrow> planned inp cs' assembled' \<Longrightarrow> cs' = cs \<and> assembled' = assembled"
  by (auto simp: planned_def)

section \<open>The decision of a run\<close>

lemma decide_run:
  fixes pars :: policy_profile_parameters
  assumes "planned inp cs assembled"
  defines "k \<equiv> context_for inp pars cs assembled"
  shows "candidate_id ` choice k (set cs) = set_option (selected_id_of (run_of inp pars cs assembled))"
    and "snd (decide (run_of inp pars cs assembled)) =
      (if eligible (pi_user_intent_scope inp) cs = [] then Some NO_ELIGIBLE_CANDIDATE
       else if admitted k (set cs) = {} then Some BELOW_ACTIVATION_THRESHOLD else None)"
    and "fst (decide (run_of inp pars cs assembled)) = None \<longleftrightarrow> admitted k (set cs) = {}"
proof -
  let ?run = "run_of inp pars cs assembled"
  have kept: "kx_kept ?run = [] \<longleftrightarrow> admitted k (set cs) = {}"
    using kept_nonempty_iff set_active [OF assms(1)] unfolding k_def by (metis set_empty)
  have none: "admitted k (set cs) = {}" if "eligible (pi_user_intent_scope inp) cs = []"
    using that admitted_eligible [of _ inp pars cs assembled] by (auto simp: k_def)
  have "choice k (set cs) = {}" if "admitted k (set cs) = {}"
    using that contenders_admitted [of _ k "set cs"] by (auto simp: choice_def tie_winners_def near_best_def)
  moreover have "choice k (set cs) = {hd (kx_finalists ?run)}" if "admitted k (set cs) \<noteq> {}"
    using choice_of_run [OF assms(1)] kept that by (simp add: k_def)
  ultimately show "candidate_id ` choice k (set cs) = set_option (selected_id_of ?run)"
    using kept none by (auto simp: selected_id_of_def decide_def run_simps)
  show "snd (decide ?run) =
      (if eligible (pi_user_intent_scope inp) cs = [] then Some NO_ELIGIBLE_CANDIDATE
       else if admitted k (set cs) = {} then Some BELOW_ACTIVATION_THRESHOLD else None)"
    using kept none by (simp add: decide_def run_simps)
  show "fst (decide ?run) = None \<longleftrightarrow> admitted k (set cs) = {}"
    using kept none by (simp add: decide_def run_simps)
qed

section \<open>A concrete input\<close>

text \<open>
  Two requested reviews and one automatic proposal under a learning request.  The requested candidates
  activate without a threshold, so the decision needs no float arithmetic beyond the tie test.
\<close>

definition sample_row :: schedule_row where
  "sample_row = \<lparr>review_state = DUE, review_urgency = Some (1/2), source_learning_watermark = ''7''\<rparr>"

definition sample_proposal :: "string \<Rightarrow> string \<Rightarrow> bool \<Rightarrow> int \<Rightarrow> candidate_proposal" where
  "sample_proposal key cid requested priority = \<lparr>candidate_id = cid, canonical_key = key, focus_target = key,
     target_mode = REVIEW, learning_intent = CONSOLIDATE, evidence_modality = TEXT_PRODUCTION,
     opportunity_binding_class = ''none'', initiative_class = REACTIVE,
     benefit = (\<lambda>f. Some (1/2)), cost = (\<lambda>f. Some (1/4)), origins = [''SCHEDULED_REVIEW''],
     user_initiated = requested, request_aligned = requested, request_priority = priority,
     content_readiness = R3_TEACHING_READY, prerequisite_state = READY,
     prerequisite_scaffoldable = False, coverage_service_state = COVERAGE_NONE,
     modality_available = True, expired = False, deprecated = False, suppressed = False,
     runtime_generated_ready = False, task_aligned = False, critical_repair = False,
     goal_relation = GOAL_NONE, schedule_row = Some sample_row\<rparr>"

definition sample_authority :: feature_authority where
  "sample_authority = \<lparr>fa_status = COMPLETE, fa_snapshot_status = VALID, fa_schedule_authority = CURRENT,
     fa_missing_authorities = [], fa_natural_break_available = True, fa_planner_profile = Some BALANCED,
     fa_automatic_teaching_enabled = True, fa_policy_mapping_version = ''v1'', fa_reasons = []\<rparr>"

definition sample_input :: planning_input where
  "sample_input = \<lparr>pi_decision_cycle_id = ''cycle-1'', pi_planning_context = Some sample_authority,
     pi_user_intent_scope = LEARNING_REQUEST,
     pi_proposals = [sample_proposal ''k2'' ''b'' True 1, sample_proposal ''k1'' ''a'' True 0,
       sample_proposal ''k3'' ''c'' False 0]\<rparr>"

definition sample_candidate :: "string \<Rightarrow> string \<Rightarrow> bool \<Rightarrow> int \<Rightarrow> canonical_candidate" where
  "sample_candidate key cid requested priority = merge_group key (sample_proposal key cid requested priority) []"

definition sample_candidates :: "canonical_candidate list" where
  "sample_candidates = [sample_candidate ''k1'' ''a'' True 0, sample_candidate ''k2'' ''b'' True 1,
     sample_candidate ''k3'' ''c'' False 0]"

lemma sample_keys: "sorted_set [''k2'', ''k1'', ''k3''] = [''k1'', ''k2'', ''k3'']"
  by code_simp

lemma sample_proposal_key [simp]: "canonical_key (sample_proposal key cid u p) = key"
  "candidate_id (sample_proposal key cid u p) = cid"
  by (simp_all add: sample_proposal_def)

lemma sample_candidate_id [simp]: "candidate_id (sample_candidate key cid u p) = cid"
  by (simp add: sample_candidate_def merge_group_def)

lemma sample_canonical: "canonicalize_proposals (pi_proposals sample_input) = Inr sample_candidates"
  by (simp add: canonicalize_proposals_def sample_input_def sample_keys canonicalize_group_def
      group_of_def checkE_def sample_candidates_def flip: sample_candidate_def)

lemma sample_assembly:
  "assemble_candidate_factors (sample_candidate key cid u p) (Some sample_authority)
     = Inr \<lparr>as_candidate_id = cid,
         as_benefit = map (\<lambda>f. \<lparr>fr_factor = Benefit f, fr_value = 1/2,
           fr_source = (if f = SCHEDULE_URGENCY then AUTHORITY else DECLARED),
           fr_authority = (if f = SCHEDULE_URGENCY then Some SCHEDULE else None)\<rparr>) BENEFIT_FACTORS,
         as_cost = map (\<lambda>f. \<lparr>fr_factor = Cost f, fr_value = 1/4, fr_source = DECLARED,
           fr_authority = None\<rparr>) COST_FACTORS,
         as_gaps = []\<rparr>" if "0 \<le> p"
  using that
  by (simp add: assemble_candidate_factors_def sample_candidate_def merge_group_def sample_proposal_def
      validate_identity_def checkE_def validate_declared_vector_def checked_reading_def
      BENEFIT_FACTORS_def COST_FACTORS_def validate_scaffold_costs_def scaffolded_def
      schedule_leg_def sample_authority_def schedule_urgency_of_def sample_row_def
      owned_schedule_def number_def goal_leg_def goal_relevance_of_def owned_goal_def dict_of_def)


definition sample_assemblies :: "factor_assembly list" where
  "sample_assemblies = map (\<lambda>c. case assemble_candidate_factors c (Some sample_authority) of Inr a \<Rightarrow> a)
     sample_candidates"

lemma sample_planned: "planned sample_input sample_candidates sample_assemblies"
  by (simp add: planned_def sample_canonical refuse_contradictory_scope_def sample_assemblies_def)
    (simp add: sample_input_def sample_candidates_def sample_assembly)

lemma sample_gaps: "a \<in> set sample_assemblies \<Longrightarrow> as_gaps a = []"
  by (auto simp: sample_assemblies_def sample_candidates_def sample_assembly)

lemma sample_verdict: "vd_parameters (verdict_of sample_input sample_assemblies) = Some (POLICY_PROFILES BALANCED)"
  using sample_gaps
  by (auto simp: verdict_of_def context_verdict_def sample_input_def sample_authority_def list_ex_iff)

lemma sample_plan: "\<exists>r. plan sample_input = Inr r"
  using plan_result [OF sample_planned] by blast

end
