(* ===== verification/Planner_Properties.thy ===== *)
theory Planner_Properties
  imports Planner_Results
begin

text \<open>
  The properties of the planner kernel.  Each is stated of \<open>plan\<close> (or of the step it is about) and
  rests on the inversion of \<open>plan\<close> in \<open>Planner_Results\<close> and on the abstract choice of \<open>Planner_Spec\<close>.
\<close>

section \<open>The decision\<close>

text \<open>
  C1: whenever a planned input's authorities are in order, \<open>plan\<close> returns and the candidate it selects
  is exactly the abstract choice: among the eligible candidates that activate, restricted to the
  strongest explicit request when there is one and to the Pareto front of that class, the one within
  \<open>TIE_EPSILON\<close> of every rival whose tie key is greatest and, among equal keys, whose id is least.  No
  candidate is selected exactly when the specification chooses none.
\<close>

theorem plan_refines_choice:
  assumes "planned inp cs assembled" and "vd_parameters (verdict_of inp assembled) = Some pars"
  shows "\<exists>r. plan inp = Inr r
    \<and> set_option (pt_selected_candidate_id (kr_trace r))
        = candidate_id ` choice (context_for inp pars cs assembled) (set cs)"
  using plan_result [OF assms(1)] assms(2) decide_run(1) [OF assms(1)]
  by (simp add: decided_result_def Let_def)

theorem plan_refines_choice_witness:
  "\<exists>r. plan sample_input = Inr r
    \<and> set_option (pt_selected_candidate_id (kr_trace r))
        = candidate_id ` choice (context_for sample_input (POLICY_PROFILES BALANCED) sample_candidates
            sample_assemblies) (set sample_candidates)"
  by (rule plan_refines_choice [OF sample_planned sample_verdict])

text \<open>
  C2: a completed run selects a target if and only if some eligible candidate activates; otherwise it
  says why, \<open>NO_ELIGIBLE_CANDIDATE\<close> exactly when step 4 kept nothing and \<open>BELOW_ACTIVATION_THRESHOLD\<close>
  exactly when something was eligible but nothing activated.  The request class, the prune and the
  tie-break never empty the set they are given.
\<close>

theorem plan_decision_exact:
  assumes "planned inp cs assembled" and "vd_parameters (verdict_of inp assembled) = Some pars"
  defines "scope \<equiv> pi_user_intent_scope inp"
  defines "acts \<equiv> activates pars scope (break_of inp) (assembly_dict cs assembled)"
  shows "\<exists>r d. plan inp = Inr r \<and> po_decision (kr_outcome r) = Some d
    \<and> (pd_decision d = SELECT \<longleftrightarrow> (\<exists>c \<in> set cs. exclusion_of c scope = None \<and> acts c))
    \<and> (pd_decision d = SELECT \<longleftrightarrow> pd_selected_candidate_id d \<noteq> None)
    \<and> (pd_no_target_reason d = Some NO_ELIGIBLE_CANDIDATE
        \<longleftrightarrow> (\<forall>c \<in> set cs. exclusion_of c scope \<noteq> None))
    \<and> (pd_no_target_reason d = Some BELOW_ACTIVATION_THRESHOLD
        \<longleftrightarrow> (\<exists>c \<in> set cs. exclusion_of c scope = None)
          \<and> (\<forall>c \<in> set cs. exclusion_of c scope = None \<longrightarrow> \<not> acts c))"
proof -
  have adm: "admitted (context_for inp pars cs assembled) (set cs) = {c \<in> set cs. exclusion_of c scope = None \<and> acts c}"
    by (auto simp: admitted_def context_for_def acts_def activates_def scope_def)
  have el: "eligible (pi_user_intent_scope inp) cs = [] \<longleftrightarrow> (\<forall>c \<in> set cs. exclusion_of c scope \<noteq> None)"
    by (auto simp: eligible_def filter_empty_conv scope_def)
  note d = decide_run(2,3) [OF assms(1), of pars, unfolded adm el]
  show ?thesis
    using plan_result [OF assms(1)] assms(2) d
    by (auto simp: decided_result_def Let_def selected_id_of_def)
qed

theorem plan_decision_exact_witness:
  "\<exists>r d. plan sample_input = Inr r \<and> po_decision (kr_outcome r) = Some d \<and> pd_decision d = SELECT"
proof -
  have "sample_candidate ''k1'' ''a'' True 0 \<in> set sample_candidates"
    and "exclusion_of (sample_candidate ''k1'' ''a'' True 0) (pi_user_intent_scope sample_input) = None"
    and "activates pars (pi_user_intent_scope sample_input) nb asm (sample_candidate ''k1'' ''a'' True 0)" for pars nb asm
    by (simp_all add: sample_candidates_def sample_candidate_def merge_group_def sample_proposal_def
        exclusion_of_def sample_input_def activates_def activation_path_of_def readiness_floor_def)
  then show ?thesis using plan_decision_exact [OF sample_planned sample_verdict] by blast
qed



lemma owned_schedule_no_Inl:
  "schedule_leg c a = Inr (v, g) \<Longrightarrow> owned_schedule v g \<noteq> Inl e"
  by (auto simp: schedule_leg_def Let_def owned_schedule_def number_def split: option.splits if_splits)



lemma assemble_Inl_cases:
  assumes "assemble_candidate_factors c a = Inl e"
  shows "validate_identity c = Inl e \<or> validate_declared_vector c = Inl e \<or> validate_scaffold_costs c = Inl e
      \<or> schedule_leg c a = Inl e \<or> goal_leg c a = Inl e"
  using assms owned_schedule_no_Inl
  by (auto simp: assemble_candidate_factors_def result_simps split: prod.splits)


lemma step2_scope: "assemble_candidate_factors c a \<noteq> Inl (PlannerInputError (ContradictoryScope cid))"
proof
  assume *: "assemble_candidate_factors c a = Inl (PlannerInputError (ContradictoryScope cid))" (is "_ = Inl ?e")
  have "validate_identity c \<noteq> Inl ?e" "validate_declared_vector c \<noteq> Inl ?e"
    "validate_scaffold_costs c \<noteq> Inl ?e" "schedule_leg c a \<noteq> Inl ?e" "goal_leg c a \<noteq> Inl ?e"
    by (auto simp: validate_identity_def checked_reading_def validate_scaffold_costs_def schedule_leg_def
        validate_declared_vector_def goal_leg_def result_simps Let_def
        dest!: traverseE_Inl_ex split: option.splits if_splits)
  then show False using assemble_Inl_cases [OF *] by blast
qed



section \<open>Status, trace, frontier and ranking\<close>

definition unscored :: "candidate_trace \<Rightarrow> bool" where
  "unscored t \<longleftrightarrow> ct_excluded t = None \<and> ct_utility t = None \<and> ct_activation_path t = None
     \<and> ct_activated t = None \<and> ct_dominated_by t = [] \<and> \<not> ct_in_tie_set t \<and> \<not> ct_selected t"

definition authorities_in_order :: "planning_input \<Rightarrow> canonical_candidate list \<Rightarrow> bool" where
  "authorities_in_order inp cs \<longleftrightarrow> (\<exists>a. pi_planning_context inp = Some a \<and> fa_status a = COMPLETE
     \<and> fa_snapshot_status a = VALID \<and> fa_planner_profile a \<noteq> None
     \<and> (cs = [] \<or> fa_schedule_authority a = CURRENT
          \<and> GOAL_ASSESSMENT_PACK_MAPPING \<notin> set (fa_missing_authorities a)
          \<and> (\<forall>c \<in> set cs. schedule_row c \<noteq> None)))"

lemma no_gaps_iff:
  assumes "planned inp cs assembled"
  shows "list_ex (\<lambda>s. as_gaps s \<noteq> []) assembled \<longleftrightarrow> \<not> (\<forall>c \<in> set cs. \<exists>x. pi_planning_context inp = Some x
     \<and> fa_schedule_authority x = CURRENT \<and> schedule_row c \<noteq> None
     \<and> GOAL_ASSESSMENT_PACK_MAPPING \<notin> set (fa_missing_authorities x))"
proof -
  have "list_all2 (\<lambda>c s. assemble_candidate_factors c (pi_planning_context inp) = Inr s) cs assembled"
    using assms by (simp add: planned_def traverseE_Inr_iff)
  then have "list_all2 (\<lambda>c s. as_gaps s = [] \<longleftrightarrow> (\<exists>x. pi_planning_context inp = Some x
     \<and> fa_schedule_authority x = CURRENT \<and> schedule_row c \<noteq> None
     \<and> GOAL_ASSESSMENT_PACK_MAPPING \<notin> set (fa_missing_authorities x))) cs assembled"
    by (rule list_all2_mono) (rule assemble_gaps)
  then show ?thesis by (induction rule: list_all2_induct) auto
qed

lemma verdict_in_order:
  assumes "planned inp cs assembled"
  shows "vd_status (verdict_of inp assembled) = SUCCEEDED \<longleftrightarrow> authorities_in_order inp cs"
    and "vd_error_code (verdict_of inp assembled) = None \<longleftrightarrow> authorities_in_order inp cs"
  using no_gaps_iff [OF assms]
  by (auto simp: verdict_of_def context_verdict_def authorities_in_order_def split: option.splits)

text \<open>
  C4: a planned input is decided exactly when the planning context is present, complete and valid, its
  teaching policy maps to a profile, and, if there is a candidate, the schedule is current, every
  candidate has its schedule row and the assessment mapping is not missing.  Then the outcome carries a
  decision, all eleven steps ran and the runtime outcome is \<open>NORMAL\<close>.  Otherwise the run stops after
  step 3: no decision, no ranking, no frontier, no score, activation or selection in any candidate's
  trace, an error code, and the runtime is told not to teach automatically.
\<close>

theorem plan_status_exact:
  assumes "plan inp = Inr r" and "canonicalize_proposals (pi_proposals inp) = Inr cs"
  defines "out \<equiv> kr_outcome r" and "trace \<equiv> kr_trace r"
  shows "if authorities_in_order inp cs
    then es_status (po_execution_status out) = SUCCEEDED \<and> po_decision out \<noteq> None
      \<and> pt_steps trace = KERNEL_STEP_ORDER \<and> pt_runtime_outcome trace = NORMAL
    else es_status (po_execution_status out) \<noteq> SUCCEEDED \<and> es_error_code (po_execution_status out) \<noteq> None
      \<and> po_decision out = None \<and> pt_decision trace = None \<and> pt_selected_candidate_id trace = None
      \<and> pt_steps trace = take 3 KERNEL_STEP_ORDER
      \<and> pt_runtime_outcome trace = DEGRADED_NO_AUTOMATIC_TEACHING
      \<and> pe_ranked_candidates (po_evaluation out) = [] \<and> pe_frontier_candidate_ids (po_evaluation out) = []
      \<and> list_all unscored (pt_candidates trace)"
  using assms(1)
proof (cases rule: plan_result_cases)
  case (undecided cs' assembled)
  then have eq: "cs' = cs" using assms(2) by (simp add: planned_def)
  have no: "\<not> authorities_in_order inp cs" using verdict_in_order [OF undecided(1)] undecided(2) eq by simp
  have err: "vd_error_code (verdict_of inp assembled) \<noteq> None"
    using verdict_in_order [OF undecided(1)] no eq by simp
  have "runtime_decision_outcome_of (vd_status (verdict_of inp assembled)) = DEGRADED_NO_AUTOMATIC_TEACHING"
    using undecided(2) by (cases "vd_status (verdict_of inp assembled)") auto
  with no err undecided(2) show ?thesis
    by (simp add: out_def trace_def undecided(3) undecided_result_def context_of_def context_trace_of_def
        KERNEL_STEP_ORDER_def list_all_iff unscored_def candidate_trace_of_def)
next
  case (decided cs' assembled pars)
  then have eq: "cs' = cs" using assms(2) by (simp add: planned_def)
  have "vd_status (verdict_of inp assembled) = SUCCEEDED"
    using decided(2) vd_parameters_None_iff by (force simp: verdict_of_def)
  then have "authorities_in_order inp cs" using verdict_in_order [OF decided(1)] eq by simp
  then show ?thesis by (simp add: out_def trace_def decided(3) decided_result_def Let_def)
qed

theorem plan_status_exact_witness:
  "\<exists>r. plan sample_input = Inr r \<and> authorities_in_order sample_input sample_candidates
     \<and> po_decision (kr_outcome r) \<noteq> None \<and> pt_steps (kr_trace r) = KERNEL_STEP_ORDER"
proof -
  obtain r where r: "plan sample_input = Inr r" using sample_plan by blast
  have "authorities_in_order sample_input sample_candidates"
    by (simp add: authorities_in_order_def sample_input_def sample_authority_def sample_candidates_def
        sample_candidate_def merge_group_def sample_proposal_def)
  with r plan_status_exact [OF r sample_canonical] show ?thesis by simp
qed

lemma selected_in_choice:
  assumes "plan inp = Inr r" and "planned inp cs assembled"
    and "vd_parameters (verdict_of inp assembled) = Some pars"
  shows "candidate_id ` choice (context_for inp pars cs assembled) (set cs)
    = set_option (pt_selected_candidate_id (kr_trace r))"
  using assms(1) plan_result [OF assms(2)] assms(3) decide_run(1) [OF assms(2)]
  by (auto simp: decided_result_def Let_def)

lemma choice_empty_iff:
  assumes "planned inp cs assembled"
  shows "choice (context_for inp pars cs assembled) (set cs) = {}
    \<longleftrightarrow> admitted (context_for inp pars cs assembled) (set cs) = {}"
  using decide_run(1,3) [OF assms, of pars]
  by (auto simp: selected_id_of_def)

text \<open>
  Under a learning request, as soon as one candidate the user asked for is eligible, a completed
  run selects a target, the target is one the user asked for, and no eligible requested candidate has
  a strictly stronger (smaller) request priority: an automatic proposal never displaces an explicit
  request, whatever its utility.
\<close>

theorem plan_request_precedence:
  assumes "plan inp = Inr r" and "planned inp cs assembled"
    and "vd_parameters (verdict_of inp assembled) = Some pars"
    and scope: "pi_user_intent_scope inp \<in> {LEARNING_REQUEST, TARGETED_LEARNING_REQUEST}"
    and asked: "q \<in> set cs" "user_initiated q" "exclusion_of q (pi_user_intent_scope inp) = None"
  shows "\<exists>c \<in> set cs. pt_selected_candidate_id (kr_trace r) = Some (candidate_id c) \<and> user_initiated c
    \<and> exclusion_of c (pi_user_intent_scope inp) = None \<and> request_priority c \<le> request_priority q"
proof -
  let ?k = "context_for inp pars cs assembled"
  have path: "activation_path_of c (cc_scope ?k) = USER_INITIATED \<longleftrightarrow> user_initiated c" for c
    using scope by (auto simp: context_for_def activation_path_of_def)
  have q: "q \<in> asked_for ?k (admitted ?k (set cs))"
    using asked path by (simp add: asked_for_def admitted_def) (simp add: context_for_def)
  then have "choice ?k (set cs) \<noteq> {}"
    by (auto simp: choice_empty_iff [OF assms(2)] asked_for_def)
  then obtain c where c: "c \<in> choice ?k (set cs)" by blast
  then have "c \<in> strongest_request ?k (admitted ?k (set cs))"
    by (auto simp: choice_def tie_winners_def near_best_def contenders_def pareto_front_def)
  with q have "c \<in> asked_for ?k (admitted ?k (set cs))" "request_priority c \<le> request_priority q"
    by (auto simp: strongest_request_def split: if_splits)
  moreover have "candidate_id c \<in> set_option (pt_selected_candidate_id (kr_trace r))"
    using selected_in_choice [OF assms(1-3)] c by (metis imageI)
  ultimately show ?thesis
    using path by (intro bexI [of _ c]) (auto simp: asked_for_def admitted_def context_for_def)
qed

theorem plan_request_precedence_witness:
  "\<exists>r. plan sample_input = Inr r \<and> (\<exists>c \<in> set sample_candidates.
     pt_selected_candidate_id (kr_trace r) = Some (candidate_id c) \<and> user_initiated c
     \<and> request_priority c \<le> 0)"
proof -
  obtain r where r: "plan sample_input = Inr r" using sample_plan by blast
  have "sample_candidate ''k1'' ''a'' True 0 \<in> set sample_candidates"
    by (simp add: sample_candidates_def)
  moreover have "user_initiated (sample_candidate ''k1'' ''a'' True 0)"
    "exclusion_of (sample_candidate ''k1'' ''a'' True 0) (pi_user_intent_scope sample_input) = None"
    "request_priority (sample_candidate ''k1'' ''a'' True 0) = 0"
    by (simp_all add: sample_candidate_def merge_group_def sample_proposal_def exclusion_of_def
        sample_input_def readiness_floor_def)
  ultimately show ?thesis
    using plan_request_precedence [OF r sample_planned sample_verdict, of "sample_candidate ''k1'' ''a'' True 0"]
      r by (auto simp: sample_input_def)
qed

lemma mset_group_concat:
  assumes "distinct keys" and "canonical_key ` set ps \<subseteq> set keys"
  shows "mset (concat (map (\<lambda>key. sort (map candidate_id (group_of ps key))) keys)) = mset (map candidate_id ps)"
  using assms
proof (induction keys arbitrary: ps)
  case (Cons k keys)
  let ?rest = "filter (\<lambda>p. canonical_key p \<noteq> k) ps"
  have "group_of ps key = group_of ?rest key" if "key \<in> set keys" for key
    using that Cons.prems(1) unfolding group_of_def by (auto intro: filter_cong)
  then have "map (\<lambda>key. sort (map candidate_id (group_of ps key))) keys
      = map (\<lambda>key. sort (map candidate_id (group_of ?rest key))) keys"
    by (auto intro: map_cong)
  moreover have "mset (map candidate_id (group_of ps k)) + mset (map candidate_id ?rest) = mset (map candidate_id ps)"
    unfolding group_of_def by (induction ps) auto
  moreover have "canonical_key ` set ?rest \<subseteq> set keys" using Cons.prems(2) by auto
  ultimately show ?case using Cons.IH [of ?rest] Cons.prems(1)
    by (simp del: map_eq_conv)
qed simp

lemma merged_ids:
  assumes "canonicalize_proposals ps = Inr cs"
  shows "mset (concat (map candidate_ids cs)) = mset (map candidate_id ps)"
proof -
  have "map candidate_ids cs
      = map (\<lambda>key. sort (map candidate_id (group_of ps key))) (sorted_set (map canonical_key ps))"
    unfolding canonicalize_proposals_Inr(1) [OF assms] map_map
  proof (rule map_cong [OF refl])
    fix key assume "key \<in> set (sorted_set (map canonical_key ps))"
    then have "group_of ps key \<noteq> []" by (intro group_of_nonempty) simp
    then show "(candidate_ids \<circ> (\<lambda>key. merge_group key (hd (group_of ps key)) (tl (group_of ps key)))) key
        = sort (map candidate_id (group_of ps key))"
      by (cases "group_of ps key") (simp_all add: merge_group_def)
  qed
  then show ?thesis by (simp only: mset_group_concat distinct_sorted_set set_sorted_set set_map subset_refl)
qed

lemma excluded_not_scored:
  assumes "distinct (map candidate_id cs)" and "c \<in> set cs" and "exclusion_of c scope \<noteq> None"
  shows "kx_scores (kernel_run_of pars scope nb asm cs) (candidate_id c) = None"
    and "kx_paths (kernel_run_of pars scope nb asm cs) (candidate_id c) = None"
    and "kx_activated (kernel_run_of pars scope nb asm cs) (candidate_id c) = None"
proof -
  have "d = c" if "candidate_id d = candidate_id c" and "d \<in> set cs" for d
    using assms(1,2) that by (metis distinct_map inj_onD)
  then have "candidate_id c \<notin> candidate_id ` set (eligible scope cs)"
    using assms(3) by (force simp: eligible_def)
  then show "kx_scores (kernel_run_of pars scope nb asm cs) (candidate_id c) = None"
    and "kx_paths (kernel_run_of pars scope nb asm cs) (candidate_id c) = None"
    and "kx_activated (kernel_run_of pars scope nb asm cs) (candidate_id c) = None"
    by (simp_all add: kernel_run_of_def Let_def split_beta dict_of_keyed_None [where key = candidate_id])
qed

lemma selected_member:
  assumes "planned inp cs assembled" and "selected_id_of (run_of inp pars cs assembled) = Some cid"
  obtains c where "c \<in> set cs" and "candidate_id c = cid" and "exclusion_of c (pi_user_intent_scope inp) = None"
proof -
  have "cid \<in> candidate_id ` choice (context_for inp pars cs assembled) (set cs)"
    using decide_run(1) [OF assms(1)] assms(2) by simp
  moreover have "c \<in> set cs \<and> exclusion_of c (pi_user_intent_scope inp) = None"
    if "c \<in> choice (context_for inp pars cs assembled) (set cs)" for c
  proof -
    have "c \<in> contenders (context_for inp pars cs assembled) (set cs)"
      using that by (simp add: choice_def tie_winners_def near_best_def)
    then show ?thesis
      using contenders_admitted by (fastforce simp: admitted_def context_for_def)
  qed
  ultimately show thesis using that by blast
qed

lemma filter_eq_single: "distinct xs \<Longrightarrow> a \<in> set xs \<Longrightarrow> filter (\<lambda>x. x = a) xs = [a]"
  by (induction xs) (auto simp: filter_empty_conv)

lemma traces_selected:
  assumes p: "planned inp cs assembled"
  shows "map ct_candidate_id (filter ct_selected (traces_of cs asm (run_of inp pars cs assembled)
      (selected_id_of (run_of inp pars cs assembled))))
    = (case selected_id_of (run_of inp pars cs assembled) of None \<Rightarrow> [] | Some cid \<Rightarrow> [cid])"
    (is "?l = _")
proof -
  let ?sel = "selected_id_of (run_of inp pars cs assembled)"
  have l: "?l = filter (\<lambda>cid. Some cid = ?sel) (map candidate_id cs)"
    by (simp add: traces_of_def Let_def candidate_trace_of_def filter_map comp_def)
  show ?thesis
  proof (cases ?sel)
    case (Some cid)
    then obtain c where "c \<in> set cs" "candidate_id c = cid" by (rule selected_member [OF p])
    then have "cid \<in> set (map candidate_id cs)" by auto
    from filter_eq_single [OF planned_distinct [OF p] this] show ?thesis
      using l by (simp add: Some)
  qed (use l in simp)
qed

lemma traces_excluded:
  assumes p: "planned inp cs assembled"
    and t: "t \<in> set (traces_of cs asm (run_of inp pars cs assembled) (selected_id_of (run_of inp pars cs assembled)))"
    and x: "ct_excluded t \<noteq> None"
  shows "ct_utility t = None \<and> ct_activation_path t = None \<and> ct_activated t = None \<and> \<not> ct_selected t"
proof -
  let ?run = "run_of inp pars cs assembled"
  have dist: "distinct (map candidate_id cs)" by (rule planned_distinct [OF p])
  from t obtain c where c: "c \<in> set cs" and fields:
    "ct_excluded t = dict_of (kx_exclusions ?run) (candidate_id c)"
    "ct_utility t = map_option sc_utility (kx_scores ?run (candidate_id c))"
    "ct_activation_path t = kx_paths ?run (candidate_id c)"
    "ct_activated t = kx_activated ?run (candidate_id c)"
    "ct_selected t \<longleftrightarrow> Some (candidate_id c) = selected_id_of ?run"
    by (auto simp: traces_of_def Let_def candidate_trace_of_def)
  have ex: "exclusion_of c (pi_user_intent_scope inp) \<noteq> None"
    using x by (simp add: fields kernel_run_exclusions dict_exclusions [OF dist c])
  have "selected_id_of ?run \<noteq> Some (candidate_id c)"
  proof
    assume "selected_id_of ?run = Some (candidate_id c)"
    then obtain d where "d \<in> set cs" "candidate_id d = candidate_id c"
      "exclusion_of d (pi_user_intent_scope inp) = None" by (rule selected_member [OF p])
    with c dist ex show False by (metis distinct_map inj_onD)
  qed
  with excluded_not_scored [OF dist c ex] show ?thesis by (simp add: fields)
qed

lemma traces_ids [simp]:
  "map ct_candidate_id (traces_of cs asm run sel) = map candidate_id cs"
  "map ct_merged_from (traces_of cs asm run sel) = map candidate_ids cs"
  by (simp_all add: traces_of_def Let_def candidate_trace_of_def)

text \<open>
  The trace accounts for every proposal.  A planned run's trace lists the canonical candidates in
  order; the ids merged into them are, as a multiset, exactly the ids of the proposals (nothing is
  dropped or counted twice); the entries marked selected are exactly the selected candidate; and an
  excluded candidate has no score, path, activation or selection.
\<close>

theorem plan_trace_accounts:
  assumes "plan inp = Inr r" and "canonicalize_proposals (pi_proposals inp) = Inr cs"
  defines "ts \<equiv> pt_candidates (kr_trace r)"
  shows "map ct_candidate_id ts = map candidate_id cs
    \<and> mset (concat (map ct_merged_from ts)) = mset (map candidate_id (pi_proposals inp))
    \<and> map ct_candidate_id (filter ct_selected ts)
        = (case pt_selected_candidate_id (kr_trace r) of None \<Rightarrow> [] | Some cid \<Rightarrow> [cid])
    \<and> (\<forall>t \<in> set ts. ct_excluded t \<noteq> None \<longrightarrow> ct_utility t = None \<and> ct_activation_path t = None
         \<and> ct_activated t = None \<and> \<not> ct_selected t)"
  using assms(1)
proof (cases rule: plan_result_cases)
  case (undecided cs' assembled)
  then have "cs' = cs" using assms(2) by (simp add: planned_def)
  then show ?thesis
    using merged_ids [OF assms(2)]
    by (auto simp: ts_def undecided(3) undecided_result_def candidate_trace_of_def comp_def filter_map)
next
  case (decided cs' assembled pars)
  then have eq: "cs' = cs" using assms(2) by (simp add: planned_def)
  let ?run = "run_of inp pars cs assembled"
  have ts: "ts = traces_of cs (assembly_dict cs assembled) ?run (selected_id_of ?run)"
    and sel: "pt_selected_candidate_id (kr_trace r) = selected_id_of ?run"
    by (simp_all add: ts_def decided(3) eq decided_result_def Let_def)
  show ?thesis
    using decided(1) traces_excluded [of inp cs assembled]
    unfolding ts sel eq traces_ids merged_ids [OF assms(2)] traces_selected [OF decided(1) [unfolded eq]]
    by blast
qed

theorem plan_trace_accounts_witness:
  "\<exists>r. plan sample_input = Inr r \<and> map ct_candidate_id (pt_candidates (kr_trace r)) = [''a'', ''b'', ''c'']
    \<and> mset (concat (map ct_merged_from (pt_candidates (kr_trace r)))) = {#''a'', ''b'', ''c''#}"
proof -
  obtain r where r: "plan sample_input = Inr r" using sample_plan by blast
  show ?thesis
    using r plan_trace_accounts [OF r sample_canonical]
    by (auto simp: sample_candidates_def sample_input_def)
qed

text \<open>
  The frontier and the ranking a completed run reports are the candidates hard eligibility kept:
  the frontier lists their ids in candidate order, and the ranking is a permutation of them sorted by
  descending utility, then descending tie key, then id.
\<close>

theorem plan_frontier_and_ranking:
  assumes "planned inp cs assembled" and "vd_parameters (verdict_of inp assembled) = Some pars"
  shows "\<exists>r ranked. plan inp = Inr r
    \<and> pe_frontier_candidate_ids (po_evaluation (kr_outcome r))
        = map candidate_id (filter (\<lambda>c. exclusion_of c (pi_user_intent_scope inp) = None) cs)
    \<and> pe_ranked_candidates (po_evaluation (kr_outcome r)) = map target_candidate_of ranked
    \<and> mset ranked = mset (filter (\<lambda>c. exclusion_of c (pi_user_intent_scope inp) = None) cs)
    \<and> sorted (map (\<lambda>c. (- utility_of pars (break_of inp) (assembly_dict cs assembled) c,
         map uminus (tie_key c), candidate_id c)) ranked)"
proof -
  let ?run = "run_of inp pars cs assembled" and ?E = "eligible (pi_user_intent_scope inp) cs"
  let ?ranked = "sort_key (ranking_key (kx_scores ?run)) ?E"
  have key: "ranking_key (kx_scores ?run) c
      = (- utility_of pars (break_of inp) (assembly_dict cs assembled) c, map uminus (tie_key c), candidate_id c)"
    if "c \<in> set ?ranked" for c
    using that by (simp add: ranking_key_def utility_of_def kernel_run_scores planned_distinct [OF assms(1)])
  have "sorted (map (ranking_key (kx_scores ?run)) ?ranked)" by (rule sorted_sort_key)
  then have "sorted (map (\<lambda>c. (- utility_of pars (break_of inp) (assembly_dict cs assembled) c,
      map uminus (tie_key c), candidate_id c)) ?ranked)"
    by (simp only: map_cong [OF refl key])
  then show ?thesis
    using plan_result [OF assms(1)] assms(2)
    by (intro exI [of _ "decided_result inp (context_of inp assembled) cs (assembly_dict cs assembled) ?run"]
        exI [of _ ?ranked])
      (simp add: decided_result_def Let_def evaluation_record_def run_simps eligible_def)
qed

theorem plan_frontier_and_ranking_witness:
  "\<exists>r. plan sample_input = Inr r
     \<and> pe_frontier_candidate_ids (po_evaluation (kr_outcome r)) = [''a'', ''b'', ''c'']"
  using plan_frontier_and_ranking [OF sample_planned sample_verdict]
  by (auto simp: sample_candidates_def sample_candidate_def merge_group_def sample_proposal_def
      exclusion_of_def sample_input_def readiness_floor_def)

section \<open>Canonicalization\<close>

definition settled :: "candidate_proposal \<Rightarrow> candidate_proposal" where
  "settled p = p\<lparr>candidate_id := [], origins := [], initiative_class := REACTIVE, user_initiated := False,
     request_aligned := False, request_priority := 0\<rparr>"

lemma settled_sel:
  "canonical_key (settled p) = canonical_key p" "focus_target (settled p) = focus_target p"
  "target_mode (settled p) = target_mode p" "learning_intent (settled p) = learning_intent p"
  "evidence_modality (settled p) = evidence_modality p" "opportunity_binding_class (settled p) = opportunity_binding_class p"
  "benefit (settled p) = benefit p" "cost (settled p) = cost p"
  "content_readiness (settled p) = content_readiness p" "prerequisite_state (settled p) = prerequisite_state p"
  "prerequisite_scaffoldable (settled p) = prerequisite_scaffoldable p" "coverage_service_state (settled p) = coverage_service_state p"
  "modality_available (settled p) = modality_available p" "expired (settled p) = expired p"
  "deprecated (settled p) = deprecated p" "suppressed (settled p) = suppressed p"
  "runtime_generated_ready (settled p) = runtime_generated_ready p" "task_aligned (settled p) = task_aligned p"
  "critical_repair (settled p) = critical_repair p" "goal_relation (settled p) = goal_relation p"
  "schedule_row (settled p) = schedule_row p"
  by (simp_all add: settled_def)

lemma settled_fields:
  assumes "settled p = settled q"
  shows "canonical_key p = canonical_key q" "focus_target p = focus_target q"
    "target_mode p = target_mode q" "learning_intent p = learning_intent q"
    "evidence_modality p = evidence_modality q" "opportunity_binding_class p = opportunity_binding_class q"
    "benefit p = benefit q" "cost p = cost q"
    "content_readiness p = content_readiness q" "prerequisite_state p = prerequisite_state q"
    "prerequisite_scaffoldable p = prerequisite_scaffoldable q" "coverage_service_state p = coverage_service_state q"
    "modality_available p = modality_available q" "expired p = expired q"
    "deprecated p = deprecated q" "suppressed p = suppressed q"
    "runtime_generated_ready p = runtime_generated_ready q" "task_aligned p = task_aligned q"
    "critical_repair p = critical_repair q" "goal_relation p = goal_relation q"
    "schedule_row p = schedule_row q"
  by (simp_all only: settled_sel [of p, symmetric] settled_sel [of q, symmetric] assms)

lemma INITIATIVE_TIE_RANK_inject: "INITIATIVE_TIE_RANK a = INITIATIVE_TIE_RANK b \<longleftrightarrow> a = b"
  by (cases a; cases b) auto

lemma max_by_initiative_cong:
  assumes "insert x (set xs) = insert y (set ys)"
  shows "max_by INITIATIVE_TIE_RANK x xs = max_by INITIATIVE_TIE_RANK y ys"
  using max_by_key [of INITIATIVE_TIE_RANK x xs] max_by_key [of INITIATIVE_TIE_RANK y ys] assms
  by (simp add: INITIATIVE_TIE_RANK_inject [symmetric])

lemma merge_group_cong:
  assumes m: "mset (p # ps) = mset (q # qs)" and s: "settled p = settled q"
  shows "merge_group key p ps = merge_group key q qs"
proof -
  have set: "set (p # ps) = set (q # qs)" using m by (metis set_mset_mset)
  then have im: "f ` set (p # ps) = f ` set (q # qs)" for f :: "candidate_proposal \<Rightarrow> 'x" by (rule arg_cong)
  have sorts: "sort (map candidate_id (p # ps)) = sort (map candidate_id (q # qs))"
  proof (rule properties_for_sort)
    show "mset (sort (map candidate_id (q # qs))) = mset (map candidate_id (p # ps))"
      using m by (simp only: mset_sort mset_map)
  qed (rule sorted_sort)
  have ini: "max_by INITIATIVE_TIE_RANK (initiative_class p) (map initiative_class ps)
      = max_by INITIATIVE_TIE_RANK (initiative_class q) (map initiative_class qs)"
    using im [of initiative_class] by (intro max_by_initiative_cong) simp
  have os: "sorted_set (concat (map origins (p # ps))) = sorted_set (concat (map origins (q # qs)))"
    unfolding sorted_set_eq_iff set_concat set_map set ..
  have ex: "list_ex P (p # ps) = list_ex P (q # qs)" for P using set by (simp only: list_ex_iff)
  have mins: "Min (set (map f (p # ps))) = Min (set (map f (q # qs)))"
    for f :: "candidate_proposal \<Rightarrow> 'y::linorder" using im [of f] by (simp only: set_map)
  show ?thesis
    unfolding merge_group_def Let_def mins ini os ex sorts settled_fields [OF s] ..
qed

definition agreeing :: "candidate_proposal list \<Rightarrow> bool" where
  "agreeing ps \<longleftrightarrow> (\<forall>p \<in> set ps. \<forall>q \<in> set ps. canonical_key p = canonical_key q \<longrightarrow> settled p = settled q)"

lemma agreeing_group:
  assumes "agreeing ps" and "key \<in> canonical_key ` set ps"
  shows "canonicalize_group ps key = Inr (merge_group key (hd (group_of ps key)) (tl (group_of ps key)))"
proof -
  let ?g = "group_of ps key"
  have ne: "?g \<noteq> []" using assms(2) by (rule group_of_nonempty)
  have "settled q = settled (hd ?g)" if "q \<in> set (tl ?g)" for q
  proof -
    have "q \<in> set ?g" "hd ?g \<in> set ?g" using that ne by (auto dest: list.set_sel)
    then show ?thesis using assms(1) by (auto simp: agreeing_def group_of_def)
  qed
  then have "check_mergeable key (hd ?g) q = Inr ()" if "q \<in> set (tl ?g)" for q
    using settled_fields [of q "hd ?g"] that
    by (simp add: check_mergeable_def identity_conflict_def checkE_def vector_of_def)
  then have "\<exists>us. traverseE (check_mergeable key (hd ?g)) (tl ?g) = Inr us"
    by (intro traverseE_total) blast
  then show ?thesis by (auto simp: canonicalize_group_def Let_def)
qed

lemma group_of_mset:
  assumes "mset ps = mset qs" and "agreeing ps" and "key \<in> canonical_key ` set ps"
  shows "merge_group key (hd (group_of ps key)) (tl (group_of ps key))
    = merge_group key (hd (group_of qs key)) (tl (group_of qs key))"
proof -
  have set: "set qs = set ps" using assms(1) by (metis set_mset_mset)
  have ne: "group_of ps key \<noteq> []" "group_of qs key \<noteq> []"
    using group_of_nonempty assms(3) set by auto
  have "mset (group_of ps key) = mset (group_of qs key)" using assms(1) by (simp add: group_of_def)
  moreover have "hd (group_of ps key) \<in> set (group_of ps key)" "hd (group_of qs key) \<in> set (group_of qs key)"
    using ne by simp_all
  then have "settled (hd (group_of ps key)) = settled (hd (group_of qs key))"
    using assms(2) set by (auto simp: group_of_def agreeing_def)
  ultimately show ?thesis using ne by (intro merge_group_cong) auto
qed

text \<open>
  When proposals of one canonical key agree on every field the merge takes from the first arrival,
  canonicalization does not depend on the order in which the proposals arrive: any permutation of an
  accepted list gives the same candidates.
\<close>

theorem canonicalize_order_independent:
  assumes "canonicalize_proposals ps = Inr cs" and "mset qs = mset ps" and "agreeing ps"
  shows "canonicalize_proposals qs = Inr cs"
proof -
  have set: "set qs = set ps" using assms(2) by (metis set_mset_mset)
  have keys: "sorted_set (map canonical_key qs) = sorted_set (map canonical_key ps)"
    by (simp add: sorted_set_eq_iff set)
  have agree: "agreeing qs" using assms(3) by (simp only: agreeing_def set)
  have "list_all2 (\<lambda>key c. canonicalize_group qs key = Inr c) (sorted_set (map canonical_key qs)) cs"
    unfolding canonicalize_proposals_Inr(1) [OF assms(1)] keys list_all2_map2 list_all2_same
  proof
    fix key assume "key \<in> set (sorted_set (map canonical_key ps))"
    then have k: "key \<in> canonical_key ` set ps" "key \<in> canonical_key ` set qs" by (simp_all add: set)
    show "canonicalize_group qs key = Inr (merge_group key (hd (group_of ps key)) (tl (group_of ps key)))"
      using agreeing_group [OF agree k(2)] group_of_mset [OF assms(2) [symmetric] assms(3) k(1)] by simp
  qed
  then have tr: "traverseE (canonicalize_group qs) (sorted_set (map canonical_key qs)) = Inr cs"
    by (simp add: traverseE_Inr_iff)
  have "\<exists>us. traverseE (\<lambda>p. checkE (canonical_key p \<noteq> [])
      (PlannerInputError (NoCanonicalKey (candidate_id p)))) ps = Inr us"
    using assms(1) unfolding canonicalize_proposals_def bindE_Inr_iff by blast
  then have "\<exists>us. traverseE (\<lambda>p. checkE (canonical_key p \<noteq> [])
      (PlannerInputError (NoCanonicalKey (candidate_id p)))) qs = Inr us"
    unfolding traverseE_checkE set .
  then show ?thesis
    using tr canonicalize_proposals_Inr(2) [OF assms(1)]
    by (auto simp: canonicalize_proposals_def checkE_def)
qed

theorem canonicalize_order_independent_witness:
  "canonicalize_proposals (rev (pi_proposals sample_input)) = Inr sample_candidates"
  by (rule canonicalize_order_independent [OF sample_canonical])
    (auto simp: agreeing_def sample_input_def)

text \<open>
  Without that agreement the decision does depend on arrival order.  The merge takes the
  non-identity fields (here \<open>expired\<close>) from whichever proposal of a key arrives first, so the same two
  proposals select a target in one order and yield no target in the other.
\<close>

definition order_proposal :: "bool \<Rightarrow> candidate_proposal" where
  "order_proposal e = (sample_proposal ''k1'' (if e then ''a'' else ''b'') True 0)\<lparr>expired := e\<rparr>"

definition order_input :: "bool \<Rightarrow> planning_input" where
  "order_input e = sample_input\<lparr>pi_proposals := [order_proposal e, order_proposal (\<not> e)]\<rparr>"

definition order_candidate :: "bool \<Rightarrow> canonical_candidate" where
  "order_candidate e = merge_group ''k1'' (order_proposal e) [order_proposal (\<not> e)]"

lemma order_candidate_eq:
  "order_candidate e = (sample_candidate ''k1'' ''a'' True 0)\<lparr>expired := e, candidate_ids := [''a'', ''b'']\<rparr>"
proof -
  have "Min {''a'', ''b''} = ''a''" "Min {''b'', ''a''} = ''a''"
    "sort [''a'', ''b''] = [''a'', ''b'']" "sort [''b'', ''a''] = [''a'', ''b'']"
    by code_simp+
  moreover have "sorted_set [''SCHEDULED_REVIEW'', ''SCHEDULED_REVIEW''] = sorted_set [''SCHEDULED_REVIEW'']"
    by (simp add: sorted_set_def)
  ultimately show ?thesis
    by (cases e) (simp_all add: order_candidate_def sample_candidate_def merge_group_def order_proposal_def
        sample_proposal_def del: sort_key_simps)
qed

lemmas order_defs = order_candidate_eq sample_candidate_def merge_group_def sample_proposal_def

lemma order_canonical: "canonicalize_proposals (pi_proposals (order_input e)) = Inr [order_candidate e]"
proof -
  have "sorted_set [''k1'', ''k1''] = [''k1'']" by (simp add: sorted_set_def)
  then show ?thesis
    by (simp add: order_input_def canonicalize_proposals_def canonicalize_group_def group_of_def
        checkE_def check_mergeable_def identity_conflict_def vector_of_def order_candidate_def
        order_proposal_def sample_proposal_def)
qed

lemma order_fields:
  "exclusion_of (order_candidate e) LEARNING_REQUEST = (if e then Some EXPIRED else None)"
  "activation_path_of (order_candidate e) LEARNING_REQUEST = USER_INITIATED"
  by (simp_all add: order_defs exclusion_of_def readiness_floor_def activation_path_of_def)

lemma order_assembly:
  "\<exists>a. assemble_candidate_factors (order_candidate e) (Some sample_authority) = Inr a \<and> as_gaps a = []"
  by (simp add: assemble_candidate_factors_def order_defs
      validate_identity_def checkE_def validate_declared_vector_def checked_reading_def
      BENEFIT_FACTORS_def COST_FACTORS_def validate_scaffold_costs_def scaffolded_def
      schedule_leg_def sample_authority_def schedule_urgency_of_def sample_row_def
      owned_schedule_def number_def goal_leg_def goal_relevance_of_def owned_goal_def dict_of_def)

lemma order_decision:
  "\<exists>r. plan (order_input e) = Inr r \<and> pt_decision (kr_trace r) = Some (if e then NO_TARGET else SELECT)"
proof -
  obtain a where a: "assemble_candidate_factors (order_candidate e) (Some sample_authority) = Inr a"
    "as_gaps a = []" using order_assembly by blast
  have fields: "pi_user_intent_scope (order_input e) = LEARNING_REQUEST"
    "pi_planning_context (order_input e) = Some sample_authority"
    by (simp_all add: order_input_def sample_input_def)
  have p: "planned (order_input e) [order_candidate e] [a]"
    by (simp add: planned_def order_canonical refuse_contradictory_scope_def fields a)
  have v: "vd_parameters (verdict_of (order_input e) [a]) = Some (POLICY_PROFILES BALANCED)"
    using a(2) by (simp add: verdict_of_def context_verdict_def fields sample_authority_def)
  have "admitted (context_for (order_input e) (POLICY_PROFILES BALANCED) [order_candidate e] [a])
      (set [order_candidate e]) = {} \<longleftrightarrow> e"
    by (auto simp: admitted_def context_for_def fields order_fields)
  with decide_run(3) [OF p, of "POLICY_PROFILES BALANCED"] plan_result [OF p] v show ?thesis
    by (auto simp: decided_result_def Let_def)
qed

theorem plan_arrival_order_dependence:
  "\<exists>inp r r'. plan inp = Inr r \<and> pt_decision (kr_trace r) = Some SELECT
     \<and> plan (inp\<lparr>pi_proposals := rev (pi_proposals inp)\<rparr>) = Inr r'
     \<and> pt_decision (kr_trace r') = Some NO_TARGET"
proof -
  have "(order_input False)\<lparr>pi_proposals := rev (pi_proposals (order_input False))\<rparr> = order_input True"
    by (simp add: order_input_def)
  then show ?thesis using order_decision [of False] order_decision [of True] by auto metis
qed

section \<open>Hard constraints, scoring and the prune\<close>

text \<open>
  C5: no run ever selects a candidate that violates a hard constraint.  A selected candidate is a
  canonical candidate that is not expired, deprecated or suppressed, has its modality and its
  prerequisites, fits the user's scope (never under \<open>JUST_CHAT\<close>; request-aligned under a targeted
  request; requested, task-aligned or a critical repair under a non-learning task), meets the readiness
  floor of its kind, and declares every factor inside the unit interval.
\<close>

theorem plan_respects_hard_constraints:
  assumes "plan inp = Inr r" and "pt_selected_candidate_id (kr_trace r) = Some cid"
  shows "\<exists>cs. canonicalize_proposals (pi_proposals inp) = Inr cs \<and> (\<exists>c \<in> set cs. candidate_id c = cid
    \<and> \<not> expired c \<and> \<not> deprecated c \<and> \<not> suppressed c \<and> modality_available c
    \<and> prerequisite_state c \<noteq> BLOCKED
    \<and> (prerequisite_state c = PREREQ_UNKNOWN \<longrightarrow> target_mode c = MODE_PROBE \<or> prerequisite_scaffoldable c)
    \<and> pi_user_intent_scope inp \<noteq> JUST_CHAT
    \<and> (pi_user_intent_scope inp = TARGETED_LEARNING_REQUEST \<longrightarrow> request_aligned c)
    \<and> (pi_user_intent_scope inp = NON_LEARNING_TASK \<longrightarrow> user_initiated c \<or> task_aligned c \<or> critical_repair c)
    \<and> (READINESS_RANK (readiness_floor c) \<le> READINESS_RANK (content_readiness c)
        \<or> runtime_generated_ready c \<and> user_initiated c)
    \<and> complete_vector c)"
  using assms(1)
proof (cases rule: plan_result_cases)
  case (undecided cs assembled)
  then show ?thesis using assms(2) by (simp add: undecided_result_def)
next
  case (decided cs assembled pars)
  then have "selected_id_of (run_of inp pars cs assembled) = Some cid"
    using assms(2) by (simp add: decided_result_def Let_def)
  then obtain c where c: "c \<in> set cs" "candidate_id c = cid"
    and e: "exclusion_of c (pi_user_intent_scope inp) = None"
    by (rule selected_member [OF decided(1)])
  have "complete_vector c" by (rule planned_complete [OF decided(1) c(1)])
  with c e decided(1) show ?thesis
    by (auto simp: planned_def exclusion_of_def split: if_splits)
qed

theorem plan_respects_hard_constraints_witness:
  "\<exists>r cid. plan (order_input False) = Inr r \<and> pt_selected_candidate_id (kr_trace r) = Some cid
     \<and> (\<exists>cs. canonicalize_proposals (pi_proposals (order_input False)) = Inr cs
         \<and> (\<exists>c \<in> set cs. candidate_id c = cid \<and> \<not> expired c))"
proof -
  obtain r where r: "plan (order_input False) = Inr r" "pt_decision (kr_trace r) = Some SELECT"
    using order_decision [of False] by auto
  from r(1) have "pt_selected_candidate_id (kr_trace r) \<noteq> None"
    using r(2) by (cases rule: plan_result_cases)
      (auto simp: undecided_result_def decided_result_def Let_def selected_id_of_def split: if_splits)
  then obtain cid where "pt_selected_candidate_id (kr_trace r) = Some cid" by blast
  with r(1) plan_respects_hard_constraints [OF r(1) this] show ?thesis by blast
qed

lemma merged_user_initiated:
  assumes "canonicalize_proposals ps = Inr cs"
  shows "(\<exists>c \<in> set cs. user_initiated c) \<longleftrightarrow> (\<exists>p \<in> set ps. user_initiated p)"
proof -
  have u: "user_initiated (merge_group key (hd (group_of ps key)) (tl (group_of ps key)))
      \<longleftrightarrow> (\<exists>p \<in> set ps. canonical_key p = key \<and> user_initiated p)" if "key \<in> canonical_key ` set ps" for key
  proof -
    have "hd (group_of ps key) # tl (group_of ps key) = group_of ps key"
      using group_of_nonempty [OF that] by simp
    then have "user_initiated (merge_group key (hd (group_of ps key)) (tl (group_of ps key)))
        = list_ex user_initiated (group_of ps key)" by (simp add: merge_group_def Let_def)
    then show ?thesis by (auto simp: list_ex_iff group_of_def)
  qed
  have "set cs = (\<lambda>key. merge_group key (hd (group_of ps key)) (tl (group_of ps key))) ` canonical_key ` set ps"
    using canonicalize_proposals_Inr(1) [OF assms] by simp
  then show ?thesis using u by auto
qed

text \<open>
  \<open>JUST_CHAT\<close> with a request in hand is refused as contradictory, at whatever position the
  user-initiated proposal stands; the same proposals under any other scope are not refused for it.
\<close>

theorem plan_refuses_contradictory_chat:
  assumes "canonicalize_proposals (pi_proposals inp) = Inr cs"
  shows "(\<exists>cid. plan inp = Inl (PlannerInputError (ContradictoryScope cid)))
    \<longleftrightarrow> pi_user_intent_scope inp = JUST_CHAT \<and> (\<exists>p \<in> set (pi_proposals inp). user_initiated p)"
proof (cases "refuse_contradictory_scope (pi_user_intent_scope inp) cs")
  case (Inl e)
  then have "pi_user_intent_scope inp = JUST_CHAT \<and> (\<exists>c \<in> set cs. user_initiated c)"
    and "\<exists>cid. e = PlannerInputError (ContradictoryScope cid)"
    by (auto simp: refuse_contradictory_scope_def result_simps split: if_splits dest!: traverseE_Inl_ex)
  with Inl assms merged_user_initiated [OF assms] show ?thesis by (auto simp: plan_def Let_def)
next
  case (Inr u)
  then have "\<not> (pi_user_intent_scope inp = JUST_CHAT \<and> (\<exists>c \<in> set cs. user_initiated c))"
    using traverseE_checkE [of "\<lambda>c. \<not> user_initiated c" "\<lambda>c. PlannerInputError (ContradictoryScope (candidate_id c))" cs]
    by (auto simp: refuse_contradictory_scope_def result_simps split: if_splits)
  moreover have "plan inp \<noteq> Inl (PlannerInputError (ContradictoryScope cid))" for cid
  proof
    assume pl: "plan inp = Inl (PlannerInputError (ContradictoryScope cid))"
    have "\<nexists>a. planned inp cs a" using plan_result pl by fastforce
    then obtain e where e: "traverseE (\<lambda>c. assemble_candidate_factors c (pi_planning_context inp)) cs = Inl e"
      using assms Inr by (cases "traverseE (\<lambda>c. assemble_candidate_factors c (pi_planning_context inp)) cs")
        (auto simp: planned_def)
    then have "e = PlannerInputError (ContradictoryScope cid)" using pl assms Inr by (simp add: plan_def Let_def)
    then show False using e step2_scope by (blast dest: traverseE_Inl_ex)
  qed
  ultimately show ?thesis using merged_user_initiated [OF assms] by blast
qed

theorem plan_refuses_contradictory_chat_witness:
  "\<exists>cid. plan (sample_input\<lparr>pi_user_intent_scope := JUST_CHAT\<rparr>) = Inl (PlannerInputError (ContradictoryScope cid))"
  using plan_refuses_contradictory_chat [of "sample_input\<lparr>pi_user_intent_scope := JUST_CHAT\<rparr>"] sample_canonical
  by (auto simp: sample_input_def sample_proposal_def)

definition base_utility :: "policy_profile_parameters \<Rightarrow> canonical_candidate \<Rightarrow> float64" where
  "base_utility pars c = fsub
     (fmul (pp_initiative_multiplier pars (initiative_class c))
       (py_sum (map (\<lambda>f. fmul (BENEFIT_WEIGHTS f) (factor_at (benefit c) f)) BENEFIT_FACTORS)))
     (fmul (pp_cost_multiplier pars)
       (py_sum (map (\<lambda>f. fmul (COST_WEIGHTS f) (factor_at (cost c) f)) COST_FACTORS)))"

text \<open>
  The utility of an assembled candidate is the profile-weighted benefit of its declared vector
  minus its weighted cost, whatever authority supplied the numbers (a number an authority owns and the
  proposal contradicts is refused, never silently replaced); the coverage service bonus never lowers
  it, and the \<open>LOUNGE\<close> profile never grants one.
\<close>

theorem utility_of_declared_vector:
  assumes "assemble_candidate_factors c a = Inr s"
  shows "base_utility (POLICY_PROFILES p) c \<le> sc_utility (score s c (POLICY_PROFILES p) nb)
    \<and> (sc_utility (score s c (POLICY_PROFILES p) nb) = base_utility (POLICY_PROFILES p) c
        \<or> coverage_service_state c = CRITICAL \<and> nb \<and> p \<noteq> LOUNGE)"
proof -
  let ?b = "pp_coverage_service_bonus (POLICY_PROFILES p)"
  have u: "sc_utility (score s c (POLICY_PROFILES p) nb)
      = (if coverage_service_state c = CRITICAL \<and> nb \<and> 0 < ?b
         then fadd (base_utility (POLICY_PROFILES p) c) ?b else base_utility (POLICY_PROFILES p) c)"
    by (simp add: score_def Let_def base_utility_def assemble_values [OF assms])
  have "is_float64 (base_utility (POLICY_PROFILES p) c)" by (simp add: base_utility_def)
  then have "base_utility (POLICY_PROFILES p) c \<le> fadd (base_utility (POLICY_PROFILES p) c) ?b" if "0 < ?b"
    using that by (intro fadd_ge) auto
  moreover have "\<not> 0 < ?b" if "p = LOUNGE" using that by (simp add: decimal_def)
  ultimately show ?thesis unfolding u by auto
qed

theorem utility_of_declared_vector_witness:
  "\<exists>s. assemble_candidate_factors (sample_candidate ''k1'' ''a'' True 0) (Some sample_authority) = Inr s
     \<and> sc_utility (score s (sample_candidate ''k1'' ''a'' True 0) (POLICY_PROFILES LOUNGE) True)
       = base_utility (POLICY_PROFILES LOUNGE) (sample_candidate ''k1'' ''a'' True 0)"
proof -
  obtain s where s: "assemble_candidate_factors (sample_candidate ''k1'' ''a'' True 0) (Some sample_authority) = Inr s"
    using sample_assembly [of 0] by simp
  then show ?thesis using utility_of_declared_vector [OF s, of LOUNGE True] by blast
qed

text \<open>
  The Pareto prune keeps exactly the candidates nobody in the class dominates, and loses nothing
  that matters: each removed candidate is dominated by a kept one, and its trace entry names exactly
  its dominators.
\<close>

theorem pareto_prune_sound:
  assumes "pareto_prune active paths = (kept, dominated)"
  shows "set kept = {c \<in> set active. \<not> (\<exists>d \<in> set active. dominates paths d c)}
    \<and> (\<forall>c \<in> set active - set kept. \<exists>d \<in> set kept. dominates paths d c)
    \<and> (\<forall>(cid, ds) \<in> set dominated. \<exists>c \<in> set active - set kept. candidate_id c = cid
         \<and> set ds = candidate_id ` {d \<in> set active. dominates paths d c})"
proof -
  have kept: "kept = pareto.undominated paths active" and dom: "dominated = snd (pareto_prune active paths)"
    using pareto_prune_kept [of active paths] assms by simp_all
  have set: "set kept = {c \<in> set active. \<not> (\<exists>d \<in> set active. dominates paths d c)}"
    by (auto simp: kept pareto.undominated_def)
  moreover have "\<exists>d \<in> set kept. dominates paths d c" if "c \<in> set active - set kept" for c
    using pareto.undominated_covers [of c active paths] that by (auto simp: kept)
  moreover have "\<exists>c \<in> set active - set kept. candidate_id c = cid
      \<and> set ds = candidate_id ` {d \<in> set active. dominates paths d c}" if "(cid, ds) \<in> set dominated" for cid ds
  proof -
    from that have "(cid, ds) \<in> set (snd (pareto_prune active paths))" by (simp add: dom)
    then obtain c where c: "c \<in> set active" "candidate_id c = cid" "ds \<noteq> []"
      "set ds = candidate_id ` {d \<in> set active. dominates paths d c}"
      using pareto_prune_dominated by blast
    then have "c \<notin> set kept" unfolding set by (auto simp flip: set_empty)
    with c show ?thesis by blast
  qed
  ultimately show ?thesis by blast
qed

theorem pareto_prune_sound_witness:
  "\<exists>kept dominated. pareto_prune [sample_candidate ''k1'' ''a'' True 0,
      (sample_candidate ''k2'' ''b'' True 0)\<lparr>benefit := \<lambda>_. Some 1\<rparr>] (\<lambda>_. Some USER_INITIATED) = (kept, dominated)
    \<and> sample_candidate ''k1'' ''a'' True 0 \<notin> set kept"
proof -
  let ?a = "sample_candidate ''k1'' ''a'' True 0"
  let ?b = "(sample_candidate ''k2'' ''b'' True 0)\<lparr>benefit := \<lambda>_. Some 1\<rparr>"
  let ?paths = "\<lambda>_. Some USER_INITIATED"
  obtain kept dominated where k: "pareto_prune [?a, ?b] ?paths = (kept, dominated)"
    by (cases "pareto_prune [?a, ?b] ?paths")
  have "dominates ?paths ?b ?a"
    by (simp add: dominates_def dominance_class_of_def sample_candidate_def merge_group_def
        sample_proposal_def list_all_iff list_ex_iff)
  then have "?a \<notin> set kept" using pareto_prune_sound [OF k] by auto
  with k show ?thesis by blast
qed

section \<open>Feature assembly\<close>

text \<open>
  The assembled feature authority is \<open>COMPLETE\<close> exactly when every authority is present and
  consistent: a learning snapshot at the current watermark, a schedule view all of whose rows carry
  that watermark, a teaching policy whose frequency maps to a profile, a goal portfolio without
  assessment targets, readiness known for every target, and the constraint view.  A complete authority
  is valid, current and mapped, so the kernel's step 3 never degrades a run on it for lack of a
  profile.
\<close>

theorem feature_authority_complete_iff:
  "fa_status (assemble_feature_authority inp) = COMPLETE \<longleftrightarrow>
     (\<exists>snap w view policy m goals levels.
        ai_learning_snapshot inp = Some snap \<and> ai_current_learning_watermark inp = Some w
      \<and> evidence_watermark snap = w
      \<and> ai_schedule_view inp = Some view
      \<and> source_learning_watermark ` set (rows_of view) \<subseteq> {int_text w}
      \<and> ai_teaching_policy inp = Some policy \<and> profile_mapping_of policy = Some m
      \<and> fa_planner_profile (assemble_feature_authority inp) = Some (pm_profile m)
      \<and> ai_goal_portfolio inp = Some goals \<and> assessment_targets goals = []
      \<and> ai_curriculum_readiness inp = Some levels \<and> None \<notin> snd ` set levels
      \<and> ai_constraint_view_present inp
      \<and> fa_snapshot_status (assemble_feature_authority inp) = VALID
      \<and> fa_schedule_authority (assemble_feature_authority inp) = CURRENT
      \<and> fa_missing_authorities (assemble_feature_authority inp) = [])" (is "_ \<longleftrightarrow> ?rhs")
proof -
  note fields = feature_authority_fields [of inp]
  show ?thesis
  proof
    assume "fa_status (assemble_feature_authority inp) = COMPLETE"
    then have "snd (snapshot_leg (ai_learning_snapshot inp) (ai_current_learning_watermark inp)) = []"
      "snd (schedule_leg_of (ai_schedule_view inp) (ai_current_learning_watermark inp)) = []"
      "snd (policy_leg (ai_teaching_policy inp)) = []" "goal_portfolio_leg (ai_goal_portfolio inp) = []"
      "readiness_leg (ai_curriculum_readiness inp) = []" "constraint_leg (ai_constraint_view_present inp) = []"
      unfolding fields(1) by blast+
    note legs = this
    from legs(1,2,3) have "fa_snapshot_status (assemble_feature_authority inp) = VALID"
      "fa_schedule_authority (assemble_feature_authority inp) = CURRENT"
      "fa_missing_authorities (assemble_feature_authority inp) = []"
      using leg_verdicts legs unfolding fields by simp_all
    with legs show ?rhs
      unfolding snapshot_leg_Nil_iff schedule_leg_Nil_iff policy_leg_Nil_iff goal_portfolio_leg_Nil_iff
        readiness_leg_Nil_iff constraint_leg_Nil_iff fields(5)
      by force
  next
    assume ?rhs
    then show "fa_status (assemble_feature_authority inp) = COMPLETE"
      unfolding fields(1) snapshot_leg_Nil_iff schedule_leg_Nil_iff goal_portfolio_leg_Nil_iff
        readiness_leg_Nil_iff constraint_leg_Nil_iff
      by (elim exE conjE) (simp add: policy_leg_def)
  qed
qed

end
