(* ===== verification/Gate.thy ===== *)
theory Gate
  imports Prelude
begin

text \<open>
  \<^verbatim>\<open>elc/teaching/gate.py\<close>: the Teaching Gate's four profiles.  A fact bundle is a record over the
  fields all bundles share (the source's \<^verbatim>\<open>_CarriedFacts\<close>); a fact is a \<^typ>\<open>string\<close>, because the
  contract check refuses words outside the vocabulary.  \<^verbatim>\<open>GateInputError\<close> is a left value with one
  fault per check.  Each profile is validation, then critical-state completeness, then its reasons in
  the order the code appends them, then the shared verdict.
\<close>

section \<open>Vocabulary\<close>

datatype deny_reason = SAFETY_PRIVACY_BLOCK | ACTION_CANCELLED | ACTION_SUPERSEDED | AUTHORIZATION_INVALID
  | TARGET_INVALID | CONTENT_INVALID | TARGET_SUPPRESSED | USER_INTENT_BLOCK | AUTO_TEACH_DISABLED
  | TEACHING_LOCK_CONFLICT | TEACHING_LOCK_INVALID | MOMENT_NOT_CONTINUABLE | HARD_PROTECTED_FLOW
  | AUTO_SESSION_BUDGET_EXHAUSTED | HARD_COOLDOWN_ACTIVE | HARD_ATTEMPT_LIMIT | HARD_TEACHING_TURN_LIMIT

definition GATE_CONTEXTS :: "string list" where
  "GATE_CONTEXTS = [''OPEN'', ''AUTO_CONTINUE'', ''USER_REQUESTED_CONTINUE'']"

definition OPEN_ACTIONS :: "string list" where
  "OPEN_ACTIONS = [''OPENING'']"

definition USER_INTENT_SCOPES :: "string list" where
  "USER_INTENT_SCOPES = [''OPEN'', ''LEARNING_REQUEST'', ''TARGETED_LEARNING_REQUEST'', ''JUST_CHAT'',
     ''NON_LEARNING_TASK'', ''ACTIVE_TEACHING_CONTINUATION'']"

definition USER_INITIATED_OPEN_INTENTS :: "string list" where
  "USER_INITIATED_OPEN_INTENTS = [''LEARNING_REQUEST'', ''TARGETED_LEARNING_REQUEST'']"

definition DENY_PRECEDENCE :: "deny_reason list" where
  "DENY_PRECEDENCE = [SAFETY_PRIVACY_BLOCK, ACTION_CANCELLED, ACTION_SUPERSEDED, AUTHORIZATION_INVALID,
     TARGET_INVALID, CONTENT_INVALID, TARGET_SUPPRESSED, USER_INTENT_BLOCK, AUTO_TEACH_DISABLED,
     TEACHING_LOCK_CONFLICT, TEACHING_LOCK_INVALID, MOMENT_NOT_CONTINUABLE, HARD_PROTECTED_FLOW,
     AUTO_SESSION_BUDGET_EXHAUSTED, HARD_COOLDOWN_ACTIVE, HARD_ATTEMPT_LIMIT, HARD_TEACHING_TURN_LIMIT]"

definition USER_INITIATED_OPEN_REASON_CODES :: "deny_reason list" where
  "USER_INITIATED_OPEN_REASON_CODES = filter (\<lambda>code. code \<in> {SAFETY_PRIVACY_BLOCK, ACTION_CANCELLED,
     ACTION_SUPERSEDED, AUTHORIZATION_INVALID, TARGET_INVALID, CONTENT_INVALID, TARGET_SUPPRESSED,
     USER_INTENT_BLOCK, TEACHING_LOCK_CONFLICT}) DENY_PRECEDENCE"

definition GATE_POLICY_VERSION :: string where
  "GATE_POLICY_VERSION = ''bf-03-gate-v1.1''"

definition TARGET_STATUSES :: "string list" where
  "TARGET_STATUSES = [''VALID'', ''INVALID'', ''DEPRECATED'', ''MISSING'', ''UNKNOWN'']"

definition CONTENT_STATUSES :: "string list" where
  "CONTENT_STATUSES = [''VALID'', ''INVALID'', ''UNKNOWN'']"

definition AUTHORIZATION_STATUSES :: "string list" where
  "AUTHORIZATION_STATUSES = [''VALID'', ''INVALIDATED'', ''UNKNOWN'']"

definition SUBJECT_STATUSES :: "string list" where
  "SUBJECT_STATUSES = [''ACTIVE'', ''CANCELLED'', ''SUPERSEDED'', ''UNKNOWN'']"

definition SAFETY_PRIVACY_STATUSES :: "string list" where
  "SAFETY_PRIVACY_STATUSES = [''ALLOW'', ''BLOCK'', ''UNKNOWN'']"

definition LOCK_STATES :: "string list" where
  "LOCK_STATES = [''NONE'', ''OWNED_BY_THIS_MOMENT'', ''OWNED_BY_OTHER'', ''UNKNOWN'']"

definition GATE_STATE_STATUSES :: "string list" where
  "GATE_STATE_STATUSES = [''COMPLETE'', ''INCOMPLETE'']"

definition SNAPSHOT_STATUSES :: "string list" where
  "SNAPSHOT_STATUSES = [''VALID'', ''UNKNOWN'']"

datatype gate_fault = InvalidGateContext | WrongGateContext | InvalidProposedAction
  | WrongAuthorizationPath | InvalidUserIntentScope | WrongAuthorizationBasis | NotOpeningAction
  | NoDecisionCycle | NoCandidate | PlannerNotSucceeded | PlannerNotSelect | NoSelectedCandidate
  | MomentExists | AutomaticClaimsUser | NoMomentId | ContinuationNotRequested | ContinuationClaimed
  | InvalidConsentClass | InvalidMomentSource | InvalidFactValue string

section \<open>Fact bundles\<close>

record carried_facts =
  gf_proposed_action :: string
  gf_gate_context :: string
  gf_authorization_path :: string
  gf_authorization_basis :: string
  gf_user_intent_scope :: string
  gf_authorization_status :: string
  gf_subject_status :: string
  gf_target_status :: string
  gf_content_status :: string
  gf_lock_state :: string
  gf_learning_snapshot_status :: string
  gf_gate_state_status :: string
  gf_safety_privacy_status :: string
  gf_target_suppressed :: bool

record user_initiated_open_facts = carried_facts +
  of_decision_cycle_id :: string
  of_candidate_id :: string

text \<open>
  \<open>selected_candidate_id\<close> of the automatic bundle is a property returning \<open>candidate_id\<close>, so it is
  not a field.
\<close>

record automatic_open_facts = user_initiated_open_facts +
  ao_planner_execution_status :: string
  ao_planner_decision :: string
  ao_user_initiated :: bool
  ao_moment_id :: "string option"
  ao_automatic_teaching_enabled :: bool
  ao_hard_protected_flow :: bool
  ao_automatic_session_budget_exhausted :: bool
  ao_hard_cooldown_active :: bool

record continuation_facts = carried_facts +
  cf_moment_id :: string
  cf_decision_cycle_id :: "string option"
  cf_candidate_id :: string
  cf_continuation_requested :: bool
  cf_moment_state :: string
  cf_hard_attempt_limit_exhausted :: bool
  cf_hard_teaching_turn_limit_exhausted :: bool
  cf_terminalizing_action :: bool

record auto_continuation_facts = continuation_facts +
  ac_moment_consent_class :: string
  ac_user_initiated :: bool
  ac_automatic_teaching_enabled :: bool
  ac_hard_protected_flow :: bool

datatype gate_execution_status = GATE_SUCCEEDED | GATE_DEGRADED

datatype gate_decision = ALLOW | DENY

record gate_verdict =
  gv_execution_status :: gate_execution_status
  gv_decision :: "gate_decision option"
  gv_primary_reason :: "deny_reason option"
  gv_reasons :: "deny_reason list"
  gv_missing_or_unknown :: "string list"
  gv_policy_version :: string

definition allowed :: "gate_verdict \<Rightarrow> bool" where
  "allowed v \<longleftrightarrow> gv_decision v = Some ALLOW"

section \<open>Shared checks\<close>

definition fact_value_guards :: "'a carried_facts_scheme \<Rightarrow> (bool \<times> gate_fault) list" where
  "fact_value_guards facts =
     [(gf_authorization_status facts \<in> set AUTHORIZATION_STATUSES, InvalidFactValue ''authorization_status''),
      (gf_subject_status facts \<in> set SUBJECT_STATUSES, InvalidFactValue ''subject_status''),
      (gf_target_status facts \<in> set TARGET_STATUSES, InvalidFactValue ''target_status''),
      (gf_content_status facts \<in> set CONTENT_STATUSES, InvalidFactValue ''content_status''),
      (gf_safety_privacy_status facts \<in> set SAFETY_PRIVACY_STATUSES, InvalidFactValue ''safety_privacy_status''),
      (gf_lock_state facts \<in> set LOCK_STATES, InvalidFactValue ''lock_state''),
      (gf_learning_snapshot_status facts \<in> set SNAPSHOT_STATUSES, InvalidFactValue ''learning_snapshot_status''),
      (gf_gate_state_status facts \<in> set GATE_STATE_STATUSES, InvalidFactValue ''gate_state_status'')]"

definition check_fact_values :: "'a carried_facts_scheme \<Rightarrow> gate_fault + unit" where
  "check_fact_values facts = guardsE (fact_value_guards facts)"

definition check_opening_facts :: "'a user_initiated_open_facts_scheme \<Rightarrow> gate_fault + unit" where
  "check_opening_facts facts = guardsE
     [(gf_authorization_basis facts = ''DECISION_CYCLE'', WrongAuthorizationBasis),
      (gf_proposed_action facts = ''OPENING'', NotOpeningAction),
      (of_decision_cycle_id facts \<noteq> [], NoDecisionCycle),
      (of_candidate_id facts \<noteq> [], NoCandidate)]"

definition check_planner_authorized_open :: "automatic_open_facts \<Rightarrow> gate_fault + unit" where
  "check_planner_authorized_open facts = guardsE
     [(ao_planner_execution_status facts = ''SUCCEEDED'', PlannerNotSucceeded),
      (ao_planner_decision facts = ''SELECT'', PlannerNotSelect),
      (of_candidate_id facts \<noteq> [], NoSelectedCandidate),
      (ao_moment_id facts = None, MomentExists),
      (\<not> ao_user_initiated facts, AutomaticClaimsUser)]"

definition unknown_keys :: "(string \<times> string) list \<Rightarrow> string \<Rightarrow> string list" where
  "unknown_keys statuses gate_state =
     map fst (filter (\<lambda>(key, status). status = ''UNKNOWN'') statuses)
     @ (if gate_state = ''INCOMPLETE'' then [''GATE_STATE''] else [])"

definition opening_unknown_facts :: "'a carried_facts_scheme \<Rightarrow> string list" where
  "opening_unknown_facts facts = unknown_keys
     [(''LEARNING_SNAPSHOT'', gf_learning_snapshot_status facts),
      (''AUTHORIZATION_STATUS'', gf_authorization_status facts),
      (''TARGET_VALIDITY'', gf_target_status facts),
      (''CONTENT_VALIDITY'', gf_content_status facts),
      (''LOCK_STATE'', gf_lock_state facts),
      (''SAFETY_PRIVACY_STATUS'', gf_safety_privacy_status facts),
      (''SUBJECT_STATUS'', gf_subject_status facts)] (gf_gate_state_status facts)"

definition continuation_unknown_facts :: "'a carried_facts_scheme \<Rightarrow> string list" where
  "continuation_unknown_facts facts = unknown_keys
     [(''AUTHORIZATION_STATUS'', gf_authorization_status facts),
      (''TARGET_VALIDITY'', gf_target_status facts),
      (''CONTENT_VALIDITY'', gf_content_status facts),
      (''LOCK_STATE'', gf_lock_state facts),
      (''SAFETY_PRIVACY_STATUS'', gf_safety_privacy_status facts),
      (''SUBJECT_STATUS'', gf_subject_status facts)] (gf_gate_state_status facts)"

definition critical_unknown :: "'a carried_facts_scheme \<Rightarrow> string list" where
  "critical_unknown facts = sorted_set (opening_unknown_facts facts)"

definition continuation_unknown :: "'a carried_facts_scheme \<Rightarrow> string list" where
  "continuation_unknown facts = sorted_set (continuation_unknown_facts facts)"

text \<open>
  The tail every profile repeats: the degraded verdict when a critical fact is unknown, otherwise the
  collected reasons in precedence order, otherwise ALLOW.
\<close>

definition hit :: "bool \<Rightarrow> 'a \<Rightarrow> 'a list" where
  "hit b x = (if b then [x] else [])"

definition order_reasons :: "deny_reason list \<Rightarrow> deny_reason list" where
  "order_reasons reasons = filter (\<lambda>r. r \<in> set reasons) DENY_PRECEDENCE"

definition verdict_from :: "string list \<Rightarrow> deny_reason list \<Rightarrow> gate_verdict" where
  "verdict_from unknown reasons =
     (if unknown \<noteq> [] then \<lparr>gv_execution_status = GATE_DEGRADED, gv_decision = None,
        gv_primary_reason = None, gv_reasons = [], gv_missing_or_unknown = unknown,
        gv_policy_version = GATE_POLICY_VERSION\<rparr>
      else let ordered = order_reasons reasons in
        if ordered \<noteq> [] then \<lparr>gv_execution_status = GATE_SUCCEEDED, gv_decision = Some DENY,
          gv_primary_reason = Some (hd ordered), gv_reasons = ordered, gv_missing_or_unknown = [],
          gv_policy_version = GATE_POLICY_VERSION\<rparr>
        else \<lparr>gv_execution_status = GATE_SUCCEEDED, gv_decision = Some ALLOW,
          gv_primary_reason = None, gv_reasons = [], gv_missing_or_unknown = [],
          gv_policy_version = GATE_POLICY_VERSION\<rparr>)"

definition core_reasons :: "'a carried_facts_scheme \<Rightarrow> deny_reason list" where
  "core_reasons facts =
       hit (gf_safety_privacy_status facts = ''BLOCK'') SAFETY_PRIVACY_BLOCK
     @ hit (gf_subject_status facts = ''CANCELLED'') ACTION_CANCELLED
     @ hit (gf_subject_status facts = ''SUPERSEDED'') ACTION_SUPERSEDED
     @ hit (gf_authorization_status facts = ''INVALIDATED'') AUTHORIZATION_INVALID
     @ hit (gf_target_status facts \<in> {''INVALID'', ''DEPRECATED'', ''MISSING''}) TARGET_INVALID
     @ hit (gf_content_status facts = ''INVALID'') CONTENT_INVALID
     @ hit (gf_target_suppressed facts) TARGET_SUPPRESSED"

section \<open>The user-initiated opening\<close>

definition validate_open :: "user_initiated_open_facts \<Rightarrow> gate_fault + unit" where
  "validate_open facts =
     bindE (guardsE
       [(gf_gate_context facts \<in> set GATE_CONTEXTS, InvalidGateContext),
        (gf_proposed_action facts \<in> set OPEN_ACTIONS, InvalidProposedAction),
        (gf_authorization_path facts = ''USER_INITIATED'', WrongAuthorizationPath),
        (gf_gate_context facts = ''OPEN'', WrongGateContext),
        (gf_user_intent_scope facts \<in> set USER_INTENT_SCOPES, InvalidUserIntentScope)]) (\<lambda>_.
     bindE (check_opening_facts facts) (\<lambda>_. check_fact_values facts))"

definition user_open_reasons :: "user_initiated_open_facts \<Rightarrow> deny_reason list" where
  "user_open_reasons facts = core_reasons facts
     @ hit (gf_user_intent_scope facts \<notin> set USER_INITIATED_OPEN_INTENTS) USER_INTENT_BLOCK
     @ hit (gf_lock_state facts \<in> {''OWNED_BY_OTHER'', ''OWNED_BY_THIS_MOMENT''}) TEACHING_LOCK_CONFLICT"

definition decide_user_initiated_open :: "user_initiated_open_facts \<Rightarrow> gate_fault + gate_verdict" where
  "decide_user_initiated_open facts =
     bindE (validate_open facts) (\<lambda>_. Inr (verdict_from (critical_unknown facts) (user_open_reasons facts)))"

definition with_lock_state :: "user_initiated_open_facts \<Rightarrow> string \<Rightarrow> user_initiated_open_facts" where
  "with_lock_state facts lock = facts\<lparr>gf_lock_state := lock\<rparr>"

section \<open>The user-requested continuation\<close>

definition CONTINUATION_ACTIONS :: "string list" where
  "CONTINUATION_ACTIONS = [''HINT'', ''RETRY'', ''EXPLANATION'', ''REVEAL'', ''TERMINAL_FEEDBACK'']"

definition USER_INITIATED_CONTINUATION_INTENTS :: "string list" where
  "USER_INITIATED_CONTINUATION_INTENTS = [''ACTIVE_TEACHING_CONTINUATION'']"

definition CONTINUATION_REASON_CODES :: "deny_reason list" where
  "CONTINUATION_REASON_CODES = filter (\<lambda>code. code \<in> {SAFETY_PRIVACY_BLOCK, ACTION_CANCELLED,
     ACTION_SUPERSEDED, AUTHORIZATION_INVALID, TARGET_INVALID, CONTENT_INVALID, TARGET_SUPPRESSED,
     USER_INTENT_BLOCK, TEACHING_LOCK_CONFLICT, TEACHING_LOCK_INVALID, MOMENT_NOT_CONTINUABLE,
     HARD_ATTEMPT_LIMIT, HARD_TEACHING_TURN_LIMIT}) DENY_PRECEDENCE"

definition CONTINUATION_MOMENT_STATE :: string where
  "CONTINUATION_MOMENT_STATE = ''DECIDING_NEXT_ACTION''"

definition validate_continuation :: "continuation_facts \<Rightarrow> gate_fault + unit" where
  "validate_continuation facts =
     bindE (guardsE
       [(gf_gate_context facts = ''USER_REQUESTED_CONTINUE'', WrongGateContext),
        (gf_proposed_action facts \<in> set CONTINUATION_ACTIONS, InvalidProposedAction),
        (gf_authorization_path facts = ''USER_INITIATED'', WrongAuthorizationPath),
        (gf_authorization_basis facts = ''ACTIVE_MOMENT'', WrongAuthorizationBasis),
        (cf_moment_id facts \<noteq> [], NoMomentId),
        (cf_continuation_requested facts, ContinuationNotRequested),
        (gf_user_intent_scope facts \<in> set USER_INTENT_SCOPES, InvalidUserIntentScope)])
     (\<lambda>_. check_fact_values facts)"

definition continuation_lock_reasons :: "'a carried_facts_scheme \<Rightarrow> deny_reason list" where
  "continuation_lock_reasons facts =
     (if gf_lock_state facts = ''OWNED_BY_OTHER'' then [TEACHING_LOCK_CONFLICT]
      else hit (gf_lock_state facts \<noteq> ''OWNED_BY_THIS_MOMENT'') TEACHING_LOCK_INVALID)"

definition cap_reasons :: "'a continuation_facts_scheme \<Rightarrow> deny_reason list" where
  "cap_reasons facts =
     (let retry_like = gf_proposed_action facts \<in> {''RETRY'', ''HINT''};
          terminalizing = (gf_proposed_action facts \<in> {''REVEAL'', ''TERMINAL_FEEDBACK''}
            \<or> cf_terminalizing_action facts)
      in hit (cf_hard_attempt_limit_exhausted facts \<and> retry_like) HARD_ATTEMPT_LIMIT
       @ hit (cf_hard_teaching_turn_limit_exhausted facts \<and> \<not> terminalizing) HARD_TEACHING_TURN_LIMIT)"

definition continuation_reasons :: "continuation_facts \<Rightarrow> deny_reason list" where
  "continuation_reasons facts = core_reasons facts
     @ hit (gf_user_intent_scope facts \<notin> set USER_INITIATED_CONTINUATION_INTENTS) USER_INTENT_BLOCK
     @ continuation_lock_reasons facts
     @ hit (cf_moment_state facts \<noteq> CONTINUATION_MOMENT_STATE) MOMENT_NOT_CONTINUABLE
     @ cap_reasons facts"

definition decide_user_requested_continuation :: "continuation_facts \<Rightarrow> gate_fault + gate_verdict" where
  "decide_user_requested_continuation facts =
     bindE (validate_continuation facts)
       (\<lambda>_. Inr (verdict_from (continuation_unknown facts) (continuation_reasons facts)))"

section \<open>The automatic profiles\<close>

definition AUTOMATIC_OPEN_REASON_CODES :: "deny_reason list" where
  "AUTOMATIC_OPEN_REASON_CODES = filter (\<lambda>code. code \<in> {SAFETY_PRIVACY_BLOCK, ACTION_CANCELLED,
     ACTION_SUPERSEDED, AUTHORIZATION_INVALID, TARGET_INVALID, CONTENT_INVALID, TARGET_SUPPRESSED,
     USER_INTENT_BLOCK, AUTO_TEACH_DISABLED, TEACHING_LOCK_CONFLICT, HARD_PROTECTED_FLOW,
     AUTO_SESSION_BUDGET_EXHAUSTED, HARD_COOLDOWN_ACTIVE}) DENY_PRECEDENCE"

definition AUTO_CONTINUATION_REASON_CODES :: "deny_reason list" where
  "AUTO_CONTINUATION_REASON_CODES = filter (\<lambda>code. code \<in> {SAFETY_PRIVACY_BLOCK, ACTION_CANCELLED,
     ACTION_SUPERSEDED, AUTHORIZATION_INVALID, TARGET_INVALID, CONTENT_INVALID, TARGET_SUPPRESSED,
     USER_INTENT_BLOCK, AUTO_TEACH_DISABLED, TEACHING_LOCK_CONFLICT, TEACHING_LOCK_INVALID,
     MOMENT_NOT_CONTINUABLE, HARD_PROTECTED_FLOW, HARD_ATTEMPT_LIMIT, HARD_TEACHING_TURN_LIMIT})
     DENY_PRECEDENCE"

definition MOMENT_CONSENT_CLASSES :: "string list" where
  "MOMENT_CONSENT_CLASSES = [''AUTO_OPENED'', ''USER_AUTHORIZED'']"

definition MOMENT_SOURCES :: "string list" where
  "MOMENT_SOURCES = [''AUTOMATIC'', ''USER_INITIATED'', ''MANUAL_FOCUS'', ''SCHEDULED_STUDY'']"

definition moment_consent_class_of :: "string \<Rightarrow> gate_fault + string" where
  "moment_consent_class_of moment_source =
     (if moment_source \<notin> set MOMENT_SOURCES then Inl InvalidMomentSource
      else Inr (if moment_source = ''AUTOMATIC'' then ''AUTO_OPENED'' else ''USER_AUTHORIZED''))"

definition validate_automatic_open :: "automatic_open_facts \<Rightarrow> gate_fault + unit" where
  "validate_automatic_open facts =
     bindE (guardsE
       [(gf_gate_context facts \<in> set GATE_CONTEXTS, InvalidGateContext),
        (gf_gate_context facts = ''OPEN'', WrongGateContext),
        (gf_proposed_action facts \<in> set OPEN_ACTIONS, InvalidProposedAction),
        (gf_authorization_path facts = ''AUTOMATIC'', WrongAuthorizationPath),
        (gf_user_intent_scope facts \<in> set USER_INTENT_SCOPES, InvalidUserIntentScope)]) (\<lambda>_.
     bindE (check_opening_facts facts) (\<lambda>_.
     bindE (check_planner_authorized_open facts) (\<lambda>_. check_fact_values facts)))"

definition automatic_open_reasons :: "automatic_open_facts \<Rightarrow> deny_reason list" where
  "automatic_open_reasons facts = core_reasons facts
     @ hit (gf_user_intent_scope facts \<noteq> ''OPEN'') USER_INTENT_BLOCK
     @ hit (\<not> ao_automatic_teaching_enabled facts) AUTO_TEACH_DISABLED
     @ hit (gf_lock_state facts \<in> {''OWNED_BY_OTHER'', ''OWNED_BY_THIS_MOMENT''}) TEACHING_LOCK_CONFLICT
     @ hit (ao_hard_protected_flow facts) HARD_PROTECTED_FLOW
     @ hit (ao_automatic_session_budget_exhausted facts) AUTO_SESSION_BUDGET_EXHAUSTED
     @ hit (ao_hard_cooldown_active facts) HARD_COOLDOWN_ACTIVE"

definition decide_automatic_open :: "automatic_open_facts \<Rightarrow> gate_fault + gate_verdict" where
  "decide_automatic_open facts =
     bindE (validate_automatic_open facts)
       (\<lambda>_. Inr (verdict_from (critical_unknown facts) (automatic_open_reasons facts)))"

definition validate_auto_continuation :: "auto_continuation_facts \<Rightarrow> gate_fault + unit" where
  "validate_auto_continuation facts =
     bindE (guardsE
       [(gf_gate_context facts \<in> set GATE_CONTEXTS, InvalidGateContext),
        (gf_gate_context facts = ''AUTO_CONTINUE'', WrongGateContext),
        (gf_proposed_action facts \<in> set CONTINUATION_ACTIONS, InvalidProposedAction),
        (gf_authorization_path facts = ''AUTOMATIC'', WrongAuthorizationPath),
        (gf_authorization_basis facts = ''ACTIVE_MOMENT'', WrongAuthorizationBasis),
        (cf_moment_id facts \<noteq> [], NoMomentId),
        (\<not> cf_continuation_requested facts, ContinuationClaimed),
        (ac_moment_consent_class facts \<in> set MOMENT_CONSENT_CLASSES, InvalidConsentClass),
        (gf_user_intent_scope facts \<in> set USER_INTENT_SCOPES, InvalidUserIntentScope)])
     (\<lambda>_. check_fact_values facts)"

definition auto_continuation_reasons :: "auto_continuation_facts \<Rightarrow> deny_reason list" where
  "auto_continuation_reasons facts = core_reasons facts
     @ hit (gf_user_intent_scope facts \<noteq> ''ACTIVE_TEACHING_CONTINUATION'') USER_INTENT_BLOCK
     @ hit (ac_moment_consent_class facts = ''AUTO_OPENED'' \<and> \<not> ac_automatic_teaching_enabled facts)
         AUTO_TEACH_DISABLED
     @ continuation_lock_reasons facts
     @ hit (cf_moment_state facts \<noteq> CONTINUATION_MOMENT_STATE) MOMENT_NOT_CONTINUABLE
     @ hit (ac_hard_protected_flow facts) HARD_PROTECTED_FLOW
     @ cap_reasons facts"

definition decide_auto_continuation :: "auto_continuation_facts \<Rightarrow> gate_fault + gate_verdict" where
  "decide_auto_continuation facts =
     bindE (validate_auto_continuation facts)
       (\<lambda>_. Inr (verdict_from (continuation_unknown facts) (auto_continuation_reasons facts)))"

end
