(* ===== verification/Gate_Reference.thy ===== *)
theory Gate_Reference
  imports Gate
begin

text \<open>
  \<^verbatim>\<open>behavioral_baselines/gate/teaching_gate_reference_v1_1.py\<close>: the frozen reference decision the four
  profiles promise to reproduce.  Its request is a dictionary; here a record with an option per key
  (\<^verbatim>\<open>req.get(k, d)\<close> reads \<open>None\<close> as \<open>d\<close>).  The encodings at the end write a profile's fact bundle as
  the request the reference sees, and \<open>ref_view\<close> reads a profile's verdict as the reference's answer.
\<close>

section \<open>The reference\<close>

record ref_request =
  rq_gate_context :: "string option"
  rq_proposed_action :: "string option"
  rq_user_intent_scope :: "string option"
  rq_authorization_path :: "string option"
  rq_authorization_basis :: "string option"
  rq_planner_execution_status :: "string option"
  rq_planner_decision :: "string option"
  rq_selected_candidate_id :: "string option"
  rq_user_initiated :: "bool option"
  rq_moment_id :: "string option"
  rq_continuation_requested :: "bool option"
  rq_authorization_status :: "string option"
  rq_subject_status :: "string option"
  rq_target_status :: "string option"
  rq_content_status :: "string option"
  rq_safety_privacy_status :: "string option"
  rq_lock_state :: "string option"
  rq_gate_state_status :: "string option"
  rq_target_suppressed :: "bool option"
  rq_automatic_teaching_enabled :: "bool option"
  rq_moment_consent_class :: "string option"
  rq_moment_state :: "string option"
  rq_hard_protected_flow :: "bool option"
  rq_automatic_session_budget_exhausted :: "bool option"
  rq_hard_cooldown_active :: "bool option"
  rq_terminalizing_action :: "bool option"
  rq_hard_attempt_limit_exhausted :: "bool option"
  rq_hard_teaching_turn_limit_exhausted :: "bool option"

definition get_or :: "'a option \<Rightarrow> 'a \<Rightarrow> 'a" where
  "get_or v d = (case v of None \<Rightarrow> d | Some x \<Rightarrow> x)"

definition falsy :: "string option \<Rightarrow> bool" where
  "falsy v \<longleftrightarrow> v = None \<or> v = Some []"

definition among :: "string option \<Rightarrow> string list \<Rightarrow> bool" where
  "among v xs \<longleftrightarrow> v \<in> Some ` set xs"

definition REF_ACTIONS :: "string list" where
  "REF_ACTIONS = [''OPENING'', ''HINT'', ''RETRY'', ''EXPLANATION'', ''REVEAL'', ''TERMINAL_FEEDBACK'']"

definition ref_open_guards :: "ref_request \<Rightarrow> (bool \<times> gate_fault) list" where
  "ref_open_guards req =
     [(rq_authorization_basis req = Some ''DECISION_CYCLE'', WrongAuthorizationBasis),
      (rq_proposed_action req = Some ''OPENING'', NotOpeningAction),
      (rq_planner_execution_status req = Some ''SUCCEEDED'', PlannerNotSucceeded),
      (rq_planner_decision req = Some ''SELECT'', PlannerNotSelect),
      (\<not> falsy (rq_selected_candidate_id req), NoSelectedCandidate),
      (if rq_authorization_path req = Some ''AUTOMATIC'' then \<not> get_or (rq_user_initiated req) False
       else get_or (rq_user_initiated req) False, AutomaticClaimsUser),
      (rq_moment_id req = None, MomentExists)]"

definition ref_continuation_guards :: "ref_request \<Rightarrow> (bool \<times> gate_fault) list" where
  "ref_continuation_guards req =
     [(rq_authorization_basis req = Some ''ACTIVE_MOMENT'', WrongAuthorizationBasis),
      (rq_proposed_action req \<noteq> Some ''OPENING'', InvalidProposedAction),
      (\<not> falsy (rq_moment_id req), NoMomentId),
      (\<not> (rq_gate_context req = Some ''USER_REQUESTED_CONTINUE''
          \<and> \<not> get_or (rq_continuation_requested req) False), ContinuationNotRequested),
      (\<not> (rq_gate_context req = Some ''AUTO_CONTINUE'' \<and> get_or (rq_continuation_requested req) False),
        ContinuationClaimed)]"

definition ref_validate :: "ref_request \<Rightarrow> gate_fault + unit" where
  "ref_validate req =
     bindE (guardsE
       [(among (rq_gate_context req) GATE_CONTEXTS, InvalidGateContext),
        (among (rq_proposed_action req) REF_ACTIONS, InvalidProposedAction),
        (among (rq_user_intent_scope req) USER_INTENT_SCOPES, InvalidUserIntentScope),
        (among (rq_authorization_path req) [''AUTOMATIC'', ''USER_INITIATED''], WrongAuthorizationPath)]) (\<lambda>_.
     guardsE (if rq_gate_context req = Some ''OPEN'' then ref_open_guards req
              else ref_continuation_guards req))"

definition ref_field :: "string \<times> string list \<times> string option \<Rightarrow> gate_fault + string list" where
  "ref_field fv = (case fv of (name, vocabulary, v) \<Rightarrow>
     (let val = get_or v ''UNKNOWN'' in
      if val \<notin> set vocabulary then Inl (InvalidFactValue name) else Inr (hit (val = ''UNKNOWN'') name)))"

definition ref_critical_unknown :: "ref_request \<Rightarrow> gate_fault + string list" where
  "ref_critical_unknown req =
     bindE (traverseE ref_field
       [(''authorization_status'', [''VALID'', ''INVALIDATED'', ''UNKNOWN''], rq_authorization_status req),
        (''subject_status'', [''ACTIVE'', ''CANCELLED'', ''SUPERSEDED'', ''UNKNOWN''], rq_subject_status req),
        (''target_status'', [''VALID'', ''INVALID'', ''DEPRECATED'', ''MISSING'', ''UNKNOWN''], rq_target_status req),
        (''content_status'', [''VALID'', ''INVALID'', ''UNKNOWN''], rq_content_status req),
        (''safety_privacy_status'', [''ALLOW'', ''BLOCK'', ''UNKNOWN''], rq_safety_privacy_status req),
        (''lock_state'', [''NONE'', ''OWNED_BY_THIS_MOMENT'', ''OWNED_BY_OTHER'', ''UNKNOWN''], rq_lock_state req)])
     (\<lambda>hits. let gate_state = get_or (rq_gate_state_status req) ''COMPLETE'' in
       if gate_state \<notin> {''COMPLETE'', ''INCOMPLETE''} then Inl (InvalidFactValue ''gate_state_status'')
       else Inr (sorted_set (concat hits @ hit (gate_state = ''INCOMPLETE'') ''gate_state'')))"

datatype ref_outcome = RefDegraded "string list" | RefDeny deny_reason "deny_reason list" | RefAllow

definition ref_core_reasons :: "ref_request \<Rightarrow> deny_reason list" where
  "ref_core_reasons req =
       hit (rq_safety_privacy_status req = Some ''BLOCK'') SAFETY_PRIVACY_BLOCK
     @ hit (rq_subject_status req = Some ''CANCELLED'') ACTION_CANCELLED
     @ hit (rq_subject_status req = Some ''SUPERSEDED'') ACTION_SUPERSEDED
     @ hit (rq_authorization_status req = Some ''INVALIDATED'') AUTHORIZATION_INVALID
     @ hit (among (rq_target_status req) [''INVALID'', ''DEPRECATED'', ''MISSING'']) TARGET_INVALID
     @ hit (rq_content_status req = Some ''INVALID'') CONTENT_INVALID
     @ hit (get_or (rq_target_suppressed req) False) TARGET_SUPPRESSED"

definition ref_reasons :: "ref_request \<Rightarrow> deny_reason list" where
  "ref_reasons req =
     (let opening = (rq_gate_context req = Some ''OPEN'');
          automatic = (rq_authorization_path req = Some ''AUTOMATIC'');
          auto_continue = (rq_gate_context req = Some ''AUTO_CONTINUE'');
          continuing = among (rq_gate_context req) [''AUTO_CONTINUE'', ''USER_REQUESTED_CONTINUE''];
          enabled = get_or (rq_automatic_teaching_enabled req) True;
          terminalizing = (among (rq_proposed_action req) [''REVEAL'', ''TERMINAL_FEEDBACK'']
            \<or> get_or (rq_terminalizing_action req) False);
          retry_like = among (rq_proposed_action req) [''RETRY'', ''HINT'']
      in ref_core_reasons req
       @ (if opening \<and> automatic then hit (rq_user_intent_scope req \<noteq> Some ''OPEN'') USER_INTENT_BLOCK
          else if opening \<and> rq_authorization_path req = Some ''USER_INITIATED'' then
            hit (\<not> among (rq_user_intent_scope req) [''LEARNING_REQUEST'', ''TARGETED_LEARNING_REQUEST''])
              USER_INTENT_BLOCK
          else if continuing then
            hit (rq_user_intent_scope req \<noteq> Some ''ACTIVE_TEACHING_CONTINUATION'') USER_INTENT_BLOCK
          else [])
       @ hit (opening \<and> automatic \<and> \<not> enabled) AUTO_TEACH_DISABLED
       @ hit (auto_continue \<and> get_or (rq_moment_consent_class req) ''AUTO_OPENED'' = ''AUTO_OPENED'' \<and> \<not> enabled)
           AUTO_TEACH_DISABLED
       @ (if opening then
            hit (among (rq_lock_state req) [''OWNED_BY_OTHER'', ''OWNED_BY_THIS_MOMENT'']) TEACHING_LOCK_CONFLICT
          else (if rq_lock_state req = Some ''OWNED_BY_OTHER'' then [TEACHING_LOCK_CONFLICT]
                else hit (rq_lock_state req \<noteq> Some ''OWNED_BY_THIS_MOMENT'') TEACHING_LOCK_INVALID)
            @ hit (rq_moment_state req \<noteq> Some ''DECIDING_NEXT_ACTION'') MOMENT_NOT_CONTINUABLE)
       @ hit ((opening \<and> automatic \<or> auto_continue) \<and> get_or (rq_hard_protected_flow req) False)
           HARD_PROTECTED_FLOW
       @ hit (opening \<and> automatic \<and> get_or (rq_automatic_session_budget_exhausted req) False)
           AUTO_SESSION_BUDGET_EXHAUSTED
       @ hit (opening \<and> automatic \<and> get_or (rq_hard_cooldown_active req) False) HARD_COOLDOWN_ACTIVE
       @ hit (continuing \<and> get_or (rq_hard_attempt_limit_exhausted req) False \<and> retry_like)
           HARD_ATTEMPT_LIMIT
       @ hit (continuing \<and> get_or (rq_hard_teaching_turn_limit_exhausted req) False \<and> \<not> terminalizing)
           HARD_TEACHING_TURN_LIMIT)"

definition ref_decide :: "ref_request \<Rightarrow> gate_fault + ref_outcome" where
  "ref_decide req =
     bindE (ref_validate req) (\<lambda>_.
     bindE (ref_critical_unknown req) (\<lambda>unknown.
     if unknown \<noteq> [] then Inr (RefDegraded unknown)
     else let ordered = order_reasons (ref_reasons req) in
       if ordered \<noteq> [] then Inr (RefDeny (hd ordered) ordered) else Inr RefAllow))"

section \<open>Encodings\<close>

definition shared_request :: "'a carried_facts_scheme \<Rightarrow> ref_request" where
  "shared_request f =
     \<lparr>rq_gate_context = Some (gf_gate_context f), rq_proposed_action = Some (gf_proposed_action f),
      rq_user_intent_scope = Some (gf_user_intent_scope f),
      rq_authorization_path = Some (gf_authorization_path f),
      rq_authorization_basis = Some (gf_authorization_basis f),
      rq_planner_execution_status = None, rq_planner_decision = None, rq_selected_candidate_id = None,
      rq_user_initiated = None, rq_moment_id = None, rq_continuation_requested = None,
      rq_authorization_status = Some (gf_authorization_status f),
      rq_subject_status = Some (gf_subject_status f), rq_target_status = Some (gf_target_status f),
      rq_content_status = Some (gf_content_status f),
      rq_safety_privacy_status = Some (gf_safety_privacy_status f),
      rq_lock_state = Some (gf_lock_state f), rq_gate_state_status = Some (gf_gate_state_status f),
      rq_target_suppressed = Some (gf_target_suppressed f),
      rq_automatic_teaching_enabled = None, rq_moment_consent_class = None, rq_moment_state = None,
      rq_hard_protected_flow = None, rq_automatic_session_budget_exhausted = None,
      rq_hard_cooldown_active = None, rq_terminalizing_action = None,
      rq_hard_attempt_limit_exhausted = None, rq_hard_teaching_turn_limit_exhausted = None\<rparr>"

text \<open>
  A user-initiated opening has no planner run; the reference's opening contract asks for one, so the
  comparison supplies a successful selection of the requested candidate.
\<close>

definition request_of_open :: "user_initiated_open_facts \<Rightarrow> ref_request" where
  "request_of_open f = (shared_request f)
     \<lparr>rq_planner_execution_status := Some ''SUCCEEDED'', rq_planner_decision := Some ''SELECT'',
      rq_selected_candidate_id := Some (of_candidate_id f), rq_user_initiated := Some True\<rparr>"

definition request_of_automatic :: "automatic_open_facts \<Rightarrow> ref_request" where
  "request_of_automatic f = (shared_request f)
     \<lparr>rq_planner_execution_status := Some (ao_planner_execution_status f),
      rq_planner_decision := Some (ao_planner_decision f),
      rq_selected_candidate_id := Some (of_candidate_id f),
      rq_user_initiated := Some (ao_user_initiated f), rq_moment_id := ao_moment_id f,
      rq_automatic_teaching_enabled := Some (ao_automatic_teaching_enabled f),
      rq_hard_protected_flow := Some (ao_hard_protected_flow f),
      rq_automatic_session_budget_exhausted := Some (ao_automatic_session_budget_exhausted f),
      rq_hard_cooldown_active := Some (ao_hard_cooldown_active f)\<rparr>"

definition request_of_continuation :: "'a continuation_facts_scheme \<Rightarrow> ref_request" where
  "request_of_continuation f = (shared_request f)
     \<lparr>rq_moment_id := Some (cf_moment_id f),
      rq_continuation_requested := Some (cf_continuation_requested f),
      rq_moment_state := Some (cf_moment_state f),
      rq_hard_attempt_limit_exhausted := Some (cf_hard_attempt_limit_exhausted f),
      rq_hard_teaching_turn_limit_exhausted := Some (cf_hard_teaching_turn_limit_exhausted f),
      rq_terminalizing_action := Some (cf_terminalizing_action f)\<rparr>"

definition request_of_auto_continuation :: "auto_continuation_facts \<Rightarrow> ref_request" where
  "request_of_auto_continuation f = (request_of_continuation f)
     \<lparr>rq_moment_consent_class := Some (ac_moment_consent_class f),
      rq_user_initiated := Some (ac_user_initiated f),
      rq_automatic_teaching_enabled := Some (ac_automatic_teaching_enabled f),
      rq_hard_protected_flow := Some (ac_hard_protected_flow f)\<rparr>"

definition ref_key :: "string \<Rightarrow> string" where
  "ref_key key =
     (if key = ''AUTHORIZATION_STATUS'' then ''authorization_status''
      else if key = ''TARGET_VALIDITY'' then ''target_status''
      else if key = ''CONTENT_VALIDITY'' then ''content_status''
      else if key = ''LOCK_STATE'' then ''lock_state''
      else if key = ''SAFETY_PRIVACY_STATUS'' then ''safety_privacy_status''
      else if key = ''SUBJECT_STATUS'' then ''subject_status''
      else if key = ''GATE_STATE'' then ''gate_state'' else key)"

definition ref_view :: "gate_verdict \<Rightarrow> ref_outcome" where
  "ref_view v = (case gv_decision v of
       None \<Rightarrow> RefDegraded (map ref_key (gv_missing_or_unknown v))
     | Some DENY \<Rightarrow> RefDeny (the (gv_primary_reason v)) (gv_reasons v)
     | Some ALLOW \<Rightarrow> RefAllow)"

text \<open>The profile and the reference raise on the same inputs and otherwise answer alike.\<close>

definition agrees :: "gate_fault + gate_verdict \<Rightarrow> gate_fault + ref_outcome \<Rightarrow> bool" where
  "agrees p r \<longleftrightarrow> (case p of Inl _ \<Rightarrow> raised r | Inr v \<Rightarrow> r = Inr (ref_view v))"

end
