(* ===== verification/Gate_Lemmas.thy ===== *)
theory Gate_Lemmas
  imports Gate_Reference
begin

text \<open>
  The contract every Gate profile meets (locale \<open>gate_profile\<close>) and the stronger contract of a profile
  that reproduces the frozen reference (locale \<open>reference_profile\<close>), each interpreted on the four
  profiles of the source.
\<close>

section \<open>Reasons and verdicts\<close>

lemma set_DENY_PRECEDENCE [simp]: "set DENY_PRECEDENCE = UNIV"
proof -
  have "r \<in> set DENY_PRECEDENCE" for r by (cases r) (simp_all add: DENY_PRECEDENCE_def)
  then show ?thesis by blast
qed

lemma set_order_reasons [simp]: "set (order_reasons rs) = set rs"
  by (auto simp: order_reasons_def)

lemma order_reasons_Nil [simp]: "order_reasons rs = [] \<longleftrightarrow> rs = []"
  by (metis set_empty set_order_reasons)

lemma order_reasons_cong: "set rs = set rs' \<Longrightarrow> order_reasons rs = order_reasons rs'"
  by (simp add: order_reasons_def)

lemma order_reasons_idem: "order_reasons (order_reasons rs) = order_reasons rs"
  by (simp add: order_reasons_def)

lemma set_hit [simp]: "set (hit b x) = (if b then {x} else {})"
  by (cases b) (simp_all add: hit_def)

lemma set_hit_subset: "set (hit b x) \<subseteq> A \<longleftrightarrow> (b \<longrightarrow> x \<in> A)"
  by simp

lemma member_hit: "y \<in> set (hit b x) \<longleftrightarrow> b \<and> y = x"
  by simp

lemma map_hit: "map g (hit b x) = hit b (g x)"
  by (simp add: hit_def)

lemma hit_Nil [simp]: "hit b x = [] \<longleftrightarrow> \<not> b"
  by (simp add: hit_def)

section \<open>The profile contract\<close>

locale gate_profile =
  fixes validate :: "'f \<Rightarrow> gate_fault + unit"
    and unknown :: "'f \<Rightarrow> string list"
    and reasons :: "'f \<Rightarrow> deny_reason list"
    and decide :: "'f \<Rightarrow> gate_fault + gate_verdict"
    and codes :: "deny_reason list"
  assumes decide_eq: "decide f = bindE (validate f) (\<lambda>_. Inr (verdict_from (unknown f) (reasons f)))"
    and reasons_codes: "set (reasons f) \<subseteq> set codes"
begin

lemma decide_Inr_iff: "decide f = Inr v \<longleftrightarrow> validate f = Inr () \<and> v = verdict_from (unknown f) (reasons f)"
  by (auto simp: decide_eq result_simps)

lemma verdict_cases:
  assumes "decide f = Inr v"
  obtains (degraded) "unknown f \<noteq> []" "gv_execution_status v = GATE_DEGRADED" "gv_decision v = None"
      "gv_primary_reason v = None" "gv_reasons v = []" "gv_missing_or_unknown v = unknown f"
    | (deny) "unknown f = []" "reasons f \<noteq> []" "gv_execution_status v = GATE_SUCCEEDED"
      "gv_decision v = Some DENY" "gv_reasons v = order_reasons (reasons f)"
      "gv_primary_reason v = Some (hd (gv_reasons v))" "gv_missing_or_unknown v = []"
    | (allow) "unknown f = []" "reasons f = []" "gv_execution_status v = GATE_SUCCEEDED"
      "gv_decision v = Some ALLOW" "gv_primary_reason v = None" "gv_reasons v = []"
      "gv_missing_or_unknown v = []"
  using assms by (auto simp: decide_Inr_iff verdict_from_def Let_def split: if_splits)

lemma degraded_never_decides:
  assumes "decide f = Inr v"
  shows "(gv_execution_status v = GATE_DEGRADED \<longleftrightarrow> unknown f \<noteq> [])
    \<and> (gv_execution_status v = GATE_DEGRADED \<longleftrightarrow> gv_decision v = None)
    \<and> gv_missing_or_unknown v = unknown f"
  using assms by (cases rule: verdict_cases) auto

lemma allowed_iff: "decide f = Inr v \<Longrightarrow> allowed v \<longleftrightarrow> unknown f = [] \<and> reasons f = []"
  by (erule verdict_cases) (auto simp: allowed_def)

lemma reasons_sound:
  assumes "decide f = Inr v"
  shows "gv_reasons v = filter (\<lambda>r. r \<in> set (gv_reasons v)) DENY_PRECEDENCE
    \<and> set (gv_reasons v) \<subseteq> set codes
    \<and> (gv_decision v = Some DENY \<longleftrightarrow> gv_reasons v \<noteq> [])
    \<and> gv_primary_reason v = (if gv_reasons v = [] then None else Some (hd (gv_reasons v)))"
  using assms
proof (cases rule: verdict_cases)
  case deny
  have "gv_reasons v = order_reasons (gv_reasons v)" unfolding deny(5) by (simp only: order_reasons_idem)
  then have "gv_reasons v = filter (\<lambda>r. r \<in> set (gv_reasons v)) DENY_PRECEDENCE"
    by (simp only: order_reasons_def [symmetric])
  moreover have "gv_reasons v \<noteq> []" using deny(2,5) by simp
  moreover have "set (gv_reasons v) \<subseteq> set codes" using deny(5) reasons_codes [of f] by simp
  ultimately show ?thesis using deny(4,6) by simp
qed simp_all

lemma denied_iff: "decide f = Inr v \<Longrightarrow> gv_decision v = Some DENY \<longleftrightarrow> unknown f = [] \<and> reasons f \<noteq> []"
  by (erule verdict_cases) auto

lemma reason_reported: "decide f = Inr v \<Longrightarrow> unknown f = [] \<Longrightarrow> r \<in> set (gv_reasons v) \<longleftrightarrow> r \<in> set (reasons f)"
  by (erule verdict_cases) auto

end

lemmas reason_defs = core_reasons_def user_open_reasons_def continuation_reasons_def
  automatic_open_reasons_def auto_continuation_reasons_def cap_reasons_def

lemmas code_defs = USER_INITIATED_OPEN_REASON_CODES_def CONTINUATION_REASON_CODES_def
  AUTOMATIC_OPEN_REASON_CODES_def AUTO_CONTINUATION_REASON_CODES_def

lemma lock_subset:
  "set (continuation_lock_reasons f) \<subseteq> A \<longleftrightarrow> (gf_lock_state f = ''OWNED_BY_OTHER'' \<longrightarrow> TEACHING_LOCK_CONFLICT \<in> A)
     \<and> (gf_lock_state f \<notin> {''OWNED_BY_OTHER'', ''OWNED_BY_THIS_MOMENT''} \<longrightarrow> TEACHING_LOCK_INVALID \<in> A)"
  by (simp add: continuation_lock_reasons_def)

interpretation user_open: gate_profile validate_open critical_unknown user_open_reasons
  decide_user_initiated_open USER_INITIATED_OPEN_REASON_CODES
  by unfold_locales (simp_all add: decide_user_initiated_open_def reason_defs code_defs Let_def set_hit_subset lock_subset del: set_hit)

interpretation user_cont: gate_profile validate_continuation continuation_unknown continuation_reasons
  decide_user_requested_continuation CONTINUATION_REASON_CODES
  by unfold_locales (simp_all add: decide_user_requested_continuation_def reason_defs code_defs Let_def set_hit_subset lock_subset del: set_hit)

interpretation auto_open: gate_profile validate_automatic_open critical_unknown automatic_open_reasons
  decide_automatic_open AUTOMATIC_OPEN_REASON_CODES
  by unfold_locales (simp_all add: decide_automatic_open_def reason_defs code_defs Let_def set_hit_subset lock_subset del: set_hit)

interpretation auto_cont: gate_profile validate_auto_continuation continuation_unknown auto_continuation_reasons
  decide_auto_continuation AUTO_CONTINUATION_REASON_CODES
  by unfold_locales (simp_all add: decide_auto_continuation_def reason_defs code_defs Let_def set_hit_subset lock_subset del: set_hit)

section \<open>Critical-state completeness\<close>

definition facts_valid :: "'a carried_facts_scheme \<Rightarrow> bool" where
  "facts_valid f \<longleftrightarrow> list_all fst (fact_value_guards f)"

lemma check_fact_values_Inr [simp]: "check_fact_values f = Inr u \<longleftrightarrow> facts_valid f"
  by (simp add: check_fact_values_def facts_valid_def guardsE_Inr_iff)

definition SORTED_KEYS :: "string list" where
  "SORTED_KEYS = [''AUTHORIZATION_STATUS'', ''CONTENT_VALIDITY'', ''GATE_STATE'', ''LEARNING_SNAPSHOT'',
     ''LOCK_STATE'', ''SAFETY_PRIVACY_STATUS'', ''SUBJECT_STATUS'', ''TARGET_VALIDITY'']"

definition REF_SORTED_KEYS :: "string list" where
  "REF_SORTED_KEYS = [''authorization_status'', ''content_status'', ''gate_state'', ''lock_state'',
     ''safety_privacy_status'', ''subject_status'', ''target_status'']"

lemma sorted_keys: "sorted SORTED_KEYS" "distinct SORTED_KEYS" "sorted REF_SORTED_KEYS" "distinct REF_SORTED_KEYS"
  by code_simp+

lemma filter_hits: "filter P (x # xs) = hit (P x) x @ filter P xs"
  by (simp add: hit_def)

lemma unknown_keys_member:
  "k \<in> set (unknown_keys sts g) \<longleftrightarrow> list_ex (\<lambda>(k', s). k = k' \<and> s = ''UNKNOWN'') sts
     \<or> k = ''GATE_STATE'' \<and> g = ''INCOMPLETE''"
  by (force simp: unknown_keys_def list_ex_iff)

lemma critical_unknown_keys:
  "critical_unknown f =
       hit (gf_authorization_status f = ''UNKNOWN'') ''AUTHORIZATION_STATUS''
     @ hit (gf_content_status f = ''UNKNOWN'') ''CONTENT_VALIDITY''
     @ hit (gf_gate_state_status f = ''INCOMPLETE'') ''GATE_STATE''
     @ hit (gf_learning_snapshot_status f = ''UNKNOWN'') ''LEARNING_SNAPSHOT''
     @ hit (gf_lock_state f = ''UNKNOWN'') ''LOCK_STATE''
     @ hit (gf_safety_privacy_status f = ''UNKNOWN'') ''SAFETY_PRIVACY_STATUS''
     @ hit (gf_subject_status f = ''UNKNOWN'') ''SUBJECT_STATUS''
     @ hit (gf_target_status f = ''UNKNOWN'') ''TARGET_VALIDITY''"
proof -
  let ?u = "opening_unknown_facts f"
  have "sorted_set ?u = filter (\<lambda>k. k \<in> set ?u) SORTED_KEYS"
    by (rule sorted_set_filter [OF _ sorted_keys(1,2)])
      (auto simp: SORTED_KEYS_def opening_unknown_facts_def unknown_keys_member)
  then show ?thesis
    unfolding critical_unknown_def
    by (simp add: SORTED_KEYS_def filter_hits opening_unknown_facts_def unknown_keys_member
        del: filter.simps(2) append_assoc)
qed

lemma continuation_unknown_keys:
  "continuation_unknown f =
       hit (gf_authorization_status f = ''UNKNOWN'') ''AUTHORIZATION_STATUS''
     @ hit (gf_content_status f = ''UNKNOWN'') ''CONTENT_VALIDITY''
     @ hit (gf_gate_state_status f = ''INCOMPLETE'') ''GATE_STATE''
     @ hit (gf_lock_state f = ''UNKNOWN'') ''LOCK_STATE''
     @ hit (gf_safety_privacy_status f = ''UNKNOWN'') ''SAFETY_PRIVACY_STATUS''
     @ hit (gf_subject_status f = ''UNKNOWN'') ''SUBJECT_STATUS''
     @ hit (gf_target_status f = ''UNKNOWN'') ''TARGET_VALIDITY''"
proof -
  let ?u = "continuation_unknown_facts f"
  have "sorted_set ?u = filter (\<lambda>k. k \<in> set ?u) SORTED_KEYS"
    by (rule sorted_set_filter [OF _ sorted_keys(1,2)])
      (auto simp: SORTED_KEYS_def continuation_unknown_facts_def unknown_keys_member)
  then show ?thesis
    unfolding continuation_unknown_def
    by (simp add: SORTED_KEYS_def filter_hits continuation_unknown_facts_def unknown_keys_member
        del: filter.simps(2) append_assoc)
qed

section \<open>Profiles that reproduce the reference\<close>

definition carries :: "ref_request \<Rightarrow> 'a carried_facts_scheme \<Rightarrow> bool" where
  "carries r f \<longleftrightarrow> rq_authorization_status r = Some (gf_authorization_status f)
     \<and> rq_subject_status r = Some (gf_subject_status f) \<and> rq_target_status r = Some (gf_target_status f)
     \<and> rq_content_status r = Some (gf_content_status f)
     \<and> rq_safety_privacy_status r = Some (gf_safety_privacy_status f)
     \<and> rq_lock_state r = Some (gf_lock_state f) \<and> rq_gate_state_status r = Some (gf_gate_state_status f)"

lemma carries_encodings:
  "carries (request_of_open f) f" "carries (request_of_automatic g) g"
  "carries (request_of_continuation h) h" "carries (request_of_auto_continuation k) k"
  by (simp_all add: carries_def request_of_open_def request_of_automatic_def request_of_continuation_def
      request_of_auto_continuation_def shared_request_def)

lemmas vocabulary_defs = AUTHORIZATION_STATUSES_def SUBJECT_STATUSES_def TARGET_STATUSES_def
  CONTENT_STATUSES_def SAFETY_PRIVACY_STATUSES_def LOCK_STATES_def GATE_STATE_STATUSES_def

lemma facts_valid_iff:
  "facts_valid f \<longleftrightarrow> gf_authorization_status f \<in> set AUTHORIZATION_STATUSES
     \<and> gf_subject_status f \<in> set SUBJECT_STATUSES \<and> gf_target_status f \<in> set TARGET_STATUSES
     \<and> gf_content_status f \<in> set CONTENT_STATUSES \<and> gf_safety_privacy_status f \<in> set SAFETY_PRIVACY_STATUSES
     \<and> gf_lock_state f \<in> set LOCK_STATES \<and> gf_learning_snapshot_status f \<in> set SNAPSHOT_STATUSES
     \<and> gf_gate_state_status f \<in> set GATE_STATE_STATUSES"
  by (simp add: facts_valid_def fact_value_guards_def)

lemma ref_field_eq:
  "ref_field (name, vocabulary, Some v)
     = (if v \<in> set vocabulary then Inr (hit (v = ''UNKNOWN'') name) else Inl (InvalidFactValue name))"
  by (simp add: ref_field_def get_or_def)

lemma ref_unknown_raises:
  assumes "carries r f" and "gf_learning_snapshot_status f \<in> set SNAPSHOT_STATUSES" and "\<not> facts_valid f"
  shows "raised (ref_critical_unknown r)"
proof (cases "ref_critical_unknown r")
  case (Inr u)
  then have "facts_valid f"
    using assms(1,2)
    by (simp add: ref_critical_unknown_def carries_def ref_field_eq facts_valid_iff vocabulary_defs
        get_or_def Let_def split: if_splits)
  with assms(3) show ?thesis by simp
qed (simp add: raised_def)

lemma ref_key_simps:
  "ref_key ''AUTHORIZATION_STATUS'' = ''authorization_status''" "ref_key ''TARGET_VALIDITY'' = ''target_status''"
  "ref_key ''CONTENT_VALIDITY'' = ''content_status''" "ref_key ''LOCK_STATE'' = ''lock_state''"
  "ref_key ''SAFETY_PRIVACY_STATUS'' = ''safety_privacy_status''"
  "ref_key ''SUBJECT_STATUS'' = ''subject_status''" "ref_key ''GATE_STATE'' = ''gate_state''"
  by (simp_all add: ref_key_def)

lemma ref_unknown_value:
  assumes "carries r f" and "facts_valid f"
  shows "ref_critical_unknown r = Inr (map ref_key (continuation_unknown f))"
proof -
  let ?hits = "hit (gf_authorization_status f = ''UNKNOWN'') ''authorization_status''
    @ hit (gf_subject_status f = ''UNKNOWN'') ''subject_status''
    @ hit (gf_target_status f = ''UNKNOWN'') ''target_status''
    @ hit (gf_content_status f = ''UNKNOWN'') ''content_status''
    @ hit (gf_safety_privacy_status f = ''UNKNOWN'') ''safety_privacy_status''
    @ hit (gf_lock_state f = ''UNKNOWN'') ''lock_state''
    @ hit (gf_gate_state_status f = ''INCOMPLETE'') ''gate_state''"
  have "ref_critical_unknown r = Inr (sorted_set ?hits)"
    using assms by (simp add: ref_critical_unknown_def carries_def ref_field_eq facts_valid_iff
        vocabulary_defs get_or_def Let_def)
  moreover have "sorted_set ?hits = filter (\<lambda>k. k \<in> set ?hits) REF_SORTED_KEYS"
    by (rule sorted_set_filter [OF _ sorted_keys(3,4)]) (simp add: REF_SORTED_KEYS_def set_hit_subset del: set_hit)
  moreover have "filter (\<lambda>k. k \<in> set ?hits) REF_SORTED_KEYS = map ref_key (continuation_unknown f)"
    by (simp add: REF_SORTED_KEYS_def filter_hits continuation_unknown_keys map_hit ref_key_simps
        member_hit del: filter.simps(2) append_assoc set_hit)
  ultimately show ?thesis by (simp only:)
qed

locale reference_profile = gate_profile +
  fixes scope :: "'a \<Rightarrow> bool"
    and encode :: "'a \<Rightarrow> ref_request"
  assumes ref_reasons_eq: "scope f \<Longrightarrow> set (ref_reasons (encode f)) = set (reasons f)"
    and ref_accepts: "scope f \<Longrightarrow> validate f = Inr () \<Longrightarrow> ref_validate (encode f) = Inr ()
      \<and> ref_critical_unknown (encode f) = Inr (map ref_key (unknown f))"
    and ref_refuses: "scope f \<Longrightarrow> validate f \<noteq> Inr () \<Longrightarrow>
      raised (ref_validate (encode f)) \<or> raised (ref_critical_unknown (encode f))"
begin

lemma agrees_with_reference:
  assumes "scope f"
  shows "agrees (decide f) (ref_decide (encode f))"
proof (cases "validate f")
  case (Inl e)
  then have "decide f = Inl e" by (simp add: decide_eq)
  moreover have "raised (ref_decide (encode f))"
    using ref_refuses [OF assms] Inl
    by (cases "ref_validate (encode f)"; cases "ref_critical_unknown (encode f)")
      (auto simp: ref_decide_def raised_def)
  ultimately show ?thesis by (simp add: agrees_def)
next
  case (Inr u)
  then have v: "validate f = Inr ()" by simp
  have d: "decide f = Inr (verdict_from (unknown f) (reasons f))" using v by (simp add: decide_eq)
  have o: "order_reasons (ref_reasons (encode f)) = order_reasons (reasons f)"
    by (rule order_reasons_cong [OF ref_reasons_eq [OF assms]])
  have "ref_decide (encode f) = Inr (ref_view (verdict_from (unknown f) (reasons f)))"
    unfolding ref_decide_def o using ref_accepts [OF assms v]
    by (simp add: verdict_from_def ref_view_def Let_def)
  then show ?thesis by (simp add: agrees_def d)
qed

end

lemmas encoding_defs = request_of_open_def request_of_automatic_def request_of_continuation_def
  request_of_auto_continuation_def shared_request_def

lemmas ref_read_defs = among_def falsy_def get_or_def

definition open_scope :: "user_initiated_open_facts \<Rightarrow> bool" where
  "open_scope f \<longleftrightarrow> gf_gate_context f = ''OPEN'' \<and> gf_authorization_path f = ''USER_INITIATED''
     \<and> of_decision_cycle_id f \<noteq> [] \<and> gf_learning_snapshot_status f = ''VALID''"

definition automatic_scope :: "automatic_open_facts \<Rightarrow> bool" where
  "automatic_scope f \<longleftrightarrow> gf_gate_context f = ''OPEN'' \<and> gf_authorization_path f = ''AUTOMATIC''
     \<and> of_decision_cycle_id f \<noteq> [] \<and> gf_learning_snapshot_status f = ''VALID''"

definition continuation_scope :: "continuation_facts \<Rightarrow> bool" where
  "continuation_scope f \<longleftrightarrow> gf_gate_context f = ''USER_REQUESTED_CONTINUE''
     \<and> gf_authorization_path f = ''USER_INITIATED'' \<and> gf_learning_snapshot_status f \<in> set SNAPSHOT_STATUSES"

definition auto_continuation_scope :: "auto_continuation_facts \<Rightarrow> bool" where
  "auto_continuation_scope f \<longleftrightarrow> gf_gate_context f = ''AUTO_CONTINUE''
     \<and> gf_authorization_path f = ''AUTOMATIC'' \<and> gf_learning_snapshot_status f \<in> set SNAPSHOT_STATUSES
     \<and> ac_moment_consent_class f \<in> set MOMENT_CONSENT_CLASSES"

lemma ref_core: "carries r f \<Longrightarrow> rq_target_suppressed r = Some (gf_target_suppressed f)
    \<Longrightarrow> ref_core_reasons r = core_reasons f"
  by (simp add: ref_core_reasons_def core_reasons_def carries_def among_def get_or_def)

lemma hit_False [simp]: "hit False x = []"
  by (simp add: hit_def)

lemma open_reasons_ref: "open_scope f \<Longrightarrow> ref_reasons (request_of_open f) = user_open_reasons f"
  using ref_core [OF carries_encodings(1) [of f]]
  by (simp add: ref_reasons_def user_open_reasons_def open_scope_def encoding_defs Let_def ref_read_defs
      USER_INITIATED_OPEN_INTENTS_def)

lemma automatic_reasons_ref: "automatic_scope f \<Longrightarrow> ref_reasons (request_of_automatic f) = automatic_open_reasons f"
  using ref_core [OF carries_encodings(2) [of f]]
  by (simp add: ref_reasons_def automatic_open_reasons_def automatic_scope_def encoding_defs Let_def
      ref_read_defs)

lemma continuation_reasons_ref:
  "continuation_scope f \<Longrightarrow> ref_reasons (request_of_continuation f) = continuation_reasons f"
  using ref_core [OF carries_encodings(3) [of f]]
  by (simp add: ref_reasons_def continuation_reasons_def continuation_scope_def encoding_defs Let_def
      ref_read_defs USER_INITIATED_CONTINUATION_INTENTS_def CONTINUATION_MOMENT_STATE_def
      continuation_lock_reasons_def cap_reasons_def)

lemma auto_continuation_reasons_ref:
  "auto_continuation_scope f \<Longrightarrow> ref_reasons (request_of_auto_continuation f) = auto_continuation_reasons f"
  using ref_core [OF carries_encodings(4) [of f]]
  by (simp add: ref_reasons_def auto_continuation_reasons_def auto_continuation_scope_def encoding_defs
      Let_def ref_read_defs CONTINUATION_MOMENT_STATE_def continuation_lock_reasons_def cap_reasons_def)

lemma opening_unknown_same:
  "gf_learning_snapshot_status f = ''VALID'' \<Longrightarrow> critical_unknown f = continuation_unknown f"
  by (simp add: critical_unknown_keys continuation_unknown_keys)

lemma validate_open_iff:
  "open_scope f \<Longrightarrow> validate_open f = Inr () \<longleftrightarrow> ref_validate (request_of_open f) = Inr () \<and> facts_valid f"
  by (auto simp: validate_open_def check_opening_facts_def ref_validate_def ref_open_guards_def open_scope_def
      encoding_defs ref_read_defs result_simps GATE_CONTEXTS_def OPEN_ACTIONS_def REF_ACTIONS_def)

lemma validate_automatic_iff:
  "automatic_scope f \<Longrightarrow>
     validate_automatic_open f = Inr () \<longleftrightarrow> ref_validate (request_of_automatic f) = Inr () \<and> facts_valid f"
  by (auto simp: validate_automatic_open_def check_opening_facts_def check_planner_authorized_open_def
      ref_validate_def ref_open_guards_def automatic_scope_def encoding_defs ref_read_defs result_simps
      GATE_CONTEXTS_def OPEN_ACTIONS_def REF_ACTIONS_def)

lemma validate_continuation_iff:
  "continuation_scope f \<Longrightarrow>
     validate_continuation f = Inr () \<longleftrightarrow> ref_validate (request_of_continuation f) = Inr () \<and> facts_valid f"
  by (auto simp: validate_continuation_def ref_validate_def ref_continuation_guards_def continuation_scope_def
      encoding_defs ref_read_defs result_simps GATE_CONTEXTS_def CONTINUATION_ACTIONS_def REF_ACTIONS_def)

lemma validate_auto_continuation_iff:
  "auto_continuation_scope f \<Longrightarrow> validate_auto_continuation f = Inr ()
     \<longleftrightarrow> ref_validate (request_of_auto_continuation f) = Inr () \<and> facts_valid f"
  by (auto simp: validate_auto_continuation_def ref_validate_def ref_continuation_guards_def
      auto_continuation_scope_def encoding_defs ref_read_defs result_simps GATE_CONTEXTS_def
      CONTINUATION_ACTIONS_def REF_ACTIONS_def)

lemma not_Inr_raised: "(m :: 'e + unit) \<noteq> Inr () \<longleftrightarrow> raised m"
  by (cases m) (auto simp: raised_def)

lemma valid_snapshot: "''VALID'' \<in> set SNAPSHOT_STATUSES"
  by (simp add: SNAPSHOT_STATUSES_def)

interpretation user_open_ref: reference_profile validate_open critical_unknown user_open_reasons
  decide_user_initiated_open USER_INITIATED_OPEN_REASON_CODES open_scope request_of_open
proof
  fix f :: user_initiated_open_facts
  assume s: "open_scope f"
  then have snap: "gf_learning_snapshot_status f = ''VALID''" by (simp add: open_scope_def)
  show "set (ref_reasons (request_of_open f)) = set (user_open_reasons f)"
    by (simp only: open_reasons_ref [OF s])
  show "validate_open f = Inr () \<Longrightarrow> ref_validate (request_of_open f) = Inr ()
      \<and> ref_critical_unknown (request_of_open f) = Inr (map ref_key (critical_unknown f))"
    unfolding validate_open_iff [OF s] opening_unknown_same [OF snap]
    using ref_unknown_value [OF carries_encodings(1)] by blast
  show "validate_open f \<noteq> Inr () \<Longrightarrow> raised (ref_validate (request_of_open f))
      \<or> raised (ref_critical_unknown (request_of_open f))"
    unfolding validate_open_iff [OF s] using ref_unknown_raises [OF carries_encodings(1)] snap valid_snapshot
      not_Inr_raised by metis
qed

interpretation auto_open_ref: reference_profile validate_automatic_open critical_unknown automatic_open_reasons
  decide_automatic_open AUTOMATIC_OPEN_REASON_CODES automatic_scope request_of_automatic
proof
  fix f :: automatic_open_facts
  assume s: "automatic_scope f"
  then have snap: "gf_learning_snapshot_status f = ''VALID''" by (simp add: automatic_scope_def)
  show "set (ref_reasons (request_of_automatic f)) = set (automatic_open_reasons f)"
    by (simp only: automatic_reasons_ref [OF s])
  show "validate_automatic_open f = Inr () \<Longrightarrow> ref_validate (request_of_automatic f) = Inr ()
      \<and> ref_critical_unknown (request_of_automatic f) = Inr (map ref_key (critical_unknown f))"
    unfolding validate_automatic_iff [OF s] opening_unknown_same [OF snap]
    using ref_unknown_value [OF carries_encodings(2)] by blast
  show "validate_automatic_open f \<noteq> Inr () \<Longrightarrow> raised (ref_validate (request_of_automatic f))
      \<or> raised (ref_critical_unknown (request_of_automatic f))"
    unfolding validate_automatic_iff [OF s] using ref_unknown_raises [OF carries_encodings(2)] snap
      valid_snapshot not_Inr_raised by metis
qed

interpretation user_cont_ref: reference_profile validate_continuation continuation_unknown
  continuation_reasons decide_user_requested_continuation CONTINUATION_REASON_CODES continuation_scope
  request_of_continuation
proof
  fix f :: continuation_facts
  assume s: "continuation_scope f"
  then have snap: "gf_learning_snapshot_status f \<in> set SNAPSHOT_STATUSES" by (simp add: continuation_scope_def)
  show "set (ref_reasons (request_of_continuation f)) = set (continuation_reasons f)"
    by (simp only: continuation_reasons_ref [OF s])
  show "validate_continuation f = Inr () \<Longrightarrow> ref_validate (request_of_continuation f) = Inr ()
      \<and> ref_critical_unknown (request_of_continuation f) = Inr (map ref_key (continuation_unknown f))"
    unfolding validate_continuation_iff [OF s] using ref_unknown_value [OF carries_encodings(3)] by blast
  show "validate_continuation f \<noteq> Inr () \<Longrightarrow> raised (ref_validate (request_of_continuation f))
      \<or> raised (ref_critical_unknown (request_of_continuation f))"
    unfolding validate_continuation_iff [OF s] using ref_unknown_raises [OF carries_encodings(3)] snap
      not_Inr_raised by metis
qed

interpretation auto_cont_ref: reference_profile validate_auto_continuation continuation_unknown
  auto_continuation_reasons decide_auto_continuation AUTO_CONTINUATION_REASON_CODES auto_continuation_scope
  request_of_auto_continuation
proof
  fix f :: auto_continuation_facts
  assume s: "auto_continuation_scope f"
  then have snap: "gf_learning_snapshot_status f \<in> set SNAPSHOT_STATUSES" by (simp add: auto_continuation_scope_def)
  show "set (ref_reasons (request_of_auto_continuation f)) = set (auto_continuation_reasons f)"
    by (simp only: auto_continuation_reasons_ref [OF s])
  show "validate_auto_continuation f = Inr () \<Longrightarrow> ref_validate (request_of_auto_continuation f) = Inr ()
      \<and> ref_critical_unknown (request_of_auto_continuation f) = Inr (map ref_key (continuation_unknown f))"
    unfolding validate_auto_continuation_iff [OF s] using ref_unknown_value [OF carries_encodings(4)] by blast
  show "validate_auto_continuation f \<noteq> Inr () \<Longrightarrow> raised (ref_validate (request_of_auto_continuation f))
      \<or> raised (ref_critical_unknown (request_of_auto_continuation f))"
    unfolding validate_auto_continuation_iff [OF s] using ref_unknown_raises [OF carries_encodings(4)] snap
      not_Inr_raised by metis
qed

section \<open>Clear bundles\<close>

lemma healthy_words:
  "x \<in> set SAFETY_PRIVACY_STATUSES \<Longrightarrow> x = ''ALLOW'' \<longleftrightarrow> x \<noteq> ''BLOCK'' \<and> x \<noteq> ''UNKNOWN''"
  "x \<in> set SUBJECT_STATUSES \<Longrightarrow> x = ''ACTIVE'' \<longleftrightarrow> x \<noteq> ''CANCELLED'' \<and> x \<noteq> ''SUPERSEDED'' \<and> x \<noteq> ''UNKNOWN''"
  "x \<in> set AUTHORIZATION_STATUSES \<Longrightarrow> x = ''VALID'' \<longleftrightarrow> x \<noteq> ''INVALIDATED'' \<and> x \<noteq> ''UNKNOWN''"
  "x \<in> set TARGET_STATUSES \<Longrightarrow> x = ''VALID'' \<longleftrightarrow> x \<notin> {''INVALID'', ''DEPRECATED'', ''MISSING''} \<and> x \<noteq> ''UNKNOWN''"
  "x \<in> set CONTENT_STATUSES \<Longrightarrow> x = ''VALID'' \<longleftrightarrow> x \<noteq> ''INVALID'' \<and> x \<noteq> ''UNKNOWN''"
  "x \<in> set GATE_STATE_STATUSES \<Longrightarrow> x = ''COMPLETE'' \<longleftrightarrow> x \<noteq> ''INCOMPLETE''"
  "x \<in> set SNAPSHOT_STATUSES \<Longrightarrow> x = ''VALID'' \<longleftrightarrow> x \<noteq> ''UNKNOWN''"
  "x \<in> set LOCK_STATES \<Longrightarrow> x = ''NONE'' \<longleftrightarrow> x \<notin> {''OWNED_BY_OTHER'', ''OWNED_BY_THIS_MOMENT''} \<and> x \<noteq> ''UNKNOWN''"
  by (auto simp: vocabulary_defs SNAPSHOT_STATUSES_def)

definition clear_facts :: "'a carried_facts_scheme \<Rightarrow> bool" where
  "clear_facts f \<longleftrightarrow> gf_safety_privacy_status f = ''ALLOW'' \<and> gf_subject_status f = ''ACTIVE''
     \<and> gf_authorization_status f = ''VALID'' \<and> gf_target_status f = ''VALID'' \<and> gf_content_status f = ''VALID''
     \<and> gf_gate_state_status f = ''COMPLETE'' \<and> \<not> gf_target_suppressed f"

lemma core_clear:
  assumes "facts_valid f"
  shows "continuation_unknown f = [] \<and> core_reasons f = [] \<longleftrightarrow> clear_facts f \<and> gf_lock_state f \<noteq> ''UNKNOWN''"
proof -
  note voc = assms [unfolded facts_valid_iff]
  show ?thesis
    unfolding clear_facts_def continuation_unknown_keys core_reasons_def append_is_Nil_conv hit_Nil
      healthy_words(1) [OF voc [THEN conjunct2, THEN conjunct2, THEN conjunct2, THEN conjunct2, THEN conjunct1]]
      healthy_words(2) [OF voc [THEN conjunct2, THEN conjunct1]]
      healthy_words(3) [OF voc [THEN conjunct1]]
      healthy_words(4) [OF voc [THEN conjunct2, THEN conjunct2, THEN conjunct1]]
      healthy_words(5) [OF voc [THEN conjunct2, THEN conjunct2, THEN conjunct2, THEN conjunct1]]
      healthy_words(6) [OF voc [THEN conjunct2, THEN conjunct2, THEN conjunct2, THEN conjunct2, THEN conjunct2, THEN conjunct2, THEN conjunct2]]
    by argo
qed

lemma critical_unknown_split:
  "critical_unknown f = [] \<longleftrightarrow> continuation_unknown f = [] \<and> gf_learning_snapshot_status f \<noteq> ''UNKNOWN''"
  unfolding critical_unknown_keys continuation_unknown_keys append_is_Nil_conv hit_Nil by argo

lemma automatic_open_clear:
  assumes "decide_automatic_open f = Inr v"
  shows "allowed v \<longleftrightarrow> gf_safety_privacy_status f = ''ALLOW'' \<and> gf_subject_status f = ''ACTIVE''
    \<and> gf_authorization_status f = ''VALID'' \<and> gf_target_status f = ''VALID'' \<and> gf_content_status f = ''VALID''
    \<and> gf_learning_snapshot_status f = ''VALID'' \<and> gf_gate_state_status f = ''COMPLETE''
    \<and> gf_lock_state f = ''NONE'' \<and> \<not> gf_target_suppressed f \<and> gf_user_intent_scope f = ''OPEN''
    \<and> ao_automatic_teaching_enabled f \<and> \<not> ao_hard_protected_flow f
    \<and> \<not> ao_automatic_session_budget_exhausted f \<and> \<not> ao_hard_cooldown_active f"
proof -
  have v: "facts_valid f"
    using assms by (simp add: auto_open.decide_Inr_iff validate_automatic_open_def result_simps)
  then have voc: "gf_lock_state f \<in> set LOCK_STATES" "gf_learning_snapshot_status f \<in> set SNAPSHOT_STATUSES"
    by (simp_all add: facts_valid_iff)
  show ?thesis
    unfolding auto_open.allowed_iff [OF assms] critical_unknown_split automatic_open_reasons_def
      append_is_Nil_conv hit_Nil healthy_words(7) [OF voc(2)] healthy_words(8) [OF voc(1)]
    using core_clear [OF v, unfolded clear_facts_def] by blast
qed

end
