(* ===== verification/Gate_Properties.thy ===== *)
theory Gate_Properties
  imports Gate_Lemmas
begin

text \<open>
  The properties of the Teaching Gate, each an instance of the profile contracts of \<open>Gate_Lemmas\<close> or a
  consequence of the explicit form of a profile's reasons.
\<close>

section \<open>Healthy fact bundles\<close>

text \<open>The defaults of the source's dataclasses.\<close>

definition healthy_open :: user_initiated_open_facts where
  "healthy_open = \<lparr>gf_proposed_action = ''OPENING'', gf_gate_context = ''OPEN'',
     gf_authorization_path = ''USER_INITIATED'', gf_authorization_basis = ''DECISION_CYCLE'',
     gf_user_intent_scope = ''TARGETED_LEARNING_REQUEST'', gf_authorization_status = ''VALID'',
     gf_subject_status = ''ACTIVE'', gf_target_status = ''VALID'', gf_content_status = ''VALID'',
     gf_lock_state = ''NONE'', gf_learning_snapshot_status = ''VALID'', gf_gate_state_status = ''COMPLETE'',
     gf_safety_privacy_status = ''ALLOW'', gf_target_suppressed = False,
     of_decision_cycle_id = ''cycle'', of_candidate_id = ''candidate''\<rparr>"

definition healthy_automatic :: automatic_open_facts where
  "healthy_automatic = \<lparr>gf_proposed_action = ''OPENING'', gf_gate_context = ''OPEN'',
     gf_authorization_path = ''AUTOMATIC'', gf_authorization_basis = ''DECISION_CYCLE'',
     gf_user_intent_scope = ''OPEN'', gf_authorization_status = ''VALID'',
     gf_subject_status = ''ACTIVE'', gf_target_status = ''VALID'', gf_content_status = ''VALID'',
     gf_lock_state = ''NONE'', gf_learning_snapshot_status = ''VALID'', gf_gate_state_status = ''COMPLETE'',
     gf_safety_privacy_status = ''ALLOW'', gf_target_suppressed = False,
     of_decision_cycle_id = ''cycle'', of_candidate_id = ''candidate'',
     ao_planner_execution_status = ''SUCCEEDED'', ao_planner_decision = ''SELECT'',
     ao_user_initiated = False, ao_moment_id = None, ao_automatic_teaching_enabled = True,
     ao_hard_protected_flow = False, ao_automatic_session_budget_exhausted = False,
     ao_hard_cooldown_active = False\<rparr>"

definition healthy_continuation :: continuation_facts where
  "healthy_continuation = \<lparr>gf_proposed_action = ''HINT'', gf_gate_context = ''USER_REQUESTED_CONTINUE'',
     gf_authorization_path = ''USER_INITIATED'', gf_authorization_basis = ''ACTIVE_MOMENT'',
     gf_user_intent_scope = ''ACTIVE_TEACHING_CONTINUATION'', gf_authorization_status = ''VALID'',
     gf_subject_status = ''ACTIVE'', gf_target_status = ''VALID'', gf_content_status = ''VALID'',
     gf_lock_state = ''OWNED_BY_THIS_MOMENT'', gf_learning_snapshot_status = ''VALID'',
     gf_gate_state_status = ''COMPLETE'', gf_safety_privacy_status = ''ALLOW'',
     gf_target_suppressed = False, cf_moment_id = ''moment'', cf_decision_cycle_id = None,
     cf_candidate_id = [], cf_continuation_requested = True, cf_moment_state = CONTINUATION_MOMENT_STATE,
     cf_hard_attempt_limit_exhausted = False, cf_hard_teaching_turn_limit_exhausted = False,
     cf_terminalizing_action = False\<rparr>"

definition healthy_auto_continuation :: auto_continuation_facts where
  "healthy_auto_continuation = \<lparr>gf_proposed_action = ''HINT'', gf_gate_context = ''AUTO_CONTINUE'',
     gf_authorization_path = ''AUTOMATIC'', gf_authorization_basis = ''ACTIVE_MOMENT'',
     gf_user_intent_scope = ''ACTIVE_TEACHING_CONTINUATION'', gf_authorization_status = ''VALID'',
     gf_subject_status = ''ACTIVE'', gf_target_status = ''VALID'', gf_content_status = ''VALID'',
     gf_lock_state = ''OWNED_BY_THIS_MOMENT'', gf_learning_snapshot_status = ''VALID'',
     gf_gate_state_status = ''COMPLETE'', gf_safety_privacy_status = ''ALLOW'',
     gf_target_suppressed = False, cf_moment_id = ''moment'', cf_decision_cycle_id = None,
     cf_candidate_id = [], cf_continuation_requested = False, cf_moment_state = CONTINUATION_MOMENT_STATE,
     cf_hard_attempt_limit_exhausted = False, cf_hard_teaching_turn_limit_exhausted = False,
     cf_terminalizing_action = False, ac_moment_consent_class = ''AUTO_OPENED'', ac_user_initiated = False,
     ac_automatic_teaching_enabled = True, ac_hard_protected_flow = False\<rparr>"

section \<open>Agreement with the frozen reference\<close>

text \<open>
  C10: both openings reproduce the frozen reference.  On every bundle of its context and path with a
  decision cycle and a valid learning snapshot (a fact the reference does not have), the user-initiated
  and the automatic opening raise exactly when the reference raises on the corresponding request, and
  otherwise return the reference's answer: the same degraded fact keys in the same order, the same
  reasons in the same order with the same primary reason, or ALLOW.
\<close>

theorem openings_reproduce_reference:
  "(gf_gate_context f = ''OPEN'' \<and> gf_authorization_path f = ''USER_INITIATED'' \<and> of_decision_cycle_id f \<noteq> []
      \<and> gf_learning_snapshot_status f = ''VALID'' \<longrightarrow> agrees (decide_user_initiated_open f) (ref_decide (request_of_open f)))
   \<and> (gf_gate_context g = ''OPEN'' \<and> gf_authorization_path g = ''AUTOMATIC'' \<and> of_decision_cycle_id g \<noteq> []
      \<and> gf_learning_snapshot_status g = ''VALID'' \<longrightarrow> agrees (decide_automatic_open g) (ref_decide (request_of_automatic g)))"
  by (intro conjI impI user_open_ref.agrees_with_reference auto_open_ref.agrees_with_reference;
      simp add: open_scope_def automatic_scope_def)

theorem openings_reproduce_reference_witness:
  "agrees (decide_user_initiated_open (with_lock_state healthy_open ''OWNED_BY_OTHER''))
     (ref_decide (request_of_open (with_lock_state healthy_open ''OWNED_BY_OTHER'')))
   \<and> agrees (decide_automatic_open (healthy_automatic\<lparr>ao_hard_cooldown_active := True\<rparr>))
     (ref_decide (request_of_automatic (healthy_automatic\<lparr>ao_hard_cooldown_active := True\<rparr>)))"
  by (rule openings_reproduce_reference [THEN conjunct1, THEN mp, THEN conjI, OF _ openings_reproduce_reference [THEN conjunct2, THEN mp]])
    (simp_all add: healthy_open_def healthy_automatic_def with_lock_state_def)

text \<open>
  C11: both continuations reproduce the frozen reference's continuation branch in the same sense, whatever
  the learning snapshot (an active moment's own evidence does not invalidate its continuation); the
  automatic one for bundles whose consent class is one of the two declared words.
\<close>

theorem continuations_reproduce_reference:
  "(gf_gate_context f = ''USER_REQUESTED_CONTINUE'' \<and> gf_authorization_path f = ''USER_INITIATED''
      \<and> gf_learning_snapshot_status f \<in> set SNAPSHOT_STATUSES
      \<longrightarrow> agrees (decide_user_requested_continuation f) (ref_decide (request_of_continuation f)))
   \<and> (gf_gate_context g = ''AUTO_CONTINUE'' \<and> gf_authorization_path g = ''AUTOMATIC''
      \<and> gf_learning_snapshot_status g \<in> set SNAPSHOT_STATUSES \<and> ac_moment_consent_class g \<in> set MOMENT_CONSENT_CLASSES
      \<longrightarrow> agrees (decide_auto_continuation g) (ref_decide (request_of_auto_continuation g)))"
  by (intro conjI impI user_cont_ref.agrees_with_reference auto_cont_ref.agrees_with_reference;
      simp add: continuation_scope_def auto_continuation_scope_def)

theorem continuations_reproduce_reference_witness:
  "agrees (decide_user_requested_continuation (healthy_continuation\<lparr>cf_hard_attempt_limit_exhausted := True\<rparr>))
     (ref_decide (request_of_continuation (healthy_continuation\<lparr>cf_hard_attempt_limit_exhausted := True\<rparr>)))
   \<and> agrees (decide_auto_continuation (healthy_auto_continuation\<lparr>ac_automatic_teaching_enabled := False\<rparr>))
     (ref_decide (request_of_auto_continuation (healthy_auto_continuation\<lparr>ac_automatic_teaching_enabled := False\<rparr>)))"
  by (rule continuations_reproduce_reference [THEN conjunct1, THEN mp, THEN conjI, OF _ continuations_reproduce_reference [THEN conjunct2, THEN mp]])
    (simp_all add: healthy_continuation_def healthy_auto_continuation_def SNAPSHOT_STATUSES_def MOMENT_CONSENT_CLASSES_def)

section \<open>Shape of the verdicts\<close>

definition opening_unknown :: "'a carried_facts_scheme \<Rightarrow> bool" where
  "opening_unknown f \<longleftrightarrow> gf_learning_snapshot_status f = ''UNKNOWN'' \<or> gf_authorization_status f = ''UNKNOWN''
     \<or> gf_target_status f = ''UNKNOWN'' \<or> gf_content_status f = ''UNKNOWN'' \<or> gf_lock_state f = ''UNKNOWN''
     \<or> gf_safety_privacy_status f = ''UNKNOWN'' \<or> gf_subject_status f = ''UNKNOWN''
     \<or> gf_gate_state_status f = ''INCOMPLETE''"

lemma critical_unknown_Nil: "critical_unknown f \<noteq> [] \<longleftrightarrow> opening_unknown f"
  by (auto simp: critical_unknown_keys opening_unknown_def)

lemma continuation_unknown_Nil:
  "continuation_unknown f \<noteq> [] \<longleftrightarrow> opening_unknown (f\<lparr>gf_learning_snapshot_status := ''VALID''\<rparr>)"
  by (auto simp: continuation_unknown_keys opening_unknown_def)

definition degraded_exactly :: "gate_verdict \<Rightarrow> bool \<Rightarrow> string list \<Rightarrow> bool" where
  "degraded_exactly v unknown keys \<longleftrightarrow> (gv_execution_status v = GATE_DEGRADED \<longleftrightarrow> unknown)
     \<and> (gv_decision v = None \<longleftrightarrow> unknown) \<and> gv_missing_or_unknown v = keys"

text \<open>
  An unknown critical fact is never laundered into a decision.  In every profile a verdict is
  degraded exactly when some critical fact is unknown, a degraded verdict carries no decision, and it
  names exactly the unknown facts; for an opening the learning snapshot is one of them, for a
  continuation it is not.
\<close>

theorem gate_degraded_iff_unknown:
  "(decide_user_initiated_open f = Inr v \<longrightarrow> degraded_exactly v (opening_unknown f) (critical_unknown f))
   \<and> (decide_automatic_open g = Inr v \<longrightarrow> degraded_exactly v (opening_unknown g) (critical_unknown g))
   \<and> (decide_user_requested_continuation h = Inr v \<longrightarrow> degraded_exactly v
        (opening_unknown (h\<lparr>gf_learning_snapshot_status := ''VALID''\<rparr>)) (continuation_unknown h))
   \<and> (decide_auto_continuation k = Inr v \<longrightarrow> degraded_exactly v
        (opening_unknown (k\<lparr>gf_learning_snapshot_status := ''VALID''\<rparr>)) (continuation_unknown k))"
  using user_open.degraded_never_decides [of f v] auto_open.degraded_never_decides [of g v]
    user_cont.degraded_never_decides [of h v] auto_cont.degraded_never_decides [of k v]
  unfolding degraded_exactly_def critical_unknown_Nil continuation_unknown_Nil by blast

lemma healthy_open_decides: "\<exists>v. decide_user_initiated_open (with_lock_state healthy_open ''UNKNOWN'') = Inr v"
  by (simp add: decide_user_initiated_open_def validate_open_def check_opening_facts_def
      check_fact_values_def fact_value_guards_def healthy_open_def with_lock_state_def GATE_CONTEXTS_def
      OPEN_ACTIONS_def USER_INTENT_SCOPES_def vocabulary_defs SNAPSHOT_STATUSES_def)

theorem gate_degraded_iff_unknown_witness:
  "\<exists>v. decide_user_initiated_open (with_lock_state healthy_open ''UNKNOWN'') = Inr v
     \<and> gv_execution_status v = GATE_DEGRADED \<and> gv_decision v = None
     \<and> gv_missing_or_unknown v = [''LOCK_STATE'']"
proof -
  obtain v where v: "decide_user_initiated_open (with_lock_state healthy_open ''UNKNOWN'') = Inr v"
    using healthy_open_decides by blast
  have "opening_unknown (with_lock_state healthy_open ''UNKNOWN'')"
    "critical_unknown (with_lock_state healthy_open ''UNKNOWN'') = [''LOCK_STATE'']"
    by (simp_all add: opening_unknown_def critical_unknown_keys healthy_open_def with_lock_state_def hit_def)
  with v gate_degraded_iff_unknown show ?thesis unfolding degraded_exactly_def by metis
qed

definition reasons_in_order :: "gate_verdict \<Rightarrow> deny_reason list \<Rightarrow> bool" where
  "reasons_in_order v codes \<longleftrightarrow> gv_reasons v = filter (\<lambda>r. r \<in> set (gv_reasons v)) DENY_PRECEDENCE
     \<and> set (gv_reasons v) \<subseteq> set codes
     \<and> (gv_decision v = Some DENY \<longleftrightarrow> gv_reasons v \<noteq> [])
     \<and> gv_primary_reason v = (if gv_reasons v = [] then None else Some (hd (gv_reasons v)))"

text \<open>
  The reasons of a verdict are reported in the frozen deny precedence without repetition, come
  only from the profile's declared codes, and are non-empty exactly for DENY, with the first as the
  primary reason.
\<close>

theorem gate_reasons_ordered:
  "(decide_user_initiated_open f = Inr v \<longrightarrow> reasons_in_order v USER_INITIATED_OPEN_REASON_CODES)
   \<and> (decide_automatic_open g = Inr v \<longrightarrow> reasons_in_order v AUTOMATIC_OPEN_REASON_CODES)
   \<and> (decide_user_requested_continuation h = Inr v \<longrightarrow> reasons_in_order v CONTINUATION_REASON_CODES)
   \<and> (decide_auto_continuation k = Inr v \<longrightarrow> reasons_in_order v AUTO_CONTINUATION_REASON_CODES)"
  using user_open.reasons_sound [of f v] auto_open.reasons_sound [of g v]
    user_cont.reasons_sound [of h v] auto_cont.reasons_sound [of k v]
  unfolding reasons_in_order_def by blast

theorem gate_reasons_ordered_witness:
  "\<exists>v. decide_user_initiated_open (with_lock_state healthy_open ''UNKNOWN'') = Inr v
     \<and> reasons_in_order v USER_INITIATED_OPEN_REASON_CODES"
  using healthy_open_decides gate_reasons_ordered by blast

section \<open>When the Gate allows\<close>

text \<open>
  An automatic opening is allowed exactly when everything is in order: every critical fact has
  its healthy word, nothing is suppressed, the latest intent leaves the choice to the runtime,
  automatic teaching is enabled, no lock is held, and neither the flow protection, the session budget
  nor the cooldown objects.
\<close>

theorem automatic_open_allowed_iff:
  assumes "decide_automatic_open f = Inr v"
  shows "allowed v \<longleftrightarrow> gf_safety_privacy_status f = ''ALLOW'' \<and> gf_subject_status f = ''ACTIVE''
    \<and> gf_authorization_status f = ''VALID'' \<and> gf_target_status f = ''VALID'' \<and> gf_content_status f = ''VALID''
    \<and> gf_learning_snapshot_status f = ''VALID'' \<and> gf_gate_state_status f = ''COMPLETE''
    \<and> gf_lock_state f = ''NONE'' \<and> \<not> gf_target_suppressed f \<and> gf_user_intent_scope f = ''OPEN''
    \<and> ao_automatic_teaching_enabled f \<and> \<not> ao_hard_protected_flow f
    \<and> \<not> ao_automatic_session_budget_exhausted f \<and> \<not> ao_hard_cooldown_active f"
  using assms by (rule automatic_open_clear)

lemma healthy_automatic_decides: "\<exists>v. decide_automatic_open healthy_automatic = Inr v"
  by (simp add: decide_automatic_open_def validate_automatic_open_def check_opening_facts_def
      check_planner_authorized_open_def check_fact_values_def fact_value_guards_def healthy_automatic_def
      GATE_CONTEXTS_def OPEN_ACTIONS_def USER_INTENT_SCOPES_def vocabulary_defs SNAPSHOT_STATUSES_def)

theorem automatic_open_allowed_iff_witness:
  "\<exists>v. decide_automatic_open healthy_automatic = Inr v \<and> allowed v"
  using healthy_automatic_decides automatic_open_allowed_iff [of healthy_automatic]
  by (auto simp: healthy_automatic_def)

text \<open>
  A user-requested continuation is allowed exactly when the critical facts are healthy, this
  moment holds the lock and is deciding its next action, the user is still in the teaching
  continuation, and the hard caps do not object: the attempt cap stops only a retry or a hint, the
  teaching-turn cap stops only a move that does not terminate the moment.  The learning snapshot plays
  no part.
\<close>

theorem continuation_allowed_iff:
  assumes "decide_user_requested_continuation f = Inr v"
  shows "allowed v \<longleftrightarrow> gf_safety_privacy_status f = ''ALLOW'' \<and> gf_subject_status f = ''ACTIVE''
    \<and> gf_authorization_status f = ''VALID'' \<and> gf_target_status f = ''VALID'' \<and> gf_content_status f = ''VALID''
    \<and> gf_gate_state_status f = ''COMPLETE'' \<and> gf_lock_state f = ''OWNED_BY_THIS_MOMENT''
    \<and> \<not> gf_target_suppressed f \<and> gf_user_intent_scope f = ''ACTIVE_TEACHING_CONTINUATION''
    \<and> cf_moment_state f = ''DECIDING_NEXT_ACTION''
    \<and> \<not> (cf_hard_attempt_limit_exhausted f \<and> gf_proposed_action f \<in> {''RETRY'', ''HINT''})
    \<and> \<not> (cf_hard_teaching_turn_limit_exhausted f \<and> gf_proposed_action f \<notin> {''REVEAL'', ''TERMINAL_FEEDBACK''}
         \<and> \<not> cf_terminalizing_action f)"
proof -
  have v: "facts_valid f"
    using assms by (simp add: user_cont.decide_Inr_iff validate_continuation_def result_simps)
  have lock: "continuation_lock_reasons f = [] \<longleftrightarrow> gf_lock_state f = ''OWNED_BY_THIS_MOMENT''"
    by (simp add: continuation_lock_reasons_def)
  have intent: "gf_user_intent_scope f \<notin> set USER_INITIATED_CONTINUATION_INTENTS
      \<longleftrightarrow> gf_user_intent_scope f \<noteq> ''ACTIVE_TEACHING_CONTINUATION''"
    by (simp add: USER_INITIATED_CONTINUATION_INTENTS_def)
  show ?thesis
    unfolding user_cont.allowed_iff [OF assms] continuation_reasons_def cap_reasons_def Let_def
      append_is_Nil_conv hit_Nil lock intent CONTINUATION_MOMENT_STATE_def
    using core_clear [OF v, unfolded clear_facts_def] by auto
qed

lemma exhausted_reveal_decides:
  "\<exists>v. decide_user_requested_continuation (healthy_continuation\<lparr>gf_proposed_action := ''REVEAL'',
     cf_hard_attempt_limit_exhausted := True, cf_hard_teaching_turn_limit_exhausted := True\<rparr>) = Inr v"
  by (simp add: decide_user_requested_continuation_def validate_continuation_def check_fact_values_def
      fact_value_guards_def healthy_continuation_def CONTINUATION_ACTIONS_def USER_INTENT_SCOPES_def
      vocabulary_defs SNAPSHOT_STATUSES_def)

theorem continuation_allowed_iff_witness:
  "\<exists>v. decide_user_requested_continuation (healthy_continuation\<lparr>gf_proposed_action := ''REVEAL'',
     cf_hard_attempt_limit_exhausted := True, cf_hard_teaching_turn_limit_exhausted := True\<rparr>) = Inr v \<and> allowed v"
  using exhausted_reveal_decides continuation_allowed_iff
  by (fastforce simp: healthy_continuation_def CONTINUATION_MOMENT_STATE_def)

lemma auto_teach_reason_iff:
  "AUTO_TEACH_DISABLED \<in> set (auto_continuation_reasons f)
     \<longleftrightarrow> ac_moment_consent_class f = ''AUTO_OPENED'' \<and> \<not> ac_automatic_teaching_enabled f"
proof -
  have "AUTO_TEACH_DISABLED \<notin> set (core_reasons f)" "AUTO_TEACH_DISABLED \<notin> set (continuation_lock_reasons f)"
    "AUTO_TEACH_DISABLED \<notin> set (cap_reasons f)"
    by (simp_all add: core_reasons_def continuation_lock_reasons_def cap_reasons_def Let_def member_hit
        del: set_hit)
  then show ?thesis by (simp add: auto_continuation_reasons_def member_hit del: set_hit)
qed

text \<open>
  The auto-teach setting stops an automatic continuation exactly when the moment was opened
  automatically: with the consent class read off the moment's source, a verdict that is not degraded
  reports \<open>AUTO_TEACH_DISABLED\<close> if and only if the source is \<open>AUTOMATIC\<close> and the setting is off.  An
  episode the user started, focused or scheduled is never the setting's to stop.
\<close>

theorem auto_teach_setting_stops_only_automatic_moments:
  assumes "moment_consent_class_of source = Inr (ac_moment_consent_class f)"
    and "decide_auto_continuation f = Inr v" and "gv_execution_status v = GATE_SUCCEEDED"
  shows "AUTO_TEACH_DISABLED \<in> set (gv_reasons v)
    \<longleftrightarrow> source = ''AUTOMATIC'' \<and> \<not> ac_automatic_teaching_enabled f"
proof -
  have "continuation_unknown f = []"
    using auto_cont.degraded_never_decides [OF assms(2)] assms(3) by auto
  moreover have "ac_moment_consent_class f = ''AUTO_OPENED'' \<longleftrightarrow> source = ''AUTOMATIC''"
    using assms(1) by (auto simp: moment_consent_class_of_def split: if_splits)
  ultimately show ?thesis
    using auto_cont.reason_reported [OF assms(2)] by (simp add: auto_teach_reason_iff)
qed

lemma disabled_auto_decides:
  "\<exists>v. decide_auto_continuation (healthy_auto_continuation\<lparr>ac_automatic_teaching_enabled := False\<rparr>) = Inr v
     \<and> gv_execution_status v = GATE_SUCCEEDED"
proof -
  let ?f = "healthy_auto_continuation\<lparr>ac_automatic_teaching_enabled := False\<rparr>"
  have v: "validate_auto_continuation ?f = Inr ()"
    by (simp add: validate_auto_continuation_def check_fact_values_def fact_value_guards_def
        healthy_auto_continuation_def GATE_CONTEXTS_def CONTINUATION_ACTIONS_def USER_INTENT_SCOPES_def
        vocabulary_defs SNAPSHOT_STATUSES_def MOMENT_CONSENT_CLASSES_def)
  have "continuation_unknown ?f = []"
    by (simp add: continuation_unknown_keys healthy_auto_continuation_def)
  then show ?thesis using v
    by (simp add: decide_auto_continuation_def verdict_from_def Let_def)
qed

theorem auto_teach_setting_stops_only_automatic_moments_witness:
  "\<exists>v. decide_auto_continuation (healthy_auto_continuation\<lparr>ac_automatic_teaching_enabled := False\<rparr>) = Inr v
     \<and> AUTO_TEACH_DISABLED \<in> set (gv_reasons v)"
proof -
  let ?f = "healthy_auto_continuation\<lparr>ac_automatic_teaching_enabled := False\<rparr>"
  have "moment_consent_class_of ''AUTOMATIC'' = Inr (ac_moment_consent_class ?f)"
    by (simp add: moment_consent_class_of_def MOMENT_SOURCES_def healthy_auto_continuation_def)
  then show ?thesis
    using disabled_auto_decides auto_teach_setting_stops_only_automatic_moments by fastforce
qed

definition as_request :: "automatic_open_facts \<Rightarrow> user_initiated_open_facts" where
  "as_request g = user_initiated_open_facts.truncate
     (g\<lparr>gf_authorization_path := ''USER_INITIATED'', gf_user_intent_scope := ''LEARNING_REQUEST''\<rparr>)"

lemma as_request_fields [simp]:
  "gf_proposed_action (as_request g) = gf_proposed_action g" "gf_gate_context (as_request g) = gf_gate_context g"
  "gf_authorization_path (as_request g) = ''USER_INITIATED''"
  "gf_authorization_basis (as_request g) = gf_authorization_basis g"
  "gf_user_intent_scope (as_request g) = ''LEARNING_REQUEST''"
  "gf_authorization_status (as_request g) = gf_authorization_status g"
  "gf_subject_status (as_request g) = gf_subject_status g" "gf_target_status (as_request g) = gf_target_status g"
  "gf_content_status (as_request g) = gf_content_status g" "gf_lock_state (as_request g) = gf_lock_state g"
  "gf_learning_snapshot_status (as_request g) = gf_learning_snapshot_status g"
  "gf_gate_state_status (as_request g) = gf_gate_state_status g"
  "gf_safety_privacy_status (as_request g) = gf_safety_privacy_status g"
  "gf_target_suppressed (as_request g) = gf_target_suppressed g"
  "of_decision_cycle_id (as_request g) = of_decision_cycle_id g" "of_candidate_id (as_request g) = of_candidate_id g"
  by (simp_all add: as_request_def user_initiated_open_facts.truncate_def)

lemma as_request_same:
  "facts_valid (as_request g) = facts_valid g" "critical_unknown (as_request g) = critical_unknown g"
  "core_reasons (as_request g) = core_reasons g" "check_opening_facts (as_request g) = check_opening_facts g"
  by (simp_all add: facts_valid_iff critical_unknown_keys core_reasons_def check_opening_facts_def)

text \<open>
  A request is never treated worse than an interruption.  Whenever an automatic opening is
  allowed, the same facts presented as the user's own learning request are allowed too.
\<close>

theorem request_never_worse_than_automatic:
  assumes "decide_automatic_open g = Inr v" and "allowed v"
  shows "\<exists>w. decide_user_initiated_open (as_request g) = Inr w \<and> allowed w"
proof -
  have val: "validate_automatic_open g = Inr ()"
    using assms(1) by (simp add: auto_open.decide_Inr_iff)
  then have "gf_gate_context g = ''OPEN''" "gf_proposed_action g \<in> set OPEN_ACTIONS"
    "check_opening_facts g = Inr ()" "facts_valid g"
    unfolding validate_automatic_open_def bindE_Inr_iff guardsE_Inr_iff by simp_all
  then have "validate_open (as_request g) = Inr ()"
    by (simp add: validate_open_def as_request_same USER_INTENT_SCOPES_def GATE_CONTEXTS_def)
  then have d: "decide_user_initiated_open (as_request g)
      = Inr (verdict_from (critical_unknown (as_request g)) (user_open_reasons (as_request g)))"
    by (simp add: user_open.decide_eq)
  have "critical_unknown g = []" "automatic_open_reasons g = []"
    using auto_open.allowed_iff [OF assms(1)] assms(2) by simp_all
  then have "critical_unknown (as_request g) = []" "user_open_reasons (as_request g) = []"
    by (simp_all add: as_request_same automatic_open_reasons_def user_open_reasons_def
        USER_INITIATED_OPEN_INTENTS_def)
  with d user_open.allowed_iff [OF d] show ?thesis by blast
qed

lemma healthy_automatic_allowed: "\<exists>v. decide_automatic_open healthy_automatic = Inr v \<and> allowed v"
proof -
  obtain v where v: "decide_automatic_open healthy_automatic = Inr v" using healthy_automatic_decides by blast
  have "critical_unknown healthy_automatic = []" "automatic_open_reasons healthy_automatic = []"
    by (simp_all add: critical_unknown_keys reason_defs healthy_automatic_def)
  with v auto_open.allowed_iff [OF v] show ?thesis by blast
qed

theorem request_never_worse_than_automatic_witness:
  "\<exists>w. decide_user_initiated_open (as_request healthy_automatic) = Inr w \<and> allowed w"
  using healthy_automatic_allowed request_never_worse_than_automatic by blast

end
