(* ===== verification/Ladder.thy ===== *)
theory Ladder
  imports Prelude
begin

text \<open>
  \<^verbatim>\<open>elc/teaching/ladder.py\<close>: the presentation ladder of a teaching moment.  Phases and support levels
  are the source's words; a dictionary lookup of an unknown word raises \<^verbatim>\<open>KeyError\<close>, an enumeration
  call on one \<^verbatim>\<open>ValueError\<close>, and an index past a tuple \<^verbatim>\<open>IndexError\<close>.  A refusal is a value, as in the
  source.  The last section runs the ladder: a position moves when a step is computed and not refused.
\<close>

section \<open>Vocabulary\<close>

definition LADDER_PHASES :: "string list" where
  "LADDER_PHASES = [''INITIAL_PROMPT'', ''HINT_SEMANTIC'', ''HINT_STRUCTURAL'', ''HINT_PARTIAL_FORM'',
     ''FULL_REVEAL'', ''POST_REVEAL_OPTIONAL_ATTEMPT'', ''EXPLANATION'']"

definition SUPPORT_LEVELS :: "string list" where
  "SUPPORT_LEVELS = [''NONE'', ''CONTEXT_ONLY'', ''SEMANTIC_HINT'', ''STRUCTURAL_HINT'', ''PARTIAL_FORM'',
     ''FULL_FORM_SHOWN'']"

definition HINT_PHASES :: "string list" where
  "HINT_PHASES = [''HINT_SEMANTIC'', ''HINT_STRUCTURAL'', ''HINT_PARTIAL_FORM'']"

definition POST_REVEAL_PHASES :: "string list" where
  "POST_REVEAL_PHASES = [''FULL_REVEAL'', ''POST_REVEAL_OPTIONAL_ATTEMPT'', ''EXPLANATION'']"

definition ANSWER_EXPOSURES :: "string list" where
  "ANSWER_EXPOSURES = [''NONE'', ''PARTIAL'', ''FULL'']"

datatype ladder_error = KeyError string | IndexError | ValueErrorWord string

definition phase_rank :: "string \<Rightarrow> ladder_error + nat" where
  "phase_rank phase = (case index_of LADDER_PHASES phase of None \<Rightarrow> Inl (KeyError phase) | Some i \<Rightarrow> Inr i)"

definition support_rank :: "string \<Rightarrow> ladder_error + nat" where
  "support_rank support =
     (case index_of SUPPORT_LEVELS support of None \<Rightarrow> Inl (KeyError support) | Some i \<Rightarrow> Inr i)"

text \<open>The enumeration calls \<^verbatim>\<open>PresentationPhase(word)\<close> and \<^verbatim>\<open>TeachingSupportLevel(word)\<close>.\<close>

definition enum_word :: "string list \<Rightarrow> string \<Rightarrow> ladder_error + string" where
  "enum_word words w = (if w \<in> set words then Inr w else Inl (ValueErrorWord w))"

definition HINT_SUPPORT :: "string \<Rightarrow> string option" where
  "HINT_SUPPORT = dict_of [(''HINT_SEMANTIC'', ''SEMANTIC_HINT''),
     (''HINT_STRUCTURAL'', ''STRUCTURAL_HINT''), (''HINT_PARTIAL_FORM'', ''PARTIAL_FORM'')]"

definition hint_rung :: "nat \<Rightarrow> ladder_error + string \<times> string" where
  "hint_rung index =
     (if length HINT_PHASES \<le> index then Inl IndexError
      else let phase = HINT_PHASES ! index in
        case HINT_SUPPORT phase of None \<Rightarrow> Inl (KeyError phase) | Some support \<Rightarrow> Inr (phase, support))"

section \<open>The one-way rule\<close>

datatype ladder_refusal = UnknownPhase string | UnknownSupport string | PhaseStepsBack string string
  | SupportDrops string string | SupportAboveCeiling string string

definition support_ceiling :: "string \<Rightarrow> ladder_error + nat" where
  "support_ceiling phase = support_rank
     (case dict_of [(''INITIAL_PROMPT'', ''CONTEXT_ONLY''), (''HINT_SEMANTIC'', ''SEMANTIC_HINT''),
        (''HINT_STRUCTURAL'', ''STRUCTURAL_HINT''), (''HINT_PARTIAL_FORM'', ''PARTIAL_FORM'')] phase of
        None \<Rightarrow> ''FULL_FORM_SHOWN'' | Some s \<Rightarrow> s)"

definition ladder_step_refusal ::
  "string \<Rightarrow> string \<Rightarrow> string \<Rightarrow> string \<Rightarrow> ladder_error + ladder_refusal option" where
  "ladder_step_refusal current_phase current_support next_phase next_support =
     (if next_phase \<notin> set LADDER_PHASES then Inr (Some (UnknownPhase next_phase))
      else if next_support \<notin> set SUPPORT_LEVELS then Inr (Some (UnknownSupport next_support))
      else bindE (phase_rank next_phase) (\<lambda>np. bindE (phase_rank current_phase) (\<lambda>cp.
        if np < cp then Inr (Some (PhaseStepsBack current_phase next_phase))
        else bindE (support_rank next_support) (\<lambda>ns. bindE (support_rank current_support) (\<lambda>cs.
          if ns < cs then Inr (Some (SupportDrops current_support next_support))
          else bindE (support_ceiling next_phase) (\<lambda>ceiling.
            if ceiling < ns then Inr (Some (SupportAboveCeiling next_support next_phase))
            else Inr None))))))"

section \<open>The ladder move\<close>

record ladder_move =
  ls_presentation_phase :: string
  ls_support_level :: string
  ls_text :: "string option"
  ls_delivery_kind :: string
  ls_terminalizing :: bool

definition is_post_reveal_attempt :: "string \<Rightarrow> bool" where
  "is_post_reveal_attempt phase \<longleftrightarrow> phase \<in> set POST_REVEAL_PHASES"

definition higher_support :: "string \<Rightarrow> string \<Rightarrow> ladder_error + string" where
  "higher_support left right =
     bindE (support_rank left) (\<lambda>l. bindE (support_rank right) (\<lambda>r. Inr (if r \<le> l then left else right)))"

definition next_hint_index :: "string \<Rightarrow> string list \<Rightarrow> nat option" where
  "next_hint_index current_phase hint_ladder =
     (let bounded = (\<lambda>i. if i < length hint_ladder then Some i else None) in
      if current_phase = ''INITIAL_PROMPT'' then bounded 0
      else case index_of HINT_PHASES current_phase of Some i \<Rightarrow> bounded (i + 1) | None \<Rightarrow> None)"

definition reveal_step :: "string option \<Rightarrow> ladder_move" where
  "reveal_step reveal_form = \<lparr>ls_presentation_phase = ''FULL_REVEAL'', ls_support_level = ''FULL_FORM_SHOWN'',
     ls_text = reveal_form, ls_delivery_kind = ''REVEAL'', ls_terminalizing = False\<rparr>"

definition ladder_step ::
  "string \<Rightarrow> string \<Rightarrow> string list \<Rightarrow> string option \<Rightarrow> string \<Rightarrow> ladder_error + ladder_move" where
  "ladder_step current_phase current_support hint_ladder reveal_form delivery_kind =
     (if delivery_kind = ''HINT'' then
        (case next_hint_index current_phase hint_ladder of
           None \<Rightarrow> Inr (reveal_step reveal_form)
         | Some i \<Rightarrow> bindE (hint_rung i) (\<lambda>(phase, support).
             Inr \<lparr>ls_presentation_phase = phase, ls_support_level = support,
               ls_text = Some (hint_ladder ! i), ls_delivery_kind = ''HINT'', ls_terminalizing = False\<rparr>))
      else if delivery_kind = ''REVEAL'' then Inr (reveal_step reveal_form)
      else if delivery_kind = ''EXPLANATION'' then
        bindE (if is_post_reveal_attempt current_phase
               then higher_support current_support ''FULL_FORM_SHOWN'' else Inr current_support) (\<lambda>word.
        bindE (enum_word SUPPORT_LEVELS word) (\<lambda>support.
        Inr \<lparr>ls_presentation_phase = ''EXPLANATION'', ls_support_level = support, ls_text = None,
          ls_delivery_kind = ''EXPLANATION'', ls_terminalizing = False\<rparr>))
      else if delivery_kind = ''RETRY'' then
        bindE (enum_word LADDER_PHASES current_phase) (\<lambda>phase.
        bindE (enum_word SUPPORT_LEVELS current_support) (\<lambda>support.
        Inr \<lparr>ls_presentation_phase = phase, ls_support_level = support, ls_text = None,
          ls_delivery_kind = ''RETRY'', ls_terminalizing = False\<rparr>))
      else Inl (ValueErrorWord delivery_kind))"

section \<open>The evidence side\<close>

definition evidence_support_level :: "string \<Rightarrow> string \<Rightarrow> ladder_error + string" where
  "evidence_support_level peak_support attempt_support =
     bindE (higher_support peak_support attempt_support) (enum_word SUPPORT_LEVELS)"

definition evidence_answer_exposure :: "string \<Rightarrow> string \<Rightarrow> ladder_error + string" where
  "evidence_answer_exposure answer_exposure_state attempt_support =
     (if answer_exposure_state = ''FULL'' then Inr ''FULL''
      else bindE (support_rank attempt_support) (\<lambda>a. bindE (support_rank ''FULL_FORM_SHOWN'') (\<lambda>f.
        if f \<le> a then Inr ''FULL'' else enum_word ANSWER_EXPOSURES answer_exposure_state)))"

section \<open>Running the ladder\<close>

text \<open>
  A position is a phase and a support level.  The runtime computes the step of a delivery and commits
  it when the one-way rule does not refuse it (\<^verbatim>\<open>controller.py\<close>: \<^verbatim>\<open>ladder_step\<close>, then
  \<^verbatim>\<open>ladder_step_refusal\<close>, then the transition).
\<close>

type_synonym position = "string \<times> string"

inductive climbs :: "string list \<Rightarrow> string option \<Rightarrow> position \<Rightarrow> position \<Rightarrow> bool" for hints reveal where
  step: "ladder_step phase support hints reveal kind = Inr s \<Longrightarrow>
    ladder_step_refusal phase support (ls_presentation_phase s) (ls_support_level s) = Inr None \<Longrightarrow>
    climbs hints reveal (phase, support) (ls_presentation_phase s, ls_support_level s)"

inductive_cases climbsE: "climbs hints reveal (phase, support) q"

section \<open>Rankings\<close>

text \<open>The contract of a ranking of words by position: it is defined exactly on the words, injectively.\<close>

locale word_ranking =
  fixes words :: "string list" and rank :: "string \<Rightarrow> ladder_error + nat"
  assumes rank_def': "rank w = (case index_of words w of None \<Rightarrow> Inl (KeyError w) | Some i \<Rightarrow> Inr i)"
    and distinct_words: "distinct words"
begin

lemma rank_iff: "rank w = Inr i \<longleftrightarrow> i < length words \<and> words ! i = w"
  using index_of_nth [OF distinct_words] by (auto simp: rank_def' dest: index_of_SomeD split: option.splits)

lemma rank_word: "w \<in> set words \<longleftrightarrow> (\<exists>i. rank w = Inr i)"
  by (auto simp: rank_iff in_set_conv_nth)

lemma rank_inject: "rank v = Inr i \<Longrightarrow> rank w = Inr i \<Longrightarrow> v = w"
  by (auto simp: rank_iff)

lemma rank_bound: "rank w = Inr i \<Longrightarrow> i < length words"
  by (simp add: rank_iff)

end

interpretation phases: word_ranking LADDER_PHASES phase_rank
  by unfold_locales (simp_all add: phase_rank_def LADDER_PHASES_def)

interpretation supports: word_ranking SUPPORT_LEVELS support_rank
  by unfold_locales (simp_all add: support_rank_def SUPPORT_LEVELS_def)

lemma phase_ranks [simp]:
  "phase_rank ''INITIAL_PROMPT'' = Inr 0" "phase_rank ''HINT_SEMANTIC'' = Inr 1"
  "phase_rank ''HINT_STRUCTURAL'' = Inr 2" "phase_rank ''HINT_PARTIAL_FORM'' = Inr 3"
  "phase_rank ''FULL_REVEAL'' = Inr 4" "phase_rank ''POST_REVEAL_OPTIONAL_ATTEMPT'' = Inr 5"
  "phase_rank ''EXPLANATION'' = Inr 6"
  by (simp_all add: phase_rank_def LADDER_PHASES_def)

lemma support_ranks [simp]:
  "support_rank ''NONE'' = Inr 0" "support_rank ''CONTEXT_ONLY'' = Inr 1"
  "support_rank ''SEMANTIC_HINT'' = Inr 2" "support_rank ''STRUCTURAL_HINT'' = Inr 3"
  "support_rank ''PARTIAL_FORM'' = Inr 4" "support_rank ''FULL_FORM_SHOWN'' = Inr 5"
  by (simp_all add: support_rank_def SUPPORT_LEVELS_def)

lemma ceilings [simp]:
  "support_ceiling ''INITIAL_PROMPT'' = Inr 1" "support_ceiling ''HINT_SEMANTIC'' = Inr 2"
  "support_ceiling ''HINT_STRUCTURAL'' = Inr 3" "support_ceiling ''HINT_PARTIAL_FORM'' = Inr 4"
  "support_ceiling ''FULL_REVEAL'' = Inr 5" "support_ceiling ''POST_REVEAL_OPTIONAL_ATTEMPT'' = Inr 5"
  "support_ceiling ''EXPLANATION'' = Inr 5"
  by (simp_all add: support_ceiling_def dict_of_def)

lemma refusal_None_iff:
  "ladder_step_refusal p s p' s' = Inr None \<longleftrightarrow> (\<exists>cp np cs ns ce. phase_rank p = Inr cp \<and> phase_rank p' = Inr np
     \<and> support_rank s = Inr cs \<and> support_rank s' = Inr ns \<and> support_ceiling p' = Inr ce
     \<and> cp \<le> np \<and> cs \<le> ns \<and> ns \<le> ce)"
proof (cases "p' \<in> set LADDER_PHASES \<and> s' \<in> set SUPPORT_LEVELS")
  case True
  then obtain np ns where r: "phase_rank p' = Inr np" "support_rank s' = Inr ns"
    using phases.rank_word supports.rank_word by blast
  show ?thesis
    using True r by (cases "phase_rank p"; cases "support_rank s"; cases "support_ceiling p'")
      (auto simp: ladder_step_refusal_def)
next
  case False
  then have no: "phase_rank p' \<noteq> Inr np \<or> support_rank s' \<noteq> Inr ns" for np ns
    using phases.rank_word supports.rank_word by blast
  have "ladder_step_refusal p s p' s' \<noteq> Inr None"
    unfolding ladder_step_refusal_def using False by (cases "p' \<in> set LADDER_PHASES") simp_all
  then show ?thesis using no by metis
qed

lemma hint_rungs:
  "hint_rung 0 = Inr (''HINT_SEMANTIC'', ''SEMANTIC_HINT'')"
  "hint_rung (Suc 0) = Inr (''HINT_STRUCTURAL'', ''STRUCTURAL_HINT'')"
  "hint_rung 2 = Inr (''HINT_PARTIAL_FORM'', ''PARTIAL_FORM'')"
  "3 \<le> i \<Longrightarrow> hint_rung i = Inl IndexError"
  by (simp_all add: hint_rung_def HINT_PHASES_def HINT_SUPPORT_def dict_of_def)

lemma next_hint:
  "next_hint_index ''INITIAL_PROMPT'' hints = (if 0 < length hints then Some 0 else None)"
  "next_hint_index ''HINT_SEMANTIC'' hints = (if 1 < length hints then Some 1 else None)"
  "next_hint_index ''HINT_STRUCTURAL'' hints = (if 2 < length hints then Some 2 else None)"
  "next_hint_index ''HINT_PARTIAL_FORM'' hints = (if 3 < length hints then Some 3 else None)"
  "next_hint_index ''FULL_REVEAL'' hints = None" "next_hint_index ''POST_REVEAL_OPTIONAL_ATTEMPT'' hints = None"
  "next_hint_index ''EXPLANATION'' hints = None"
  by (simp_all add: next_hint_index_def HINT_PHASES_def)

lemma phase_cases:
  assumes "phase \<in> set LADDER_PHASES"
  obtains "phase = ''INITIAL_PROMPT''" | "phase = ''HINT_SEMANTIC''" | "phase = ''HINT_STRUCTURAL''"
    | "phase = ''HINT_PARTIAL_FORM''" | "phase = ''FULL_REVEAL''" | "phase = ''POST_REVEAL_OPTIONAL_ATTEMPT''"
    | "phase = ''EXPLANATION''"
  using assms unfolding LADDER_PHASES_def list.set insert_iff empty_iff by (elim disjE) simp_all

lemma post_reveal_phases [simp]:
  "\<not> is_post_reveal_attempt ''INITIAL_PROMPT''" "\<not> is_post_reveal_attempt ''HINT_SEMANTIC''"
  "\<not> is_post_reveal_attempt ''HINT_STRUCTURAL''" "\<not> is_post_reveal_attempt ''HINT_PARTIAL_FORM''"
  "is_post_reveal_attempt ''FULL_REVEAL''" "is_post_reveal_attempt ''POST_REVEAL_OPTIONAL_ATTEMPT''"
  "is_post_reveal_attempt ''EXPLANATION''"
  by (simp_all add: is_post_reveal_attempt_def POST_REVEAL_PHASES_def)

end
