(* ===== verification/Ladder_Properties.thy ===== *)
theory Ladder_Properties
  imports Ladder
begin

text \<open>
  The properties of the presentation ladder: which computed moves the one-way rule refuses, that
  committed moves only climb, what an explanation before the reveal costs, progress of the hint walk,
  and the evidence side of the rule.
\<close>

definition well_placed :: "string \<Rightarrow> string \<Rightarrow> bool" where
  "well_placed phase support \<longleftrightarrow> phase \<in> set LADDER_PHASES
     \<and> (\<exists>s c. support_rank support = Inr s \<and> support_ceiling phase = Inr c \<and> s \<le> c)"

lemma support_at_most_full: "support_rank s = Inr i \<Longrightarrow> i \<le> 5"
  using supports.rank_bound [of s i] by (simp add: SUPPORT_LEVELS_def)

lemma support_word: "support_rank s = Inr i \<Longrightarrow> s \<in> set SUPPORT_LEVELS"
  using supports.rank_word by blast

section \<open>Moves and refusals\<close>

lemma reveal_refusal:
  assumes "well_placed phase support"
  shows "ladder_step_refusal phase support ''FULL_REVEAL'' ''FULL_FORM_SHOWN''
    = Inr (if phase \<in> {''POST_REVEAL_OPTIONAL_ATTEMPT'', ''EXPLANATION''}
           then Some (PhaseStepsBack phase ''FULL_REVEAL'') else None)"
proof -
  from assms obtain s where s: "support_rank support = Inr s" and p: "phase \<in> set LADDER_PHASES"
    by (auto simp: well_placed_def)
  have "\<not> 5 < s" using support_at_most_full [OF s] by simp
  with p show ?thesis
    by (cases rule: phase_cases)
      (simp_all add: ladder_step_refusal_def s LADDER_PHASES_def SUPPORT_LEVELS_def)
qed

lemma hint_move:
  assumes "well_placed phase support" and "next_hint_index phase hints = Some i" and "length hints \<le> 3"
  obtains p s where "hint_rung i = Inr (p, s)" and "ladder_step_refusal phase support p s = Inr None"
proof -
  from assms(1) obtain r c where r: "support_rank support = Inr r" "support_ceiling phase = Inr c" "r \<le> c"
    and p: "phase \<in> set LADDER_PHASES" by (auto simp: well_placed_def)
  from p assms(2,3) r that show thesis
    by (cases rule: phase_cases) (auto simp: next_hint refusal_None_iff hint_rungs split: if_splits)
qed

lemma explanation_move:
  assumes "well_placed phase support"
  shows "\<exists>m. ladder_step phase support hints reveal ''EXPLANATION'' = Inr m
    \<and> ladder_step_refusal phase support (ls_presentation_phase m) (ls_support_level m) = Inr None
    \<and> ls_presentation_phase m = ''EXPLANATION'' \<and> ls_delivery_kind m = ''EXPLANATION''
    \<and> (\<not> is_post_reveal_attempt phase \<longrightarrow> ls_support_level m = support)"
proof -
  from assms obtain s where s: "support_rank support = Inr s" and p: "phase \<in> set LADDER_PHASES"
    by (auto simp: well_placed_def)
  obtain i where i: "phase_rank phase = Inr i" "i \<le> 6"
    using p phases.rank_word phases.rank_bound by (force simp: LADDER_PHASES_def)
  have w: "support \<in> set SUPPORT_LEVELS" "''FULL_FORM_SHOWN'' \<in> set SUPPORT_LEVELS"
    using support_word [OF s] support_word [OF support_ranks(6)] by simp_all
  show ?thesis
    using s i support_at_most_full [OF s] w
    by (auto simp: ladder_step_def higher_support_def enum_word_def refusal_None_iff)
qed

lemma retry_move:
  assumes "well_placed phase support"
  shows "\<exists>m. ladder_step phase support hints reveal ''RETRY'' = Inr m
    \<and> ladder_step_refusal phase support (ls_presentation_phase m) (ls_support_level m) = Inr None
    \<and> ls_presentation_phase m = phase \<and> ls_support_level m = support \<and> ls_delivery_kind m = ''RETRY''"
proof -
  from assms obtain s c where s: "support_rank support = Inr s" "support_ceiling phase = Inr c" "s \<le> c"
    and p: "phase \<in> set LADDER_PHASES" by (auto simp: well_placed_def)
  obtain i where i: "phase_rank phase = Inr i" using p phases.rank_word by blast
  show ?thesis
    using s p i support_word [OF s(1)] by (auto simp: ladder_step_def enum_word_def refusal_None_iff)
qed

text \<open>
  From a well-placed position and a hint ladder of at most three rungs, every delivery kind yields
  a move, and the one-way rule accepts it except in exactly one situation: a move that reveals (asked
  for, or a hint with no rung left) from a phase after the reveal, \<open>POST_REVEAL_OPTIONAL_ATTEMPT\<close> or
  \<open>EXPLANATION\<close>, which steps the phase back.
\<close>

theorem ladder_move_refused_iff:
  assumes "well_placed phase support" and "length hints \<le> 3"
    and "kind \<in> {''HINT'', ''REVEAL'', ''EXPLANATION'', ''RETRY''}"
  shows "\<exists>m. ladder_step phase support hints reveal kind = Inr m
    \<and> ladder_step_refusal phase support (ls_presentation_phase m) (ls_support_level m)
      = Inr (if ls_delivery_kind m = ''REVEAL'' \<and> phase \<in> {''POST_REVEAL_OPTIONAL_ATTEMPT'', ''EXPLANATION''}
             then Some (PhaseStepsBack phase ''FULL_REVEAL'') else None)"
proof -
  have reveal: "ladder_step_refusal phase support (ls_presentation_phase (reveal_step reveal))
      (ls_support_level (reveal_step reveal))
    = Inr (if ls_delivery_kind (reveal_step reveal) = ''REVEAL''
             \<and> phase \<in> {''POST_REVEAL_OPTIONAL_ATTEMPT'', ''EXPLANATION''}
           then Some (PhaseStepsBack phase ''FULL_REVEAL'') else None)"
    using reveal_refusal [OF assms(1)] by (simp add: reveal_step_def)
  from assms(3) consider "kind = ''HINT''" | "kind = ''REVEAL''" | "kind = ''EXPLANATION''" | "kind = ''RETRY''"
    by auto
  then show ?thesis
  proof cases
    case 1
    show ?thesis
    proof (cases "next_hint_index phase hints")
      case None
      with 1 reveal show ?thesis by (simp add: ladder_step_def)
    next
      case (Some i)
      then obtain p s where "hint_rung i = Inr (p, s)" "ladder_step_refusal phase support p s = Inr None"
        using hint_move [OF assms(1) _ assms(2)] by blast
      with 1 Some show ?thesis by (simp add: ladder_step_def)
    qed
  next
    case 2
    with reveal show ?thesis by (simp add: ladder_step_def)
  next
    case 3
    with explanation_move [OF assms(1)] show ?thesis by fastforce
  next
    case 4
    with retry_move [OF assms(1)] show ?thesis by fastforce
  qed
qed

lemma initial_placed: "well_placed ''INITIAL_PROMPT'' ''CONTEXT_ONLY''"
  by (simp add: well_placed_def LADDER_PHASES_def)

theorem ladder_move_refused_iff_witness:
  "\<exists>m. ladder_step ''INITIAL_PROMPT'' ''CONTEXT_ONLY'' [''think of a loan''] (Some ''lend'') ''HINT'' = Inr m
    \<and> ladder_step_refusal ''INITIAL_PROMPT'' ''CONTEXT_ONLY'' (ls_presentation_phase m) (ls_support_level m) = Inr None"
  using ladder_move_refused_iff [OF initial_placed, of "[''think of a loan'']" "''HINT''" "Some ''lend''"] by auto

section \<open>Committed moves\<close>

definition not_above :: "position \<Rightarrow> position \<Rightarrow> bool" where
  "not_above a b \<longleftrightarrow> (\<exists>i i' j j'. phase_rank (fst a) = Inr i \<and> phase_rank (fst b) = Inr i' \<and> i \<le> i'
     \<and> support_rank (snd a) = Inr j \<and> support_rank (snd b) = Inr j' \<and> j \<le> j')"


lemma climbs_up:
  assumes "climbs hints reveal a b"
  shows "not_above a b \<and> well_placed (fst b) (snd b)"
  using assms
proof cases
  case (step phase support kind m)
  from step(4) [unfolded refusal_None_iff] show ?thesis
    unfolding step(1,2) not_above_def well_placed_def using phases.rank_word by fastforce
qed


lemma explanation_climb:
  assumes "well_placed phase support" and "\<not> is_post_reveal_attempt phase"
  shows "climbs hints reveal (phase, support) (''EXPLANATION'', support)"
proof -
  obtain m where m: "ladder_step phase support hints reveal ''EXPLANATION'' = Inr m"
    "ladder_step_refusal phase support (ls_presentation_phase m) (ls_support_level m) = Inr None"
    "ls_presentation_phase m = ''EXPLANATION''" "ls_support_level m = support"
    using explanation_move [OF assms(1)] assms(2) by blast
  from climbs.step [OF m(1,2)] m(3,4) show ?thesis by simp
qed


lemma explanation_absorbing:
  assumes "(climbs hints reveal)\<^sup>*\<^sup>* (''EXPLANATION'', s) q"
  shows "fst q = ''EXPLANATION''"
  using assms
proof (induction rule: rtranclp_induct)
  case (step b c)
  then have up: "not_above b c" using climbs_up by blast
  then obtain i' where i': "phase_rank (fst c) = Inr i'" "6 \<le> i'"
    using step.IH by (auto simp: not_above_def)
  moreover have "i' < 7" using phases.rank_bound [OF i'(1)] by (simp add: LADDER_PHASES_def)
  ultimately have "phase_rank (fst c) = Inr 6" by simp
  then show ?case using phases.rank_inject phase_ranks(7) by blast
qed simp

text \<open>
  An explanation before the reveal closes the way to the answer.  A moment at its initial prompt
  can commit the explanation with its support unchanged, and from there every committed move stays in
  the \<open>EXPLANATION\<close> phase: the reveal is computed, for a hint request as well, and always refused.
\<close>

theorem explanation_blocks_reveal:
  "climbs hints reveal (''INITIAL_PROMPT'', ''CONTEXT_ONLY'') (''EXPLANATION'', ''CONTEXT_ONLY'')
   \<and> fst ` {q. (climbs hints reveal)\<^sup>*\<^sup>* (''EXPLANATION'', ''CONTEXT_ONLY'') q} = {''EXPLANATION''}
   \<and> ladder_step ''EXPLANATION'' ''CONTEXT_ONLY'' hints reveal ''REVEAL'' = Inr (reveal_step reveal)
   \<and> ladder_step ''EXPLANATION'' ''CONTEXT_ONLY'' hints reveal ''HINT'' = Inr (reveal_step reveal)
   \<and> ladder_step_refusal ''EXPLANATION'' ''CONTEXT_ONLY'' ''FULL_REVEAL'' ''FULL_FORM_SHOWN''
       = Inr (Some (PhaseStepsBack ''EXPLANATION'' ''FULL_REVEAL''))"
proof -
  have "well_placed ''EXPLANATION'' ''CONTEXT_ONLY''" by (simp add: well_placed_def LADDER_PHASES_def)
  note refused = reveal_refusal [OF this]
  have "fst ` {q. (climbs hints reveal)\<^sup>*\<^sup>* (''EXPLANATION'', ''CONTEXT_ONLY'') q} = {''EXPLANATION''}"
    using explanation_absorbing by (auto intro!: image_eqI [of _ fst "(''EXPLANATION'', ''CONTEXT_ONLY'')"])
  then show ?thesis
    using explanation_climb [OF initial_placed] refused by (simp add: ladder_step_def next_hint)
qed

text \<open>
  A hint ladder with more than three rungs breaks the walk: after the third rung the next hint
  raises \<^verbatim>\<open>IndexError\<close> instead of revealing, because only three hint phases exist.
\<close>

theorem fourth_rung_raises:
  assumes "3 < length hints"
  shows "ladder_step ''HINT_PARTIAL_FORM'' support hints reveal ''HINT'' = Inl IndexError"
  using assms by (simp add: ladder_step_def next_hint hint_rungs)

theorem fourth_rung_raises_witness:
  "ladder_step ''HINT_PARTIAL_FORM'' ''PARTIAL_FORM'' [''a'', ''b'', ''c'', ''d''] None ''HINT'' = Inl IndexError"
  by (rule fourth_rung_raises) simp









section \<open>Evidence\<close>

text \<open>
  Evidence never pretends less support than the learner had.  For known support words the recorded
  level is one of the two given and ranks at least as high as both, and once the full form was shown,
  by the attempt's support or by the recorded state, the answer exposure is \<open>FULL\<close>.
\<close>

theorem evidence_never_pretends_less:
  assumes "support_rank peak = Inr i" and "support_rank attempt = Inr j" and "state \<in> set ANSWER_EXPOSURES"
  shows "\<exists>w. evidence_support_level peak attempt = Inr w \<and> w \<in> {peak, attempt}
      \<and> support_rank w = Inr (max i j)
      \<and> evidence_answer_exposure state w = Inr (if state = ''FULL'' \<or> max i j = 5 then ''FULL'' else state)"
proof -
  let ?w = "if j \<le> i then peak else attempt"
  have "evidence_support_level peak attempt = Inr ?w"
    using assms(1,2) support_word by (auto simp: evidence_support_level_def higher_support_def enum_word_def)
  moreover have r: "support_rank ?w = Inr (max i j)" using assms(1,2) by simp
  moreover have "max i j \<le> 5" by (rule support_at_most_full [OF r])
  ultimately show ?thesis
    using assms(3) by (intro exI [of _ ?w]) (auto simp: evidence_answer_exposure_def enum_word_def)
qed

theorem evidence_never_pretends_less_witness:
  "\<exists>w. evidence_support_level ''FULL_FORM_SHOWN'' ''NONE'' = Inr w
     \<and> evidence_answer_exposure ''NONE'' w = Inr ''FULL''"
  using evidence_never_pretends_less [of "''FULL_FORM_SHOWN''" 5 "''NONE''" 0 "''NONE''"]
  by (auto simp: ANSWER_EXPOSURES_def)

end
