(* ===== verification/Teaching_Flow.thy ===== *)
theory Teaching_Flow
  imports Prelude
begin

text \<open>
  One teaching turn's decision: the envelope's shape rules (\<^verbatim>\<open>elc/teaching/envelope.py\<close>), the versioned
  limits (\<^verbatim>\<open>elc/teaching/limits.py\<close>) and the branch of \<^verbatim>\<open>DECIDING_NEXT_ACTION\<close>
  (\<^verbatim>\<open>elc/teaching/next_action.py\<close>).  The enumerations are datatypes; delivery kinds and evaluation
  outcomes stay words, because the code compares them as strings.
\<close>

section \<open>The envelope\<close>

datatype control_intent = CONTINUE | ASK_HINT | ASK_ANSWER | ASK_EXPLANATION | ASK_CLARIFICATION | SKIP
  | REJECT_TARGET | CHANGE_TOPIC | SWITCH_TARGET | META_DISCUSSION | INTENT_NONE

definition ATTEMPTLESS_CONTROL_INTENTS :: "control_intent list" where
  "ATTEMPTLESS_CONTROL_INTENTS = [SKIP, REJECT_TARGET, CHANGE_TOPIC]"

record attempt_payload =
  ap_text :: string
  ap_source :: string

record response_envelope =
  en_control_intent :: control_intent
  en_attempt_present :: bool
  en_attempt :: "attempt_payload option"
  en_target_switch_request :: "string option"
  en_clarification_request :: "string option"
  en_user_preference_signal :: "string option"
  en_interpretation_confidence :: "rat option"

definition is_attemptless_control :: "response_envelope \<Rightarrow> bool" where
  "is_attemptless_control e \<longleftrightarrow> en_control_intent e \<in> set ATTEMPTLESS_CONTROL_INTENTS"

definition is_leaving :: "response_envelope \<Rightarrow> bool" where
  "is_leaving e \<longleftrightarrow> en_control_intent e \<in> set ATTEMPTLESS_CONTROL_INTENTS \<or> en_control_intent e = SWITCH_TARGET"

text \<open>The first check of \<^verbatim>\<open>envelope_refusal\<close> (the intent's word is in the vocabulary) holds of every
  enumeration member.  A confidence is the value of a finite float; \<open>None\<close> is an infinity or a NaN, for
  which the chained comparison of the source is false.\<close>

datatype envelope_fault = ConfidenceOutsideUnit | AttemptMissing | AttemptContradiction
  | ControlOnlyWithAttempt control_intent | SwitchWithoutTarget

definition confidence_in_unit :: "rat option \<Rightarrow> bool" where
  "confidence_in_unit c = (case c of None \<Rightarrow> False | Some r \<Rightarrow> 0 \<le> r \<and> r \<le> 1)"

definition envelope_refusal :: "response_envelope \<Rightarrow> envelope_fault option" where
  "envelope_refusal e =
     (if \<not> confidence_in_unit (en_interpretation_confidence e) then Some ConfidenceOutsideUnit
      else if en_attempt_present e \<and> en_attempt e = None then Some AttemptMissing
      else if en_attempt e \<noteq> None \<and> \<not> en_attempt_present e then Some AttemptContradiction
      else if is_attemptless_control e \<and> en_attempt_present e
        then Some (ControlOnlyWithAttempt (en_control_intent e))
      else if en_control_intent e = SWITCH_TARGET
          \<and> (en_target_switch_request e = None \<or> en_target_switch_request e = Some [])
        then Some SwitchWithoutTarget
      else None)"

section \<open>Limits\<close>

definition RETRY_LIKE_DELIVERY_KINDS :: "string list" where
  "RETRY_LIKE_DELIVERY_KINDS = [''HINT'', ''RETRY'']"

definition CLOSING_DELIVERY_KINDS :: "string list" where
  "CLOSING_DELIVERY_KINDS = [''REVEAL'', ''TERMINAL_FEEDBACK'', ''CLOSE'']"

definition LIMITS_V0_VERSION :: string where
  "LIMITS_V0_VERSION = ''teaching-limits-v0''"

record teaching_limits =
  tl_soft_attempt_limit :: int
  tl_hard_attempt_limit :: int
  tl_soft_teaching_turn_limit :: int
  tl_hard_teaching_turn_limit :: int
  tl_version :: string

definition LIMITS_V0 :: teaching_limits where
  "LIMITS_V0 = \<lparr>tl_soft_attempt_limit = 2, tl_hard_attempt_limit = 3, tl_soft_teaching_turn_limit = 3,
     tl_hard_teaching_turn_limit = 5, tl_version = LIMITS_V0_VERSION\<rparr>"

record teaching_load =
  ld_attempt_count :: int
  ld_teaching_turn_count :: int

record limit_verdict =
  lv_allowed :: bool
  lv_user_request_required :: bool
  lv_degraded_reason :: "string option"
  lv_closing_only :: bool
  lv_policy_version :: string

definition continuation_verdict :: "teaching_limits \<Rightarrow> teaching_load \<Rightarrow> string \<Rightarrow> bool \<Rightarrow> limit_verdict" where
  "continuation_verdict limits load delivery_kind user_requested_continue =
     (let retry_like = delivery_kind \<in> set RETRY_LIKE_DELIVERY_KINDS;
          terminalizing = delivery_kind \<in> set CLOSING_DELIVERY_KINDS;
          soft_reached = tl_soft_attempt_limit limits \<le> ld_attempt_count load
            \<or> tl_soft_teaching_turn_limit limits \<le> ld_teaching_turn_count load
      in if tl_hard_attempt_limit limits \<le> ld_attempt_count load \<and> retry_like
         then \<lparr>lv_allowed = False, lv_user_request_required = False,
               lv_degraded_reason = Some ''HARD_ATTEMPT_LIMIT'', lv_closing_only = True,
               lv_policy_version = LIMITS_V0_VERSION\<rparr>
         else if tl_hard_teaching_turn_limit limits \<le> ld_teaching_turn_count load \<and> \<not> terminalizing
         then \<lparr>lv_allowed = False, lv_user_request_required = False,
               lv_degraded_reason = Some ''HARD_TEACHING_TURN_LIMIT'', lv_closing_only = True,
               lv_policy_version = LIMITS_V0_VERSION\<rparr>
         else if soft_reached \<and> \<not> user_requested_continue \<and> \<not> terminalizing
         then \<lparr>lv_allowed = False, lv_user_request_required = True, lv_degraded_reason = None,
               lv_closing_only = False, lv_policy_version = LIMITS_V0_VERSION\<rparr>
         else \<lparr>lv_allowed = True, lv_user_request_required = False, lv_degraded_reason = None,
               lv_closing_only = False, lv_policy_version = LIMITS_V0_VERSION\<rparr>)"

section \<open>The next action\<close>

datatype moment_state = AUTHORIZED | MOMENT_OPENING | AWAITING_USER | EVALUATING | DECIDING_NEXT_ACTION
  | COMPLETING | ABORTING | TEACHING_TERMINAL | RESUMING | CLOSED

datatype completion_outcome = SUCCESS_UNSUPPORTED | SUCCESS_SUPPORTED | SUCCESS_ALTERNATIVE
  | PARTIAL_PROGRESS | REVEALED | USER_SATISFIED | NO_FURTHER_VALUE

datatype abort_reason = USER_SKIP | USER_REJECTED_TARGET | USER_TOPIC_SHIFT | USER_SWITCH_TARGET
  | AMBIGUOUS_EXIT | POLICY_STOP | ATTEMPT_LIMIT | ABORT_CONTENT_INVALID | SNAPSHOT_INVALIDATED
  | PRE_DELIVERY_INVALIDATED | SYSTEM_FAILURE | DELIVERY_FAILURE | ABORT_EXPIRED | SYSTEM_RECOVERY_ABORT

datatype closure_word = Completion completion_outcome | Abort abort_reason

record next_action =
  na_moment_state :: moment_state
  na_delivery_kind :: "string option"
  na_closure :: "closure_word option"
  na_completion_outcome :: "completion_outcome option"
  na_abort_reason :: "abort_reason option"
  na_terminalizing :: bool
  na_switch_target_request :: "string option"
  na_limit_reason :: "string option"
  na_refused_kind :: "string option"

definition is_closure :: "next_action \<Rightarrow> bool" where
  "is_closure a \<longleftrightarrow> na_closure a \<noteq> None"

definition shows_answer :: "next_action \<Rightarrow> bool" where
  "shows_answer a \<longleftrightarrow> na_closure a \<noteq> None \<and> na_delivery_kind a = Some ''REVEAL''"

fun ABORT_BY_INTENT :: "control_intent \<Rightarrow> abort_reason option" where
  "ABORT_BY_INTENT SKIP = Some USER_SKIP"
| "ABORT_BY_INTENT REJECT_TARGET = Some USER_REJECTED_TARGET"
| "ABORT_BY_INTENT CHANGE_TOPIC = Some USER_TOPIC_SHIFT"
| "ABORT_BY_INTENT SWITCH_TARGET = Some USER_SWITCH_TARGET"
| "ABORT_BY_INTENT _ = None"

definition closing_outcome_for :: "string \<Rightarrow> string \<Rightarrow> completion_outcome" where
  "closing_outcome_for outcome support_level =
     (if outcome = ''ALTERNATIVE_SUCCESS'' then SUCCESS_ALTERNATIVE
      else if support_level \<in> {''NONE'', ''CONTEXT_ONLY''} then SUCCESS_UNSUPPORTED
      else SUCCESS_SUPPORTED)"

fun delivery_kind_for :: "control_intent \<Rightarrow> string" where
  "delivery_kind_for ASK_HINT = ''HINT''"
| "delivery_kind_for ASK_ANSWER = ''REVEAL''"
| "delivery_kind_for ASK_EXPLANATION = ''EXPLANATION''"
| "delivery_kind_for _ = ''RETRY''"

definition is_user_requested_continue :: "control_intent \<Rightarrow> bool" where
  "is_user_requested_continue intent \<longleftrightarrow>
     intent \<in> {ASK_HINT, ASK_ANSWER, ASK_EXPLANATION, ASK_CLARIFICATION, CONTINUE}"

definition continuation_of :: "string \<Rightarrow> next_action" where
  "continuation_of kind = \<lparr>na_moment_state = AWAITING_USER, na_delivery_kind = Some kind, na_closure = None,
     na_completion_outcome = None, na_abort_reason = None, na_terminalizing = False,
     na_switch_target_request = None, na_limit_reason = None, na_refused_kind = None\<rparr>"

definition abort_action :: "abort_reason \<Rightarrow> string option \<Rightarrow> next_action" where
  "abort_action reason switch = \<lparr>na_moment_state = ABORTING, na_delivery_kind = None,
     na_closure = Some (Abort reason), na_completion_outcome = None, na_abort_reason = Some reason,
     na_terminalizing = True, na_switch_target_request = switch, na_limit_reason = None,
     na_refused_kind = None\<rparr>"

definition completion_action ::
  "completion_outcome \<Rightarrow> string option \<Rightarrow> string option \<Rightarrow> string option \<Rightarrow> next_action" where
  "completion_action outcome delivery limit_reason refused = \<lparr>na_moment_state = COMPLETING,
     na_delivery_kind = delivery, na_closure = Some (Completion outcome),
     na_completion_outcome = Some outcome, na_abort_reason = None, na_terminalizing = True,
     na_switch_target_request = None, na_limit_reason = limit_reason, na_refused_kind = refused\<rparr>"

definition decide_next_action ::
  "response_envelope \<Rightarrow> string option \<Rightarrow> string \<Rightarrow> teaching_limits \<Rightarrow> teaching_load \<Rightarrow> next_action" where
  "decide_next_action envelope evaluation_outcome support_level_before_attempt limits load =
     (let intent = en_control_intent envelope in
      if intent = SWITCH_TARGET then abort_action USER_SWITCH_TARGET (en_target_switch_request envelope)
      else case ABORT_BY_INTENT intent of
        Some reason \<Rightarrow> abort_action reason None
      | None \<Rightarrow>
          if evaluation_outcome \<in> {Some ''SUCCESS'', Some ''ALTERNATIVE_SUCCESS''}
             \<and> intent \<notin> {ASK_ANSWER, ASK_EXPLANATION, ASK_HINT}
          then completion_action (closing_outcome_for (the evaluation_outcome) support_level_before_attempt)
                 None None None
          else let kind = delivery_kind_for intent;
                   verdict = continuation_verdict limits load kind (is_user_requested_continue intent)
               in if lv_allowed verdict then continuation_of kind
                  else if lv_closing_only verdict
                  then completion_action REVEALED (Some ''REVEAL'') (lv_degraded_reason verdict) (Some kind)
                  else completion_action PARTIAL_PROGRESS None (lv_degraded_reason verdict) (Some kind))"

section \<open>Facts about the limits\<close>

lemmas verdict_simps = continuation_verdict_def Let_def RETRY_LIKE_DELIVERY_KINDS_def CLOSING_DELIVERY_KINDS_def

lemma delivery_kinds: "delivery_kind_for i \<in> {''HINT'', ''REVEAL'', ''EXPLANATION'', ''RETRY''}"
  by (cases i) auto

lemma abort_by_intent_iff:
  "ABORT_BY_INTENT i \<noteq> None \<longleftrightarrow> i \<in> {SKIP, REJECT_TARGET, CHANGE_TOPIC, SWITCH_TARGET}"
  by (cases i) auto

text \<open>The five branches of \<open>decide_next_action\<close>, in the order the code tries them.\<close>

definition settles :: "response_envelope \<Rightarrow> string option \<Rightarrow> bool" where
  "settles e ev \<longleftrightarrow> ev \<in> {Some ''SUCCESS'', Some ''ALTERNATIVE_SUCCESS''}
     \<and> en_control_intent e \<notin> {ASK_ANSWER, ASK_EXPLANATION, ASK_HINT}"

lemma decide_cases:
  obtains (leave) r sw where "ABORT_BY_INTENT (en_control_intent e) = Some r"
      "decide_next_action e ev s limits load = abort_action r sw"
    | (success) w where "settles e ev" "ev = Some w" "w \<in> {''SUCCESS'', ''ALTERNATIVE_SUCCESS''}"
      "ABORT_BY_INTENT (en_control_intent e) = None"
      "decide_next_action e ev s limits load = completion_action (closing_outcome_for w s) None None None"
    | (continue) v where "ABORT_BY_INTENT (en_control_intent e) = None" "\<not> settles e ev"
      "v = continuation_verdict limits load (delivery_kind_for (en_control_intent e))
         (is_user_requested_continue (en_control_intent e))" "lv_allowed v"
      "decide_next_action e ev s limits load = continuation_of (delivery_kind_for (en_control_intent e))"
    | (closing) v where "ABORT_BY_INTENT (en_control_intent e) = None" "\<not> settles e ev"
      "v = continuation_verdict limits load (delivery_kind_for (en_control_intent e))
         (is_user_requested_continue (en_control_intent e))" "\<not> lv_allowed v"
      "decide_next_action e ev s limits load =
        (if lv_closing_only v
         then completion_action REVEALED (Some ''REVEAL'') (lv_degraded_reason v)
           (Some (delivery_kind_for (en_control_intent e)))
         else completion_action PARTIAL_PROGRESS None (lv_degraded_reason v)
           (Some (delivery_kind_for (en_control_intent e))))"
proof (cases "ABORT_BY_INTENT (en_control_intent e)")
  case (Some r)
  show thesis
  proof (cases "en_control_intent e = SWITCH_TARGET")
    case True
    with leave [of USER_SWITCH_TARGET] show thesis by (simp add: decide_next_action_def)
  next
    case False
    with Some leave [of r] show thesis by (simp add: decide_next_action_def)
  qed
next
  case None
  then have sw: "en_control_intent e \<noteq> SWITCH_TARGET" by auto
  let ?v = "continuation_verdict limits load (delivery_kind_for (en_control_intent e))
         (is_user_requested_continue (en_control_intent e))"
  show thesis
  proof (cases "settles e ev")
    case True
    then obtain w where "ev = Some w" "w \<in> {''SUCCESS'', ''ALTERNATIVE_SUCCESS''}" by (auto simp: settles_def)
    with True None sw success show thesis by (simp add: decide_next_action_def settles_def)
  next
    case False
    with None sw have d: "decide_next_action e ev s limits load = (if lv_allowed ?v
        then continuation_of (delivery_kind_for (en_control_intent e))
        else if lv_closing_only ?v
        then completion_action REVEALED (Some ''REVEAL'') (lv_degraded_reason ?v)
          (Some (delivery_kind_for (en_control_intent e)))
        else completion_action PARTIAL_PROGRESS None (lv_degraded_reason ?v)
          (Some (delivery_kind_for (en_control_intent e))))"
      unfolding decide_next_action_def Let_def settles_def by (simp only: if_False option.simps)
    show thesis
    proof (cases "lv_allowed ?v")
      case True
      with d None \<open>\<not> settles e ev\<close> continue show thesis by simp
    next
      case False
      with d None \<open>\<not> settles e ev\<close> closing show thesis by simp
    qed
  qed
qed

section \<open>The verdict on a delivery\<close>

definition hard_capped :: "teaching_limits \<Rightarrow> teaching_load \<Rightarrow> string \<Rightarrow> bool" where
  "hard_capped limits load k \<longleftrightarrow>
     tl_hard_attempt_limit limits \<le> ld_attempt_count load \<and> k \<in> {''HINT'', ''RETRY''}
     \<or> tl_hard_teaching_turn_limit limits \<le> ld_teaching_turn_count load
       \<and> k \<notin> {''REVEAL'', ''TERMINAL_FEEDBACK'', ''CLOSE''}"

definition soft_reached :: "teaching_limits \<Rightarrow> teaching_load \<Rightarrow> bool" where
  "soft_reached limits load \<longleftrightarrow> tl_soft_attempt_limit limits \<le> ld_attempt_count load
     \<or> tl_soft_teaching_turn_limit limits \<le> ld_teaching_turn_count load"

lemma verdict_iff:
  "lv_closing_only (continuation_verdict limits load k req) \<longleftrightarrow> hard_capped limits load k"
  "lv_allowed (continuation_verdict limits load k req) \<longleftrightarrow> \<not> hard_capped limits load k
     \<and> (\<not> soft_reached limits load \<or> req \<or> k \<in> {''REVEAL'', ''TERMINAL_FEEDBACK'', ''CLOSE''})"
  "lv_degraded_reason (continuation_verdict limits load k req) =
     (if tl_hard_attempt_limit limits \<le> ld_attempt_count load \<and> k \<in> {''HINT'', ''RETRY''}
      then Some ''HARD_ATTEMPT_LIMIT''
      else if hard_capped limits load k then Some ''HARD_TEACHING_TURN_LIMIT'' else None)"
  by (auto simp: verdict_simps hard_capped_def soft_reached_def)

lemma allowed_no_reason:
  "v = continuation_verdict limits load k req \<Longrightarrow> lv_allowed v \<Longrightarrow> lv_degraded_reason v = None"
  using verdict_iff [of limits load k req] by (auto simp: hard_capped_def)

lemma unrequested_iff:
  "ABORT_BY_INTENT i = None \<Longrightarrow> \<not> is_user_requested_continue i \<longleftrightarrow> i \<in> {META_DISCUSSION, INTENT_NONE}"
  by (cases i) (auto simp: is_user_requested_continue_def)

lemma reveal_kind_iff: "delivery_kind_for i = ''REVEAL'' \<longleftrightarrow> i = ASK_ANSWER"
  by (cases i) auto

lemma delivery_not_closing: "delivery_kind_for i \<notin> {''TERMINAL_FEEDBACK'', ''CLOSE''}"
  by (cases i) auto

lemma unrequested_kind: "i \<in> {META_DISCUSSION, INTENT_NONE} \<Longrightarrow> delivery_kind_for i = ''RETRY''"
  by auto

end
