(* ===== verification/Reply_Turn.thy ===== *)
theory Reply_Turn
  imports Gate_Lemmas Teaching_Flow
begin

text \<open>
  Where the next-action decision meets the Gate: the continuation fact bundle and the abort words of
  \<^verbatim>\<open>elc/teaching/flow.py\<close>, the lock fact of \<^verbatim>\<open>elc/teaching/controller.py\<close>, and the two handlers of
  \<^verbatim>\<open>elc/runtime/controller.py\<close> that execute one decided branch of an active-teaching turn
  (\<^verbatim>\<open>_continuation_gate\<close>, \<^verbatim>\<open>_execute_next_action\<close>).  A handler is the sequence of calls it makes on
  the stores and on the delivery path, in order, with every early return; a call that answers
  \<^verbatim>\<open>Err\<close> ends the sequence (\<open>run_calls\<close>).  What those calls do inside is not part of this theory.
\<close>

section \<open>The continuation facts\<close>

record moment_view =
  mo_moment_id :: string
  mo_candidate_id :: string
  mo_lifecycle_state :: moment_state

fun moment_state_word :: "moment_state \<Rightarrow> string" where
  "moment_state_word AUTHORIZED = ''AUTHORIZED''"
| "moment_state_word MOMENT_OPENING = ''OPENING''"
| "moment_state_word AWAITING_USER = ''AWAITING_USER''"
| "moment_state_word EVALUATING = ''EVALUATING''"
| "moment_state_word DECIDING_NEXT_ACTION = ''DECIDING_NEXT_ACTION''"
| "moment_state_word COMPLETING = ''COMPLETING''"
| "moment_state_word ABORTING = ''ABORTING''"
| "moment_state_word TEACHING_TERMINAL = ''TEACHING_TERMINAL''"
| "moment_state_word RESUMING = ''RESUMING''"
| "moment_state_word CLOSED = ''CLOSED''"

text \<open>\<open>holder\<close> is the moment id of the conversation's lock row, if there is one.\<close>

definition observed_lock_state :: "string option \<Rightarrow> string option \<Rightarrow> string" where
  "observed_lock_state holder moment_id =
     (case holder of None \<Rightarrow> ''NONE''
      | Some current \<Rightarrow> if moment_id = Some current then ''OWNED_BY_THIS_MOMENT'' else ''OWNED_BY_OTHER'')"

definition continuation_facts_for ::
  "moment_view \<Rightarrow> string option \<Rightarrow> string \<Rightarrow> string \<Rightarrow> teaching_load \<Rightarrow> teaching_limits \<Rightarrow> string \<Rightarrow> string
   \<Rightarrow> string \<Rightarrow> continuation_facts" where
  "continuation_facts_for moment decision_cycle_id proposed_action lock_state load limits target_status
     content_status candidate_id =
     \<lparr>gf_proposed_action = proposed_action, gf_gate_context = ''USER_REQUESTED_CONTINUE'',
      gf_authorization_path = ''USER_INITIATED'', gf_authorization_basis = ''ACTIVE_MOMENT'',
      gf_user_intent_scope = ''ACTIVE_TEACHING_CONTINUATION'', gf_authorization_status = ''VALID'',
      gf_subject_status = ''ACTIVE'', gf_target_status = target_status,
      gf_content_status = content_status, gf_lock_state = lock_state,
      gf_learning_snapshot_status = ''VALID'', gf_gate_state_status = ''COMPLETE'',
      gf_safety_privacy_status = ''ALLOW'', gf_target_suppressed = False,
      cf_moment_id = mo_moment_id moment, cf_decision_cycle_id = decision_cycle_id,
      cf_candidate_id = candidate_id, cf_continuation_requested = True,
      cf_moment_state = moment_state_word (mo_lifecycle_state moment),
      cf_hard_attempt_limit_exhausted = (tl_hard_attempt_limit limits \<le> ld_attempt_count load),
      cf_hard_teaching_turn_limit_exhausted =
        (tl_hard_teaching_turn_limit limits \<le> ld_teaching_turn_count load),
      cf_terminalizing_action = False\<rparr>"

text \<open>Of the three keys of \<^verbatim>\<open>GATE_DENIAL_ABORT_REASONS\<close> only CONTENT_INVALID is a reason the Gate can
  give; the other two words are not in its vocabulary.\<close>

fun GATE_DENIAL_ABORT_REASONS :: "deny_reason \<Rightarrow> abort_reason option" where
  "GATE_DENIAL_ABORT_REASONS CONTENT_INVALID = Some ABORT_CONTENT_INVALID"
| "GATE_DENIAL_ABORT_REASONS _ = None"

definition DEFAULT_GATE_DENIAL_REASON :: abort_reason where
  "DEFAULT_GATE_DENIAL_REASON = POLICY_STOP"

definition DEGRADED_ABORT_REASON :: abort_reason where
  "DEGRADED_ABORT_REASON = SYSTEM_FAILURE"

fun closing_reason_for_gate_denial :: "deny_reason list \<Rightarrow> abort_reason" where
  "closing_reason_for_gate_denial [] = DEFAULT_GATE_DENIAL_REASON"
| "closing_reason_for_gate_denial (code # codes) =
     (case GATE_DENIAL_ABORT_REASONS code of
        Some exact \<Rightarrow> exact
      | None \<Rightarrow> closing_reason_for_gate_denial codes)"

section \<open>The continuation Gate of one turn\<close>

definition CONTINUATION_ACTION_BY_DELIVERY :: "(string \<times> string) list" where
  "CONTINUATION_ACTION_BY_DELIVERY = [(''HINT'', ''HINT''), (''RETRY'', ''RETRY''), (''REVEAL'', ''REVEAL''),
     (''EXPLANATION'', ''EXPLANATION'')]"

definition proposed_action_of :: "string option \<Rightarrow> string" where
  "proposed_action_of delivery =
     (case map_of CONTINUATION_ACTION_BY_DELIVERY (case delivery of None \<Rightarrow> [] | Some k \<Rightarrow> k) of
        Some a \<Rightarrow> a | None \<Rightarrow> ''TERMINAL_FEEDBACK'')"

text \<open>
  What the handlers read of the turn: the moment, the content status of the resolved target view
  (\<open>None\<close>: no view), the lock fact (\<open>None\<close>: the read answered \<^verbatim>\<open>Err\<close>), the durable load and the
  limits, and the verdict a previous entry of the same turn recorded.
\<close>

record reply_turn =
  rt_moment :: moment_view
  rt_decision_cycle_id :: string
  rt_view :: "string option"
  rt_lock :: "string option"
  rt_load :: teaching_load
  rt_limits :: teaching_limits
  rt_replayed :: "gate_verdict option"

definition continuation_gate_facts :: "reply_turn \<Rightarrow> string option \<Rightarrow> continuation_facts" where
  "continuation_gate_facts t delivery =
     continuation_facts_for (rt_moment t) (Some (rt_decision_cycle_id t)) (proposed_action_of delivery)
       (case rt_lock t of Some l \<Rightarrow> l | None \<Rightarrow> ''UNKNOWN'') (rt_load t) (rt_limits t)
       (case rt_view t of Some _ \<Rightarrow> ''VALID'' | None \<Rightarrow> ''UNKNOWN'')
       (case rt_view t of Some c \<Rightarrow> c | None \<Rightarrow> ''UNKNOWN'') (mo_candidate_id (rt_moment t))"

datatype reply_call =
    ReplayContinuationGate
  | RecordGateDegraded gate_verdict
  | RecordGateAllow gate_verdict
  | RecordGateDenial gate_verdict
  | TerminalizeMoment next_action
  | ReadTurnStateVersion
  | RecordSwitchCycle
  | ResumeAndClose next_action "gate_decision option" "deny_reason list" "string list"
  | DeliverContinuation next_action "deny_reason list"

definition continuation_gate :: "reply_turn \<Rightarrow> string option \<Rightarrow> gate_fault + reply_call list \<times> gate_verdict" where
  "continuation_gate t delivery =
     (case rt_replayed t of
        Some v \<Rightarrow> Inr ([ReplayContinuationGate], v)
      | None \<Rightarrow> bindE (decide_user_requested_continuation (continuation_gate_facts t delivery)) (\<lambda>v.
          Inr ([ReplayContinuationGate, case gv_decision v of None \<Rightarrow> RecordGateDegraded v
                | Some ALLOW \<Rightarrow> RecordGateAllow v | Some DENY \<Rightarrow> RecordGateDenial v], v)))"

section \<open>Executing the decided branch\<close>

definition is_hard_code :: "deny_reason \<Rightarrow> bool" where
  "is_hard_code code \<longleftrightarrow> code \<in> {HARD_PROTECTED_FLOW, HARD_COOLDOWN_ACTIVE, HARD_ATTEMPT_LIMIT,
     HARD_TEACHING_TURN_LIMIT}"

fun hard_code_word :: "deny_reason \<Rightarrow> string" where
  "hard_code_word HARD_PROTECTED_FLOW = ''HARD_PROTECTED_FLOW''"
| "hard_code_word HARD_COOLDOWN_ACTIVE = ''HARD_COOLDOWN_ACTIVE''"
| "hard_code_word HARD_ATTEMPT_LIMIT = ''HARD_ATTEMPT_LIMIT''"
| "hard_code_word HARD_TEACHING_TURN_LIMIT = ''HARD_TEACHING_TURN_LIMIT''"
| "hard_code_word _ = []"

definition abort_and_resume ::
  "abort_reason \<Rightarrow> gate_decision option \<Rightarrow> deny_reason list \<Rightarrow> string list \<Rightarrow> reply_call list" where
  "abort_and_resume reason decision codes unknown =
     (let plan = abort_action reason None
      in [TerminalizeMoment plan, ResumeAndClose plan decision codes unknown])"

definition execute_next_action ::
  "reply_turn \<Rightarrow> response_envelope \<Rightarrow> next_action \<Rightarrow> gate_fault + reply_call list" where
  "execute_next_action t envelope plan =
     (if en_control_intent envelope = SWITCH_TARGET
      then Inr [TerminalizeMoment plan, ReadTurnStateVersion, RecordSwitchCycle, ResumeAndClose plan None [] []]
      else if na_moment_state plan = ABORTING
      then Inr [TerminalizeMoment plan, ResumeAndClose plan None [] []]
      else if is_closure plan
      then (case na_refused_kind plan of
              None \<Rightarrow> Inr [TerminalizeMoment plan, ResumeAndClose plan None [] []]
            | Some refused \<Rightarrow> bindE (continuation_gate t (Some refused)) (\<lambda>(writes, gate).
                Inr (writes @ [TerminalizeMoment plan,
                  ResumeAndClose plan (gv_decision gate) (gv_reasons gate) []])))
      else bindE (continuation_gate t (na_delivery_kind plan)) (\<lambda>(writes, gate).
        if gv_execution_status gate = GATE_DEGRADED
        then Inr (writes @ abort_and_resume DEGRADED_ABORT_REASON None [] (gv_missing_or_unknown gate))
        else if gv_decision gate \<noteq> Some ALLOW
        then let hard = filter is_hard_code (gv_reasons gate) in
          if hard \<noteq> []
          then let closing = completion_action REVEALED (Some ''REVEAL'') (Some (hard_code_word (hd hard))) None
               in Inr (writes @ [TerminalizeMoment closing,
                    ResumeAndClose closing (gv_decision gate) (gv_reasons gate) []])
          else Inr (writes @ abort_and_resume (closing_reason_for_gate_denial (gv_reasons gate))
                 (gv_decision gate) (gv_reasons gate) [])
        else Inr (writes @ [DeliverContinuation plan (gv_reasons gate)])))"

text \<open>\<open>answer\<close> is the \<^verbatim>\<open>Err\<close> a call comes back with, if any; the handler returns at the first one.\<close>

fun run_calls :: "(reply_call \<Rightarrow> 'e option) \<Rightarrow> reply_call list \<Rightarrow> reply_call list \<times> 'e option" where
  "run_calls answer [] = ([], None)"
| "run_calls answer (c # cs) =
     (case answer c of
        Some err \<Rightarrow> ([c], Some err)
      | None \<Rightarrow> let (done, err) = run_calls answer cs in (c # done, err))"

text \<open>The reply turn from the next-action decision on (\<^verbatim>\<open>controller.py\<close>, the last step of the reply
  handler).\<close>

definition reply_decision ::
  "reply_turn \<Rightarrow> response_envelope \<Rightarrow> string option \<Rightarrow> string \<Rightarrow> gate_fault + reply_call list" where
  "reply_decision t envelope evaluation_outcome support =
     execute_next_action t envelope
       (decide_next_action envelope evaluation_outcome support (rt_limits t) (rt_load t))"

definition first_of :: "'a list \<Rightarrow> 'a option" where
  "first_of xs = (case xs of [] \<Rightarrow> None | x # _ \<Rightarrow> Some x)"

section \<open>What the Gate reads of a reply turn\<close>

abbreviation turn_lock :: "reply_turn \<Rightarrow> string" where
  "turn_lock t \<equiv> (case rt_lock t of Some l \<Rightarrow> l | None \<Rightarrow> ''UNKNOWN'')"

abbreviation turn_content :: "reply_turn \<Rightarrow> string" where
  "turn_content t \<equiv> (case rt_view t of Some c \<Rightarrow> c | None \<Rightarrow> ''UNKNOWN'')"

text \<open>A turn the orchestrator can assemble: the moment has an id and the two read facts are words of
  their vocabularies.\<close>

definition turn_readable :: "reply_turn \<Rightarrow> bool" where
  "turn_readable t \<longleftrightarrow> mo_moment_id (rt_moment t) \<noteq> [] \<and> turn_lock t \<in> set LOCK_STATES
     \<and> turn_content t \<in> set CONTENT_STATUSES"

definition turn_known :: "reply_turn \<Rightarrow> bool" where
  "turn_known t \<longleftrightarrow> turn_content t \<noteq> ''UNKNOWN'' \<and> turn_lock t \<noteq> ''UNKNOWN''"

definition turn_reasons :: "reply_turn \<Rightarrow> deny_reason list" where
  "turn_reasons t = hit (turn_content t = ''INVALID'') CONTENT_INVALID
     @ (if turn_lock t = ''OWNED_BY_OTHER'' then [TEACHING_LOCK_CONFLICT]
        else hit (turn_lock t \<noteq> ''OWNED_BY_THIS_MOMENT'') TEACHING_LOCK_INVALID)
     @ hit (mo_lifecycle_state (rt_moment t) \<noteq> DECIDING_NEXT_ACTION) MOMENT_NOT_CONTINUABLE"

lemma moment_state_word_inject: "moment_state_word s = moment_state_word s' \<longleftrightarrow> s = s'"
  by (cases s; cases s') simp_all

lemma deciding_word: "moment_state_word s = CONTINUATION_MOMENT_STATE \<longleftrightarrow> s = DECIDING_NEXT_ACTION"
  using moment_state_word_inject [of s DECIDING_NEXT_ACTION] by (simp add: CONTINUATION_MOMENT_STATE_def)

lemma proposed_action_cases: "proposed_action_of d \<in> set CONTINUATION_ACTIONS"
  by (auto simp: proposed_action_of_def CONTINUATION_ACTION_BY_DELIVERY_def CONTINUATION_ACTIONS_def
      split: option.splits)

lemma proposed_action_of_kind:
  "k \<in> {''HINT'', ''REVEAL'', ''EXPLANATION'', ''RETRY''} \<Longrightarrow> proposed_action_of (Some k) = k"
  by (auto simp: proposed_action_of_def CONTINUATION_ACTION_BY_DELIVERY_def)

lemma gate_facts_valid: "validate_continuation (continuation_gate_facts t d) = Inr () \<longleftrightarrow> turn_readable t"
proof -
  have "facts_valid (continuation_gate_facts t d)
      \<longleftrightarrow> turn_lock t \<in> set LOCK_STATES \<and> turn_content t \<in> set CONTENT_STATUSES"
    by (auto simp: facts_valid_iff continuation_gate_facts_def continuation_facts_for_def vocabulary_defs
        SNAPSHOT_STATUSES_def split: option.split)
  then show ?thesis
    using proposed_action_cases [of d]
    by (simp add: validate_continuation_def continuation_gate_facts_def continuation_facts_for_def result_simps
        turn_readable_def USER_INTENT_SCOPES_def conj_commute)
qed

lemma gate_facts_unknown: "continuation_unknown (continuation_gate_facts t d) = [] \<longleftrightarrow> turn_known t"
  by (auto simp: continuation_unknown_keys continuation_gate_facts_def continuation_facts_for_def turn_known_def
      split: option.split)

lemma gate_facts_reasons:
  "continuation_reasons (continuation_gate_facts t d) = turn_reasons t @ cap_reasons (continuation_gate_facts t d)"
proof -
  have "core_reasons (continuation_gate_facts t d) = hit (turn_content t = ''INVALID'') CONTENT_INVALID"
    by (simp add: core_reasons_def continuation_gate_facts_def continuation_facts_for_def hit_def
        split: option.split)
  then show ?thesis
    by (simp add: continuation_reasons_def turn_reasons_def continuation_lock_reasons_def
        continuation_gate_facts_def continuation_facts_for_def USER_INITIATED_CONTINUATION_INTENTS_def
        deciding_word hit_def)
qed

lemma gate_facts_verdict:
  "decide_user_requested_continuation (continuation_gate_facts t d) = Inr v \<longleftrightarrow> turn_readable t
     \<and> v = verdict_from (continuation_unknown (continuation_gate_facts t d))
            (turn_reasons t @ cap_reasons (continuation_gate_facts t d))"
  by (simp only: user_cont.decide_Inr_iff gate_facts_valid gate_facts_reasons)

lemma turn_reasons_not_hard: "filter is_hard_code (order_reasons (turn_reasons t)) = []"
  by (auto simp: filter_empty_conv turn_reasons_def is_hard_code_def member_hit simp del: set_hit split: if_splits)

section \<open>Sequences of calls\<close>

definition gate_call :: "reply_call \<Rightarrow> bool" where
  "gate_call c \<longleftrightarrow> c = ReplayContinuationGate
     \<or> (\<exists>v. c = RecordGateDegraded v \<or> c = RecordGateAllow v \<or> c = RecordGateDenial v)"

definition cycle_call :: "reply_call \<Rightarrow> bool" where
  "cycle_call c \<longleftrightarrow> c \<in> {ReadTurnStateVersion, RecordSwitchCycle}"

text \<open>The calls of a closed episode: the Gate's records, the terminalization, then (after the cycle calls
  of a switch) the persona's resumption under the same plan.\<close>

definition closes_with :: "next_action \<Rightarrow> reply_call list \<Rightarrow> bool" where
  "closes_with p calls \<longleftrightarrow> is_closure p \<and> (\<exists>pre mid d codes unknown.
     calls = pre @ TerminalizeMoment p # mid @ [ResumeAndClose p d codes unknown]
     \<and> list_all gate_call pre \<and> list_all cycle_call mid)"

text \<open>Whatever runs late in a sequence runs only after every earlier call answered without an error.\<close>

lemma run_calls_after:
  assumes "d \<in> set (fst (run_calls answer (xs @ c # ys)))" and "d \<notin> set (xs @ [c])"
  shows "c \<in> set (fst (run_calls answer (xs @ c # ys))) \<and> answer c = None"
  using assms
  by (induction xs) (auto split: option.splits prod.splits)

lemma run_calls_subset: "set (fst (run_calls answer cs)) \<subseteq> set cs"
  by (induction cs) (auto split: option.splits prod.splits)

lemma fresh_gate:
  assumes "turn_readable t" and "rt_replayed t = None"
  obtains v where "v = verdict_from (continuation_unknown (continuation_gate_facts t d))
        (turn_reasons t @ cap_reasons (continuation_gate_facts t d))"
    and "continuation_gate t d = Inr ([ReplayContinuationGate, case gv_decision v of
        None \<Rightarrow> RecordGateDegraded v | Some ALLOW \<Rightarrow> RecordGateAllow v | Some DENY \<Rightarrow> RecordGateDenial v], v)"
proof -
  let ?v = "verdict_from (continuation_unknown (continuation_gate_facts t d))
    (turn_reasons t @ cap_reasons (continuation_gate_facts t d))"
  have "decide_user_requested_continuation (continuation_gate_facts t d) = Inr ?v"
    using assms(1) gate_facts_verdict by blast
  with assms(2) that [of ?v] show thesis by (simp add: continuation_gate_def)
qed

section \<open>The whole reply turn\<close>

lemma caps_of_kind:
  assumes "k \<in> {''HINT'', ''REVEAL'', ''EXPLANATION'', ''RETRY''}"
  shows "cap_reasons (continuation_gate_facts t (Some k)) =
      hit (tl_hard_attempt_limit (rt_limits t) \<le> ld_attempt_count (rt_load t) \<and> k \<in> {''HINT'', ''RETRY''})
        HARD_ATTEMPT_LIMIT
    @ hit (tl_hard_teaching_turn_limit (rt_limits t) \<le> ld_teaching_turn_count (rt_load t) \<and> k \<noteq> ''REVEAL'')
        HARD_TEACHING_TURN_LIMIT"
  using proposed_action_of_kind [OF assms] assms
  by (auto simp: cap_reasons_def continuation_gate_facts_def continuation_facts_for_def Let_def hit_def)

lemma caps_of_verdict:
  assumes "k \<in> {''HINT'', ''REVEAL'', ''EXPLANATION'', ''RETRY''}"
  shows "map_option hard_code_word (first_of (cap_reasons (continuation_gate_facts t (Some k))))
    = lv_degraded_reason (continuation_verdict (rt_limits t) (rt_load t) k req)"
  using assms by (auto simp: caps_of_kind [OF assms] verdict_iff hard_capped_def hit_def first_of_def)

lemma first_of_None [simp]: "first_of xs = None \<longleftrightarrow> xs = []"
  by (simp add: first_of_def split: list.split)

lemma continuation_branch:
  assumes "\<not> is_closure (decide_next_action e ev s (rt_limits t) (rt_load t))"
  obtains k where "decide_next_action e ev s (rt_limits t) (rt_load t) = continuation_of k"
    and "ABORT_BY_INTENT (en_control_intent e) = None" and "cap_reasons (continuation_gate_facts t (Some k)) = []"
proof (cases rule: decide_cases [of e ev s "rt_limits t" "rt_load t"])
  case (continue v)
  have "lv_degraded_reason v = None" by (rule allowed_no_reason) (use continue in simp_all)
  with continue caps_of_verdict [OF delivery_kinds, of t] have
    "cap_reasons (continuation_gate_facts t (Some (delivery_kind_for (en_control_intent e)))) = []"
    by (metis first_of_None option.map_disc_iff)
  with continue that show thesis by blast
qed (use assms in \<open>simp_all add: is_closure_def abort_action_def completion_action_def split: if_splits\<close>)

definition turn_clear :: "reply_turn \<Rightarrow> bool" where
  "turn_clear t \<longleftrightarrow> turn_content t = ''VALID'' \<and> turn_lock t = ''OWNED_BY_THIS_MOMENT''
     \<and> mo_lifecycle_state (rt_moment t) = DECIDING_NEXT_ACTION"

lemma turn_clear_iff: "turn_readable t \<Longrightarrow> turn_clear t \<longleftrightarrow> turn_known t \<and> turn_reasons t = []"
  by (auto simp: turn_clear_def turn_known_def turn_reasons_def turn_readable_def CONTENT_STATUSES_def)

lemma plain_closes:
  assumes "is_closure p" and "list_all gate_call ws"
  shows "closes_with p (ws @ [TerminalizeMoment p, ResumeAndClose p d cs u])"
proof -
  have "ws @ [TerminalizeMoment p, ResumeAndClose p d cs u]
      = ws @ TerminalizeMoment p # [] @ [ResumeAndClose p d cs u]" by simp
  with assms show ?thesis unfolding closes_with_def by (metis list.pred_inject(1))
qed

lemma abort_closes: "list_all gate_call ws \<Longrightarrow> closes_with (abort_action r None) (ws @ abort_and_resume r d cs u)"
  by (simp add: abort_and_resume_def Let_def plain_closes is_closure_def abort_action_def)

lemma gate_write_call: "list_all gate_call [ReplayContinuationGate, case dec of None \<Rightarrow> RecordGateDegraded v
    | Some ALLOW \<Rightarrow> RecordGateAllow v | Some DENY \<Rightarrow> RecordGateDenial v]"
  by (simp add: gate_call_def split: option.split gate_decision.split)

lemma continuation_calls:
  assumes "\<not> is_closure (decide_next_action e ev s (rt_limits t) (rt_load t))" (is "\<not> is_closure ?a")
    and r: "turn_readable t" and f: "rt_replayed t = None"
  shows "if turn_clear t
    then \<exists>v. allowed v \<and> reply_decision t e ev s
      = Inr [ReplayContinuationGate, RecordGateAllow v, DeliverContinuation ?a []]
    else \<exists>calls p. reply_decision t e ev s = Inr calls \<and> closes_with p calls
      \<and> (\<exists>reason. p = abort_action reason None)"
proof -
  obtain k where k: "?a = continuation_of k" "ABORT_BY_INTENT (en_control_intent e) = None"
    "cap_reasons (continuation_gate_facts t (Some k)) = []"
    using continuation_branch [OF assms(1)] by blast
  obtain v where v: "v = verdict_from (continuation_unknown (continuation_gate_facts t (Some k))) (turn_reasons t)"
    and g: "continuation_gate t (Some k) = Inr ([ReplayContinuationGate, case gv_decision v of
        None \<Rightarrow> RecordGateDegraded v | Some ALLOW \<Rightarrow> RecordGateAllow v | Some DENY \<Rightarrow> RecordGateDenial v], v)"
    (is "_ = Inr (?ws, v)") using fresh_gate [OF r f, of "Some k"] k(3) by auto
  have sw: "en_control_intent e \<noteq> SWITCH_TARGET" using k(2) by auto
  note ex = reply_decision_def execute_next_action_def k(1) continuation_of_def is_closure_def sw g
  consider "\<not> turn_known t" | "turn_known t" "turn_reasons t \<noteq> []" | "turn_known t" "turn_reasons t = []" by blast
  then show ?thesis
  proof cases
    case 1
    then have "gv_execution_status v = GATE_DEGRADED" by (simp add: v verdict_from_def gate_facts_unknown)
    then have "reply_decision t e ev s
        = Inr (?ws @ abort_and_resume DEGRADED_ABORT_REASON None [] (gv_missing_or_unknown v))" by (simp add: ex)
    with 1 abort_closes [OF gate_write_call] turn_clear_iff [OF r] show ?thesis by (metis (no_types))
  next
    case 2
    then have "gv_execution_status v = GATE_SUCCEEDED" "gv_decision v = Some DENY"
      "gv_reasons v = order_reasons (turn_reasons t)"
      using gate_facts_unknown [of t "Some k"] by (simp_all add: v verdict_from_def Let_def)
    then have "reply_decision t e ev s = Inr (?ws @ abort_and_resume
        (closing_reason_for_gate_denial (gv_reasons v)) (gv_decision v) (gv_reasons v) [])"
      using turn_reasons_not_hard [of t] by (simp add: ex)
    with 2 abort_closes [OF gate_write_call] turn_clear_iff [OF r] show ?thesis by (metis (no_types))
  next
    case 3
    then have d: "gv_execution_status v = GATE_SUCCEEDED" "gv_decision v = Some ALLOW" "gv_reasons v = []"
      using gate_facts_unknown [of t "Some k"] by (simp_all add: v verdict_from_def order_reasons_def)
    then have "reply_decision t e ev s = Inr [ReplayContinuationGate, RecordGateAllow v, DeliverContinuation ?a []]"
      by (simp add: ex)
    with 3 d turn_clear_iff [OF r] show ?thesis by (auto simp: allowed_def)
  qed
qed

lemma closure_calls:
  assumes c: "is_closure (decide_next_action e ev s (rt_limits t) (rt_load t))" (is "is_closure ?a")
    and r: "turn_readable t" and f: "rt_replayed t = None"
  shows "\<exists>calls. reply_decision t e ev s = Inr calls \<and> closes_with ?a calls"
proof -
  note plain = plain_closes [OF c]
  consider "en_control_intent e = SWITCH_TARGET"
    | "en_control_intent e \<noteq> SWITCH_TARGET" "na_moment_state ?a = ABORTING \<or> na_refused_kind ?a = None"
    | k where "en_control_intent e \<noteq> SWITCH_TARGET" "na_moment_state ?a \<noteq> ABORTING" "na_refused_kind ?a = Some k"
    by blast
  then show ?thesis
  proof cases
    case 1
    then have "reply_decision t e ev s = Inr ([] @ TerminalizeMoment ?a # [ReadTurnStateVersion, RecordSwitchCycle]
        @ [ResumeAndClose ?a None [] []])" by (simp add: reply_decision_def execute_next_action_def)
    with c show ?thesis unfolding closes_with_def by (fastforce simp: cycle_call_def)
  next
    case 2
    then have "reply_decision t e ev s = Inr ([] @ [TerminalizeMoment ?a, ResumeAndClose ?a None [] []])"
      using c by (auto simp: reply_decision_def execute_next_action_def)
    with plain [of "[]"] show ?thesis by (metis list.pred_inject(1))
  next
    case 3
    obtain v ws where "continuation_gate t (Some k) = Inr (ws, v)" "list_all gate_call ws"
      using fresh_gate [OF r f, of "Some k"] gate_write_call by metis
    moreover from this 3 have "reply_decision t e ev s
        = Inr (ws @ [TerminalizeMoment ?a, ResumeAndClose ?a (gv_decision v) (gv_reasons v) []])"
      using c by (simp add: reply_decision_def execute_next_action_def)
    ultimately show ?thesis using plain by blast
  qed
qed

end
