(* ===== verification/Reply_Properties.thy ===== *)
theory Reply_Properties
  imports Reply_Turn
begin

text \<open>
  The properties of one active-teaching reply turn: the shape of the decided branch, the exact place
  where the limits close an episode, the agreement of the limits with the Gate's own caps, and the order
  in which the orchestrator records, terminalizes, resumes and delivers.
\<close>

section \<open>The decided branch\<close>

lemma abort_leaving: "ABORT_BY_INTENT (en_control_intent e) = Some r \<Longrightarrow> is_leaving e"
  using abort_by_intent_iff [of "en_control_intent e"]
  by (auto simp: is_leaving_def ATTEMPTLESS_CONTROL_INTENTS_def)

lemma stay_not_leaving: "ABORT_BY_INTENT (en_control_intent e) = None \<Longrightarrow> \<not> is_leaving e"
  using abort_by_intent_iff [of "en_control_intent e"]
  by (auto simp: is_leaving_def ATTEMPTLESS_CONTROL_INTENTS_def)

lemmas action_simps = abort_action_def completion_action_def continuation_of_def is_closure_def shows_answer_def

text \<open>
  The decided branch is exactly one of continuation, completion and abort, and its fields say so
  consistently.  An abort is decided exactly for the four leaving intents and with the reason the intent
  names; a completion carries an outcome and no abort reason; a continuation is the only branch that
  leaves the moment waiting for the user and not terminalizing, and it delivers what the intent asked
  for.
\<close>

theorem next_action_shape:
  "let a = decide_next_action e ev s limits load in
     (na_moment_state a = ABORTING \<longleftrightarrow> is_leaving e)
   \<and> na_abort_reason a = ABORT_BY_INTENT (en_control_intent e)
   \<and> (na_moment_state a = COMPLETING \<longleftrightarrow> na_completion_outcome a \<noteq> None)
   \<and> (na_moment_state a = AWAITING_USER \<longleftrightarrow> \<not> is_closure a)
   \<and> (na_terminalizing a \<longleftrightarrow> is_closure a)
   \<and> na_closure a = (case na_completion_outcome a of
        Some c \<Rightarrow> Some (Completion c) | None \<Rightarrow> map_option Abort (na_abort_reason a))
   \<and> (is_closure a \<or> na_delivery_kind a = Some (delivery_kind_for (en_control_intent e)))"
proof (cases rule: decide_cases [of e ev s limits load])
  case (leave r sw)
  with abort_leaving show ?thesis by (simp add: action_simps)
next
  case (success w)
  with stay_not_leaving show ?thesis by (simp add: action_simps)
next
  case (continue v)
  with stay_not_leaving show ?thesis by (simp add: action_simps)
next
  case (closing v)
  with stay_not_leaving show ?thesis by (simp add: action_simps)
qed

text \<open>
  Where the limits close an episode.  Unless the user leaves or an attempt has just succeeded, the
  turn continues exactly when no limit stops it; a hard cap converts it into a closing reveal, which is
  the only way a closure shows the answer; a soft cap closes it without the answer, and only when the
  user made no explicit move (a meta remark or nothing).  An explicit request for the answer is never
  refused by a limit.
\<close>

theorem limits_close_exactly:
  "let a = decide_next_action e ev s limits load;
       i = en_control_intent e;
       k = delivery_kind_for i;
       open_ended = (\<not> is_leaving e \<and> \<not> (ev \<in> {Some ''SUCCESS'', Some ''ALTERNATIVE_SUCCESS''}
         \<and> i \<notin> {ASK_ANSWER, ASK_EXPLANATION, ASK_HINT}));
       hard = (tl_hard_attempt_limit limits \<le> ld_attempt_count load \<and> k \<in> {''HINT'', ''RETRY''}
         \<or> tl_hard_teaching_turn_limit limits \<le> ld_teaching_turn_count load \<and> k \<noteq> ''REVEAL'');
       soft = ((tl_soft_attempt_limit limits \<le> ld_attempt_count load
         \<or> tl_soft_teaching_turn_limit limits \<le> ld_teaching_turn_count load)
         \<and> i \<in> {META_DISCUSSION, INTENT_NONE})
   in (\<not> is_closure a \<longleftrightarrow> open_ended \<and> \<not> hard \<and> \<not> soft)
    \<and> (shows_answer a \<longleftrightarrow> open_ended \<and> hard)
    \<and> (na_completion_outcome a = Some REVEALED \<longleftrightarrow> open_ended \<and> hard)
    \<and> (na_completion_outcome a = Some PARTIAL_PROGRESS \<longleftrightarrow> open_ended \<and> \<not> hard \<and> soft)
    \<and> (i = ASK_ANSWER \<longleftrightarrow> k = ''REVEAL'') \<and> (na_refused_kind a \<noteq> Some ''REVEAL'')"
proof -
  let ?i = "en_control_intent e"
  let ?k = "delivery_kind_for (en_control_intent e)"
  have k: "?k \<notin> {''TERMINAL_FEEDBACK'', ''CLOSE''}" by (rule delivery_not_closing)
  have hard: "hard_capped limits load ?k \<longleftrightarrow>
      tl_hard_attempt_limit limits \<le> ld_attempt_count load \<and> ?k \<in> {''HINT'', ''RETRY''}
      \<or> tl_hard_teaching_turn_limit limits \<le> ld_teaching_turn_count load \<and> ?k \<noteq> ''REVEAL''"
    using k unfolding hard_capped_def by blast
  show ?thesis
  proof (cases rule: decide_cases [of e ev s limits load])
    case (leave r sw)
    with abort_leaving show ?thesis by (simp add: action_simps reveal_kind_iff)
  next
    case (success w)
    with stay_not_leaving show ?thesis
      unfolding Let_def hard [symmetric] soft_reached_def [symmetric] settles_def [symmetric]
      by (auto simp: action_simps reveal_kind_iff closing_outcome_for_def)
  next
    case (continue v)
    with stay_not_leaving show ?thesis
      unfolding Let_def hard [symmetric] soft_reached_def [symmetric] settles_def [symmetric]
      using unrequested_iff [OF continue(1)] unrequested_kind [of ?i]
      by (auto simp: action_simps reveal_kind_iff verdict_iff)
  next
    case (closing v)
    with stay_not_leaving show ?thesis
      unfolding Let_def hard [symmetric] soft_reached_def [symmetric] settles_def [symmetric]
      using unrequested_iff [OF closing(1)] k
      by (auto simp: action_simps reveal_kind_iff verdict_iff hard_capped_def)
  qed
qed

section \<open>The limits and the Gate\<close>

text \<open>
  C14: the limits and the Gate agree about the hard caps.  For every branch that puts a delivery to the
  Gate (a continuation, or a conversion together with the move it refused) the limit named by the
  decision is exactly the first cap reason the Gate finds in the facts assembled for that delivery, and
  there is none exactly when the decision names none.  So the Gate never denies, on a cap, a delivery
  the limits allowed.
\<close>

theorem limits_agree_with_gate:
  fixes t :: reply_turn and e :: response_envelope and ev :: "string option" and s :: string
  defines "a \<equiv> decide_next_action e ev s (rt_limits t) (rt_load t)"
  assumes "\<not> is_closure a \<or> na_refused_kind a \<noteq> None"
  shows "na_limit_reason a = map_option hard_code_word (first_of (cap_reasons
    (continuation_gate_facts t (if is_closure a then na_refused_kind a else na_delivery_kind a))))"
proof (cases rule: decide_cases [of e ev s "rt_limits t" "rt_load t"])
  case (continue v)
  have "lv_degraded_reason v = None" by (rule allowed_no_reason) (use continue in simp_all)
  with continue caps_of_verdict [OF delivery_kinds, of t] show ?thesis
    by (simp add: a_def action_simps)
next
  case (closing v)
  with caps_of_verdict [OF delivery_kinds, of t] show ?thesis
    by (simp add: a_def action_simps)
qed (use assms(2) in \<open>simp_all add: a_def action_simps\<close>)

definition demo_moment :: moment_view where
  "demo_moment = \<lparr>mo_moment_id = ''m-1'', mo_candidate_id = ''c-1'', mo_lifecycle_state = DECIDING_NEXT_ACTION\<rparr>"

definition demo_turn :: "int \<Rightarrow> int \<Rightarrow> reply_turn" where
  "demo_turn attempts turns = \<lparr>rt_moment = demo_moment, rt_decision_cycle_id = ''dc-1'',
     rt_view = Some ''VALID'', rt_lock = Some ''OWNED_BY_THIS_MOMENT'',
     rt_load = \<lparr>ld_attempt_count = attempts, ld_teaching_turn_count = turns\<rparr>, rt_limits = LIMITS_V0,
     rt_replayed = None\<rparr>"

definition demo_envelope :: "control_intent \<Rightarrow> response_envelope" where
  "demo_envelope i = \<lparr>en_control_intent = i, en_attempt_present = False, en_attempt = None,
     en_target_switch_request = None, en_clarification_request = None, en_user_preference_signal = None,
     en_interpretation_confidence = Some 1\<rparr>"

lemmas demo_defs = demo_moment_def demo_turn_def demo_envelope_def LIMITS_V0_def

lemma demo_hint_refused:
  "decide_next_action (demo_envelope ASK_HINT) None ''NONE'' LIMITS_V0 (rt_load (demo_turn 3 3))
     = completion_action REVEALED (Some ''REVEAL'') (Some ''HARD_ATTEMPT_LIMIT'') (Some ''HINT'')"
  by (simp add: decide_next_action_def verdict_simps demo_defs)

theorem limits_agree_with_gate_witness:
  "map_option hard_code_word (first_of (cap_reasons (continuation_gate_facts (demo_turn 3 3) (Some ''HINT''))))
     = Some ''HARD_ATTEMPT_LIMIT''"
  using limits_agree_with_gate [of "demo_envelope ASK_HINT" None "''NONE''" "demo_turn 3 3"] demo_hint_refused
  by (simp add: demo_turn_def completion_action_def is_closure_def)

lemma demo_readable: "turn_readable (demo_turn n m)" "turn_clear (demo_turn n m)" "rt_replayed (demo_turn n m) = None"
  "rt_limits (demo_turn n m) = LIMITS_V0"
  by (simp_all add: turn_readable_def turn_clear_def demo_defs LOCK_STATES_def CONTENT_STATUSES_def)

section \<open>The order of the handler's calls\<close>

text \<open>
  C15: a fresh reply turn over readable facts always yields a sequence of calls, and which one is
  decided by the plan and three facts.  A continuation over a valid view, under the moment's own lock and
  in the deciding state, is delivered, and the calls are exactly the replay check, the recorded ALLOW
  and the delivery.  In every other case the episode closes: one terminalization followed by the
  resumption of the persona under the same plan.  That plan is the decided one when the decision was a
  closure, and an abort when the Gate stopped a continuation; so the answer is shown at closing only if
  the limits decided so.
\<close>

theorem reply_turn_outcome:
  fixes t :: reply_turn and e :: response_envelope and ev :: "string option" and s :: string
  defines "a \<equiv> decide_next_action e ev s (rt_limits t) (rt_load t)"
  assumes "turn_readable t" and "rt_replayed t = None"
  shows "\<exists>calls. reply_decision t e ev s = Inr calls \<and>
    (if \<not> is_closure a \<and> turn_clear t
     then \<exists>v. allowed v \<and> calls = [ReplayContinuationGate, RecordGateAllow v, DeliverContinuation a []]
     else \<exists>p. closes_with p calls \<and> (if is_closure a then p = a else na_moment_state p = ABORTING)
       \<and> (shows_answer p \<longleftrightarrow> shows_answer a))"
proof (cases "is_closure a")
  case True
  then show ?thesis using closure_calls [OF True [unfolded a_def] assms(2,3)] a_def by auto
next
  case False
  then have n: "\<not> shows_answer a" by (simp add: is_closure_def shows_answer_def)
  show ?thesis
  proof (cases "turn_clear t")
    case True
    with continuation_calls [OF False [unfolded a_def] assms(2,3)] False show ?thesis by (auto simp: a_def)
  next
    case unclear: False
    with continuation_calls [OF False [unfolded a_def] assms(2,3)] obtain calls reason where
      "reply_decision t e ev s = Inr calls" "closes_with (abort_action reason None) calls" by auto
    with False unclear n show ?thesis
      by (intro exI [of _ calls]) (auto intro!: exI [of _ "abort_action reason None"] simp: abort_action_def shows_answer_def)
  qed
qed

theorem reply_turn_outcome_witness:
  "\<exists>v. allowed v \<and> reply_decision (demo_turn 1 1) (demo_envelope ASK_HINT) (Some ''FAILURE'') ''NONE''
     = Inr [ReplayContinuationGate, RecordGateAllow v, DeliverContinuation (continuation_of ''HINT'') []]"
proof -
  have "decide_next_action (demo_envelope ASK_HINT) (Some ''FAILURE'') ''NONE'' LIMITS_V0 (rt_load (demo_turn 1 1))
      = continuation_of ''HINT''"
    by (simp add: decide_next_action_def verdict_simps demo_defs)
  with reply_turn_outcome [OF demo_readable(1,3), of 1 1 "demo_envelope ASK_HINT" "Some ''FAILURE''" "''NONE''"]
  show ?thesis by (auto simp: demo_readable is_closure_def continuation_of_def)
qed

lemma gate_call_kinds:
  "gate_call c \<Longrightarrow> c \<noteq> TerminalizeMoment p \<and> c \<noteq> ResumeAndClose p d cs u \<and> c \<noteq> DeliverContinuation p rs"
  by (auto simp: gate_call_def)

lemma closed_executes:
  assumes "closes_with p calls" and "c \<in> set (fst (run_calls answer calls))"
  shows "c = ResumeAndClose q d cs u \<Longrightarrow> TerminalizeMoment q \<in> set (fst (run_calls answer calls))
      \<and> answer (TerminalizeMoment q) = None"
    and "c \<noteq> DeliverContinuation q rs"
proof -
  obtain pre mid d' cs' u' where calls: "calls = pre @ TerminalizeMoment p # mid @ [ResumeAndClose p d' cs' u']"
    and g: "list_all gate_call pre" "list_all cycle_call mid"
    using assms(1) unfolding closes_with_def by blast
  have c: "c \<in> set calls" using assms(2) run_calls_subset by blast
  show "c \<noteq> DeliverContinuation q rs"
    using c g gate_call_kinds by (fastforce simp: calls list_all_iff cycle_call_def)
  assume r: "c = ResumeAndClose q d cs u"
  have "c \<notin> set (pre @ [TerminalizeMoment p])" using r g gate_call_kinds by (fastforce simp: list_all_iff)
  moreover have "q = p" using c r g gate_call_kinds by (fastforce simp: calls list_all_iff cycle_call_def)
  moreover have "TerminalizeMoment p \<in> set (fst (run_calls answer calls)) \<and> answer (TerminalizeMoment p) = None"
    unfolding calls by (rule run_calls_after [OF assms(2) [unfolded calls] calculation(1)])
  ultimately show "TerminalizeMoment q \<in> set (fst (run_calls answer calls)) \<and> answer (TerminalizeMoment q) = None"
    by simp
qed

text \<open>
  C16: no failing store call can reorder the turn.  Let every call answer with an error or not, as it
  likes: if the continuation was delivered in a fresh turn, an ALLOW of the Gate had been recorded
  without error before; if the persona resumed under a plan, the moment had been terminalized under that
  plan without error.
\<close>

theorem no_effect_before_its_record:
  assumes "reply_decision t e ev s = Inr calls" and "turn_readable t" and "rt_replayed t = None"
    and "c \<in> set (fst (run_calls answer calls))"
  shows "case c of
      DeliverContinuation p rs \<Rightarrow> \<exists>v. allowed v \<and> RecordGateAllow v \<in> set (fst (run_calls answer calls))
        \<and> answer (RecordGateAllow v) = None
    | ResumeAndClose p d codes unknown \<Rightarrow> TerminalizeMoment p \<in> set (fst (run_calls answer calls))
        \<and> answer (TerminalizeMoment p) = None
    | _ \<Rightarrow> True"
proof -
  let ?a = "decide_next_action e ev s (rt_limits t) (rt_load t)"
  consider v where "allowed v" "calls = [ReplayContinuationGate, RecordGateAllow v, DeliverContinuation ?a []]"
    | p where "closes_with p calls"
    using assms(1) closure_calls [OF _ assms(2,3), of e ev s] continuation_calls [OF _ assms(2,3), of e ev s]
    by (metis sum.inject(2))
  then show ?thesis
  proof cases
    case 1
    then have calls: "calls = [ReplayContinuationGate] @ RecordGateAllow v # [DeliverContinuation ?a []]" by simp
    have "c = DeliverContinuation p rs \<Longrightarrow> RecordGateAllow v \<in> set (fst (run_calls answer calls))
        \<and> answer (RecordGateAllow v) = None" for p rs
      unfolding calls by (rule run_calls_after [OF assms(4) [unfolded calls]]) simp
    moreover have "c \<noteq> ResumeAndClose p d codes unknown" for p d codes unknown
      using run_calls_subset [of answer calls] assms(4) 1(2) by auto
    ultimately show ?thesis using 1(1) by (cases c) auto
  next
    case 2
    show ?thesis using closed_executes [OF 2 assms(4)] by (auto split: reply_call.split)
  qed
qed

theorem no_effect_before_its_record_witness:
  "\<exists>calls. reply_decision (demo_turn 1 1) (demo_envelope SKIP) None ''NONE'' = Inr calls
     \<and> TerminalizeMoment (abort_action USER_SKIP None) \<in> set (fst (run_calls (\<lambda>_. None :: nat option) calls))"
proof -
  let ?p = "abort_action USER_SKIP None"
  have "reply_decision (demo_turn 1 1) (demo_envelope SKIP) None ''NONE''
      = Inr [TerminalizeMoment ?p, ResumeAndClose ?p None [] []]"
    by (simp add: reply_decision_def execute_next_action_def decide_next_action_def demo_envelope_def
        abort_action_def)
  with no_effect_before_its_record [OF this demo_readable(1,3), of "ResumeAndClose ?p None [] []" "\<lambda>_. None :: nat option"]
  show ?thesis by simp
qed

section \<open>What a soft stop leaves on record\<close>

text \<open>
  A soft stop is recorded as an ALLOW.  When a soft limit ends the episode because the user made no
  explicit move and no hard cap is spent, the handler puts the refused retry to the Gate, whose profile
  knows only the hard caps: the durable record of the turn is an ALLOW without a reason, and the episode
  closes with PARTIAL_PROGRESS, naming no limit.
\<close>

theorem soft_stop_recorded_as_allow:
  assumes "turn_readable t" and "rt_replayed t = None" and "turn_clear t"
    and "en_control_intent e \<in> {META_DISCUSSION, INTENT_NONE}" and "ev \<notin> {Some ''SUCCESS'', Some ''ALTERNATIVE_SUCCESS''}"
    and "soft_reached (rt_limits t) (rt_load t)" and "\<not> hard_capped (rt_limits t) (rt_load t) ''RETRY''"
  shows "\<exists>v p. allowed v \<and> gv_reasons v = [] \<and> na_completion_outcome p = Some PARTIAL_PROGRESS
    \<and> na_limit_reason p = None \<and> na_refused_kind p = Some ''RETRY''
    \<and> reply_decision t e ev s = Inr [ReplayContinuationGate, RecordGateAllow v, TerminalizeMoment p,
        ResumeAndClose p (Some ALLOW) [] []]"
proof -
  let ?p = "completion_action PARTIAL_PROGRESS None None (Some ''RETRY'')"
  let ?v = "continuation_verdict (rt_limits t) (rt_load t) ''RETRY'' False"
  have lv: "\<not> lv_allowed ?v" "\<not> lv_closing_only ?v" "lv_degraded_reason ?v = None"
    using assms(6,7) by (auto simp: verdict_iff hard_capped_def)
  have i: "delivery_kind_for (en_control_intent e) = ''RETRY''" "\<not> is_user_requested_continue (en_control_intent e)"
    "ABORT_BY_INTENT (en_control_intent e) = None" "en_control_intent e \<noteq> SWITCH_TARGET"
    using assms(4) by (auto simp: is_user_requested_continue_def)
  have p: "decide_next_action e ev s (rt_limits t) (rt_load t) = ?p"
    using i lv assms(5) unfolding decide_next_action_def Let_def by simp
  have "cap_reasons (continuation_gate_facts t (Some ''RETRY'')) = []"
    using caps_of_verdict [of "''RETRY''" t False] lv(3) by simp
  moreover have "turn_reasons t = []" "turn_known t" using turn_clear_iff assms(1,3) by auto
  ultimately have vf: "verdict_from (continuation_unknown (continuation_gate_facts t (Some ''RETRY'')))
      (turn_reasons t @ cap_reasons (continuation_gate_facts t (Some ''RETRY''))) = verdict_from [] []"
    using gate_facts_unknown [of t "Some ''RETRY''"] by (simp only: simp_thms append_Nil)
  let ?g = "verdict_from [] []"
  have g: "gv_decision ?g = Some ALLOW" "gv_reasons ?g = []" by (simp_all add: verdict_from_def order_reasons_def)
  have "continuation_gate t (Some ''RETRY'') = Inr ([ReplayContinuationGate, RecordGateAllow ?g], ?g)"
    using fresh_gate [OF assms(1,2), of "Some ''RETRY''"] vf g by auto
  then have "reply_decision t e ev s = Inr [ReplayContinuationGate, RecordGateAllow ?g, TerminalizeMoment ?p,
      ResumeAndClose ?p (Some ALLOW) [] []]"
    using i(4) g by (simp add: reply_decision_def execute_next_action_def p completion_action_def is_closure_def)
  with g show ?thesis by (intro exI [of _ ?g] exI [of _ ?p]) (simp add: allowed_def completion_action_def)
qed

theorem soft_stop_recorded_as_allow_witness:
  "\<exists>v p. gv_reasons v = [] \<and> na_limit_reason p = None
     \<and> reply_decision (demo_turn 2 2) (demo_envelope META_DISCUSSION) (Some ''PARTIAL'') ''NONE''
       = Inr [ReplayContinuationGate, RecordGateAllow v, TerminalizeMoment p, ResumeAndClose p (Some ALLOW) [] []]"
proof -
  have "soft_reached (rt_limits (demo_turn 2 2)) (rt_load (demo_turn 2 2))"
    "\<not> hard_capped (rt_limits (demo_turn 2 2)) (rt_load (demo_turn 2 2)) ''RETRY''"
    "en_control_intent (demo_envelope META_DISCUSSION) \<in> {META_DISCUSSION, INTENT_NONE}"
    by (simp_all add: soft_reached_def hard_capped_def demo_defs)
  then show ?thesis
    using soft_stop_recorded_as_allow [OF demo_readable(1,3,2), of "demo_envelope META_DISCUSSION" "Some ''PARTIAL''" 2 2]
    by fastforce
qed

end
