(* ===== verification/Moment_Store.thy ===== *)
theory Moment_Store
  imports Binary64 Gate Teaching_Flow
begin

text \<open>
  The durable teaching rows of \<^verbatim>\<open>elc/teaching/store.py\<close>: opening a moment with its lock (CP2), the
  guarded lifecycle transition, terminalization with the lock's release, the Gate's facts, attempts and
  their evaluations, and the
  startup sweep over orphan locks.  A table is an association list in row order, keyed by the primary
  key; a column that no operation reads or changes is left out.  A short transaction rolls back on any
  exception, so an operation is a function to an error or to a result with the new database.
  \<^verbatim>\<open>sqlite3.IntegrityError\<close> comes from the constraints of \<^verbatim>\<open>migrations/0002, 0007, 0008\<close> (primary keys,
  foreign keys, UNIQUE, CHECK), which are written out.  The clock is an argument.
\<close>

section \<open>Tables\<close>

type_synonym 'r table = "(string \<times> 'r) list"

definition update_where :: "(string \<Rightarrow> 'r \<Rightarrow> bool) \<Rightarrow> ('r \<Rightarrow> 'r) \<Rightarrow> 'r table \<Rightarrow> 'r table" where
  "update_where p f t = map (\<lambda>(k, r). (k, if p k r then f r else r)) t"

definition delete_where :: "('r \<Rightarrow> bool) \<Rightarrow> 'r table \<Rightarrow> 'r table" where
  "delete_where p t = filter (\<lambda>(k, r). \<not> p r) t"

datatype moment_source = FROM_AUTOMATIC | FROM_USER_INITIATED | FROM_MANUAL_FOCUS | FROM_SCHEDULED_STUDY

datatype gate_decision_context = CONTEXT_OPEN | CONTEXT_AUTO_CONTINUE | CONTEXT_USER_REQUESTED_CONTINUE

datatype authorization_basis = BASIS_DECISION_CYCLE | BASIS_ACTIVE_MOMENT

record moment_row =
  mr_conversation_id :: string
  mr_persona_id :: "string option"
  mr_source :: moment_source
  mr_decision_cycle_id :: string
  mr_candidate_id :: string
  mr_focus_target_id :: string
  mr_learning_snapshot_id :: "string option"
  mr_curriculum_version :: "string option"
  mr_policy_version :: "string option"
  mr_gate_decision_id :: string
  mr_target_mode :: string
  mr_learning_intent :: string
  mr_evidence_watermark :: "int option"
  mr_lifecycle_state :: moment_state
  mr_presentation_phase :: string
  mr_attempt_index :: int
  mr_support_level :: string
  mr_completion_outcome :: "string option"
  mr_abort_reason :: "string option"
  mr_state_version :: int
  mr_created_at :: string
  mr_opened_at :: "string option"
  mr_teaching_terminal_at :: "string option"
  mr_closed_at :: "string option"

record lock_row =
  lk_moment_id :: string
  lk_state_version :: int

record attempt_row =
  at_moment_id :: string
  at_attempt_index :: int
  at_user_turn_id :: string

record evaluation_row =
  ev_moment_id :: string
  ev_attempt_id :: string
  ev_outcome :: string
  ev_confidence :: float64

record gate_status_row =
  gs_decision_cycle_id :: "string option"
  gs_moment_id :: "string option"
  gs_gate_context :: gate_decision_context
  gs_authorization_basis :: authorization_basis
  gs_authorization_status :: string
  gs_status :: gate_execution_status
  gs_missing_or_unknown :: "string list"
  gs_created_at :: "string option"

record gate_decision_row =
  gd_decision_cycle_id :: string
  gd_candidate_id :: string
  gd_context :: gate_decision_context
  gd_decision :: gate_decision
  gd_reason_codes :: "string list"
  gd_policy_version :: string
  gd_created_at :: "string option"

record action_row =
  ac_turn_id :: string
  ac_decision_cycle_id :: string
  ac_moment_id :: "string option"

record teaching_db =
  db_newest_epoch :: "int option"
  db_conversations :: "string list"
  db_user_turns :: "string list"
  db_turn_owner :: "int table"
  db_cycle_turn :: "string table"
  db_gate_statuses :: "gate_status_row table"
  db_gate_decisions :: "gate_decision_row table"
  db_moments :: "moment_row table"
  db_actions :: "action_row table"
  db_locks :: "lock_row table"
  db_attempts :: "attempt_row table"
  db_evaluations :: "evaluation_row table"

datatype store_error = StaleStoreEpoch | NOT_FOUND | AUTHORITY_VIOLATION | CONFLICT | VALIDATION_FAILED

definition COMPLETION_OUTCOMES :: "string list" where
  "COMPLETION_OUTCOMES = [''SUCCESS_UNSUPPORTED'', ''SUCCESS_SUPPORTED'', ''SUCCESS_ALTERNATIVE'',
     ''PARTIAL_PROGRESS'', ''REVEALED'', ''USER_SATISFIED'', ''NO_FURTHER_VALUE'']"

definition ABORT_REASONS :: "string list" where
  "ABORT_REASONS = [''USER_SKIP'', ''USER_REJECTED_TARGET'', ''USER_TOPIC_SHIFT'', ''USER_SWITCH_TARGET'',
     ''AMBIGUOUS_EXIT'', ''POLICY_STOP'', ''ATTEMPT_LIMIT'', ''CONTENT_INVALID'', ''SNAPSHOT_INVALIDATED'',
     ''PRE_DELIVERY_INVALIDATED'', ''SYSTEM_FAILURE'', ''DELIVERY_FAILURE'', ''EXPIRED'',
     ''SYSTEM_RECOVERY_ABORT'']"

definition ATTEMPT_OUTCOMES :: "string list" where
  "ATTEMPT_OUTCOMES = [''SUCCESS'', ''PARTIAL'', ''FAILURE'', ''ALTERNATIVE_SUCCESS'', ''ABSTAIN'']"

text \<open>The CHECK constraints of \<^verbatim>\<open>teaching_moment\<close> that a typed row can violate.\<close>

definition TARGET_MODE_WORDS :: "string list" where
  "TARGET_MODE_WORDS = [''RESOURCE_PRACTICE'', ''CAPABILITY_PRACTICE'', ''PROBE'', ''REVIEW'', ''TRANSFER'']"

definition LEARNING_INTENT_WORDS :: "string list" where
  "LEARNING_INTENT_WORDS = [''ESTABLISH'', ''DEVELOP'', ''WITHDRAW_SUPPORT'', ''CONSOLIDATE'', ''PROBE'',
     ''TRANSFER'', ''EXPAND_REPERTOIRE'']"

definition moment_row_ok :: "moment_row \<Rightarrow> bool" where
  "moment_row_ok r \<longleftrightarrow> 0 \<le> mr_attempt_index r \<and> 0 < mr_state_version r
     \<and> mr_target_mode r \<in> set TARGET_MODE_WORDS \<and> mr_learning_intent r \<in> set LEARNING_INTENT_WORDS
     \<and> (case mr_evidence_watermark r of None \<Rightarrow> True | Some w \<Rightarrow> 0 \<le> w)
     \<and> (case mr_completion_outcome r of None \<Rightarrow> True | Some w \<Rightarrow> w \<in> set COMPLETION_OUTCOMES)
     \<and> (case mr_abort_reason r of None \<Rightarrow> True | Some w \<Rightarrow> w \<in> set ABORT_REASONS)"

section \<open>Gate facts\<close>

definition known :: "'r table \<Rightarrow> string \<Rightarrow> bool" where
  "known t k \<longleftrightarrow> map_of t k \<noteq> None"

definition known_or_null :: "'r table \<Rightarrow> string option \<Rightarrow> bool" where
  "known_or_null t k \<longleftrightarrow> (case k of None \<Rightarrow> True | Some x \<Rightarrow> known t x)"

definition status_integrity :: "teaching_db \<Rightarrow> string \<Rightarrow> gate_status_row \<Rightarrow> bool" where
  "status_integrity db s row \<longleftrightarrow> \<not> known (db_gate_statuses db) s
     \<and> known_or_null (db_cycle_turn db) (gs_decision_cycle_id row)
     \<and> known_or_null (db_moments db) (gs_moment_id row)
     \<and> gs_authorization_status row \<in> set AUTHORIZATION_STATUSES"

definition decision_integrity :: "teaching_db \<Rightarrow> string \<Rightarrow> gate_decision_row \<Rightarrow> bool" where
  "decision_integrity db g row \<longleftrightarrow> \<not> known (db_gate_decisions db) g
     \<and> known (db_cycle_turn db) (gd_decision_cycle_id row)"

text \<open>\<^verbatim>\<open>created_at or now\<close>: an absent or empty time is replaced by the store's.\<close>

definition time_or :: "string option \<Rightarrow> string \<Rightarrow> string" where
  "time_or t now = (case t of None \<Rightarrow> now | Some s \<Rightarrow> if s = [] then now else s)"

definition insert_execution_status :: "string \<Rightarrow> string \<Rightarrow> gate_status_row \<Rightarrow> teaching_db \<Rightarrow> teaching_db" where
  "insert_execution_status now s row db =
     db\<lparr>db_gate_statuses := db_gate_statuses db @ [(s, row\<lparr>gs_created_at := Some (time_or (gs_created_at row) now)\<rparr>)]\<rparr>"

definition insert_gate_decision :: "string \<Rightarrow> string \<Rightarrow> gate_decision_row \<Rightarrow> teaching_db \<Rightarrow> teaching_db" where
  "insert_gate_decision created_at g row db =
     db\<lparr>db_gate_decisions := db_gate_decisions db @ [(g, row\<lparr>gd_created_at := Some created_at\<rparr>)]\<rparr>"

definition gate_fact_recorded :: "teaching_db \<Rightarrow> string \<Rightarrow> string option \<Rightarrow> bool" where
  "gate_fact_recorded db s g \<longleftrightarrow>
     known (db_gate_statuses db) s \<and> (case g of None \<Rightarrow> True | Some x \<Rightarrow> known (db_gate_decisions db) x)"

section \<open>Fences\<close>

definition require_current_epoch :: "int \<Rightarrow> teaching_db \<Rightarrow> store_error + unit" where
  "require_current_epoch fence db = checkE (db_newest_epoch db = Some fence) StaleStoreEpoch"

definition owner_epoch_of :: "teaching_db \<Rightarrow> moment_row \<Rightarrow> int option" where
  "owner_epoch_of db r = (case map_of (db_cycle_turn db) (mr_decision_cycle_id r) of
     None \<Rightarrow> None | Some turn \<Rightarrow> map_of (db_turn_owner db) turn)"

definition owning_epoch_refusal :: "int \<Rightarrow> teaching_db \<Rightarrow> moment_row \<Rightarrow> bool" where
  "owning_epoch_refusal fence db r \<longleftrightarrow>
     (case owner_epoch_of db r of None \<Rightarrow> False | Some owning \<Rightarrow> owning \<noteq> fence)"

text \<open>The pair of facts of a decision that opens nothing: a denial, or a continuation's authorization.\<close>

definition record_gate_pair ::
  "int \<Rightarrow> string \<Rightarrow> string \<Rightarrow> gate_status_row \<Rightarrow> string \<Rightarrow> gate_decision_row \<Rightarrow> teaching_db \<Rightarrow> store_error + string \<times> teaching_db" where
  "record_gate_pair fence now s status g decision db =
     bindE (require_current_epoch fence db) (\<lambda>_.
       if gate_fact_recorded db s (Some g) then Inr (g, db)
       else if status_integrity db s status \<and> decision_integrity db g decision
       then Inr (g, insert_gate_decision now g decision (insert_execution_status now s status db))
       else Inl CONFLICT)"

definition record_gate_denial ::
  "int \<Rightarrow> string \<Rightarrow> string \<Rightarrow> gate_status_row \<Rightarrow> string \<Rightarrow> gate_decision_row \<Rightarrow> teaching_db \<Rightarrow> store_error + string \<times> teaching_db" where
  "record_gate_denial fence now s status g decision db =
     bindE (guardsE [(gd_decision decision = DENY, VALIDATION_FAILED),
       (gd_reason_codes decision \<noteq> [], VALIDATION_FAILED)]) (\<lambda>_. record_gate_pair fence now s status g decision db)"

definition record_gate_allow ::
  "int \<Rightarrow> string \<Rightarrow> string \<Rightarrow> gate_status_row \<Rightarrow> string \<Rightarrow> gate_decision_row \<Rightarrow> teaching_db \<Rightarrow> store_error + string \<times> teaching_db" where
  "record_gate_allow fence now s status g decision db =
     bindE (guardsE [(gd_decision decision = ALLOW, VALIDATION_FAILED),
       (gd_reason_codes decision = [], VALIDATION_FAILED),
       (gs_status status = GATE_SUCCEEDED, VALIDATION_FAILED)]) (\<lambda>_. record_gate_pair fence now s status g decision db)"

definition record_gate_degraded ::
  "int \<Rightarrow> string \<Rightarrow> string \<Rightarrow> gate_status_row \<Rightarrow> teaching_db \<Rightarrow> store_error + string \<times> teaching_db" where
  "record_gate_degraded fence now s status db =
     bindE (guardsE [(gs_status status = GATE_DEGRADED, VALIDATION_FAILED),
       (gs_missing_or_unknown status \<noteq> [], VALIDATION_FAILED)]) (\<lambda>_.
     bindE (require_current_epoch fence db) (\<lambda>_.
       if gate_fact_recorded db s None then Inr (s, db)
       else if status_integrity db s status then Inr (s, insert_execution_status now s status db)
       else Inl CONFLICT))"

section \<open>Opening\<close>

record open_request =
  oq_status_id :: string
  oq_status :: gate_status_row
  oq_decision_id :: string
  oq_decision :: gate_decision_row
  oq_moment_id :: string
  oq_moment :: moment_row
  oq_action_id :: string
  oq_action_turn :: string
  oq_action_cycle :: string
  oq_action_moment :: "string option"
  oq_action_attempt_count :: int
  oq_owner_epoch :: int

definition LOCK_STATE_VERSION_AT_OPEN :: int where
  "LOCK_STATE_VERSION_AT_OPEN = 1"

definition moment_for_cycle :: "teaching_db \<Rightarrow> string \<Rightarrow> string option" where
  "moment_for_cycle db cycle =
     (case filter (\<lambda>(k, r). mr_decision_cycle_id r = cycle) (db_moments db) of
        [] \<Rightarrow> None | (k, _) # _ \<Rightarrow> Some k)"

definition open_integrity :: "teaching_db \<Rightarrow> open_request \<Rightarrow> bool" where
  "open_integrity db rq \<longleftrightarrow>
     status_integrity db (oq_status_id rq) ((oq_status rq)\<lparr>gs_moment_id := None\<rparr>)
   \<and> decision_integrity db (oq_decision_id rq) (oq_decision rq)
   \<and> \<not> known (db_moments db) (oq_moment_id rq)
   \<and> mr_conversation_id (oq_moment rq) \<in> set (db_conversations db)
   \<and> known (db_cycle_turn db) (mr_decision_cycle_id (oq_moment rq))
   \<and> moment_row_ok (oq_moment rq)
   \<and> \<not> known (db_actions db) (oq_action_id rq) \<and> known (db_turn_owner db) (oq_action_turn rq)
   \<and> known (db_cycle_turn db) (oq_action_cycle rq)
   \<and> (case oq_action_moment rq of None \<Rightarrow> True
      | Some m \<Rightarrow> m = oq_moment_id rq \<or> known (db_moments db) m)
   \<and> 0 \<le> oq_action_attempt_count rq
   \<and> \<not> known (db_locks db) (mr_conversation_id (oq_moment rq))
   \<and> oq_moment_id rq \<notin> set (map (lk_moment_id \<circ> snd) (db_locks db))"

text \<open>The row \<^verbatim>\<open>_insert_moment\<close> writes: a moment without a creation time takes the clock's, one without
  an opening time takes its creation time (\<^verbatim>\<open>or\<close> treats an empty string as absent).\<close>

definition stamp_moment :: "string \<Rightarrow> moment_row \<Rightarrow> moment_row" where
  "stamp_moment now r =
     (let created = (if mr_created_at r = [] then now else mr_created_at r)
      in r\<lparr>mr_created_at := created,
           mr_opened_at := (if mr_opened_at r \<in> {None, Some ''''} then Some created else mr_opened_at r)\<rparr>)"

definition opening_time :: "string \<Rightarrow> open_request \<Rightarrow> string" where
  "opening_time now rq = (if mr_created_at (oq_moment rq) = [] then now else mr_created_at (oq_moment rq))"

definition commit_open :: "string \<Rightarrow> teaching_db \<Rightarrow> open_request \<Rightarrow> teaching_db" where
  "commit_open now db rq =
     (insert_gate_decision (time_or (gd_created_at (oq_decision rq)) (opening_time now rq)) (oq_decision_id rq)
       (oq_decision rq) (insert_execution_status (opening_time now rq) (oq_status_id rq) ((oq_status rq)\<lparr>gs_moment_id := None\<rparr>) db))\<lparr>
     db_moments := db_moments db @ [(oq_moment_id rq, stamp_moment now (oq_moment rq))],
     db_actions := db_actions db @ [(oq_action_id rq, \<lparr>ac_turn_id = oq_action_turn rq,
       ac_decision_cycle_id = oq_action_cycle rq, ac_moment_id = oq_action_moment rq\<rparr>)],
     db_locks := db_locks db @ [(mr_conversation_id (oq_moment rq),
       \<lparr>lk_moment_id = oq_moment_id rq, lk_state_version = LOCK_STATE_VERSION_AT_OPEN\<rparr>)]\<rparr>"

definition open_teaching_moment :: "int \<Rightarrow> open_request \<Rightarrow> string \<Rightarrow> teaching_db \<Rightarrow> store_error + string \<times> teaching_db" where
  "open_teaching_moment fence rq now db =
     bindE (guardsE
       [(mr_lifecycle_state (oq_moment rq) = MOMENT_OPENING, VALIDATION_FAILED),
        (gd_decision (oq_decision rq) = ALLOW, VALIDATION_FAILED),
        (gs_status (oq_status rq) = GATE_SUCCEEDED, VALIDATION_FAILED),
        (mr_gate_decision_id (oq_moment rq) = oq_decision_id rq, VALIDATION_FAILED),
        (mr_decision_cycle_id (oq_moment rq) = gd_decision_cycle_id (oq_decision rq), VALIDATION_FAILED)]) (\<lambda>_.
     bindE (require_current_epoch fence db) (\<lambda>_.
     case map_of (db_turn_owner db) (oq_action_turn rq) of
       None \<Rightarrow> Inl NOT_FOUND
     | Some owner \<Rightarrow>
         if owner \<noteq> oq_owner_epoch rq then Inl AUTHORITY_VIOLATION
         else case moment_for_cycle db (mr_decision_cycle_id (oq_moment rq)) of
           Some existing \<Rightarrow> Inr (existing, db)
         | None \<Rightarrow> if open_integrity db rq then Inr (oq_moment_id rq, commit_open now db rq) else Inl CONFLICT))"

section \<open>Lifecycle\<close>

record moment_transition =
  mt_lifecycle_state :: "moment_state option"
  mt_presentation_phase :: "string option"
  mt_support_level :: "string option"
  mt_attempt_index :: "int option"
  mt_completion_outcome :: "string option"
  mt_abort_reason :: "string option"
  mt_teaching_terminal_at :: "string option"
  mt_closed_at :: "string option"
  mt_opened_at :: "string option"

definition terminal_tail_refusal :: "moment_state \<Rightarrow> moment_state \<Rightarrow> bool" where
  "terminal_tail_refusal state target \<longleftrightarrow>
     state = TEACHING_TERMINAL \<and> target \<notin> {RESUMING, CLOSED}
     \<or> state = RESUMING \<and> target \<noteq> CLOSED
     \<or> target = CLOSED \<and> state \<notin> {RESUMING, TEACHING_TERMINAL}"

definition assign :: "'a option \<Rightarrow> 'a \<Rightarrow> 'a" where
  "assign new old = (case new of None \<Rightarrow> old | Some x \<Rightarrow> x)"

definition keep_or :: "'a option \<Rightarrow> 'a option \<Rightarrow> 'a option" where
  "keep_or new old = (case new of None \<Rightarrow> old | Some x \<Rightarrow> Some x)"

definition apply_transition :: "moment_transition \<Rightarrow> moment_row \<Rightarrow> moment_row" where
  "apply_transition tr r = r\<lparr>
     mr_lifecycle_state := assign (mt_lifecycle_state tr) (mr_lifecycle_state r),
     mr_presentation_phase := assign (mt_presentation_phase tr) (mr_presentation_phase r),
     mr_support_level := assign (mt_support_level tr) (mr_support_level r),
     mr_attempt_index := assign (mt_attempt_index tr) (mr_attempt_index r),
     mr_completion_outcome := keep_or (mt_completion_outcome tr) (mr_completion_outcome r),
     mr_abort_reason := keep_or (mt_abort_reason tr) (mr_abort_reason r),
     mr_teaching_terminal_at := keep_or (mt_teaching_terminal_at tr) (mr_teaching_terminal_at r),
     mr_closed_at := keep_or (mt_closed_at tr) (mr_closed_at r),
     mr_opened_at := keep_or (mt_opened_at tr) (mr_opened_at r),
     mr_state_version := mr_state_version r + 1\<rparr>"

definition update_moment :: "string \<Rightarrow> int \<Rightarrow> (moment_row \<Rightarrow> moment_row) \<Rightarrow> teaching_db \<Rightarrow> teaching_db" where
  "update_moment m version f db = db\<lparr>db_moments :=
     update_where (\<lambda>k r. k = m \<and> mr_state_version r = version) f (db_moments db)\<rparr>"

definition transition_moment ::
  "int \<Rightarrow> string \<Rightarrow> moment_transition \<Rightarrow> int \<Rightarrow> teaching_db \<Rightarrow> store_error + moment_row \<times> teaching_db" where
  "transition_moment fence m tr expected db =
     bindE (require_current_epoch fence db) (\<lambda>_.
     case map_of (db_moments db) m of
       None \<Rightarrow> Inl NOT_FOUND
     | Some row \<Rightarrow>
         if owning_epoch_refusal fence db row then Inl AUTHORITY_VIOLATION
         else if mr_state_version row \<noteq> expected then Inl CONFLICT
         else if mr_lifecycle_state row = CLOSED then Inl CONFLICT
         else if (case mt_lifecycle_state tr of None \<Rightarrow> False
                  | Some target \<Rightarrow> terminal_tail_refusal (mr_lifecycle_state row) target) then Inl CONFLICT
         else if \<not> moment_row_ok (apply_transition tr row) then Inl VALIDATION_FAILED
         else Inr (apply_transition tr row, update_moment m expected (apply_transition tr) db))"

definition finalize :: "string option \<Rightarrow> string option \<Rightarrow> string \<Rightarrow> moment_row \<Rightarrow> moment_row" where
  "finalize outcome reason now r = r\<lparr>mr_lifecycle_state := TEACHING_TERMINAL,
     mr_completion_outcome := outcome, mr_abort_reason := reason, mr_teaching_terminal_at := Some now,
     mr_state_version := mr_state_version r + 1\<rparr>"

definition release_lock :: "string \<Rightarrow> teaching_db \<Rightarrow> teaching_db" where
  "release_lock m db = db\<lparr>db_locks := delete_where (\<lambda>l. lk_moment_id l = m) (db_locks db)\<rparr>"

definition terminalize_moment ::
  "int \<Rightarrow> string \<Rightarrow> string option \<Rightarrow> string option \<Rightarrow> string \<Rightarrow> teaching_db \<Rightarrow> store_error + moment_row \<times> teaching_db" where
  "terminalize_moment fence m outcome reason now db =
     bindE (guardsE
       [((outcome = None) \<noteq> (reason = None), VALIDATION_FAILED),
        (case outcome of None \<Rightarrow> True | Some w \<Rightarrow> w \<in> set COMPLETION_OUTCOMES, VALIDATION_FAILED),
        (case reason of None \<Rightarrow> True | Some w \<Rightarrow> w \<in> set ABORT_REASONS, VALIDATION_FAILED)]) (\<lambda>_.
     bindE (require_current_epoch fence db) (\<lambda>_.
     case map_of (db_moments db) m of
       None \<Rightarrow> Inl NOT_FOUND
     | Some row \<Rightarrow>
         if owning_epoch_refusal fence db row then Inl AUTHORITY_VIOLATION
         else if mr_lifecycle_state row = TEACHING_TERMINAL then Inr (row, db)
         else if mr_lifecycle_state row \<noteq> (if outcome \<noteq> None then COMPLETING else ABORTING) then Inl CONFLICT
         else Inr (finalize outcome reason now row,
           release_lock m (update_moment m (mr_state_version row) (finalize outcome reason now) db))))"

section \<open>Attempts\<close>

definition record_attempt :: "int \<Rightarrow> string \<Rightarrow> attempt_row \<Rightarrow> teaching_db \<Rightarrow> store_error + string \<times> teaching_db" where
  "record_attempt fence a att db =
     bindE (require_current_epoch fence db) (\<lambda>_.
     case sort_key (at_attempt_index \<circ> snd) (filter (\<lambda>(k, r). k = a
         \<or> at_moment_id r = at_moment_id att \<and> at_user_turn_id r = at_user_turn_id att) (db_attempts db)) of
       (existing, _) # _ \<Rightarrow> Inr (existing, db)
     | [] \<Rightarrow>
         (case map_of (db_moments db) (at_moment_id att) of
            None \<Rightarrow> Inl NOT_FOUND
          | Some row \<Rightarrow>
              if mr_lifecycle_state row \<noteq> EVALUATING then Inl VALIDATION_FAILED
              else if at_attempt_index att \<noteq> mr_attempt_index row + 1 then Inl CONFLICT
              else if \<not> 0 < at_attempt_index att \<or> at_user_turn_id att \<notin> set (db_user_turns db)
                \<or> (at_moment_id att, at_attempt_index att) \<in> set (map (\<lambda>(k, r). (at_moment_id r, at_attempt_index r)) (db_attempts db))
              then Inl CONFLICT
              else Inr (a, update_moment (at_moment_id att) (mr_state_version row)
                (\<lambda>r. r\<lparr>mr_attempt_index := at_attempt_index att, mr_state_version := mr_state_version r + 1\<rparr>)
                (db\<lparr>db_attempts := db_attempts db @ [(a, att)]\<rparr>))))"

definition record_attempt_evaluation :: "int \<Rightarrow> string \<Rightarrow> evaluation_row \<Rightarrow> teaching_db \<Rightarrow> store_error + string \<times> teaching_db" where
  "record_attempt_evaluation fence e row db =
     bindE (guardsE [(ev_outcome row \<in> set ATTEMPT_OUTCOMES, VALIDATION_FAILED),
       (0 \<le> ev_confidence row \<and> ev_confidence row \<le> 1, VALIDATION_FAILED)]) (\<lambda>_.
     bindE (require_current_epoch fence db) (\<lambda>_.
       if known (db_evaluations db) e then Inr (e, db)
       else if known (db_moments db) (ev_moment_id row) \<and> known (db_attempts db) (ev_attempt_id row)
         \<and> ev_attempt_id row \<notin> set (map (ev_attempt_id \<circ> snd) (db_evaluations db))
       then Inr (e, db\<lparr>db_evaluations := db_evaluations db @ [(e, row)]\<rparr>)
       else Inl CONFLICT))"

section \<open>Recovery\<close>

record orphan_row =
  or_moment_id :: string
  or_lock_version :: int
  or_moment_version :: int
  or_created_at :: string

definition orphan_of :: "int \<Rightarrow> teaching_db \<Rightarrow> lock_row \<Rightarrow> orphan_row list" where
  "orphan_of epoch db l =
     (case map_of (db_moments db) (lk_moment_id l) of
        None \<Rightarrow> []
      | Some r \<Rightarrow> (case owner_epoch_of db r of
          None \<Rightarrow> []
        | Some owner \<Rightarrow> if owner \<noteq> epoch then [\<lparr>or_moment_id = lk_moment_id l,
            or_lock_version = lk_state_version l, or_moment_version = mr_state_version r,
            or_created_at = mr_created_at r\<rparr>] else []))"

definition orphan_lock_rows :: "int \<Rightarrow> teaching_db \<Rightarrow> orphan_row list" where
  "orphan_lock_rows epoch db =
     sort_key (\<lambda>o'. (or_created_at o', or_moment_id o')) (concat (map (orphan_of epoch db \<circ> snd) (db_locks db)))"

definition orphan_teaching_lock_moments :: "int \<Rightarrow> teaching_db \<Rightarrow> string list" where
  "orphan_teaching_lock_moments epoch db = map or_moment_id (orphan_lock_rows epoch db)"

definition close_orphan :: "string \<Rightarrow> orphan_row \<Rightarrow> teaching_db \<Rightarrow> teaching_db" where
  "close_orphan now o' db =
     (let closed = update_moment (or_moment_id o') (or_moment_version o')
            (\<lambda>r. r\<lparr>mr_lifecycle_state := CLOSED, mr_abort_reason := Some ''SYSTEM_RECOVERY_ABORT'',
               mr_teaching_terminal_at := Some now, mr_closed_at := Some now,
               mr_state_version := mr_state_version r + 1\<rparr>) db
      in closed\<lparr>db_locks := delete_where
           (\<lambda>l. lk_moment_id l = or_moment_id o' \<and> lk_state_version l = or_lock_version o') (db_locks closed)\<rparr>)"

definition recover_orphan_teaching_locks ::
  "int \<Rightarrow> int \<Rightarrow> string \<Rightarrow> teaching_db \<Rightarrow> store_error + string list \<times> teaching_db" where
  "recover_orphan_teaching_locks fence current_epoch now db =
     (let rows = orphan_lock_rows current_epoch db in
      if rows = [] then Inr ([], db)
      else bindE (require_current_epoch fence db) (\<lambda>_.
        Inr (map or_moment_id rows, fold (close_orphan now) rows db)))"

definition get_lock_moment_id :: "teaching_db \<Rightarrow> string \<Rightarrow> string option" where
  "get_lock_moment_id db conversation_id = map_option lk_moment_id (map_of (db_locks db) conversation_id)"

definition orphan_moment_ids :: "int \<Rightarrow> teaching_db \<Rightarrow> string list" where
  "orphan_moment_ids epoch db = map fst (sort_key (\<lambda>(k, r). (mr_created_at r, k)) (filter
     (\<lambda>(k, r). mr_lifecycle_state r \<notin> {TEACHING_TERMINAL, CLOSED}
        \<and> (case owner_epoch_of db r of None \<Rightarrow> False | Some owner \<Rightarrow> owner \<noteq> epoch)) (db_moments db)))"

end
