(* ===== verification/Moment_Invariant.thy ===== *)
theory Moment_Invariant
  imports Moment_Store
begin

text \<open>
  The lock discipline of the teaching store: the invariant that ties the lock rows to the live moments,
  its preservation by every operation, and the states reachable through operations that obey the
  coordinator's transition discipline.
\<close>

section \<open>Tables under update\<close>

lemma keys_update_where [simp]: "map fst (update_where p f t) = map fst t"
  by (induction t) (auto simp: update_where_def)

lemma set_update_where: "(k, r') \<in> set (update_where p f t) \<longleftrightarrow> (\<exists>r. (k, r) \<in> set t \<and> r' = (if p k r then f r else r))"
  by (induction t) (auto simp: update_where_def)

lemma map_of_update_where: "map_of (update_where p f t) k = map_option (\<lambda>r. if p k r then f r else r) (map_of t k)"
  by (induction t) (auto simp: update_where_def)

lemma set_delete_where: "(k, r) \<in> set (delete_where p t) \<longleftrightarrow> (k, r) \<in> set t \<and> \<not> p r"
  by (auto simp: delete_where_def)

lemma distinct_delete_where: "distinct (map fst t) \<Longrightarrow> distinct (map fst (delete_where p t))"
  by (auto simp: delete_where_def distinct_map_filter)

lemma known_iff: "known t k \<longleftrightarrow> k \<in> set (map fst t)"
  by (auto simp: known_def map_of_eq_None_iff)

lemma row_unique: "distinct (map fst t) \<Longrightarrow> (k, r) \<in> set t \<Longrightarrow> (k, r') \<in> set t \<Longrightarrow> r = r'"
  by (metis map_of_is_SomeI option.inject)

lemma owner_of_updated: "owner_epoch_of (update_moment m v f db) r = owner_epoch_of db r"
  by (simp add: owner_epoch_of_def update_moment_def split: option.split)

lemma look_updated:
  "map_of (db_moments db) m = Some r \<Longrightarrow> map_of (db_moments (update_moment m (mr_state_version r) f db)) m = Some (f r)"
  by (simp add: update_moment_def map_of_update_where)

lemma owner_of_cycle: "mr_decision_cycle_id r = mr_decision_cycle_id r' \<Longrightarrow> owner_epoch_of db r = owner_epoch_of db r'"
  by (simp add: owner_epoch_of_def)

section \<open>The invariant\<close>

definition live :: "moment_row \<Rightarrow> bool" where
  "live r \<longleftrightarrow> mr_lifecycle_state r \<notin> {TEACHING_TERMINAL, RESUMING, CLOSED}"

definition lock_inv :: "teaching_db \<Rightarrow> bool" where
  "lock_inv db \<longleftrightarrow> distinct (map fst (db_moments db)) \<and> distinct (map fst (db_locks db))
     \<and> (\<forall>c l. (c, l) \<in> set (db_locks db) \<longrightarrow>
          (\<exists>r. (lk_moment_id l, r) \<in> set (db_moments db) \<and> mr_conversation_id r = c \<and> live r))
     \<and> (\<forall>m r. (m, r) \<in> set (db_moments db) \<longrightarrow> live r \<longrightarrow>
          (\<exists>l. (mr_conversation_id r, l) \<in> set (db_locks db) \<and> lk_moment_id l = m))"

lemma lock_invD:
  assumes "lock_inv db"
  shows inv_moments: "distinct (map fst (db_moments db))" and inv_locks: "distinct (map fst (db_locks db))"
    and inv_locked: "(c, l) \<in> set (db_locks db) \<Longrightarrow>
      \<exists>r. (lk_moment_id l, r) \<in> set (db_moments db) \<and> mr_conversation_id r = c \<and> live r"
    and inv_live: "(m, r) \<in> set (db_moments db) \<Longrightarrow> live r \<Longrightarrow>
      \<exists>l. (mr_conversation_id r, l) \<in> set (db_locks db) \<and> lk_moment_id l = m"
  using assms unfolding lock_inv_def by blast+

lemma lock_unique:
  assumes "lock_inv db" and "(c, l) \<in> set (db_locks db)" and "(c', l') \<in> set (db_locks db)"
    and "lk_moment_id l = lk_moment_id l'"
  shows "c = c' \<and> l = l'"
proof -
  obtain r r' where "(lk_moment_id l, r) \<in> set (db_moments db)" "mr_conversation_id r = c"
    "(lk_moment_id l', r') \<in> set (db_moments db)" "mr_conversation_id r' = c'"
    using inv_locked [OF assms(1)] assms(2,3) by blast
  with assms(4) row_unique [OF inv_moments [OF assms(1)]] have "c = c'" by metis
  with row_unique [OF inv_locks [OF assms(1)]] assms(2,3) show ?thesis by blast
qed

text \<open>Three ways an operation may touch the two tables: keep every row's liveness, end one moment together
  with its lock, or add a live moment together with its lock.\<close>

lemma inv_keep:
  assumes inv: "lock_inv db" and "db_locks db' = db_locks db"
    and m: "db_moments db' = update_where p f (db_moments db)"
    and f: "\<And>k r. (k, r) \<in> set (db_moments db) \<Longrightarrow> p k r \<Longrightarrow> live (f r) = live r \<and> mr_conversation_id (f r) = mr_conversation_id r"
  shows "lock_inv db'"
  unfolding lock_inv_def assms(2) m keys_update_where set_update_where
proof (intro conjI allI impI)
  fix c l assume "(c, l) \<in> set (db_locks db)"
  show "\<exists>r'. (\<exists>r. (lk_moment_id l, r) \<in> set (db_moments db) \<and> r' = (if p (lk_moment_id l) r then f r else r))
      \<and> mr_conversation_id r' = c \<and> live r'"
    using inv_locked [OF inv \<open>(c, l) \<in> set (db_locks db)\<close>] f by (metis (full_types))
next
  fix k r' assume "\<exists>r. (k, r) \<in> set (db_moments db) \<and> r' = (if p k r then f r else r)" and "live r'"
  then obtain r where r: "(k, r) \<in> set (db_moments db)" "r' = (if p k r then f r else r)" by blast
  with \<open>live r'\<close> f have "live r" "mr_conversation_id r' = mr_conversation_id r" by (auto split: if_splits)
  with inv_live [OF inv r(1)] show "\<exists>l. (mr_conversation_id r', l) \<in> set (db_locks db) \<and> lk_moment_id l = k"
    by simp
qed (use inv_moments [OF inv] inv_locks [OF inv] in simp_all)

lemma inv_end:
  assumes inv: "lock_inv db" and row: "(m, row) \<in> set (db_moments db)"
    and mom: "db_moments db' = update_where (\<lambda>k r. k = m \<and> mr_state_version r = mr_state_version row) f (db_moments db)"
    and lock: "set (db_locks db') = {(c, l) \<in> set (db_locks db). lk_moment_id l \<noteq> m}"
    and dist: "distinct (map fst (db_locks db'))"
    and f: "\<And>r. \<not> live (f r) \<and> mr_conversation_id (f r) = mr_conversation_id r"
  shows "lock_inv db'"
proof -
  have only: "r = row" if "(m, r) \<in> set (db_moments db)" for r
    using row_unique [OF inv_moments [OF inv]] row that by blast
  show ?thesis
    unfolding lock_inv_def mom keys_update_where set_update_where
  proof (intro conjI allI impI)
    fix c l assume "(c, l) \<in> set (db_locks db')"
    then have "(c, l) \<in> set (db_locks db)" "lk_moment_id l \<noteq> m" by (auto simp: lock)
    then show "\<exists>r'. (\<exists>r. (lk_moment_id l, r) \<in> set (db_moments db)
        \<and> r' = (if lk_moment_id l = m \<and> mr_state_version r = mr_state_version row then f r else r))
        \<and> mr_conversation_id r' = c \<and> live r'"
      using inv_locked [OF inv] by fastforce
  next
    fix k r' assume "\<exists>r. (k, r) \<in> set (db_moments db)
        \<and> r' = (if k = m \<and> mr_state_version r = mr_state_version row then f r else r)" and "live r'"
    then have k: "k \<noteq> m" "(k, r') \<in> set (db_moments db)"
      using only f by (metis (full_types), metis (full_types))
    with inv_live [OF inv k(2)] \<open>live r'\<close> obtain l where "(mr_conversation_id r', l) \<in> set (db_locks db)" "lk_moment_id l = k"
      by blast
    with k(1) show "\<exists>l. (mr_conversation_id r', l) \<in> set (db_locks db') \<and> lk_moment_id l = k"
      by (auto simp: lock)
  qed (use inv_moments [OF inv] dist in simp_all)
qed

lemma inv_add:
  assumes inv: "lock_inv db" and "db_moments db' = db_moments db @ [(m, r)]"
    and "db_locks db' = db_locks db @ [(mr_conversation_id r, l)]" and "lk_moment_id l = m"
    and "m \<notin> set (map fst (db_moments db))" and "mr_conversation_id r \<notin> set (map fst (db_locks db))" and "live r"
  shows "lock_inv db'"
  using inv assms(2-) unfolding lock_inv_def by (auto; metis)

section \<open>Preservation\<close>

lemmas insert_defs = insert_execution_status_def insert_gate_decision_def

lemma stamp_simps [simp]:
  "live (stamp_moment now r) = live r" "mr_conversation_id (stamp_moment now r) = mr_conversation_id r"
  "mr_decision_cycle_id (stamp_moment now r) = mr_decision_cycle_id r"
  by (simp_all add: stamp_moment_def live_def Let_def)

lemma commit_open_moments: "db_moments (commit_open now db rq) = db_moments db @ [(oq_moment_id rq, stamp_moment now (oq_moment rq))]"
  by (simp add: commit_open_def)

text \<open>What a successful operation did.\<close>

lemma open_Inr:
  "open_teaching_moment fence rq now db = Inr (m, db') \<Longrightarrow>
     moment_for_cycle db (mr_decision_cycle_id (oq_moment rq)) = Some m \<and> db' = db
     \<or> moment_for_cycle db (mr_decision_cycle_id (oq_moment rq)) = None \<and> m = oq_moment_id rq
       \<and> open_integrity db rq \<and> db' = commit_open now db rq \<and> live (oq_moment rq)"
  by (auto simp: open_teaching_moment_def result_simps live_def split: option.splits if_splits)

lemma terminalize_Inr:
  "terminalize_moment fence m outcome reason now db = Inr (r, db') \<Longrightarrow>
     (\<exists>row. map_of (db_moments db) m = Some row \<and> (mr_lifecycle_state row = TEACHING_TERMINAL \<and> db' = db
       \<or> mr_lifecycle_state row \<in> {COMPLETING, ABORTING}
         \<and> db' = release_lock m (update_moment m (mr_state_version row) (finalize outcome reason now) db)))"
  by (auto simp: terminalize_moment_def result_simps split: option.splits if_splits)

lemma attempt_Inr:
  "record_attempt fence a att db = Inr (x, db') \<Longrightarrow>
     db' = db \<or> (\<exists>row. map_of (db_moments db) (at_moment_id att) = Some row \<and> mr_lifecycle_state row = EVALUATING
       \<and> db' = update_moment (at_moment_id att) (mr_state_version row)
          (\<lambda>r. r\<lparr>mr_attempt_index := at_attempt_index att, mr_state_version := mr_state_version r + 1\<rparr>)
          (db\<lparr>db_attempts := db_attempts db @ [(a, att)]\<rparr>))"
  by (auto simp: record_attempt_def result_simps split: list.splits option.splits if_splits)

lemma recover_Inr:
  "recover_orphan_teaching_locks fence epoch now db = Inr (ids, db') \<Longrightarrow>
     ids = orphan_teaching_lock_moments epoch db \<and> db' = fold (close_orphan now) (orphan_lock_rows epoch db) db"
  by (auto simp: recover_orphan_teaching_locks_def orphan_teaching_lock_moments_def result_simps Let_def split: if_splits)

lemma inv_open:
  assumes "lock_inv db" and "open_teaching_moment fence rq now db = Inr (m, db')"
  shows "lock_inv db'"
  using open_Inr [OF assms(2)]
proof (elim disjE conjE)
  assume "open_integrity db rq" "db' = commit_open now db rq" "live (oq_moment rq)"
  then show ?thesis
    by (intro inv_add [OF assms(1), where m = "oq_moment_id rq" and r = "stamp_moment now (oq_moment rq)"])
      (auto simp: open_integrity_def commit_open_def known_iff insert_defs stamp_simps simp del: set_map)
qed (simp add: assms(1))

text \<open>The coordinator's discipline: TEACHING_TERMINAL is never the target of a plain transition (it is
  reached by terminalization only), and RESUMING only follows it.\<close>

definition coordinator_move :: "moment_state \<Rightarrow> moment_state option \<Rightarrow> bool" where
  "coordinator_move state target \<longleftrightarrow> target \<noteq> Some TEACHING_TERMINAL
     \<and> (target = Some RESUMING \<longrightarrow> state = TEACHING_TERMINAL)"

lemma transition_Inr:
  assumes "transition_moment fence m tr v db = Inr (r, db')"
  obtains row where "map_of (db_moments db) m = Some row" "mr_state_version row = v" "mr_lifecycle_state row \<noteq> CLOSED"
    "\<And>target. mt_lifecycle_state tr = Some target \<Longrightarrow> \<not> terminal_tail_refusal (mr_lifecycle_state row) target"
    "r = apply_transition tr row" "db' = update_moment m v (apply_transition tr) db"
    "db_newest_epoch db = Some fence" "\<not> owning_epoch_refusal fence db row"
  using assms by (auto simp: transition_moment_def result_simps require_current_epoch_def
      split: option.splits if_splits)

lemma inv_transition:
  assumes inv: "lock_inv db" and "transition_moment fence m tr v db = Inr (r, db')"
    and move: "\<And>row. map_of (db_moments db) m = Some row \<Longrightarrow> coordinator_move (mr_lifecycle_state row) (mt_lifecycle_state tr)"
  shows "lock_inv db'"
  using assms(2)
proof (rule transition_Inr)
  fix row
  assume row: "map_of (db_moments db) m = Some row" "mr_lifecycle_state row \<noteq> CLOSED"
    and tail: "\<And>target. mt_lifecycle_state tr = Some target \<Longrightarrow> \<not> terminal_tail_refusal (mr_lifecycle_state row) target"
    and db': "db' = update_moment m v (apply_transition tr) db"
  show ?thesis
  proof (rule inv_keep [OF inv])
    fix k r assume "(k, r) \<in> set (db_moments db)" and k: "k = m \<and> mr_state_version r = v"
    then have "r = row" using row(1) inv_moments [OF inv] by (metis map_of_is_SomeI option.inject)
    then show "live (apply_transition tr r) = live r
        \<and> mr_conversation_id (apply_transition tr r) = mr_conversation_id r"
      using move [OF row(1)] tail row(2)
      by (cases "mt_lifecycle_state tr")
        (auto simp: live_def apply_transition_def assign_def coordinator_move_def terminal_tail_refusal_def)
  qed (simp_all add: db' update_moment_def)
qed

lemma inv_terminalize:
  assumes inv: "lock_inv db" and "terminalize_moment fence m outcome reason now db = Inr (r, db')"
  shows "lock_inv db'"
proof -
  obtain row where row: "map_of (db_moments db) m = Some row" and "db' = db
      \<or> db' = release_lock m (update_moment m (mr_state_version row) (finalize outcome reason now) db)"
    using terminalize_Inr [OF assms(2)] by blast
  then show ?thesis
  proof (elim disjE)
    assume db': "db' = release_lock m (update_moment m (mr_state_version row) (finalize outcome reason now) db)"
    show ?thesis
      by (rule inv_end [OF inv map_of_SomeD [OF row], where f = "finalize outcome reason now"])
        (auto simp: db' release_lock_def update_moment_def set_delete_where live_def finalize_def
          intro: distinct_delete_where inv_locks [OF inv])
  qed (simp add: inv)
qed

lemma inv_attempt:
  assumes inv: "lock_inv db" and "record_attempt fence a att db = Inr (x, db')"
  shows "lock_inv db'"
  using attempt_Inr [OF assms(2)] inv_keep [OF inv,
      where f = "\<lambda>r. r\<lparr>mr_attempt_index := at_attempt_index att, mr_state_version := mr_state_version r + 1\<rparr>"]
  by (auto simp: update_moment_def live_def inv)

text \<open>The writers of facts and evaluations leave both tables alone.\<close>

lemma fact_frame:
  "record_attempt_evaluation fence e row db = Inr (x, db') \<Longrightarrow> db_moments db' = db_moments db \<and> db_locks db' = db_locks db"
  "record_gate_denial fence now s status g decision db = Inr (x, db') \<Longrightarrow> db_moments db' = db_moments db \<and> db_locks db' = db_locks db"
  "record_gate_allow fence now s status g decision db = Inr (x, db') \<Longrightarrow> db_moments db' = db_moments db \<and> db_locks db' = db_locks db"
  "record_gate_degraded fence now s status db = Inr (x, db') \<Longrightarrow> db_moments db' = db_moments db \<and> db_locks db' = db_locks db"
  by (auto simp: record_attempt_evaluation_def record_gate_denial_def record_gate_allow_def record_gate_degraded_def
      record_gate_pair_def insert_defs result_simps split: if_splits)

lemma inv_frame: "db_moments db' = db_moments db \<and> db_locks db' = db_locks db \<Longrightarrow> lock_inv db \<Longrightarrow> lock_inv db'"
  by (simp add: lock_inv_def)

section \<open>The recovery sweep\<close>

definition orphan_valid :: "teaching_db \<Rightarrow> orphan_row \<Rightarrow> bool" where
  "orphan_valid db o' \<longleftrightarrow> (\<exists>c l r. (c, l) \<in> set (db_locks db) \<and> lk_moment_id l = or_moment_id o'
     \<and> lk_state_version l = or_lock_version o' \<and> (or_moment_id o', r) \<in> set (db_moments db)
     \<and> mr_state_version r = or_moment_version o')"

lemma orphan_of_ids: "map or_moment_id (concat (map (orphan_of e db) ls))
    = map lk_moment_id (filter (\<lambda>l. orphan_of e db l \<noteq> []) ls)"
  by (induction ls) (auto simp: orphan_of_def split: option.splits)

lemma locked_ids_distinct: "lock_inv db \<Longrightarrow> distinct (map (lk_moment_id \<circ> snd) (db_locks db))"
proof -
  assume inv: "lock_inv db"
  have "inj_on (lk_moment_id \<circ> snd) (set (db_locks db))"
    using lock_unique [OF inv] by (force intro: inj_onI)
  with inv_locks [OF inv] show ?thesis by (auto simp: distinct_map)
qed

lemma orphan_ids_distinct:
  assumes "lock_inv db"
  shows "distinct (map or_moment_id (orphan_lock_rows e db))"
proof -
  have "distinct (map lk_moment_id (filter (\<lambda>l. orphan_of e db l \<noteq> []) (map snd (db_locks db))))"
    using locked_ids_distinct [OF assms] by (intro distinct_map_filter) (simp add: comp_def)
  then have "distinct (map or_moment_id (concat (map (orphan_of e db \<circ> snd) (db_locks db))))"
    using orphan_of_ids [of e db "map snd (db_locks db)"] by (simp add: comp_def)
  then show ?thesis
    unfolding orphan_lock_rows_def distinct_map by simp
qed

lemma orphan_rows_valid: "o' \<in> set (orphan_lock_rows e db) \<Longrightarrow> orphan_valid db o'"
proof -
  assume "o' \<in> set (orphan_lock_rows e db)"
  then obtain c l where l: "(c, l) \<in> set (db_locks db)" and o': "o' \<in> set (orphan_of e db l)"
    by (auto simp: orphan_lock_rows_def)
  from o' obtain r where "map_of (db_moments db) (lk_moment_id l) = Some r" "or_moment_id o' = lk_moment_id l"
    "or_lock_version o' = lk_state_version l" "or_moment_version o' = mr_state_version r"
    unfolding orphan_of_def
    by (cases "map_of (db_moments db) (lk_moment_id l)") (auto split: option.splits if_splits)
  with l show "orphan_valid db o'" unfolding orphan_valid_def by (metis map_of_SomeD)
qed

lemma close_orphan_tables:
  "db_moments (close_orphan now o' db) = update_where (\<lambda>k r. k = or_moment_id o' \<and> mr_state_version r = or_moment_version o')
     (\<lambda>r. r\<lparr>mr_lifecycle_state := CLOSED, mr_abort_reason := Some ''SYSTEM_RECOVERY_ABORT'',
        mr_teaching_terminal_at := Some now, mr_closed_at := Some now, mr_state_version := mr_state_version r + 1\<rparr>)
     (db_moments db)"
  "db_locks (close_orphan now o' db) = delete_where
     (\<lambda>l. lk_moment_id l = or_moment_id o' \<and> lk_state_version l = or_lock_version o') (db_locks db)"
  by (simp_all add: close_orphan_def update_moment_def Let_def)

lemma close_orphan_locks:
  assumes "lock_inv db" and "orphan_valid db o'"
  shows "set (db_locks (close_orphan now o' db)) = {(c, l) \<in> set (db_locks db). lk_moment_id l \<noteq> or_moment_id o'}"
proof -
  obtain c l where l: "(c, l) \<in> set (db_locks db)" "lk_moment_id l = or_moment_id o'"
    "lk_state_version l = or_lock_version o'" using assms(2) unfolding orphan_valid_def by blast
  show ?thesis
    unfolding close_orphan_tables using lock_unique [OF assms(1) l(1)] l(2,3) by (fastforce simp: delete_where_def)
qed

lemma inv_close_orphan:
  assumes inv: "lock_inv db" and valid: "orphan_valid db o'"
  shows "lock_inv (close_orphan now o' db)"
proof -
  obtain r where r: "(or_moment_id o', r) \<in> set (db_moments db)" "mr_state_version r = or_moment_version o'"
    using valid unfolding orphan_valid_def by blast
  show ?thesis
    by (rule inv_end [OF inv r(1) _ close_orphan_locks [OF inv valid]])
      (auto simp: close_orphan_tables r(2) live_def intro: distinct_delete_where inv_locks [OF inv])
qed

lemma close_orphan_frame:
  "orphan_valid db q \<Longrightarrow> or_moment_id q \<noteq> or_moment_id o' \<Longrightarrow> orphan_valid (close_orphan now o' db) q"
  unfolding orphan_valid_def close_orphan_tables set_update_where set_delete_where by fastforce

lemma orphans_after_close:
  assumes "\<forall>p \<in> set (q # rows). orphan_valid db p" and "distinct (map or_moment_id (q # rows))"
  shows "\<forall>p \<in> set rows. orphan_valid (close_orphan now q db) p"
proof
  fix p assume p: "p \<in> set rows"
  then have "or_moment_id p \<noteq> or_moment_id q"
    using assms(2) by (metis distinct.simps(2) image_eqI list.simps(9) set_map)
  then show "orphan_valid (close_orphan now q db) p" using assms(1) p close_orphan_frame by simp
qed

lemma close_all:
  "lock_inv db \<Longrightarrow> \<forall>q \<in> set rows. orphan_valid db q \<Longrightarrow> distinct (map or_moment_id rows) \<Longrightarrow>
     lock_inv (fold (close_orphan now) rows db)
     \<and> set (db_locks (fold (close_orphan now) rows db))
       = {(c, l) \<in> set (db_locks db). lk_moment_id l \<notin> or_moment_id ` set rows}"
proof (induction rows arbitrary: db)
  case (Cons q rows)
  have inv: "lock_inv (close_orphan now q db)" using Cons.prems inv_close_orphan by simp
  have "orphan_valid db q" using Cons.prems by simp
  with Cons.IH [OF inv orphans_after_close [OF Cons.prems(2,3)]] Cons.prems inv
  show ?case by (auto simp: close_orphan_locks [OF Cons.prems(1) \<open>orphan_valid db q\<close>])
qed auto

lemma fold_close_frame:
  "\<forall>q \<in> set rows. or_moment_id q \<noteq> m \<Longrightarrow>
     map_of (db_moments (fold (close_orphan now) rows db)) m = map_of (db_moments db) m"
  by (induction rows arbitrary: db) (auto simp: close_orphan_tables map_of_update_where option.map_id0 option.map_ident)

lemma fold_close_owner: "owner_epoch_of (fold (close_orphan now) rows db) r = owner_epoch_of db r"
proof -
  have "db_cycle_turn (fold (close_orphan now) rows db) = db_cycle_turn db
      \<and> db_turn_owner (fold (close_orphan now) rows db) = db_turn_owner db"
    by (induction rows arbitrary: db) (simp_all add: close_orphan_def update_moment_def Let_def)
  then show ?thesis by (simp add: owner_epoch_of_def split: option.split)
qed

lemma fold_close_row:
  "\<forall>q \<in> set rows. orphan_valid db q \<Longrightarrow> distinct (map or_moment_id rows) \<Longrightarrow> distinct (map fst (db_moments db)) \<Longrightarrow>
     q \<in> set rows \<Longrightarrow> \<exists>r r'. map_of (db_moments db) (or_moment_id q) = Some r
       \<and> map_of (db_moments (fold (close_orphan now) rows db)) (or_moment_id q) = Some r'
       \<and> mr_lifecycle_state r' = CLOSED \<and> mr_abort_reason r' = Some ''SYSTEM_RECOVERY_ABORT''
       \<and> mr_completion_outcome r' = mr_completion_outcome r \<and> mr_conversation_id r' = mr_conversation_id r"
proof (induction rows arbitrary: db)
  case (Cons p rows)
  note valid = orphans_after_close [OF Cons.prems(1,2), of now]
  show ?case
  proof (cases "q = p")
    case True
    have "\<forall>x \<in> set rows. or_moment_id x \<noteq> or_moment_id p" using Cons.prems(2) by (auto simp: image_iff)
    note frame = fold_close_frame [OF this, of now "close_orphan now p db"]
    obtain r where "(or_moment_id p, r) \<in> set (db_moments db)" "mr_state_version r = or_moment_version p"
      using Cons.prems(1) unfolding orphan_valid_def by auto
    with Cons.prems(3) have "map_of (db_moments db) (or_moment_id p) = Some r"
      "mr_state_version r = or_moment_version p" by simp_all
    with frame True show ?thesis by (simp add: close_orphan_tables map_of_update_where)
  next
    case False
    with Cons.prems have q: "q \<in> set rows" by simp
    then have ne: "or_moment_id q \<noteq> or_moment_id p"
      using Cons.prems(2) by (metis distinct.simps(2) image_eqI list.simps(9) set_map)
    have d: "distinct (map or_moment_id rows)" using Cons.prems(2) by simp
    have dm: "distinct (map fst (db_moments (close_orphan now p db)))"
      using Cons.prems(3) by (simp add: close_orphan_tables)
    have "map_of (db_moments (close_orphan now p db)) (or_moment_id q) = map_of (db_moments db) (or_moment_id q)"
      using fold_close_frame [of "[p]" "or_moment_id q" now db] ne by simp
    with Cons.IH [OF valid d dm q] show ?thesis by simp
  qed
qed simp

lemma inv_recover:
  assumes "lock_inv db" and "recover_orphan_teaching_locks fence epoch now db = Inr (ids, db')"
  shows "lock_inv db'"
  using recover_Inr [OF assms(2)] close_all [OF assms(1)] orphan_rows_valid orphan_ids_distinct [OF assms(1)]
  by blast

section \<open>Reachable stores\<close>

text \<open>
  A step is a successful operation of some process (its fence is free), or a change other components
  make to the rows this store only reads.
\<close>

inductive store_step :: "teaching_db \<Rightarrow> teaching_db \<Rightarrow> bool" where
  opened: "open_teaching_moment fence rq now db = Inr (m, db') \<Longrightarrow> store_step db db'"
| moved: "transition_moment fence m tr v db = Inr (r, db') \<Longrightarrow> map_of (db_moments db) m = Some row \<Longrightarrow>
    coordinator_move (mr_lifecycle_state row) (mt_lifecycle_state tr) \<Longrightarrow> store_step db db'"
| terminalized: "terminalize_moment fence m outcome reason now db = Inr (r, db') \<Longrightarrow> store_step db db'"
| attempted: "record_attempt fence a att db = Inr (x, db') \<Longrightarrow> store_step db db'"
| evaluated: "record_attempt_evaluation fence e row db = Inr (x, db') \<Longrightarrow> store_step db db'"
| denied: "record_gate_denial fence now s status g decision db = Inr (x, db') \<Longrightarrow> store_step db db'"
| allowed: "record_gate_allow fence now s status g decision db = Inr (x, db') \<Longrightarrow> store_step db db'"
| degraded: "record_gate_degraded fence now s status db = Inr (x, db') \<Longrightarrow> store_step db db'"
| recovered: "recover_orphan_teaching_locks fence epoch now db = Inr (ids, db') \<Longrightarrow> store_step db db'"
| elsewhere: "db_moments db' = db_moments db \<Longrightarrow> db_locks db' = db_locks db \<Longrightarrow> store_step db db'"

inductive store_reachable :: "teaching_db \<Rightarrow> bool" where
  fresh: "db_moments db = [] \<Longrightarrow> db_locks db = [] \<Longrightarrow> store_reachable db"
| step: "store_reachable db \<Longrightarrow> store_step db db' \<Longrightarrow> store_reachable db'"

inductive_cases store_stepE: "store_step db db'"

lemma inv_step: "store_step db db' \<Longrightarrow> lock_inv db \<Longrightarrow> lock_inv db'"
proof (induction rule: store_step.induct)
  case (moved fence m tr v db r db' row)
  then show ?case using inv_transition [of db fence m tr v r db'] by simp
next
  case (elsewhere db' db)
  then show ?case by (simp add: lock_inv_def)
qed (auto intro: inv_open inv_terminalize inv_attempt inv_recover inv_frame dest: fact_frame)

lemma reachable_inv: "store_reachable db \<Longrightarrow> lock_inv db"
proof (induction rule: store_reachable.induct)
  case (fresh db)
  then show ?case by (simp add: lock_inv_def)
qed (rule inv_step)

end
