(* ===== verification/Moment_Properties.thy ===== *)
theory Moment_Properties
  imports Moment_Invariant Reply_Turn
begin

text \<open>
  The properties of the durable teaching store: the one-focus guarantee, the one-way tail of a moment's
  lifecycle, the compare-and-swap of transitions, the replay of an opening, the recovery sweep, and the
  composition with the reply turn (a closing plan always terminalizes and frees the conversation).  Two
  closed theorems show what the store's own rules do not prevent.
\<close>

section \<open>A concrete store\<close>

definition demo_row :: moment_row where
  "demo_row = \<lparr>mr_conversation_id = ''c'', mr_persona_id = None, mr_source = FROM_AUTOMATIC,
     mr_decision_cycle_id = ''d'', mr_candidate_id = ''k'', mr_focus_target_id = ''x'', mr_learning_snapshot_id = None,
     mr_curriculum_version = None, mr_policy_version = None, mr_gate_decision_id = ''g'',
     mr_target_mode = ''REVIEW'', mr_learning_intent = ''DEVELOP'', mr_evidence_watermark = Some 0,
     mr_lifecycle_state = MOMENT_OPENING, mr_presentation_phase = ''INITIAL_PROMPT'', mr_attempt_index = 0,
     mr_support_level = ''NONE'', mr_completion_outcome = None, mr_abort_reason = None, mr_state_version = 1,
     mr_created_at = ''t0'', mr_opened_at = None, mr_teaching_terminal_at = None, mr_closed_at = None\<rparr>"

definition demo_open :: open_request where
  "demo_open = \<lparr>oq_status_id = ''s'', oq_status = \<lparr>gs_decision_cycle_id = Some ''d'', gs_moment_id = None,
       gs_gate_context = CONTEXT_OPEN, gs_authorization_basis = BASIS_DECISION_CYCLE, gs_authorization_status = ''VALID'', gs_status = GATE_SUCCEEDED, gs_missing_or_unknown = [], gs_created_at = None\<rparr>,
     oq_decision_id = ''g'', oq_decision = \<lparr>gd_decision_cycle_id = ''d'', gd_candidate_id = ''k'', gd_context = CONTEXT_OPEN,
       gd_decision = ALLOW, gd_reason_codes = [], gd_policy_version = ''p'', gd_created_at = None\<rparr>,
     oq_moment_id = ''m'',
     oq_moment = demo_row, oq_action_id = ''a'', oq_action_turn = ''u'', oq_action_cycle = ''d'',
     oq_action_moment = Some ''m'', oq_action_attempt_count = 0, oq_owner_epoch = 1\<rparr>"

definition empty_db :: teaching_db where
  "empty_db = \<lparr>db_newest_epoch = Some 1, db_conversations = [''c''], db_user_turns = [''w''],
     db_turn_owner = [(''u'', 1)], db_cycle_turn = [(''d'', ''u''), (''e'', ''u'')], db_gate_statuses = [],
     db_gate_decisions = [], db_moments = [], db_actions = [], db_locks = [], db_attempts = [], db_evaluations = []\<rparr>"

definition no_move :: moment_transition where
  "no_move = \<lparr>mt_lifecycle_state = None, mt_presentation_phase = None, mt_support_level = None,
     mt_attempt_index = None, mt_completion_outcome = None, mt_abort_reason = None,
     mt_teaching_terminal_at = None, mt_closed_at = None, mt_opened_at = None\<rparr>"

definition open_db :: teaching_db where
  "open_db = commit_open ''t0'' empty_db demo_open"

lemmas demo_store_defs = demo_row_def demo_open_def empty_db_def no_move_def open_db_def commit_open_def
  LOCK_STATE_VERSION_AT_OPEN_def insert_defs stamp_moment_def Let_def

lemmas store_checks = status_integrity_def decision_integrity_def known_or_null_def TARGET_MODE_WORDS_def
  LEARNING_INTENT_WORDS_def AUTHORIZATION_STATUSES_def

lemma demo_opens: "open_teaching_moment 1 demo_open ''t0'' empty_db = Inr (''m'', open_db)"
  by (simp add: open_teaching_moment_def require_current_epoch_def moment_for_cycle_def open_integrity_def
      known_def moment_row_ok_def demo_store_defs checkE_def store_checks)

lemma demo_reachable: "store_reachable empty_db" "store_reachable open_db"
proof -
  show "store_reachable empty_db" by (rule fresh) (simp_all add: empty_db_def)
  then show "store_reachable open_db" by (rule step) (rule opened [OF demo_opens])
qed

section \<open>One focus\<close>

text \<open>
  C17: the lock row of a conversation is exactly its live moment.  In every reachable store the lock of a
  conversation names a moment if and only if that moment belongs to the conversation and is neither
  terminal, resuming nor closed; so a conversation has at most one live moment, and no finished moment
  holds a lock.
\<close>

theorem lock_names_the_live_moment:
  assumes "store_reachable db"
  shows "get_lock_moment_id db c = Some m \<longleftrightarrow>
    (\<exists>r. map_of (db_moments db) m = Some r \<and> mr_conversation_id r = c \<and> live r)"
proof -
  have inv: "lock_inv db" by (rule reachable_inv [OF assms])
  have "get_lock_moment_id db c = Some m \<longleftrightarrow> (\<exists>l. (c, l) \<in> set (db_locks db) \<and> lk_moment_id l = m)"
    using inv_locks [OF inv] by (auto simp: get_lock_moment_id_def map_of_eq_Some_iff)
  also have "\<dots> \<longleftrightarrow> (\<exists>r. (m, r) \<in> set (db_moments db) \<and> mr_conversation_id r = c \<and> live r)"
    using inv_locked [OF inv] inv_live [OF inv] by blast
  finally show ?thesis using inv_moments [OF inv] by (simp add: map_of_eq_Some_iff)
qed

theorem lock_names_the_live_moment_witness: "get_lock_moment_id open_db ''c'' = Some ''m''"
  using lock_names_the_live_moment [OF demo_reachable(2), of "''c''" "''m''"]
  by (simp add: demo_store_defs live_def)

lemma finished_not_orphan:
  assumes "lock_inv db" and "map_of (db_moments db) m = Some r" and "\<not> live r" and "q \<in> set (orphan_lock_rows e db)"
  shows "or_moment_id q \<noteq> m"
proof
  assume q: "or_moment_id q = m"
  from orphan_rows_valid [OF assms(4)] obtain c l where "(c, l) \<in> set (db_locks db)" "lk_moment_id l = m"
    unfolding orphan_valid_def q by blast
  then obtain r' where "(m, r') \<in> set (db_moments db)" "live r'" using inv_locked [OF assms(1)] by blast
  with assms(2,3) inv_moments [OF assms(1)] show False by (metis map_of_is_SomeI option.inject)
qed

lemma finished_apply:
  assumes "\<not> live r" and "mr_lifecycle_state r0 \<noteq> CLOSED"
    and "\<And>target. mt_lifecycle_state tr = Some target \<Longrightarrow> \<not> terminal_tail_refusal (mr_lifecycle_state r0) target"
    and "r = r0"
  shows "\<not> live (apply_transition tr r)"
proof (cases "mt_lifecycle_state tr")
  case None
  with assms(1) show ?thesis by (simp add: live_def apply_transition_def assign_def)
next
  case (Some target)
  with assms(1,2) assms(3) [OF Some] assms(4) show ?thesis
    by (auto simp: live_def apply_transition_def assign_def terminal_tail_refusal_def)
qed

text \<open>
  C18: finished stays finished.  From a reachable store no step brings a moment that is terminal, resuming
  or closed back to life, no step changes the row of a closed moment, and no step removes a moment.
\<close>

theorem finished_stays_finished:
  assumes "store_reachable db" and "store_step db db'" and "map_of (db_moments db) m = Some r" and "\<not> live r"
  shows "\<exists>r'. map_of (db_moments db') m = Some r' \<and> \<not> live r' \<and> (mr_lifecycle_state r = CLOSED \<longrightarrow> r' = r)"
proof -
  have inv: "lock_inv db" by (rule reachable_inv [OF assms(1)])
  from assms(2-) inv show ?thesis
  proof (induction rule: store_step.induct)
    case (opened fence rq now db k db')
    have "m \<noteq> oq_moment_id rq" if "open_integrity db rq"
      using that opened.prems(1) by (auto simp: open_integrity_def known_def)
    with open_Inr [OF opened.hyps] have "map_of (db_moments db') m = map_of (db_moments db) m"
      by (elim disjE conjE) (simp_all add: commit_open_moments map_add_def split: option.split)
    with opened.prems show ?case by simp
  next
    case (moved fence k tr v db row' db' row)
    from moved.hyps(1) obtain row0 where row0: "map_of (db_moments db) k = Some row0" "mr_state_version row0 = v"
      "mr_lifecycle_state row0 \<noteq> CLOSED"
      "\<And>target. mt_lifecycle_state tr = Some target \<Longrightarrow> \<not> terminal_tail_refusal (mr_lifecycle_state row0) target"
      "db' = update_moment k v (apply_transition tr) db" by (rule transition_Inr) blast
    show ?case
    proof (cases "k = m")
      case True
      with row0 moved.prems have "r = row0" "map_of (db_moments db') m = Some (apply_transition tr r)"
        by (simp_all add: update_moment_def map_of_update_where)
      with finished_apply [OF moved.prems(2) row0(3,4)] row0(3) show ?thesis by simp
    next
      case False
      with row0(5) have "map_of (db_moments db') m = map_of (db_moments db) m"
        by (simp add: update_moment_def map_of_update_where option.map_ident)
      with moved.prems show ?thesis by simp
    qed
  next
    case (terminalized fence k outcome reason now db row' db')
    from terminalize_Inr [OF terminalized.hyps] obtain row where "map_of (db_moments db) k = Some row"
      "db' = db \<or> live row \<and> db' = release_lock k (update_moment k (mr_state_version row) (finalize outcome reason now) db)"
      by (auto simp: live_def)
    with terminalized.prems have "map_of (db_moments db') m = map_of (db_moments db) m"
      by (cases "k = m") (auto simp: release_lock_def update_moment_def map_of_update_where)
    with terminalized.prems show ?case by simp
  next
    case (attempted fence a att db x db')
    from attempt_Inr [OF attempted.hyps] attempted.prems have "map_of (db_moments db') m = map_of (db_moments db) m"
      by (cases "at_moment_id att = m") (auto simp: update_moment_def map_of_update_where live_def)
    with attempted.prems show ?case by simp
  next
    case (evaluated fence e row db x db')
    then show ?case using fact_frame(1) by fastforce
  next
    case (denied fence s status g decision db x db')
    then show ?case using fact_frame(2) by fastforce
  next
    case (allowed fence s status g decision db x db')
    then show ?case using fact_frame(3) by fastforce
  next
    case (degraded fence s status db x db')
    then show ?case using fact_frame(4) by fastforce
  next
    case (recovered fence epoch now db ids db')
    from recover_Inr [OF recovered.hyps] have "map_of (db_moments db') m = map_of (db_moments db) m"
      using fold_close_frame finished_not_orphan [OF recovered.prems(3,1,2)] by blast
    with recovered.prems show ?case by simp
  next
    case (elsewhere db' db)
    then show ?case by simp
  qed
qed

definition aborting_db :: teaching_db where
  "aborting_db = update_moment ''m'' 1 (apply_transition
     (no_move\<lparr>mt_lifecycle_state := Some ABORTING, mt_abort_reason := Some ''DELIVERY_FAILURE''\<rparr>)) open_db"

definition ended_db :: teaching_db where
  "ended_db = release_lock ''m'' (update_moment ''m'' 2 (finalize None (Some ''DELIVERY_FAILURE'') ''t1'') aborting_db)"

definition closing_db :: teaching_db where
  "closing_db = update_moment ''m'' 3 (apply_transition (no_move\<lparr>mt_lifecycle_state := Some CLOSED\<rparr>)) ended_db"

lemmas demo_run_defs = aborting_db_def ended_db_def closing_db_def update_moment_def update_where_def
  apply_transition_def assign_def keep_or_def finalize_def release_lock_def delete_where_def demo_store_defs

lemmas op_simps = transition_moment_def terminalize_moment_def require_current_epoch_def owning_epoch_refusal_def
  owner_epoch_of_def terminal_tail_refusal_def moment_row_ok_def checkE_def COMPLETION_OUTCOMES_def ABORT_REASONS_def
  TARGET_MODE_WORDS_def LEARNING_INTENT_WORDS_def

lemma demo_run:
  "\<exists>r. transition_moment 1 ''m'' (no_move\<lparr>mt_lifecycle_state := Some ABORTING,
     mt_abort_reason := Some ''DELIVERY_FAILURE''\<rparr>) 1 open_db = Inr (r, aborting_db)"
  "\<exists>r. terminalize_moment 1 ''m'' None (Some ''DELIVERY_FAILURE'') ''t1'' aborting_db = Inr (r, ended_db)"
  "\<exists>r. transition_moment 1 ''m'' (no_move\<lparr>mt_lifecycle_state := Some CLOSED\<rparr>) 3 ended_db = Inr (r, closing_db)"
  by (simp_all add: op_simps demo_run_defs)

lemma demo_run_reachable: "store_reachable ended_db" "store_step ended_db closing_db"
proof -
  have "store_step open_db aborting_db"
    using demo_run(1) by (auto intro!: store_step.moved simp: coordinator_move_def demo_store_defs)
  moreover have "store_step aborting_db ended_db" using demo_run(2) store_step.terminalized by blast
  ultimately show "store_reachable ended_db" using demo_reachable(2) store_reachable.step by blast
  show "store_step ended_db closing_db"
    using demo_run(3) by (auto intro!: store_step.moved simp: coordinator_move_def demo_run_defs)
qed

theorem finished_stays_finished_witness:
  "\<exists>r'. map_of (db_moments closing_db) ''m'' = Some r' \<and> \<not> live r'"
proof -
  obtain r where "map_of (db_moments ended_db) ''m'' = Some r" "\<not> live r"
    by (simp add: demo_run_defs live_def)
  with finished_stays_finished [OF demo_run_reachable] show ?thesis by blast
qed

section \<open>Compare and swap, replay\<close>

text \<open>
  Transitions are compare-and-swap.  A successful transition advances the version of its moment by
  one, touches no other moment and no lock, and leaves every other writer that read the same version
  behind: whatever it tries, with whatever fence, is refused.
\<close>

theorem transition_is_cas:
  assumes "transition_moment fence m tr v db = Inr (r, db')"
  shows "mr_state_version r = v + 1 \<and> map_of (db_moments db') m = Some r \<and> db_locks db' = db_locks db
    \<and> (\<forall>k. k \<noteq> m \<longrightarrow> map_of (db_moments db') k = map_of (db_moments db) k)
    \<and> (\<forall>fence' tr'. \<exists>e. transition_moment fence' m tr' v db' = Inl e)"
proof -
  from assms obtain row where row: "map_of (db_moments db) m = Some row" "mr_state_version row = v"
    "r = apply_transition tr row" "db' = update_moment m v (apply_transition tr) db" by (rule transition_Inr)
  then have ver: "mr_state_version r = v + 1" by (simp add: apply_transition_def)
  have look: "map_of (db_moments db') m = Some r" using row by (simp add: update_moment_def map_of_update_where)
  have "\<exists>e. transition_moment fence' m tr' v db' = Inl e" for fence' tr'
    using look ver by (auto simp: transition_moment_def require_current_epoch_def checkE_def)
  moreover have "map_of (db_moments db') k = map_of (db_moments db) k" if "k \<noteq> m" for k
    using that row(4) by (simp add: update_moment_def map_of_update_where option.map_ident)
  ultimately show ?thesis using ver look row(4) by (simp add: update_moment_def)
qed

theorem transition_is_cas_witness:
  "\<exists>r e. map_of (db_moments aborting_db) ''m'' = Some r \<and> mr_state_version r = 2
     \<and> transition_moment 1 ''m'' no_move 1 aborting_db = Inl e"
  using demo_run(1) transition_is_cas [of 1 "''m''"] by fastforce

text \<open>
  An opening is replayable.  Repeating a successful opening, even with a freshly minted action or
  status id, returns the same moment and writes nothing; so one decision cycle never opens a second
  moment or takes a second lock.
\<close>

theorem open_replays:
  assumes "open_teaching_moment fence rq now db = Inr (m, db')"
  shows "open_teaching_moment fence (rq\<lparr>oq_action_id := a, oq_status_id := s\<rparr>) later db' = Inr (m, db')"
proof -
  have "moment_for_cycle db' (mr_decision_cycle_id (oq_moment rq)) = Some m"
    using open_Inr [OF assms]
  proof (elim disjE conjE)
    assume "moment_for_cycle db (mr_decision_cycle_id (oq_moment rq)) = None" "m = oq_moment_id rq" "db' = commit_open now db rq"
    then show ?thesis by (auto simp: moment_for_cycle_def commit_open_def insert_defs split: list.splits)
  qed simp
  moreover have "db_newest_epoch db' = db_newest_epoch db" "db_turn_owner db' = db_turn_owner db"
    using open_Inr [OF assms] by (auto simp: commit_open_def insert_defs)
  ultimately show ?thesis
    using assms by (auto simp: open_teaching_moment_def require_current_epoch_def checkE_def result_simps
        split: option.splits if_splits)
qed

theorem open_replays_witness:
  "open_teaching_moment 1 (demo_open\<lparr>oq_action_id := ''a2'', oq_status_id := ''s2''\<rparr>) ''t1'' open_db = Inr (''m'', open_db)"
  by (rule open_replays [OF demo_opens])

section \<open>Recovery\<close>

text \<open>
  C19: the startup sweep leaves no residue.  From a reachable store, a successful sweep closes exactly the
  moments it reports, each with SYSTEM_RECOVERY_ABORT and its conversation free again; every other moment
  is untouched, every other lock kept, and a second sweep of the same epoch finds nothing.
\<close>

theorem recovery_leaves_no_orphan:
  assumes "store_reachable db" and "recover_orphan_teaching_locks fence epoch now db = Inr (ids, db')"
  shows "orphan_teaching_lock_moments epoch db' = []
    \<and> (\<forall>m \<in> set ids. \<exists>r. map_of (db_moments db') m = Some r \<and> mr_lifecycle_state r = CLOSED
         \<and> mr_abort_reason r = Some ''SYSTEM_RECOVERY_ABORT'' \<and> get_lock_moment_id db' (mr_conversation_id r) = None)
    \<and> (\<forall>m. m \<notin> set ids \<longrightarrow> map_of (db_moments db') m = map_of (db_moments db) m)
    \<and> set (db_locks db') = {(c, l) \<in> set (db_locks db). lk_moment_id l \<notin> set ids}"
proof -
  let ?rows = "orphan_lock_rows epoch db"
  have inv: "lock_inv db" by (rule reachable_inv [OF assms(1)])
  have ids: "ids = map or_moment_id ?rows" and db': "db' = fold (close_orphan now) ?rows db"
    using recover_Inr [OF assms(2)] by (simp_all add: orphan_teaching_lock_moments_def)
  have valid: "\<forall>q \<in> set ?rows. orphan_valid db q" using orphan_rows_valid by blast
  note dist = orphan_ids_distinct [OF inv, of epoch]
  have inv': "lock_inv db'" and locks: "set (db_locks db') = {(c, l) \<in> set (db_locks db). lk_moment_id l \<notin> set ids}"
    using close_all [OF inv valid dist, of now] by (simp_all add: db' ids)
  have frame: "map_of (db_moments db') m = map_of (db_moments db) m" if "m \<notin> set ids" for m
    unfolding db' by (rule fold_close_frame) (use that ids in auto)
  have closed: "\<exists>r. map_of (db_moments db') m = Some r \<and> mr_lifecycle_state r = CLOSED
      \<and> mr_abort_reason r = Some ''SYSTEM_RECOVERY_ABORT'' \<and> get_lock_moment_id db' (mr_conversation_id r) = None"
    if m: "m \<in> set ids" for m
  proof -
    from m obtain q where q: "q \<in> set ?rows" "or_moment_id q = m" unfolding ids by auto
    then obtain r r' where r: "map_of (db_moments db) m = Some r" "map_of (db_moments db') m = Some r'"
      "mr_lifecycle_state r' = CLOSED" "mr_abort_reason r' = Some ''SYSTEM_RECOVERY_ABORT''"
      "mr_conversation_id r' = mr_conversation_id r"
      using fold_close_row [OF valid dist inv_moments [OF inv] q(1), of now] unfolding db' by blast
    from q valid obtain c l where l: "(c, l) \<in> set (db_locks db)" "lk_moment_id l = m" unfolding orphan_valid_def by blast
    then have c: "c = mr_conversation_id r"
      using inv_locked [OF inv l(1)] r(1) inv_moments [OF inv] by (metis map_of_is_SomeI option.inject)
    have "mr_conversation_id r \<notin> fst ` set (db_locks db')"
      using l m row_unique [OF inv_locks [OF inv]] unfolding locks c by fastforce
    with r show ?thesis by (simp add: get_lock_moment_id_def map_of_eq_None_iff)
  qed
  have "orphan_of epoch db' l = []" if cl: "(c, l) \<in> set (db_locks db')" for c l
  proof -
    have "(c, l) \<in> set (db_locks db)" "lk_moment_id l \<notin> set ids" using cl locks by auto
    then have "orphan_of epoch db l = []"
      unfolding ids orphan_lock_rows_def by (force simp: orphan_of_def split: option.splits if_splits)
    moreover have "owner_epoch_of db' r = owner_epoch_of db r" for r unfolding db' by (rule fold_close_owner)
    ultimately show ?thesis
      using frame [OF \<open>lk_moment_id l \<notin> set ids\<close>] by (auto simp: orphan_of_def split: option.splits if_splits)
  qed
  then have "concat (map (orphan_of epoch db' \<circ> snd) (db_locks db')) = []" by auto
  then have "orphan_teaching_lock_moments epoch db' = []"
    unfolding orphan_teaching_lock_moments_def orphan_lock_rows_def by (metis list.simps(8) sort_key_simps(1))
  with closed frame locks show ?thesis by blast
qed

text \<open>The process of epoch 1 died with the moment open; epoch 2 sweeps.\<close>

definition restarted :: "teaching_db \<Rightarrow> teaching_db" where
  "restarted db = db\<lparr>db_newest_epoch := Some 2\<rparr>"

lemma restart_reachable: "store_reachable db \<Longrightarrow> store_reachable (restarted db)"
  by (erule store_reachable.step) (rule elsewhere, simp_all add: restarted_def)

lemmas sweep_defs = recover_orphan_teaching_locks_def orphan_lock_rows_def orphan_of_def owner_epoch_of_def
  require_current_epoch_def checkE_def restarted_def close_orphan_def Let_def

lemma demo_sweep: "\<exists>db'. recover_orphan_teaching_locks 2 2 ''t9'' (restarted open_db) = Inr ([''m''], db')"
  by (simp add: sweep_defs demo_store_defs)

theorem recovery_leaves_no_orphan_witness:
  "\<exists>db' r. recover_orphan_teaching_locks 2 2 ''t9'' (restarted open_db) = Inr ([''m''], db')
     \<and> orphan_teaching_lock_moments 2 db' = [] \<and> map_of (db_moments db') ''m'' = Some r \<and> mr_lifecycle_state r = CLOSED"
  using demo_sweep recovery_leaves_no_orphan [OF restart_reachable [OF demo_reachable(2)]] by fastforce

section \<open>Closing a moment from the reply turn\<close>

fun completion_word :: "completion_outcome \<Rightarrow> string" where
  "completion_word SUCCESS_UNSUPPORTED = ''SUCCESS_UNSUPPORTED''"
| "completion_word SUCCESS_SUPPORTED = ''SUCCESS_SUPPORTED''"
| "completion_word SUCCESS_ALTERNATIVE = ''SUCCESS_ALTERNATIVE''"
| "completion_word PARTIAL_PROGRESS = ''PARTIAL_PROGRESS''"
| "completion_word REVEALED = ''REVEALED''"
| "completion_word USER_SATISFIED = ''USER_SATISFIED''"
| "completion_word NO_FURTHER_VALUE = ''NO_FURTHER_VALUE''"

fun abort_word :: "abort_reason \<Rightarrow> string" where
  "abort_word USER_SKIP = ''USER_SKIP''"
| "abort_word USER_REJECTED_TARGET = ''USER_REJECTED_TARGET''"
| "abort_word USER_TOPIC_SHIFT = ''USER_TOPIC_SHIFT''"
| "abort_word USER_SWITCH_TARGET = ''USER_SWITCH_TARGET''"
| "abort_word AMBIGUOUS_EXIT = ''AMBIGUOUS_EXIT''"
| "abort_word POLICY_STOP = ''POLICY_STOP''"
| "abort_word ATTEMPT_LIMIT = ''ATTEMPT_LIMIT''"
| "abort_word ABORT_CONTENT_INVALID = ''CONTENT_INVALID''"
| "abort_word SNAPSHOT_INVALIDATED = ''SNAPSHOT_INVALIDATED''"
| "abort_word PRE_DELIVERY_INVALIDATED = ''PRE_DELIVERY_INVALIDATED''"
| "abort_word SYSTEM_FAILURE = ''SYSTEM_FAILURE''"
| "abort_word DELIVERY_FAILURE = ''DELIVERY_FAILURE''"
| "abort_word ABORT_EXPIRED = ''EXPIRED''"
| "abort_word SYSTEM_RECOVERY_ABORT = ''SYSTEM_RECOVERY_ABORT''"

definition terminalize_with_plan ::
  "int \<Rightarrow> string \<Rightarrow> moment_row \<Rightarrow> next_action \<Rightarrow> string \<Rightarrow> teaching_db \<Rightarrow> store_error + moment_row \<times> teaching_db" where
  "terminalize_with_plan fence m moment plan now db =
     bindE (if mr_lifecycle_state moment = DECIDING_NEXT_ACTION
            then transition_moment fence m (no_move\<lparr>mt_lifecycle_state := Some (na_moment_state plan),
                mt_completion_outcome := map_option completion_word (na_completion_outcome plan),
                mt_abort_reason := map_option abort_word (na_abort_reason plan)\<rparr>) (mr_state_version moment) db
            else Inr (moment, db)) (\<lambda>(current, db1).
       if mr_lifecycle_state current = TEACHING_TERMINAL then Inr (current, db1)
       else if mr_lifecycle_state current \<notin> {COMPLETING, ABORTING} then Inl CONFLICT
       else terminalize_moment fence m (mr_completion_outcome current) (mr_abort_reason current) now db1)"

lemma closure_words: "completion_word c \<in> set COMPLETION_OUTCOMES" "abort_word a \<in> set ABORT_REASONS"
  by (cases c; simp add: COMPLETION_OUTCOMES_def) (cases a; simp add: ABORT_REASONS_def)

lemma closure_plan:
  assumes "is_closure (decide_next_action e ev s limits load)"
  obtains (complete) c where "na_moment_state (decide_next_action e ev s limits load) = COMPLETING"
      "na_completion_outcome (decide_next_action e ev s limits load) = Some c"
      "na_abort_reason (decide_next_action e ev s limits load) = None"
    | (abort) a where "na_moment_state (decide_next_action e ev s limits load) = ABORTING"
      "na_completion_outcome (decide_next_action e ev s limits load) = None"
      "na_abort_reason (decide_next_action e ev s limits load) = Some a"
  by (cases rule: decide_cases [of e ev s limits load])
    (use assms that in \<open>auto simp: is_closure_def abort_action_def completion_action_def continuation_of_def split: if_splits\<close>)

text \<open>
  A closing plan closes.  For a moment this process owns, in its deciding state and with no closure
  word yet, every closure the next-action decision can produce is carried out: the two store calls
  succeed, the moment is terminal with exactly the plan's word and no other, the conversation's lock is
  free, and the store is still a reachable one.
\<close>

theorem closing_plan_frees_conversation:
  fixes e :: response_envelope and ev :: "string option" and s :: string and limits :: teaching_limits
    and load :: teaching_load
  defines "a \<equiv> decide_next_action e ev s limits load"
  assumes "store_reachable db" and "map_of (db_moments db) m = Some r" and "mr_lifecycle_state r = DECIDING_NEXT_ACTION"
    and "mr_completion_outcome r = None" and "mr_abort_reason r = None" and "moment_row_ok r"
    and "db_newest_epoch db = Some fence" and "\<not> owning_epoch_refusal fence db r" and "is_closure a"
  shows "\<exists>r' db'. terminalize_with_plan fence m r a now db = Inr (r', db') \<and> store_reachable db'
    \<and> map_of (db_moments db') m = Some r' \<and> mr_lifecycle_state r' = TEACHING_TERMINAL
    \<and> mr_completion_outcome r' = map_option completion_word (na_completion_outcome a)
    \<and> mr_abort_reason r' = map_option abort_word (na_abort_reason a)
    \<and> get_lock_moment_id db' (mr_conversation_id r) = None"
proof -
  let ?tr = "no_move\<lparr>mt_lifecycle_state := Some (na_moment_state a),
      mt_completion_outcome := map_option completion_word (na_completion_outcome a),
      mt_abort_reason := map_option abort_word (na_abort_reason a)\<rparr>"
  let ?r1 = "apply_transition ?tr r" and ?db1 = "update_moment m (mr_state_version r) (apply_transition ?tr) db"
  let ?fin = "finalize (mr_completion_outcome ?r1) (mr_abort_reason ?r1) now"
  let ?r2 = "?fin ?r1" and ?db2 = "release_lock m (update_moment m (mr_state_version ?r1) ?fin ?db1)"
  have plan: "na_moment_state a \<in> {COMPLETING, ABORTING}
      \<and> (na_moment_state a = COMPLETING \<longleftrightarrow> na_completion_outcome a \<noteq> None)
      \<and> (na_completion_outcome a = None) \<noteq> (na_abort_reason a = None)"
    using assms(10) unfolding a_def by (cases rule: closure_plan) auto
  have row1: "mr_lifecycle_state ?r1 = na_moment_state a"
    "mr_completion_outcome ?r1 = map_option completion_word (na_completion_outcome a)"
    "mr_abort_reason ?r1 = map_option abort_word (na_abort_reason a)"
    "mr_decision_cycle_id ?r1 = mr_decision_cycle_id r" "mr_conversation_id ?r1 = mr_conversation_id r"
    using assms(5,6) by (auto simp: apply_transition_def assign_def keep_or_def no_move_def split: option.split)
  have "moment_row_ok ?r1"
    using assms(7) closure_words row1(2,3)
    by (auto simp: moment_row_ok_def apply_transition_def assign_def no_move_def split: option.splits)
  then have t1: "transition_moment fence m ?tr (mr_state_version r) db = Inr (?r1, ?db1)"
    using assms(3,4,8,9) plan
    by (auto simp: transition_moment_def require_current_epoch_def checkE_def terminal_tail_refusal_def no_move_def)
  have look1: "map_of (db_moments ?db1) m = Some ?r1"
    by (rule look_updated [OF assms(3)])
  have step1: "store_step db ?db1"
    by (rule moved [OF t1 assms(3)]) (use plan assms(4) in \<open>auto simp: coordinator_move_def no_move_def\<close>)
  have "\<not> owning_epoch_refusal fence ?db1 ?r1"
    using assms(9) owner_of_updated [of m "mr_state_version r" "apply_transition ?tr" db ?r1] row1(4)
    by (simp add: owning_epoch_refusal_def owner_of_cycle [OF row1(4)])
  then have t2: "terminalize_moment fence m (mr_completion_outcome ?r1) (mr_abort_reason ?r1) now ?db1 = Inr (?r2, ?db2)"
    using look1 plan assms(8) closure_words row1(1-3)
    by (auto simp: terminalize_moment_def require_current_epoch_def checkE_def update_moment_def split: option.split)
  have reach: "store_reachable ?db2"
    using assms(2) step1 terminalized [OF t2] store_reachable.step by blast
  have look2: "map_of (db_moments ?db2) m = Some ?r2"
    unfolding release_lock_def using look_updated [OF look1] by simp
  have "get_lock_moment_id ?db2 (mr_conversation_id r) = None"
  proof (rule ccontr)
    have inv: "lock_inv db" by (rule reachable_inv [OF assms(2)])
    assume "get_lock_moment_id ?db2 (mr_conversation_id r) \<noteq> None"
    then obtain l where l: "(mr_conversation_id r, l) \<in> set (db_locks ?db2)"
      by (auto simp: get_lock_moment_id_def dest: map_of_SomeD)
    then have l: "(mr_conversation_id r, l) \<in> set (db_locks db)" "lk_moment_id l \<noteq> m"
      by (auto simp: release_lock_def set_delete_where update_moment_def)
    have "live r" using assms(4) by (simp add: live_def)
    then obtain l' where "(mr_conversation_id r, l') \<in> set (db_locks db)" "lk_moment_id l' = m"
      using inv_live [OF inv map_of_SomeD [OF assms(3)]] by blast
    with l row_unique [OF inv_locks [OF inv]] show False by blast
  qed
  moreover have "terminalize_with_plan fence m r a now db = Inr (?r2, ?db2)"
    using assms(4) t1 t2 plan row1(1) by (auto simp: terminalize_with_plan_def)
  ultimately show ?thesis
    using reach look2 row1 by (intro exI [of _ ?r2] exI [of _ ?db2]) (simp add: finalize_def)
qed

definition to_state :: "moment_state \<Rightarrow> moment_transition" where
  "to_state st = no_move\<lparr>mt_lifecycle_state := Some st\<rparr>"

definition deciding_db :: teaching_db where
  "deciding_db = update_moment ''m'' 1 (apply_transition (to_state DECIDING_NEXT_ACTION)) open_db"

definition skip_envelope :: response_envelope where
  "skip_envelope = \<lparr>en_control_intent = SKIP, en_attempt_present = False, en_attempt = None,
     en_target_switch_request = None, en_clarification_request = None, en_user_preference_signal = None,
     en_interpretation_confidence = Some 1\<rparr>"

lemma deciding_reachable: "store_reachable deciding_db"
proof (rule store_reachable.step [OF demo_reachable(2)])
  have "\<exists>r. transition_moment 1 ''m'' (to_state DECIDING_NEXT_ACTION) 1 open_db = Inr (r, deciding_db)"
    by (simp add: op_simps to_state_def deciding_db_def demo_run_defs)
  then show "store_step open_db deciding_db"
    by (auto intro!: store_step.moved simp: coordinator_move_def to_state_def demo_store_defs)
qed

theorem closing_plan_frees_conversation_witness:
  "\<exists>r r' db'. map_of (db_moments deciding_db) ''m'' = Some r
     \<and> terminalize_with_plan 1 ''m'' r (abort_action USER_SKIP None) ''t1'' deciding_db = Inr (r', db')
     \<and> mr_abort_reason r' = Some ''USER_SKIP'' \<and> get_lock_moment_id db' ''c'' = None"
proof -
  obtain r where r: "map_of (db_moments deciding_db) ''m'' = Some r" "mr_lifecycle_state r = DECIDING_NEXT_ACTION"
    "mr_completion_outcome r = None" "mr_abort_reason r = None" "moment_row_ok r" "mr_conversation_id r = ''c''"
    "db_newest_epoch deciding_db = Some 1" "\<not> owning_epoch_refusal 1 deciding_db r"
    by (simp add: op_simps to_state_def deciding_db_def demo_run_defs)
  have a: "decide_next_action skip_envelope None ''NONE'' LIMITS_V0 load = abort_action USER_SKIP None" for load
    by (simp add: decide_next_action_def skip_envelope_def)
  have c: "is_closure (decide_next_action skip_envelope None ''NONE'' LIMITS_V0 load)" for load
    by (simp add: a is_closure_def abort_action_def)
  from closing_plan_frees_conversation [OF deciding_reachable r(1-5,7,8) c, where now = "''t1''"] r(1,6)
  show ?thesis unfolding a by (auto simp: abort_action_def)
qed

section \<open>What the store's rules do not prevent\<close>

text \<open>
  The tail rule guards the way out of TEACHING_TERMINAL, not the way into it: the store accepts a plain
  transition of a live moment to TEACHING_TERMINAL and then to CLOSED.  The closed moment still holds the
  conversation's lock, and the next opening in the conversation is refused.
\<close>

definition second_open :: open_request where
  "second_open = demo_open\<lparr>oq_status_id := ''s2'', oq_decision_id := ''g2'',
     oq_status := (oq_status demo_open)\<lparr>gs_decision_cycle_id := Some ''e''\<rparr>,
     oq_decision := (oq_decision demo_open)\<lparr>gd_decision_cycle_id := ''e''\<rparr>, oq_moment_id := ''m2'', oq_action_id := ''a2'', oq_action_cycle := ''e'',
     oq_action_moment := Some ''m2'',
     oq_moment := demo_row\<lparr>mr_decision_cycle_id := ''e'', mr_gate_decision_id := ''g2''\<rparr>\<rparr>"

theorem plain_transition_can_strand_the_lock:
  "\<exists>r1 db1 r2 db2. store_reachable open_db
     \<and> transition_moment 1 ''m'' (to_state TEACHING_TERMINAL) 1 open_db = Inr (r1, db1)
     \<and> transition_moment 1 ''m'' (to_state CLOSED) 2 db1 = Inr (r2, db2)
     \<and> mr_lifecycle_state r2 = CLOSED \<and> get_lock_moment_id db2 ''c'' = Some ''m''
     \<and> open_teaching_moment 1 second_open ''t2'' db2 = Inl CONFLICT"
proof -
  let ?db1 = "update_moment ''m'' 1 (apply_transition (to_state TEACHING_TERMINAL)) open_db"
  let ?db2 = "update_moment ''m'' 2 (apply_transition (to_state CLOSED)) ?db1"
  have "\<exists>r1. transition_moment 1 ''m'' (to_state TEACHING_TERMINAL) 1 open_db = Inr (r1, ?db1)"
    by (simp add: op_simps to_state_def demo_run_defs)
  moreover have "\<exists>r2. transition_moment 1 ''m'' (to_state CLOSED) 2 ?db1 = Inr (r2, ?db2) \<and> mr_lifecycle_state r2 = CLOSED"
    by (simp add: op_simps to_state_def demo_run_defs)
  moreover have "get_lock_moment_id ?db2 ''c'' = Some ''m''"
    by (simp add: get_lock_moment_id_def demo_run_defs)
  moreover have "open_teaching_moment 1 second_open ''t2'' ?db2 = Inl CONFLICT"
    by (simp add: open_teaching_moment_def second_open_def require_current_epoch_def checkE_def moment_for_cycle_def
        open_integrity_def known_def demo_run_defs to_state_def)
  ultimately show ?thesis using demo_reachable(2) by blast
qed

text \<open>
  The sweep writes its abort reason without clearing a completion outcome that the closing transition had
  already stored, so a moment recovered between COMPLETING and its terminalization ends with two closure
  words.
\<close>

theorem recovery_can_leave_two_closures:
  "\<exists>db ids db' r. store_reachable db \<and> recover_orphan_teaching_locks 2 2 ''t9'' db = Inr (ids, db')
     \<and> map_of (db_moments db') ''m'' = Some r \<and> mr_completion_outcome r = Some ''REVEALED''
     \<and> mr_abort_reason r = Some ''SYSTEM_RECOVERY_ABORT''"
proof -
  let ?tr = "(to_state COMPLETING)\<lparr>mt_completion_outcome := Some ''REVEALED''\<rparr>"
  let ?db = "update_moment ''m'' 1 (apply_transition ?tr) open_db"
  have "\<exists>r. transition_moment 1 ''m'' ?tr 1 open_db = Inr (r, ?db)"
    by (simp add: op_simps to_state_def demo_run_defs)
  then have "store_step open_db ?db"
    by (auto intro!: store_step.moved simp: coordinator_move_def to_state_def demo_store_defs)
  then have "store_reachable (restarted ?db)" using demo_reachable(2) store_reachable.step restart_reachable by blast
  moreover have "\<exists>ids db' r. recover_orphan_teaching_locks 2 2 ''t9'' (restarted ?db) = Inr (ids, db')
     \<and> map_of (db_moments db') ''m'' = Some r \<and> mr_completion_outcome r = Some ''REVEALED''
     \<and> mr_abort_reason r = Some ''SYSTEM_RECOVERY_ABORT''"
    by (simp add: sweep_defs to_state_def demo_run_defs)
  ultimately show ?thesis by blast
qed

end
