(* ===== verification/Estimator.thy ===== *)
theory Estimator
  imports Binary64 "HOL-Library.AList"
begin

text \<open>
  \<^verbatim>\<open>elc/learning/estimator.py\<close>: the evidence-mass estimator.  Words are strings, dictionaries are
  association lists in insertion order (\<^const>\<open>AList.update\<close> is Python's item assignment), floats are
  \<^typ>\<open>float64\<close> with every operation rounded in the order of the source.  Two functions of the standard
  library are arguments, and the theorems hold for every choice of them: \<open>exp64\<close> is \<^verbatim>\<open>math.exp\<close> (whose
  last bit is the platform's), and \<open>parse\<close> is \<^verbatim>\<open>datetime.fromisoformat\<close> after the replacement of \<^verbatim>\<open>Z\<close>,
  undefined where it raises.  A \<open>datetime\<close> is an aware one: its instant, its local date and its ISO
  spelling; comparisons look at the instant.
\<close>

section \<open>Profile\<close>

type_synonym masses = "(string \<times> float64) list"

definition CLAIM_MIN_CONFIDENCE :: float64 where
  "CLAIM_MIN_CONFIDENCE = decimal 50 100"

definition DIMENSION_MIN_EFFECTIVE_MASS :: float64 where
  "DIMENSION_MIN_EFFECTIVE_MASS = decimal 55 100"

definition CONFIDENCE_TAU :: float64 where
  "CONFIDENCE_TAU = decimal 240 100"

definition SAME_CLUSTER_REPEAT_WEIGHTS :: "float64 list" where
  "SAME_CLUSTER_REPEAT_WEIGHTS = [decimal 100 100, decimal 35 100, decimal 15 100]"

definition SAME_CLUSTER_MASS_CAP_MULTIPLE :: float64 where
  "SAME_CLUSTER_MASS_CAP_MULTIPLE = decimal 160 100"

definition POSITIVE_MAPPING :: "(string \<times> masses) list" where
  "POSITIVE_MAPPING =
    [(''RECOGNITION'', [(''recognition'', decimal 100 100)]),
     (''IMITATIVE_PRODUCTION'', [(''recognition'', decimal 65 100), (''guided_production'', decimal 25 100)]),
     (''GUIDED_PRODUCTION'', [(''recognition'', decimal 75 100), (''guided_production'', decimal 100 100)]),
     (''INDEPENDENT_PRODUCTION'', [(''recognition'', decimal 85 100), (''guided_production'', decimal 75 100),
        (''independent_production'', decimal 100 100)]),
     (''SPONTANEOUS_PRODUCTION'', [(''recognition'', decimal 90 100), (''guided_production'', decimal 80 100),
        (''independent_production'', decimal 100 100), (''spontaneous_production'', decimal 100 100)]),
     (''SELF_REPAIR'', [(''recognition'', decimal 65 100), (''guided_production'', decimal 55 100),
        (''independent_production'', decimal 70 100)])]"

definition SUPPORT_FACTOR :: masses where
  "SUPPORT_FACTOR = [(''NONE'', decimal 100 100), (''CONTEXT_ONLY'', decimal 90 100),
     (''SEMANTIC_HINT'', decimal 70 100), (''STRUCTURAL_HINT'', decimal 50 100),
     (''PARTIAL_FORM'', decimal 30 100), (''FULL_FORM_SHOWN'', decimal 10 100)]"

definition EXPOSURE_FACTOR :: masses where
  "EXPOSURE_FACTOR = [(''NONE'', decimal 100 100), (''PARTIAL'', decimal 60 100), (''FULL'', decimal 15 100)]"

definition SUPPORT_BURDEN :: masses where
  "SUPPORT_BURDEN = [(''NONE'', decimal 0 100), (''CONTEXT_ONLY'', decimal 10 100),
     (''SEMANTIC_HINT'', decimal 35 100), (''STRUCTURAL_HINT'', decimal 55 100),
     (''PARTIAL_FORM'', decimal 75 100), (''FULL_FORM_SHOWN'', decimal 95 100)]"

definition EXPOSURE_BURDEN :: masses where
  "EXPOSURE_BURDEN = [(''NONE'', decimal 0 100), (''PARTIAL'', decimal 75 100), (''FULL'', decimal 95 100)]"

definition ERROR_ATTRIBUTION_MULTIPLIER :: masses where
  "ERROR_ATTRIBUTION_MULTIPLIER = [(''LIKELY_SLIP'', decimal 20 100), (''UNKNOWN'', decimal 60 100),
     (''LIKELY_KNOWLEDGE_GAP'', decimal 100 100), (''SYSTEMATIC_PATTERN'', decimal 135 100)]"

definition ERROR_ATTRIBUTION_DEFAULT_MULTIPLIER :: float64 where
  "ERROR_ATTRIBUTION_DEFAULT_MULTIPLIER = decimal 60 100"

definition OUTCOME_FACTOR :: masses where
  "OUTCOME_FACTOR = [(''SUCCESS'', decimal 100 100), (''PARTIAL'', decimal 50 100),
     (''FAILURE'', decimal 100 100), (''ABSTAIN'', decimal 0 100)]"

definition QUALITY_STRENGTH :: masses where
  "QUALITY_STRENGTH = [(''IMITATIVE_PRODUCTION'', decimal 30 100), (''GUIDED_PRODUCTION'', decimal 65 100),
     (''INDEPENDENT_PRODUCTION'', decimal 100 100), (''SPONTANEOUS_PRODUCTION'', decimal 100 100),
     (''SELF_REPAIR'', decimal 80 100), (''MISUSE'', decimal 80 100)]"

definition SUPPORT_DEPENDENCY_MIN_MASS :: float64 where
  "SUPPORT_DEPENDENCY_MIN_MASS = decimal 120 100"

definition FRESHNESS_DAYS_FRESH_MAX :: float64 where
  "FRESHNESS_DAYS_FRESH_MAX = 7"

definition FRESHNESS_DAYS_AGING_MAX :: float64 where
  "FRESHNESS_DAYS_AGING_MAX = 21"

definition CONFIDENCE_BAND_LOW_MAX :: float64 where
  "CONFIDENCE_BAND_LOW_MAX = decimal 39 100"

definition CONFIDENCE_BAND_MEDIUM_MAX :: float64 where
  "CONFIDENCE_BAND_MEDIUM_MAX = decimal 69 100"

definition CONFIRMED_GAP_ESTIMATE_MAX :: float64 where
  "CONFIRMED_GAP_ESTIMATE_MAX = decimal 35 100"

definition CONFIRMED_GAP_CONFIDENCE_MIN :: float64 where
  "CONFIRMED_GAP_CONFIDENCE_MIN = decimal 65 100"

definition SUPPORT_DEPENDENT_ESTIMATE_MIN :: float64 where
  "SUPPORT_DEPENDENT_ESTIMATE_MIN = decimal 65 100"

definition SUPPORT_DEPENDENT_CONFIDENCE_MIN :: float64 where
  "SUPPORT_DEPENDENT_CONFIDENCE_MIN = decimal 55 100"

definition STRONG_CONTROL_ESTIMATE_MIN :: float64 where
  "STRONG_CONTROL_ESTIMATE_MIN = decimal 80 100"

definition STRONG_CONTROL_CONFIDENCE_MIN :: float64 where
  "STRONG_CONTROL_CONFIDENCE_MIN = decimal 65 100"

definition CONFLICT_MASS_MIN_EACH :: float64 where
  "CONFLICT_MASS_MIN_EACH = decimal 80 100"

definition CONFLICT_RATIO_LOW :: float64 where
  "CONFLICT_RATIO_LOW = decimal 35 100"

definition CONFLICT_RATIO_HIGH :: float64 where
  "CONFLICT_RATIO_HIGH = decimal 65 100"

definition CAPABILITY_REALIZATION_DIVERSITY_CAP :: float64 where
  "CAPABILITY_REALIZATION_DIVERSITY_CAP = decimal 65 100"

definition CAPABILITY_TRANSFER_CONTEXT_DIVERSITY_CAP :: float64 where
  "CAPABILITY_TRANSFER_CONTEXT_DIVERSITY_CAP = decimal 55 100"

definition PARTIAL_DIRECT_NEGATIVE_FRACTION :: float64 where
  "PARTIAL_DIRECT_NEGATIVE_FRACTION = decimal 50 100"

definition STRONG_RETRIEVAL_MIN_CONFIDENCE :: float64 where
  "STRONG_RETRIEVAL_MIN_CONFIDENCE = decimal 70 100"

definition STRONG_RETRIEVAL_MIN_ASSIST :: float64 where
  "STRONG_RETRIEVAL_MIN_ASSIST = decimal 70 100"

definition SELF_REPAIR_SPONTANEOUS_SUPPORT :: float64 where
  "SELF_REPAIR_SPONTANEOUS_SUPPORT = decimal 50 100"

definition ALLOWED_LEARNING_FLAGS :: "string list" where
  "ALLOWED_LEARNING_FLAGS = [''CONFIRMED_GAP'', ''SUPPORT_DEPENDENT'', ''CONFLICTING_EVIDENCE'',
     ''INSUFFICIENT_EVIDENCE'', ''NARROW_EVIDENCE'', ''STRONG_INDEPENDENT_CONTROL'', ''STRONG_SPONTANEOUS_CONTROL'']"

definition ABILITY_DIMENSIONS :: "string list" where
  "ABILITY_DIMENSIONS = [''recognition'', ''guided_production'', ''independent_production'',
     ''spontaneous_production'', ''accuracy'', ''pragmatic_control'']"

definition PRODUCTION_TYPES :: "string list" where
  "PRODUCTION_TYPES = [''IMITATIVE_PRODUCTION'', ''GUIDED_PRODUCTION'', ''INDEPENDENT_PRODUCTION'',
     ''SPONTANEOUS_PRODUCTION'', ''SELF_REPAIR'', ''FAILED_ATTEMPT'', ''MISUSE'']"

definition DIRECT_DIMENSION :: "(string \<times> string) list" where
  "DIRECT_DIMENSION = [(''RECOGNITION'', ''recognition''), (''GUIDED_PRODUCTION'', ''guided_production''),
     (''INDEPENDENT_PRODUCTION'', ''independent_production''),
     (''SPONTANEOUS_PRODUCTION'', ''spontaneous_production''), (''SELF_REPAIR'', ''independent_production'')]"

definition DIVERSITY_BONUS_WEIGHTS :: masses where
  "DIVERSITY_BONUS_WEIGHTS = [(''days'', decimal 35 100), (''contexts'', decimal 25 100),
     (''personas'', decimal 15 100), (''realizations'', decimal 25 100)]"

section \<open>Claims and their contract\<close>

record claim_view =
  cv_group_id :: string
  cv_timestamp :: string
  cv_performance_type :: string
  cv_polarity :: string
  cv_outcome :: string
  cv_evaluator_confidence :: float64
  cv_support_level :: string
  cv_exposure_level :: string
  cv_opportunity_type :: "string option"
  cv_qualifiers :: "string list"
  cv_error_attribution :: "string option"
  cv_accuracy :: "float64 option"
  cv_pragmatic_fit :: "float64 option"
  cv_conversation_id :: "string option"
  cv_teaching_moment_id :: "string option"
  cv_persona_id :: "string option"
  cv_context_key :: "string option"
  cv_realization_key :: "string option"
  cv_target_type :: string
  cv_target_id :: string
  cv_modality :: string
  cv_status :: string
  cv_spontaneity :: "string option"

datatype contract_violation =
    INDEPENDENT_WITH_ASSISTANCE nat string string
  | INDEPENDENT_WITH_ANSWER_EXPOSURE nat string string
  | SPONTANEOUS_REQUIRES_NATURAL_OPPORTUNITY nat "string option"
  | MULTIPLE_PRIMARY_PERFORMANCE_SAME_GROUP_TARGET "string \<times> string \<times> string \<times> string" "nat list"

datatype estimator_error = EstimatorContractError "contract_violation list" | TimestampValueError

text \<open>Python's grouping idiom \<^verbatim>\<open>defaultdict(list)\<close> filled in a loop.\<close>

definition group_by :: "('a \<Rightarrow> 'k) \<Rightarrow> 'a list \<Rightarrow> ('k \<times> 'a list) list" where
  "group_by key xs = fold (\<lambda>x table. AList.update (key x)
     ((case map_of table (key x) of None \<Rightarrow> [] | Some ys \<Rightarrow> ys) @ [x]) table) xs []"

definition low_support :: "claim_view \<Rightarrow> bool" where
  "low_support c \<longleftrightarrow> cv_support_level c \<in> {''NONE'', ''CONTEXT_ONLY''}"

definition is_primary :: "claim_view \<Rightarrow> bool" where
  "is_primary c \<longleftrightarrow> cv_performance_type c \<in> set PRODUCTION_TYPES \<or> cv_performance_type c = ''RECOGNITION''"

definition primary_key :: "claim_view \<Rightarrow> string \<times> string \<times> string \<times> string" where
  "primary_key c = (cv_group_id c, cv_target_type c, cv_target_id c, cv_modality c)"

definition claim_violations :: "nat \<Rightarrow> claim_view \<Rightarrow> contract_violation list" where
  "claim_violations index c =
     (if cv_performance_type c \<in> {''INDEPENDENT_PRODUCTION'', ''SPONTANEOUS_PRODUCTION''}
      then (if \<not> low_support c
            then [INDEPENDENT_WITH_ASSISTANCE index (cv_performance_type c) (cv_support_level c)] else [])
         @ (if cv_exposure_level c \<noteq> ''NONE''
            then [INDEPENDENT_WITH_ANSWER_EXPOSURE index (cv_performance_type c) (cv_exposure_level c)] else [])
      else [])
     @ (if cv_performance_type c = ''SPONTANEOUS_PRODUCTION'' \<and> cv_opportunity_type c \<noteq> Some ''NATURAL''
        then [SPONTANEOUS_REQUIRES_NATURAL_OPPORTUNITY index (cv_opportunity_type c)] else [])"

definition validate_claims :: "claim_view list \<Rightarrow> contract_violation list" where
  "validate_claims claims =
     concat (map (\<lambda>(i, c). claim_violations i c) (enumerate 0 claims))
     @ concat (map (\<lambda>(key, members). if 1 < length members
         then [MULTIPLE_PRIMARY_PERFORMANCE_SAME_GROUP_TARGET key (map fst members)] else [])
       (group_by (primary_key \<circ> snd) (filter (is_primary \<circ> snd) (enumerate 0 claims))))"

section \<open>Results\<close>

record mass_dimension_state =
  ms_estimate :: "float64 option"
  ms_confidence :: float64
  ms_positive_mass :: float64
  ms_negative_mass :: float64
  ms_effective_mass :: float64
  ms_independent_clusters :: nat
  ms_last_relevant_evidence_at :: "string option"

record support_dependency_state =
  sd_estimate :: "float64 option"
  sd_confidence :: float64
  sd_effective_mass :: float64
  sd_diagnostic_mass :: masses
  sd_last_relevant_evidence_at :: "string option"

record coverage =
  co_evidence_groups :: nat
  co_independent_clusters :: nat
  co_sessions :: nat
  co_days :: nat
  co_contexts :: nat
  co_personas :: nat
  co_realizations :: nat
  co_modalities :: nat

record freshness =
  fr_last_strong_retrieval_at :: "string option"
  fr_days_since_strong_retrieval :: "float64 option"
  fr_band :: string

record projection =
  pj_ability_band :: string
  pj_confidence_band :: string
  pj_transfer_band :: string
  pj_support_band :: string
  pj_stability_band :: string
  pj_learning_flags :: "string list"

record target_state_estimate =
  te_target_type :: string
  te_target_id :: string
  te_modality :: string
  te_dimensions :: "(string \<times> mass_dimension_state) list"
  te_transfer :: mass_dimension_state
  te_support_dependency :: support_dependency_state
  te_coverage :: coverage
  te_freshness :: freshness
  te_projection :: projection

section \<open>Mass of one claim\<close>

record datetime =
  dt_micros :: int
  dt_date :: string
  dt_isoformat :: string

text \<open>\<^verbatim>\<open>x or d\<close> on an optional string: absent and empty both fall back.\<close>

definition or_else :: "string option \<Rightarrow> string \<Rightarrow> string" where
  "or_else x d = (case x of None \<Rightarrow> d | Some s \<Rightarrow> if s = [] then d else s)"

definition truthy :: "string option \<Rightarrow> bool" where
  "truthy x \<longleftrightarrow> x \<noteq> None \<and> x \<noteq> Some []"

definition get_or :: "(string \<times> 'v) list \<Rightarrow> string \<Rightarrow> 'v \<Rightarrow> 'v" where
  "get_or table k d = (case map_of table k of None \<Rightarrow> d | Some v \<Rightarrow> v)"

definition assist_factor :: "claim_view \<Rightarrow> float64" where
  "assist_factor c = min (get_or SUPPORT_FACTOR (cv_support_level c) 1) (get_or EXPOSURE_FACTOR (cv_exposure_level c) 1)"

definition error_multiplier :: "claim_view \<Rightarrow> float64" where
  "error_multiplier c = (case cv_error_attribution c of
     None \<Rightarrow> ERROR_ATTRIBUTION_DEFAULT_MULTIPLIER
   | Some a \<Rightarrow> get_or ERROR_ATTRIBUTION_MULTIPLIER a ERROR_ATTRIBUTION_DEFAULT_MULTIPLIER)"

definition cluster_key :: "(string \<Rightarrow> datetime) \<Rightarrow> claim_view \<Rightarrow> string" where
  "cluster_key dt c =
     (if truthy (cv_teaching_moment_id c) then ''teach:'' @ or_else (cv_teaching_moment_id c) []
      else
        let day = dt_date (dt (cv_timestamp c));
            context = or_else (cv_context_key c)
              (if ''CROSS_CONTEXT'' \<in> set (cv_qualifiers c) \<or> ''HIGH_CONTEXT_NOVELTY'' \<in> set (cv_qualifiers c)
               then ''novel:'' @ cv_group_id c else ''context:unknown'');
            realization = or_else (cv_realization_key c)
              (if ''NOVEL_REALIZATION'' \<in> set (cv_qualifiers c)
               then ''novel:'' @ cv_group_id c else ''realization:unknown'');
            persona = or_else (cv_persona_id c) ''persona:none'';
            conversation = or_else (cv_conversation_id c) ''conv:none''
        in ''natural:'' @ conversation @ '':'' @ day @ '':'' @ context @ '':'' @ realization @ '':'' @ persona)"

definition negative_dimension_map :: "claim_view \<Rightarrow> masses" where
  "negative_dimension_map c =
     (let natural = (cv_opportunity_type c = Some ''NATURAL'') in
      if cv_performance_type c = ''RECOGNITION'' then [(''recognition'', 1)]
      else if cv_performance_type c = ''FAILED_ATTEMPT'' then
        (if natural \<and> low_support c
         then [(''spontaneous_production'', 1), (''independent_production'', decimal 75 100)]
         else if low_support c then [(''independent_production'', 1)]
         else [(''guided_production'', 1)])
      else if cv_performance_type c = ''MISUSE'' then
        (''accuracy'', 1) #
        (if natural \<and> low_support c
         then [(''spontaneous_production'', decimal 50 100), (''independent_production'', decimal 50 100)]
         else if low_support c then [(''independent_production'', decimal 50 100)]
         else [(''guided_production'', decimal 50 100)])
      else [])"

definition mass_of :: "masses \<Rightarrow> string \<Rightarrow> float64" where
  "mass_of m d = get_or m d 0"

definition add_mass :: "string \<Rightarrow> float64 \<Rightarrow> masses \<Rightarrow> masses" where
  "add_mass d x m = AList.update d (fadd (mass_of m d) x) m"

definition times3 :: "float64 \<Rightarrow> float64 \<Rightarrow> float64 \<Rightarrow> float64 \<Rightarrow> float64" where
  "times3 w x y z = fmul (fmul (fmul w x) y) z"

definition clamp_unit :: "float64 \<Rightarrow> float64" where
  "clamp_unit q = min 1 (max 0 q)"

definition outcome_factor :: "claim_view \<Rightarrow> float64" where
  "outcome_factor c = get_or OUTCOME_FACTOR (cv_outcome c) 1"

text \<open>The steps of the positive branch, each on the pair of dictionaries built so far.\<close>

definition topology_mass :: "claim_view \<Rightarrow> masses \<Rightarrow> masses" where
  "topology_mass c p = fold (\<lambda>(d, w). add_mass d
      (times3 w (outcome_factor c) (cv_evaluator_confidence c) (assist_factor c)))
     (get_or POSITIVE_MAPPING (cv_performance_type c) []) p"

definition partial_residual :: "claim_view \<Rightarrow> masses \<Rightarrow> masses" where
  "partial_residual c n = (case map_of DIRECT_DIMENSION (cv_performance_type c) of
     None \<Rightarrow> n
   | Some direct \<Rightarrow> if cv_outcome c = ''PARTIAL''
       then add_mass direct (times3 (get_or (get_or POSITIVE_MAPPING (cv_performance_type c) []) direct 1)
         PARTIAL_DIRECT_NEGATIVE_FRACTION (cv_evaluator_confidence c) (assist_factor c)) n
       else n)"

definition self_repair_support :: "claim_view \<Rightarrow> masses \<times> masses \<Rightarrow> masses \<times> masses" where
  "self_repair_support c = (\<lambda>(p, n).
     if cv_performance_type c = ''SELF_REPAIR'' \<and> cv_spontaneity c = Some ''SPONTANEOUS'' \<and> cv_exposure_level c \<noteq> ''FULL''
     then (add_mass ''spontaneous_production'' (times3 SELF_REPAIR_SPONTANEOUS_SUPPORT (outcome_factor c)
             (cv_evaluator_confidence c) (assist_factor c)) p,
           if cv_outcome c = ''PARTIAL''
           then add_mass ''spontaneous_production'' (times3 SELF_REPAIR_SPONTANEOUS_SUPPORT
             PARTIAL_DIRECT_NEGATIVE_FRACTION (cv_evaluator_confidence c) (assist_factor c)) n
           else n)
     else (p, n))"

definition quality_mass :: "string \<Rightarrow> float64 option \<Rightarrow> float64 \<Rightarrow> masses \<times> masses \<Rightarrow> masses \<times> masses" where
  "quality_mass d score strength = (\<lambda>(p, n). case score of
     None \<Rightarrow> (p, n)
   | Some s \<Rightarrow> if 0 < strength
       then (add_mass d (fmul strength (clamp_unit s)) p, add_mass d (fmul strength (fsub 1 (clamp_unit s))) n)
       else (p, n))"

definition claim_contribution :: "claim_view \<Rightarrow> masses \<times> masses" where
  "claim_contribution c =
     (if cv_evaluator_confidence c < CLAIM_MIN_CONFIDENCE \<or> cv_outcome c = ''ABSTAIN'' then ([], [])
      else
        let (p, n) =
              (if cv_polarity c = ''POSITIVE'' \<and> cv_performance_type c \<in> set (map fst POSITIVE_MAPPING)
               then let strength = times3 (get_or QUALITY_STRENGTH (cv_performance_type c) 0) (outcome_factor c)
                      (cv_evaluator_confidence c) (assist_factor c)
                    in quality_mass ''pragmatic_control'' (cv_pragmatic_fit c) strength
                        (quality_mass ''accuracy'' (cv_accuracy c) strength
                          (self_repair_support c (topology_mass c [], partial_residual c [])))
               else ([], []))
        in (p, if cv_polarity c = ''NEGATIVE''
               then fold (\<lambda>(d, w). add_mass d (times3 w (outcome_factor c) (cv_evaluator_confidence c) (error_multiplier c)))
                 (negative_dimension_map c) n
               else n))"

section \<open>Groups and clusters\<close>

definition max_into :: "masses \<Rightarrow> masses \<Rightarrow> masses" where
  "max_into p acc = fold (\<lambda>(d, v) m. AList.update d (max (mass_of m d) v) m) p acc"

definition aggregate_group :: "claim_view list \<Rightarrow> masses \<times> masses" where
  "aggregate_group claims = fold (\<lambda>c (gp, gn).
     (max_into (fst (claim_contribution c)) gp, max_into (snd (claim_contribution c)) gn)) claims ([], [])"

record group_row =
  gr_group_id :: string
  gr_timestamp :: datetime
  gr_cluster :: string
  gr_p :: masses
  gr_n :: masses
  gr_claims :: "claim_view list"

definition repeat_weight :: "nat \<Rightarrow> float64" where
  "repeat_weight i = (if i < length SAME_CLUSTER_REPEAT_WEIGHTS
     then SAME_CLUSTER_REPEAT_WEIGHTS ! i else last SAME_CLUSTER_REPEAT_WEIGHTS)"

definition repeated_sum :: "float64 list \<Rightarrow> float64" where
  "repeated_sum values = fold (\<lambda>(i, v) total. fadd total (fmul (repeat_weight i) v)) (enumerate 0 values) 0"

definition side_values :: "(group_row \<Rightarrow> masses) \<Rightarrow> group_row list \<Rightarrow> string \<Rightarrow> float64 list" where
  "side_values side rows d = filter (\<lambda>v. 0 < v) (map (\<lambda>row. mass_of (side row) d) rows)"

definition aggregate_side :: "(group_row \<Rightarrow> masses) \<Rightarrow> group_row list \<Rightarrow> masses" where
  "aggregate_side side ordered = concat (map (\<lambda>d. case side_values side ordered d of
      [] \<Rightarrow> []
    | v # vs \<Rightarrow> [(d, min (repeated_sum (v # vs)) (fmul SAME_CLUSTER_MASS_CAP_MULTIPLE (Max (set (v # vs)))))])
    ABILITY_DIMENSIONS)"

definition aggregate_cluster :: "group_row list \<Rightarrow> masses \<times> masses" where
  "aggregate_cluster rows = (let ordered = sort_key (dt_micros \<circ> gr_timestamp) rows
     in (aggregate_side gr_p ordered, aggregate_side gr_n ordered))"

record diversity =
  dv_days :: nat
  dv_contexts :: nat
  dv_personas :: nat
  dv_realizations :: nat
  dv_clusters :: nat

definition confidence_value :: "(float64 \<Rightarrow> float64) \<Rightarrow> float64 \<Rightarrow> diversity \<Rightarrow> string \<Rightarrow> string \<Rightarrow> float64" where
  "confidence_value exp64 total_mass dv target_type d =
     (if total_mass \<le> 0 then 0
      else
        let mass_confidence = fsub 1 (exp64 (fdiv (- total_mass) CONFIDENCE_TAU));
            bonus = (\<lambda>k n. fmul (get_or DIVERSITY_BONUS_WEIGHTS k 0) (of_nat (n - 1)));
            extra = fadd (fadd (fadd (bonus ''days'' (dv_days dv)) (bonus ''contexts'' (dv_contexts dv)))
              (bonus ''personas'' (dv_personas dv))) (bonus ''realizations'' (dv_realizations dv));
            diversity_confidence = fsub 1 (exp64 (- extra));
            confidence = fmul mass_confidence (fadd (decimal 80 100) (fmul (decimal 20 100) diversity_confidence));
            capped = (if target_type = ''CAPABILITY''
                \<and> d \<in> {''independent_production'', ''spontaneous_production'', ''pragmatic_control''}
                \<and> dv_realizations dv < 2
              then min confidence CAPABILITY_REALIZATION_DIVERSITY_CAP else confidence)
        in clamp_unit capped)"

definition confidence_band :: "float64 \<Rightarrow> string" where
  "confidence_band confidence =
     (if confidence \<le> CONFIDENCE_BAND_LOW_MAX then ''LOW''
      else if confidence \<le> CONFIDENCE_BAND_MEDIUM_MAX then ''MEDIUM'' else ''HIGH'')"

definition is_strong_retrieval :: "claim_view \<Rightarrow> bool" where
  "is_strong_retrieval c \<longleftrightarrow> cv_polarity c = ''POSITIVE'' \<and> cv_outcome c = ''SUCCESS''
     \<and> cv_performance_type c \<in> {''INDEPENDENT_PRODUCTION'', ''SPONTANEOUS_PRODUCTION'', ''SELF_REPAIR''}
     \<and> \<not> (cv_performance_type c = ''SELF_REPAIR'' \<and> cv_spontaneity c \<notin> {Some ''INDEPENDENT'', Some ''SPONTANEOUS''})
     \<and> \<not> cv_evaluator_confidence c < STRONG_RETRIEVAL_MIN_CONFIDENCE
     \<and> \<not> assist_factor c < STRONG_RETRIEVAL_MIN_ASSIST"

end
