(* ===== verification/Estimator_Run.thy ===== *)
theory Estimator_Run
  imports Estimator
begin

text \<open>
  \<^verbatim>\<open>estimate_target_state\<close> of \<^verbatim>\<open>elc/learning/estimator.py\<close>, cut at its section comments: the active claims,
  the group and cluster tables, the six base dimensions, transfer, support dependency, coverage,
  freshness, the bands and the flags.
\<close>

section \<open>Tables of the run\<close>

definition in_scope :: "string \<Rightarrow> string \<Rightarrow> string \<Rightarrow> claim_view \<Rightarrow> bool" where
  "in_scope target_type target_id modality c \<longleftrightarrow> cv_status c = ''ACTIVE'' \<and> cv_target_type c = target_type
     \<and> cv_target_id c = target_id \<and> cv_modality c = modality"

definition by_group :: "claim_view list \<Rightarrow> (string \<times> claim_view list) list" where
  "by_group active = group_by cv_group_id active"

definition touches :: "string \<Rightarrow> claim_view \<Rightarrow> bool" where
  "touches d c \<longleftrightarrow> 0 < mass_of (fst (claim_contribution c)) d \<or> 0 < mass_of (snd (claim_contribution c)) d"

definition dim_last :: "claim_view list \<Rightarrow> string \<Rightarrow> string" where
  "dim_last active d = fold (\<lambda>c last. if touches d c \<and> last < cv_timestamp c then cv_timestamp c else last)
     (concat (map snd (by_group active))) []"

definition or_none :: "string \<Rightarrow> string option" where
  "or_none s = (if s = [] then None else Some s)"

definition group_row_of :: "(string \<Rightarrow> datetime) \<Rightarrow> string \<times> claim_view list \<Rightarrow> group_row" where
  "group_row_of dt = (\<lambda>(g, claims).
     let exemplar = hd (sort_key (\<lambda>c. dt_micros (dt (cv_timestamp c))) claims)
     in \<lparr>gr_group_id = g, gr_timestamp = dt (cv_timestamp exemplar), gr_cluster = cluster_key dt exemplar,
         gr_p = fst (aggregate_group claims), gr_n = snd (aggregate_group claims), gr_claims = claims\<rparr>)"

definition by_cluster :: "(string \<Rightarrow> datetime) \<Rightarrow> claim_view list \<Rightarrow> (string \<times> group_row list) list" where
  "by_cluster dt active = group_by gr_cluster (map (group_row_of dt) (by_group active))"

section \<open>Base dimensions\<close>

definition total_mass :: "(masses \<times> masses \<Rightarrow> masses) \<Rightarrow> (string \<times> group_row list) list \<Rightarrow> string \<Rightarrow> float64" where
  "total_mass side clusters d = fold (\<lambda>(k, rows) total.
     let v = mass_of (side (aggregate_cluster rows)) d in if 0 < v then fadd total v else total) clusters 0"

definition cluster_touches :: "string \<Rightarrow> group_row list \<Rightarrow> bool" where
  "cluster_touches d rows \<longleftrightarrow> 0 < mass_of (fst (aggregate_cluster rows)) d \<or> 0 < mass_of (snd (aggregate_cluster rows)) d"

definition distinct_count :: "'a list \<Rightarrow> nat" where
  "distinct_count xs = length (remdups xs)"

definition dim_meta :: "(string \<Rightarrow> datetime) \<Rightarrow> (string \<times> group_row list) list \<Rightarrow> string \<Rightarrow> diversity" where
  "dim_meta dt clusters d =
     (let touched = filter (\<lambda>(k, rows). cluster_touches d rows) clusters;
          claims = concat (map gr_claims (concat (map snd touched)))
      in \<lparr>dv_days = distinct_count (map (\<lambda>c. dt_date (dt (cv_timestamp c))) claims),
          dv_contexts = distinct_count (map (\<lambda>c. or_else (cv_context_key c) ''unknown'') claims),
          dv_personas = distinct_count (map (\<lambda>c. or_else (cv_persona_id c) []) (filter (\<lambda>c. truthy (cv_persona_id c)) claims)),
          dv_realizations = distinct_count (map (\<lambda>c. or_else (cv_realization_key c) ''unknown'') claims),
          dv_clusters = distinct_count (map fst touched)\<rparr>)"

definition dimension_state ::
  "(float64 \<Rightarrow> float64) \<Rightarrow> (string \<Rightarrow> datetime) \<Rightarrow> string \<Rightarrow> claim_view list \<Rightarrow> string \<Rightarrow> mass_dimension_state" where
  "dimension_state exp64 dt target_type active d =
     (let clusters = by_cluster dt active;
          positive = total_mass fst clusters d;
          negative = total_mass snd clusters d;
          effective = fadd positive negative;
          counts = dim_meta dt clusters d;
          confidence = confidence_value exp64 effective counts target_type d;
          unknown = effective < DIMENSION_MIN_EFFECTIVE_MASS
      in \<lparr>ms_estimate = (if unknown then None else Some (round_places 4 (fdiv positive effective))),
          ms_confidence = round_places 4 (if unknown \<and> effective = 0 then 0 else confidence),
          ms_positive_mass = round_places 4 positive,
          ms_negative_mass = round_places 4 negative,
          ms_effective_mass = round_places 4 effective,
          ms_independent_clusters = dv_clusters counts,
          ms_last_relevant_evidence_at = or_none (dim_last active d)\<rparr>)"

section \<open>Transfer\<close>

record strong_row =
  sr_cluster :: string
  sr_timestamp :: datetime
  sr_context :: string
  sr_persona :: string
  sr_realization :: string
  sr_mass :: float64
  sr_claim :: claim_view

definition strong_mass :: "claim_view \<Rightarrow> float64" where
  "strong_mass c = fmul (cv_evaluator_confidence c) (assist_factor c)"

definition strong_row_of :: "(string \<Rightarrow> datetime) \<Rightarrow> string \<times> claim_view list \<Rightarrow> strong_row" where
  "strong_row_of dt = (\<lambda>(k, claims).
     let rep = max_by (\<lambda>c. (strong_mass c, dt_micros (dt (cv_timestamp c)))) (hd claims) (tl claims)
     in \<lparr>sr_cluster = k, sr_timestamp = dt (cv_timestamp rep), sr_context = or_else (cv_context_key rep) ''unknown'',
         sr_persona = or_else (cv_persona_id rep) ''none'', sr_realization = or_else (cv_realization_key rep) ''unknown'',
         sr_mass = strong_mass rep, sr_claim = rep\<rparr>)"

definition strong_by_cluster :: "(string \<Rightarrow> datetime) \<Rightarrow> claim_view list \<Rightarrow> (string \<times> claim_view list) list" where
  "strong_by_cluster dt active = group_by (cluster_key dt) (filter is_strong_retrieval active)"

definition strong_cluster_rows :: "(string \<Rightarrow> datetime) \<Rightarrow> claim_view list \<Rightarrow> strong_row list" where
  "strong_cluster_rows dt active =
     sort_key (dt_micros \<circ> sr_timestamp) (map (strong_row_of dt) (strong_by_cluster dt active))"

definition novel_qualified :: "claim_view \<Rightarrow> bool" where
  "novel_qualified c \<longleftrightarrow> list_ex (\<lambda>q. q \<in> {''CROSS_CONTEXT'', ''CROSS_PERSONA'', ''NOVEL_REALIZATION'', ''CROSS_MODALITY''})
     (cv_qualifiers c)"

definition transfer_positive :: "strong_row list \<Rightarrow> float64" where
  "transfer_positive rows = (case rows of [] \<Rightarrow> 0
   | base # rest \<Rightarrow> fold (\<lambda>row total.
       if sr_context row \<noteq> sr_context base \<or> sr_persona row \<noteq> sr_persona base
         \<or> sr_realization row \<noteq> sr_realization base \<or> novel_qualified (sr_claim row)
       then fadd total (sr_mass row) else total) rest 0)"

definition transfer_negative :: "(string \<Rightarrow> datetime) \<Rightarrow> claim_view list \<Rightarrow> float64" where
  "transfer_negative dt active = fold (\<lambda>(k, claims) total. fadd total
       (Max (set (map (\<lambda>c. fmul (cv_evaluator_confidence c) (error_multiplier c)) claims))))
     (group_by (cluster_key dt) (filter (\<lambda>c. cv_polarity c = ''NEGATIVE''
        \<and> cv_performance_type c \<in> {''FAILED_ATTEMPT'', ''MISUSE''} \<and> novel_qualified c) active)) 0"

definition strong_counts :: "(string \<Rightarrow> datetime) \<Rightarrow> claim_view list \<Rightarrow> diversity" where
  "strong_counts dt active =
     (let rows = strong_cluster_rows dt active in
      \<lparr>dv_days = distinct_count (map (dt_date \<circ> sr_timestamp) rows),
       dv_contexts = distinct_count (map sr_context rows),
       dv_personas = distinct_count (map sr_persona rows),
       dv_realizations = distinct_count (map sr_realization rows),
       dv_clusters = length (strong_by_cluster dt active)\<rparr>)"

definition transfer_gate :: "string \<Rightarrow> diversity \<Rightarrow> bool" where
  "transfer_gate target_type dv \<longleftrightarrow>
     2 \<le> dv_clusters dv \<and> (2 \<le> dv_contexts dv \<or> 2 \<le> dv_personas dv \<or> 2 \<le> dv_realizations dv)
     \<and> (target_type = ''CAPABILITY'' \<longrightarrow> 2 \<le> dv_realizations dv)"

definition latest :: "string list \<Rightarrow> string" where
  "latest stamps = (case stamps of [] \<Rightarrow> [] | s # ss \<Rightarrow> Max (set (s # ss)))"

definition transfer_state ::
  "(float64 \<Rightarrow> float64) \<Rightarrow> (string \<Rightarrow> datetime) \<Rightarrow> string \<Rightarrow> claim_view list \<Rightarrow> mass_dimension_state" where
  "transfer_state exp64 dt target_type active =
     (let positive = transfer_positive (strong_cluster_rows dt active);
          negative = transfer_negative dt active;
          mass = fadd positive negative;
          dv = strong_counts dt active;
          known = transfer_gate target_type dv \<and> DIMENSION_MIN_EFFECTIVE_MASS \<le> mass;
          confidence = confidence_value exp64 mass dv target_type ''transfer'';
          capped = (if target_type = ''CAPABILITY'' \<and> dv_contexts dv < 2
            then min confidence CAPABILITY_TRANSFER_CONTEXT_DIVERSITY_CAP else confidence)
      in \<lparr>ms_estimate = (if known then Some (round_places 4 (fdiv positive mass)) else None),
          ms_confidence = round_places 4 (if known then capped else 0),
          ms_positive_mass = round_places 4 positive,
          ms_negative_mass = round_places 4 negative,
          ms_effective_mass = round_places 4 mass,
          ms_independent_clusters = dv_clusters dv,
          ms_last_relevant_evidence_at = or_none (latest (map cv_timestamp (filter is_strong_retrieval active)))\<rparr>)"

section \<open>Support dependency\<close>

record dependency_observation =
  do_cluster :: string
  do_timestamp :: datetime
  do_burden :: float64
  do_mass :: float64
  do_kind :: string
  do_iso :: string

definition observation_of :: "(string \<Rightarrow> datetime) \<Rightarrow> claim_view list \<Rightarrow> dependency_observation list" where
  "observation_of dt group_claims =
     (case filter (\<lambda>c. cv_performance_type c \<in> set PRODUCTION_TYPES \<and> CLAIM_MIN_CONFIDENCE \<le> cv_evaluator_confidence c)
         group_claims of
        [] \<Rightarrow> []
      | x # xs \<Rightarrow>
          let c = max_by cv_evaluator_confidence x xs;
              mk = (\<lambda>burden mass kind. [\<lparr>do_cluster = cluster_key dt c, do_timestamp = dt (cv_timestamp c),
                do_burden = burden, do_mass = mass, do_kind = kind, do_iso = cv_timestamp c\<rparr>])
          in if cv_polarity c = ''POSITIVE'' \<and> cv_outcome c \<in> {''SUCCESS'', ''PARTIAL''} then
               (let burden = max (get_or SUPPORT_BURDEN (cv_support_level c) 0)
                      (get_or EXPOSURE_BURDEN (cv_exposure_level c) 0)
                in mk burden (fmul (cv_evaluator_confidence c) (outcome_factor c))
                     (if burden \<le> decimal 10 100 then ''low_success'' else ''assisted_success''))
             else if cv_polarity c = ''NEGATIVE'' \<and> cv_outcome c \<in> {''FAILURE'', ''PARTIAL''} then
               mk 1 (fmul (fmul (cv_evaluator_confidence c) (error_multiplier c)) (outcome_factor c))
                 (if low_support c then ''low_failure'' else ''supported_failure'')
             else [])"

definition dependency_observations :: "(string \<Rightarrow> datetime) \<Rightarrow> claim_view list \<Rightarrow> dependency_observation list" where
  "dependency_observations dt active = concat (map (observation_of dt \<circ> snd) (by_group active))"

record dependency_sums =
  ds_numerator :: float64
  ds_denominator :: float64
  ds_kind_mass :: masses

definition observe :: "nat \<times> dependency_observation \<Rightarrow> dependency_sums \<Rightarrow> dependency_sums" where
  "observe = (\<lambda>(i, ob) s.
     let effective = fmul (do_mass ob) (repeat_weight i)
     in \<lparr>ds_numerator = fadd (ds_numerator s) (fmul (do_burden ob) effective),
         ds_denominator = fadd (ds_denominator s) effective,
         ds_kind_mass = add_mass (do_kind ob) effective (ds_kind_mass s)\<rparr>)"

definition dependency_run :: "(string \<times> dependency_observation list) list \<Rightarrow> dependency_sums" where
  "dependency_run clusters = fold (\<lambda>(k, obs) s.
     fold observe (enumerate 0 (sort_key (dt_micros \<circ> do_timestamp) obs)) s)
     clusters \<lparr>ds_numerator = 0, ds_denominator = 0, ds_kind_mass = []\<rparr>"

text \<open>Reading a \<^verbatim>\<open>defaultdict\<close> inserts the missing key; the short-circuited test inserts what it reads.\<close>

definition read_default :: "string \<Rightarrow> masses \<Rightarrow> masses" where
  "read_default k m = (if k \<in> set (map fst m) then m else AList.update k 0 m)"

definition dependency_identifiable :: "masses \<Rightarrow> bool \<times> masses" where
  "dependency_identifiable m =
     (let m1 = read_default ''low_success'' m in
      if SUPPORT_DEPENDENCY_MIN_MASS \<le> mass_of m1 ''low_success'' then (True, m1)
      else let m2 = read_default ''assisted_success'' m1 in
        if decimal 50 100 \<le> mass_of m2 ''assisted_success''
        then (let m3 = read_default ''low_failure'' m2 in (decimal 50 100 \<le> mass_of m3 ''low_failure'', m3))
        else (False, m2))"

definition claim_counts :: "(string \<Rightarrow> datetime) \<Rightarrow> claim_view list \<Rightarrow> nat \<Rightarrow> diversity" where
  "claim_counts dt active clusters =
     \<lparr>dv_days = distinct_count (map (\<lambda>c. dt_date (dt (cv_timestamp c))) active),
      dv_contexts = distinct_count (map (\<lambda>c. or_else (cv_context_key c) ''unknown'') active),
      dv_personas = distinct_count (map (\<lambda>c. or_else (cv_persona_id c) ''none'') active),
      dv_realizations = distinct_count (map (\<lambda>c. or_else (cv_realization_key c) ''unknown'') active),
      dv_clusters = clusters\<rparr>"

definition support_state ::
  "(float64 \<Rightarrow> float64) \<Rightarrow> (string \<Rightarrow> datetime) \<Rightarrow> string \<Rightarrow> claim_view list \<Rightarrow> support_dependency_state" where
  "support_state exp64 dt target_type active =
     (let observations = dependency_observations dt active;
          clusters = group_by do_cluster observations;
          run = dependency_run clusters;
          (identifiable, kinds) = dependency_identifiable (ds_kind_mass run);
          known = identifiable \<and> SUPPORT_DEPENDENCY_MIN_MASS \<le> ds_denominator run
      in \<lparr>sd_estimate = (if known then Some (round_places 4 (fdiv (ds_numerator run) (ds_denominator run))) else None),
          sd_confidence = round_places 4 (if known
            then confidence_value exp64 (ds_denominator run) (claim_counts dt active (length clusters))
              target_type ''support_dependency'' else 0),
          sd_effective_mass = round_places 4 (ds_denominator run),
          sd_diagnostic_mass = map (\<lambda>(k, m). (k, round_places 4 m)) kinds,
          sd_last_relevant_evidence_at = or_none (latest (map do_iso observations))\<rparr>)"

section \<open>Coverage and freshness\<close>

definition coverage_of :: "(string \<Rightarrow> datetime) \<Rightarrow> claim_view list \<Rightarrow> coverage" where
  "coverage_of dt active =
     (let dv = claim_counts dt active 0 in
      \<lparr>co_evidence_groups = length (by_group active),
       co_independent_clusters = length (by_cluster dt active),
       co_sessions = distinct_count (map (\<lambda>c. or_else (cv_conversation_id c) ''none'') active),
       co_days = dv_days dv, co_contexts = dv_contexts dv, co_personas = dv_personas dv,
       co_realizations = dv_realizations dv,
       co_modalities = distinct_count (map cv_modality active)\<rparr>)"

definition freshness_band_of :: "float64 \<Rightarrow> string" where
  "freshness_band_of days = (if days \<le> FRESHNESS_DAYS_FRESH_MAX then ''FRESH''
     else if days \<le> FRESHNESS_DAYS_AGING_MAX then ''AGING'' else ''STALE'')"

definition days_between :: "datetime \<Rightarrow> datetime \<Rightarrow> float64" where
  "days_between later earlier =
     max 0 (fdiv (rnd64 (of_int (dt_micros later - dt_micros earlier) / 10 ^ 6)) 86400)"

definition freshness_of ::
  "(string \<Rightarrow> datetime option) \<Rightarrow> (string \<Rightarrow> datetime) \<Rightarrow> claim_view list \<Rightarrow> string \<Rightarrow> estimator_error + freshness" where
  "freshness_of parse dt active as_of =
     (case map (dt \<circ> cv_timestamp) (filter is_strong_retrieval active) of
        [] \<Rightarrow> Inr \<lparr>fr_last_strong_retrieval_at = None, fr_days_since_strong_retrieval = None, fr_band = ''UNKNOWN''\<rparr>
      | t # ts \<Rightarrow>
          (case parse as_of of
             None \<Rightarrow> Inl TimestampValueError
           | Some now \<Rightarrow>
               let last_strong = max_by dt_micros t ts; days = days_between now last_strong
               in Inr \<lparr>fr_last_strong_retrieval_at = Some (dt_isoformat last_strong),
                    fr_days_since_strong_retrieval = Some (round_places 2 days), fr_band = freshness_band_of days\<rparr>))"

section \<open>Bands and flags\<close>

definition at_least :: "float64 \<Rightarrow> float64 option \<Rightarrow> bool" where
  "at_least bound x \<longleftrightarrow> (case x of None \<Rightarrow> False | Some v \<Rightarrow> bound \<le> v)"

definition confirmed_gap :: "mass_dimension_state \<Rightarrow> bool" where
  "confirmed_gap s \<longleftrightarrow> (case ms_estimate s of None \<Rightarrow> False
     | Some v \<Rightarrow> v \<le> CONFIRMED_GAP_ESTIMATE_MAX \<and> CONFIRMED_GAP_CONFIDENCE_MIN \<le> ms_confidence s)"

definition ability_band :: "(string \<Rightarrow> mass_dimension_state) \<Rightarrow> string" where
  "ability_band state =
     (if at_least (decimal 75 100) (ms_estimate (state ''spontaneous_production''))
        \<and> \<not> confirmed_gap (state ''independent_production'') then ''SPONTANEOUS''
      else if at_least (decimal 75 100) (ms_estimate (state ''independent_production''))
        \<and> \<not> confirmed_gap (state ''guided_production'') then ''INDEPENDENT''
      else if at_least (decimal 75 100) (ms_estimate (state ''guided_production'')) then ''GUIDED''
      else if list_ex (\<lambda>n. ms_estimate (state n) \<noteq> None)
        [''guided_production'', ''independent_production'', ''spontaneous_production''] then ''EARLY''
      else ''UNKNOWN'')"

definition focus_confidence :: "(string \<Rightarrow> mass_dimension_state) \<Rightarrow> float64" where
  "focus_confidence state =
     (if ability_band state = ''SPONTANEOUS'' then ms_confidence (state ''spontaneous_production'')
      else if ability_band state = ''INDEPENDENT'' then ms_confidence (state ''independent_production'')
      else if ability_band state = ''GUIDED'' then ms_confidence (state ''guided_production'')
      else Max (set (map (ms_confidence \<circ> state)
        [''recognition'', ''guided_production'', ''independent_production'', ''spontaneous_production''])))"

definition transfer_band :: "(string \<Rightarrow> mass_dimension_state) \<Rightarrow> mass_dimension_state \<Rightarrow> diversity \<Rightarrow> string" where
  "transfer_band state transfer dv =
     (if ms_estimate transfer = None then
        (if at_least (decimal 75 100) (ms_estimate (state ''independent_production''))
           \<or> at_least (decimal 75 100) (ms_estimate (state ''spontaneous_production'')) then ''NARROW'' else ''UNTESTED'')
      else if 3 \<le> dv_contexts dv \<and> 3 \<le> dv_clusters dv then ''MULTI_CONTEXT'' else ''CROSS_CONTEXT'')"

definition support_band :: "float64 option \<Rightarrow> string" where
  "support_band x = (case x of None \<Rightarrow> ''UNKNOWN''
   | Some v \<Rightarrow> if decimal 75 100 \<le> v then ''HIGH_SUPPORT'' else if decimal 50 100 \<le> v then ''PARTIAL_SUPPORT''
       else if decimal 20 100 \<le> v then ''LOW_SUPPORT'' else ''INDEPENDENT'')"

definition stability_band :: "claim_view list \<Rightarrow> diversity \<Rightarrow> string \<Rightarrow> string" where
  "stability_band active dv fresh =
     (if filter is_strong_retrieval active = [] then ''UNTESTED''
      else if dv_clusters dv < 2 then ''FRAGILE''
      else if fresh = ''STALE'' then ''STALE''
      else if 4 \<le> dv_clusters dv \<and> 2 \<le> dv_days dv then ''STABLE''
      else fresh)"

definition conflicting :: "mass_dimension_state \<Rightarrow> bool" where
  "conflicting s \<longleftrightarrow>
     (let total = fadd (ms_positive_mass s) (ms_negative_mass s);
          ratio = (if total \<noteq> 0 then fdiv (ms_positive_mass s) total else decimal 50 100)
      in CONFLICT_MASS_MIN_EACH \<le> ms_positive_mass s \<and> CONFLICT_MASS_MIN_EACH \<le> ms_negative_mass s
         \<and> CONFLICT_RATIO_LOW \<le> ratio \<and> ratio \<le> CONFLICT_RATIO_HIGH)"

definition gap_flag :: "(string \<Rightarrow> mass_dimension_state) \<Rightarrow> bool" where
  "gap_flag state = (case filter (\<lambda>s. ms_estimate s \<noteq> None)
       (map state [''spontaneous_production'', ''independent_production'', ''guided_production'']) of
     [] \<Rightarrow> False | s # ss \<Rightarrow> confirmed_gap (max_by ms_confidence s ss))"

definition strong_control :: "mass_dimension_state \<Rightarrow> bool" where
  "strong_control s \<longleftrightarrow> at_least STRONG_CONTROL_ESTIMATE_MIN (ms_estimate s) \<and> STRONG_CONTROL_CONFIDENCE_MIN \<le> ms_confidence s"

definition hierarchy_conflict :: "(string \<Rightarrow> mass_dimension_state) \<Rightarrow> bool" where
  "hierarchy_conflict state \<longleftrightarrow>
     at_least (decimal 75 100) (ms_estimate (state ''spontaneous_production'')) \<and> confirmed_gap (state ''independent_production'')
     \<or> at_least (decimal 75 100) (ms_estimate (state ''independent_production'')) \<and> confirmed_gap (state ''guided_production'')"

definition learning_flags ::
  "(string \<Rightarrow> mass_dimension_state) \<Rightarrow> support_dependency_state \<Rightarrow> diversity \<Rightarrow> string list" where
  "learning_flags state dep dv = sorted_set (map fst (filter snd
     [(''CONFIRMED_GAP'', gap_flag state),
      (''SUPPORT_DEPENDENT'', at_least SUPPORT_DEPENDENT_ESTIMATE_MIN (sd_estimate dep)
         \<and> SUPPORT_DEPENDENT_CONFIDENCE_MIN \<le> sd_confidence dep),
      (''STRONG_INDEPENDENT_CONTROL'', strong_control (state ''independent_production'')),
      (''STRONG_SPONTANEOUS_CONTROL'', strong_control (state ''spontaneous_production'')),
      (''NARROW_EVIDENCE'', ability_band state \<in> {''INDEPENDENT'', ''SPONTANEOUS''}
         \<and> (dv_contexts dv < 2 \<or> dv_realizations dv < 2)),
      (''CONFLICTING_EVIDENCE'', list_ex (conflicting \<circ> state) ABILITY_DIMENSIONS),
      (''CONFLICTING_EVIDENCE'', hierarchy_conflict state),
      (''INSUFFICIENT_EVIDENCE'', list_all (\<lambda>n. ms_estimate (state n) = None)
         [''recognition'', ''guided_production'', ''independent_production'', ''spontaneous_production''])]))"

section \<open>The estimator\<close>

definition date_of :: "(string \<Rightarrow> datetime option) \<Rightarrow> string \<Rightarrow> datetime" where
  "date_of parse s = (case parse s of Some d \<Rightarrow> d | None \<Rightarrow> \<lparr>dt_micros = 0, dt_date = [], dt_isoformat = []\<rparr>)"

definition estimate_active ::
  "(float64 \<Rightarrow> float64) \<Rightarrow> (string \<Rightarrow> datetime option) \<Rightarrow> claim_view list \<Rightarrow> string \<Rightarrow> string \<Rightarrow> string \<Rightarrow> string
   \<Rightarrow> estimator_error + target_state_estimate" where
  "estimate_active exp64 parse active target_type target_id modality as_of =
     bindE (checkE (\<forall>c \<in> set active. parse (cv_timestamp c) \<noteq> None) TimestampValueError) (\<lambda>_.
     let dt = date_of parse;
         state = dimension_state exp64 dt target_type active;
         transfer = transfer_state exp64 dt target_type active;
         dep = support_state exp64 dt target_type active;
         dv = strong_counts dt active
     in bindE (freshness_of parse dt active as_of) (\<lambda>fresh.
       Inr \<lparr>te_target_type = target_type, te_target_id = target_id, te_modality = modality,
         te_dimensions = map (\<lambda>d. (d, state d)) ABILITY_DIMENSIONS,
         te_transfer = transfer, te_support_dependency = dep,
         te_coverage = coverage_of dt active, te_freshness = fresh,
         te_projection = \<lparr>pj_ability_band = ability_band state,
           pj_confidence_band = confidence_band (focus_confidence state),
           pj_transfer_band = transfer_band state transfer dv,
           pj_support_band = support_band (sd_estimate dep),
           pj_stability_band = stability_band active dv (fr_band fresh),
           pj_learning_flags = learning_flags state dep dv\<rparr>\<rparr>))"

definition estimate_target_state ::
  "(float64 \<Rightarrow> float64) \<Rightarrow> (string \<Rightarrow> datetime option) \<Rightarrow> claim_view list \<Rightarrow> string \<Rightarrow> string \<Rightarrow> string \<Rightarrow> string \<Rightarrow> bool
   \<Rightarrow> estimator_error + target_state_estimate" where
  "estimate_target_state exp64 parse claims target_type target_id modality as_of strict =
     bindE (checkE (\<not> (validate_claims claims \<noteq> [] \<and> strict)) (EstimatorContractError (validate_claims claims))) (\<lambda>_.
       estimate_active exp64 parse (filter (in_scope target_type target_id modality) claims)
         target_type target_id modality as_of)"

end
