(* ===== verification/Estimator_Lemmas.thy ===== *)
theory Estimator_Lemmas
  imports Estimator_Run
begin

text \<open>
  Lemmas on the estimator: what the grouping loop computes, the contract check in declarative form, and
  the sign and size of every mass from one claim up to the totals of the run.
\<close>

section \<open>Grouping\<close>

lemma group_by_snoc: "group_by key (xs @ [x]) = AList.update (key x)
    ((case map_of (group_by key xs) (key x) of None \<Rightarrow> [] | Some ys \<Rightarrow> ys) @ [x]) (group_by key xs)"
  by (simp add: group_by_def)

lemma map_of_group_by:
  "map_of (group_by key xs) k = (if k \<in> key ` set xs then Some (filter (\<lambda>x. key x = k) xs) else None)"
proof (induction xs rule: rev_induct)
  case Nil
  then show ?case by (simp add: group_by_def)
next
  case (snoc x xs)
  have "filter (\<lambda>y. key y = k) xs = []" if "k \<notin> key ` set xs" for k
    using that by (auto simp: filter_empty_conv)
  with snoc.IH show ?case by (auto simp: group_by_snoc update_conv')
qed

lemma distinct_group_by: "distinct (map fst (group_by key xs))"
  by (induction xs rule: rev_induct) (simp_all add: group_by_def distinct_update)

lemma keys_group_by: "fst ` set (group_by key xs) = key ` set xs"
proof -
  have "fst ` set (group_by key xs) = dom (map_of (group_by key xs))" by (simp add: dom_map_of_conv_image_fst)
  also have "\<dots> = key ` set xs" by (auto simp: dom_def map_of_group_by)
  finally show ?thesis .
qed

lemma group_by_member:
  assumes "(k, ys) \<in> set (group_by key xs)"
  shows "ys = filter (\<lambda>x. key x = k) xs" and "ys \<noteq> []" and "k \<in> key ` set xs"
proof -
  have m: "map_of (group_by key xs) k = Some ys" by (rule map_of_is_SomeI [OF distinct_group_by assms])
  then show "ys = filter (\<lambda>x. key x = k) xs" "k \<in> key ` set xs"
    by (simp_all add: map_of_group_by split: if_splits)
  then show "ys \<noteq> []" by (auto simp: filter_empty_conv)
qed

lemma length_group_by: "length (group_by key xs) = card (key ` set xs)"
  using distinct_card [OF distinct_group_by [of key xs]] keys_group_by [of key xs] by simp

lemma set_group_by: "\<Union> (set ` snd ` set (group_by key xs)) = set xs"
proof
  show "\<Union> (set ` snd ` set (group_by key xs)) \<subseteq> set xs" by (auto dest: group_by_member(1))
  show "set xs \<subseteq> \<Union> (set ` snd ` set (group_by key xs))"
  proof
    fix x assume x: "x \<in> set xs"
    then have "map_of (group_by key xs) (key x) = Some (filter (\<lambda>y. key y = key x) xs)"
      by (simp add: map_of_group_by)
    then have "(key x, filter (\<lambda>y. key y = key x) xs) \<in> set (group_by key xs)" by (rule map_of_SomeD)
    with x show "x \<in> \<Union> (set ` snd ` set (group_by key xs))" by force
  qed
qed

section \<open>The contract\<close>

definition claim_ok :: "claim_view \<Rightarrow> bool" where
  "claim_ok c \<longleftrightarrow> (cv_performance_type c \<in> {''INDEPENDENT_PRODUCTION'', ''SPONTANEOUS_PRODUCTION''} \<longrightarrow>
       low_support c \<and> cv_exposure_level c = ''NONE'')
     \<and> (cv_performance_type c = ''SPONTANEOUS_PRODUCTION'' \<longrightarrow> cv_opportunity_type c = Some ''NATURAL'')"

definition one_primary :: "claim_view list \<Rightarrow> bool" where
  "one_primary claims \<longleftrightarrow> distinct (map primary_key (filter is_primary claims))"

lemma claim_violations_Nil: "claim_violations i c = [] \<longleftrightarrow> claim_ok c"
  by (auto simp: claim_violations_def claim_ok_def)

lemma distinct_of_small_classes: "(\<And>k. length (filter (\<lambda>x. key x = k) xs) \<le> 1) \<Longrightarrow> distinct (map key xs)"
proof (induction xs)
  case (Cons x xs)
  have "length (filter (\<lambda>y. key y = k) xs) \<le> 1" for k using Cons.prems [of k] by (simp split: if_splits)
  with Cons.IH have "distinct (map key xs)" by blast
  moreover have "filter (\<lambda>y. key y = key x) xs = []" using Cons.prems [of "key x"] by simp
  then have "key x \<notin> key ` set xs" by (auto simp: filter_empty_conv)
  ultimately show ?case by simp
qed simp

lemma group_lengths_distinct:
  "(\<forall>(k, ys) \<in> set (group_by key xs). length ys \<le> 1) \<longleftrightarrow> distinct (map key xs)"
proof
  assume small: "\<forall>(k, ys) \<in> set (group_by key xs). length ys \<le> 1"
  have "length (filter (\<lambda>x. key x = k) xs) \<le> 1" for k
  proof (cases "k \<in> key ` set xs")
    case True
    then have "(k, filter (\<lambda>x. key x = k) xs) \<in> set (group_by key xs)"
      using map_of_group_by [of key xs k] by (auto intro: map_of_SomeD)
    with small show ?thesis by auto
  next
    case False
    then have "filter (\<lambda>x. key x = k) xs = []" by (auto simp: filter_empty_conv)
    then show ?thesis by simp
  qed
  then show "distinct (map key xs)" by (rule distinct_of_small_classes)
next
  assume d: "distinct (map key xs)"
  show "\<forall>(k, ys) \<in> set (group_by key xs). length ys \<le> 1"
  proof clarify
    fix k ys assume "(k, ys) \<in> set (group_by key xs)"
    then have "ys = filter (\<lambda>x. key x = k) xs" by (rule group_by_member)
    moreover have "distinct (map key ys)" using d calculation by (simp add: distinct_map_filter)
    moreover have "set (map key ys) \<subseteq> {k}" using calculation by auto
    ultimately show "length ys \<le> 1"
      using card_mono [of "{k}" "set (map key ys)"] distinct_card [of "map key ys"] by simp
  qed
qed

lemma filter_enumerate: "map snd (filter (P \<circ> snd) (enumerate n xs)) = filter P xs"
  by (induction xs arbitrary: n) auto

lemma enumerate_member: "(i, x) \<in> set (enumerate n xs) \<Longrightarrow> x \<in> set xs"
  by (auto simp: enumerate_eq_zip dest: set_zip_rightD)

lemma list_all_enumerate: "(\<forall>(i, x) \<in> set (enumerate n xs). P x) \<longleftrightarrow> (\<forall>x \<in> set xs. P x)"
  by (induction xs arbitrary: n) auto

theorem validate_claims_Nil: "validate_claims claims = [] \<longleftrightarrow> (\<forall>c \<in> set claims. claim_ok c) \<and> one_primary claims"
proof -
  let ?prim = "filter (is_primary \<circ> snd) (enumerate 0 claims)"
  have "concat (map (\<lambda>(i, c). claim_violations i c) (enumerate 0 claims)) = []
      \<longleftrightarrow> (\<forall>c \<in> set claims. claim_ok c)"
    using list_all_enumerate [of 0 claims claim_ok] by (auto simp: claim_violations_Nil)
  moreover have "concat (map (\<lambda>(key, members). if 1 < length members
        then [MULTIPLE_PRIMARY_PERFORMANCE_SAME_GROUP_TARGET key (map fst members)] else [])
      (group_by (primary_key \<circ> snd) ?prim)) = []
      \<longleftrightarrow> (\<forall>(k, ys) \<in> set (group_by (primary_key \<circ> snd) ?prim). length ys \<le> 1)"
    by (auto split: if_splits)
  moreover have "map (primary_key \<circ> snd) ?prim = map primary_key (filter is_primary claims)"
    using filter_enumerate [of is_primary 0 claims] by (metis map_map)
  ultimately show ?thesis
    unfolding validate_claims_def one_primary_def append_is_Nil_conv group_lengths_distinct by simp
qed

lemma validate_claims_filter: "validate_claims claims = [] \<Longrightarrow> validate_claims (filter P claims) = []"
proof -
  assume "validate_claims claims = []"
  then have "\<forall>c \<in> set claims. claim_ok c" "distinct (map primary_key (filter is_primary claims))"
    by (simp_all add: validate_claims_Nil one_primary_def)
  moreover have "filter is_primary (filter P claims) = filter P (filter is_primary claims)"
    by (simp add: conj_commute)
  ultimately show ?thesis
    using distinct_map_filter [of primary_key "filter is_primary claims" P]
    unfolding validate_claims_Nil one_primary_def by simp
qed

section \<open>Masses are non-negative floats\<close>

definition mass_value :: "float64 \<Rightarrow> bool" where
  "mass_value v \<longleftrightarrow> 0 \<le> v \<and> is_float64 v"

definition ok_masses :: "masses \<Rightarrow> bool" where
  "ok_masses m \<longleftrightarrow> (\<forall>(d, v) \<in> set m. mass_value v)"

lemma set_alist_update: "set (AList.update k v m) \<subseteq> insert (k, v) (set m)"
  by (induction m) auto

lemma ok_update: "ok_masses m \<Longrightarrow> mass_value v \<Longrightarrow> ok_masses (AList.update k v m)"
  using set_alist_update [of k v m] unfolding ok_masses_def by blast

lemma ok_mass_of: "ok_masses m \<Longrightarrow> mass_value (mass_of m d)"
  by (auto simp: ok_masses_def mass_of_def get_or_def mass_value_def split: option.splits dest: map_of_SomeD)

lemma ok_Nil [simp]: "ok_masses []"
  by (simp add: ok_masses_def)

lemma mass_value_0 [simp]: "mass_value 0"
  by (simp add: mass_value_def)

lemma mass_value_fadd: "mass_value x \<Longrightarrow> 0 \<le> y \<Longrightarrow> mass_value (fadd x y)"
  by (simp add: mass_value_def fadd_nonneg)

lemma mass_value_fmul: "0 \<le> x \<Longrightarrow> 0 \<le> y \<Longrightarrow> mass_value (fmul x y)"
  by (simp add: mass_value_def fmul_nonneg)

lemma mass_value_minmax: "mass_value x \<Longrightarrow> mass_value y \<Longrightarrow> mass_value (min x y) \<and> mass_value (max x y)"
  by (simp add: mass_value_def min_def max_def)

lemma ok_add_mass: "ok_masses m \<Longrightarrow> 0 \<le> x \<Longrightarrow> ok_masses (add_mass d x m)"
  by (simp add: add_mass_def ok_update mass_value_fadd ok_mass_of)

lemma ok_fold_add:
  "(\<And>d w. (d, w) \<in> set ws \<Longrightarrow> 0 \<le> f w) \<Longrightarrow> ok_masses m \<Longrightarrow> ok_masses (fold (\<lambda>(d, w). add_mass d (f w)) ws m)"
proof (induction ws arbitrary: m)
  case (Cons dw ws)
  obtain d w where dw: "dw = (d, w)" by force
  have "ok_masses (add_mass d (f w) m)" using Cons.prems dw by (intro ok_add_mass) auto
  moreover have "\<And>d w. (d, w) \<in> set ws \<Longrightarrow> 0 \<le> f w" using Cons.prems(1) by (meson list.set_intros(2))
  ultimately show ?case using Cons.IH [of "add_mass d (f w) m"] dw by simp
qed simp

lemma get_or_nonneg: "(\<And>k v. (k, v) \<in> set t \<Longrightarrow> 0 \<le> v) \<Longrightarrow> 0 \<le> d \<Longrightarrow> 0 \<le> get_or t k (d :: rat)"
  by (auto simp: get_or_def split: option.split dest: map_of_SomeD)

lemma times3_nonneg: "0 \<le> w \<Longrightarrow> 0 \<le> x \<Longrightarrow> 0 \<le> y \<Longrightarrow> 0 \<le> z \<Longrightarrow> 0 \<le> times3 w x y z"
  by (simp add: times3_def fmul_nonneg)

lemma profile_nonneg:
  "0 \<le> outcome_factor c" "0 \<le> assist_factor c" "0 \<le> error_multiplier c" "0 \<le> CLAIM_MIN_CONFIDENCE"
  "0 \<le> PARTIAL_DIRECT_NEGATIVE_FRACTION" "0 \<le> SELF_REPAIR_SPONTANEOUS_SUPPORT" "0 \<le> get_or QUALITY_STRENGTH k 0"
  "0 \<le> SAME_CLUSTER_MASS_CAP_MULTIPLE" "0 \<le> repeat_weight i"
proof -
  show "0 \<le> outcome_factor c"
    unfolding outcome_factor_def by (rule get_or_nonneg) (auto simp: OUTCOME_FACTOR_def decimal_nonneg)
  have "0 \<le> get_or SUPPORT_FACTOR (cv_support_level c) 1" "0 \<le> get_or EXPOSURE_FACTOR (cv_exposure_level c) 1"
    by (rule get_or_nonneg; auto simp: SUPPORT_FACTOR_def EXPOSURE_FACTOR_def decimal_nonneg)+
  then show "0 \<le> assist_factor c" by (simp add: assist_factor_def)
  have e: "0 \<le> ERROR_ATTRIBUTION_DEFAULT_MULTIPLIER"
    by (simp add: ERROR_ATTRIBUTION_DEFAULT_MULTIPLIER_def decimal_nonneg)
  moreover have "0 \<le> get_or ERROR_ATTRIBUTION_MULTIPLIER a ERROR_ATTRIBUTION_DEFAULT_MULTIPLIER" for a
    by (rule get_or_nonneg) (auto simp: ERROR_ATTRIBUTION_MULTIPLIER_def decimal_nonneg e)
  ultimately show "0 \<le> error_multiplier c" by (simp add: error_multiplier_def split: option.split)
  show "0 \<le> get_or QUALITY_STRENGTH k 0"
    by (rule get_or_nonneg) (auto simp: QUALITY_STRENGTH_def decimal_nonneg)
  show "0 \<le> repeat_weight i"
    by (auto simp: repeat_weight_def SAME_CLUSTER_REPEAT_WEIGHTS_def decimal_nonneg nth_Cons split: nat.split)
qed (simp_all add: CLAIM_MIN_CONFIDENCE_def PARTIAL_DIRECT_NEGATIVE_FRACTION_def SELF_REPAIR_SPONTANEOUS_SUPPORT_def
    SAME_CLUSTER_MASS_CAP_MULTIPLE_def decimal_nonneg)

lemma clamp_unit_bounds: "0 \<le> clamp_unit q \<and> clamp_unit q \<le> 1"
  by (simp add: clamp_unit_def)

lemma ok_claim_contribution: "ok_masses (fst (claim_contribution c)) \<and> ok_masses (snd (claim_contribution c))"
proof (cases "cv_evaluator_confidence c < CLAIM_MIN_CONFIDENCE \<or> cv_outcome c = ''ABSTAIN''")
  case True
  then show ?thesis by (simp add: claim_contribution_def)
next
  case False
  then have conf: "0 \<le> cv_evaluator_confidence c" using profile_nonneg(4) by simp
  note nn = profile_nonneg conf times3_nonneg
  have map_ok: "0 \<le> w" if "(d, w) \<in> set (get_or POSITIVE_MAPPING k [])" for d w k
    using that by (auto simp: POSITIVE_MAPPING_def get_or_def decimal_nonneg split: if_splits)
  then have mapped: "0 \<le> get_or (get_or POSITIVE_MAPPING k []) d 1" for k d by (intro get_or_nonneg) auto
  have topo: "ok_masses (topology_mass c [])"
    unfolding topology_mass_def by (rule ok_fold_add) (auto intro!: nn dest: map_ok)
  have resid: "ok_masses (partial_residual c [])"
    by (auto simp: partial_residual_def intro!: ok_add_mass nn mapped split: option.split)
  have repair: "ok_masses (fst (self_repair_support c pn)) \<and> ok_masses (snd (self_repair_support c pn))"
    if "ok_masses (fst pn)" "ok_masses (snd pn)" for pn
    using that by (auto simp: self_repair_support_def intro!: ok_add_mass nn split: prod.split)
  have quality: "ok_masses (fst (quality_mass d s x pn)) \<and> ok_masses (snd (quality_mass d s x pn))"
    if "ok_masses (fst pn)" "ok_masses (snd pn)" for d s x pn
    using that clamp_unit_bounds
    by (auto simp: quality_mass_def intro!: ok_add_mass fmul_nonneg fsub_nonneg split: prod.split option.split)
  have neg: "0 \<le> w" if "(d, w) \<in> set (negative_dimension_map c)" for d w
    using that by (auto simp: negative_dimension_map_def Let_def decimal_nonneg split: if_splits)
  have fold_neg: "ok_masses (fold (\<lambda>(d, w). add_mass d (times3 w (outcome_factor c) (cv_evaluator_confidence c)
      (error_multiplier c))) (negative_dimension_map c) n)" if "ok_masses n" for n
    by (rule ok_fold_add) (auto intro!: nn that dest: neg)
  show ?thesis
    using False topo resid repair quality fold_neg
    by (simp add: claim_contribution_def Let_def split: prod.split)
qed

lemma ok_max_into: "ok_masses p \<Longrightarrow> ok_masses acc \<Longrightarrow> ok_masses (max_into p acc)"
  unfolding max_into_def
proof (induction p arbitrary: acc)
  case (Cons dv p)
  obtain d v where dv: "dv = (d, v)" by force
  have p: "ok_masses p" and v: "mass_value v" using Cons.prems(1) dv by (auto simp: ok_masses_def)
  have "ok_masses (AList.update d (max (mass_of acc d) v) acc)"
    using v Cons.prems(2) by (intro ok_update) (auto dest: mass_value_minmax [OF ok_mass_of])
  with Cons.IH [OF p] show ?case by (simp add: dv)
qed simp

lemma ok_aggregate_group: "ok_masses (fst (aggregate_group cs)) \<and> ok_masses (snd (aggregate_group cs))"
proof -
  have "ok_masses (fst acc) \<and> ok_masses (snd acc) \<Longrightarrow>
    ok_masses (fst (fold (\<lambda>c (gp, gn). (max_into (fst (claim_contribution c)) gp,
      max_into (snd (claim_contribution c)) gn)) cs acc))
    \<and> ok_masses (snd (fold (\<lambda>c (gp, gn). (max_into (fst (claim_contribution c)) gp,
      max_into (snd (claim_contribution c)) gn)) cs acc))" for acc
    by (induction cs arbitrary: acc) (auto simp: ok_max_into ok_claim_contribution split: prod.split)
  from this [of "([], [])"] show ?thesis by (simp add: aggregate_group_def)
qed

lemma fold_mass_value:
  "(\<And>x t. x \<in> set xs \<Longrightarrow> mass_value t \<Longrightarrow> mass_value (f x t)) \<Longrightarrow> mass_value t \<Longrightarrow> mass_value (fold f xs t)"
  by (induction xs arbitrary: t) auto

lemma repeated_sum_ok:
  assumes "\<forall>v \<in> set values. 0 \<le> v"
  shows "mass_value (repeated_sum values)"
  unfolding repeated_sum_def
  using assms by (intro fold_mass_value) (auto simp: profile_nonneg intro!: mass_value_fadd fmul_nonneg dest: enumerate_member)

lemma ok_aggregate_side: "ok_masses (aggregate_side side rows)"
proof -
  have "mass_value (min (repeated_sum (v # vs)) (fmul SAME_CLUSTER_MASS_CAP_MULTIPLE (Max (set (v # vs)))))"
    if "side_values side rows d = v # vs" for d v vs
  proof -
    have "\<forall>x \<in> set (side_values side rows d). 0 \<le> x" by (auto simp: side_values_def)
    with that have pos: "\<forall>x \<in> set (v # vs). 0 \<le> x" by simp
    then have "0 \<le> Max (set (v # vs))" using Max_in [of "set (v # vs)"] by blast
    then show ?thesis
      using mass_value_minmax [OF repeated_sum_ok [OF pos] mass_value_fmul] profile_nonneg(8) by blast
  qed
  then show ?thesis by (auto simp: aggregate_side_def ok_masses_def split: list.splits) (metis list.simps(15))
qed

lemma aggregate_cluster_ok: "ok_masses (fst (aggregate_cluster rows)) \<and> ok_masses (snd (aggregate_cluster rows))"
  by (simp add: aggregate_cluster_def Let_def ok_aggregate_side)

lemma total_mass_ok: "mass_value (total_mass fst clusters d) \<and> mass_value (total_mass snd clusters d)"
proof -
  have "0 \<le> mass_of (fst (aggregate_cluster rows)) d \<and> 0 \<le> mass_of (snd (aggregate_cluster rows)) d" for rows
    using aggregate_cluster_ok ok_mass_of unfolding mass_value_def by blast
  then show ?thesis
    unfolding total_mass_def
    by (intro conjI fold_mass_value) (auto simp: Let_def split: prod.split intro!: mass_value_fadd)
qed

section \<open>Strong retrieval\<close>

lemma strong_cluster_claims:
  assumes "(k, cs) \<in> set (strong_by_cluster dt active)"
  shows "cs \<noteq> []" and "\<And>c. c \<in> set cs \<Longrightarrow> c \<in> set active \<and> is_strong_retrieval c \<and> cluster_key dt c = k"
  using group_by_member [OF assms [unfolded strong_by_cluster_def]] by auto

lemma representative:
  assumes "(k, cs) \<in> set (strong_by_cluster dt active)"
  obtains c where "c \<in> set active" "is_strong_retrieval c" "sr_cluster (strong_row_of dt (k, cs)) = k" "cluster_key dt c = k"
    "sr_context (strong_row_of dt (k, cs)) = or_else (cv_context_key c) ''unknown''"
    "sr_persona (strong_row_of dt (k, cs)) = or_else (cv_persona_id c) ''none''"
    "sr_realization (strong_row_of dt (k, cs)) = or_else (cv_realization_key c) ''unknown''"
    "sr_mass (strong_row_of dt (k, cs)) = strong_mass c"
proof -
  let ?c = "max_by (\<lambda>c. (strong_mass c, dt_micros (dt (cv_timestamp c)))) (hd cs) (tl cs)"
  have "?c \<in> insert (hd cs) (set (tl cs))" by (rule max_by_in)
  then have "?c \<in> set cs" using strong_cluster_claims(1) [OF assms] by (cases cs) auto
  with strong_cluster_claims(2) [OF assms] show ?thesis by (intro that [of ?c]) (auto simp: strong_row_of_def Let_def)
qed

lemma strong_rowE:
  assumes "row \<in> set (strong_cluster_rows dt active)"
  obtains c where "c \<in> set active" "is_strong_retrieval c" "cluster_key dt c = sr_cluster row"
    "sr_context row = or_else (cv_context_key c) ''unknown''" "sr_persona row = or_else (cv_persona_id c) ''none''"
    "sr_realization row = or_else (cv_realization_key c) ''unknown''" "sr_mass row = strong_mass c"
proof -
  obtain k cs where k: "(k, cs) \<in> set (strong_by_cluster dt active)" "row = strong_row_of dt (k, cs)"
    using assms by (auto simp: strong_cluster_rows_def)
  then show ?thesis using representative [OF k(1)] that by metis
qed

lemma strong_rows_distinct: "distinct (map sr_cluster (strong_cluster_rows dt active))"
proof -
  have "map sr_cluster (map (strong_row_of dt) (strong_by_cluster dt active)) = map fst (strong_by_cluster dt active)"
    by (simp add: strong_row_of_def Let_def case_prod_beta)
  then have "distinct (map sr_cluster (map (strong_row_of dt) (strong_by_cluster dt active)))"
    by (simp only: strong_by_cluster_def distinct_group_by)
  moreover have "mset (map sr_cluster (strong_cluster_rows dt active))
      = mset (map sr_cluster (map (strong_row_of dt) (strong_by_cluster dt active)))"
    by (simp only: strong_cluster_rows_def mset_map mset_sort)
  ultimately show ?thesis using mset_eq_imp_distinct_iff by blast
qed

lemma transfer_positive_ok:
  assumes "\<forall>row \<in> set rows. 0 \<le> sr_mass row"
  shows "mass_value (transfer_positive rows)"
  using assms unfolding transfer_positive_def
  by (cases rows) (auto intro!: fold_mass_value mass_value_fadd)

lemma transfer_negative_ok:
  assumes "\<forall>c \<in> set active. 0 \<le> cv_evaluator_confidence c"
  shows "mass_value (transfer_negative dt active)"
  unfolding transfer_negative_def
proof (rule fold_mass_value)
  fix kc :: "string \<times> claim_view list" and t
  assume kc: "kc \<in> set (group_by (cluster_key dt) (filter (\<lambda>c. cv_polarity c = ''NEGATIVE''
        \<and> cv_performance_type c \<in> {''FAILED_ATTEMPT'', ''MISUSE''} \<and> novel_qualified c) active))" and t: "mass_value t"
  obtain k cs where [simp]: "kc = (k, cs)" by force
  have cs: "cs \<noteq> []" "set cs \<subseteq> set active" using group_by_member [OF kc [simplified]] by auto
  then have "Max (set (map (\<lambda>c. fmul (cv_evaluator_confidence c) (error_multiplier c)) cs))
      \<in> set (map (\<lambda>c. fmul (cv_evaluator_confidence c) (error_multiplier c)) cs)" by (intro Max_in) auto
  then have "0 \<le> Max (set (map (\<lambda>c. fmul (cv_evaluator_confidence c) (error_multiplier c)) cs))"
    using assms cs(2) by (auto intro!: fmul_nonneg profile_nonneg)
  with t show "mass_value ((\<lambda>(k, claims) total. fadd total (Max (set (map (\<lambda>c. fmul (cv_evaluator_confidence c)
      (error_multiplier c)) claims)))) kc t)"
    by (simp add: mass_value_fadd)
qed simp

section \<open>Dependency sums\<close>

lemma decimal_le_1: "n \<le> d \<Longrightarrow> 0 < d \<Longrightarrow> decimal n d \<le> 1"
  using rnd64_mono [of "of_int n / of_int d" 1] is_float64_more(4) by (simp add: decimal_def is_float64_def)

lemma get_or_le_1: "(\<And>k v. (k, v) \<in> set t \<Longrightarrow> v \<le> 1) \<Longrightarrow> d \<le> 1 \<Longrightarrow> get_or t k (d :: rat) \<le> 1"
  by (auto simp: get_or_def split: option.split dest: map_of_SomeD)

lemma burden_bounds:
  "0 \<le> get_or SUPPORT_BURDEN k 0" "get_or SUPPORT_BURDEN k 0 \<le> 1"
  "0 \<le> get_or EXPOSURE_BURDEN k 0" "get_or EXPOSURE_BURDEN k 0 \<le> 1"
  by (rule get_or_nonneg get_or_le_1;
      auto simp: SUPPORT_BURDEN_def EXPOSURE_BURDEN_def decimal_nonneg decimal_le_1)+

definition success_claim :: "claim_view \<Rightarrow> bool" where
  "success_claim c \<longleftrightarrow> cv_polarity c = ''POSITIVE'' \<and> cv_outcome c \<in> {''SUCCESS'', ''PARTIAL''}"

definition failure_claim :: "claim_view \<Rightarrow> bool" where
  "failure_claim c \<longleftrightarrow> cv_polarity c = ''NEGATIVE'' \<and> cv_outcome c \<in> {''FAILURE'', ''PARTIAL''}"

definition burden_of :: "claim_view \<Rightarrow> float64" where
  "burden_of c = max (get_or SUPPORT_BURDEN (cv_support_level c) 0) (get_or EXPOSURE_BURDEN (cv_exposure_level c) 0)"

lemma observation_ofE:
  assumes "ob \<in> set (observation_of dt cs)"
  obtains (success) c where "c \<in> set cs" "success_claim c" "CLAIM_MIN_CONFIDENCE \<le> cv_evaluator_confidence c"
      "do_burden ob = burden_of c" "do_mass ob = fmul (cv_evaluator_confidence c) (outcome_factor c)"
      "do_kind ob = (if burden_of c \<le> decimal 10 100 then ''low_success'' else ''assisted_success'')"
    | (failure) c where "c \<in> set cs" "failure_claim c" "CLAIM_MIN_CONFIDENCE \<le> cv_evaluator_confidence c"
      "do_burden ob = 1" "do_mass ob = fmul (fmul (cv_evaluator_confidence c) (error_multiplier c)) (outcome_factor c)"
      "do_kind ob = (if low_support c then ''low_failure'' else ''supported_failure'')"
proof -
  let ?P = "\<lambda>c. cv_performance_type c \<in> set PRODUCTION_TYPES \<and> CLAIM_MIN_CONFIDENCE \<le> cv_evaluator_confidence c"
  have "filter ?P cs \<noteq> []"
  proof
    assume "filter ?P cs = []"
    with assms show False by (simp add: observation_of_def)
  qed
  then obtain x xs where f: "filter ?P cs = x # xs" using list.exhaust by blast
  let ?c = "max_by cv_evaluator_confidence x xs"
  have "?c \<in> set (filter ?P cs)" using max_by_in [of cv_evaluator_confidence x xs] f by simp
  then have c: "?c \<in> set cs" "CLAIM_MIN_CONFIDENCE \<le> cv_evaluator_confidence ?c" by auto
  show ?thesis
  proof (cases "success_claim ?c")
    case True
    with assms f success [OF c(1) True c(2)] show ?thesis
      by (simp add: observation_of_def success_claim_def burden_of_def Let_def)
  next
    case False
    with assms f have "failure_claim ?c"
      by (auto simp: observation_of_def success_claim_def failure_claim_def Let_def split: if_splits)
    with False assms f failure [OF c(1) _ c(2)] show ?thesis
      by (simp add: observation_of_def success_claim_def failure_claim_def Let_def)
  qed
qed

lemma observation_bounds:
  assumes "ob \<in> set (observation_of dt cs)"
  shows "0 \<le> do_burden ob" "do_burden ob \<le> 1" "0 \<le> do_mass ob"
proof -
  have conf: "0 \<le> cv_evaluator_confidence c" if "CLAIM_MIN_CONFIDENCE \<le> cv_evaluator_confidence c" for c
    using that profile_nonneg(4) by linarith
  have burden: "0 \<le> burden_of c" "burden_of c \<le> 1" for c
    using burden_bounds by (simp_all add: burden_of_def max_def)
  from assms show "0 \<le> do_burden ob" by (cases rule: observation_ofE) (simp_all add: burden)
  from assms show "do_burden ob \<le> 1" by (cases rule: observation_ofE) (simp_all add: burden)
  from assms show "0 \<le> do_mass ob"
    by (cases rule: observation_ofE) (auto intro!: fmul_nonneg profile_nonneg dest: conf)
qed

definition sums_ok :: "(dependency_observation \<Rightarrow> bool) \<Rightarrow> dependency_sums \<Rightarrow> bool" where
  "sums_ok P s \<longleftrightarrow> 0 \<le> ds_numerator s \<and> ds_numerator s \<le> ds_denominator s \<and> mass_value (ds_denominator s)
     \<and> (\<forall>k. 0 < mass_of (ds_kind_mass s) k \<longrightarrow> (\<exists>ob. P ob \<and> do_kind ob = k))"

lemma mass_of_add: "mass_of (add_mass d x m) k = (if k = d then fadd (mass_of m d) x else mass_of m k)"
  by (simp add: mass_of_def add_mass_def get_or_def update_conv')

lemma observe_ok:
  assumes "sums_ok P s" and "P ob" and "0 \<le> do_burden ob" "do_burden ob \<le> 1" "0 \<le> do_mass ob"
  shows "sums_ok P (observe (i, ob) s)"
proof -
  let ?e = "fmul (do_mass ob) (repeat_weight i)"
  have e: "mass_value ?e" using assms(5) profile_nonneg(9) by (rule mass_value_fmul)
  then have "fmul (do_burden ob) ?e \<le> ?e" "0 \<le> fmul (do_burden ob) ?e"
    using fmul_le [of ?e "do_burden ob"] fmul_nonneg assms(3,4) by (simp_all add: mass_value_def)
  with assms(1) e have "ds_numerator (observe (i, ob) s) \<le> ds_denominator (observe (i, ob) s)"
    "0 \<le> ds_numerator (observe (i, ob) s)" "mass_value (ds_denominator (observe (i, ob) s))"
    by (auto simp: observe_def sums_ok_def Let_def mass_value_def intro: fadd_mono fadd_nonneg)
  moreover have "\<exists>q. P q \<and> do_kind q = k" if "0 < mass_of (ds_kind_mass (observe (i, ob) s)) k" for k
    using that assms(1,2) by (auto simp: observe_def sums_ok_def Let_def mass_of_add split: if_splits)
  ultimately show ?thesis by (simp add: sums_ok_def)
qed

lemma fold_observe_ok:
  assumes "\<forall>ob \<in> set obs. P ob \<and> 0 \<le> do_burden ob \<and> do_burden ob \<le> 1 \<and> 0 \<le> do_mass ob" and "sums_ok P s"
  shows "sums_ok P (fold observe (enumerate n obs) s)"
  using assms by (induction obs arbitrary: n s) (simp_all add: observe_ok)

lemma dependency_run_ok:
  assumes "\<forall>(k, obs) \<in> set clusters. \<forall>ob \<in> set obs. P ob \<and> 0 \<le> do_burden ob \<and> do_burden ob \<le> 1 \<and> 0 \<le> do_mass ob"
  shows "sums_ok P (dependency_run clusters)"
proof -
  have "sums_ok P (fold (\<lambda>(k, obs) s. fold observe (enumerate 0 (sort_key (dt_micros \<circ> do_timestamp) obs)) s) clusters s)"
    if "sums_ok P s" for s
    using assms that by (induction clusters arbitrary: s) (auto simp: fold_observe_ok)
  moreover have "sums_ok P \<lparr>ds_numerator = 0, ds_denominator = 0, ds_kind_mass = []\<rparr>"
    by (simp add: sums_ok_def mass_of_def get_or_def)
  ultimately show ?thesis by (simp add: dependency_run_def)
qed

lemma observations_member:
  assumes "ob \<in> set (dependency_observations dt active)"
  obtains cs where "ob \<in> set (observation_of dt cs)" "set cs \<subseteq> set active"
proof -
  obtain k cs where "(k, cs) \<in> set (group_by cv_group_id active)" "ob \<in> set (observation_of dt cs)"
    using assms by (auto simp: dependency_observations_def by_group_def)
  then show ?thesis using that group_by_member(1) by fastforce
qed

lemma dependency_sums_ok:
  "sums_ok (\<lambda>ob. ob \<in> set (dependency_observations dt active))
     (dependency_run (group_by do_cluster (dependency_observations dt active)))"
proof (rule dependency_run_ok, clarify)
  fix k obs ob assume "(k, obs) \<in> set (group_by do_cluster (dependency_observations dt active))" "ob \<in> set obs"
  then have ob: "ob \<in> set (dependency_observations dt active)" by (auto dest: group_by_member(1))
  then obtain cs where "ob \<in> set (observation_of dt cs)" using observations_member by blast
  with ob observation_bounds show "ob \<in> set (dependency_observations dt active)
      \<and> 0 \<le> do_burden ob \<and> do_burden ob \<le> 1 \<and> 0 \<le> do_mass ob" by blast
qed

section \<open>Confidence\<close>

lemma confidence_value_unit: "0 \<le> confidence_value exp64 m dv tt d \<and> confidence_value exp64 m dv tt d \<le> 1"
  by (auto simp: confidence_value_def Let_def clamp_unit_def)

end
