(* ===== verification/Estimator_Properties.thy ===== *)
theory Estimator_Properties
  imports Estimator_Lemmas
begin

text \<open>
  The properties of the estimator: when it raises, that its numbers are proportions, what it depends on,
  and what evidence transfer and support dependency need.  Three closed theorems show where the code
  departs from the frozen specification it cites.
\<close>

section \<open>Concrete claims\<close>

definition demo_claim :: claim_view where
  "demo_claim = \<lparr>cv_group_id = ''g1'', cv_timestamp = ''t1'', cv_performance_type = ''GUIDED_PRODUCTION'',
     cv_polarity = ''POSITIVE'', cv_outcome = ''SUCCESS'', cv_evaluator_confidence = 1, cv_support_level = ''NONE'',
     cv_exposure_level = ''NONE'', cv_opportunity_type = None, cv_qualifiers = [], cv_error_attribution = None,
     cv_accuracy = None, cv_pragmatic_fit = None, cv_conversation_id = None, cv_teaching_moment_id = Some ''m'',
     cv_persona_id = None, cv_context_key = None, cv_realization_key = None, cv_target_type = ''RESOURCE'',
     cv_target_id = ''x'', cv_modality = ''TEXT_PRODUCTION'', cv_status = ''ACTIVE'', cv_spontaneity = None\<rparr>"

text \<open>All demonstration timestamps name one instant.\<close>

definition demo_parse :: "string \<Rightarrow> datetime option" where
  "demo_parse s = Some \<lparr>dt_micros = 0, dt_date = ''d'', dt_isoformat = s\<rparr>"

definition demo_exp :: "float64 \<Rightarrow> float64" where
  "demo_exp x = rnd64 (1 / (1 - x + x * x / 2))"

abbreviation demo_run :: "claim_view list \<Rightarrow> estimator_error + target_state_estimate" where
  "demo_run claims \<equiv> estimate_target_state demo_exp demo_parse claims ''RESOURCE'' ''x'' ''TEXT_PRODUCTION'' ''t9'' True"

section \<open>Errors\<close>

lemma estimate_Inr:
  assumes "estimate_target_state exp64 parse claims tt ti mo as_of strict = Inr est"
  obtains fresh where "freshness_of parse (date_of parse) (filter (in_scope tt ti mo) claims) as_of = Inr fresh"
    "\<not> strict \<or> validate_claims claims = []"
    "\<forall>c \<in> set (filter (in_scope tt ti mo) claims). parse (cv_timestamp c) \<noteq> None"
    "te_dimensions est = map (\<lambda>d. (d, dimension_state exp64 (date_of parse) tt (filter (in_scope tt ti mo) claims) d)) ABILITY_DIMENSIONS"
    "te_transfer est = transfer_state exp64 (date_of parse) tt (filter (in_scope tt ti mo) claims)"
    "te_support_dependency est = support_state exp64 (date_of parse) tt (filter (in_scope tt ti mo) claims)"
    "te_freshness est = fresh"
proof -
  from assms obtain fresh where "freshness_of parse (date_of parse) (filter (in_scope tt ti mo) claims) as_of = Inr fresh"
    by (auto simp: estimate_target_state_def estimate_active_def Let_def result_simps)
  with assms show ?thesis
    by (intro that) (auto simp: estimate_target_state_def estimate_active_def Let_def result_simps)
qed


section \<open>Numbers\<close>

text \<open>The scale of one dimension: an estimate and a confidence between 0 and 1, non-negative masses.\<close>

definition well_scaled :: "mass_dimension_state \<Rightarrow> bool" where
  "well_scaled s \<longleftrightarrow> (case ms_estimate s of None \<Rightarrow> True | Some v \<Rightarrow> 0 \<le> v \<and> v \<le> 1)
     \<and> 0 \<le> ms_confidence s \<and> ms_confidence s \<le> 1 \<and> 0 \<le> ms_positive_mass s \<and> 0 \<le> ms_negative_mass s
     \<and> ms_positive_mass s \<le> ms_effective_mass s \<and> ms_negative_mass s \<le> ms_effective_mass s"

lemma well_scaled_intro:
  assumes p: "0 \<le> p" "is_float64 p" and n: "0 \<le> n" "is_float64 n" and c: "0 \<le> c" "c \<le> 1"
    and e: "e = None \<or> e = Some (round_places 4 (fdiv p (fadd p n)))"
  shows "well_scaled \<lparr>ms_estimate = e, ms_confidence = round_places 4 c, ms_positive_mass = round_places 4 p,
    ms_negative_mass = round_places 4 n, ms_effective_mass = round_places 4 (fadd p n),
    ms_independent_clusters = k, ms_last_relevant_evidence_at = l\<rparr>"
proof -
  have pn: "p \<le> fadd p n" "n \<le> fadd p n"
    using fadd_ge [OF p(2) n(1)] fadd_ge [OF n(2) p(1)] by (simp_all add: fadd_def add.commute)
  have "0 \<le> round_places 4 (fdiv p (fadd p n)) \<and> round_places 4 (fdiv p (fadd p n)) \<le> 1"
    using fdiv_unit [OF p(1) pn(1)] by (intro round_places_unit) auto
  moreover have "0 \<le> round_places 4 c \<and> round_places 4 c \<le> 1" using c by (intro round_places_unit)
  moreover have "0 \<le> round_places 4 p" "0 \<le> round_places 4 n"
    using round_places_mono [OF p(1), of 4] round_places_mono [OF n(1), of 4] by simp_all
  moreover note round_places_mono [OF pn(1), of 4] round_places_mono [OF pn(2), of 4]
  ultimately show ?thesis using e by (auto simp: well_scaled_def)
qed

lemma dimension_state_scaled: "well_scaled (dimension_state exp64 dt tt active d)"
  unfolding dimension_state_def Let_def
  using total_mass_ok confidence_value_unit by (intro well_scaled_intro) (auto simp: mass_value_def)

lemma transfer_state_scaled:
  assumes "\<forall>c \<in> set active. 0 \<le> cv_evaluator_confidence c"
  shows "well_scaled (transfer_state exp64 dt tt active)"
proof -
  have "0 \<le> sr_mass row" if "row \<in> set (strong_cluster_rows dt active)" for row
    using that by (rule strong_rowE) (auto simp: strong_mass_def assms intro!: fmul_nonneg profile_nonneg)
  then have p: "mass_value (transfer_positive (strong_cluster_rows dt active))" by (intro transfer_positive_ok) blast
  have "0 \<le> CAPABILITY_TRANSFER_CONTEXT_DIVERSITY_CAP"
    by (simp add: CAPABILITY_TRANSFER_CONTEXT_DIVERSITY_CAP_def decimal_nonneg)
  then show ?thesis
    unfolding transfer_state_def Let_def
    using p transfer_negative_ok [OF assms] confidence_value_unit
    by (intro well_scaled_intro) (auto simp: mass_value_def min_le_iff_disj)
qed

text \<open>
  C21: the estimates are proportions.  For claims with non-negative evaluator confidence, every ability
  dimension and the transfer dimension of a returned estimate has an estimate and a confidence between 0
  and 1 and non-negative masses that do not exceed the effective mass; the support dependency estimate and
  its confidence lie between 0 and 1 too.  All of it in binary64 arithmetic, whatever \<^verbatim>\<open>math.exp\<close> returns.
\<close>

theorem estimates_are_proportions:
  assumes "estimate_target_state exp64 parse claims tt ti mo as_of strict = Inr est"
    and "\<forall>c \<in> set claims. 0 \<le> cv_evaluator_confidence c"
  shows "map fst (te_dimensions est) = ABILITY_DIMENSIONS \<and> (\<forall>(d, s) \<in> set (te_dimensions est). well_scaled s)
    \<and> well_scaled (te_transfer est)
    \<and> (case sd_estimate (te_support_dependency est) of None \<Rightarrow> True | Some v \<Rightarrow> 0 \<le> v \<and> v \<le> 1)
    \<and> 0 \<le> sd_confidence (te_support_dependency est) \<and> sd_confidence (te_support_dependency est) \<le> 1"
  using assms(1)
proof (rule estimate_Inr)
  let ?active = "filter (in_scope tt ti mo) claims" and ?dt = "date_of parse"
  let ?run = "dependency_run (group_by do_cluster (dependency_observations ?dt ?active))"
  assume d: "te_dimensions est = map (\<lambda>d. (d, dimension_state exp64 ?dt tt ?active d)) ABILITY_DIMENSIONS"
    and t: "te_transfer est = transfer_state exp64 ?dt tt ?active"
    and s: "te_support_dependency est = support_state exp64 ?dt tt ?active"
  have "0 \<le> ds_numerator ?run" "ds_numerator ?run \<le> ds_denominator ?run"
    using dependency_sums_ok [of ?dt ?active] by (simp_all add: sums_ok_def)
  from fdiv_unit [OF this]
  have "0 \<le> round_places 4 (fdiv (ds_numerator ?run) (ds_denominator ?run))
      \<and> round_places 4 (fdiv (ds_numerator ?run) (ds_denominator ?run)) \<le> 1" by (intro round_places_unit) auto
  moreover have "0 \<le> round_places 4 (confidence_value exp64 m dv tt k)
      \<and> round_places 4 (confidence_value exp64 m dv tt k) \<le> 1" for m dv k
    using confidence_value_unit by (intro round_places_unit) auto
  ultimately have "(case sd_estimate (te_support_dependency est) of None \<Rightarrow> True | Some v \<Rightarrow> 0 \<le> v \<and> v \<le> 1)
    \<and> 0 \<le> sd_confidence (te_support_dependency est) \<and> sd_confidence (te_support_dependency est) \<le> 1"
    by (simp add: s support_state_def Let_def split: prod.split)
  with assms(2) show ?thesis by (auto simp: d t comp_def dimension_state_scaled intro!: transfer_state_scaled)
qed

lemma demo_valid: "validate_claims [demo_claim] = []"
  by (simp add: validate_claims_Nil claim_ok_def one_primary_def demo_claim_def)

lemma demo_returns: "\<exists>est. demo_run [demo_claim] = Inr est"
  by (simp add: estimate_target_state_def estimate_active_def demo_valid checkE_def in_scope_def freshness_of_def
      demo_parse_def Let_def split: list.split)

theorem estimates_are_proportions_witness:
  "\<exists>est. demo_run [demo_claim] = Inr est \<and> map fst (te_dimensions est) = ABILITY_DIMENSIONS
     \<and> (\<forall>(d, s) \<in> set (te_dimensions est). well_scaled s)"
proof -
  obtain est where est: "demo_run [demo_claim] = Inr est" using demo_returns by blast
  have "\<forall>c \<in> set [demo_claim]. 0 \<le> cv_evaluator_confidence c" by (simp add: demo_claim_def)
  from estimates_are_proportions [OF est this] est show ?thesis by blast
qed

section \<open>What an estimate depends on\<close>

definition band_rank :: "string \<Rightarrow> nat" where
  "band_rank b = (if b = ''FRESH'' then 0 else if b = ''AGING'' then 1 else if b = ''STALE'' then 2 else 3)"

lemma days_between_mono:
  "dt_micros a \<le> dt_micros b \<Longrightarrow> days_between a t \<le> days_between b t"
  unfolding days_between_def fdiv_def by (intro max.mono rnd64_mono divide_right_mono) auto

lemma freshness_band_mono: "x \<le> y \<Longrightarrow> band_rank (freshness_band_of x) \<le> band_rank (freshness_band_of y)"
  by (auto simp: freshness_band_of_def band_rank_def)

lemma freshness_later:
  assumes "freshness_of parse dt active a = Inr fresh" and "parse b = Some tb"
    and "\<And>ta. parse a = Some ta \<Longrightarrow> dt_micros ta \<le> dt_micros tb"
  shows "\<exists>fresh'. freshness_of parse dt active b = Inr fresh' \<and> band_rank (fr_band fresh) \<le> band_rank (fr_band fresh')"
proof (cases "map (dt \<circ> cv_timestamp) (filter is_strong_retrieval active)")
  case Nil
  with assms(1) show ?thesis by (simp add: freshness_of_def)
next
  case (Cons t ts)
  with assms(1) obtain ta where "parse a = Some ta" by (auto simp: freshness_of_def split: option.splits)
  with Cons assms show ?thesis
    by (auto simp: freshness_of_def Let_def intro!: freshness_band_mono days_between_mono)
qed

text \<open>
  C22: an estimate depends on its own evidence only, and the clock ages nothing but freshness.  Claims of
  another target or modality, and claims that are not ACTIVE, can be left out without any change.  A later
  \<^verbatim>\<open>as_of\<close> changes no dimension, no coverage count, no learning flag and no band except freshness and
  stability, and freshness never gets younger.
\<close>

theorem estimate_depends_on_own_evidence:
  assumes "estimate_target_state exp64 parse claims tt ti mo as_of True = Inr est"
    and "parse later = Some tb" and "\<And>ta. parse as_of = Some ta \<Longrightarrow> dt_micros ta \<le> dt_micros tb"
  shows "estimate_target_state exp64 parse (filter (in_scope tt ti mo) claims) tt ti mo as_of True = Inr est
    \<and> (\<exists>fresh stability. estimate_target_state exp64 parse claims tt ti mo later True
         = Inr (est\<lparr>te_freshness := fresh, te_projection := (te_projection est)\<lparr>pj_stability_band := stability\<rparr>\<rparr>)
         \<and> band_rank (fr_band (te_freshness est)) \<le> band_rank (fr_band fresh))"
proof -
  from assms(1) obtain fresh where fresh: "freshness_of parse (date_of parse) (filter (in_scope tt ti mo) claims) as_of = Inr fresh"
    and valid: "validate_claims claims = []" and f: "te_freshness est = fresh" by (rule estimate_Inr) simp
  obtain fresh' where later: "freshness_of parse (date_of parse) (filter (in_scope tt ti mo) claims) later = Inr fresh'"
    "band_rank (fr_band fresh) \<le> band_rank (fr_band fresh')"
    using freshness_later [OF fresh assms(2,3)] by blast
  have "validate_claims (filter (in_scope tt ti mo) claims) = []" by (rule validate_claims_filter [OF valid])
  with assms(1) valid
  have "estimate_target_state exp64 parse (filter (in_scope tt ti mo) claims) tt ti mo as_of True = Inr est"
    by (simp add: estimate_target_state_def)
  moreover have "estimate_target_state exp64 parse claims tt ti mo later True
      = Inr (est\<lparr>te_freshness := fresh', te_projection := (te_projection est)\<lparr>pj_stability_band :=
          stability_band (filter (in_scope tt ti mo) claims)
            (strong_counts (date_of parse) (filter (in_scope tt ti mo) claims)) (fr_band fresh')\<rparr>\<rparr>)"
    using assms(1) valid fresh later(1)
    by (auto simp: estimate_target_state_def estimate_active_def checkE_def Let_def split: if_splits)
  ultimately show ?thesis using later(2) f by blast
qed

theorem estimate_depends_on_own_evidence_witness:
  "\<exists>est. demo_run [demo_claim] = Inr est
     \<and> estimate_target_state demo_exp demo_parse (filter (in_scope ''RESOURCE'' ''x'' ''TEXT_PRODUCTION'') [demo_claim])
         ''RESOURCE'' ''x'' ''TEXT_PRODUCTION'' ''t9'' True = Inr est"
proof -
  obtain est where est: "demo_run [demo_claim] = Inr est" using demo_returns by blast
  obtain t where t: "demo_parse ''t9'' = Some t" by (simp add: demo_parse_def)
  from estimate_depends_on_own_evidence [OF est t] t est show ?thesis by auto
qed

section \<open>What transfer and support dependency need\<close>

lemma two_values:
  assumes "2 \<le> distinct_count xs"
  obtains x y where "x \<in> set xs" "y \<in> set xs" "x \<noteq> y"
proof -
  have "\<not> card (set xs) \<le> 1" using assms by (simp add: distinct_count_def length_remdups_card_conv)
  then show ?thesis using that card_le_Suc0_iff_eq [of "set xs"] by (metis One_nat_def finite_set)
qed

lemma two_rows:
  assumes "2 \<le> distinct_count (map f (strong_cluster_rows dt active))"
  shows "\<exists>r \<in> set (strong_cluster_rows dt active). \<exists>r' \<in> set (strong_cluster_rows dt active).
    f r \<noteq> f r' \<and> sr_cluster r \<noteq> sr_cluster r'"
proof -
  obtain x y where "x \<in> set (map f (strong_cluster_rows dt active))" "y \<in> set (map f (strong_cluster_rows dt active))" "x \<noteq> y"
    by (rule two_values [OF assms])
  then obtain r r' where r: "r \<in> set (strong_cluster_rows dt active)" "r' \<in> set (strong_cluster_rows dt active)" "f r \<noteq> f r'"
    by auto
  then have "sr_cluster r \<noteq> sr_cluster r'"
    using strong_rows_distinct [of dt active] by (auto simp: distinct_map inj_on_def)
  with r show ?thesis by blast
qed

definition condition_of :: "claim_view \<Rightarrow> string \<times> string \<times> string" where
  "condition_of c = (or_else (cv_context_key c) ''unknown'', or_else (cv_persona_id c) ''none'',
     or_else (cv_realization_key c) ''unknown'')"

text \<open>
  Transfer needs success under two conditions.  A transfer estimate exists only if two strong
  retrievals of the target lie in different clusters and differ in context, persona or realization, and
  for a capability in realization; so repeated success inside one teaching moment never proves transfer.
\<close>

theorem transfer_needs_two_conditions:
  assumes "estimate_target_state exp64 parse claims tt ti mo as_of strict = Inr est"
    and "ms_estimate (te_transfer est) \<noteq> None"
  shows "\<exists>c \<in> set claims. \<exists>c' \<in> set claims. in_scope tt ti mo c \<and> in_scope tt ti mo c'
    \<and> is_strong_retrieval c \<and> is_strong_retrieval c'
    \<and> cluster_key (date_of parse) c \<noteq> cluster_key (date_of parse) c' \<and> condition_of c \<noteq> condition_of c'
    \<and> (tt = ''CAPABILITY'' \<longrightarrow> or_else (cv_realization_key c) ''unknown'' \<noteq> or_else (cv_realization_key c') ''unknown'')"
proof -
  let ?active = "filter (in_scope tt ti mo) claims" and ?dt = "date_of parse"
  let ?rows = "strong_cluster_rows ?dt ?active"
  from assms(1) have "te_transfer est = transfer_state exp64 ?dt tt ?active" by (rule estimate_Inr)
  with assms(2) have "transfer_gate tt (strong_counts ?dt ?active)"
    by (auto simp: transfer_state_def Let_def split: if_splits)
  then have gate: "2 \<le> distinct_count (map sr_context ?rows) \<or> 2 \<le> distinct_count (map sr_persona ?rows)
      \<or> 2 \<le> distinct_count (map sr_realization ?rows)"
    "tt = ''CAPABILITY'' \<Longrightarrow> 2 \<le> distinct_count (map sr_realization ?rows)"
    by (auto simp: transfer_gate_def strong_counts_def Let_def)
  have "\<exists>r \<in> set ?rows. \<exists>r' \<in> set ?rows. sr_cluster r \<noteq> sr_cluster r'
      \<and> (sr_context r \<noteq> sr_context r' \<or> sr_persona r \<noteq> sr_persona r' \<or> sr_realization r \<noteq> sr_realization r')
      \<and> (tt = ''CAPABILITY'' \<longrightarrow> sr_realization r \<noteq> sr_realization r')"
  proof (cases "tt = ''CAPABILITY''")
    case True
    from two_rows [OF gate(2) [OF True]] show ?thesis by blast
  next
    case False
    with gate(1) two_rows [of sr_context ?dt ?active] two_rows [of sr_persona ?dt ?active]
      two_rows [of sr_realization ?dt ?active] show ?thesis by blast
  qed
  then obtain r r' where r: "r \<in> set ?rows" "r' \<in> set ?rows" "sr_cluster r \<noteq> sr_cluster r'"
    "sr_context r \<noteq> sr_context r' \<or> sr_persona r \<noteq> sr_persona r' \<or> sr_realization r \<noteq> sr_realization r'"
    "tt = ''CAPABILITY'' \<longrightarrow> sr_realization r \<noteq> sr_realization r'" by blast
  from r(1) obtain c where c: "c \<in> set ?active" "is_strong_retrieval c" "cluster_key ?dt c = sr_cluster r"
    "sr_context r = or_else (cv_context_key c) ''unknown''" "sr_persona r = or_else (cv_persona_id c) ''none''"
    "sr_realization r = or_else (cv_realization_key c) ''unknown''" by (rule strong_rowE)
  from r(2) obtain c' where c': "c' \<in> set ?active" "is_strong_retrieval c'" "cluster_key ?dt c' = sr_cluster r'"
    "sr_context r' = or_else (cv_context_key c') ''unknown''" "sr_persona r' = or_else (cv_persona_id c') ''none''"
    "sr_realization r' = or_else (cv_realization_key c') ''unknown''" by (rule strong_rowE)
  show ?thesis
    using c c' r(3-5) by (intro bexI [of _ c] bexI [of _ c']) (auto simp: condition_of_def)
qed

lemma threshold_positive: "0 < SUPPORT_DEPENDENCY_MIN_MASS" "0 < decimal 50 100"
  by (code_simp)+

lemma mass_of_read_default: "mass_of (read_default k m) j = mass_of m j"
proof (cases "k \<in> fst ` set m")
  case False
  then have "map_of m k = None" by (simp add: map_of_eq_None_iff)
  with False show ?thesis by (simp add: read_default_def mass_of_def get_or_def update_conv')
qed (simp add: read_default_def)

lemma identifiable_kinds:
  assumes "fst (dependency_identifiable m)"
  shows "0 < mass_of m ''low_success'' \<or> 0 < mass_of m ''assisted_success'' \<and> 0 < mass_of m ''low_failure''"
  using assms threshold_positive by (auto simp: dependency_identifiable_def Let_def mass_of_read_default split: if_splits)

lemma burden_low_iff:
  "burden_of c \<le> decimal 10 100 \<longleftrightarrow>
     cv_support_level c \<notin> {''SEMANTIC_HINT'', ''STRUCTURAL_HINT'', ''PARTIAL_FORM'', ''FULL_FORM_SHOWN''}
     \<and> cv_exposure_level c \<notin> {''PARTIAL'', ''FULL''}"
proof -
  have "0 \<le> decimal 10 100" "decimal 0 100 \<le> decimal 10 100" "\<not> decimal 35 100 \<le> decimal 10 100" "\<not> decimal 55 100 \<le> decimal 10 100"
    "\<not> decimal 75 100 \<le> decimal 10 100" "\<not> decimal 95 100 \<le> decimal 10 100" by code_simp+
  then show ?thesis
    by (auto simp: burden_of_def get_or_def SUPPORT_BURDEN_def EXPOSURE_BURDEN_def)
qed

text \<open>
  Support dependency needs contrast.  An estimate exists only if the evidence in scope holds an
  unassisted success, or both an assisted success and a failure with low support; so neither repeated
  failure alone nor assisted success alone ever yields one.
\<close>

theorem dependency_needs_contrast:
  assumes "estimate_target_state exp64 parse claims tt ti mo as_of strict = Inr est"
    and "sd_estimate (te_support_dependency est) \<noteq> None"
  defines "assisted \<equiv> \<lambda>c. cv_support_level c \<in> {''SEMANTIC_HINT'', ''STRUCTURAL_HINT'', ''PARTIAL_FORM'', ''FULL_FORM_SHOWN''}
      \<or> cv_exposure_level c \<in> {''PARTIAL'', ''FULL''}"
  shows "(\<exists>c \<in> set claims. in_scope tt ti mo c \<and> success_claim c \<and> \<not> assisted c)
    \<or> (\<exists>c \<in> set claims. in_scope tt ti mo c \<and> success_claim c \<and> assisted c)
      \<and> (\<exists>c \<in> set claims. in_scope tt ti mo c \<and> failure_claim c \<and> low_support c)"
proof -
  let ?active = "filter (in_scope tt ti mo) claims" and ?dt = "date_of parse"
  let ?obs = "dependency_observations ?dt ?active"
  let ?kinds = "ds_kind_mass (dependency_run (group_by do_cluster ?obs))"
  from assms(1) have "te_support_dependency est = support_state exp64 ?dt tt ?active" by (rule estimate_Inr)
  with assms(2) have "fst (dependency_identifiable ?kinds)"
    by (auto simp: support_state_def Let_def split: prod.splits if_splits)
  then have kinds: "0 < mass_of ?kinds ''low_success''
      \<or> 0 < mass_of ?kinds ''assisted_success'' \<and> 0 < mass_of ?kinds ''low_failure''"
    by (rule identifiable_kinds)
  have obs: "\<exists>ob \<in> set ?obs. do_kind ob = k" if "0 < mass_of ?kinds k" for k
    using dependency_sums_ok [of ?dt ?active] that by (auto simp: sums_ok_def)
  have claim: "\<exists>c \<in> set claims. in_scope tt ti mo c
      \<and> (k = ''low_success'' \<and> success_claim c \<and> \<not> assisted c \<or> k = ''assisted_success'' \<and> success_claim c \<and> assisted c
         \<or> k = ''low_failure'' \<and> failure_claim c \<and> low_support c \<or> k = ''supported_failure'')"
    if pos: "0 < mass_of ?kinds k" for k
  proof -
    obtain ob where ob: "ob \<in> set ?obs" "do_kind ob = k" using obs [OF pos] by blast
    obtain cs where cs: "ob \<in> set (observation_of ?dt cs)" "set cs \<subseteq> set ?active" by (rule observations_member [OF ob(1)])
    from cs(1) show ?thesis
    proof (cases rule: observation_ofE)
      case (success c)
      then show ?thesis using cs(2) ob(2) burden_low_iff [of c]
        by (intro bexI [of _ c]) (auto simp: assisted_def split: if_splits)
    next
      case (failure c)
      then show ?thesis using cs(2) ob(2) by (intro bexI [of _ c]) (auto split: if_splits)
    qed
  qed
  from kinds claim [of "''low_success''"] claim [of "''assisted_success''"] claim [of "''low_failure''"]
  show ?thesis by auto
qed

section \<open>Witnesses\<close>

definition retrieval :: "string \<Rightarrow> string \<Rightarrow> claim_view" where
  "retrieval g ctx = demo_claim\<lparr>cv_group_id := g, cv_performance_type := ''INDEPENDENT_PRODUCTION'',
     cv_teaching_moment_id := None, cv_context_key := Some ctx\<rparr>"

definition two_contexts :: "claim_view list" where
  "two_contexts = [retrieval ''g1'' ''home'', retrieval ''g2'' ''work'']"

lemma two_contexts_run: "\<exists>est. demo_run two_contexts = Inr est"
proof -
  have "validate_claims two_contexts = []" by code_simp
  moreover have "filter (in_scope ''RESOURCE'' ''x'' ''TEXT_PRODUCTION'') two_contexts = two_contexts" by code_simp
  moreover have "list_all (\<lambda>c. demo_parse (cv_timestamp c) \<noteq> None) two_contexts" by code_simp
  moreover have "\<exists>fresh. freshness_of demo_parse (date_of demo_parse) two_contexts ''t9'' = Inr fresh" 
    by (simp add: freshness_of_def demo_parse_def Let_def split: list.split)
  ultimately show ?thesis
    by (auto simp: estimate_target_state_def estimate_active_def checkE_def Let_def list_all_iff)
qed

lemma small_floats:
  "rnd64 1 = 1" "rnd64 2 = 2" "decimal 100 100 = 1" "decimal 0 100 = 0" "fmul 1 1 = 1" "fmul x 0 = 0" "fmul 0 x = 0"
  "fadd 0 1 = 1" "fadd 1 1 = 2" "fadd 0 0 = 0" "fadd 1 0 = 1"
  using rnd64_int_multiple [of 0 1] rnd64_int_multiple [of 0 2] by (simp_all add: decimal_def fmul_def fadd_def)

lemma small_thresholds: "decimal 55 100 \<le> 1" "decimal 120 100 \<le> 2" "decimal 70 100 \<le> 1" "decimal 50 100 \<le> 1" "0 \<le> decimal 10 100"
  using rnd64_mono [of "120 / 100" 2] small_floats(2) by (simp_all add: decimal_le_1 decimal_nonneg) (simp add: decimal_def)

lemma retrieval_facts:
  "is_strong_retrieval (retrieval g ctx)" "strong_mass (retrieval g ctx) = 1" "cv_timestamp (retrieval g ctx) = ''t1''"
  "ctx \<noteq> [] \<Longrightarrow> or_else (cv_context_key (retrieval g ctx)) u = ctx" "cv_polarity (retrieval g ctx) = ''POSITIVE''"
  "ctx \<noteq> [] \<Longrightarrow> cluster_key dt (retrieval g ctx) = ''natural:conv:none:'' @ dt_date (dt ''t1'') @ '':'' @ ctx @ '':realization:unknown:persona:none''"
  using small_thresholds small_floats
  by (simp_all add: retrieval_def demo_claim_def is_strong_retrieval_def strong_mass_def assist_factor_def get_or_def
      SUPPORT_FACTOR_def EXPOSURE_FACTOR_def STRONG_RETRIEVAL_MIN_CONFIDENCE_def STRONG_RETRIEVAL_MIN_ASSIST_def
      cluster_key_def truthy_def or_else_def Let_def)

lemma two_contexts_transfer: "ms_estimate (transfer_state demo_exp (date_of demo_parse) ''RESOURCE'' two_contexts) \<noteq> None"
proof -
  let ?dt = "date_of demo_parse" and ?h = "retrieval ''g1'' ''home''" and ?w = "retrieval ''g2'' ''work''"
  have clus: "strong_by_cluster ?dt two_contexts = [(cluster_key ?dt ?h, [?h]), (cluster_key ?dt ?w, [?w])]"
    by (simp add: strong_by_cluster_def two_contexts_def retrieval_facts group_by_def)
  then have rows: "strong_cluster_rows ?dt two_contexts = [strong_row_of ?dt (cluster_key ?dt ?h, [?h]), strong_row_of ?dt (cluster_key ?dt ?w, [?w])]"
    by (simp add: strong_cluster_rows_def strong_row_of_def date_of_def demo_parse_def Let_def)
  have "transfer_positive (strong_cluster_rows ?dt two_contexts) = 1"
    unfolding rows by (simp add: transfer_positive_def strong_row_of_def retrieval_facts Let_def small_floats)
  moreover have "transfer_negative ?dt two_contexts = 0"
    by (simp add: transfer_negative_def two_contexts_def retrieval_facts group_by_def)
  moreover have "transfer_gate ''RESOURCE'' (strong_counts ?dt two_contexts)"
    by (simp add: transfer_gate_def strong_counts_def rows clus distinct_count_def strong_row_of_def retrieval_facts Let_def)
  ultimately show ?thesis
    by (simp add: transfer_state_def Let_def small_floats small_thresholds DIMENSION_MIN_EFFECTIVE_MASS_def)
qed

lemma two_contexts_support: "sd_estimate (support_state demo_exp (date_of demo_parse) ''RESOURCE'' two_contexts) \<noteq> None"
proof -
  let ?dt = "date_of demo_parse" and ?h = "retrieval ''g1'' ''home''" and ?w = "retrieval ''g2'' ''work''"
  let ?ob = "\<lambda>c. \<lparr>do_cluster = cluster_key ?dt c, do_timestamp = ?dt ''t1'', do_burden = 0, do_mass = 1,
    do_kind = ''low_success'', do_iso = ''t1''\<rparr>"
  have one: "observation_of ?dt [retrieval g ctx] = [?ob (retrieval g ctx)]" for g ctx
    using small_thresholds small_floats
    by (simp add: observation_of_def PRODUCTION_TYPES_def CLAIM_MIN_CONFIDENCE_def Let_def get_or_def SUPPORT_BURDEN_def
        EXPOSURE_BURDEN_def outcome_factor_def OUTCOME_FACTOR_def retrieval_def demo_claim_def)
  have "by_group two_contexts = [(''g1'', [?h]), (''g2'', [?w])]"
    by (simp add: by_group_def group_by_def two_contexts_def retrieval_def demo_claim_def)
  then have "dependency_observations ?dt two_contexts = [?ob ?h, ?ob ?w]"
    by (simp add: dependency_observations_def one)
  moreover have "group_by do_cluster [?ob ?h, ?ob ?w] = [(cluster_key ?dt ?h, [?ob ?h]), (cluster_key ?dt ?w, [?ob ?w])]"
    by (simp add: group_by_def retrieval_facts)
  moreover have "dependency_run [(cluster_key ?dt ?h, [?ob ?h]), (cluster_key ?dt ?w, [?ob ?w])]
      = \<lparr>ds_numerator = 0, ds_denominator = 2, ds_kind_mass = [(''low_success'', 2)]\<rparr>"
    by (simp add: dependency_run_def observe_def repeat_weight_def SAME_CLUSTER_REPEAT_WEIGHTS_def add_mass_def mass_of_def
        get_or_def Let_def small_floats)
  ultimately show ?thesis
    by (simp add: support_state_def Let_def dependency_identifiable_def read_default_def mass_of_def get_or_def
        SUPPORT_DEPENDENCY_MIN_MASS_def small_thresholds)
qed

lemma two_contexts_scope: "filter (in_scope ''RESOURCE'' ''x'' ''TEXT_PRODUCTION'') two_contexts = two_contexts"
  by (simp add: two_contexts_def in_scope_def retrieval_def demo_claim_def)

theorem transfer_needs_two_conditions_witness:
  "\<exists>est. demo_run two_contexts = Inr est \<and> ms_estimate (te_transfer est) \<noteq> None
     \<and> (\<exists>c \<in> set two_contexts. \<exists>c' \<in> set two_contexts. condition_of c \<noteq> condition_of c')"
proof -
  obtain est where est: "demo_run two_contexts = Inr est" using two_contexts_run by blast
  then have "te_transfer est = transfer_state demo_exp (date_of demo_parse) ''RESOURCE'' two_contexts"
    by (rule estimate_Inr) (simp add: two_contexts_scope)
  with two_contexts_transfer have known: "ms_estimate (te_transfer est) \<noteq> None" by simp
  with transfer_needs_two_conditions [OF est] est show ?thesis by blast
qed

theorem dependency_needs_contrast_witness:
  "\<exists>est. demo_run two_contexts = Inr est \<and> sd_estimate (te_support_dependency est) \<noteq> None
     \<and> (\<exists>c \<in> set two_contexts. success_claim c)"
proof -
  obtain est where est: "demo_run two_contexts = Inr est" using two_contexts_run by blast
  then have "te_support_dependency est = support_state demo_exp (date_of demo_parse) ''RESOURCE'' two_contexts"
    by (rule estimate_Inr) (simp add: two_contexts_scope)
  with two_contexts_support have known: "sd_estimate (te_support_dependency est) \<noteq> None" by simp
  with dependency_needs_contrast [OF est] est show ?thesis by blast
qed

section \<open>Departures from the frozen specification\<close>

text \<open>
  Below the confidence floor a claim adds no mass to any ability dimension, but the negative side of
  transfer is summed without the floor: a failure the evaluator gave a confidence of 0.1 still counts
  against transfer.
\<close>

definition doubtful_failure :: claim_view where
  "doubtful_failure = demo_claim\<lparr>cv_performance_type := ''FAILED_ATTEMPT'', cv_polarity := ''NEGATIVE'',
     cv_outcome := ''FAILURE'', cv_evaluator_confidence := decimal 10 100, cv_qualifiers := [''CROSS_CONTEXT'']\<rparr>"

theorem transfer_ignores_confidence_floor:
  "claim_contribution doubtful_failure = ([], []) \<and> 0 < transfer_negative dt [doubtful_failure]"
proof
  have "decimal 10 100 < decimal 50 100" by code_simp
  then show "claim_contribution doubtful_failure = ([], [])"
    by (simp add: claim_contribution_def doubtful_failure_def CLAIM_MIN_CONFIDENCE_def)
  have "0 < fadd 0 (fmul (decimal 10 100) (decimal 60 100))" by code_simp
  then show "0 < transfer_negative dt [doubtful_failure]"
    by (simp add: transfer_negative_def group_by_def novel_qualified_def doubtful_failure_def demo_claim_def
        error_multiplier_def ERROR_ATTRIBUTION_DEFAULT_MULTIPLIER_def)
qed

section \<open>Order of the claims\<close>

definition attempt :: "string \<Rightarrow> float64 \<Rightarrow> claim_view" where
  "attempt g conf = demo_claim\<lparr>cv_group_id := g, cv_evaluator_confidence := conf\<rparr>"

lemma fmul_one: "is_float64 x \<Longrightarrow> fmul 1 x = x" "is_float64 x \<Longrightarrow> fmul x 1 = x" "is_float64 x \<Longrightarrow> fadd 0 x = x"
  by (simp_all add: fmul_def fadd_def is_float64_def)

lemma attempt_contribution:
  assumes "is_float64 conf" and "CLAIM_MIN_CONFIDENCE \<le> conf"
  shows "claim_contribution (attempt g conf) =
    ([(''recognition'', times3 (decimal 75 100) 1 conf 1), (''guided_production'', conf)], [])"
proof -
  have "assist_factor (attempt g conf) = 1" "outcome_factor (attempt g conf) = 1"
    using small_floats by (simp_all add: attempt_def demo_claim_def assist_factor_def outcome_factor_def get_or_def
      SUPPORT_FACTOR_def EXPOSURE_FACTOR_def OUTCOME_FACTOR_def)
  moreover have "is_float64 (times3 (decimal 75 100) 1 conf 1)" by (simp add: times3_def)
  moreover have "times3 1 1 conf 1 = conf" using assms(1) by (simp add: times3_def fmul_one)
  ultimately have top: "topology_mass (attempt g conf) [] = [(''recognition'', times3 (decimal 75 100) 1 conf 1), (''guided_production'', conf)]"
    using small_floats assms(1)
    by (simp add: topology_mass_def attempt_def demo_claim_def get_or_def POSITIVE_MAPPING_def add_mass_def mass_of_def fmul_one)
  show ?thesis
    using assms(2)
    by (simp add: claim_contribution_def Let_def top)
      (simp add: attempt_def demo_claim_def POSITIVE_MAPPING_def quality_mass_def self_repair_support_def partial_residual_def
        DIRECT_DIMENSION_def)
qed

lemma attempt_row:
  assumes "is_float64 conf" and "CLAIM_MIN_CONFIDENCE \<le> conf"
  shows "mass_of (gr_p (group_row_of (date_of demo_parse) (g, [attempt g conf]))) ''guided_production'' = conf"
    and "gr_cluster (group_row_of (date_of demo_parse) (g, [attempt g conf])) = ''teach:m''"
    and "gr_timestamp (group_row_of (date_of demo_parse) (g, [attempt g conf])) = date_of demo_parse ''t1''"
proof -
  have "0 \<le> conf" using assms(2) profile_nonneg(4) by linarith
  moreover have "0 \<le> times3 (decimal 75 100) 1 conf 1" using \<open>0 \<le> conf\<close> by (intro times3_nonneg) (auto simp: decimal_nonneg)
  ultimately show "mass_of (gr_p (group_row_of (date_of demo_parse) (g, [attempt g conf]))) ''guided_production'' = conf"
    by (simp add: group_row_of_def aggregate_group_def attempt_contribution [OF assms] max_into_def mass_of_def get_or_def Let_def)
  show "gr_cluster (group_row_of (date_of demo_parse) (g, [attempt g conf])) = ''teach:m''"
    "gr_timestamp (group_row_of (date_of demo_parse) (g, [attempt g conf])) = date_of demo_parse ''t1''"
    by (simp_all add: group_row_of_def Let_def cluster_key_def attempt_def demo_claim_def truthy_def or_else_def)
qed

lemma mass_of_aggregate_side:
  "mass_of (aggregate_side side rows) ''guided_production'' = (case side_values side rows ''guided_production'' of [] \<Rightarrow> 0
     | v # vs \<Rightarrow> min (repeated_sum (v # vs)) (fmul SAME_CLUSTER_MASS_CAP_MULTIPLE (Max (set (v # vs)))))"
  by (simp add: aggregate_side_def ABILITY_DIMENSIONS_def mass_of_def get_or_def split: list.split)

lemma two_attempts_mass:
  assumes x: "is_float64 x" "CLAIM_MIN_CONFIDENCE \<le> x" and y: "is_float64 y" "CLAIM_MIN_CONFIDENCE \<le> y" and "g \<noteq> h"
  shows "total_mass fst (by_cluster (date_of demo_parse) [attempt g x, attempt h y]) ''guided_production''
    = min (fadd x (fmul (decimal 35 100) y)) (fmul (decimal 160 100) (max x y))"
proof -
  let ?row = "\<lambda>g c. group_row_of (date_of demo_parse) (g, [attempt g c])"
  have pos: "0 < x" "0 < y" using x(2) y(2) threshold_positive(2) by (auto simp: CLAIM_MIN_CONFIDENCE_def)
  have "by_group [attempt g x, attempt h y] = [(g, [attempt g x]), (h, [attempt h y])]"
    using assms(5) by (simp add: by_group_def group_by_def attempt_def)
  then have "by_cluster (date_of demo_parse) [attempt g x, attempt h y] = [(''teach:m'', [?row g x, ?row h y])]"
    by (simp add: by_cluster_def group_by_def attempt_row [OF x] attempt_row [OF y])
  moreover have "side_values gr_p [?row g x, ?row h y] ''guided_production'' = [x, y]"
    using pos by (simp add: side_values_def attempt_row [OF x] attempt_row [OF y])
  moreover have "repeated_sum [x, y] = fadd x (fmul (decimal 35 100) y)"
    using x(1) small_floats by (simp add: repeated_sum_def repeat_weight_def SAME_CLUSTER_REPEAT_WEIGHTS_def fmul_one)
  moreover have "sort_key (dt_micros \<circ> gr_timestamp) [?row g x, ?row h y] = [?row g x, ?row h y]"
    by (simp add: attempt_row [OF x] attempt_row [OF y])
  moreover have "mass_value (min (fadd x (fmul (decimal 35 100) y)) (fmul (decimal 160 100) (max x y)))"
    using pos by (auto simp: mass_value_def min_def intro!: fadd_nonneg fmul_nonneg decimal_nonneg)
  ultimately show ?thesis
    by (auto simp: total_mass_def aggregate_cluster_def mass_of_aggregate_side SAME_CLUSTER_MASS_CAP_MULTIPLE_def
        mass_value_def fmul_one Let_def max.commute)
qed

text \<open>
  Two attempts of one teaching moment at the same instant, one rated twice as high as the other: the
  estimator weighs whichever claim it receives first in full and the other at a third, so the mass, and
  with it the estimate's confidence, depends on the order of the claims.
\<close>

theorem order_of_equal_timestamps_matters:
  "\<exists>est est'. demo_run [attempt ''g1'' 1, attempt ''g2'' (1 / 2)] = Inr est
     \<and> demo_run [attempt ''g2'' (1 / 2), attempt ''g1'' 1] = Inr est' \<and> te_dimensions est \<noteq> te_dimensions est'"
proof -
  let ?dt = "date_of demo_parse" and ?a = "attempt ''g1'' 1" and ?b = "attempt ''g2'' (1 / 2)"
  have half: "is_float64 (1 / 2)" "CLAIM_MIN_CONFIDENCE \<le> 1 / 2" "CLAIM_MIN_CONFIDENCE \<le> 1"
    using rnd64_int_multiple [of "- 1" 1] by (simp_all add: is_float64_def CLAIM_MIN_CONFIDENCE_def decimal_def)
  have run: "\<exists>est. demo_run cs = Inr est \<and> te_dimensions est = map (\<lambda>d. (d, dimension_state demo_exp ?dt ''RESOURCE'' cs d)) ABILITY_DIMENSIONS"
    if "cs = [?a, ?b] \<or> cs = [?b, ?a]" for cs
  proof -
    have "validate_claims cs = []" "filter (in_scope ''RESOURCE'' ''x'' ''TEXT_PRODUCTION'') cs = cs"
      using that by (auto simp: validate_claims_Nil claim_ok_def one_primary_def is_primary_def primary_key_def in_scope_def
          attempt_def demo_claim_def)
    then show ?thesis
      by (simp add: estimate_target_state_def estimate_active_def checkE_def freshness_of_def demo_parse_def Let_def split: list.split)
  qed
  have seven: "rnd64 (7 / 8) = 7 / 8" "rnd64 (3 / 8) = 3 / 8"
    using rnd64_int_multiple [of "- 3" 7] rnd64_int_multiple [of "- 3" 3] by (simp_all add: power_int_minus)
  have "1 \<le> fadd 1 (fmul (decimal 35 100) (1 / 2))"
    by (intro fadd_ge) (auto intro!: fmul_nonneg decimal_nonneg)
  moreover have "1 \<le> fmul (decimal 160 100) 1"
    using rnd64_mono [of 1 "160 / 100"] small_floats(1) by (simp add: fmul_one) (simp add: decimal_def)
  ultimately have "1 \<le> total_mass fst (by_cluster ?dt [?a, ?b]) ''guided_production''"
    using two_attempts_mass [of 1 "1 / 2" "''g1''" "''g2''"] half by (simp add: max_def)
  from round_places_mono [OF this, of 4]
  have more: "1 \<le> round_places 4 (total_mass fst (by_cluster ?dt [?a, ?b]) ''guided_production'')" by simp
  have "decimal 35 100 \<le> 3 / 8" using rnd64_mono [of "35 / 100" "3 / 8"] seven(2) by (simp add: decimal_def)
  then have "fadd (1 / 2) (decimal 35 100) \<le> 7 / 8"
    using rnd64_mono [of "1 / 2 + decimal 35 100" "7 / 8"] seven(1) by (simp add: fadd_def)
  then have "total_mass fst (by_cluster ?dt [?b, ?a]) ''guided_production'' \<le> 7 / 8"
    using two_attempts_mass [of "1 / 2" 1 "''g2''" "''g1''"] half by (simp add: fmul_one min_le_iff_disj)
  from round_places_mono [OF this, of 4]
  have "round_places 4 (total_mass fst (by_cluster ?dt [?b, ?a]) ''guided_production'') \<le> 7 / 8"
    using seven(1) round_even_of_int [of 8750] by (simp add: round_places_def)
  with more have "dimension_state demo_exp ?dt ''RESOURCE'' [?a, ?b] ''guided_production''
      \<noteq> dimension_state demo_exp ?dt ''RESOURCE'' [?b, ?a] ''guided_production''"
    by (auto simp: dimension_state_def Let_def)
  with run [of "[?a, ?b]"] run [of "[?b, ?a]"] show ?thesis by (fastforce simp: ABILITY_DIMENSIONS_def)
qed

end
