(* ===== verification/Schedule_Policy.thy ===== *)
theory Schedule_Policy
  imports Python_Text Binary64 Planner_Types
begin

text \<open>
  \<^verbatim>\<open>elc/scheduler/types.py\<close>, \<^verbatim>\<open>spacing.py\<close> and \<^verbatim>\<open>authority.py\<close>: the rows of the review scheduler, its
  pure due decision (anchor, ladder position, window, state, urgency), the content-addressed version of
  a row, and the handshake on the evidence watermark.  Freshness is the one field its port declares.
\<close>

section \<open>Rows\<close>

datatype spacing_stage = STAGE_0 | STAGE_1 | STAGE_2 | STAGE_3 | STAGE_4

record schedule_item =
  si_schedule_item_id :: string
  si_target_type :: string
  si_target_id :: string
  si_evidence_modality :: evidence_modality
  si_review_state :: review_state
  si_review_urgency :: "float64 option"
  si_next_review_window_start :: "string option"
  si_next_review_window_end :: "string option"
  si_spacing_stage :: "spacing_stage option"
  si_source_learning_watermark :: string
  si_version :: string
  si_updated_at :: string

record review_event =
  re_review_event_id :: string
  re_schedule_item_id :: string
  re_teaching_moment_id :: "string option"
  re_source_turn_id :: "string option"
  re_event_type :: string
  re_engaged :: bool
  re_evidence_group_id :: "string option"
  re_created_at :: string

record scheduler_view =
  vw_schedule_version :: string
  vw_as_of :: string
  vw_due_items :: "schedule_item list"
  vw_overdue_items :: "schedule_item list"
  vw_upcoming :: "schedule_item list"

text \<open>The words of the enumerations, as stored.\<close>

definition MODALITY_MEMBERS :: "(string \<times> evidence_modality) list" where
  "MODALITY_MEMBERS = [(''TEXT_PRODUCTION'', TEXT_PRODUCTION), (''TEXT_COMPREHENSION'', TEXT_COMPREHENSION)]"

definition REVIEW_STATE_MEMBERS :: "(string \<times> review_state) list" where
  "REVIEW_STATE_MEMBERS = [(''NOT_SCHEDULED'', NOT_SCHEDULED), (''UPCOMING'', UPCOMING), (''DUE'', DUE), (''OVERDUE'', OVERDUE)]"

definition STAGE_MEMBERS :: "(string \<times> spacing_stage) list" where
  "STAGE_MEMBERS = [(''STAGE_0'', STAGE_0), (''STAGE_1'', STAGE_1), (''STAGE_2'', STAGE_2), (''STAGE_3'', STAGE_3), (''STAGE_4'', STAGE_4)]"

fun modality_word :: "evidence_modality \<Rightarrow> string" where
  "modality_word TEXT_PRODUCTION = ''TEXT_PRODUCTION''"
| "modality_word TEXT_COMPREHENSION = ''TEXT_COMPREHENSION''"

fun review_state_word :: "review_state \<Rightarrow> string" where
  "review_state_word NOT_SCHEDULED = ''NOT_SCHEDULED''"
| "review_state_word UPCOMING = ''UPCOMING''"
| "review_state_word DUE = ''DUE''"
| "review_state_word OVERDUE = ''OVERDUE''"

fun stage_word :: "spacing_stage \<Rightarrow> string" where
  "stage_word STAGE_0 = ''STAGE_0''"
| "stage_word STAGE_1 = ''STAGE_1''"
| "stage_word STAGE_2 = ''STAGE_2''"
| "stage_word STAGE_3 = ''STAGE_3''"
| "stage_word STAGE_4 = ''STAGE_4''"

text \<open>Every failure a caller can see: an \<^verbatim>\<open>Err\<close>, or one of the two exceptions that escape.\<close>

datatype schedule_error =
    InstantUnusable instant_error
  | RowUndecodable string
  | VersionRewritten
  | KeyHeld string
  | IntegrityRefused
  | EventRewritten
  | ParentMissing string
  | LearningUnavailable
  | LearningRefused string
  | DateOverflowRaised
  | StaleSchedulerStoreRaised

section \<open>The spacing policy\<close>

definition SCHEDULER_MODEL_VERSION :: string where
  "SCHEDULER_MODEL_VERSION = ''sd1''"

definition SPACING_STAGES :: "spacing_stage list" where
  "SPACING_STAGES = [STAGE_0, STAGE_1, STAGE_2, STAGE_3, STAGE_4]"

fun INTERVAL_DAYS :: "spacing_stage \<Rightarrow> int" where
  "INTERVAL_DAYS STAGE_0 = 1"
| "INTERVAL_DAYS STAGE_1 = 3"
| "INTERVAL_DAYS STAGE_2 = 7"
| "INTERVAL_DAYS STAGE_3 = 16"
| "INTERVAL_DAYS STAGE_4 = 35"

definition GRACE_DAYS :: int where
  "GRACE_DAYS = 3"

fun URGENCY_ANCHORS :: "review_state \<Rightarrow> float64" where
  "URGENCY_ANCHORS NOT_SCHEDULED = 0"
| "URGENCY_ANCHORS UPCOMING = decimal 25 100"
| "URGENCY_ANCHORS DUE = decimal 75 100"
| "URGENCY_ANCHORS OVERDUE = 1"

definition VERSION_DIGEST_CHARS :: nat where
  "VERSION_DIGEST_CHARS = 12"

definition ABSENT_FIELD :: string where
  "ABSENT_FIELD = [CHR 0x00]"

fun encoded_optional :: "string option \<Rightarrow> string" where
  "encoded_optional None = ABSENT_FIELD"
| "encoded_optional (Some value) = value"

definition stage_from_history :: "review_event list \<Rightarrow> spacing_stage" where
  "stage_from_history events =
    (let engaged = length (filter re_engaged events)
     in SPACING_STAGES ! min engaged (length SPACING_STAGES - 1))"

datatype review_event_role = ANCHOR_AND_ADVANCE | ANCHOR_ONLY | ADVANCE_ONLY | HISTORY_ONLY

definition role_of :: "review_event \<Rightarrow> review_event_role" where
  "role_of event =
    (if re_engaged event then (if re_created_at event \<noteq> [] then ANCHOR_AND_ADVANCE else ADVANCE_ONLY)
     else if re_created_at event \<noteq> [] then ANCHOR_ONLY else HISTORY_ONLY)"

fun newest_from ::
  "py_env \<Rightarrow> (string \<times> py_datetime) option \<Rightarrow> (string \<times> string) list \<Rightarrow> instant_error + (string \<times> py_datetime) option" where
  "newest_from env best [] = Inr best"
| "newest_from env best ((raw, field) # candidates) =
    bindE (parse_instant env raw field) (\<lambda>parsed.
      newest_from env
        (case best of None \<Rightarrow> Some (raw, parsed)
         | Some (b, d) \<Rightarrow> if (instant_of d, b) < (instant_of parsed, raw) then Some (raw, parsed) else best)
        candidates)"

definition newest_instant :: "py_env \<Rightarrow> (string \<times> string) list \<Rightarrow> instant_error + (string \<times> py_datetime) option" where
  "newest_instant env candidates = newest_from env None candidates"

definition anchor_candidates :: "string option \<Rightarrow> review_event list \<Rightarrow> (string \<times> string) list" where
  "anchor_candidates strong events =
    (case strong of None \<Rightarrow> [] | Some s \<Rightarrow> if s \<noteq> [] then [(s, ''last_strong_retrieval_at'')] else [])
    @ map (\<lambda>event. (re_created_at event, ''review_event '' @ re_review_event_id event @ '' created_at''))
        (filter (\<lambda>event. re_created_at event \<noteq> []) events)"

definition anchor_of :: "py_env \<Rightarrow> string option \<Rightarrow> review_event list \<Rightarrow> instant_error + string option" where
  "anchor_of env strong events =
    bindE (newest_instant env (anchor_candidates strong events)) (\<lambda>newest. Inr (map_option fst newest))"

definition next_window :: "py_env \<Rightarrow> string \<Rightarrow> spacing_stage \<Rightarrow> schedule_error + string \<times> string" where
  "next_window env anchor stage =
    bindE (wrapE InstantUnusable (parse_instant env anchor ''next_review_window anchor'')) (\<lambda>parsed.
      case add_timedelta parsed (INTERVAL_DAYS stage * DAY_MICROSECONDS) of
        None \<Rightarrow> Inl DateOverflowRaised
      | Some start \<Rightarrow>
        (case add_timedelta start (GRACE_DAYS * DAY_MICROSECONDS) of
           None \<Rightarrow> Inl DateOverflowRaised
         | Some finish \<Rightarrow> Inr (env_isoformat env start, env_isoformat env finish)))"

definition state_at :: "py_env \<Rightarrow> string \<Rightarrow> string \<Rightarrow> string \<Rightarrow> instant_error + review_state" where
  "state_at env as_of window_start window_end =
    bindE (parse_instant env window_start ''next_review_window_start'') (\<lambda>start.
    bindE (parse_instant env window_end ''next_review_window_end'') (\<lambda>finish.
    bindE (parse_instant env as_of ''as_of'') (\<lambda>now.
      Inr (if instant_of now < instant_of start then UPCOMING
           else if instant_of finish < instant_of now then OVERDUE else DUE))))"

definition urgency_of :: "review_state \<Rightarrow> float64" where
  "urgency_of state = URGENCY_ANCHORS state"

section \<open>The version of a row\<close>

definition version_content ::
  "py_env \<Rightarrow> string \<Rightarrow> string \<Rightarrow> evidence_modality \<Rightarrow> review_state \<Rightarrow> float64 \<Rightarrow> string option \<Rightarrow> string option
   \<Rightarrow> spacing_stage option \<Rightarrow> string \<Rightarrow> (string \<times> string) list" where
  "version_content env target_type target_id modality state urgency window_start window_end stage watermark =
    [(''target_type'', target_type),
     (''target_id'', target_id),
     (''evidence_modality'', modality_word modality),
     (''review_state'', review_state_word state),
     (''review_urgency'', env_float_text env urgency),
     (''next_review_window_start'', encoded_optional window_start),
     (''next_review_window_end'', encoded_optional window_end),
     (''spacing_stage'', encoded_optional (map_option stage_word stage)),
     (''source_learning_watermark'', watermark)]"

definition row_version :: "py_env \<Rightarrow> (string \<times> string) list \<Rightarrow> string" where
  "row_version env content =
    SCHEDULER_MODEL_VERSION @ ''-'' @ take VERSION_DIGEST_CHARS (env_sha256_hex env (json_dumps content))"

section \<open>The decision for one row\<close>

definition decided_row ::
  "py_env \<Rightarrow> string \<Rightarrow> string \<Rightarrow> string \<Rightarrow> evidence_modality \<Rightarrow> string \<Rightarrow> review_state \<Rightarrow> (string \<times> string) option
   \<Rightarrow> spacing_stage option \<Rightarrow> schedule_item" where
  "decided_row env item_id target_type target_id modality watermark state window stage =
    (let version = row_version env (version_content env target_type target_id modality state (urgency_of state)
           (map_option fst window) (map_option snd window) stage watermark)
     in \<lparr>si_schedule_item_id = item_id, si_target_type = target_type, si_target_id = target_id,
         si_evidence_modality = modality, si_review_state = state, si_review_urgency = Some (urgency_of state),
         si_next_review_window_start = map_option fst window, si_next_review_window_end = map_option snd window,
         si_spacing_stage = stage, si_source_learning_watermark = watermark, si_version = version,
         si_updated_at = []\<rparr>)"

definition plan_schedule_item ::
  "py_env \<Rightarrow> string \<Rightarrow> string \<Rightarrow> string \<Rightarrow> evidence_modality \<Rightarrow> string option \<Rightarrow> review_event list
   \<Rightarrow> string \<Rightarrow> string \<Rightarrow> schedule_error + schedule_item" where
  "plan_schedule_item env item_id target_type target_id modality strong events watermark as_of =
    bindE (wrapE InstantUnusable (anchor_of env strong events)) (\<lambda>anchor.
      case anchor of
        None \<Rightarrow> Inr (decided_row env item_id target_type target_id modality watermark NOT_SCHEDULED None None)
      | Some a \<Rightarrow>
        bindE (next_window env a (stage_from_history events)) (\<lambda>window.
        bindE (wrapE InstantUnusable (state_at env as_of (fst window) (snd window))) (\<lambda>state.
          Inr (decided_row env item_id target_type target_id modality watermark state (Some window)
            (Some (stage_from_history events))))))"

section \<open>Currency\<close>

datatype schedule_currency = CURRENCY_CURRENT | CURRENCY_STALE

definition currency_of :: "schedule_item \<Rightarrow> int \<Rightarrow> schedule_currency" where
  "currency_of item current_watermark =
    (if si_source_learning_watermark item = int_text current_watermark then CURRENCY_CURRENT else CURRENCY_STALE)"

end
