(* ===== verification/Schedule_Store.thy ===== *)
theory Schedule_Store
  imports Schedule_Policy
begin

text \<open>
  \<^verbatim>\<open>elc/scheduler/store.py\<close> and \<^verbatim>\<open>controller.py\<close>: the two tables of \<^verbatim>\<open>migrations/0012\<close> as rows of SQLite
  values, the decoders that refuse a row the column set cannot describe, the two writes with their replay
  and version rules, the reads, and the controller that recomputes a row, builds the planner's view and
  answers the due question.  Rows are listed in row order; \<^verbatim>\<open>sqlite3.IntegrityError\<close> is the constraints of
  the migration written out.  The parents of an event are the identifiers of the three foreign tables.
\<close>

section \<open>Columns\<close>

datatype sql_value = SQL_NULL | SQL_INTEGER int | SQL_REAL float64 | SQL_TEXT string | SQL_BLOB string

record item_row =
  ir_schedule_item_id :: sql_value
  ir_target_type :: sql_value
  ir_target_id :: sql_value
  ir_evidence_modality :: sql_value
  ir_review_state :: sql_value
  ir_review_urgency :: sql_value
  ir_next_review_window_start :: sql_value
  ir_next_review_window_end :: sql_value
  ir_spacing_stage :: sql_value
  ir_source_learning_watermark :: sql_value
  ir_version :: sql_value
  ir_updated_at :: sql_value

record event_row =
  er_review_event_id :: sql_value
  er_schedule_item_id :: sql_value
  er_teaching_moment_id :: sql_value
  er_source_turn_id :: sql_value
  er_event_type :: sql_value
  er_engaged :: sql_value
  er_evidence_group_id :: sql_value
  er_created_at :: sql_value

fun sql_optional_text :: "string option \<Rightarrow> sql_value" where
  "sql_optional_text None = SQL_NULL"
| "sql_optional_text (Some s) = SQL_TEXT s"

definition item_columns :: "schedule_item \<Rightarrow> item_row" where
  "item_columns item =
    \<lparr>ir_schedule_item_id = SQL_TEXT (si_schedule_item_id item),
     ir_target_type = SQL_TEXT (si_target_type item),
     ir_target_id = SQL_TEXT (si_target_id item),
     ir_evidence_modality = SQL_TEXT (modality_word (si_evidence_modality item)),
     ir_review_state = SQL_TEXT (review_state_word (si_review_state item)),
     ir_review_urgency = (case si_review_urgency item of None \<Rightarrow> SQL_NULL | Some u \<Rightarrow> SQL_REAL u),
     ir_next_review_window_start = sql_optional_text (si_next_review_window_start item),
     ir_next_review_window_end = sql_optional_text (si_next_review_window_end item),
     ir_spacing_stage = sql_optional_text (map_option stage_word (si_spacing_stage item)),
     ir_source_learning_watermark = SQL_TEXT (si_source_learning_watermark item),
     ir_version = SQL_TEXT (si_version item),
     ir_updated_at = SQL_TEXT (si_updated_at item)\<rparr>"

definition event_columns :: "review_event \<Rightarrow> event_row" where
  "event_columns event =
    \<lparr>er_review_event_id = SQL_TEXT (re_review_event_id event),
     er_schedule_item_id = SQL_TEXT (re_schedule_item_id event),
     er_teaching_moment_id = sql_optional_text (re_teaching_moment_id event),
     er_source_turn_id = sql_optional_text (re_source_turn_id event),
     er_event_type = SQL_TEXT (re_event_type event),
     er_engaged = SQL_INTEGER (if re_engaged event then 1 else 0),
     er_evidence_group_id = sql_optional_text (re_evidence_group_id event),
     er_created_at = SQL_TEXT (re_created_at event)\<rparr>"

section \<open>Decoding\<close>

text \<open>A refusal names the column.\<close>

fun text_column :: "string \<Rightarrow> sql_value \<Rightarrow> string + string" where
  "text_column column (SQL_TEXT s) = Inr s"
| "text_column column _ = Inl column"

fun optional_text_column :: "string \<Rightarrow> sql_value \<Rightarrow> string + string option" where
  "optional_text_column column SQL_NULL = Inr None"
| "optional_text_column column v = bindE (text_column column v) (\<lambda>s. Inr (Some s))"

fun enum_column :: "(string \<times> 'a) list \<Rightarrow> string \<Rightarrow> sql_value \<Rightarrow> string + 'a" where
  "enum_column members column (SQL_TEXT s) = (case map_of members s of None \<Rightarrow> Inl column | Some m \<Rightarrow> Inr m)"
| "enum_column members column _ = Inl column"

fun optional_enum_column :: "(string \<times> 'a) list \<Rightarrow> string \<Rightarrow> sql_value \<Rightarrow> string + 'a option" where
  "optional_enum_column members column SQL_NULL = Inr None"
| "optional_enum_column members column v = bindE (enum_column members column v) (\<lambda>m. Inr (Some m))"

fun optional_number_column :: "py_env \<Rightarrow> string \<Rightarrow> sql_value \<Rightarrow> string + float64 option" where
  "optional_number_column env column SQL_NULL = Inr None"
| "optional_number_column env column (SQL_INTEGER i) = Inr (Some (rnd64 (of_int i)))"
| "optional_number_column env column (SQL_REAL x) = Inr (Some x)"
| "optional_number_column env column (SQL_TEXT s) =
    (case env_float_of_text env s of None \<Rightarrow> Inl column | Some x \<Rightarrow> Inr (Some x))"
| "optional_number_column env column (SQL_BLOB b) = Inl column"

fun flag_column :: "string \<Rightarrow> sql_value \<Rightarrow> string + bool" where
  "flag_column column (SQL_INTEGER i) = (if i \<in> {0, 1} then Inr (i = 1) else Inl column)"
| "flag_column column (SQL_TEXT s) = (if s \<in> {''0'', ''1''} then Inr (s = ''1'') else Inl column)"
| "flag_column column _ = Inl column"

definition decode_item :: "py_env \<Rightarrow> item_row \<Rightarrow> string + schedule_item" where
  "decode_item env row =
    bindE (text_column ''schedule_item_id'' (ir_schedule_item_id row)) (\<lambda>item_id.
    bindE (text_column ''target_type'' (ir_target_type row)) (\<lambda>target_type.
    bindE (text_column ''target_id'' (ir_target_id row)) (\<lambda>target_id.
    bindE (enum_column MODALITY_MEMBERS ''evidence_modality'' (ir_evidence_modality row)) (\<lambda>modality.
    bindE (enum_column REVIEW_STATE_MEMBERS ''review_state'' (ir_review_state row)) (\<lambda>state.
    bindE (optional_number_column env ''review_urgency'' (ir_review_urgency row)) (\<lambda>urgency.
    bindE (optional_text_column ''next_review_window_start'' (ir_next_review_window_start row)) (\<lambda>start.
    bindE (optional_text_column ''next_review_window_end'' (ir_next_review_window_end row)) (\<lambda>finish.
    bindE (optional_enum_column STAGE_MEMBERS ''spacing_stage'' (ir_spacing_stage row)) (\<lambda>stage.
    bindE (text_column ''source_learning_watermark'' (ir_source_learning_watermark row)) (\<lambda>watermark.
    bindE (text_column ''version'' (ir_version row)) (\<lambda>version.
    bindE (text_column ''updated_at'' (ir_updated_at row)) (\<lambda>updated.
      Inr \<lparr>si_schedule_item_id = item_id, si_target_type = target_type, si_target_id = target_id,
        si_evidence_modality = modality, si_review_state = state, si_review_urgency = urgency,
        si_next_review_window_start = start, si_next_review_window_end = finish, si_spacing_stage = stage,
        si_source_learning_watermark = watermark, si_version = version, si_updated_at = updated\<rparr>))))))))))))"

definition item_from_row :: "py_env \<Rightarrow> item_row \<Rightarrow> schedule_error + schedule_item" where
  "item_from_row env row = wrapE RowUndecodable (decode_item env row)"

definition decode_event :: "event_row \<Rightarrow> string + review_event" where
  "decode_event row =
    bindE (text_column ''review_event_id'' (er_review_event_id row)) (\<lambda>event_id.
    bindE (text_column ''schedule_item_id'' (er_schedule_item_id row)) (\<lambda>item_id.
    bindE (optional_text_column ''teaching_moment_id'' (er_teaching_moment_id row)) (\<lambda>moment.
    bindE (optional_text_column ''source_turn_id'' (er_source_turn_id row)) (\<lambda>turn.
    bindE (text_column ''event_type'' (er_event_type row)) (\<lambda>event_type.
    bindE (flag_column ''engaged'' (er_engaged row)) (\<lambda>engaged.
    bindE (optional_text_column ''evidence_group_id'' (er_evidence_group_id row)) (\<lambda>group.
    bindE (text_column ''created_at'' (er_created_at row)) (\<lambda>created.
      Inr \<lparr>re_review_event_id = event_id, re_schedule_item_id = item_id, re_teaching_moment_id = moment,
        re_source_turn_id = turn, re_event_type = event_type, re_engaged = engaged,
        re_evidence_group_id = group, re_created_at = created\<rparr>))))))))"

definition event_from_row :: "event_row \<Rightarrow> schedule_error + review_event" where
  "event_from_row row = wrapE RowUndecodable (decode_event row)"

section \<open>The tables\<close>

record scheduler_db =
  sc_newest_epoch :: "int option"
  sc_items :: "item_row list"
  sc_events :: "event_row list"
  sc_moments :: "string list"
  sc_turns :: "string list"
  sc_evidence_groups :: "string list"

definition require_current_scheduler_epoch :: "int \<Rightarrow> scheduler_db \<Rightarrow> schedule_error + unit" where
  "require_current_scheduler_epoch fence db = checkE (sc_newest_epoch db = Some fence) StaleSchedulerStoreRaised"

text \<open>\<^verbatim>\<open>fetchone\<close> and the decoding of what it found.\<close>

definition fetch_item :: "py_env \<Rightarrow> (item_row \<Rightarrow> bool) \<Rightarrow> scheduler_db \<Rightarrow> schedule_error + schedule_item option" where
  "fetch_item env p db =
    (case find p (sc_items db) of None \<Rightarrow> Inr None
     | Some row \<Rightarrow> bindE (item_from_row env row) (\<lambda>item. Inr (Some item)))"

definition has_item_id :: "string \<Rightarrow> item_row \<Rightarrow> bool" where
  "has_item_id item_id row \<longleftrightarrow> ir_schedule_item_id row = SQL_TEXT item_id"

definition has_key :: "string \<Rightarrow> string \<Rightarrow> evidence_modality \<Rightarrow> item_row \<Rightarrow> bool" where
  "has_key target_type target_id modality row \<longleftrightarrow>
    ir_target_type row = SQL_TEXT target_type \<and> ir_target_id row = SQL_TEXT target_id
    \<and> ir_evidence_modality row = SQL_TEXT (modality_word modality)"

definition item_row_by_id :: "py_env \<Rightarrow> string \<Rightarrow> scheduler_db \<Rightarrow> schedule_error + schedule_item option" where
  "item_row_by_id env item_id db = fetch_item env (has_item_id item_id) db"

definition item_row_for_key ::
  "py_env \<Rightarrow> string \<Rightarrow> string \<Rightarrow> evidence_modality \<Rightarrow> scheduler_db \<Rightarrow> schedule_error + schedule_item option" where
  "item_row_for_key env target_type target_id modality db = fetch_item env (has_key target_type target_id modality) db"

definition event_row_by_id :: "string \<Rightarrow> scheduler_db \<Rightarrow> schedule_error + review_event option" where
  "event_row_by_id event_id db =
    (case find (\<lambda>row. er_review_event_id row = SQL_TEXT event_id) (sc_events db) of None \<Rightarrow> Inr None
     | Some row \<Rightarrow> bindE (event_from_row row) (\<lambda>event. Inr (Some event)))"

section \<open>Writing a schedule item\<close>

definition same_item :: "schedule_item \<Rightarrow> schedule_item \<Rightarrow> bool" where
  "same_item durable incoming \<longleftrightarrow>
    si_target_type durable = si_target_type incoming
    \<and> si_target_id durable = si_target_id incoming
    \<and> si_evidence_modality durable = si_evidence_modality incoming
    \<and> si_review_state durable = si_review_state incoming
    \<and> si_review_urgency durable = si_review_urgency incoming
    \<and> si_next_review_window_start durable = si_next_review_window_start incoming
    \<and> si_next_review_window_end durable = si_next_review_window_end incoming
    \<and> si_spacing_stage durable = si_spacing_stage incoming
    \<and> si_source_learning_watermark durable = si_source_learning_watermark incoming"

definition TARGET_TYPE_WORDS :: "string list" where
  "TARGET_TYPE_WORDS = [''RESOURCE'', ''CAPABILITY'']"

text \<open>CHECK and UNIQUE of \<^verbatim>\<open>schedule_item\<close>, for a typed row written under its identifier.\<close>

definition item_integrity :: "schedule_item \<Rightarrow> scheduler_db \<Rightarrow> bool" where
  "item_integrity item db \<longleftrightarrow>
    si_target_type item \<in> set TARGET_TYPE_WORDS
    \<and> list_all (\<lambda>row. has_key (si_target_type item) (si_target_id item) (si_evidence_modality item) row
         \<longrightarrow> has_item_id (si_schedule_item_id item) row) (sc_items db)"

definition write_item :: "schedule_item \<Rightarrow> bool \<Rightarrow> scheduler_db \<Rightarrow> scheduler_db" where
  "write_item item is_new db =
    db\<lparr>sc_items := (if is_new then sc_items db @ [item_columns item]
       else map (\<lambda>row. if has_item_id (si_schedule_item_id item) row then item_columns item else row) (sc_items db))\<rparr>"

definition upsert_schedule_item ::
  "py_env \<Rightarrow> int \<Rightarrow> string \<Rightarrow> schedule_item \<Rightarrow> scheduler_db \<Rightarrow> schedule_error + schedule_item \<times> scheduler_db" where
  "upsert_schedule_item env fence now item db =
    bindE (require_current_scheduler_epoch fence db) (\<lambda>_.
    bindE (item_row_by_id env (si_schedule_item_id item) db) (\<lambda>held.
      if map_option si_version held = Some (si_version item) then
        (if same_item (the held) item then Inr (the held, db) else Inl VersionRewritten)
      else
        bindE (item_row_for_key env (si_target_type item) (si_target_id item) (si_evidence_modality item) db) (\<lambda>holder.
          case holder of
            Some h \<Rightarrow>
              if si_schedule_item_id h \<noteq> si_schedule_item_id item then Inl (KeyHeld (si_schedule_item_id h))
              else if item_integrity item db
              then Inr (item\<lparr>si_updated_at := now\<rparr>, write_item (item\<lparr>si_updated_at := now\<rparr>) (held = None) db)
              else Inl IntegrityRefused
          | None \<Rightarrow>
              if item_integrity item db
              then Inr (item\<lparr>si_updated_at := now\<rparr>, write_item (item\<lparr>si_updated_at := now\<rparr>) (held = None) db)
              else Inl IntegrityRefused)))"

section \<open>Appending a review event\<close>

definition same_declared_time :: "review_event \<Rightarrow> review_event \<Rightarrow> bool" where
  "same_declared_time durable incoming \<longleftrightarrow> re_created_at incoming = [] \<or> re_created_at durable = re_created_at incoming"

definition same_event :: "review_event \<Rightarrow> review_event \<Rightarrow> bool" where
  "same_event durable incoming \<longleftrightarrow>
    re_schedule_item_id durable = re_schedule_item_id incoming
    \<and> re_teaching_moment_id durable = re_teaching_moment_id incoming
    \<and> re_source_turn_id durable = re_source_turn_id incoming
    \<and> re_event_type durable = re_event_type incoming
    \<and> re_engaged durable = re_engaged incoming
    \<and> re_evidence_group_id durable = re_evidence_group_id incoming
    \<and> same_declared_time durable incoming"

definition missing_parent :: "review_event \<Rightarrow> scheduler_db \<Rightarrow> string option" where
  "missing_parent event db =
    (if \<not> list_ex (has_item_id (re_schedule_item_id event)) (sc_items db) then Some ''schedule_item_id''
     else if (case re_teaching_moment_id event of None \<Rightarrow> False | Some m \<Rightarrow> m \<notin> set (sc_moments db))
     then Some ''teaching_moment_id''
     else if (case re_source_turn_id event of None \<Rightarrow> False | Some t \<Rightarrow> t \<notin> set (sc_turns db))
     then Some ''source_turn_id''
     else if (case re_evidence_group_id event of None \<Rightarrow> False | Some g \<Rightarrow> g \<notin> set (sc_evidence_groups db))
     then Some ''evidence_group_id''
     else None)"

definition record_review_event ::
  "int \<Rightarrow> string \<Rightarrow> review_event \<Rightarrow> scheduler_db \<Rightarrow> schedule_error + review_event \<times> scheduler_db" where
  "record_review_event fence now event db =
    bindE (require_current_scheduler_epoch fence db) (\<lambda>_.
    bindE (event_row_by_id (re_review_event_id event) db) (\<lambda>existing.
      case existing of
        Some durable \<Rightarrow> if same_event durable event then Inr (durable, db) else Inl EventRewritten
      | None \<Rightarrow>
        (case missing_parent event db of
           Some field \<Rightarrow> Inl (ParentMissing field)
         | None \<Rightarrow>
           let written = event\<lparr>re_created_at := (if re_created_at event \<noteq> [] then re_created_at event else now)\<rparr>
           in Inr (written, db\<lparr>sc_events := sc_events db @ [event_columns written]\<rparr>))))"

section \<open>Reading\<close>

text \<open>\<^verbatim>\<open>CAST(column AS TEXT)\<close>: the text a column spells.\<close>

fun cast_text :: "py_env \<Rightarrow> sql_value \<Rightarrow> string option" where
  "cast_text env SQL_NULL = None"
| "cast_text env (SQL_INTEGER i) = Some (int_text i)"
| "cast_text env (SQL_REAL x) = Some (env_real_text env x)"
| "cast_text env (SQL_TEXT s) = Some s"
| "cast_text env (SQL_BLOB b) = Some b"

definition refuse_undecodable_sibling ::
  "py_env \<Rightarrow> string \<Rightarrow> string \<Rightarrow> scheduler_db \<Rightarrow> schedule_error + schedule_item option" where
  "refuse_undecodable_sibling env target_type target_id db =
    bindE (traverseE (item_from_row env)
      (filter (\<lambda>row. cast_text env (ir_target_type row) = Some target_type
         \<and> cast_text env (ir_target_id row) = Some target_id) (sc_items db))) (\<lambda>_. Inr None)"

definition get_schedule_item ::
  "py_env \<Rightarrow> string \<Rightarrow> string \<Rightarrow> evidence_modality \<Rightarrow> scheduler_db \<Rightarrow> schedule_error + schedule_item option" where
  "get_schedule_item env target_type target_id modality db =
    bindE (item_row_for_key env target_type target_id modality db) (\<lambda>found.
      if found \<noteq> None then Inr found else refuse_undecodable_sibling env target_type target_id db)"

text \<open>SQLite's order of values: NULL, numbers, text, blobs.\<close>

fun sql_order :: "sql_value \<Rightarrow> nat \<times> rat \<times> string" where
  "sql_order SQL_NULL = (0, 0, [])"
| "sql_order (SQL_INTEGER i) = (1, of_int i, [])"
| "sql_order (SQL_REAL x) = (1, x, [])"
| "sql_order (SQL_TEXT s) = (2, 0, s)"
| "sql_order (SQL_BLOB b) = (3, 0, b)"

definition list_review_events :: "string \<Rightarrow> scheduler_db \<Rightarrow> schedule_error + review_event list" where
  "list_review_events item_id db =
    traverseE event_from_row
      (sort_key (\<lambda>row. (sql_order (er_created_at row), sql_order (er_review_event_id row)))
        (filter (\<lambda>row. er_schedule_item_id row = SQL_TEXT item_id) (sc_events db)))"

definition list_schedule_items :: "py_env \<Rightarrow> scheduler_db \<Rightarrow> schedule_error + schedule_item list" where
  "list_schedule_items env db =
    traverseE (item_from_row env) (sort_key (\<lambda>row. sql_order (ir_schedule_item_id row)) (sc_items db))"

section \<open>The controller\<close>

definition schedule_item_id_for :: "py_env \<Rightarrow> string \<Rightarrow> string \<Rightarrow> evidence_modality \<Rightarrow> string" where
  "schedule_item_id_for env target_type target_id modality =
    ''si-'' @ take 20 (env_sha256_hex env
      (target_type @ [CHR 0x1F] @ target_id @ [CHR 0x1F] @ modality_word modality))"

text \<open>The Learning port: freshness of a target (its one declared field) and the evidence watermark.\<close>

record learning_reads =
  lr_get_freshness :: "string \<Rightarrow> schedule_error + string option"
  lr_get_learning_watermark :: "schedule_error + int"

definition recompute_schedule_item ::
  "py_env \<Rightarrow> learning_reads option \<Rightarrow> int \<Rightarrow> string \<Rightarrow> string \<Rightarrow> string \<Rightarrow> evidence_modality \<Rightarrow> string \<Rightarrow> scheduler_db
   \<Rightarrow> schedule_error + schedule_item \<times> scheduler_db" where
  "recompute_schedule_item env learning fence now target_type target_id modality as_of db =
    (case learning of
       None \<Rightarrow> Inl LearningUnavailable
     | Some reads \<Rightarrow>
       bindE (lr_get_freshness reads target_id) (\<lambda>strong.
       bindE (lr_get_learning_watermark reads) (\<lambda>watermark.
       bindE (get_schedule_item env target_type target_id modality db) (\<lambda>current.
         let item_id = (case current of None \<Rightarrow> schedule_item_id_for env target_type target_id modality
                        | Some item \<Rightarrow> si_schedule_item_id item)
         in bindE (list_review_events item_id db) (\<lambda>events.
            bindE (plan_schedule_item env item_id target_type target_id modality strong events (int_text watermark) as_of)
              (\<lambda>planned. upsert_schedule_item env fence now planned db))))))"

definition in_window_order :: "schedule_item list \<Rightarrow> schedule_item list" where
  "in_window_order items =
    sort_key (\<lambda>item. (case si_next_review_window_start item of None \<Rightarrow> [] | Some s \<Rightarrow> s, si_schedule_item_id item)) items"

definition row_window :: "schedule_item \<Rightarrow> (string \<times> string) option" where
  "row_window item =
    (case (si_next_review_window_start item, si_next_review_window_end item) of
       (Some start, Some finish) \<Rightarrow> Some (start, finish) | _ \<Rightarrow> None)"

text \<open>The loop over the rows: each row with a window goes with the state it is classified by.\<close>

fun classify_rows :: "py_env \<Rightarrow> string \<Rightarrow> schedule_item list \<Rightarrow> schedule_error + (review_state \<times> schedule_item) list" where
  "classify_rows env as_of [] = Inr []"
| "classify_rows env as_of (row # rows) =
    (case row_window row of
       None \<Rightarrow> classify_rows env as_of rows
     | Some (start, finish) \<Rightarrow>
       bindE (wrapE InstantUnusable (state_at env as_of start finish)) (\<lambda>state.
       bindE (classify_rows env as_of rows) (\<lambda>rest. Inr ((state, row) # rest))))"

definition bucket :: "review_state \<Rightarrow> (review_state \<times> schedule_item) list \<Rightarrow> schedule_item list" where
  "bucket state classified = map snd (filter (\<lambda>(s, row). s = state) classified)"

definition get_schedule_view :: "py_env \<Rightarrow> string \<Rightarrow> scheduler_db \<Rightarrow> schedule_error + scheduler_view" where
  "get_schedule_view env as_of db =
    bindE (list_schedule_items env db) (\<lambda>rows.
    bindE (classify_rows env as_of rows) (\<lambda>classified.
      Inr \<lparr>vw_schedule_version = SCHEDULER_MODEL_VERSION, vw_as_of = as_of,
        vw_due_items = in_window_order (bucket DUE classified),
        vw_overdue_items = in_window_order (bucket OVERDUE classified),
        vw_upcoming = in_window_order (bucket UPCOMING classified)\<rparr>))"

definition is_review_due ::
  "py_env \<Rightarrow> string \<Rightarrow> string \<Rightarrow> evidence_modality \<Rightarrow> string \<Rightarrow> scheduler_db \<Rightarrow> schedule_error + bool" where
  "is_review_due env target_type target_id modality as_of db =
    bindE (get_schedule_item env target_type target_id modality db) (\<lambda>current.
      case current of
        None \<Rightarrow> Inr False
      | Some row \<Rightarrow>
        (case row_window row of
           None \<Rightarrow> Inr False
         | Some (start, finish) \<Rightarrow>
           bindE (wrapE InstantUnusable (state_at env as_of start finish)) (\<lambda>state.
             Inr (state = DUE \<or> state = OVERDUE))))"

definition schedule_currency_of ::
  "py_env \<Rightarrow> learning_reads option \<Rightarrow> string \<Rightarrow> string \<Rightarrow> evidence_modality \<Rightarrow> scheduler_db
   \<Rightarrow> schedule_error + schedule_currency option" where
  "schedule_currency_of env learning target_type target_id modality db =
    (case learning of
       None \<Rightarrow> Inl LearningUnavailable
     | Some reads \<Rightarrow>
       bindE (get_schedule_item env target_type target_id modality db) (\<lambda>current.
         case current of
           None \<Rightarrow> Inr None
         | Some item \<Rightarrow>
           bindE (lr_get_learning_watermark reads) (\<lambda>watermark. Inr (Some (currency_of item watermark)))))"

end
