(* ===== verification/Schedule_Lemmas.thy ===== *)
theory Schedule_Lemmas
  imports Schedule_Store
begin

text \<open>
  Lemmas of the review scheduler: the newest instant, the window and its state, the version as a
  faithful image of the content, decoding as the inverse of encoding, lookups by key, and the invariant
  of the two tables with the step relation of the store's writes.
\<close>

section \<open>The anchor\<close>

lemma newest_from_Inr:
  assumes "newest_from env best cs = Inr r"
  shows "list_all (\<lambda>(raw, field). \<exists>d. parse_instant env raw field = Inr d) cs
    \<and> (case best of None \<Rightarrow> cs = [] \<and> r = None \<or> (\<exists>a d. r = Some (a, d)) | Some b \<Rightarrow> \<exists>a d. r = Some (a, d))
    \<and> (case r of None \<Rightarrow> True | Some (a, d) \<Rightarrow>
         (best = Some (a, d) \<or> (\<exists>field. (a, field) \<in> set cs \<and> parse_instant env a field = Inr d))
         \<and> (case best of None \<Rightarrow> True | Some (b, e) \<Rightarrow> (instant_of e, b) \<le> (instant_of d, a))
         \<and> list_all (\<lambda>(raw, field). \<exists>e. parse_instant env raw field = Inr e \<and> (instant_of e, raw) \<le> (instant_of d, a)) cs)"
  using assms
proof (induction env best cs rule: newest_from.induct)
  case (1 env best)
  then show ?case by (auto split: option.splits)
next
  case (2 env best raw field cs)
  then obtain p where p: "parse_instant env raw field = Inr p" by (auto simp: result_simps)
  define next_best where "next_best = (case best of None \<Rightarrow> Some (raw, p)
     | Some (b, d) \<Rightarrow> if (instant_of d, b) < (instant_of p, raw) then Some (raw, p) else best)"
  have run: "newest_from env next_best cs = Inr r"
    using 2(2) p by (simp add: next_best_def)
  from 2(1) [OF p run [unfolded next_best_def], folded next_best_def] show ?case
    using p by (auto simp: next_best_def split: option.splits if_splits)
qed

lemma newest_from_Inl:
  "newest_from env best cs = Inl e \<Longrightarrow> \<exists>(raw, field) \<in> set cs. parse_instant env raw field = Inl e"
  by (induction env best cs rule: newest_from.induct) (auto simp: result_simps)

lemma newest_from_total:
  "list_all (\<lambda>(raw, field). \<exists>d. parse_instant env raw field = Inr d) cs \<Longrightarrow> \<exists>r. newest_from env best cs = Inr r"
  by (induction env best cs rule: newest_from.induct) auto

text \<open>A text is usable when it reads as an aware time.\<close>

definition usable :: "py_env \<Rightarrow> string \<Rightarrow> bool" where
  "usable env text \<longleftrightarrow> text \<noteq> [] \<and>
    (case env_fromisoformat env text of None \<Rightarrow> False | Some d \<Rightarrow> dt_utcoffset d \<noteq> None)"

lemma usable_iff: "usable env text \<longleftrightarrow> (\<exists>d. parse_instant env text field = Inr d)"
  by (auto simp: usable_def parse_instant_Inr split: option.splits)

lemma usableI: "parse_instant env s field = Inr d \<Longrightarrow> usable env s"
  using usable_iff by blast

lemma parse_instant_Inl: "(\<exists>e. parse_instant env text field = Inl e) \<longleftrightarrow> \<not> usable env text"
  using usable_iff [of env "text" field] by (cases "parse_instant env text field") auto

definition anchor_texts :: "string option \<Rightarrow> review_event list \<Rightarrow> string list" where
  "anchor_texts strong events = map fst (anchor_candidates strong events)"

text \<open>The newest of the texts, as a specification.\<close>

definition newest_text :: "py_env \<Rightarrow> string list \<Rightarrow> string \<Rightarrow> py_datetime \<Rightarrow> bool" where
  "newest_text env texts a d \<longleftrightarrow> a \<in> set texts \<and> env_fromisoformat env a = Some d
    \<and> list_all (\<lambda>t. usable env t \<and> (instant_of (the (env_fromisoformat env t)), t) \<le> (instant_of d, a)) texts"

lemma newest_text_usable:
  "newest_text env texts a d \<Longrightarrow> a \<noteq> [] \<and> dt_utcoffset d \<noteq> None"
  by (auto simp: newest_text_def list_all_iff usable_def)

lemma newest_text_unique:
  assumes "newest_text env texts a d" and "newest_text env texts b e"
  shows "a = b \<and> d = e"
proof -
  have "(instant_of e, b) \<le> (instant_of d, a)" "(instant_of d, a) \<le> (instant_of e, b)"
    using assms by (metis (no_types, lifting) newest_text_def list_all_iff option.sel)+
  then have "(instant_of e, b) = (instant_of d, a)" by (rule antisym)
  then show ?thesis using assms by (simp add: newest_text_def)
qed

lemma anchor_of_None: "anchor_of env strong events = Inr None \<longleftrightarrow> anchor_texts strong events = []"
  by (auto simp: anchor_of_def newest_instant_def anchor_texts_def result_simps dest!: newest_from_Inr
      split: option.splits)

lemma anchor_of_Some:
  assumes "anchor_of env strong events = Inr (Some a)"
  obtains d where "newest_text env (anchor_texts strong events) a d"
proof -
  from assms obtain d where "newest_from env None (anchor_candidates strong events) = Inr (Some (a, d))"
    by (auto simp: anchor_of_def newest_instant_def result_simps)
  from newest_from_Inr [OF this] obtain field where a: "(a, field) \<in> set (anchor_candidates strong events)"
    "parse_instant env a field = Inr d"
    and all: "list_all (\<lambda>(raw, field). \<exists>e. parse_instant env raw field = Inr e
      \<and> (instant_of e, raw) \<le> (instant_of d, a)) (anchor_candidates strong events)"
    by auto
  have "newest_text env (anchor_texts strong events) a d"
    unfolding newest_text_def
  proof (intro conjI)
    show "a \<in> set (anchor_texts strong events)" using a(1) by (force simp: anchor_texts_def)
    show "env_fromisoformat env a = Some d" using a(2) by (simp add: parse_instant_Inr)
    show "list_all (\<lambda>t. usable env t \<and> (instant_of (the (env_fromisoformat env t)), t) \<le> (instant_of d, a))
        (anchor_texts strong events)"
      using all by (auto simp: anchor_texts_def list_all_iff parse_instant_Inr usable_def dest!: bspec)
  qed
  then show ?thesis by (rule that)
qed

lemma anchor_of_total:
  "(\<exists>r. anchor_of env strong events = Inr r) \<longleftrightarrow> list_all (usable env) (anchor_texts strong events)"
proof
  assume "\<exists>r. anchor_of env strong events = Inr r"
  then obtain r where "newest_from env None (anchor_candidates strong events) = Inr r"
    by (auto simp: anchor_of_def newest_instant_def result_simps)
  from newest_from_Inr [OF this]
  have "list_all (\<lambda>(raw, field). \<exists>d. parse_instant env raw field = Inr d) (anchor_candidates strong events)"
    by blast
  then show "list_all (usable env) (anchor_texts strong events)"
    by (auto simp: anchor_texts_def list_all_iff dest!: bspec intro: usableI)
next
  assume "list_all (usable env) (anchor_texts strong events)"
  then have "list_all (\<lambda>(raw, field). \<exists>d. parse_instant env raw field = Inr d) (anchor_candidates strong events)"
    by (auto simp: anchor_texts_def list_all_iff dest!: bspec intro: iffD1 [OF usable_iff])
  from newest_from_total [OF this, of None] show "\<exists>r. anchor_of env strong events = Inr r"
    by (auto simp: anchor_of_def newest_instant_def)
qed

lemma anchor_of_newest:
  assumes newest: "newest_text env (anchor_texts strong events) a d"
  shows "anchor_of env strong events = Inr (Some a)"
proof -
  from newest have "list_all (usable env) (anchor_texts strong events)" and "anchor_texts strong events \<noteq> []"
    by (auto simp: newest_text_def list_all_iff)
  then obtain b where b: "anchor_of env strong events = Inr (Some b)"
    using anchor_of_total anchor_of_None by (metis not_Some_eq)
  then obtain e where "newest_text env (anchor_texts strong events) b e" by (rule anchor_of_Some)
  from newest_text_unique [OF newest this] show ?thesis using b by simp
qed

section \<open>The window\<close>

definition window_start :: "py_datetime \<Rightarrow> spacing_stage \<Rightarrow> py_datetime" where
  "window_start d stage = d\<lparr>dt_local := dt_local d + INTERVAL_DAYS stage * DAY_MICROSECONDS\<rparr>"

definition window_finish :: "py_datetime \<Rightarrow> spacing_stage \<Rightarrow> py_datetime" where
  "window_finish d stage = d\<lparr>dt_local := dt_local d + (INTERVAL_DAYS stage + GRACE_DAYS) * DAY_MICROSECONDS\<rparr>"

lemma interval_positive: "0 < INTERVAL_DAYS stage"
  by (cases stage) auto

text \<open>What \<^verbatim>\<open>fromisoformat\<close> returns is a \<^verbatim>\<open>datetime\<close>, so it is in range.\<close>

definition reads_in_range :: "py_env \<Rightarrow> bool" where
  "reads_in_range env \<longleftrightarrow> (\<forall>s d. env_fromisoformat env s = Some d \<longrightarrow> datetime_in_range d)"

lemma next_window_of:
  assumes "a \<noteq> []" and "env_fromisoformat env a = Some d" and "dt_utcoffset d \<noteq> None"
    and "0 \<le> dt_local d"
  shows "next_window env a stage =
    (if datetime_in_range (window_finish d stage)
     then Inr (env_isoformat env (window_start d stage), env_isoformat env (window_finish d stage))
     else Inl DateOverflowRaised)"
proof -
  have parsed: "parse_instant env a field = Inr d" for field
    using assms by (simp add: parse_instant_Inr)
  have pos: "0 < INTERVAL_DAYS stage * DAY_MICROSECONDS" "0 < GRACE_DAYS * DAY_MICROSECONDS"
    using interval_positive by (simp_all add: DAY_MICROSECONDS_def GRACE_DAYS_def)
  have sum: "dt_local d + INTERVAL_DAYS stage * DAY_MICROSECONDS + GRACE_DAYS * DAY_MICROSECONDS
      = dt_local d + (INTERVAL_DAYS stage + GRACE_DAYS) * DAY_MICROSECONDS"
    by (simp only: distrib_right add.assoc)
  show ?thesis
    using pos assms(4)
    by (simp add: next_window_def parsed add_timedelta_def Let_def datetime_in_range_def window_start_def
        window_finish_def distrib_right add.assoc)
qed

definition state_of_instants :: "int \<Rightarrow> int \<Rightarrow> int \<Rightarrow> review_state" where
  "state_of_instants now start finish = (if now < start then UPCOMING else if now \<le> finish then DUE else OVERDUE)"

lemma state_of_instants_code:
  "state_of_instants now start finish = (if now < start then UPCOMING else if finish < now then OVERDUE else DUE)"
  by (simp add: state_of_instants_def)

lemma state_at_Inr:
  "state_at env as_of ws we = Inr state \<longleftrightarrow>
    (\<exists>start finish now. parse_instant env ws ''next_review_window_start'' = Inr start
      \<and> parse_instant env we ''next_review_window_end'' = Inr finish \<and> parse_instant env as_of ''as_of'' = Inr now
      \<and> state = state_of_instants (instant_of now) (instant_of start) (instant_of finish))"
  by (simp add: state_at_def result_simps state_of_instants_code [symmetric]) blast

lemma instant_window:
  "instant_of (window_start d stage) = instant_of d + INTERVAL_DAYS stage * DAY_MICROSECONDS"
  "instant_of (window_finish d stage) = instant_of d + (INTERVAL_DAYS stage + GRACE_DAYS) * DAY_MICROSECONDS"
  by (simp_all add: window_start_def window_finish_def)

lemma offset_window [simp]:
  "dt_utcoffset (window_start d stage) = dt_utcoffset d" "dt_utcoffset (window_finish d stage) = dt_utcoffset d"
  by (simp_all add: window_start_def window_finish_def)

lemma start_in_range:
  assumes "datetime_in_range (window_finish d stage)" and "0 \<le> dt_local d"
  shows "datetime_in_range (window_start d stage)"
  using assms interval_positive [of stage]
  by (simp add: datetime_in_range_def window_start_def window_finish_def GRACE_DAYS_def DAY_MICROSECONDS_def
      algebra_simps)

text \<open>The state of the window just computed reads the window's own times back.\<close>

lemma state_at_window:
  assumes "iso_round_trip env" and "datetime_in_range (window_finish d stage)" and "0 \<le> dt_local d"
    and "dt_utcoffset d \<noteq> None"
  shows "state_at env as_of (env_isoformat env (window_start d stage)) (env_isoformat env (window_finish d stage)) =
    bindE (parse_instant env as_of ''as_of'') (\<lambda>now. Inr (state_of_instants (instant_of now)
      (instant_of (window_start d stage)) (instant_of (window_finish d stage))))"
proof -
  have "parse_instant env (env_isoformat env (window_start d stage)) f = Inr (window_start d stage)"
    "parse_instant env (env_isoformat env (window_finish d stage)) f = Inr (window_finish d stage)" for f
    using assms start_in_range [OF assms(2,3)] by (simp_all add: iso_round_trip_def parse_instant_Inr)
  then show ?thesis
    by (simp add: state_at_def state_of_instants_code)
qed

section \<open>The plan of a row\<close>

text \<open>With the anchor's time known, the plan is a window, a state and a row.\<close>

lemma plan_schedule_item_cases:
  assumes env: "iso_round_trip env" "reads_in_range env"
  shows "plan_schedule_item env item_id tt tid m strong events wm as_of =
    (case anchor_of env strong events of
       Inl e \<Rightarrow> Inl (InstantUnusable e)
     | Inr None \<Rightarrow> Inr (decided_row env item_id tt tid m wm NOT_SCHEDULED None None)
     | Inr (Some a) \<Rightarrow>
       let d = the (env_fromisoformat env a); stage = stage_from_history events
       in if \<not> datetime_in_range (window_finish d stage) then Inl DateOverflowRaised
          else (case parse_instant env as_of ''as_of'' of
            Inl e \<Rightarrow> Inl (InstantUnusable e)
          | Inr now \<Rightarrow> Inr (decided_row env item_id tt tid m wm
              (state_of_instants (instant_of now) (instant_of (window_start d stage)) (instant_of (window_finish d stage)))
              (Some (env_isoformat env (window_start d stage), env_isoformat env (window_finish d stage)))
              (Some stage))))"
proof (cases "anchor_of env strong events")
  case (Inr r)
  show ?thesis
  proof (cases r)
    case None
    then show ?thesis using Inr by (simp add: plan_schedule_item_def)
  next
    case (Some a)
    then obtain d where d: "newest_text env (anchor_texts strong events) a d"
      using Inr anchor_of_Some by blast
    then have range: "0 \<le> dt_local d"
      using env(2) by (auto simp: newest_text_def reads_in_range_def datetime_in_range_def)
    have "next_window env a (stage_from_history events) =
      (if datetime_in_range (window_finish d (stage_from_history events))
       then Inr (env_isoformat env (window_start d (stage_from_history events)),
         env_isoformat env (window_finish d (stage_from_history events)))
       else Inl DateOverflowRaised)"
      using d range newest_text_usable [OF d] by (intro next_window_of) (simp_all add: newest_text_def)
    moreover have "env_fromisoformat env a = Some d" "dt_utcoffset d \<noteq> None"
      using d newest_text_usable [OF d] by (simp_all add: newest_text_def)
    ultimately show ?thesis
      using Inr Some range state_at_window [OF env(1), of d "stage_from_history events" as_of]
      by (cases "parse_instant env as_of ''as_of''") (simp_all add: plan_schedule_item_def Let_def)
  qed
qed (simp add: plan_schedule_item_def)

end
