(* ===== verification/Replayed_Write.thy ===== *)
theory Replayed_Write
  imports Prelude
begin

text \<open>
  The contract the durable writes of several stores share.  A write takes the clock, the content and the
  database; a success answers with the row that is then stored under the content's key and has that
  content, and content that is already stored is answered with the stored row and no change.  So a write
  repeated after a crash or a retry is harmless, at whatever time it is repeated.
\<close>

locale replayed_write =
  fixes find_row :: "'key \<Rightarrow> 'db \<Rightarrow> 'e + 'row option"
    and put :: "string \<Rightarrow> 'content \<Rightarrow> 'db \<Rightarrow> 'e + 'row \<times> 'db"
    and key_of :: "'content \<Rightarrow> 'key"
    and same_content :: "'row \<Rightarrow> 'content \<Rightarrow> bool"
    and writable :: "'db \<Rightarrow> bool"
  assumes put_stored: "writable db \<Longrightarrow> put now r db = Inr (s, db') \<Longrightarrow>
      writable db' \<and> find_row (key_of r) db' = Inr (Some s) \<and> same_content s r"
    and stored_replays: "writable db \<Longrightarrow> find_row (key_of r) db = Inr (Some s) \<Longrightarrow> same_content s r \<Longrightarrow>
      put now r db = Inr (s, db)"
begin

lemma put_again:
  assumes "writable db" and "put now r db = Inr (s, db')"
  shows "put now' r db' = Inr (s, db')"
  using put_stored [OF assms] by (intro stored_replays) auto

text \<open>Two successful writes under one key agree: the second finds the first and must have its content.\<close>

lemma put_same_key:
  assumes "writable db" and "put now r db = Inr (s, db')" and "put now' r' db' = Inr (s', db'')"
    and "key_of r' = key_of r" and "same_content s r'"
  shows "s' = s \<and> db'' = db'"
  using put_stored [OF assms(1,2)] stored_replays [of db' r' s now'] assms(3-5) by simp

end

text \<open>Content that is first planned from the database and then written.\<close>

locale planned_write = replayed_write find_row put key_of same_content writable
  for find_row :: "'key \<Rightarrow> 'db \<Rightarrow> 'e + 'row option"
    and put :: "string \<Rightarrow> 'content \<Rightarrow> 'db \<Rightarrow> 'e + 'row \<times> 'db"
    and key_of :: "'content \<Rightarrow> 'key"
    and same_content :: "'row \<Rightarrow> 'content \<Rightarrow> bool"
    and writable :: "'db \<Rightarrow> bool" +
  fixes plan :: "'db \<Rightarrow> 'e + 'content"
  assumes plan_stable: "writable db \<Longrightarrow> plan db = Inr r \<Longrightarrow> put now r db = Inr (s, db') \<Longrightarrow> plan db' = Inr r"
begin

lemma plan_put_again:
  assumes "writable db" and "bindE (plan db) (\<lambda>r. put now r db) = Inr (s, db')"
  shows "bindE (plan db') (\<lambda>r. put now' r db') = Inr (s, db')"
proof -
  from assms(2) obtain r where r: "plan db = Inr r" "put now r db = Inr (s, db')"
    by (auto simp: result_simps)
  then show ?thesis
    using plan_stable [OF assms(1) r] put_again [OF assms(1) r(2)] by simp
qed

end

end
