(* ===== verification/Schedule_Invariant.thy ===== *)
theory Schedule_Invariant
  imports Schedule_Lemmas Replayed_Write
begin

text \<open>
  The tables of the scheduler as typed rows: decoding inverts encoding, so on tables that only the
  store's own writes produced every read and write is an operation on lists of typed rows.  The
  invariant of those lists, the step relation of the writes, and the two writes as instances of the
  interface \<open>replayed_write\<close>.
\<close>

section \<open>Encoding and decoding\<close>

lemma modality_word_inject [simp]: "modality_word m = modality_word m' \<longleftrightarrow> m = m'"
  by (cases m; cases m') auto

lemma enum_words:
  "map_of MODALITY_MEMBERS (modality_word m) = Some m"
  "map_of REVIEW_STATE_MEMBERS (review_state_word s) = Some s"
  "map_of STAGE_MEMBERS (stage_word g) = Some g"
  subgoal by (cases m) (simp_all add: MODALITY_MEMBERS_def)
  subgoal by (cases s) (simp_all add: REVIEW_STATE_MEMBERS_def)
  subgoal by (cases g) (simp_all add: STAGE_MEMBERS_def)
  done

lemma decode_optional [simp]:
  "optional_text_column c (sql_optional_text x) = Inr x"
  "optional_number_column env c (case u of None \<Rightarrow> SQL_NULL | Some r \<Rightarrow> SQL_REAL r) = Inr u"
  "optional_enum_column STAGE_MEMBERS c (sql_optional_text (map_option stage_word g)) = Inr g"
  subgoal by (cases x) simp_all
  subgoal by (cases u) simp_all
  subgoal by (cases g) (simp_all add: enum_words)
  done

lemma decode_item_columns [simp]: "decode_item env (item_columns item) = Inr item"
  by (simp add: decode_item_def item_columns_def enum_words)

lemma decode_event_columns [simp]: "decode_event (event_columns event) = Inr event"
  by (simp add: decode_event_def event_columns_def)

lemma from_columns [simp]:
  "item_from_row env (item_columns item) = Inr item" "event_from_row (event_columns event) = Inr event"
  by (simp_all add: item_from_row_def event_from_row_def)

lemma traverse_columns [simp]:
  "traverseE (item_from_row env) (map item_columns its) = Inr its"
  "traverseE event_from_row (map event_columns evs) = Inr evs"
  by (induction its; simp) (induction evs; simp)

section \<open>Typed tables\<close>

definition item_key :: "schedule_item \<Rightarrow> string \<times> string \<times> evidence_modality" where
  "item_key item = (si_target_type item, si_target_id item, si_evidence_modality item)"

definition event_order :: "review_event \<Rightarrow> string \<times> string" where
  "event_order event = (re_created_at event, re_review_event_id event)"

lemma has_columns [simp]:
  "has_item_id x (item_columns item) \<longleftrightarrow> si_schedule_item_id item = x"
  "has_key tt tid m (item_columns item) \<longleftrightarrow> item_key item = (tt, tid, m)"
  by (auto simp: has_item_id_def has_key_def item_columns_def item_key_def)

lemma find_map: "find p (map f xs) = map_option f (find (p \<circ> f) xs)"
  by (induction xs) auto

lemma sort_key_map: "sort_key f (map g xs) = map g (sort_key (\<lambda>x. f (g x)) xs)"
proof -
  have "insort_key f (g x) (map g ys) = map g (insort_key (\<lambda>x. f (g x)) x ys)" for x ys
    by (induction ys) auto
  then show ?thesis by (induction xs) simp_all
qed

lemma find_key_None: "find (\<lambda>i. f i = x) xs = None \<longleftrightarrow> x \<notin> f ` set xs"
  by (induction xs) auto

lemma sort_key_order:
  fixes f :: "'a \<Rightarrow> 'b::linorder" and h :: "'b \<Rightarrow> 'c::linorder"
  assumes "\<And>x y. h x \<le> h y \<longleftrightarrow> x \<le> y"
  shows "sort_key (\<lambda>x. h (f x)) xs = sort_key f xs"
proof -
  have "insort_key (\<lambda>x. h (f x)) y ys = insort_key f y ys" for y ys
    by (induction ys) (simp_all add: assms)
  then show ?thesis by (induction xs) simp_all
qed

definition holds :: "schedule_item list \<Rightarrow> review_event list \<Rightarrow> scheduler_db \<Rightarrow> bool" where
  "holds its evs db \<longleftrightarrow> sc_items db = map item_columns its \<and> sc_events db = map event_columns evs"

lemma holds_fetch_id:
  "holds its evs db \<Longrightarrow> item_row_by_id env x db = Inr (find (\<lambda>i. si_schedule_item_id i = x) its)"
  by (auto simp: holds_def item_row_by_id_def fetch_item_def find_map comp_def split: option.split)

lemma holds_fetch_key:
  "holds its evs db \<Longrightarrow> item_row_for_key env tt tid m db = Inr (find (\<lambda>i. item_key i = (tt, tid, m)) its)"
  by (auto simp: holds_def item_row_for_key_def fetch_item_def find_map comp_def split: option.split)

lemma holds_fetch_event:
  "holds its evs db \<Longrightarrow> event_row_by_id x db = Inr (find (\<lambda>e. re_review_event_id e = x) evs)"
  by (auto simp: holds_def event_row_by_id_def find_map comp_def event_columns_def [THEN arg_cong [of _ _ er_review_event_id]]
      split: option.split)

lemma holds_get:
  assumes "holds its evs db"
  shows "get_schedule_item env tt tid m db = Inr (find (\<lambda>i. item_key i = (tt, tid, m)) its)"
proof -
  have "traverseE (item_from_row env) (filter P (sc_items db)) = Inr (filter (P \<circ> item_columns) its)" for P
    using assms by (simp add: holds_def filter_map)
  then show ?thesis
    by (auto simp: get_schedule_item_def holds_fetch_key [OF assms] refuse_undecodable_sibling_def)
qed

lemma holds_items:
  assumes "holds its evs db"
  shows "list_schedule_items env db = Inr (sort_key si_schedule_item_id its)"
proof -
  have "sort_key (\<lambda>row. sql_order (ir_schedule_item_id row)) (map item_columns its)
      = map item_columns (sort_key (\<lambda>i. (2, 0, si_schedule_item_id i) :: nat \<times> rat \<times> string) its)"
    by (simp add: sort_key_map comp_def item_columns_def)
  also have "sort_key (\<lambda>i. (2, 0, si_schedule_item_id i) :: nat \<times> rat \<times> string) its = sort_key si_schedule_item_id its"
    by (rule sort_key_order) simp
  finally show ?thesis using assms by (simp add: list_schedule_items_def holds_def)
qed

lemma holds_events:
  assumes "holds its evs db"
  shows "list_review_events x db = Inr (sort_key event_order (filter (\<lambda>e. re_schedule_item_id e = x) evs))"
proof -
  let ?f = "\<lambda>(a, b). ((2, 0, a), (2, 0, b)) :: (nat \<times> rat \<times> string) \<times> (nat \<times> rat \<times> string)"
  have "sort_key (\<lambda>row. (sql_order (er_created_at row), sql_order (er_review_event_id row))) (map event_columns es)
      = map event_columns (sort_key (\<lambda>e. ?f (event_order e)) es)" for es
    by (simp add: sort_key_map comp_def event_columns_def event_order_def)
  moreover have "sort_key (\<lambda>e. ?f (event_order e)) es = sort_key event_order es" for es
    by (rule sort_key_order) (auto simp: less_eq_prod_def less_prod_def split: prod.splits)
  ultimately show ?thesis
    using assms by (simp add: list_review_events_def holds_def filter_map comp_def event_columns_def)
qed

section \<open>The writes on typed tables\<close>

definition put_item :: "schedule_item \<Rightarrow> schedule_item list \<Rightarrow> schedule_item list" where
  "put_item item its =
    (if find (\<lambda>i. si_schedule_item_id i = si_schedule_item_id item) its = None then its @ [item]
     else map (\<lambda>i. if si_schedule_item_id i = si_schedule_item_id item then item else i) its)"

lemma holds_write:
  assumes "holds its evs db" and "is_new = (find (\<lambda>i. si_schedule_item_id i = si_schedule_item_id item) its = None)"
  shows "holds (put_item item its) evs (write_item item is_new db)"
  using assms by (auto simp: holds_def write_item_def put_item_def)

definition items_ok :: "schedule_item list \<Rightarrow> bool" where
  "items_ok its \<longleftrightarrow> distinct (map si_schedule_item_id its) \<and> distinct (map item_key its)
    \<and> list_all (\<lambda>i. si_target_type i \<in> set TARGET_TYPE_WORDS) its"

definition events_ok :: "schedule_item list \<Rightarrow> review_event list \<Rightarrow> bool" where
  "events_ok its evs \<longleftrightarrow> distinct (map re_review_event_id evs)
    \<and> list_all (\<lambda>e. re_schedule_item_id e \<in> si_schedule_item_id ` set its) evs"

definition scheduler_inv :: "scheduler_db \<Rightarrow> bool" where
  "scheduler_inv db \<longleftrightarrow> (\<exists>its evs. holds its evs db \<and> items_ok its \<and> events_ok its evs)"

lemma set_put_item:
  "set (put_item item its) = insert item {i \<in> set its. si_schedule_item_id i \<noteq> si_schedule_item_id item}"
  by (auto simp: put_item_def find_key_None intro: rev_image_eqI split: if_splits)

lemma find_distinct:
  assumes "distinct (map f xs)" and "x \<in> set xs"
  shows "find (\<lambda>y. f y = f x) xs = Some x"
  using assms by (induction xs) auto

lemma find_put_id:
  "find (\<lambda>i. si_schedule_item_id i = si_schedule_item_id item) (put_item item its) = Some item"
proof -
  have "find (\<lambda>i. si_schedule_item_id i = si_schedule_item_id item) (its @ [item]) = Some item"
    if "find (\<lambda>i. si_schedule_item_id i = si_schedule_item_id item) its = None"
    using that by (induction its) (auto split: if_splits)
  moreover have "find (\<lambda>i. si_schedule_item_id i = x) (map (\<lambda>i. if si_schedule_item_id i = x then item else i) its) = Some item"
    if "find (\<lambda>i. si_schedule_item_id i = x) its \<noteq> None" and "si_schedule_item_id item = x" for x
    using that by (induction its) (auto split: if_splits)
  ultimately show ?thesis by (auto simp: put_item_def)
qed

lemma ids_put_item:
  "map si_schedule_item_id (put_item item its) =
    (if si_schedule_item_id item \<in> si_schedule_item_id ` set its then map si_schedule_item_id its
     else map si_schedule_item_id its @ [si_schedule_item_id item])"
  by (auto simp: put_item_def find_key_None intro: rev_image_eqI)

lemma items_ok_put:
  assumes ok: "items_ok its" and word: "si_target_type item \<in> set TARGET_TYPE_WORDS"
    and free: "\<And>i. i \<in> set its \<Longrightarrow> item_key i = item_key item \<Longrightarrow> si_schedule_item_id i = si_schedule_item_id item"
  shows "items_ok (put_item item its)"
proof -
  have ids: "distinct (map si_schedule_item_id (put_item item its))"
    using ok by (auto simp: ids_put_item items_ok_def)
  moreover have "distinct (map item_key (put_item item its))"
  proof (intro distinct_map [THEN iffD2] conjI inj_onI)
    show "distinct (put_item item its)" using ids by (simp add: distinct_map)
    fix i j
    assume ij: "i \<in> set (put_item item its)" "j \<in> set (put_item item its)" "item_key i = item_key j"
    have inj: "inj_on item_key (set its)" using ok by (simp add: items_ok_def distinct_map)
    show "i = j" using ij free inj_onD [OF inj] by (auto simp: set_put_item)
  qed
  moreover have "list_all (\<lambda>i. si_target_type i \<in> set TARGET_TYPE_WORDS) (put_item item its)"
    using ok word by (auto simp: items_ok_def list_all_iff set_put_item)
  ultimately show ?thesis by (simp add: items_ok_def)
qed

text \<open>A successful write of an item is a replay or a put under a free key.\<close>

lemma upsert_Inr:
  assumes typed: "holds its evs db" and run: "upsert_schedule_item env fence now item db = Inr (row, db')"
  shows "sc_newest_epoch db = Some fence \<and>
   (find (\<lambda>i. si_schedule_item_id i = si_schedule_item_id item) its = Some row
      \<and> si_version row = si_version item \<and> same_item row item \<and> db' = db
    \<or> row = item\<lparr>si_updated_at := now\<rparr> \<and> holds (put_item row its) evs db' \<and> db' = db\<lparr>sc_items := sc_items db'\<rparr>
      \<and> si_target_type item \<in> set TARGET_TYPE_WORDS
      \<and> (\<forall>held. find (\<lambda>i. si_schedule_item_id i = si_schedule_item_id item) its = Some held
           \<longrightarrow> si_version held \<noteq> si_version item)
      \<and> (\<forall>i \<in> set its. item_key i = item_key item \<longrightarrow> si_schedule_item_id i = si_schedule_item_id item))"
proof -
  define held where "held = find (\<lambda>i. si_schedule_item_id i = si_schedule_item_id item) its"
  have epoch: "sc_newest_epoch db = Some fence"
    using run by (auto simp: upsert_schedule_item_def require_current_scheduler_epoch_def result_simps)
  have integrity: "item_integrity item db \<longleftrightarrow> si_target_type item \<in> set TARGET_TYPE_WORDS
      \<and> (\<forall>i \<in> set its. item_key i = item_key item \<longrightarrow> si_schedule_item_id i = si_schedule_item_id item)"
    using typed by (auto simp: item_integrity_def holds_def list_all_iff item_key_def)
  show ?thesis
  proof (cases "map_option si_version held = Some (si_version item)")
    case True
    then show ?thesis
      using run epoch held_def
      by (auto simp: upsert_schedule_item_def require_current_scheduler_epoch_def checkE_def holds_fetch_id [OF typed]
          split: if_splits)
  next
    case False
    then have "row = item\<lparr>si_updated_at := now\<rparr> \<and> db' = write_item row (held = None) db \<and> item_integrity item db"
      using run epoch held_def
      by (auto simp: upsert_schedule_item_def require_current_scheduler_epoch_def checkE_def holds_fetch_id [OF typed]
          holds_fetch_key [OF typed] split: if_splits option.splits)
    moreover from this have "holds (put_item row its) evs db'"
      using holds_write [OF typed, of "held = None" row] held_def by simp
    ultimately show ?thesis
      using epoch False integrity held_def by (auto simp: write_item_def)
  qed
qed

lemma record_Inr:
  assumes typed: "holds its evs db" and run: "record_review_event fence now event db = Inr (row, db')"
  shows "sc_newest_epoch db = Some fence \<and>
   (find (\<lambda>e. re_review_event_id e = re_review_event_id event) evs = Some row \<and> same_event row event \<and> db' = db
    \<or> row = event\<lparr>re_created_at := (if re_created_at event \<noteq> [] then re_created_at event else now)\<rparr>
      \<and> find (\<lambda>e. re_review_event_id e = re_review_event_id event) evs = None
      \<and> re_schedule_item_id event \<in> si_schedule_item_id ` set its
      \<and> holds its (evs @ [row]) db' \<and> db' = db\<lparr>sc_events := sc_events db'\<rparr>)"
proof -
  have epoch: "sc_newest_epoch db = Some fence"
    using run by (auto simp: record_review_event_def require_current_scheduler_epoch_def result_simps)
  define existing where "existing = find (\<lambda>e. re_review_event_id e = re_review_event_id event) evs"
  show ?thesis
  proof (cases existing)
    case (Some durable)
    then show ?thesis
      using run epoch existing_def
      by (auto simp: record_review_event_def require_current_scheduler_epoch_def checkE_def
          holds_fetch_event [OF typed] split: if_splits)
  next
    case None
    have parent: "missing_parent event db = None \<Longrightarrow> re_schedule_item_id event \<in> si_schedule_item_id ` set its"
      using typed by (auto simp: missing_parent_def holds_def list_ex_iff intro: rev_image_eqI split: if_splits)
    from None show ?thesis
      using run epoch existing_def parent typed
      by (auto simp: record_review_event_def require_current_scheduler_epoch_def checkE_def Let_def holds_def
          holds_fetch_event [OF typed] split: option.splits)
  qed
qed

section \<open>Preservation\<close>

lemma invE:
  assumes "scheduler_inv db"
  obtains its evs where "holds its evs db" and "items_ok its" and "events_ok its evs"
  using assms by (auto simp: scheduler_inv_def)

lemma events_ok_mono:
  "events_ok its evs \<Longrightarrow> si_schedule_item_id ` set its \<subseteq> si_schedule_item_id ` set its' \<Longrightarrow> events_ok its' evs"
  by (auto simp: events_ok_def list_all_iff)

lemma ids_kept: "si_schedule_item_id ` set its \<subseteq> si_schedule_item_id ` set (put_item item its)"
  by (auto simp: set_put_item)

lemma inv_upsert:
  assumes inv: "scheduler_inv db" and run: "upsert_schedule_item env fence now item db = Inr (row, db')"
  shows "scheduler_inv db'"
proof -
  from inv obtain its evs where typed: "holds its evs db" "items_ok its" "events_ok its evs" by (rule invE)
  from upsert_Inr [OF typed(1) run] consider "db' = db"
    | "row = item\<lparr>si_updated_at := now\<rparr>" "holds (put_item row its) evs db'"
      "si_target_type item \<in> set TARGET_TYPE_WORDS"
      "\<forall>i \<in> set its. item_key i = item_key item \<longrightarrow> si_schedule_item_id i = si_schedule_item_id item"
    by blast
  then show ?thesis
  proof cases
    case 2
    then have "items_ok (put_item row its)"
      using typed(2) by (intro items_ok_put) (auto simp: item_key_def)
    then show ?thesis
      using 2(2) events_ok_mono [OF typed(3) ids_kept] by (auto simp: scheduler_inv_def)
  qed (use inv in simp)
qed

lemma inv_record:
  assumes inv: "scheduler_inv db" and run: "record_review_event fence now event db = Inr (row, db')"
  shows "scheduler_inv db'"
proof -
  from inv obtain its evs where typed: "holds its evs db" "items_ok its" "events_ok its evs" by (rule invE)
  from record_Inr [OF typed(1) run] show ?thesis
  proof (elim conjE disjE)
    assume row: "row = event\<lparr>re_created_at := (if re_created_at event \<noteq> [] then re_created_at event else now)\<rparr>"
      and new: "find (\<lambda>e. re_review_event_id e = re_review_event_id event) evs = None"
      and parent: "re_schedule_item_id event \<in> si_schedule_item_id ` set its" and "holds its (evs @ [row]) db'"
    moreover have "events_ok its (evs @ [row])"
      using typed(3) new parent by (auto simp: events_ok_def row find_key_None)
    ultimately show ?thesis using typed(2) by (auto simp: scheduler_inv_def)
  qed (use inv in simp)
qed

section \<open>The two writes replay\<close>

definition writable :: "int \<Rightarrow> scheduler_db \<Rightarrow> bool" where
  "writable fence db \<longleftrightarrow> scheduler_inv db \<and> sc_newest_epoch db = Some fence"

lemma upsert_stored:
  assumes "writable fence db" and run: "upsert_schedule_item env fence now item db = Inr (row, db')"
  shows "writable fence db' \<and> item_row_by_id env (si_schedule_item_id item) db' = Inr (Some row)
    \<and> si_version row = si_version item \<and> same_item row item"
proof -
  from assms(1) obtain its evs where typed: "holds its evs db" "items_ok its" "events_ok its evs"
    by (auto simp: writable_def elim: invE)
  have inv: "scheduler_inv db'" using assms by (auto simp: writable_def intro: inv_upsert)
  from upsert_Inr [OF typed(1) run] consider "db' = db"
      "find (\<lambda>i. si_schedule_item_id i = si_schedule_item_id item) its = Some row"
      "si_version row = si_version item" "same_item row item"
    | "row = item\<lparr>si_updated_at := now\<rparr>" "holds (put_item row its) evs db'" "db' = db\<lparr>sc_items := sc_items db'\<rparr>"
    by blast
  then show ?thesis
  proof cases
    case 1
    then show ?thesis using assms(1) holds_fetch_id [OF typed(1)] by simp
  next
    case 2
    have "sc_newest_epoch db' = sc_newest_epoch db" by (subst 2(3)) simp
    then show ?thesis
      using 2(1) inv assms(1) holds_fetch_id [OF 2(2), of env "si_schedule_item_id item"]
        find_put_id [of row its]
      by (simp add: writable_def same_item_def)
  qed
qed

lemma upsert_replays:
  assumes "writable fence db" and "item_row_by_id env (si_schedule_item_id item) db = Inr (Some row)"
    and "si_version row = si_version item" and "same_item row item"
  shows "upsert_schedule_item env fence now item db = Inr (row, db)"
  using assms
  by (simp add: writable_def upsert_schedule_item_def require_current_scheduler_epoch_def checkE_def)

interpretation items: replayed_write "item_row_by_id env" "upsert_schedule_item env fence" si_schedule_item_id
    "\<lambda>s r. si_version s = si_version r \<and> same_item s r" "writable fence" for env fence
  by unfold_locales (use upsert_stored upsert_replays in blast)+

lemma record_stored:
  assumes "writable fence db" and run: "record_review_event fence now event db = Inr (row, db')"
  shows "writable fence db' \<and> event_row_by_id (re_review_event_id event) db' = Inr (Some row) \<and> same_event row event"
proof -
  from assms(1) obtain its evs where typed: "holds its evs db" "items_ok its" "events_ok its evs"
    by (auto simp: writable_def elim: invE)
  have inv: "scheduler_inv db'" using assms by (auto simp: writable_def intro: inv_record)
  have snoc: "find P xs = None \<Longrightarrow> P x \<Longrightarrow> find P (xs @ [x]) = Some x" for P :: "review_event \<Rightarrow> bool" and xs x
    by (induction xs) (auto split: if_splits)
  from record_Inr [OF typed(1) run] consider "db' = db"
      "find (\<lambda>e. re_review_event_id e = re_review_event_id event) evs = Some row" "same_event row event"
    | "row = event\<lparr>re_created_at := (if re_created_at event \<noteq> [] then re_created_at event else now)\<rparr>"
      "find (\<lambda>e. re_review_event_id e = re_review_event_id event) evs = None"
      "holds its (evs @ [row]) db'" "db' = db\<lparr>sc_events := sc_events db'\<rparr>"
    by (elim conjE disjE) metis+
  then show ?thesis
  proof cases
    case 1
    then show ?thesis using assms(1) holds_fetch_event [OF typed(1)] by simp
  next
    case 2
    have "sc_newest_epoch db' = sc_newest_epoch db" by (subst 2(4)) simp
    moreover have "re_review_event_id row = re_review_event_id event" using 2(1) by simp
    moreover have "same_event row event" using 2(1) by (simp add: same_event_def same_declared_time_def)
    ultimately show ?thesis
      using inv assms(1) holds_fetch_event [OF 2(3), of "re_review_event_id event"] snoc [OF 2(2), of row]
      by (simp add: writable_def)
  qed
qed

lemma record_replays:
  assumes "writable fence db" and "event_row_by_id (re_review_event_id event) db = Inr (Some row)"
    and "same_event row event"
  shows "record_review_event fence now event db = Inr (row, db)"
  using assms by (simp add: writable_def record_review_event_def require_current_scheduler_epoch_def checkE_def)

interpretation events: replayed_write event_row_by_id "record_review_event fence" re_review_event_id same_event
    "writable fence" for fence
  by unfold_locales (use record_stored record_replays in blast)+

section \<open>Recomputation as a planned write\<close>

definition planned_row ::
  "py_env \<Rightarrow> learning_reads \<Rightarrow> string \<Rightarrow> string \<Rightarrow> evidence_modality \<Rightarrow> string \<Rightarrow> scheduler_db
   \<Rightarrow> schedule_error + schedule_item" where
  "planned_row env reads target_type target_id modality as_of db =
    bindE (lr_get_freshness reads target_id) (\<lambda>strong.
    bindE (lr_get_learning_watermark reads) (\<lambda>watermark.
    bindE (get_schedule_item env target_type target_id modality db) (\<lambda>current.
      let item_id = (case current of None \<Rightarrow> schedule_item_id_for env target_type target_id modality
                     | Some item \<Rightarrow> si_schedule_item_id item)
      in bindE (list_review_events item_id db) (\<lambda>events.
           plan_schedule_item env item_id target_type target_id modality strong events (int_text watermark) as_of))))"

lemma bindE_assoc: "bindE (bindE m f) g = bindE m (\<lambda>x. bindE (f x) g)"
  by (cases m) auto

lemma recompute_planned:
  "recompute_schedule_item env (Some reads) fence now tt tid m as_of db =
    bindE (planned_row env reads tt tid m as_of db) (\<lambda>row. upsert_schedule_item env fence now row db)"
  by (simp add: recompute_schedule_item_def planned_row_def bindE_assoc Let_def)

lemma plan_fields:
  "plan_schedule_item env item_id tt tid m strong events wm as_of = Inr row \<Longrightarrow>
    si_schedule_item_id row = item_id \<and> item_key row = (tt, tid, m)"
  by (auto simp: plan_schedule_item_def decided_row_def item_key_def result_simps split: option.splits)

lemma find_put_key:
  assumes "items_ok (put_item row its)"
  shows "find (\<lambda>i. item_key i = item_key row) (put_item row its) = Some row"
  by (rule find_distinct) (use assms in \<open>simp_all add: items_ok_def set_put_item\<close>)

lemma planned_row_stable:
  assumes w: "writable fence db" and plan: "planned_row env reads tt tid m as_of db = Inr r"
    and run: "upsert_schedule_item env fence now r db = Inr (s, db')"
  shows "planned_row env reads tt tid m as_of db' = Inr r"
proof -
  from w obtain its evs where typed: "holds its evs db" "items_ok its" "events_ok its evs"
    by (auto simp: writable_def elim: invE)
  define k where "k = (case find (\<lambda>i. item_key i = (tt, tid, m)) its of
     None \<Rightarrow> schedule_item_id_for env tt tid m | Some item \<Rightarrow> si_schedule_item_id item)"
  from plan obtain strong wm where reads: "lr_get_freshness reads tid = Inr strong"
    "lr_get_learning_watermark reads = Inr wm"
    and row: "plan_schedule_item env k tt tid m strong
      (sort_key event_order (filter (\<lambda>e. re_schedule_item_id e = k) evs)) (int_text wm) as_of = Inr r"
    by (auto simp: planned_row_def result_simps holds_get [OF typed(1)] holds_events [OF typed(1)] k_def Let_def)
  have fields: "si_schedule_item_id r = k" "item_key r = (tt, tid, m)"
    using plan_fields [OF row] by simp_all
  from upsert_Inr [OF typed(1) run] consider "db' = db"
    | "s = r\<lparr>si_updated_at := now\<rparr>" "holds (put_item s its) evs db'"
      "si_target_type r \<in> set TARGET_TYPE_WORDS"
      "\<forall>i \<in> set its. item_key i = item_key r \<longrightarrow> si_schedule_item_id i = si_schedule_item_id r"
    by blast
  then show ?thesis
  proof cases
    case 2
    have key: "item_key s = (tt, tid, m)" "si_schedule_item_id s = k"
      using 2(1) fields by (simp_all add: item_key_def)
    have "items_ok (put_item s its)"
      by (intro items_ok_put [OF typed(2)]) (use 2 in \<open>auto simp: item_key_def\<close>)
    from find_put_key [OF this] show ?thesis
      using row reads key by (simp add: planned_row_def holds_get [OF 2(2)] holds_events [OF 2(2)])
  qed (use plan in simp)
qed

interpretation recompute: planned_write "item_row_by_id env" "upsert_schedule_item env fence" si_schedule_item_id
    "\<lambda>s r. si_version s = si_version r \<and> same_item s r" "writable fence"
    "planned_row env reads tt tid m as_of" for env fence reads tt tid m as_of
  by unfold_locales (rule planned_row_stable)

section \<open>Reachable tables\<close>

inductive schedule_step :: "py_env \<Rightarrow> scheduler_db \<Rightarrow> scheduler_db \<Rightarrow> bool" for env where
  step_upsert: "upsert_schedule_item env fence now item db = Inr (row, db') \<Longrightarrow> schedule_step env db db'"
| step_recompute: "recompute_schedule_item env learning fence now tt tid m as_of db = Inr (row, db') \<Longrightarrow>
    schedule_step env db db'"
| step_record: "record_review_event fence now event db = Inr (row, db') \<Longrightarrow> schedule_step env db db'"
| step_world: "db' = db\<lparr>sc_newest_epoch := e, sc_moments := ms, sc_turns := ts, sc_evidence_groups := gs\<rparr> \<Longrightarrow>
    schedule_step env db db'"

inductive schedule_reachable :: "py_env \<Rightarrow> scheduler_db \<Rightarrow> bool" for env where
  reach_empty: "sc_items db = [] \<Longrightarrow> sc_events db = [] \<Longrightarrow> schedule_reachable env db"
| reach_step: "schedule_reachable env db \<Longrightarrow> schedule_step env db db' \<Longrightarrow> schedule_reachable env db'"

lemma recompute_upsert:
  assumes "recompute_schedule_item env learning fence now tt tid m as_of db = Inr (row, db')"
  obtains item where "upsert_schedule_item env fence now item db = Inr (row, db')"
  using assms by (cases learning) (auto simp: recompute_planned result_simps, simp add: recompute_schedule_item_def)

lemma inv_schedule_step: "schedule_step env db db' \<Longrightarrow> scheduler_inv db \<Longrightarrow> scheduler_inv db'"
proof (induction rule: schedule_step.induct)
  case (step_recompute learning fence now tt tid m as_of db row db')
  then show ?case by (meson inv_upsert recompute_upsert)
next
  case (step_world db' db e ms ts gs)
  then show ?case by (simp add: scheduler_inv_def holds_def)
qed (auto intro: inv_upsert inv_record)

lemma schedule_reachable_inv: "schedule_reachable env db \<Longrightarrow> scheduler_inv db"
proof (induction rule: schedule_reachable.induct)
  case (reach_empty db)
  then have "holds [] [] db \<and> items_ok [] \<and> events_ok [] []"
    by (simp add: holds_def items_ok_def events_ok_def)
  then show ?case by (auto simp: scheduler_inv_def)
qed (rule inv_schedule_step)

end
