(* ===== verification/Schedule_Properties.thy ===== *)
theory Schedule_Properties
  imports Schedule_Invariant
begin

text \<open>
  What the review scheduler promises: the exact row of a decision and the exact refusals, the version
  as a faithful name of the content, history that only grows and versions that are never rewritten,
  recomputation that writes nothing the second time, and the agreement of the view with the due
  question.
\<close>

section \<open>Concrete rows\<close>

definition demo_event :: review_event where
  "demo_event = \<lparr>re_review_event_id = ''e1'', re_schedule_item_id = ''si-1'', re_teaching_moment_id = None,
     re_source_turn_id = None, re_event_type = ''review'', re_engaged = True, re_evidence_group_id = None,
     re_created_at = demo_time 5\<rparr>"

text \<open>The demonstration reader accepts every text; the ranged one reads times in range only.\<close>

definition ranged_env :: py_env where
  "ranged_env = demo_env\<lparr>env_fromisoformat := (\<lambda>s. case demo_fromisoformat s of None \<Rightarrow> None
     | Some d \<Rightarrow> if datetime_in_range d then Some d else None)\<rparr>"

lemma ranged_env_ok: "iso_round_trip ranged_env" "reads_in_range ranged_env"
  using demo_iso_round_trip
  by (auto simp: ranged_env_def iso_round_trip_def reads_in_range_def demo_env_def split: option.splits if_splits)

lemma ranged_reads:
  "0 \<le> h \<Longrightarrow> h < DATETIME_SPAN \<Longrightarrow>
    env_fromisoformat ranged_env (demo_time h) = Some \<lparr>dt_local = h, dt_utcoffset = Some 0\<rparr>"
  by (simp add: ranged_env_def demo_time_def demo_round_trip datetime_in_range_def)

section \<open>The decision\<close>

definition absent_obligation :: "schedule_item \<Rightarrow> bool" where
  "absent_obligation row \<longleftrightarrow> si_review_state row = NOT_SCHEDULED \<and> si_review_urgency row = Some 0
    \<and> si_next_review_window_start row = None \<and> si_next_review_window_end row = None \<and> si_spacing_stage row = None"

definition ladder_position :: "review_event list \<Rightarrow> spacing_stage" where
  "ladder_position events =
    (case length (filter re_engaged events) of 0 \<Rightarrow> STAGE_0 | Suc 0 \<Rightarrow> STAGE_1 | Suc (Suc 0) \<Rightarrow> STAGE_2
     | Suc (Suc (Suc 0)) \<Rightarrow> STAGE_3 | _ \<Rightarrow> STAGE_4)"

lemma ladder_position_code: "stage_from_history events = ladder_position events"
  by (auto simp: stage_from_history_def ladder_position_def SPACING_STAGES_def Let_def numeral_eq_Suc split: nat.split)

text \<open>A row inside its window: the window runs from the newest time on, by the ladder, in its offset.\<close>

definition scheduled_row :: "py_env \<Rightarrow> py_datetime \<Rightarrow> review_event list \<Rightarrow> py_datetime \<Rightarrow> schedule_item \<Rightarrow> bool" where
  "scheduled_row env newest events now row \<longleftrightarrow>
    (let start = window_start newest (ladder_position events); finish = window_finish newest (ladder_position events)
     in map_option (env_fromisoformat env) (si_next_review_window_start row) = Some (Some start)
      \<and> map_option (env_fromisoformat env) (si_next_review_window_end row) = Some (Some finish)
      \<and> si_spacing_stage row = Some (ladder_position events)
      \<and> si_review_state row = state_of_instants (instant_of now) (instant_of start) (instant_of finish)
      \<and> si_review_urgency row = Some (URGENCY_ANCHORS (si_review_state row)))"

text \<open>
  C23: The row the scheduler decides for a key is exact.  With no retrieval and no written review there is
  no obligation: \<^verbatim>\<open>NOT_SCHEDULED\<close>, no window, no stage, urgency 0.  Otherwise the window starts 1, 3, 7,
  16 or 35 days (by the number of engaged reviews) after the newest of the times, ends three days later,
  and the row is \<^verbatim>\<open>UPCOMING\<close> before it, \<^verbatim>\<open>DUE\<close> in it with both ends, \<^verbatim>\<open>OVERDUE\<close> after it, with the urgency
  of that state.
\<close>

theorem schedule_row_exact:
  assumes "iso_round_trip env" and "reads_in_range env"
    and run: "plan_schedule_item env item_id tt tid m strong events wm as_of = Inr row"
  shows "if anchor_texts strong events = [] then absent_obligation row
    else \<exists>a newest now. newest_text env (anchor_texts strong events) a newest
      \<and> env_fromisoformat env as_of = Some now \<and> scheduled_row env newest events now row"
proof (cases "anchor_texts strong events = []")
  case True
  then have "anchor_of env strong events = Inr None" by (simp add: anchor_of_None)
  then show ?thesis
    using run True by (auto simp: plan_schedule_item_cases [OF assms(1,2)] absent_obligation_def decided_row_def
        urgency_of_def)
next
  case False
  then obtain a where anchor: "anchor_of env strong events = Inr (Some a)"
    using run anchor_of_None [of env strong events]
    by (auto simp: plan_schedule_item_cases [OF assms(1,2)] split: sum.splits option.splits)
  then obtain d where d: "newest_text env (anchor_texts strong events) a d" by (rule anchor_of_Some)
  then have reads: "the (env_fromisoformat env a) = d" by (simp add: newest_text_def)
  from run have range: "datetime_in_range (window_finish d (stage_from_history events))"
    by (auto simp: plan_schedule_item_cases [OF assms(1,2)] anchor reads Let_def split: if_splits)
  then obtain now where now: "parse_instant env as_of ''as_of'' = Inr now"
    using run by (auto simp: plan_schedule_item_cases [OF assms(1,2)] anchor reads Let_def split: sum.splits)
  have "datetime_in_range (window_start d (stage_from_history events))"
    using range d assms(2) by (intro start_in_range)
      (auto simp: newest_text_def reads_in_range_def datetime_in_range_def)
  then have "scheduled_row env d events now row"
    using run range now assms(1)
    by (simp add: plan_schedule_item_cases [OF assms(1,2)] anchor reads Let_def scheduled_row_def
        decided_row_def urgency_of_def iso_round_trip_def flip: ladder_position_code) auto
  then show ?thesis using False d now by (auto simp: parse_instant_Inr)
qed

lemma demo_engaged [simp]: "re_engaged demo_event"
  by (simp add: demo_event_def)

lemma demo_anchor: "anchor_of ranged_env None [demo_event] = Inr (Some (demo_time 5))"
  by (simp add: anchor_of_def newest_instant_def anchor_candidates_def demo_event_def parse_instant_def
      ranged_reads DATETIME_SPAN_def DAY_MICROSECONDS_def)

lemma demo_decides:
  "\<exists>row. plan_schedule_item ranged_env k tt tid m None [demo_event] wm (demo_time 6) = Inr row"
  by (simp add: plan_schedule_item_cases [OF ranged_env_ok] demo_anchor Let_def parse_instant_def ranged_reads
      ladder_position_code ladder_position_def window_finish_def datetime_in_range_def
      DATETIME_SPAN_def DAY_MICROSECONDS_def GRACE_DAYS_def)

theorem schedule_row_exact_witness:
  "\<exists>row a newest now. plan_schedule_item ranged_env ''si-1'' ''RESOURCE'' ''t1'' TEXT_PRODUCTION None [demo_event] ''7'' (demo_time 6)
      = Inr row \<and> newest_text ranged_env (anchor_texts None [demo_event]) a newest
      \<and> env_fromisoformat ranged_env (demo_time 6) = Some now \<and> scheduled_row ranged_env newest [demo_event] now row"
proof -
  obtain row where row: "plan_schedule_item ranged_env ''si-1'' ''RESOURCE'' ''t1'' TEXT_PRODUCTION None [demo_event] ''7''
      (demo_time 6) = Inr row"
    using demo_decides by blast
  moreover have "anchor_texts None [demo_event] \<noteq> []"
    by (simp add: anchor_texts_def anchor_candidates_def demo_event_def)
  ultimately show ?thesis using schedule_row_exact [OF ranged_env_ok row] by auto
qed

text \<open>
  C24: A decision is refused exactly for an input it cannot place in time.  It answers \<^verbatim>\<open>VALIDATION_FAILED\<close>
  when some retrieval or review time is not an aware ISO time, or when there is an anchor and \<open>as_of\<close> is
  not; and an \<^verbatim>\<open>OverflowError\<close> escapes exactly when the window of the anchor leaves the range of \<^verbatim>\<open>datetime\<close>.
\<close>

theorem schedule_decision_refuses_iff:
  assumes "iso_round_trip env" and "reads_in_range env"
  shows "((\<exists>e. plan_schedule_item env item_id tt tid m strong events wm as_of = Inl (InstantUnusable e)) \<longleftrightarrow>
      \<not> list_all (usable env) (anchor_texts strong events)
      \<or> (\<exists>a newest. newest_text env (anchor_texts strong events) a newest
          \<and> datetime_in_range (window_finish newest (ladder_position events)) \<and> \<not> usable env as_of))
    \<and> (plan_schedule_item env item_id tt tid m strong events wm as_of = Inl DateOverflowRaised \<longleftrightarrow>
      (\<exists>a newest. newest_text env (anchor_texts strong events) a newest
          \<and> \<not> datetime_in_range (window_finish newest (ladder_position events))))"
proof (cases "anchor_of env strong events")
  case (Inl e)
  then have "\<not> list_all (usable env) (anchor_texts strong events)"
    using anchor_of_total [of env strong events] by auto
  then show ?thesis using Inl anchor_of_newest [of env strong events]
    by (auto simp: plan_schedule_item_cases [OF assms])
next
  case (Inr r)
  then have all: "list_all (usable env) (anchor_texts strong events)"
    using anchor_of_total [of env strong events] by auto
  show ?thesis
  proof (cases r)
    case None
    then show ?thesis using Inr all anchor_of_None [of env strong events]
      by (auto simp: plan_schedule_item_cases [OF assms] newest_text_def)
  next
    case (Some a)
    then obtain d where d: "newest_text env (anchor_texts strong events) a d"
      using Inr anchor_of_Some by blast
    have the_newest: "(\<exists>b e. newest_text env (anchor_texts strong events) b e \<and> P e) \<longleftrightarrow> P d" for P
      using d newest_text_unique [OF d] by blast
    have reads: "env_fromisoformat env a = Some d" using d by (simp add: newest_text_def)
    show ?thesis
      using Inr Some all parse_instant_Inl [of env as_of "''as_of''"]
      by (cases "parse_instant env as_of ''as_of''")
        (auto simp: plan_schedule_item_cases [OF assms] Let_def reads the_newest ladder_position_code)
  qed
qed

text \<open>A retrieval in the last days of year 9999: the decision raises instead of answering.\<close>

theorem schedule_decision_refuses_iff_witness:
  "plan_schedule_item ranged_env ''si-1'' ''RESOURCE'' ''t1'' TEXT_PRODUCTION (Some (demo_time (DATETIME_SPAN - 1))) [] ''7''
     (demo_time 6) = Inl DateOverflowRaised"
proof -
  have reads: "env_fromisoformat ranged_env (demo_time (DATETIME_SPAN - 1)) =
      Some \<lparr>dt_local = DATETIME_SPAN - 1, dt_utcoffset = Some 0\<rparr>"
    by (rule ranged_reads) (simp_all add: DATETIME_SPAN_def DAY_MICROSECONDS_def)
  then have "newest_text ranged_env (anchor_texts (Some (demo_time (DATETIME_SPAN - 1))) [])
      (demo_time (DATETIME_SPAN - 1)) \<lparr>dt_local = DATETIME_SPAN - 1, dt_utcoffset = Some 0\<rparr>"
    by (simp add: newest_text_def anchor_texts_def anchor_candidates_def usable_def)
  moreover have "\<not> datetime_in_range (window_finish \<lparr>dt_local = DATETIME_SPAN - 1, dt_utcoffset = Some 0\<rparr> (ladder_position []))"
    by (simp add: window_finish_def datetime_in_range_def ladder_position_def DAY_MICROSECONDS_def GRACE_DAYS_def)
  ultimately show ?thesis
    using schedule_decision_refuses_iff [OF ranged_env_ok] by blast
qed

section \<open>Versions\<close>

lemma json_dumps_unique:
  assumes keys: "map fst c = map fst c'" "distinct (map fst c)" and same: "json_dumps c = json_dumps c'"
  shows "c = c'"
proof -
  have sorted_keys: "map fst (sort_key fst x) = sort (map fst x)" for x :: "(string \<times> string) list"
    by (rule properties_for_sort [symmetric]) simp_all
  have "json_members (sort_key fst c) = json_members (sort_key fst c')"
    using same by (simp add: json_dumps_def)
  then have "sort_key fst c = sort_key fst c'"
    by (intro json_members_unique) (simp_all add: sorted_keys keys)
  then have "set (sort_key fst c) = set (sort_key fst c')" by simp
  then have "set c = set c'" by simp
  moreover have "distinct (map fst c')" using keys by simp
  ultimately have maps: "map_of c = map_of c'" using keys(2) by (metis map_of_inject_set)
  have rebuild: "map (\<lambda>k. (k, the (map_of x k))) (map fst x) = x" if "distinct (map fst x)"
    for x :: "(string \<times> string) list"
    unfolding map_map by (rule map_idI) (use that in \<open>auto simp: map_of_is_SomeI\<close>)
  have "c = map (\<lambda>k. (k, the (map_of c k))) (map fst c)" by (rule rebuild [OF keys(2), symmetric])
  also have "\<dots> = map (\<lambda>k. (k, the (map_of c' k))) (map fst c')" by (simp only: maps keys(1))
  also have "\<dots> = c'" by (rule rebuild) (use keys in simp)
  finally show ?thesis .
qed

text \<open>No stored text is the one-character word that spells an absent column.\<close>

definition no_nul :: "(string \<times> string) option \<Rightarrow> bool" where
  "no_nul window \<longleftrightarrow> (case window of None \<Rightarrow> True | Some (start, finish) \<Rightarrow> start \<noteq> ABSENT_FIELD \<and> finish \<noteq> ABSENT_FIELD)"

lemma encoded_inject:
  "x \<noteq> Some ABSENT_FIELD \<Longrightarrow> y \<noteq> Some ABSENT_FIELD \<Longrightarrow> encoded_optional x = encoded_optional y \<longleftrightarrow> x = y"
  by (cases x; cases y) auto

lemma word_injects:
  "review_state_word s = review_state_word s' \<longleftrightarrow> s = s'" "stage_word g = stage_word g' \<longleftrightarrow> g = g'"
  subgoal by (cases s; cases s') simp_all
  subgoal by (cases g; cases g') simp_all
  done

lemma stage_word_encoded:
  "encoded_optional (map_option stage_word g) = encoded_optional (map_option stage_word g') \<longleftrightarrow> g = g'"
proof -
  have "stage_word x \<noteq> ABSENT_FIELD" for x
    by (cases x) (simp_all add: ABSENT_FIELD_def)
  then show ?thesis
    by (cases g; cases g') (simp_all add: word_injects neq_commute)
qed

text \<open>The content a row's version was taken from.\<close>

definition row_content :: "py_env \<Rightarrow> schedule_item \<Rightarrow> (string \<times> string) list" where
  "row_content env row = version_content env (si_target_type row) (si_target_id row) (si_evidence_modality row)
     (si_review_state row) (urgency_of (si_review_state row)) (si_next_review_window_start row)
     (si_next_review_window_end row) (si_spacing_stage row) (si_source_learning_watermark row)"

text \<open>The digest, cut to its stamp, tells two documents apart.\<close>

definition digest_separates :: "py_env \<Rightarrow> string \<Rightarrow> string \<Rightarrow> bool" where
  "digest_separates env x y \<longleftrightarrow>
    take VERSION_DIGEST_CHARS (env_sha256_hex env x) = take VERSION_DIGEST_CHARS (env_sha256_hex env y) \<longrightarrow> x = y"

text \<open>
  The version of a decided row names its content: two decided rows carry the same version exactly
  when every compared column is the same, provided the truncated digest tells their two canonical
  documents apart (what the code relies on) and no window text is the word for absence.
\<close>

theorem version_names_content:
  assumes "row = decided_row env item_id tt tid m wm state window stage"
    and "row' = decided_row env item_id' tt' tid' m' wm' state' window' stage'"
    and "no_nul window" and "no_nul window'"
    and "digest_separates env (json_dumps (row_content env row)) (json_dumps (row_content env row'))"
  shows "si_version row = si_version row' \<longleftrightarrow> same_item row row'"
proof
  have version: "si_version row = row_version env (row_content env row)"
    "si_version row' = row_version env (row_content env row')"
    by (simp_all add: assms(1,2) decided_row_def Let_def row_content_def)
  have windows: "map_option fst w \<noteq> Some ABSENT_FIELD" "map_option snd w \<noteq> Some ABSENT_FIELD" if "no_nul w" for w
    using that by (auto simp: no_nul_def)
  assume "si_version row = si_version row'"
  then have "json_dumps (row_content env row) = json_dumps (row_content env row')"
    using assms(5) by (simp add: version row_version_def digest_separates_def)
  then have "row_content env row = row_content env row'"
    by (intro json_dumps_unique) (simp_all add: row_content_def version_content_def)
  then show "same_item row row'"
    using windows [OF assms(3)] windows [OF assms(4)]
    by (simp add: assms(1,2) row_content_def version_content_def same_item_def decided_row_def Let_def word_injects
        encoded_inject stage_word_encoded)
next
  assume "same_item row row'"
  then show "si_version row = si_version row'"
    by (simp add: assms(1,2) same_item_def decided_row_def Let_def)
qed

text \<open>A digest for the concrete run: the decimal digits of the document.\<close>

definition digits_env :: py_env where
  "digits_env = demo_env\<lparr>env_sha256_hex := filter (\<lambda>c. c \<in> set ''0123456789'')\<rparr>"

definition unscheduled_at :: "string \<Rightarrow> schedule_item" where
  "unscheduled_at wm = decided_row digits_env ''si-1'' ''RESOURCE'' ''t'' TEXT_PRODUCTION wm NOT_SCHEDULED None None"

lemma unscheduled_digests:
  "digest_separates digits_env (json_dumps (row_content digits_env (unscheduled_at ''1'')))
     (json_dumps (row_content digits_env (unscheduled_at ''2'')))"
  by code_simp

theorem version_names_content_witness:
  "si_version (unscheduled_at ''1'') \<noteq> si_version (unscheduled_at ''2'') \<and> no_nul None"
  using version_names_content [OF unscheduled_at_def [of "''1''"] unscheduled_at_def [of "''2''"] _ _ unscheduled_digests]
  by (simp add: no_nul_def same_item_def unscheduled_at_def decided_row_def Let_def)

section \<open>The durable history\<close>

lemma versions_kept:
  assumes typed: "holds its evs db" "items_ok its" and run: "upsert_schedule_item env fence now item db = Inr (row, db')"
  shows "list_all (\<lambda>r. list_ex (\<lambda>r'. ir_schedule_item_id r' = ir_schedule_item_id r
      \<and> (r' = r \<or> ir_version r' \<noteq> ir_version r)) (sc_items db')) (sc_items db)"
proof -
  from upsert_Inr [OF typed(1) run] consider "db' = db"
    | "row = item\<lparr>si_updated_at := now\<rparr>" "holds (put_item row its) evs db'"
      "\<forall>held. find (\<lambda>i. si_schedule_item_id i = si_schedule_item_id item) its = Some held
         \<longrightarrow> si_version held \<noteq> si_version item"
    by blast
  then show ?thesis
  proof cases
    case 1
    then show ?thesis by (auto simp: list_all_iff list_ex_iff)
  next
    case 2
    have kept: "\<exists>j \<in> set (put_item row its). si_schedule_item_id j = si_schedule_item_id i
        \<and> (j = i \<or> si_version j \<noteq> si_version i)" if i: "i \<in> set its" for i
    proof (cases "si_schedule_item_id i = si_schedule_item_id item")
      case True
      then have "si_version i \<noteq> si_version item"
        using 2(3) find_distinct [of si_schedule_item_id its i] typed(2) i by (auto simp: items_ok_def)
      then show ?thesis using True 2(1) by (intro bexI [of _ row]) (auto simp: set_put_item)
    next
      case False
      then show ?thesis using i 2(1) by (intro bexI [of _ i]) (auto simp: set_put_item)
    qed
    have columns: "ir_schedule_item_id (item_columns j) = ir_schedule_item_id (item_columns i)
        \<and> (item_columns j = item_columns i \<or> ir_version (item_columns j) \<noteq> ir_version (item_columns i))"
      if "si_schedule_item_id j = si_schedule_item_id i \<and> (j = i \<or> si_version j \<noteq> si_version i)" for i j
      using that by (auto simp: item_columns_def)
    have tables: "sc_items db = map item_columns its" "sc_items db' = map item_columns (put_item row its)"
      using typed(1) 2(2) by (simp_all add: holds_def)
    show ?thesis
      unfolding tables list_all_iff list_ex_iff
    proof
      fix r assume "r \<in> set (map item_columns its)"
      then obtain i where i: "i \<in> set its" "r = item_columns i" by auto
      from kept [OF i(1)] obtain j where j: "j \<in> set (put_item row its)"
        "si_schedule_item_id j = si_schedule_item_id i \<and> (j = i \<or> si_version j \<noteq> si_version i)" by blast
      show "\<exists>r' \<in> set (map item_columns (put_item row its)). ir_schedule_item_id r' = ir_schedule_item_id r
          \<and> (r' = r \<or> ir_version r' \<noteq> ir_version r)"
        using columns [OF j(2)] j(1) i(2) by (intro bexI [of _ "item_columns j"]) auto
    qed
  qed
qed

text \<open>
  C25: Whatever sequence of writes ran, the tables hold one current row per identifier and per key, only
  rows the column set describes, and events of rows that exist; and a further write only appends events,
  removes no row, and changes a row only together with its version.
\<close>

theorem schedule_history_is_kept:
  assumes "schedule_reachable env db" and "schedule_step env db db'"
  shows "scheduler_inv db' \<and> (\<exists>new. sc_events db' = sc_events db @ new)
    \<and> list_all (\<lambda>r. list_ex (\<lambda>r'. ir_schedule_item_id r' = ir_schedule_item_id r
        \<and> (r' = r \<or> ir_version r' \<noteq> ir_version r)) (sc_items db')) (sc_items db)"
proof (intro conjI)
  have inv: "scheduler_inv db" using assms(1) by (rule schedule_reachable_inv)
  then show "scheduler_inv db'" using assms(2) by (blast intro: inv_schedule_step)
  from inv obtain its evs where typed: "holds its evs db" "items_ok its" "events_ok its evs" by (rule invE)
  have same: "list_all (\<lambda>r. list_ex (\<lambda>r'. ir_schedule_item_id r' = ir_schedule_item_id r
        \<and> (r' = r \<or> ir_version r' \<noteq> ir_version r)) rows) rows" for rows
    by (auto simp: list_all_iff list_ex_iff)
  have upserted: "sc_events db'' = sc_events db" if "upsert_schedule_item env fence now item db = Inr (row, db'')"
    for fence now item row db''
    using upsert_Inr [OF typed(1) that] typed(1) by (auto simp: holds_def)
  from assms(2) show "\<exists>new. sc_events db' = sc_events db @ new"
  proof cases
    case (step_record fence now event row)
    then show ?thesis using record_Inr [OF typed(1) step_record] typed(1) by (auto simp: holds_def)
  qed (use upserted in \<open>auto elim: recompute_upsert\<close>)
  from assms(2) show "list_all (\<lambda>r. list_ex (\<lambda>r'. ir_schedule_item_id r' = ir_schedule_item_id r
        \<and> (r' = r \<or> ir_version r' \<noteq> ir_version r)) (sc_items db')) (sc_items db)"
  proof cases
    case (step_record fence now event row)
    then have "sc_items db' = sc_items db"
      using record_Inr [OF typed(1) step_record] typed(1) by (auto simp: holds_def)
    then show ?thesis by (simp add: same)
  next
    case step_recompute
    then show ?thesis using versions_kept [OF typed(1,2)] by (blast elim: recompute_upsert)
  qed (use versions_kept [OF typed(1,2)] same in auto)
qed

definition empty_tables :: scheduler_db where
  "empty_tables = \<lparr>sc_newest_epoch = Some 1, sc_items = [], sc_events = [], sc_moments = [], sc_turns = [],
     sc_evidence_groups = []\<rparr>"

definition demo_item :: "string \<Rightarrow> schedule_item" where
  "demo_item version = \<lparr>si_schedule_item_id = ''si-1'', si_target_type = ''RESOURCE'', si_target_id = ''t1'',
     si_evidence_modality = TEXT_PRODUCTION, si_review_state = DUE, si_review_urgency = None,
     si_next_review_window_start = Some (demo_time 1), si_next_review_window_end = Some (demo_time 9),
     si_spacing_stage = Some STAGE_0, si_source_learning_watermark = ''7'', si_version = version, si_updated_at = ''n''\<rparr>"

definition demo_rows :: "string \<Rightarrow> scheduler_db" where
  "demo_rows version = empty_tables\<lparr>sc_items := [item_columns (demo_item version)]\<rparr>"

lemma demo_item_simps [simp]:
  "si_schedule_item_id (demo_item v) = ''si-1''" "item_key (demo_item v) = (''RESOURCE'', ''t1'', TEXT_PRODUCTION)"
  "si_target_type (demo_item v) = ''RESOURCE''" "si_target_id (demo_item v) = ''t1''"
  "si_evidence_modality (demo_item v) = TEXT_PRODUCTION" "si_version (demo_item v) = v"
  "demo_item v\<lparr>si_updated_at := ''n''\<rparr> = demo_item v" "row_window (demo_item v) = Some (demo_time 1, demo_time 9)"
  by (simp_all add: demo_item_def item_key_def row_window_def)

lemmas demo_write = upsert_schedule_item_def require_current_scheduler_epoch_def checkE_def item_row_by_id_def
  item_row_for_key_def fetch_item_def item_integrity_def write_item_def TARGET_TYPE_WORDS_def demo_rows_def empty_tables_def

lemma demo_first: "upsert_schedule_item ranged_env 1 ''n'' (demo_item ''v1'') empty_tables = Inr (demo_item ''v1'', demo_rows ''v1'')"
  by (simp add: demo_write)

lemma demo_second:
  "upsert_schedule_item ranged_env 1 ''n'' (demo_item ''v2'') (demo_rows ''v1'') = Inr (demo_item ''v2'', demo_rows ''v2'')"
  by (simp add: demo_write)

lemma demo_rows_reachable: "schedule_reachable ranged_env (demo_rows ''v1'')"
  by (rule reach_step [OF reach_empty step_upsert [OF demo_first]]) (simp_all add: empty_tables_def)

theorem schedule_history_is_kept_witness:
  "scheduler_inv (demo_rows ''v2'') \<and> (\<exists>new. sc_events (demo_rows ''v2'') = sc_events (demo_rows ''v1'') @ new)
    \<and> sc_items (demo_rows ''v2'') \<noteq> sc_items (demo_rows ''v1'')"
  using schedule_history_is_kept [OF demo_rows_reachable step_upsert [OF demo_second]]
  by (simp add: demo_rows_def item_columns_def demo_item_def)

text \<open>
  C26: Recomputing a row is idempotent: after a recomputation that succeeded, the same recomputation at any
  later clock answers with the same row and leaves the tables as they are.
\<close>

theorem recompute_writes_once:
  assumes "schedule_reachable env db"
    and run: "recompute_schedule_item env learning fence now tt tid m as_of db = Inr (row, db')"
  shows "recompute_schedule_item env learning fence now' tt tid m as_of db' = Inr (row, db')"
proof (cases learning)
  case None
  then show ?thesis using run by (simp add: recompute_schedule_item_def)
next
  case (Some reads)
  have "upsert_schedule_item env fence now item db = Inr (r, d) \<Longrightarrow> sc_newest_epoch db = Some fence" for item r d
    by (auto simp: upsert_schedule_item_def require_current_scheduler_epoch_def result_simps)
  then have "writable fence db"
    using run schedule_reachable_inv [OF assms(1)] by (auto simp: writable_def elim: recompute_upsert)
  then show ?thesis
    using run recompute.plan_put_again unfolding Some recompute_planned by blast
qed

definition demo_learning :: learning_reads where
  "demo_learning = \<lparr>lr_get_freshness = (\<lambda>target. Inr (Some (demo_time 5))), lr_get_learning_watermark = Inr 7\<rparr>"

lemma demo_recompute:
  "\<exists>row db'. recompute_schedule_item ranged_env (Some demo_learning) 1 ''n'' ''RESOURCE'' ''t1'' TEXT_PRODUCTION (demo_time 6)
     empty_tables = Inr (row, db') \<and> db' \<noteq> empty_tables"
proof -
  have typed: "holds [] [] empty_tables" by (simp add: holds_def empty_tables_def)
  have "anchor_of ranged_env (Some (demo_time 5)) [] = Inr (Some (demo_time 5))"
    by (simp add: anchor_of_def newest_instant_def anchor_candidates_def parse_instant_def ranged_reads
        DATETIME_SPAN_def DAY_MICROSECONDS_def)
  then obtain row where row: "plan_schedule_item ranged_env (schedule_item_id_for ranged_env ''RESOURCE'' ''t1'' TEXT_PRODUCTION)
      ''RESOURCE'' ''t1'' TEXT_PRODUCTION (Some (demo_time 5)) [] (int_text 7) (demo_time 6) = Inr row"
    by (simp add: plan_schedule_item_cases [OF ranged_env_ok] Let_def parse_instant_def ranged_reads
      ladder_position_code ladder_position_def window_finish_def datetime_in_range_def
      DATETIME_SPAN_def DAY_MICROSECONDS_def GRACE_DAYS_def)
  then have "item_key row = (''RESOURCE'', ''t1'', TEXT_PRODUCTION)" using plan_fields by blast
  then have "upsert_schedule_item ranged_env 1 ''n'' row empty_tables =
      Inr (row\<lparr>si_updated_at := ''n''\<rparr>, write_item (row\<lparr>si_updated_at := ''n''\<rparr>) True empty_tables)"
    by (simp add: upsert_schedule_item_def require_current_scheduler_epoch_def checkE_def empty_tables_def item_row_by_id_def
        item_row_for_key_def fetch_item_def item_integrity_def item_key_def TARGET_TYPE_WORDS_def)
  then show ?thesis
    using row by (simp add: recompute_planned planned_row_def demo_learning_def holds_get [OF typed]
        holds_events [OF typed] write_item_def) (simp add: empty_tables_def)
qed

theorem recompute_writes_once_witness:
  "\<exists>row db'. db' \<noteq> empty_tables \<and> recompute_schedule_item ranged_env (Some demo_learning) 1 ''later'' ''RESOURCE'' ''t1''
     TEXT_PRODUCTION (demo_time 6) db' = Inr (row, db')"
proof -
  have start: "schedule_reachable ranged_env empty_tables" by (rule reach_empty) (simp_all add: empty_tables_def)
  from demo_recompute obtain row db' where run: "recompute_schedule_item ranged_env (Some demo_learning) 1 ''n''
      ''RESOURCE'' ''t1'' TEXT_PRODUCTION (demo_time 6) empty_tables = Inr (row, db')" and "db' \<noteq> empty_tables"
    by blast
  with recompute_writes_once [OF start run, of "''later''"] show ?thesis by blast
qed

section \<open>The reads agree\<close>

definition row_key :: "item_row \<Rightarrow> sql_value \<times> sql_value \<times> sql_value" where
  "row_key row = (ir_target_type row, ir_target_id row, ir_evidence_modality row)"

lemma text_column_Inr: "text_column c v = Inr s \<longleftrightarrow> v = SQL_TEXT s"
  by (cases v) auto

lemma modality_column_Inr: "enum_column MODALITY_MEMBERS c v = Inr m \<longleftrightarrow> v = SQL_TEXT (modality_word m)"
  by (cases v; cases m) (auto simp: MODALITY_MEMBERS_def split: option.split if_splits)

lemma decoded_key: "item_from_row env row = Inr i \<Longrightarrow> has_key tt tid m row \<longleftrightarrow> item_key i = (tt, tid, m)"
  by (auto simp: item_from_row_def decode_item_def result_simps text_column_Inr modality_column_Inr has_key_def item_key_def)

lemma listed_rows:
  assumes "list_schedule_items env db = Inr items"
  shows "i \<in> set items \<longleftrightarrow> (\<exists>row \<in> set (sc_items db). item_from_row env row = Inr i)"
    and "row \<in> set (sc_items db) \<Longrightarrow> \<exists>i. item_from_row env row = Inr i"
proof -
  have "map (item_from_row env) (sort_key (\<lambda>row. sql_order (ir_schedule_item_id row)) (sc_items db)) = map Inr items"
    using assms unfolding list_schedule_items_def by (rule traverseE_Inr_map)
  from arg_cong [OF this, of set] have "item_from_row env ` set (sc_items db) = Inr ` set items" by simp
  then show "i \<in> set items \<longleftrightarrow> (\<exists>row \<in> set (sc_items db). item_from_row env row = Inr i)"
    and "row \<in> set (sc_items db) \<Longrightarrow> \<exists>i. item_from_row env row = Inr i"
    by (metis (no_types, lifting) imageE imageI sum.inject(2))+
qed

lemma read_by_key:
  assumes list: "list_schedule_items env db = Inr items" and unique: "distinct (map row_key (sc_items db))"
  shows "\<exists>found. get_schedule_item env tt tid m db = Inr found
    \<and> (case found of None \<Rightarrow> (\<forall>i \<in> set items. item_key i \<noteq> (tt, tid, m))
       | Some i \<Rightarrow> i \<in> set items \<and> item_key i = (tt, tid, m) \<and> (\<forall>j \<in> set items. item_key j = (tt, tid, m) \<longrightarrow> j = i))"
proof (cases "find (has_key tt tid m) (sc_items db)")
  case None
  have "\<exists>is. traverseE (item_from_row env) (filter P (sc_items db)) = Inr is" for P
    using listed_rows(2) [OF list] by (intro traverseE_total) auto
  then have "get_schedule_item env tt tid m db = Inr None"
    using None by (auto simp: get_schedule_item_def item_row_for_key_def fetch_item_def refuse_undecodable_sibling_def result_simps)
  moreover have "item_key i \<noteq> (tt, tid, m)" if "i \<in> set items" for i
    using that None decoded_key by (auto simp: listed_rows(1) [OF list] find_None_iff)
  ultimately show ?thesis by auto
next
  case (Some row)
  then have row: "row \<in> set (sc_items db)" "has_key tt tid m row"
    by (auto simp: find_Some_iff)
  then obtain i where i: "item_from_row env row = Inr i" using listed_rows(2) [OF list] by blast
  have "j = i" if "j \<in> set items" "item_key j = (tt, tid, m)" for j
  proof -
    from that(1) obtain row' where row': "row' \<in> set (sc_items db)" "item_from_row env row' = Inr j"
      by (auto simp: listed_rows(1) [OF list])
    then have "row_key row' = row_key row"
      using that(2) row(2) decoded_key [OF row'(2)] by (auto simp: has_key_def row_key_def)
    then have "row' = row" using unique row(1) row'(1) by (auto simp: distinct_map dest: inj_onD)
    then show ?thesis using i row' by simp
  qed
  then show ?thesis
    using Some i row decoded_key [OF i] listed_rows(1) [OF list, of i]
    by (intro exI [of _ "Some i"]) (auto simp: get_schedule_item_def item_row_for_key_def fetch_item_def)
qed

lemma classified_iff:
  assumes "classify_rows env as_of items = Inr classified"
  shows "(state, i) \<in> set classified \<longleftrightarrow> i \<in> set items \<and>
    (\<exists>start finish. row_window i = Some (start, finish) \<and> state_at env as_of start finish = Inr state)"
  using assms
proof (induction env as_of items arbitrary: classified rule: classify_rows.induct)
  case (2 env as_of row rows)
  show ?case
  proof (cases "row_window row")
    case None
    then show ?thesis using 2 by auto
  next
    case (Some w)
    then show ?thesis using 2(2) 2(3) by (cases w) (auto simp: result_simps)
  qed
qed simp

lemma set_in_window_order [simp]: "set (in_window_order items) = set items"
  by (simp add: in_window_order_def)

lemma set_bucket: "i \<in> set (bucket state classified) \<longleftrightarrow> (state, i) \<in> set classified"
  by (force simp: bucket_def)

text \<open>
  The planner's view and the due question cannot disagree, on any tables whose key is unique, rows no
  writer of this store produced included: when the view is answered, each of its buckets holds exactly
  the rows with a window in that state, and a key is due exactly when its row is in the due or the
  overdue bucket.
\<close>

theorem view_agrees_with_due:
  assumes unique: "distinct (map row_key (sc_items db))" and view: "get_schedule_view env as_of db = Inr view"
  shows "is_review_due env tt tid m as_of db =
      Inr (list_ex (\<lambda>row. item_key row = (tt, tid, m)) (vw_due_items view @ vw_overdue_items view))
    \<and> (\<exists>items. list_schedule_items env db = Inr items
        \<and> (\<forall>row. row \<in> set (vw_due_items view) \<longleftrightarrow> row \<in> set items \<and> (\<exists>start finish.
             row_window row = Some (start, finish) \<and> state_at env as_of start finish = Inr DUE))
        \<and> (\<forall>row. row \<in> set (vw_overdue_items view) \<longleftrightarrow> row \<in> set items \<and> (\<exists>start finish.
             row_window row = Some (start, finish) \<and> state_at env as_of start finish = Inr OVERDUE))
        \<and> (\<forall>row. row \<in> set (vw_upcoming view) \<longleftrightarrow> row \<in> set items \<and> (\<exists>start finish.
             row_window row = Some (start, finish) \<and> state_at env as_of start finish = Inr UPCOMING)))"
proof -
  from view obtain items classified where list: "list_schedule_items env db = Inr items"
    and classified: "classify_rows env as_of items = Inr classified"
    and buckets: "set (vw_due_items view) = set (bucket DUE classified)"
      "set (vw_overdue_items view) = set (bucket OVERDUE classified)"
      "set (vw_upcoming view) = set (bucket UPCOMING classified)"
    by (auto simp: get_schedule_view_def result_simps)
  note in_bucket = buckets set_bucket classified_iff [OF classified]
  from read_by_key [OF list unique, of tt tid m] obtain found where get: "get_schedule_item env tt tid m db = Inr found"
    and found: "case found of None \<Rightarrow> (\<forall>i \<in> set items. item_key i \<noteq> (tt, tid, m))
       | Some i \<Rightarrow> i \<in> set items \<and> item_key i = (tt, tid, m) \<and> (\<forall>j \<in> set items. item_key j = (tt, tid, m) \<longrightarrow> j = i)"
    by blast
  have classifies: "\<exists>state. state_at env as_of start finish = Inr state"
    if "i \<in> set items" "row_window i = Some (start, finish)" for i start finish
    using classified that
    by (induction items arbitrary: classified) (auto simp: result_simps split: option.splits)
  have "is_review_due env tt tid m as_of db =
      Inr (list_ex (\<lambda>row. item_key row = (tt, tid, m)) (vw_due_items view @ vw_overdue_items view))"
  proof (cases found)
    case None
    then show ?thesis using get found by (auto simp: is_review_due_def list_ex_iff in_bucket)
  next
    case (Some i)
    then have i: "i \<in> set items" "item_key i = (tt, tid, m)" "\<And>j. j \<in> set items \<Longrightarrow> item_key j = (tt, tid, m) \<Longrightarrow> j = i"
      using found by auto
    show ?thesis
    proof (cases "row_window i")
      case None
      then show ?thesis using get Some i(3) by (auto simp: is_review_due_def list_ex_iff in_bucket)
    next
      case w: (Some w)
      obtain start finish where w2: "w = (start, finish)" by (cases w)
      then obtain state where state: "state_at env as_of start finish = Inr state"
        using classifies [OF i(1)] w by blast
      have "(\<exists>row \<in> set (bucket s classified). item_key row = (tt, tid, m)) \<longleftrightarrow> state = s" for s
      proof
        assume "\<exists>row \<in> set (bucket s classified). item_key row = (tt, tid, m)"
        then have "i \<in> set (bucket s classified)"
          using i(3) by (auto simp: set_bucket classified_iff [OF classified])
        then show "state = s" using w w2 state by (simp add: set_bucket classified_iff [OF classified])
      next
        assume "state = s"
        then have "i \<in> set (bucket s classified)"
          using i(1) w w2 state by (simp add: set_bucket classified_iff [OF classified])
        then show "\<exists>row \<in> set (bucket s classified). item_key row = (tt, tid, m)" using i(2) by blast
      qed
      then show ?thesis using get Some w w2 state
        by (simp add: is_review_due_def list_ex_iff bex_Un buckets)
    qed
  qed
  then show ?thesis using list by (auto simp: in_bucket)
qed

lemma demo_view:
  "\<exists>view. get_schedule_view ranged_env (demo_time 5) (demo_rows ''v1'') = Inr view \<and> vw_due_items view = [demo_item ''v1'']"
  by (simp add: get_schedule_view_def list_schedule_items_def demo_rows_def state_at_def
      parse_instant_def ranged_reads instant_of_def DATETIME_SPAN_def DAY_MICROSECONDS_def in_window_order_def bucket_def)

theorem view_agrees_with_due_witness:
  "is_review_due ranged_env ''RESOURCE'' ''t1'' TEXT_PRODUCTION (demo_time 5) (demo_rows ''v1'') = Inr True"
proof -
  from demo_view obtain view where view: "get_schedule_view ranged_env (demo_time 5) (demo_rows ''v1'') = Inr view"
    "vw_due_items view = [demo_item ''v1'']" by blast
  have "distinct (map row_key (sc_items (demo_rows ''v1'')))" by (simp add: demo_rows_def)
  from view_agrees_with_due [OF this view(1), of "''RESOURCE''" "''t1''" TEXT_PRODUCTION] show ?thesis
    using view(2) by (simp add: item_key_def demo_item_def)
qed

end
