(* ===== verification/Schedule_Handshake.thy ===== *)
theory Schedule_Handshake
  imports Schedule_Properties Feature_Assembly
begin

text \<open>
  The seam between the Scheduler and the planner: \<^verbatim>\<open>elc/planner/feature_assembly.py\<close> reads the Scheduler's
  view through a structural port that names three columns of a row, and decides from the rows' watermarks
  whether the schedule may be believed; the Scheduler answers the same question per key.
\<close>

definition planner_row :: "schedule_item \<Rightarrow> schedule_row" where
  "planner_row item = \<lparr>review_state = si_review_state item, review_urgency = si_review_urgency item,
     source_learning_watermark = si_source_learning_watermark item\<rparr>"

definition planner_view :: "scheduler_view \<Rightarrow> schedule_view" where
  "planner_view view = \<lparr>due_items = map planner_row (vw_due_items view),
     overdue_items = map planner_row (vw_overdue_items view), upcoming = map planner_row (vw_upcoming view)\<rparr>"

lemma view_current_iff:
  "schedule_authority_of (Some (planner_view view)) w = CURRENT \<longleftrightarrow>
    (\<forall>row \<in> set (vw_due_items view @ vw_overdue_items view @ vw_upcoming view). currency_of row w = CURRENCY_CURRENT)"
proof -
  have rows: "set (rows_of (planner_view view)) =
      planner_row ` set (vw_due_items view @ vw_overdue_items view @ vw_upcoming view)"
    by (simp add: rows_of_def planner_view_def image_Un)
  have one: "source_learning_watermark (planner_row row) = int_text w \<longleftrightarrow> currency_of row w = CURRENCY_CURRENT" for row
    by (simp add: planner_row_def currency_of_def)
  show ?thesis
    by (simp only: schedule_authority_of_CURRENT_iff rows option.inject ex_simps simp_thms ball_simps one ex_simps HOL.ex_simps)
qed

lemma view_rows:
  assumes "get_schedule_view env as_of db = Inr view" and "list_schedule_items env db = Inr items"
  shows "set (vw_due_items view @ vw_overdue_items view @ vw_upcoming view) = {row \<in> set items. row_window row \<noteq> None}"
proof -
  from assms obtain classified where classified: "classify_rows env as_of items = Inr classified"
    and buckets: "set (vw_due_items view) = set (bucket DUE classified)"
      "set (vw_overdue_items view) = set (bucket OVERDUE classified)"
      "set (vw_upcoming view) = set (bucket UPCOMING classified)"
    by (auto simp: get_schedule_view_def result_simps)
  have never: "state_at env as_of start finish \<noteq> Inr NOT_SCHEDULED" for start finish
    by (auto simp: state_at_def result_simps split: if_splits)
  have "row \<in> set (vw_due_items view @ vw_overdue_items view @ vw_upcoming view) \<longleftrightarrow> (\<exists>state. (state, row) \<in> set classified)" for row
  proof
    assume "\<exists>state. (state, row) \<in> set classified"
    then obtain state where state: "(state, row) \<in> set classified" ..
    then show "row \<in> set (vw_due_items view @ vw_overdue_items view @ vw_upcoming view)"
      using never by (cases state) (auto simp: buckets set_bucket classified_iff [OF classified])
  qed (auto simp: buckets set_bucket)
  moreover have "(\<exists>state. (state, row) \<in> set classified) \<longleftrightarrow> row \<in> set items \<and> row_window row \<noteq> None" for row
  proof -
    have "\<exists>state. state_at env as_of start finish = Inr state"
      if "row \<in> set items" "row_window row = Some (start, finish)" for start finish
      using classified that by (induction items arbitrary: classified) (auto simp: result_simps split: option.splits)
    then show ?thesis by (fastforce simp: classified_iff [OF classified])
  qed
  ultimately show ?thesis by auto
qed

text \<open>
  C27: The planner believes the Scheduler's view exactly when the Scheduler itself calls every row of the view
  current: for tables whose key is unique and a view that is answered, the planner's schedule authority at a
  watermark is \<^verbatim>\<open>CURRENT\<close> iff the Scheduler's handshake answers \<^verbatim>\<open>CURRENT\<close> for every key whose stored row has
  a window.  A row without a window (nothing to review yet) may be stale without making the view stale.
\<close>

theorem planner_reads_current_iff_scheduler_does:
  assumes unique: "distinct (map row_key (sc_items db))" and view: "get_schedule_view env as_of db = Inr view"
    and watermark: "lr_get_learning_watermark reads = Inr w"
  shows "schedule_authority_of (Some (planner_view view)) w = CURRENT \<longleftrightarrow>
    (\<forall>tt tid m start finish row. get_schedule_item env tt tid m db = Inr (Some row)
      \<and> row_window row = Some (start, finish)
      \<longrightarrow> schedule_currency_of env (Some reads) tt tid m db = Inr (Some CURRENCY_CURRENT))"
proof -
  from view obtain items where list: "list_schedule_items env db = Inr items"
    by (auto simp: get_schedule_view_def result_simps)
  note found = read_by_key [OF list unique]
  have currency: "schedule_currency_of env (Some reads) tt tid m db = Inr (Some (currency_of row w))"
    if "get_schedule_item env tt tid m db = Inr (Some row)" for tt tid m row
    using that watermark by (simp add: schedule_currency_of_def)
  have key: "row \<in> set items \<longleftrightarrow> (\<exists>tt tid m. get_schedule_item env tt tid m db = Inr (Some row))" for row
  proof
    assume "row \<in> set items"
    moreover obtain tt tid m where "item_key row = (tt, tid, m)" by (cases "item_key row")
    ultimately show "\<exists>tt tid m. get_schedule_item env tt tid m db = Inr (Some row)"
      using found [of tt tid m] by (force split: option.splits)
  next
    assume "\<exists>tt tid m. get_schedule_item env tt tid m db = Inr (Some row)"
    then obtain tt tid m where "get_schedule_item env tt tid m db = Inr (Some row)" by blast
    then show "row \<in> set items" using found [of tt tid m] by auto
  qed
  show ?thesis
    unfolding view_current_iff view_rows [OF view list] using key currency by fastforce
qed

lemma seven: "int_text 7 = ''7''"
  by (simp add: int_text_def nat_text.simps digit_char_def char_of_def bit_Suc_0_iff)

theorem planner_reads_current_iff_scheduler_does_witness:
  "schedule_currency_of ranged_env (Some demo_learning) ''RESOURCE'' ''t1'' TEXT_PRODUCTION (demo_rows ''v1'')
    = Inr (Some CURRENCY_CURRENT)"
proof -
  have "\<exists>view. get_schedule_view ranged_env (demo_time 5) (demo_rows ''v1'') = Inr view
      \<and> vw_due_items view = [demo_item ''v1''] \<and> vw_overdue_items view = [] \<and> vw_upcoming view = []"
    by (simp add: get_schedule_view_def list_schedule_items_def demo_rows_def state_at_def
      parse_instant_def ranged_reads instant_of_def DATETIME_SPAN_def DAY_MICROSECONDS_def in_window_order_def bucket_def)
  then obtain view where view: "get_schedule_view ranged_env (demo_time 5) (demo_rows ''v1'') = Inr view"
    and rows: "vw_due_items view = [demo_item ''v1'']" "vw_overdue_items view = []" "vw_upcoming view = []" by blast
  have current: "schedule_authority_of (Some (planner_view view)) 7 = CURRENT"
    by (simp add: view_current_iff rows) (simp add: currency_of_def demo_item_def seven)
  have unique: "distinct (map row_key (sc_items (demo_rows ''v1'')))" by (simp add: demo_rows_def)
  have watermark: "lr_get_learning_watermark demo_learning = Inr 7" by (simp add: demo_learning_def)
  have "get_schedule_item ranged_env ''RESOURCE'' ''t1'' TEXT_PRODUCTION (demo_rows ''v1'') = Inr (Some (demo_item ''v1''))"
    by (simp add: get_schedule_item_def item_row_for_key_def fetch_item_def demo_rows_def)
  moreover have "row_window (demo_item ''v1'') = Some (demo_time 1, demo_time 9)" by simp
  ultimately show ?thesis
    using planner_reads_current_iff_scheduler_does [OF unique view watermark] current by blast
qed

end
