(* ===== verification/Trace_Document.thy ===== *)
theory Trace_Document
  imports Planner_Types
begin

text \<open>
  \<^verbatim>\<open>elc/planner/trace_document.py\<close> and the document records of \<^verbatim>\<open>elc/platform/types.py\<close>: the structured
  \<^verbatim>\<open>factor_trace\<close> column of a planner evaluation, its encoder and its strict decoder.  A JSON document is
  the value \<^verbatim>\<open>json.loads\<close> yields; the text between \<^verbatim>\<open>dumps\<close> and \<^verbatim>\<open>loads\<close> is left out.  The kernel's lines and
  gap reasons are templates with their values, so the sentences they print are the fields of
  \<open>trace_prose\<close>, an argument of the encoder, as is \<^verbatim>\<open>str\<close> of a value that is not a string.
\<close>

section \<open>Values and documents\<close>

datatype json = JNull | JBool bool | JInt int | JReal float64 | JText string
  | JArray "json list" | JObject "(string \<times> json) list"

record factor_reading_document =
  rdoc_factor :: string
  rdoc_value :: float64
  rdoc_source :: string
  rdoc_authority :: "string option"

record factor_gap_document =
  gdoc_factor :: string
  gdoc_authority :: string
  gdoc_reason :: string

record candidate_trace_document =
  cdoc_candidate_id :: string
  cdoc_canonical_key :: string
  cdoc_merged_from :: "string list"
  cdoc_initiative_class :: string
  cdoc_request_priority :: int
  cdoc_coverage_service_state :: string
  cdoc_benefit :: "factor_reading_document list"
  cdoc_cost :: "factor_reading_document list"
  cdoc_gaps :: "factor_gap_document list"
  cdoc_excluded :: "string option"
  cdoc_benefit_score :: "float64 option"
  cdoc_cost_score :: "float64 option"
  cdoc_coverage_service_bonus :: "float64 option"
  cdoc_utility :: "float64 option"
  cdoc_activation_path :: "string option"
  cdoc_activation_threshold :: "float64 option"
  cdoc_activated :: "bool option"
  cdoc_dominated_by :: "string list"
  cdoc_in_tie_set :: bool
  cdoc_selected :: bool

record factor_trace_document =
  fdoc_version :: string
  fdoc_provenance :: string
  fdoc_reasons :: "string list"
  fdoc_candidates :: "candidate_trace_document list"

record trace_prose =
  line_prose :: "reason_line \<Rightarrow> string"
  gap_prose :: "gap_reason \<Rightarrow> string"
  str_of :: "json \<Rightarrow> string"

definition FACTOR_TRACE_VERSION :: string where
  "FACTOR_TRACE_VERSION = ''ft1''"

definition FACTOR_TRACE_PROVENANCE_KERNEL :: string where
  "FACTOR_TRACE_PROVENANCE_KERNEL = ''KERNEL_TRACE''"

definition FACTOR_TRACE_PROVENANCE_NONE :: string where
  "FACTOR_TRACE_PROVENANCE_NONE = ''NOT_RECORDED''"

section \<open>The words of the kernel's enumerations\<close>

fun benefit_word :: "benefit_factor \<Rightarrow> string" where
  "benefit_word LEARNING_NEED = ''learning_need''"
| "benefit_word UNCERTAINTY_REDUCTION = ''uncertainty_reduction''"
| "benefit_word CURRICULUM_VALUE = ''curriculum_value''"
| "benefit_word GOAL_RELEVANCE = ''goal_relevance''"
| "benefit_word SCHEDULE_URGENCY = ''schedule_urgency''"
| "benefit_word CONTEXT_FIT = ''context_fit''"
| "benefit_word PERSONAL_RELEVANCE = ''personal_relevance''"
| "benefit_word TRANSFER_VALUE = ''transfer_value''"
| "benefit_word COVERAGE_DEBT = ''coverage_debt''"
| "benefit_word OPPORTUNITY_EXPIRY = ''opportunity_expiry''"
| "benefit_word COMMUNICATIVE_IMPACT = ''communicative_impact''"

fun cost_word :: "cost_factor \<Rightarrow> string" where
  "cost_word INTERRUPTION_COST = ''interruption_cost''"
| "cost_word COGNITIVE_LOAD = ''cognitive_load''"
| "cost_word OVEREXPOSURE = ''overexposure''"
| "cost_word SUPPORT_COST = ''support_cost''"
| "cost_word USER_RESISTANCE = ''user_resistance''"

fun factor_word :: "factor_name \<Rightarrow> string" where
  "factor_word (Benefit f) = benefit_word f"
| "factor_word (Cost f) = cost_word f"

fun source_word :: "factor_source \<Rightarrow> string" where
  "source_word AUTHORITY = ''AUTHORITY''"
| "source_word DECLARED = ''DECLARED''"

fun authority_word :: "authority_name \<Rightarrow> string" where
  "authority_word LEARNING_SNAPSHOT = ''LEARNING_SNAPSHOT''"
| "authority_word SCHEDULE = ''SCHEDULE''"
| "authority_word TEACHING_POLICY = ''TEACHING_POLICY''"
| "authority_word GOAL_PORTFOLIO = ''GOAL_PORTFOLIO''"
| "authority_word GOAL_ASSESSMENT_PACK_MAPPING = ''GOAL_ASSESSMENT_PACK_MAPPING''"
| "authority_word CURRICULUM_READINESS = ''CURRICULUM_READINESS''"
| "authority_word PLANNER_CONSTRAINT = ''PLANNER_CONSTRAINT''"

fun initiative_word :: "initiative_class \<Rightarrow> string" where
  "initiative_word REACTIVE = ''REACTIVE''"
| "initiative_word OPPORTUNISTIC = ''OPPORTUNISTIC''"
| "initiative_word PROACTIVE = ''PROACTIVE''"

fun coverage_word :: "coverage_service_state \<Rightarrow> string" where
  "coverage_word COVERAGE_NONE = ''NONE''"
| "coverage_word WATCH = ''WATCH''"
| "coverage_word COVERAGE_DUE = ''DUE''"
| "coverage_word CRITICAL = ''CRITICAL''"

fun activation_word :: "activation_path \<Rightarrow> string" where
  "activation_word AUTOMATIC = ''AUTOMATIC''"
| "activation_word USER_INITIATED = ''USER_INITIATED''"

fun exclusion_word :: "exclusion_reason \<Rightarrow> string" where
  "exclusion_word EXPIRED = ''EXPIRED''"
| "exclusion_word DEPRECATED = ''DEPRECATED''"
| "exclusion_word SUPPRESSED = ''SUPPRESSED''"
| "exclusion_word MODALITY_UNAVAILABLE = ''MODALITY_UNAVAILABLE''"
| "exclusion_word HARD_PREREQUISITE_BLOCKED = ''HARD_PREREQUISITE_BLOCKED''"
| "exclusion_word PREREQUISITE_UNKNOWN_UNRESOLVED = ''PREREQUISITE_UNKNOWN_UNRESOLVED''"
| "exclusion_word EXCLUDED_JUST_CHAT = ''JUST_CHAT''"
| "exclusion_word OUTSIDE_TARGETED_SCOPE = ''OUTSIDE_TARGETED_SCOPE''"
| "exclusion_word NON_LEARNING_TASK_SCOPE = ''NON_LEARNING_TASK_SCOPE''"
| "exclusion_word CONTENT_NOT_READY = ''CONTENT_NOT_READY''"

section \<open>Building the document\<close>

definition reading_document :: "factor_reading \<Rightarrow> factor_reading_document" where
  "reading_document r = \<lparr>rdoc_factor = factor_word (fr_factor r), rdoc_value = fr_value r,
     rdoc_source = source_word (fr_source r), rdoc_authority = map_option authority_word (fr_authority r)\<rparr>"

definition gap_document :: "trace_prose \<Rightarrow> factor_gap \<Rightarrow> factor_gap_document" where
  "gap_document prose g = \<lparr>gdoc_factor = factor_word (fg_factor g), gdoc_authority = authority_word (fg_authority g),
     gdoc_reason = gap_prose prose (fg_reason g)\<rparr>"

definition candidate_document :: "trace_prose \<Rightarrow> candidate_trace \<Rightarrow> candidate_trace_document" where
  "candidate_document prose c =
    \<lparr>cdoc_candidate_id = ct_candidate_id c,
     cdoc_canonical_key = ct_canonical_key c,
     cdoc_merged_from = ct_merged_from c,
     cdoc_initiative_class = initiative_word (ct_initiative_class c),
     cdoc_request_priority = ct_request_priority c,
     cdoc_coverage_service_state = coverage_word (ct_coverage_service_state c),
     cdoc_benefit = sort_key rdoc_factor (map reading_document (ct_benefit c)),
     cdoc_cost = sort_key rdoc_factor (map reading_document (ct_cost c)),
     cdoc_gaps = sort_key (\<lambda>g. (gdoc_factor g, gdoc_authority g)) (map (gap_document prose) (ct_gaps c)),
     cdoc_excluded = map_option exclusion_word (ct_excluded c),
     cdoc_benefit_score = ct_benefit_score c,
     cdoc_cost_score = ct_cost_score c,
     cdoc_coverage_service_bonus = ct_coverage_service_bonus c,
     cdoc_utility = ct_utility c,
     cdoc_activation_path = map_option activation_word (ct_activation_path c),
     cdoc_activation_threshold = ct_activation_threshold c,
     cdoc_activated = ct_activated c,
     cdoc_dominated_by = ct_dominated_by c,
     cdoc_in_tie_set = ct_in_tie_set c,
     cdoc_selected = ct_selected c\<rparr>"

definition factor_trace_of :: "trace_prose \<Rightarrow> reason_line list \<Rightarrow> candidate_trace list \<Rightarrow> bool \<Rightarrow> factor_trace_document" where
  "factor_trace_of prose reasons candidates traced =
    \<lparr>fdoc_version = FACTOR_TRACE_VERSION,
     fdoc_provenance = (if traced then FACTOR_TRACE_PROVENANCE_KERNEL else FACTOR_TRACE_PROVENANCE_NONE),
     fdoc_reasons = map (line_prose prose) reasons,
     fdoc_candidates = map (candidate_document prose) (sort_key ct_candidate_id candidates)\<rparr>"

section \<open>The payload\<close>

fun json_optional :: "('a \<Rightarrow> json) \<Rightarrow> 'a option \<Rightarrow> json" where
  "json_optional f None = JNull"
| "json_optional f (Some x) = f x"

definition reading_payload :: "factor_reading_document \<Rightarrow> json" where
  "reading_payload r = JObject [(''factor'', JText (rdoc_factor r)), (''value'', JReal (rdoc_value r)),
     (''source'', JText (rdoc_source r)), (''authority'', json_optional JText (rdoc_authority r))]"

definition gap_payload :: "factor_gap_document \<Rightarrow> json" where
  "gap_payload g = JObject [(''factor'', JText (gdoc_factor g)), (''authority'', JText (gdoc_authority g)),
     (''reason'', JText (gdoc_reason g))]"

definition candidate_payload :: "candidate_trace_document \<Rightarrow> json" where
  "candidate_payload c = JObject
    [(''candidate_id'', JText (cdoc_candidate_id c)),
     (''canonical_key'', JText (cdoc_canonical_key c)),
     (''merged_from'', JArray (map JText (cdoc_merged_from c))),
     (''initiative_class'', JText (cdoc_initiative_class c)),
     (''request_priority'', JInt (cdoc_request_priority c)),
     (''coverage_service_state'', JText (cdoc_coverage_service_state c)),
     (''benefit'', JArray (map reading_payload (cdoc_benefit c))),
     (''cost'', JArray (map reading_payload (cdoc_cost c))),
     (''gaps'', JArray (map gap_payload (cdoc_gaps c))),
     (''excluded'', json_optional JText (cdoc_excluded c)),
     (''benefit_score'', json_optional JReal (cdoc_benefit_score c)),
     (''cost_score'', json_optional JReal (cdoc_cost_score c)),
     (''coverage_service_bonus'', json_optional JReal (cdoc_coverage_service_bonus c)),
     (''utility'', json_optional JReal (cdoc_utility c)),
     (''activation_path'', json_optional JText (cdoc_activation_path c)),
     (''activation_threshold'', json_optional JReal (cdoc_activation_threshold c)),
     (''activated'', json_optional JBool (cdoc_activated c)),
     (''dominated_by'', JArray (map JText (cdoc_dominated_by c))),
     (''in_tie_set'', JBool (cdoc_in_tie_set c)),
     (''selected'', JBool (cdoc_selected c))]"

definition document_payload :: "factor_trace_document \<Rightarrow> json" where
  "document_payload d = JObject [(''version'', JText (fdoc_version d)), (''provenance'', JText (fdoc_provenance d)),
     (''reasons'', JArray (map JText (fdoc_reasons d))),
     (''candidates'', JArray (map candidate_payload (fdoc_candidates d)))]"

section \<open>The decoder\<close>

datatype trace_fault = NeitherObjectNorArray | UnknownVersion json | FieldRefused string

definition payload_get :: "(string \<times> json) list \<Rightarrow> string \<Rightarrow> json" where
  "payload_get payload key = (case map_of payload key of None \<Rightarrow> JNull | Some v \<Rightarrow> v)"

fun strict_text :: "string \<Rightarrow> json \<Rightarrow> trace_fault + string" where
  "strict_text key (JText s) = Inr s"
| "strict_text key _ = Inl (FieldRefused key)"

fun json_items :: "string \<Rightarrow> json \<Rightarrow> trace_fault + json list" where
  "json_items key (JArray items) = Inr items"
| "json_items key _ = Inl (FieldRefused key)"

fun json_mapping :: "string \<Rightarrow> json \<Rightarrow> trace_fault + (string \<times> json) list" where
  "json_mapping key (JObject payload) = Inr payload"
| "json_mapping key _ = Inl (FieldRefused key)"

fun optional_str :: "string \<Rightarrow> json \<Rightarrow> trace_fault + string option" where
  "optional_str key JNull = Inr None"
| "optional_str key (JText s) = Inr (Some s)"
| "optional_str key _ = Inl (FieldRefused key)"

fun optional_number :: "string \<Rightarrow> json \<Rightarrow> trace_fault + float64 option" where
  "optional_number key JNull = Inr None"
| "optional_number key (JInt i) = Inr (Some (rnd64 (of_int i)))"
| "optional_number key (JReal x) = Inr (Some x)"
| "optional_number key _ = Inl (FieldRefused key)"

definition required_number :: "string \<Rightarrow> json \<Rightarrow> trace_fault + float64" where
  "required_number key v = bindE (optional_number key v) (\<lambda>x. case x of None \<Rightarrow> Inl (FieldRefused key) | Some y \<Rightarrow> Inr y)"

fun json_integer :: "string \<Rightarrow> json \<Rightarrow> trace_fault + int" where
  "json_integer key (JInt i) = Inr i"
| "json_integer key _ = Inl (FieldRefused key)"

fun json_flag :: "string \<Rightarrow> json \<Rightarrow> trace_fault + bool" where
  "json_flag key (JBool b) = Inr b"
| "json_flag key _ = Inl (FieldRefused key)"

fun flag_or_absent :: "string \<Rightarrow> json \<Rightarrow> trace_fault + bool option" where
  "flag_or_absent key JNull = Inr None"
| "flag_or_absent key (JBool b) = Inr (Some b)"
| "flag_or_absent key _ = Inl (FieldRefused key)"

definition field :: "(string \<Rightarrow> json \<Rightarrow> trace_fault + 'a) \<Rightarrow> (string \<times> json) list \<Rightarrow> string \<Rightarrow> trace_fault + 'a" where
  "field decode payload key = decode key (payload_get payload key)"

definition text_tuple :: "string \<Rightarrow> json \<Rightarrow> trace_fault + string list" where
  "text_tuple key v = bindE (json_items key v) (traverseE (strict_text key))"

definition reading_from_payload :: "json \<Rightarrow> trace_fault + factor_reading_document" where
  "reading_from_payload v =
    bindE (json_mapping ''benefit/cost[]'' v) (\<lambda>payload.
    bindE (field strict_text payload ''factor'') (\<lambda>factor.
    bindE (field required_number payload ''value'') (\<lambda>value.
    bindE (field strict_text payload ''source'') (\<lambda>source.
    bindE (field optional_str payload ''authority'') (\<lambda>authority.
      Inr \<lparr>rdoc_factor = factor, rdoc_value = value, rdoc_source = source, rdoc_authority = authority\<rparr>)))))"

definition gap_from_payload :: "json \<Rightarrow> trace_fault + factor_gap_document" where
  "gap_from_payload v =
    bindE (json_mapping ''gaps[]'' v) (\<lambda>payload.
    bindE (field strict_text payload ''factor'') (\<lambda>factor.
    bindE (field strict_text payload ''authority'') (\<lambda>authority.
    bindE (field strict_text payload ''reason'') (\<lambda>reason.
      Inr \<lparr>gdoc_factor = factor, gdoc_authority = authority, gdoc_reason = reason\<rparr>))))"

definition tuple_of :: "(json \<Rightarrow> trace_fault + 'a) \<Rightarrow> string \<Rightarrow> json \<Rightarrow> trace_fault + 'a list" where
  "tuple_of decode key v = bindE (json_items key v) (traverseE decode)"

definition candidate_from_payload :: "json \<Rightarrow> trace_fault + candidate_trace_document" where
  "candidate_from_payload v =
    bindE (json_mapping ''candidates[]'' v) (\<lambda>payload.
    bindE (field strict_text payload ''candidate_id'') (\<lambda>candidate_id.
    bindE (field strict_text payload ''canonical_key'') (\<lambda>canonical_key.
    bindE (field text_tuple payload ''merged_from'') (\<lambda>merged_from.
    bindE (field strict_text payload ''initiative_class'') (\<lambda>initiative_class.
    bindE (field json_integer payload ''request_priority'') (\<lambda>request_priority.
    bindE (field strict_text payload ''coverage_service_state'') (\<lambda>coverage_service_state.
    bindE (field (tuple_of reading_from_payload) payload ''benefit'') (\<lambda>benefit.
    bindE (field (tuple_of reading_from_payload) payload ''cost'') (\<lambda>cost.
    bindE (field (tuple_of gap_from_payload) payload ''gaps'') (\<lambda>gaps.
    bindE (field optional_str payload ''excluded'') (\<lambda>excluded.
    bindE (field optional_number payload ''benefit_score'') (\<lambda>benefit_score.
    bindE (field optional_number payload ''cost_score'') (\<lambda>cost_score.
    bindE (field optional_number payload ''coverage_service_bonus'') (\<lambda>coverage_service_bonus.
    bindE (field optional_number payload ''utility'') (\<lambda>utility.
    bindE (field optional_str payload ''activation_path'') (\<lambda>activation_path.
    bindE (field optional_number payload ''activation_threshold'') (\<lambda>activation_threshold.
    bindE (field flag_or_absent payload ''activated'') (\<lambda>activated.
    bindE (field text_tuple payload ''dominated_by'') (\<lambda>dominated_by.
    bindE (field json_flag payload ''in_tie_set'') (\<lambda>in_tie_set.
    bindE (field json_flag payload ''selected'') (\<lambda>selected.
      Inr \<lparr>cdoc_candidate_id = candidate_id, cdoc_canonical_key = canonical_key, cdoc_merged_from = merged_from,
        cdoc_initiative_class = initiative_class, cdoc_request_priority = request_priority,
        cdoc_coverage_service_state = coverage_service_state, cdoc_benefit = benefit, cdoc_cost = cost,
        cdoc_gaps = gaps, cdoc_excluded = excluded, cdoc_benefit_score = benefit_score, cdoc_cost_score = cost_score,
        cdoc_coverage_service_bonus = coverage_service_bonus, cdoc_utility = utility,
        cdoc_activation_path = activation_path, cdoc_activation_threshold = activation_threshold,
        cdoc_activated = activated, cdoc_dominated_by = dominated_by, cdoc_in_tie_set = in_tie_set,
        cdoc_selected = selected\<rparr>)))))))))))))))))))))"

text \<open>A row written before the versioned encoding is a bare array of lines.\<close>

datatype decoded_trace = LegacyTrace "string list" | StructuredTrace factor_trace_document

fun item_text :: "trace_prose \<Rightarrow> json \<Rightarrow> string" where
  "item_text prose (JText s) = s"
| "item_text prose v = str_of prose v"

fun decode_factor_trace :: "trace_prose \<Rightarrow> json \<Rightarrow> trace_fault + decoded_trace" where
  "decode_factor_trace prose (JArray items) = Inr (LegacyTrace (map (item_text prose) items))"
| "decode_factor_trace prose (JObject loaded) =
    (if payload_get loaded ''version'' \<noteq> JText FACTOR_TRACE_VERSION
     then Inl (UnknownVersion (payload_get loaded ''version''))
     else bindE (field strict_text loaded ''provenance'') (\<lambda>provenance.
       bindE (field text_tuple loaded ''reasons'') (\<lambda>reasons.
       bindE (field (tuple_of candidate_from_payload) loaded ''candidates'') (\<lambda>candidates.
         Inr (StructuredTrace \<lparr>fdoc_version = FACTOR_TRACE_VERSION, fdoc_provenance = provenance,
           fdoc_reasons = reasons, fdoc_candidates = candidates\<rparr>)))))"
| "decode_factor_trace prose _ = Inl NeitherObjectNorArray"

section \<open>The round trip\<close>

lemma traverse_map_Inr:
  assumes "\<And>x. decode (encode x) = Inr x"
  shows "traverseE decode (map encode xs) = Inr xs"
  using assms by (induction xs) simp_all

lemma optional_decoders [simp]:
  "optional_str key (json_optional JText s) = Inr s"
  "optional_number key (json_optional JReal x) = Inr x"
  "flag_or_absent key (json_optional JBool b) = Inr b"
  subgoal by (cases s) simp_all
  subgoal by (cases x) simp_all
  subgoal by (cases b) simp_all
  done

lemma text_tuple_map [simp]: "text_tuple key (JArray (map JText ss)) = Inr ss"
  by (simp add: text_tuple_def traverse_map_Inr)

lemma reading_round_trip [simp]: "reading_from_payload (reading_payload r) = Inr r"
  by (simp add: reading_from_payload_def reading_payload_def field_def payload_get_def required_number_def)

lemma gap_round_trip [simp]: "gap_from_payload (gap_payload g) = Inr g"
  by (simp add: gap_from_payload_def gap_payload_def field_def payload_get_def)

lemma tuple_of_map [simp]:
  "tuple_of reading_from_payload key (JArray (map reading_payload rs)) = Inr rs"
  "tuple_of gap_from_payload key (JArray (map gap_payload gs)) = Inr gs"
  by (simp_all add: tuple_of_def traverse_map_Inr)

lemma candidate_round_trip [simp]: "candidate_from_payload (candidate_payload c) = Inr c"
  by (simp add: candidate_from_payload_def candidate_payload_def field_def payload_get_def)

lemma candidates_of_map [simp]: "tuple_of candidate_from_payload key (JArray (map candidate_payload cs)) = Inr cs"
  by (simp add: tuple_of_def traverse_map_Inr)

lemma decode_document_payload:
  "decode_factor_trace prose (document_payload d) =
    (if fdoc_version d = FACTOR_TRACE_VERSION then Inr (StructuredTrace d) else Inl (UnknownVersion (JText (fdoc_version d))))"
  by (simp add: document_payload_def field_def payload_get_def)

lemma factor_trace_decodes [simp]:
  "decode_factor_trace prose (document_payload (factor_trace_of prose reasons candidates traced)) =
    Inr (StructuredTrace (factor_trace_of prose reasons candidates traced))"
  by (simp add: decode_document_payload) (simp add: factor_trace_of_def)

end
