(* ===== verification/Planner_Records.thy ===== *)
theory Planner_Records
  imports Trace_Document Planner_Kernel Moment_Store "HOL-Library.AList"
begin

text \<open>
  \<^verbatim>\<open>elc/platform/db/planner_store.py\<close>: the short transaction that makes one planner cycle durable (status,
  evaluation with its factor trace, decision with the cycle's back-reference, turn-level runtime outcome),
  its replay, and the reads.  The tables are those of \<^verbatim>\<open>migrations/0015\<close> and the cycle and turn rows they
  refer to; a status row is keyed by its cycle and an outcome row by its turn.  The array columns are kept
  as lists, the trace column as the decoded JSON value, and the creation time where a read returns it.
\<close>

section \<open>Rows\<close>

record planner_evaluation_row =
  pev_decision_cycle_id :: string
  pev_frontier_candidate_ids :: "string list"
  pev_ranked_candidate_ids :: "string list"
  pev_factor_trace :: json
  pev_planner_version :: string
  pev_policy_profile_version :: string
  pev_created_at :: string

record planner_evaluation_record =
  per_planner_evaluation_id :: string
  per_decision_cycle_id :: string
  per_frontier_candidate_ids :: "string list"
  per_ranked_candidate_ids :: "string list"
  per_factor_trace :: decoded_trace
  per_planner_version :: string
  per_policy_profile_version :: string
  per_created_at :: string

record runtime_outcome_row =
  rt_decision_cycle_id :: "string option"
  rt_outcome :: runtime_outcome
  rt_reason_codes :: "string list"

record runtime_decision_outcome =
  rdo_turn_id :: string
  rdo_decision_cycle_id :: "string option"
  rdo_outcome :: runtime_outcome
  rdo_reason_codes :: "string list"

record planner_cycle_records =
  pcr_execution_status :: execution_status_record
  pcr_evaluation :: planner_evaluation_record
  pcr_decision :: "planner_decision option"
  pcr_runtime_decision_outcome :: "runtime_decision_outcome option"

record planner_db =
  pdb_newest_epoch :: "int option"
  pdb_cycle_turn :: "string table"
  pdb_cycle_decision :: "string table"
  pdb_statuses :: "execution_status_record table"
  pdb_evaluations :: "planner_evaluation_row table"
  pdb_decisions :: "planner_decision table"
  pdb_outcomes :: "runtime_outcome_row table"

text \<open>An \<^verbatim>\<open>Err\<close> per refusal, the stale-epoch and the decoder's exceptions, and the failing \<^verbatim>\<open>assert\<close>.\<close>

datatype record_error = StalePlannerRecordStoreRaised | EvaluationNamesOtherCycle | DecisionNamesOtherCycle
  | DecisionNamesOtherEvaluation | DecisionCycleMissing | CycleOfOtherTurn | StatusContradicted
  | EvaluationContradicted | DecisionContradicted | RecordIntegrityRefused | TraceUnreadableRaised trace_fault
  | EvaluationMissingRaised

section \<open>Reading\<close>

definition first_of_cycle :: "('r \<Rightarrow> string) \<Rightarrow> string \<Rightarrow> 'r table \<Rightarrow> (string \<times> 'r) option" where
  "first_of_cycle cycle_of cycle t = find (\<lambda>(k, r). cycle_of r = cycle) t"

definition evaluation_from_row :: "trace_prose \<Rightarrow> string \<times> planner_evaluation_row \<Rightarrow> record_error + planner_evaluation_record" where
  "evaluation_from_row prose row =
    bindE (case decode_factor_trace prose (pev_factor_trace (snd row)) of
        Inl fault \<Rightarrow> Inl (TraceUnreadableRaised fault) | Inr trace \<Rightarrow> Inr trace) (\<lambda>trace.
      Inr \<lparr>per_planner_evaluation_id = fst row, per_decision_cycle_id = pev_decision_cycle_id (snd row),
        per_frontier_candidate_ids = pev_frontier_candidate_ids (snd row),
        per_ranked_candidate_ids = pev_ranked_candidate_ids (snd row), per_factor_trace = trace,
        per_planner_version = pev_planner_version (snd row),
        per_policy_profile_version = pev_policy_profile_version (snd row),
        per_created_at = pev_created_at (snd row)\<rparr>)"

definition outcome_record :: "string \<Rightarrow> runtime_outcome_row \<Rightarrow> runtime_decision_outcome" where
  "outcome_record turn row = \<lparr>rdo_turn_id = turn, rdo_decision_cycle_id = rt_decision_cycle_id row,
     rdo_outcome = rt_outcome row, rdo_reason_codes = rt_reason_codes row\<rparr>"

definition read_cycle_records ::
  "trace_prose \<Rightarrow> planner_db \<Rightarrow> string \<Rightarrow> string \<Rightarrow> record_error + planner_cycle_records option" where
  "read_cycle_records prose db cycle turn =
    (case map_of (pdb_statuses db) cycle of
       None \<Rightarrow> Inr None
     | Some status \<Rightarrow>
       (case first_of_cycle pev_decision_cycle_id cycle (pdb_evaluations db) of
          None \<Rightarrow> Inl EvaluationMissingRaised
        | Some row \<Rightarrow>
          bindE (evaluation_from_row prose row) (\<lambda>evaluation.
            Inr (Some \<lparr>pcr_execution_status = status, pcr_evaluation = evaluation,
              pcr_decision = map_option snd (first_of_cycle pd_decision_cycle_id cycle (pdb_decisions db)),
              pcr_runtime_decision_outcome = map_option (outcome_record turn) (map_of (pdb_outcomes db) turn)\<rparr>))))"

definition get_planner_execution_status :: "planner_db \<Rightarrow> string \<Rightarrow> execution_status_record option" where
  "get_planner_execution_status db cycle = map_of (pdb_statuses db) cycle"

definition get_planner_evaluation ::
  "trace_prose \<Rightarrow> planner_db \<Rightarrow> string \<Rightarrow> record_error + planner_evaluation_record option" where
  "get_planner_evaluation prose db evaluation_id =
    (case map_of (pdb_evaluations db) evaluation_id of None \<Rightarrow> Inr None
     | Some row \<Rightarrow> bindE (evaluation_from_row prose (evaluation_id, row)) (\<lambda>e. Inr (Some e)))"

definition get_planner_decision :: "planner_db \<Rightarrow> string \<Rightarrow> planner_decision option" where
  "get_planner_decision db decision_id = map_of (pdb_decisions db) decision_id"

definition get_planner_decision_for_cycle :: "planner_db \<Rightarrow> string \<Rightarrow> planner_decision option" where
  "get_planner_decision_for_cycle db cycle =
    map_option snd (first_of_cycle pd_decision_cycle_id cycle (pdb_decisions db))"

definition get_runtime_decision_outcome :: "planner_db \<Rightarrow> string \<Rightarrow> runtime_decision_outcome option" where
  "get_runtime_decision_outcome db turn = map_option (outcome_record turn) (map_of (pdb_outcomes db) turn)"

definition get_planner_decision_id :: "planner_db \<Rightarrow> string \<Rightarrow> string option" where
  "get_planner_decision_id db cycle = map_of (pdb_cycle_decision db) cycle"

section \<open>Recording one cycle\<close>

definition record_refusal :: "planning_outcome \<Rightarrow> record_error option" where
  "record_refusal out =
    (let status = po_execution_status out; evaluation = po_evaluation out in
     if pe_decision_cycle_id evaluation \<noteq> es_decision_cycle_id status then Some EvaluationNamesOtherCycle
     else case po_decision out of
       None \<Rightarrow> None
     | Some decision \<Rightarrow>
         if pd_decision_cycle_id decision \<noteq> es_decision_cycle_id status then Some DecisionNamesOtherCycle
         else if pd_planner_evaluation_id decision \<noteq> pe_planner_evaluation_id evaluation
         then Some DecisionNamesOtherEvaluation else None)"

definition require_current_planner_epoch :: "int \<Rightarrow> planner_db \<Rightarrow> record_error + unit" where
  "require_current_planner_epoch fence db = checkE (pdb_newest_epoch db = Some fence) StalePlannerRecordStoreRaised"

definition ranked_candidate_ids :: "planner_evaluation \<Rightarrow> string list" where
  "ranked_candidate_ids evaluation = map tc_candidate_id (pe_ranked_candidates evaluation)"

definition trace_document_of :: "trace_prose \<Rightarrow> planner_evaluation \<Rightarrow> planner_trace option \<Rightarrow> factor_trace_document" where
  "trace_document_of prose evaluation trace =
    factor_trace_of prose (pe_reason_trace evaluation)
      (case trace of None \<Rightarrow> [] | Some t \<Rightarrow> pt_candidates t) (trace \<noteq> None)"

definition evaluation_row_of ::
  "trace_prose \<Rightarrow> string \<Rightarrow> planner_evaluation \<Rightarrow> planner_trace option \<Rightarrow> string \<Rightarrow> planner_evaluation_row" where
  "evaluation_row_of prose cycle evaluation trace now =
    \<lparr>pev_decision_cycle_id = cycle, pev_frontier_candidate_ids = pe_frontier_candidate_ids evaluation,
     pev_ranked_candidate_ids = ranked_candidate_ids evaluation,
     pev_factor_trace = document_payload (trace_document_of prose evaluation trace),
     pev_planner_version = pe_planner_version evaluation, pev_policy_profile_version = pe_policy_version evaluation,
     pev_created_at = now\<rparr>"

definition write_decision :: "string \<Rightarrow> planner_decision \<Rightarrow> planner_db \<Rightarrow> planner_db" where
  "write_decision cycle decision db = db\<lparr>
     pdb_decisions := pdb_decisions db @ [(pd_planner_decision_id decision, decision)],
     pdb_cycle_decision := AList.update cycle (pd_planner_decision_id decision) (pdb_cycle_decision db)\<rparr>"

definition write_cycle ::
  "trace_prose \<Rightarrow> string \<Rightarrow> string \<Rightarrow> planning_outcome \<Rightarrow> string list \<Rightarrow> planner_trace option \<Rightarrow> planner_db \<Rightarrow> planner_db" where
  "write_cycle prose now turn out reason_codes trace db =
    (let status = po_execution_status out; evaluation = po_evaluation out; cycle = es_decision_cycle_id status;
         recorded = db\<lparr>pdb_statuses := pdb_statuses db @ [(cycle, status)],
           pdb_evaluations := pdb_evaluations db
             @ [(pe_planner_evaluation_id evaluation, evaluation_row_of prose cycle evaluation trace now)]\<rparr>;
         decided = (case po_decision out of None \<Rightarrow> recorded | Some decision \<Rightarrow> write_decision cycle decision recorded)
     in decided\<lparr>pdb_outcomes := AList.update turn
          \<lparr>rt_decision_cycle_id = Some cycle, rt_outcome = runtime_decision_outcome_of (es_status status),
           rt_reason_codes = reason_codes\<rparr> (pdb_outcomes decided)\<rparr>)"

text \<open>The primary keys of the two rows whose identifier the caller brings.\<close>

definition record_integrity :: "planning_outcome \<Rightarrow> planner_db \<Rightarrow> bool" where
  "record_integrity out db \<longleftrightarrow>
    \<not> known (pdb_evaluations db) (pe_planner_evaluation_id (po_evaluation out))
    \<and> (case po_decision out of None \<Rightarrow> True | Some d \<Rightarrow> \<not> known (pdb_decisions db) (pd_planner_decision_id d))"

definition same_evaluation ::
  "trace_prose \<Rightarrow> planner_evaluation \<Rightarrow> planner_trace option \<Rightarrow> planner_evaluation_record \<Rightarrow> bool" where
  "same_evaluation prose evaluation trace stored \<longleftrightarrow>
    (pe_frontier_candidate_ids evaluation, ranked_candidate_ids evaluation,
      StructuredTrace (trace_document_of prose evaluation trace), pe_planner_version evaluation,
      pe_policy_version evaluation)
    = (per_frontier_candidate_ids stored, per_ranked_candidate_ids stored, per_factor_trace stored,
      per_planner_version stored, per_policy_profile_version stored)"

definition replay_cycle ::
  "trace_prose \<Rightarrow> string \<Rightarrow> planning_outcome \<Rightarrow> planner_trace option \<Rightarrow> execution_status_record \<Rightarrow> planner_db
   \<Rightarrow> record_error + planner_cycle_records" where
  "replay_cycle prose turn out trace durable db =
    (let status = po_execution_status out in
     if es_status durable \<noteq> es_status status \<or> es_error_code durable \<noteq> es_error_code status
     then Inl StatusContradicted
     else bindE (read_cycle_records prose db (es_decision_cycle_id status) turn) (\<lambda>read.
       case read of
         None \<Rightarrow> Inl EvaluationMissingRaised
       | Some records \<Rightarrow>
           if \<not> same_evaluation prose (po_evaluation out) trace (pcr_evaluation records)
           then Inl EvaluationContradicted
           else if pcr_decision records \<noteq> po_decision out then Inl DecisionContradicted
           else Inr records))"

definition record_planner_cycle ::
  "trace_prose \<Rightarrow> int \<Rightarrow> string \<Rightarrow> string \<Rightarrow> planning_outcome \<Rightarrow> string list \<Rightarrow> planner_trace option \<Rightarrow> planner_db
   \<Rightarrow> record_error + planner_cycle_records \<times> planner_db" where
  "record_planner_cycle prose fence now turn out reason_codes trace db =
    (case record_refusal out of
       Some refusal \<Rightarrow> Inl refusal
     | None \<Rightarrow>
       let cycle = es_decision_cycle_id (po_execution_status out) in
       bindE (require_current_planner_epoch fence db) (\<lambda>_.
         case map_of (pdb_cycle_turn db) cycle of
           None \<Rightarrow> Inl DecisionCycleMissing
         | Some owner \<Rightarrow>
             if owner \<noteq> turn then Inl CycleOfOtherTurn
             else case map_of (pdb_statuses db) cycle of
               Some durable \<Rightarrow> bindE (replay_cycle prose turn out trace durable db) (\<lambda>records. Inr (records, db))
             | None \<Rightarrow>
                 if \<not> record_integrity out db then Inl RecordIntegrityRefused
                 else bindE (read_cycle_records prose (write_cycle prose now turn out reason_codes trace db) cycle turn)
                   (\<lambda>read. case read of
                      None \<Rightarrow> Inl EvaluationMissingRaised
                    | Some records \<Rightarrow> Inr (records, write_cycle prose now turn out reason_codes trace db))))"

end
