(* ===== verification/Session_Budget.thy ===== *)
theory Session_Budget
  imports Python_Text Moment_Store Planner_Types
begin

text \<open>
  The views that throttle automatic teaching: the session budget of \<^verbatim>\<open>elc/teaching/budget.py\<close> derived from a
  conversation's durable moments, the protection view and the scope resolver of \<^verbatim>\<open>elc/planner/scope.py\<close>
  over the constraint view of \<^verbatim>\<open>elc/user_config/constraints.py\<close>, the rollout stage of
  \<^verbatim>\<open>elc/teaching/rollout.py\<close>, and the three controls of \<^verbatim>\<open>elc/runtime/automatic_controls.py\<close>.
\<close>

section \<open>The session budget\<close>

definition COOLDOWN_WINDOW_SECONDS :: float64 where
  "COOLDOWN_WINDOW_SECONDS = 60"

definition RECENT_TEACHING_WINDOW_SECONDS :: int where
  "RECENT_TEACHING_WINDOW_SECONDS = 3600"

definition RECENT_CLOSURE_WORDS :: "string list" where
  "RECENT_CLOSURE_WORDS = [''USER_SKIP'', ''USER_REJECTED_TARGET'']"

record session_budget_view =
  sb_conversation_id :: string
  sb_policy_version :: "string option"
  sb_automatic_teaching_used :: nat
  sb_automatic_teaching_remaining :: "int option"
  sb_probe_budget_remaining :: "int option"
  sb_cooldown_remaining :: float64
  sb_recent_skips :: nat
  sb_recent_rejections :: nat
  sb_fatigue_signal :: "string option"
  sb_as_of :: string

datatype budget_error =
    BudgetInstantUnusable instant_error
  | BudgetInstantMissing string
  | BudgetOverflowRaised
  | BudgetPolicyUnavailable
  | BudgetPolicyRefused string

definition optional_instant :: "py_env \<Rightarrow> string option \<Rightarrow> string \<Rightarrow> budget_error + py_datetime" where
  "optional_instant env t field =
    (case t of None \<Rightarrow> Inl (BudgetInstantMissing field)
     | Some s \<Rightarrow> wrapE BudgetInstantUnusable (parse_instant env s field))"

definition conversation_rows :: "string \<Rightarrow> moment_row table \<Rightarrow> moment_row table" where
  "conversation_rows conversation_id moments = filter (\<lambda>(k, r). mr_conversation_id r = conversation_id) moments"

definition automatic_probe_moments_used :: "string \<Rightarrow> moment_row table \<Rightarrow> nat" where
  "automatic_probe_moments_used conversation_id moments =
    length (filter (\<lambda>(k, r). mr_source r = FROM_AUTOMATIC \<and> mr_target_mode r = ''PROBE'')
      (conversation_rows conversation_id moments))"

definition opened_field :: "string \<Rightarrow> string" where
  "opened_field k = ''teaching moment '' @ k @ '' opened_at''"

definition terminal_field :: "string \<Rightarrow> string" where
  "terminal_field k = ''teaching moment '' @ k @ '' teaching_terminal_at''"

text \<open>The first loop: how many automatic openings, and the newest at or before now.\<close>

fun count_openings ::
  "py_env \<Rightarrow> int \<Rightarrow> nat \<times> int option \<Rightarrow> moment_row table \<Rightarrow> budget_error + nat \<times> int option" where
  "count_openings env now acc [] = Inr acc"
| "count_openings env now (used, newest) ((k, r) # rows) =
    (if mr_source r \<noteq> FROM_AUTOMATIC then count_openings env now (used, newest) rows
     else bindE (optional_instant env (mr_opened_at r) (opened_field k)) (\<lambda>opened.
       count_openings env now
         (used + 1,
          if now < instant_of opened then newest
          else case newest of None \<Rightarrow> Some (instant_of opened)
             | Some n \<Rightarrow> if n < instant_of opened then Some (instant_of opened) else newest)
         rows))"

text \<open>\<^verbatim>\<open>(now - newest).total_seconds()\<close>, a correctly rounded quotient.\<close>

definition total_seconds :: "int \<Rightarrow> float64" where
  "total_seconds us = rnd64 (of_int us / 1000000)"

definition cooldown_remaining :: "int \<Rightarrow> int option \<Rightarrow> float64" where
  "cooldown_remaining now newest =
    (case newest of None \<Rightarrow> 0 | Some opened \<Rightarrow> max 0 (fsub COOLDOWN_WINDOW_SECONDS (total_seconds (now - opened))))"

text \<open>The second loop: skips and rejections closed inside the recent window.\<close>

fun count_closures ::
  "py_env \<Rightarrow> int \<Rightarrow> int \<Rightarrow> nat \<times> nat \<Rightarrow> moment_row table \<Rightarrow> budget_error + nat \<times> nat" where
  "count_closures env from_instant now acc [] = Inr acc"
| "count_closures env from_instant now (skips, rejections) ((k, r) # rows) =
    (if mr_abort_reason r \<notin> Some ` set RECENT_CLOSURE_WORDS
     then count_closures env from_instant now (skips, rejections) rows
     else bindE (optional_instant env (mr_teaching_terminal_at r) (terminal_field k)) (\<lambda>closed.
       count_closures env from_instant now
         (if \<not> (from_instant \<le> instant_of closed \<and> instant_of closed \<le> now) then (skips, rejections)
          else if mr_abort_reason r = Some ''USER_SKIP'' then (skips + 1, rejections) else (skips, rejections + 1))
         rows))"

definition session_budget_view_of ::
  "py_env \<Rightarrow> string \<Rightarrow> string \<Rightarrow> string option option \<Rightarrow> moment_row table \<Rightarrow> budget_error + session_budget_view" where
  "session_budget_view_of env conversation_id as_of policy moments =
    bindE (wrapE BudgetInstantUnusable (parse_instant env as_of ''as_of'')) (\<lambda>now.
    bindE (count_openings env (instant_of now) (0, None) (conversation_rows conversation_id moments)) (\<lambda>(used, newest).
      case add_timedelta now (- RECENT_TEACHING_WINDOW_SECONDS * 1000000) of
        None \<Rightarrow> Inl BudgetOverflowRaised
      | Some from_time \<Rightarrow>
        bindE (count_closures env (instant_of from_time) (instant_of now) (0, 0) (conversation_rows conversation_id moments))
          (\<lambda>(skips, rejections).
          Inr \<lparr>sb_conversation_id = conversation_id,
            sb_policy_version = (case policy of None \<Rightarrow> None | Some version \<Rightarrow> version),
            sb_automatic_teaching_used = used, sb_automatic_teaching_remaining = None,
            sb_probe_budget_remaining = None, sb_cooldown_remaining = cooldown_remaining (instant_of now) newest,
            sb_recent_skips = skips, sb_recent_rejections = rejections, sb_fatigue_signal = None,
            sb_as_of = as_of\<rparr>)))"

text \<open>The controller's read: the policy source is optional, its answer a policy row, none, or a refusal.\<close>

definition list_moments_for_conversation :: "teaching_db \<Rightarrow> string \<Rightarrow> moment_row table" where
  "list_moments_for_conversation db conversation_id =
    sort_key (\<lambda>(k, r). (mr_created_at r, k)) (filter (\<lambda>(k, r). mr_conversation_id r = conversation_id) (db_moments db))"

definition get_session_budget_view ::
  "py_env \<Rightarrow> (string + string option option) option \<Rightarrow> string \<Rightarrow> string \<Rightarrow> teaching_db
   \<Rightarrow> budget_error + session_budget_view" where
  "get_session_budget_view env policy conversation_id as_of db =
    (case policy of
       None \<Rightarrow> Inl BudgetPolicyUnavailable
     | Some (Inl refusal) \<Rightarrow> Inl (BudgetPolicyRefused refusal)
     | Some (Inr profile) \<Rightarrow>
       session_budget_view_of env conversation_id as_of profile (list_moments_for_conversation db conversation_id))"

definition count_automatic_probe_moments :: "teaching_db \<Rightarrow> string \<Rightarrow> nat" where
  "count_automatic_probe_moments db conversation_id =
    automatic_probe_moments_used conversation_id (list_moments_for_conversation db conversation_id)"

section \<open>Protection and scope\<close>

datatype flow_priority = FLOW_LOW | FLOW_NORMAL | FLOW_HIGH | FLOW_PROTECTED

datatype interaction_phase = PHASE_OPEN | PHASE_DEEP_EXCHANGE | PHASE_TASK_EXECUTION | PHASE_STORY_FLOW
  | PHASE_USER_SUPPORT | PHASE_TEACHING | PHASE_WRAP_UP

record conversation_priority_view =
  cp_flow_priority :: flow_priority
  cp_interaction_phase :: interaction_phase
  cp_natural_break_available :: bool

fun flow_band :: "flow_priority \<Rightarrow> string" where
  "flow_band FLOW_LOW = ''LOW''"
| "flow_band FLOW_NORMAL = ''NORMAL''"
| "flow_band FLOW_HIGH = ''HIGH''"
| "flow_band FLOW_PROTECTED = ''PROTECTED''"

definition interruption_cost_band_of :: "conversation_priority_view option \<Rightarrow> string option" where
  "interruption_cost_band_of view = map_option (flow_band \<circ> cp_flow_priority) view"

definition natural_break_available_of :: "conversation_priority_view option \<Rightarrow> bool" where
  "natural_break_available_of view = (case view of None \<Rightarrow> False | Some v \<Rightarrow> cp_natural_break_available v)"

text \<open>The wiring's producer; \<open>None\<close> is its \<^verbatim>\<open>ValueError\<close> on an unknown lock word.\<close>

definition conversation_priority_view_of :: "string \<Rightarrow> conversation_priority_view option" where
  "conversation_priority_view_of lock_state =
    (if lock_state = ''NONE''
     then Some \<lparr>cp_flow_priority = FLOW_NORMAL, cp_interaction_phase = PHASE_OPEN, cp_natural_break_available = True\<rparr>
     else if lock_state \<in> {''OWNED_BY_THIS_MOMENT'', ''OWNED_BY_OTHER''}
     then Some \<lparr>cp_flow_priority = FLOW_PROTECTED, cp_interaction_phase = PHASE_TEACHING, cp_natural_break_available = False\<rparr>
     else None)"

datatype planner_constraint_type = DO_NOT_AUTO_TEACH | SUPPRESS_REVIEW | CONSTRAINT_JUST_CHAT | MANUAL_FOCUS

datatype planner_constraint_scope = THIS_SESSION | UNTIL_DATE | UNTIL_USER_REENABLES

datatype target_leg = NOT_TARGET_LIMITED | TARGET_LIMITED | HALF_DECLARED

record planner_constraint =
  pc_constraint_id :: string
  pc_target_type :: "string option"
  pc_target_id :: "string option"
  pc_constraint_type :: planner_constraint_type
  pc_scope :: planner_constraint_scope
  pc_starts_at :: string
  pc_expires_at :: "string option"
  pc_created_from_turn_id :: "string option"
  pc_active :: bool

record planner_constraint_entry =
  pe_constraint_id :: string
  pe_constraint_type :: planner_constraint_type
  pe_scope :: planner_constraint_scope
  pe_target_leg :: target_leg
  pe_target_type :: "string option"
  pe_target_id :: "string option"
  pe_starts_at :: string
  pe_expires_at :: "string option"
  pe_active :: bool

record planner_constraint_view =
  pv_as_of :: string
  pv_bound_conversation_id :: string
  pv_entries :: "planner_constraint_entry list"

definition target_leg_of :: "planner_constraint \<Rightarrow> target_leg" where
  "target_leg_of c =
    (if pc_target_type c \<noteq> None \<and> pc_target_id c \<noteq> None then TARGET_LIMITED
     else if pc_target_type c \<noteq> None \<or> pc_target_id c \<noteq> None then HALF_DECLARED
     else NOT_TARGET_LIMITED)"

definition applies_to :: "planner_constraint_entry \<Rightarrow> string \<Rightarrow> string \<Rightarrow> bool" where
  "applies_to entry target_type target_id =
    (if pe_target_leg entry \<in> {NOT_TARGET_LIMITED, HALF_DECLARED} then True
     else pe_target_type entry = Some target_type \<and> pe_target_id entry = Some target_id)"

definition entry_of :: "planner_constraint \<Rightarrow> planner_constraint_entry" where
  "entry_of c = \<lparr>pe_constraint_id = pc_constraint_id c, pe_constraint_type = pc_constraint_type c,
     pe_scope = pc_scope c, pe_target_leg = target_leg_of c, pe_target_type = pc_target_type c,
     pe_target_id = pc_target_id c, pe_starts_at = pc_starts_at c, pe_expires_at = pc_expires_at c,
     pe_active = pc_active c\<rparr>"

definition build_view :: "planner_constraint list \<Rightarrow> string \<Rightarrow> string \<Rightarrow> planner_constraint_view" where
  "build_view constraints as_of bound_conversation_id =
    \<lparr>pv_as_of = as_of, pv_bound_conversation_id = bound_conversation_id, pv_entries = map entry_of constraints\<rparr>"

definition entries_for_target :: "planner_constraint_view \<Rightarrow> string \<Rightarrow> string \<Rightarrow> planner_constraint_entry list" where
  "entries_for_target view target_type target_id = filter (\<lambda>e. applies_to e target_type target_id) (pv_entries view)"

definition entries_of_type :: "planner_constraint_view \<Rightarrow> planner_constraint_type \<Rightarrow> planner_constraint_entry list" where
  "entries_of_type view constraint_type = filter (\<lambda>e. pe_constraint_type e = constraint_type) (pv_entries view)"

record requested_target =
  rt_constraint_id :: string
  rt_target_type :: "string option"
  rt_target_id :: string

record scope_resolution =
  sr_scope :: user_intent_scope
  sr_request_targets :: "requested_target list"
  sr_constraint_view_present :: bool

text \<open>The reasons of the resolution are prose and left out.\<close>

definition resolve_user_intent_scope :: "planner_constraint_view option \<Rightarrow> scope_resolution" where
  "resolve_user_intent_scope constraints =
    (case constraints of
       None \<Rightarrow> \<lparr>sr_scope = OPEN, sr_request_targets = [], sr_constraint_view_present = False\<rparr>
     | Some view \<Rightarrow>
       let focus = entries_of_type view MANUAL_FOCUS;
           general_focus = list_ex (\<lambda>e. pe_target_id e = None) focus;
           targeted = concat (map (\<lambda>e. case pe_target_id e of None \<Rightarrow> []
             | Some t \<Rightarrow> [\<lparr>rt_constraint_id = pe_constraint_id e, rt_target_type = pe_target_type e, rt_target_id = t\<rparr>]) focus)
       in if targeted \<noteq> []
          then \<lparr>sr_scope = TARGETED_LEARNING_REQUEST, sr_request_targets = targeted, sr_constraint_view_present = True\<rparr>
          else if general_focus
          then \<lparr>sr_scope = LEARNING_REQUEST, sr_request_targets = [], sr_constraint_view_present = True\<rparr>
          else if entries_of_type view CONSTRAINT_JUST_CHAT \<noteq> []
          then \<lparr>sr_scope = JUST_CHAT, sr_request_targets = [], sr_constraint_view_present = True\<rparr>
          else \<lparr>sr_scope = OPEN, sr_request_targets = [], sr_constraint_view_present = True\<rparr>)"

section \<open>The controls\<close>

record automatic_controls =
  au_automatic_session_budget_exhausted :: bool
  au_hard_cooldown_active :: bool
  au_hard_protected_flow :: bool

definition automatic_controls_of ::
  "session_budget_view option \<Rightarrow> conversation_priority_view option \<Rightarrow> automatic_controls" where
  "automatic_controls_of budget priority =
    (let remaining = (case budget of None \<Rightarrow> None | Some b \<Rightarrow> sb_automatic_teaching_remaining b)
     in \<lparr>au_automatic_session_budget_exhausted = (case remaining of None \<Rightarrow> False | Some n \<Rightarrow> n \<le> 0),
         au_hard_cooldown_active = (case budget of None \<Rightarrow> False | Some b \<Rightarrow> 0 < sb_cooldown_remaining b),
         au_hard_protected_flow = (case priority of None \<Rightarrow> False | Some v \<Rightarrow> cp_flow_priority v = FLOW_PROTECTED)\<rparr>)"

datatype rollout_stage = MANUAL_USER_INITIATED | STAGE_STUDY_FIRST | STAGE_BALANCED | STAGE_LOUNGE

definition AUTOMATIC_STAGES :: "rollout_stage list" where
  "AUTOMATIC_STAGES = [STAGE_STUDY_FIRST, STAGE_BALANCED, STAGE_LOUNGE]"

definition stage_allows_automatic :: "rollout_stage option \<Rightarrow> bool" where
  "stage_allows_automatic stage = (case stage of None \<Rightarrow> False | Some s \<Rightarrow> s \<in> set AUTOMATIC_STAGES)"

end
