(* ===== verification/Automatic_Teaching.thy ===== *)
theory Automatic_Teaching
  imports Planner_Records Session_Budget Reply_Turn
begin

text \<open>
  \<^verbatim>\<open>elc/runtime/automatic_teaching.py\<close> and the parts of \<^verbatim>\<open>automatic_turn.py\<close> that call it: one automatic
  decision.  The planner's run is made durable, the cycle's durable Gate trace is replayed if there is one,
  the two authorization legs are checked, the Gate is asked over the durable lock, and an ALLOW opens the
  moment.  Every store call is a transaction of its own, so the unit returns its result \<^emph>\<open>and\<close> the database,
  also when it fails half-way.  The two stores hold their tables in one database (\<open>automatic_db\<close>).
\<close>

section \<open>Reading the Gate's durable trace\<close>

fun stored_time :: "string option \<Rightarrow> string" where
  "stored_time None = []"
| "stored_time (Some t) = t"

definition get_gate_decisions :: "teaching_db \<Rightarrow> string \<Rightarrow> (string \<times> gate_decision_row) list" where
  "get_gate_decisions db cycle =
    sort_key (\<lambda>(k, d). (stored_time (gd_created_at d), k)) (filter (\<lambda>(k, d). gd_decision_cycle_id d = cycle) (db_gate_decisions db))"

definition get_gate_execution_statuses :: "teaching_db \<Rightarrow> string \<Rightarrow> (string \<times> gate_status_row) list" where
  "get_gate_execution_statuses db cycle =
    sort_key (\<lambda>(k, s). (stored_time (gs_created_at s), k))
      (filter (\<lambda>(k, s). gs_decision_cycle_id s = Some cycle) (db_gate_statuses db))"

section \<open>The unit's data\<close>

definition TEACHING_OPEN_CONTRACT_ID :: string where
  "TEACHING_OPEN_CONTRACT_ID = ''gc-note-open''"

definition AUTO_SESSION_BUDGET_UNREADABLE :: string where
  "AUTO_SESSION_BUDGET_UNREADABLE = ''AUTO_SESSION_BUDGET_UNREADABLE''"

definition TARGET_NOT_EXECUTABLY_VERIFIED :: string where
  "TARGET_NOT_EXECUTABLY_VERIFIED = ''TARGET_NOT_EXECUTABLY_VERIFIED''"

definition PROVENANCE_FACE_MISSING :: string where
  "PROVENANCE_FACE_MISSING = ''PROVENANCE_FACE_MISSING''"

definition PROVENANCE_LEVELS :: "string list" where
  "PROVENANCE_LEVELS = [''AUTHOR_DECLARED'', ''EDITOR_REVIEWED'', ''EXECUTABLY_VERIFIED'', ''EMPIRICALLY_CALIBRATED'']"

definition EXECUTABLE_VERIFICATION_FLOOR :: string where
  "EXECUTABLE_VERIFICATION_FLOOR = ''EXECUTABLY_VERIFIED''"

definition automatic_moment_id :: "string \<Rightarrow> string" where
  "automatic_moment_id turn_id = ''tm-'' @ turn_id @ ''-automatic''"

definition automatic_action_id :: "string \<Rightarrow> string" where
  "automatic_action_id turn_id = ''ga-'' @ turn_id @ ''-automatic-open''"

definition automatic_gate_decision_id :: "string \<Rightarrow> string" where
  "automatic_gate_decision_id turn_id = ''gd-'' @ turn_id @ ''-automatic''"

definition automatic_gate_execution_status_id :: "string \<Rightarrow> string" where
  "automatic_gate_execution_status_id turn_id = ''ges-'' @ turn_id @ ''-automatic''"

record teaching_control_facts =
  ctl_automatic_teaching_enabled :: bool
  ctl_hard_protected_flow :: bool
  ctl_automatic_session_budget_exhausted :: bool
  ctl_hard_cooldown_active :: bool
  ctl_authorization_status :: string
  ctl_subject_status :: string
  ctl_target_status :: string
  ctl_content_status :: string
  ctl_learning_snapshot_status :: string
  ctl_gate_state_status :: string
  ctl_safety_privacy_status :: string
  ctl_target_suppressed :: bool

definition derived_controls ::
  "session_budget_view option \<Rightarrow> conversation_priority_view option \<Rightarrow> teaching_control_facts" where
  "derived_controls budget priority =
    (let controls = automatic_controls_of budget priority
     in \<lparr>ctl_automatic_teaching_enabled = True,
         ctl_hard_protected_flow = au_hard_protected_flow controls,
         ctl_automatic_session_budget_exhausted = au_automatic_session_budget_exhausted controls,
         ctl_hard_cooldown_active = au_hard_cooldown_active controls,
         ctl_authorization_status = ''VALID'', ctl_subject_status = ''ACTIVE'', ctl_target_status = ''VALID'',
         ctl_content_status = ''VALID'', ctl_learning_snapshot_status = ''VALID'', ctl_gate_state_status = ''COMPLETE'',
         ctl_safety_privacy_status = ''ALLOW'', ctl_target_suppressed = False\<rparr>)"

text \<open>The cycle's identifier and the bindings a moment takes from it; the goal and schedule versions go to
  columns no operation here reads.\<close>

record decision_cycle_record =
  dc_decision_cycle_id :: string
  dc_learning_snapshot_id :: "string option"
  dc_evidence_watermark :: "int option"
  dc_curriculum_version :: "string option"
  dc_policy_version :: "string option"

text \<open>The moment template goes with its identifier; \<open>None\<close> when the caller has none.\<close>

record automatic_teaching_turn =
  tt_turn_id :: string
  tt_conversation_id :: string
  tt_persona_id :: "string option"
  tt_cycle :: decision_cycle_record
  tt_moment :: "(string \<times> moment_row) option"
  tt_owner_epoch :: int

text \<open>The Gate's verdict as the unit hands it on: reasons as their stored words.\<close>

record automatic_verdict =
  av_execution_status :: gate_execution_status
  av_decision :: "gate_decision option"
  av_primary_reason :: "string option"
  av_reasons :: "string list"
  av_missing_or_unknown :: "string list"
  av_policy_version :: string

record automatic_teaching_result =
  ar_gate_verdict :: "automatic_verdict option"
  ar_moment_id :: "string option"
  ar_action_id :: "string option"
  ar_planner_records :: planner_cycle_records
  ar_normal_persona_generation :: bool

record automatic_db =
  ad_planner :: planner_db
  ad_teaching :: teaching_db

datatype template_fault = NoTemplate | TemplateSource | TemplateLifecycle | TemplatePhase | TemplateMomentId
  | TemplateConversation | TemplatePersona

datatype automatic_error = PlannerRecordFailed record_error | TeachingStoreFailed store_error
  | GateRaised gate_fault | TemplateRefused template_fault | TornGateTrace

fun deny_word :: "deny_reason \<Rightarrow> string" where
  "deny_word SAFETY_PRIVACY_BLOCK = ''SAFETY_PRIVACY_BLOCK''"
| "deny_word ACTION_CANCELLED = ''ACTION_CANCELLED''"
| "deny_word ACTION_SUPERSEDED = ''ACTION_SUPERSEDED''"
| "deny_word AUTHORIZATION_INVALID = ''AUTHORIZATION_INVALID''"
| "deny_word TARGET_INVALID = ''TARGET_INVALID''"
| "deny_word deny_reason.CONTENT_INVALID = ''CONTENT_INVALID''"
| "deny_word TARGET_SUPPRESSED = ''TARGET_SUPPRESSED''"
| "deny_word USER_INTENT_BLOCK = ''USER_INTENT_BLOCK''"
| "deny_word AUTO_TEACH_DISABLED = ''AUTO_TEACH_DISABLED''"
| "deny_word TEACHING_LOCK_CONFLICT = ''TEACHING_LOCK_CONFLICT''"
| "deny_word TEACHING_LOCK_INVALID = ''TEACHING_LOCK_INVALID''"
| "deny_word MOMENT_NOT_CONTINUABLE = ''MOMENT_NOT_CONTINUABLE''"
| "deny_word HARD_PROTECTED_FLOW = ''HARD_PROTECTED_FLOW''"
| "deny_word AUTO_SESSION_BUDGET_EXHAUSTED = ''AUTO_SESSION_BUDGET_EXHAUSTED''"
| "deny_word HARD_COOLDOWN_ACTIVE = ''HARD_COOLDOWN_ACTIVE''"
| "deny_word HARD_ATTEMPT_LIMIT = ''HARD_ATTEMPT_LIMIT''"
| "deny_word HARD_TEACHING_TURN_LIMIT = ''HARD_TEACHING_TURN_LIMIT''"

definition worded_verdict :: "gate_verdict \<Rightarrow> automatic_verdict" where
  "worded_verdict v = \<lparr>av_execution_status = gv_execution_status v, av_decision = gv_decision v,
     av_primary_reason = map_option deny_word (gv_primary_reason v), av_reasons = map deny_word (gv_reasons v),
     av_missing_or_unknown = gv_missing_or_unknown v, av_policy_version = gv_policy_version v\<rparr>"

section \<open>Results, records and refusals\<close>

definition ordinary_turn :: "automatic_verdict option \<Rightarrow> planner_cycle_records \<Rightarrow> automatic_teaching_result" where
  "ordinary_turn verdict records = \<lparr>ar_gate_verdict = verdict, ar_moment_id = None, ar_action_id = None,
     ar_planner_records = records, ar_normal_persona_generation = True\<rparr>"

definition open_status :: "automatic_teaching_turn \<Rightarrow> teaching_control_facts \<Rightarrow> gate_execution_status \<Rightarrow> string list \<Rightarrow> gate_status_row" where
  "open_status turn controls status missing =
    \<lparr>gs_decision_cycle_id = Some (dc_decision_cycle_id (tt_cycle turn)), gs_moment_id = None,
     gs_gate_context = CONTEXT_OPEN, gs_authorization_basis = BASIS_DECISION_CYCLE,
     gs_authorization_status = ctl_authorization_status controls, gs_status = status,
     gs_missing_or_unknown = missing, gs_created_at = None\<rparr>"

definition open_decision :: "automatic_teaching_turn \<Rightarrow> string \<Rightarrow> gate_decision \<Rightarrow> string list \<Rightarrow> gate_decision_row" where
  "open_decision turn candidate decision reasons =
    \<lparr>gd_decision_cycle_id = dc_decision_cycle_id (tt_cycle turn), gd_candidate_id = candidate,
     gd_context = CONTEXT_OPEN, gd_decision = decision, gd_reason_codes = reasons,
     gd_policy_version = GATE_POLICY_VERSION, gd_created_at = None\<rparr>"

definition record_denial ::
  "int \<Rightarrow> string \<Rightarrow> automatic_teaching_turn \<Rightarrow> teaching_control_facts \<Rightarrow> string \<Rightarrow> automatic_verdict \<Rightarrow> planner_cycle_records
   \<Rightarrow> automatic_db \<Rightarrow> (automatic_error + automatic_teaching_result) \<times> automatic_db" where
  "record_denial fence now turn controls candidate verdict records db =
    (case record_gate_denial fence now (automatic_gate_execution_status_id (tt_turn_id turn))
         (open_status turn controls (av_execution_status verdict) (av_missing_or_unknown verdict))
         (automatic_gate_decision_id (tt_turn_id turn))
         (open_decision turn candidate DENY (av_reasons verdict)) (ad_teaching db) of
       Inl e \<Rightarrow> (Inl (TeachingStoreFailed e), db)
     | Inr (_, teaching) \<Rightarrow> (Inr (ordinary_turn (Some verdict) records), db\<lparr>ad_teaching := teaching\<rparr>))"

definition authorization_refusal ::
  "int \<Rightarrow> string \<Rightarrow> automatic_teaching_turn \<Rightarrow> teaching_control_facts \<Rightarrow> string \<Rightarrow> string list \<Rightarrow> planner_cycle_records
   \<Rightarrow> automatic_db \<Rightarrow> (automatic_error + automatic_teaching_result) \<times> automatic_db" where
  "authorization_refusal fence now turn controls candidate reasons records db =
    record_denial fence now turn controls candidate
      \<lparr>av_execution_status = GATE_SUCCEEDED, av_decision = Some DENY, av_primary_reason = Some (hd reasons),
       av_reasons = reasons, av_missing_or_unknown = [], av_policy_version = GATE_POLICY_VERSION\<rparr> records db"

definition level_index :: "string \<Rightarrow> nat option" where
  "level_index level = map_of (zip PROVENANCE_LEVELS [0..<length PROVENANCE_LEVELS]) level"

definition provenance_reaches_floor :: "string option \<Rightarrow> bool" where
  "provenance_reaches_floor level =
    (case level of None \<Rightarrow> False
     | Some l \<Rightarrow> (case (level_index l, level_index EXECUTABLE_VERIFICATION_FLOOR) of
         (Some i, Some lowest) \<Rightarrow> lowest \<le> i | _ \<Rightarrow> False))"

text \<open>The codes of the provenance leg; none for a candidate it does not gate.\<close>

definition provenance_codes :: "automatic_teaching_turn \<Rightarrow> bool \<Rightarrow> (string \<times> string) list option \<Rightarrow> string list" where
  "provenance_codes turn gated provenance =
    (if \<not> gated then []
     else case provenance of
       None \<Rightarrow> [PROVENANCE_FACE_MISSING]
     | Some levels \<Rightarrow>
         if \<not> provenance_reaches_floor
             (case tt_moment turn of None \<Rightarrow> None | Some (_, m) \<Rightarrow> map_of levels (mr_focus_target_id m))
         then [TARGET_NOT_EXECUTABLY_VERIFIED] else [])"

definition moment_template_refusal :: "automatic_teaching_turn \<Rightarrow> template_fault option" where
  "moment_template_refusal turn =
    (case tt_moment turn of
       None \<Rightarrow> Some NoTemplate
     | Some (moment_id, m) \<Rightarrow>
         if mr_source m \<noteq> FROM_AUTOMATIC then Some TemplateSource
         else if mr_lifecycle_state m \<noteq> MOMENT_OPENING then Some TemplateLifecycle
         else if mr_presentation_phase m \<noteq> ''INITIAL_PROMPT'' then Some TemplatePhase
         else if moment_id \<noteq> automatic_moment_id (tt_turn_id turn) then Some TemplateMomentId
         else if mr_conversation_id m \<noteq> tt_conversation_id turn then Some TemplateConversation
         else if mr_persona_id m \<noteq> tt_persona_id turn then Some TemplatePersona
         else None)"

section \<open>Replaying the durable trace\<close>

definition replayed_decision ::
  "planner_cycle_records \<Rightarrow> string option \<Rightarrow> gate_decision_row \<Rightarrow> automatic_teaching_result" where
  "replayed_decision records moment_id decision =
    \<lparr>ar_gate_verdict = Some \<lparr>av_execution_status = GATE_SUCCEEDED, av_decision = Some (gd_decision decision),
       av_primary_reason = (case gd_reason_codes decision of [] \<Rightarrow> None | r # _ \<Rightarrow> Some r),
       av_reasons = gd_reason_codes decision, av_missing_or_unknown = [],
       av_policy_version = gd_policy_version decision\<rparr>,
     ar_moment_id = moment_id, ar_action_id = None, ar_planner_records = records,
     ar_normal_persona_generation = (moment_id = None)\<rparr>"

definition durable_gate_replay ::
  "automatic_teaching_turn \<Rightarrow> planner_cycle_records \<Rightarrow> teaching_db \<Rightarrow> (automatic_error + automatic_teaching_result) option" where
  "durable_gate_replay turn records db =
    (let cycle = dc_decision_cycle_id (tt_cycle turn);
         open_decisions = filter (\<lambda>(k, d). gd_context d = CONTEXT_OPEN) (get_gate_decisions db cycle);
         open_statuses = filter (\<lambda>(k, s). gs_gate_context s = CONTEXT_OPEN) (get_gate_execution_statuses db cycle)
     in if open_decisions \<noteq> []
        then let decision = snd (last open_decisions)
          in Some (Inr (replayed_decision records
               (if gd_decision decision = ALLOW then moment_for_cycle db cycle else None) decision))
        else if open_statuses = [] then None
        else let status = snd (last open_statuses)
          in if gs_status status = GATE_SUCCEEDED then Some (Inl TornGateTrace)
             else Some (Inr (ordinary_turn (Some \<lparr>av_execution_status = GATE_DEGRADED, av_decision = None,
               av_primary_reason = None, av_reasons = [], av_missing_or_unknown = gs_missing_or_unknown status,
               av_policy_version = GATE_POLICY_VERSION\<rparr>) records)))"

section \<open>Opening\<close>

definition gate_facts_of ::
  "teaching_control_facts \<Rightarrow> execution_status_record \<Rightarrow> string \<Rightarrow> string \<Rightarrow> string \<Rightarrow> automatic_open_facts" where
  "gate_facts_of controls status candidate user_intent_scope lock =
    \<lparr>gf_proposed_action = ''OPENING'', gf_gate_context = ''OPEN'', gf_authorization_path = ''AUTOMATIC'',
     gf_authorization_basis = ''DECISION_CYCLE'', gf_user_intent_scope = user_intent_scope,
     gf_authorization_status = ctl_authorization_status controls, gf_subject_status = ctl_subject_status controls,
     gf_target_status = ctl_target_status controls, gf_content_status = ctl_content_status controls,
     gf_lock_state = lock, gf_learning_snapshot_status = ctl_learning_snapshot_status controls,
     gf_gate_state_status = ctl_gate_state_status controls, gf_safety_privacy_status = ctl_safety_privacy_status controls,
     gf_target_suppressed = ctl_target_suppressed controls,
     of_decision_cycle_id = es_decision_cycle_id status, of_candidate_id = candidate,
     ao_planner_execution_status = ''SUCCEEDED'', ao_planner_decision = ''SELECT'', ao_user_initiated = False,
     ao_moment_id = None, ao_automatic_teaching_enabled = ctl_automatic_teaching_enabled controls,
     ao_hard_protected_flow = ctl_hard_protected_flow controls,
     ao_automatic_session_budget_exhausted = ctl_automatic_session_budget_exhausted controls,
     ao_hard_cooldown_active = ctl_hard_cooldown_active controls\<rparr>"

definition moment_of_template :: "automatic_teaching_turn \<Rightarrow> string \<Rightarrow> moment_row \<Rightarrow> moment_row" where
  "moment_of_template turn candidate template = template\<lparr>
     mr_source := FROM_AUTOMATIC, mr_decision_cycle_id := dc_decision_cycle_id (tt_cycle turn),
     mr_candidate_id := candidate, mr_gate_decision_id := automatic_gate_decision_id (tt_turn_id turn),
     mr_persona_id := tt_persona_id turn, mr_learning_snapshot_id := dc_learning_snapshot_id (tt_cycle turn),
     mr_evidence_watermark := dc_evidence_watermark (tt_cycle turn),
     mr_curriculum_version := dc_curriculum_version (tt_cycle turn),
     mr_policy_version := dc_policy_version (tt_cycle turn), mr_lifecycle_state := MOMENT_OPENING,
     mr_presentation_phase := ''INITIAL_PROMPT'', mr_state_version := 1\<rparr>"

text \<open>The request, with the prepared action of \<^verbatim>\<open>cp2_action_intent\<close>; the columns of the action that no
  operation of the store reads are left out.\<close>

definition cp2_open_request ::
  "automatic_teaching_turn \<Rightarrow> teaching_control_facts \<Rightarrow> string \<Rightarrow> moment_row \<Rightarrow> open_request" where
  "cp2_open_request turn controls candidate template =
    \<lparr>oq_status_id = automatic_gate_execution_status_id (tt_turn_id turn),
     oq_status = open_status turn controls GATE_SUCCEEDED [],
     oq_decision_id = automatic_gate_decision_id (tt_turn_id turn),
     oq_decision = open_decision turn candidate ALLOW [],
     oq_moment_id = automatic_moment_id (tt_turn_id turn), oq_moment = moment_of_template turn candidate template,
     oq_action_id = automatic_action_id (tt_turn_id turn), oq_action_turn = tt_turn_id turn,
     oq_action_cycle = dc_decision_cycle_id (tt_cycle turn),
     oq_action_moment = Some (automatic_moment_id (tt_turn_id turn)), oq_action_attempt_count = 0,
     oq_owner_epoch = tt_owner_epoch turn\<rparr>"

definition open_allowed ::
  "int \<Rightarrow> string \<Rightarrow> automatic_teaching_turn \<Rightarrow> teaching_control_facts \<Rightarrow> string \<Rightarrow> automatic_verdict \<Rightarrow> planner_cycle_records
   \<Rightarrow> automatic_db \<Rightarrow> (automatic_error + automatic_teaching_result) \<times> automatic_db" where
  "open_allowed fence now turn controls candidate verdict records db =
    (case moment_template_refusal turn of
       Some fault \<Rightarrow> (Inl (TemplateRefused fault), db)
     | None \<Rightarrow>
       (case open_teaching_moment fence (cp2_open_request turn controls candidate (snd (the (tt_moment turn)))) now
            (ad_teaching db) of
          Inl e \<Rightarrow> (Inl (TeachingStoreFailed e), db)
        | Inr (moment_id, teaching) \<Rightarrow>
            (Inr \<lparr>ar_gate_verdict = Some verdict, ar_moment_id = Some moment_id,
               ar_action_id = Some (automatic_action_id (tt_turn_id turn)), ar_planner_records = records,
               ar_normal_persona_generation = False\<rparr>, db\<lparr>ad_teaching := teaching\<rparr>)))"

definition apply_verdict ::
  "int \<Rightarrow> string \<Rightarrow> automatic_teaching_turn \<Rightarrow> teaching_control_facts \<Rightarrow> string \<Rightarrow> gate_verdict \<Rightarrow> planner_cycle_records
   \<Rightarrow> automatic_db \<Rightarrow> (automatic_error + automatic_teaching_result) \<times> automatic_db" where
  "apply_verdict fence now turn controls candidate verdict records db =
    (case gv_decision verdict of
       None \<Rightarrow>
         (case record_gate_degraded fence now (automatic_gate_execution_status_id (tt_turn_id turn))
              (open_status turn controls (gv_execution_status verdict) (gv_missing_or_unknown verdict)) (ad_teaching db) of
            Inl e \<Rightarrow> (Inl (TeachingStoreFailed e), db)
          | Inr (_, teaching) \<Rightarrow>
              (Inr (ordinary_turn (Some (worded_verdict verdict)) records), db\<lparr>ad_teaching := teaching\<rparr>))
     | Some DENY \<Rightarrow> record_denial fence now turn controls candidate (worded_verdict verdict) records db
     | Some ALLOW \<Rightarrow> open_allowed fence now turn controls candidate (worded_verdict verdict) records db)"

definition ask_gate ::
  "int \<Rightarrow> string \<Rightarrow> automatic_teaching_turn \<Rightarrow> teaching_control_facts \<Rightarrow> string \<Rightarrow> string \<Rightarrow> planner_cycle_records
   \<Rightarrow> automatic_db \<Rightarrow> (automatic_error + automatic_teaching_result) \<times> automatic_db" where
  "ask_gate fence now turn controls candidate user_intent_scope records db =
    (let lock = observed_lock_state (get_lock_moment_id (ad_teaching db) (tt_conversation_id turn)) None
     in case decide_automatic_open (gate_facts_of controls (pcr_execution_status records) candidate user_intent_scope lock) of
          Inl fault \<Rightarrow> (Inl (GateRaised fault), db)
        | Inr verdict \<Rightarrow> apply_verdict fence now turn controls candidate verdict records db)"

section \<open>One automatic decision\<close>

text \<open>The candidate of a recorded SELECT; \<open>None\<close> when there is nothing to teach.\<close>

definition selected_candidate :: "planner_cycle_records \<Rightarrow> string option" where
  "selected_candidate records =
    (if es_status (pcr_execution_status records) \<noteq> SUCCEEDED then None
     else case pcr_decision records of
       None \<Rightarrow> None
     | Some decision \<Rightarrow>
         if pd_decision decision \<noteq> SELECT then None
         else (case pd_selected_candidate_id decision of None \<Rightarrow> Some ''None'' | Some c \<Rightarrow> Some c))"

definition decide_selected ::
  "int \<Rightarrow> string \<Rightarrow> automatic_teaching_turn \<Rightarrow> teaching_control_facts \<Rightarrow> string \<Rightarrow> bool \<Rightarrow> bool
   \<Rightarrow> (string \<times> string) list option \<Rightarrow> string \<Rightarrow> planner_cycle_records
   \<Rightarrow> automatic_db \<Rightarrow> (automatic_error + automatic_teaching_result) \<times> automatic_db" where
  "decide_selected fence now turn controls user_intent_scope budget_readable gated provenance candidate records db =
    (case durable_gate_replay turn records (ad_teaching db) of
       Some replay \<Rightarrow> (replay, db)
     | None \<Rightarrow>
         if \<not> budget_readable
         then authorization_refusal fence now turn controls candidate [AUTO_SESSION_BUDGET_UNREADABLE] records db
         else if provenance_codes turn gated provenance \<noteq> []
         then authorization_refusal fence now turn controls candidate (provenance_codes turn gated provenance) records db
         else ask_gate fence now turn controls candidate user_intent_scope records db)"

definition decide_automatic_teaching ::
  "trace_prose \<Rightarrow> int \<Rightarrow> string \<Rightarrow> automatic_teaching_turn \<Rightarrow> planning_outcome \<Rightarrow> planner_trace option \<Rightarrow> teaching_control_facts
   \<Rightarrow> string \<Rightarrow> bool \<Rightarrow> bool \<Rightarrow> (string \<times> string) list option
   \<Rightarrow> automatic_db \<Rightarrow> (automatic_error + automatic_teaching_result) \<times> automatic_db" where
  "decide_automatic_teaching prose fence now turn out trace controls user_intent_scope budget_readable gated provenance db =
    (case record_planner_cycle prose fence now (tt_turn_id turn) out [] trace (ad_planner db) of
       Inl e \<Rightarrow> (Inl (PlannerRecordFailed e), db)
     | Inr (records, planner) \<Rightarrow>
       (case selected_candidate records of
          None \<Rightarrow> (Inr (ordinary_turn None records), db\<lparr>ad_planner := planner\<rparr>)
        | Some candidate \<Rightarrow>
            decide_selected fence now turn controls user_intent_scope budget_readable gated provenance candidate records
              (db\<lparr>ad_planner := planner\<rparr>)))"

end
