(* ===== verification/Candidate_Readings.thy ===== *)
theory Candidate_Readings
  imports Planner_Types
begin

text \<open>
  \<^verbatim>\<open>elc/planner/candidates.py\<close>, first part: the fourteen candidate sources, the authority each of them needs,
  the factor bands, the reading of a factor no source moves, and what each source declares about the
  candidates it makes.  The prose of a row (its basis and when to revisit it) is left out.
\<close>

section \<open>Sources and authorities\<close>

datatype candidate_source = CURRENT_USER_ERROR | EXPRESSION_NEED | NATURAL_USE_EXPANSION
  | PRAGMATIC_REGISTER_OPPORTUNITY | MANUAL_USER_REQUEST | CURRENT_CONTEXT_TRANSFER_OPPORTUNITY
  | CONFIRMED_GAP | SCHEDULED_REVIEW_SOURCE | UNKNOWN_PROBE | TRANSFER_EXPANSION | SUPPORT_WITHDRAWAL
  | CORE_COVERAGE | GOAL_SPECIFIC_TARGET | COVERAGE_DEBT_SOURCE

fun candidate_source_word :: "candidate_source \<Rightarrow> string" where
  "candidate_source_word CURRENT_USER_ERROR = ''CURRENT_USER_ERROR''"
| "candidate_source_word EXPRESSION_NEED = ''EXPRESSION_NEED''"
| "candidate_source_word NATURAL_USE_EXPANSION = ''NATURAL_USE_EXPANSION''"
| "candidate_source_word PRAGMATIC_REGISTER_OPPORTUNITY = ''PRAGMATIC_REGISTER_OPPORTUNITY''"
| "candidate_source_word MANUAL_USER_REQUEST = ''MANUAL_USER_REQUEST''"
| "candidate_source_word CURRENT_CONTEXT_TRANSFER_OPPORTUNITY = ''CURRENT_CONTEXT_TRANSFER_OPPORTUNITY''"
| "candidate_source_word CONFIRMED_GAP = ''CONFIRMED_GAP''"
| "candidate_source_word SCHEDULED_REVIEW_SOURCE = ''SCHEDULED_REVIEW''"
| "candidate_source_word UNKNOWN_PROBE = ''UNKNOWN_PROBE''"
| "candidate_source_word TRANSFER_EXPANSION = ''TRANSFER_EXPANSION''"
| "candidate_source_word SUPPORT_WITHDRAWAL = ''SUPPORT_WITHDRAWAL''"
| "candidate_source_word CORE_COVERAGE = ''CORE_COVERAGE''"
| "candidate_source_word GOAL_SPECIFIC_TARGET = ''GOAL_SPECIFIC_TARGET''"
| "candidate_source_word COVERAGE_DEBT_SOURCE = ''COVERAGE_DEBT''"

definition TRACK_A_SOURCES :: "candidate_source list" where
  "TRACK_A_SOURCES = [CURRENT_USER_ERROR, EXPRESSION_NEED, NATURAL_USE_EXPANSION, PRAGMATIC_REGISTER_OPPORTUNITY,
     MANUAL_USER_REQUEST, CURRENT_CONTEXT_TRANSFER_OPPORTUNITY]"

definition TRACK_B_SOURCES :: "candidate_source list" where
  "TRACK_B_SOURCES = [CONFIRMED_GAP, SCHEDULED_REVIEW_SOURCE, UNKNOWN_PROBE, TRANSFER_EXPANSION, SUPPORT_WITHDRAWAL,
     CORE_COVERAGE, GOAL_SPECIFIC_TARGET, COVERAGE_DEBT_SOURCE]"

definition CANDIDATE_SOURCES :: "candidate_source list" where
  "CANDIDATE_SOURCES = TRACK_A_SOURCES @ TRACK_B_SOURCES"

definition SOURCE_TRACK :: "candidate_source \<Rightarrow> string" where
  "SOURCE_TRACK source = (if source \<in> set TRACK_A_SOURCES then ''A'' else ''B'')"

datatype candidate_authority = TARGET_SUPPLY | TARGET_ROW | CONTENT_READINESS | SCHEDULE_ROW | SCHEDULE_VIEW
  | LEARNER_STATE | TURN_OPPORTUNITY | CONSTRAINT_VIEW | TRANSFER_POLICY | CORE_TIER | GOAL_PACK_MAPPING
  | PLANNING_LEDGER

definition COMMON_FACES :: "candidate_authority list" where
  "COMMON_FACES = [TARGET_SUPPLY, TARGET_ROW, CONTENT_READINESS, SCHEDULE_ROW]"

fun SOURCE_AUTHORITY :: "candidate_source \<Rightarrow> candidate_authority" where
  "SOURCE_AUTHORITY CURRENT_USER_ERROR = TURN_OPPORTUNITY"
| "SOURCE_AUTHORITY EXPRESSION_NEED = TURN_OPPORTUNITY"
| "SOURCE_AUTHORITY NATURAL_USE_EXPANSION = TURN_OPPORTUNITY"
| "SOURCE_AUTHORITY PRAGMATIC_REGISTER_OPPORTUNITY = TURN_OPPORTUNITY"
| "SOURCE_AUTHORITY MANUAL_USER_REQUEST = CONSTRAINT_VIEW"
| "SOURCE_AUTHORITY CURRENT_CONTEXT_TRANSFER_OPPORTUNITY = TURN_OPPORTUNITY"
| "SOURCE_AUTHORITY CONFIRMED_GAP = LEARNER_STATE"
| "SOURCE_AUTHORITY SCHEDULED_REVIEW_SOURCE = SCHEDULE_VIEW"
| "SOURCE_AUTHORITY UNKNOWN_PROBE = LEARNER_STATE"
| "SOURCE_AUTHORITY TRANSFER_EXPANSION = TRANSFER_POLICY"
| "SOURCE_AUTHORITY SUPPORT_WITHDRAWAL = LEARNER_STATE"
| "SOURCE_AUTHORITY CORE_COVERAGE = CORE_TIER"
| "SOURCE_AUTHORITY GOAL_SPECIFIC_TARGET = GOAL_PACK_MAPPING"
| "SOURCE_AUTHORITY COVERAGE_DEBT_SOURCE = PLANNING_LEDGER"

section \<open>Bands\<close>

text \<open>A factor without a ladder has no entry.\<close>

fun BENEFIT_BAND_VALUES :: "benefit_factor \<Rightarrow> (string \<times> float64) list option" where
  "BENEFIT_BAND_VALUES LEARNING_NEED = Some [(''NONE'', decimal 0 1), (''LOW'', decimal 25 100),
     (''MODERATE'', decimal 5 10), (''HIGH'', decimal 75 100), (''CONFIRMED_GAP'', decimal 1 1)]"
| "BENEFIT_BAND_VALUES UNCERTAINTY_REDUCTION = Some [(''NONE'', decimal 0 1), (''LOW'', decimal 25 100),
     (''MEDIUM'', decimal 5 10), (''HIGH'', decimal 75 100), (''UNKNOWN_OR_CONFLICTED'', decimal 1 1)]"
| "BENEFIT_BAND_VALUES CURRICULUM_VALUE = Some [(''MINOR'', decimal 25 100), (''SUPPORTING'', decimal 5 10),
     (''IMPORTANT'', decimal 75 100), (''CORE'', decimal 1 1)]"
| "BENEFIT_BAND_VALUES GOAL_RELEVANCE = None"
| "BENEFIT_BAND_VALUES SCHEDULE_URGENCY = Some [(''NOT_SCHEDULED'', decimal 0 1), (''UPCOMING'', decimal 25 100),
     (''DUE'', decimal 75 100), (''OVERDUE'', decimal 1 1)]"
| "BENEFIT_BAND_VALUES CONTEXT_FIT = Some [(''NONE'', decimal 0 1), (''LOW'', decimal 25 100),
     (''MEDIUM'', decimal 5 10), (''HIGH'', decimal 75 100), (''DIRECT'', decimal 1 1)]"
| "BENEFIT_BAND_VALUES PERSONAL_RELEVANCE = Some [(''NONE'', decimal 0 1), (''RELEVANT'', decimal 5 10),
     (''RECURRING'', decimal 75 100), (''CURRENT_EXPRESSION'', decimal 1 1)]"
| "BENEFIT_BAND_VALUES TRANSFER_VALUE = Some [(''NONE'', decimal 0 1), (''LOW'', decimal 25 100),
     (''MEDIUM'', decimal 5 10), (''HIGH'', decimal 75 100), (''DIRECT_OPPORTUNITY'', decimal 1 1)]"
| "BENEFIT_BAND_VALUES COVERAGE_DEBT = None"
| "BENEFIT_BAND_VALUES OPPORTUNITY_EXPIRY = Some [(''PERSISTENT'', decimal 0 1), (''SESSION'', decimal 25 100),
     (''NEXT_TURN'', decimal 75 100), (''THIS_TURN'', decimal 1 1)]"
| "BENEFIT_BAND_VALUES COMMUNICATIVE_IMPACT = Some [(''NONE'', decimal 0 1), (''LOW'', decimal 1 10),
     (''MEDIUM'', decimal 5 10), (''HIGH'', decimal 8 10), (''BLOCKING'', decimal 1 1)]"

fun COST_BAND_VALUES :: "cost_factor \<Rightarrow> (string \<times> float64) list" where
  "COST_BAND_VALUES INTERRUPTION_COST = [(''LOW'', decimal 1 10), (''NORMAL'', decimal 35 100),
     (''HIGH'', decimal 75 100), (''PROTECTED'', decimal 1 1)]"
| "COST_BAND_VALUES COGNITIVE_LOAD = [(''LOW'', decimal 2 10), (''MEDIUM'', decimal 5 10), (''HIGH'', decimal 8 10),
     (''OVERLOAD'', decimal 1 1)]"
| "COST_BAND_VALUES OVEREXPOSURE = [(''NONE'', decimal 0 1), (''LOW'', decimal 25 100), (''MEDIUM'', decimal 5 10),
     (''HIGH'', decimal 75 100), (''SATURATED'', decimal 1 1)]"
| "COST_BAND_VALUES SUPPORT_COST = [(''NONE'', decimal 0 1), (''LOW'', decimal 25 100), (''MEDIUM'', decimal 5 10),
     (''HIGH'', decimal 75 100), (''VERY_HIGH'', decimal 1 1)]"
| "COST_BAND_VALUES USER_RESISTANCE = [(''NONE'', decimal 0 1), (''RECENT_SKIP'', decimal 35 100),
     (''REPEATED_SKIP'', decimal 75 100), (''SOFT_RESISTANCE'', decimal 1 1)]"

fun FACTOR_BAND_VALUES :: "factor_name \<Rightarrow> (string \<times> float64) list option" where
  "FACTOR_BAND_VALUES (Benefit f) = BENEFIT_BAND_VALUES f"
| "FACTOR_BAND_VALUES (Cost f) = Some (COST_BAND_VALUES f)"

definition BANDLESS_FACTORS :: "factor_name list" where
  "BANDLESS_FACTORS = [Benefit GOAL_RELEVANCE, Benefit COVERAGE_DEBT]"

datatype reading_value = Band string | Literal float64

fun ABSENT_READINGS :: "factor_name \<Rightarrow> reading_value" where
  "ABSENT_READINGS (Benefit LEARNING_NEED) = Band ''NONE''"
| "ABSENT_READINGS (Benefit UNCERTAINTY_REDUCTION) = Band ''NONE''"
| "ABSENT_READINGS (Benefit CURRICULUM_VALUE) = Band ''MINOR''"
| "ABSENT_READINGS (Benefit GOAL_RELEVANCE) = Literal 0"
| "ABSENT_READINGS (Benefit SCHEDULE_URGENCY) = Band ''NOT_SCHEDULED''"
| "ABSENT_READINGS (Benefit CONTEXT_FIT) = Band ''NONE''"
| "ABSENT_READINGS (Benefit PERSONAL_RELEVANCE) = Band ''NONE''"
| "ABSENT_READINGS (Benefit TRANSFER_VALUE) = Band ''NONE''"
| "ABSENT_READINGS (Benefit COVERAGE_DEBT) = Literal 0"
| "ABSENT_READINGS (Benefit OPPORTUNITY_EXPIRY) = Band ''PERSISTENT''"
| "ABSENT_READINGS (Benefit COMMUNICATIVE_IMPACT) = Band ''NONE''"
| "ABSENT_READINGS (Cost INTERRUPTION_COST) = Band ''LOW''"
| "ABSENT_READINGS (Cost COGNITIVE_LOAD) = Band ''LOW''"
| "ABSENT_READINGS (Cost OVEREXPOSURE) = Band ''NONE''"
| "ABSENT_READINGS (Cost SUPPORT_COST) = Band ''NONE''"
| "ABSENT_READINGS (Cost USER_RESISTANCE) = Band ''NONE''"

fun SCAFFOLD_BANDS :: "cost_factor \<Rightarrow> string option" where
  "SCAFFOLD_BANDS SUPPORT_COST = Some ''MEDIUM''"
| "SCAFFOLD_BANDS COGNITIVE_LOAD = Some ''MEDIUM''"
| "SCAFFOLD_BANDS _ = None"

section \<open>What a source declares\<close>

record source_reading =
  rd_source :: candidate_source
  rd_track :: string
  rd_mode :: "target_mode option"
  rd_intent :: "learning_intent option"
  rd_initiative :: initiative_class
  rd_benefit :: "(benefit_factor \<times> reading_value) list"
  rd_cost :: "(cost_factor \<times> reading_value) list"

definition current_user_error_reading :: source_reading where
  "current_user_error_reading = \<lparr>rd_source = CURRENT_USER_ERROR, rd_track = ''A'', rd_mode = None,
     rd_intent = Some DEVELOP, rd_initiative = REACTIVE,
     rd_benefit = [(LEARNING_NEED, Band ''HIGH''), (CONTEXT_FIT, Band ''DIRECT''), (PERSONAL_RELEVANCE, Band
        ''CURRENT_EXPRESSION''), (OPPORTUNITY_EXPIRY, Band ''THIS_TURN''), (COMMUNICATIVE_IMPACT, Band
        ''MEDIUM'')],
     rd_cost = [(INTERRUPTION_COST, Band ''LOW''), (COGNITIVE_LOAD, Band ''LOW'')]\<rparr>"

definition expression_need_reading :: source_reading where
  "expression_need_reading = \<lparr>rd_source = EXPRESSION_NEED, rd_track = ''A'', rd_mode = None,
     rd_intent = Some ESTABLISH, rd_initiative = REACTIVE,
     rd_benefit = [(LEARNING_NEED, Band ''HIGH''), (CONTEXT_FIT, Band ''DIRECT''), (PERSONAL_RELEVANCE, Band
        ''CURRENT_EXPRESSION''), (OPPORTUNITY_EXPIRY, Band ''THIS_TURN'')],
     rd_cost = [(INTERRUPTION_COST, Band ''LOW''), (COGNITIVE_LOAD, Band ''LOW'')]\<rparr>"

definition natural_use_expansion_reading :: source_reading where
  "natural_use_expansion_reading = \<lparr>rd_source = NATURAL_USE_EXPANSION, rd_track = ''A'', rd_mode = None,
     rd_intent = Some EXPAND_REPERTOIRE, rd_initiative = OPPORTUNISTIC,
     rd_benefit = [(LEARNING_NEED, Band ''MODERATE''), (TRANSFER_VALUE, Band ''MEDIUM''), (CONTEXT_FIT, Band ''HIGH''),
        (OPPORTUNITY_EXPIRY, Band ''SESSION'')],
     rd_cost = [(INTERRUPTION_COST, Band ''LOW''), (COGNITIVE_LOAD, Band ''MEDIUM'')]\<rparr>"

definition pragmatic_register_opportunity_reading :: source_reading where
  "pragmatic_register_opportunity_reading = \<lparr>rd_source = PRAGMATIC_REGISTER_OPPORTUNITY, rd_track = ''A'', rd_mode = None,
     rd_intent = Some DEVELOP, rd_initiative = OPPORTUNISTIC,
     rd_benefit = [(CONTEXT_FIT, Band ''LOW''), (PERSONAL_RELEVANCE, Band ''NONE''), (COMMUNICATIVE_IMPACT, Band
        ''LOW''), (OPPORTUNITY_EXPIRY, Band ''THIS_TURN'')],
     rd_cost = [(INTERRUPTION_COST, Band ''NORMAL''), (COGNITIVE_LOAD, Band ''LOW'')]\<rparr>"

definition manual_user_request_reading :: source_reading where
  "manual_user_request_reading = \<lparr>rd_source = MANUAL_USER_REQUEST, rd_track = ''A'', rd_mode = None,
     rd_intent = None, rd_initiative = REACTIVE,
     rd_benefit = [(LEARNING_NEED, Band ''HIGH''), (CONTEXT_FIT, Band ''DIRECT''), (PERSONAL_RELEVANCE, Band
        ''CURRENT_EXPRESSION''), (OPPORTUNITY_EXPIRY, Band ''SESSION'')],
     rd_cost = [(INTERRUPTION_COST, Band ''HIGH''), (COGNITIVE_LOAD, Band ''LOW'')]\<rparr>"

definition current_context_transfer_opportunity_reading :: source_reading where
  "current_context_transfer_opportunity_reading = \<lparr>rd_source = CURRENT_CONTEXT_TRANSFER_OPPORTUNITY, rd_track = ''A'', rd_mode = Some MODE_TRANSFER,
     rd_intent = Some INTENT_TRANSFER, rd_initiative = OPPORTUNISTIC,
     rd_benefit = [(LEARNING_NEED, Band ''MODERATE''), (TRANSFER_VALUE, Band ''DIRECT_OPPORTUNITY''), (CONTEXT_FIT,
        Band ''DIRECT''), (OPPORTUNITY_EXPIRY, Band ''THIS_TURN'')],
     rd_cost = [(INTERRUPTION_COST, Band ''LOW''), (COGNITIVE_LOAD, Band ''MEDIUM'')]\<rparr>"

definition confirmed_gap_reading :: source_reading where
  "confirmed_gap_reading = \<lparr>rd_source = CONFIRMED_GAP, rd_track = ''B'', rd_mode = None,
     rd_intent = Some DEVELOP, rd_initiative = PROACTIVE,
     rd_benefit = [(LEARNING_NEED, Band ''CONFIRMED_GAP''), (CURRICULUM_VALUE, Band ''SUPPORTING''),
        (OPPORTUNITY_EXPIRY, Band ''PERSISTENT'')],
     rd_cost = [(INTERRUPTION_COST, Band ''NORMAL''), (COGNITIVE_LOAD, Band ''MEDIUM''), (SUPPORT_COST, Band ''LOW'')]\<rparr>"

definition scheduled_review_reading :: source_reading where
  "scheduled_review_reading = \<lparr>rd_source = SCHEDULED_REVIEW_SOURCE, rd_track = ''B'', rd_mode = Some REVIEW,
     rd_intent = Some CONSOLIDATE, rd_initiative = PROACTIVE,
     rd_benefit = [(LEARNING_NEED, Band ''LOW''), (CURRICULUM_VALUE, Band ''SUPPORTING''), (OPPORTUNITY_EXPIRY, Band
        ''PERSISTENT'')],
     rd_cost = [(INTERRUPTION_COST, Band ''LOW''), (COGNITIVE_LOAD, Band ''LOW'')]\<rparr>"

definition unknown_probe_reading :: source_reading where
  "unknown_probe_reading = \<lparr>rd_source = UNKNOWN_PROBE, rd_track = ''B'', rd_mode = Some MODE_PROBE,
     rd_intent = Some INTENT_PROBE, rd_initiative = PROACTIVE,
     rd_benefit = [(UNCERTAINTY_REDUCTION, Band ''HIGH''), (CURRICULUM_VALUE, Band ''IMPORTANT''), (CONTEXT_FIT, Band
        ''MEDIUM''), (OPPORTUNITY_EXPIRY, Band ''PERSISTENT'')],
     rd_cost = [(INTERRUPTION_COST, Band ''LOW''), (COGNITIVE_LOAD, Band ''LOW'')]\<rparr>"

definition transfer_expansion_reading :: source_reading where
  "transfer_expansion_reading = \<lparr>rd_source = TRANSFER_EXPANSION, rd_track = ''B'', rd_mode = Some MODE_TRANSFER,
     rd_intent = Some INTENT_TRANSFER, rd_initiative = PROACTIVE,
     rd_benefit = [(LEARNING_NEED, Band ''MODERATE''), (TRANSFER_VALUE, Band ''HIGH''), (OPPORTUNITY_EXPIRY, Band
        ''PERSISTENT'')],
     rd_cost = [(INTERRUPTION_COST, Band ''LOW''), (COGNITIVE_LOAD, Band ''MEDIUM'')]\<rparr>"

definition support_withdrawal_reading :: source_reading where
  "support_withdrawal_reading = \<lparr>rd_source = SUPPORT_WITHDRAWAL, rd_track = ''B'', rd_mode = None,
     rd_intent = Some WITHDRAW_SUPPORT, rd_initiative = PROACTIVE,
     rd_benefit = [(LEARNING_NEED, Band ''HIGH''), (CURRICULUM_VALUE, Band ''SUPPORTING''), (OPPORTUNITY_EXPIRY, Band
        ''PERSISTENT'')],
     rd_cost = [(INTERRUPTION_COST, Band ''LOW''), (COGNITIVE_LOAD, Band ''MEDIUM''), (SUPPORT_COST, Band ''MEDIUM'')]\<rparr>"

definition core_coverage_reading :: source_reading where
  "core_coverage_reading = \<lparr>rd_source = CORE_COVERAGE, rd_track = ''B'', rd_mode = None,
     rd_intent = Some DEVELOP, rd_initiative = PROACTIVE,
     rd_benefit = [(LEARNING_NEED, Band ''MODERATE''), (CURRICULUM_VALUE, Band ''CORE''), (OPPORTUNITY_EXPIRY, Band
        ''PERSISTENT'')],
     rd_cost = [(INTERRUPTION_COST, Band ''LOW''), (COGNITIVE_LOAD, Band ''MEDIUM'')]\<rparr>"

definition goal_specific_target_reading :: source_reading where
  "goal_specific_target_reading = \<lparr>rd_source = GOAL_SPECIFIC_TARGET, rd_track = ''B'', rd_mode = None,
     rd_intent = Some DEVELOP, rd_initiative = PROACTIVE,
     rd_benefit = [(LEARNING_NEED, Band ''MODERATE''), (CURRICULUM_VALUE, Band ''IMPORTANT''), (OPPORTUNITY_EXPIRY,
        Band ''PERSISTENT'')],
     rd_cost = [(INTERRUPTION_COST, Band ''LOW''), (COGNITIVE_LOAD, Band ''MEDIUM'')]\<rparr>"

definition coverage_debt_reading :: source_reading where
  "coverage_debt_reading = \<lparr>rd_source = COVERAGE_DEBT_SOURCE, rd_track = ''B'', rd_mode = None,
     rd_intent = Some DEVELOP, rd_initiative = PROACTIVE,
     rd_benefit = [(LEARNING_NEED, Band ''MODERATE''), (CURRICULUM_VALUE, Band ''CORE''), (COVERAGE_DEBT, Literal 1),
        (CONTEXT_FIT, Band ''MEDIUM''), (OPPORTUNITY_EXPIRY, Band ''PERSISTENT'')],
     rd_cost = [(INTERRUPTION_COST, Band ''LOW''), (COGNITIVE_LOAD, Band ''MEDIUM'')]\<rparr>"

fun SOURCE_READINGS :: "candidate_source \<Rightarrow> source_reading" where
  "SOURCE_READINGS CURRENT_USER_ERROR = current_user_error_reading"
| "SOURCE_READINGS EXPRESSION_NEED = expression_need_reading"
| "SOURCE_READINGS NATURAL_USE_EXPANSION = natural_use_expansion_reading"
| "SOURCE_READINGS PRAGMATIC_REGISTER_OPPORTUNITY = pragmatic_register_opportunity_reading"
| "SOURCE_READINGS MANUAL_USER_REQUEST = manual_user_request_reading"
| "SOURCE_READINGS CURRENT_CONTEXT_TRANSFER_OPPORTUNITY = current_context_transfer_opportunity_reading"
| "SOURCE_READINGS CONFIRMED_GAP = confirmed_gap_reading"
| "SOURCE_READINGS SCHEDULED_REVIEW_SOURCE = scheduled_review_reading"
| "SOURCE_READINGS UNKNOWN_PROBE = unknown_probe_reading"
| "SOURCE_READINGS TRANSFER_EXPANSION = transfer_expansion_reading"
| "SOURCE_READINGS SUPPORT_WITHDRAWAL = support_withdrawal_reading"
| "SOURCE_READINGS CORE_COVERAGE = core_coverage_reading"
| "SOURCE_READINGS GOAL_SPECIFIC_TARGET = goal_specific_target_reading"
| "SOURCE_READINGS COVERAGE_DEBT_SOURCE = coverage_debt_reading"

end
