(* ===== verification/Prerequisites.thy ===== *)
theory Prerequisites
  imports Planner_Types Prelude
begin

text \<open>
  \<^verbatim>\<open>elc/planner/supply.py\<close>: the readiness level of a target as the planner's word, and the prerequisite
  state of a target from the curriculum graph and the learner's state.  The ports (the readiness face, the
  curriculum graph, the learner state) are functions to a result whose left value is the domain error's
  code; a learner state is its list of learning flags.  The reason texts are left out.
\<close>

section \<open>Readiness\<close>

record readiness_assessment =
  ra_level :: "string option"
  ra_missing_keys :: "string list"

definition READINESS_MEMBERS :: "(string \<times> readiness_level) list" where
  "READINESS_MEMBERS = [(''R0_INDEXED'', R0_INDEXED), (''R1_LEXICALLY_RESOLVED'', R1_LEXICALLY_RESOLVED),
     (''R2_PLANNER_READY'', R2_PLANNER_READY), (''R3_TEACHING_READY'', R3_TEACHING_READY),
     (''R4_DETECTION_READY'', R4_DETECTION_READY)]"

record readiness_outcome =
  ro_target_id :: string
  ro_level :: "readiness_level option"
  ro_blocking_keys :: "string list"

type_synonym readiness_port = "string \<Rightarrow> string + readiness_assessment"

text \<open>The left value is the word \<^verbatim>\<open>ReadinessLevel(...)\<close> raises on.\<close>

definition readiness_of_target :: "string \<Rightarrow> readiness_port option \<Rightarrow> string + readiness_outcome" where
  "readiness_of_target target_id readiness =
    (case readiness of
       None \<Rightarrow> Inr \<lparr>ro_target_id = target_id, ro_level = None, ro_blocking_keys = []\<rparr>
     | Some face \<Rightarrow>
       (case face target_id of
          Inl code \<Rightarrow> Inr \<lparr>ro_target_id = target_id, ro_level = None, ro_blocking_keys = []\<rparr>
        | Inr judged \<Rightarrow>
          (case ra_level judged of
             None \<Rightarrow> Inr \<lparr>ro_target_id = target_id, ro_level = None, ro_blocking_keys = ra_missing_keys judged\<rparr>
           | Some word \<Rightarrow>
             (case map_of READINESS_MEMBERS word of
                None \<Rightarrow> Inl word
              | Some level \<Rightarrow> Inr \<lparr>ro_target_id = target_id, ro_level = Some level, ro_blocking_keys = []\<rparr>))))"

section \<open>Prerequisites\<close>

definition APPROVED_LINK_EDITORIAL_STATUS :: string where
  "APPROVED_LINK_EDITORIAL_STATUS = ''CANONICAL_APPROVED''"

definition CONFIRMED_GAP_FLAG :: string where
  "CONFIRMED_GAP_FLAG = ''CONFIRMED_GAP''"

definition INSUFFICIENT_EVIDENCE_FLAG :: string where
  "INSUFFICIENT_EVIDENCE_FLAG = ''INSUFFICIENT_EVIDENCE''"

datatype curriculum_link_relation = REALIZES | LINK_SUPPORTS | EXEMPLIFIES | CONTRASTS | REQUIRES

datatype curriculum_edge_type = DECOMPOSES_INTO | REALIZED_BY | EDGE_SUPPORTS | PREREQUISITE_FOR | REFINES
  | ALTERNATIVE_TO | CONTRASTS_WITH | REGISTER_VARIANT_OF | COMMONLY_CONFUSED_WITH | GENERALIZES_TO | ELICITABLE_IN

datatype prerequisite_strength = STRENGTH_HARD | STRENGTH_SOFT | SCAFFOLDABLE

record curriculum_link =
  cl_node_id :: string
  cl_relation :: curriculum_link_relation
  cl_editorial_status :: string

record curriculum_edge =
  ce_from_node :: string
  ce_to_node :: string
  ce_edge_type :: curriculum_edge_type
  ce_prerequisite_strength :: "prerequisite_strength option"

record prerequisite_port =
  pq_get_capability :: "string \<Rightarrow> string + string"
  pq_curriculum_links_of :: "string \<Rightarrow> string + curriculum_link list"
  pq_prerequisites_of :: "string \<Rightarrow> string + curriculum_edge list"

type_synonym learner_state_port = "string \<Rightarrow> evidence_modality \<Rightarrow> string + string list option"

record prerequisite_outcome =
  po_state :: prerequisite_state
  po_scaffoldable :: bool
  po_nodes :: "string list"

definition hard_blocked :: "prerequisite_outcome \<Rightarrow> bool" where
  "hard_blocked outcome \<longleftrightarrow> po_state outcome = BLOCKED"

definition nodes_of :: "string \<Rightarrow> string \<Rightarrow> prerequisite_port \<Rightarrow> string list" where
  "nodes_of target_type target_id prerequisites =
    (if target_type = ''CAPABILITY''
     then (case pq_get_capability prerequisites target_id of Inl code \<Rightarrow> [] | Inr node \<Rightarrow> [node])
     else (case pq_curriculum_links_of prerequisites target_id of
         Inl code \<Rightarrow> []
       | Inr links \<Rightarrow> map cl_node_id (filter (\<lambda>link. cl_relation link = REALIZES
           \<and> cl_editorial_status link = APPROVED_LINK_EDITORIAL_STATUS) links)))"

datatype prerequisite_verdict = PROVEN | UNMET | UNJUDGED

definition judge :: "string \<Rightarrow> evidence_modality \<Rightarrow> learner_state_port option \<Rightarrow> prerequisite_verdict" where
  "judge node_id modality learner_state =
    (case learner_state of
       None \<Rightarrow> UNJUDGED
     | Some face \<Rightarrow>
       (case face node_id modality of
          Inl code \<Rightarrow> UNJUDGED
        | Inr None \<Rightarrow> UNJUDGED
        | Inr (Some flags) \<Rightarrow>
            if list_ex (\<lambda>flag. flag \<in> {CONFIRMED_GAP_FLAG, INSUFFICIENT_EVIDENCE_FLAG}) flags then UNMET else PROVEN))"

definition is_a_prerequisite_of :: "curriculum_edge \<Rightarrow> string \<Rightarrow> bool" where
  "is_a_prerequisite_of edge node \<longleftrightarrow> ce_edge_type edge = PREREQUISITE_FOR \<and> ce_to_node edge = node"

definition strength_of :: "curriculum_edge \<Rightarrow> prerequisite_strength" where
  "strength_of edge = (case ce_prerequisite_strength edge of None \<Rightarrow> STRENGTH_HARD | Some s \<Rightarrow> s)"

text \<open>The four locals of the loop.\<close>

record edge_tally =
  et_edge_count :: nat
  et_blocked :: bool
  et_unknown :: bool
  et_scaffold :: bool

fun tally_edges ::
  "string \<Rightarrow> evidence_modality \<Rightarrow> learner_state_port option \<Rightarrow> curriculum_edge list \<Rightarrow> edge_tally \<Rightarrow> edge_tally" where
  "tally_edges node modality learner_state [] tally = tally"
| "tally_edges node modality learner_state (edge # edges) tally =
    tally_edges node modality learner_state edges
      (if \<not> is_a_prerequisite_of edge node then tally
       else let counted = tally\<lparr>et_edge_count := et_edge_count tally + 1\<rparr> in
         if strength_of edge = STRENGTH_SOFT then counted
         else (case judge (ce_from_node edge) modality learner_state of
             PROVEN \<Rightarrow> counted
           | verdict \<Rightarrow>
             if strength_of edge = SCAFFOLDABLE then counted\<lparr>et_scaffold := True\<rparr>
             else if verdict = UNMET then counted\<lparr>et_blocked := True\<rparr>
             else counted\<lparr>et_unknown := True\<rparr>))"

text \<open>An edge face that cannot be read ends the walk.\<close>

fun tally_nodes ::
  "prerequisite_port \<Rightarrow> evidence_modality \<Rightarrow> learner_state_port option \<Rightarrow> string list \<Rightarrow> edge_tally \<Rightarrow> edge_tally option" where
  "tally_nodes prerequisites modality learner_state [] tally = Some tally"
| "tally_nodes prerequisites modality learner_state (node # nodes) tally =
    (case pq_prerequisites_of prerequisites node of
       Inl code \<Rightarrow> None
     | Inr edges \<Rightarrow> tally_nodes prerequisites modality learner_state nodes
         (tally_edges node modality learner_state edges tally))"

definition NO_EDGES :: edge_tally where
  "NO_EDGES = \<lparr>et_edge_count = 0, et_blocked = False, et_unknown = False, et_scaffold = False\<rparr>"

definition outcome_of_tally :: "string list \<Rightarrow> edge_tally \<Rightarrow> prerequisite_outcome" where
  "outcome_of_tally nodes tally =
    (if et_edge_count tally = 0 then \<lparr>po_state = READY, po_scaffoldable = False, po_nodes = nodes\<rparr>
     else if et_blocked tally then \<lparr>po_state = BLOCKED, po_scaffoldable = False, po_nodes = nodes\<rparr>
     else if et_scaffold tally \<and> et_unknown tally then \<lparr>po_state = PREREQ_UNKNOWN, po_scaffoldable = True, po_nodes = nodes\<rparr>
     else if et_scaffold tally then \<lparr>po_state = READY_WITH_SCAFFOLD, po_scaffoldable = True, po_nodes = nodes\<rparr>
     else if et_unknown tally then \<lparr>po_state = PREREQ_UNKNOWN, po_scaffoldable = False, po_nodes = nodes\<rparr>
     else \<lparr>po_state = READY, po_scaffoldable = False, po_nodes = nodes\<rparr>)"

definition prerequisite_state_of ::
  "string \<Rightarrow> string \<Rightarrow> evidence_modality \<Rightarrow> prerequisite_port option \<Rightarrow> learner_state_port option \<Rightarrow> prerequisite_outcome" where
  "prerequisite_state_of target_type target_id modality prerequisites learner_state =
    (case prerequisites of
       None \<Rightarrow> \<lparr>po_state = PREREQ_UNKNOWN, po_scaffoldable = False, po_nodes = []\<rparr>
     | Some port \<Rightarrow>
       (case nodes_of target_type target_id port of
          [] \<Rightarrow> \<lparr>po_state = PREREQ_UNKNOWN, po_scaffoldable = False, po_nodes = []\<rparr>
        | nodes \<Rightarrow>
          (case tally_nodes port modality learner_state nodes NO_EDGES of
             None \<Rightarrow> \<lparr>po_state = PREREQ_UNKNOWN, po_scaffoldable = False, po_nodes = nodes\<rparr>
           | Some tally \<Rightarrow> outcome_of_tally nodes tally)))"

end
