(* ===== verification/Planning_Ledger.thy ===== *)
theory Planning_Ledger
  imports Planner_Types Python_Text Binary64 "HOL-Library.AList"
begin

text \<open>
  \<^verbatim>\<open>elc/planner/ledger.py\<close>: the planner's book.  A coverage obligation carries a debt that accrues and is
  repaid by serving or engaging; a target's row carries the log of its events, from which its stamps, counts
  and overexposure are computed.  \<^verbatim>\<open>__post_init__\<close> runs on every construction and every \<^verbatim>\<open>replace\<close>, so a
  construction is \<open>mk_coverage_obligation\<close>.  The sentences of \<^verbatim>\<open>reason\<close> and \<^verbatim>\<open>reasons\<close> are left out.
\<close>

section \<open>Words\<close>

datatype ledger_event = CANDIDATE_SELECTED | TEACHING_PRESENTED | HINT_PRESENTED | REVEAL_PRESENTED | LEDGER_USER_SKIP

definition LEDGER_EVENTS :: "ledger_event list" where
  "LEDGER_EVENTS = [CANDIDATE_SELECTED, TEACHING_PRESENTED, HINT_PRESENTED, REVEAL_PRESENTED, LEDGER_USER_SKIP]"

datatype event_effect = NEITHER | EXPOSURE_ONLY | EXPOSURE_AND_SERVING

fun EVENT_EFFECTS :: "ledger_event \<Rightarrow> event_effect" where
  "EVENT_EFFECTS CANDIDATE_SELECTED = NEITHER"
| "EVENT_EFFECTS TEACHING_PRESENTED = EXPOSURE_AND_SERVING"
| "EVENT_EFFECTS HINT_PRESENTED = EXPOSURE_ONLY"
| "EVENT_EFFECTS REVEAL_PRESENTED = EXPOSURE_ONLY"
| "EVENT_EFFECTS LEDGER_USER_SKIP = NEITHER"

definition EXPOSURE_EVENTS :: "ledger_event list" where
  "EXPOSURE_EVENTS = filter (\<lambda>e. EVENT_EFFECTS e \<noteq> NEITHER) LEDGER_EVENTS"

definition SERVING_EVENTS :: "ledger_event list" where
  "SERVING_EVENTS = filter (\<lambda>e. EVENT_EFFECTS e = EXPOSURE_AND_SERVING) LEDGER_EVENTS"

definition UNAVAILABLE_IN_CURRENT_RUNTIME :: string where
  "UNAVAILABLE_IN_CURRENT_RUNTIME = ''UNAVAILABLE_IN_CURRENT_RUNTIME''"

datatype ledger_key_type = KEY_TARGET | KEY_TARGET_FAMILY

definition OBLIGATION_TARGET :: string where
  "OBLIGATION_TARGET = ''TARGET''"

datatype goal_modality = SPEAKING | LISTENING | READING | WRITING

record direct_obligation_rule =
  dr_direct_obligation :: string
  dr_accrue_direct_coverage_debt :: bool
  dr_preparatory_training_allowed :: bool

definition unavailable_in_current_runtime :: direct_obligation_rule where
  "unavailable_in_current_runtime = \<lparr>dr_direct_obligation = UNAVAILABLE_IN_CURRENT_RUNTIME,
     dr_accrue_direct_coverage_debt = False, dr_preparatory_training_allowed = True\<rparr>"

definition runtime_has :: "(string \<times> bool) list \<Rightarrow> string \<Rightarrow> bool" where
  "runtime_has runtime face = (case map_of runtime face of None \<Rightarrow> False | Some b \<Rightarrow> b)"

definition direct_obligation_of :: "goal_modality \<Rightarrow> (string \<times> bool) list option \<Rightarrow> direct_obligation_rule" where
  "direct_obligation_of modality runtime =
    (case runtime of
       None \<Rightarrow> unavailable_in_current_runtime
     | Some faces \<Rightarrow>
         if modality = SPEAKING \<and> \<not> runtime_has faces ''voice_input'' then unavailable_in_current_runtime
         else if modality = LISTENING \<and> \<not> runtime_has faces ''listening_comprehension_evaluator''
         then unavailable_in_current_runtime
         else \<lparr>dr_direct_obligation = ''AVAILABLE'', dr_accrue_direct_coverage_debt = True,
           dr_preparatory_training_allowed = True\<rparr>)"

section \<open>Obligations\<close>

datatype ledger_error = DebtOutOfRange | PausedWithoutReason | ReasonWithoutPause | NegativeAccrual
  | AccrualLeavesRange | ServedWhilePaused | EngagedWhilePaused | NegativePresentationCount
  | LedgerInstant instant_error | LedgerOverflowRaised

record coverage_obligation =
  co_obligation_key :: string
  co_scope_type :: string
  co_target_or_family_id :: string
  co_goal_id :: "string option"
  co_window_start :: string
  co_window_end :: string
  co_debt_value :: float64
  co_accrual_paused :: bool
  co_pause_reason :: "string option"
  co_last_served_at :: "string option"
  co_last_engaged_at :: "string option"

definition LEDGER_VALUE_LOW :: float64 where
  "LEDGER_VALUE_LOW = 0"

definition LEDGER_VALUE_HIGH :: float64 where
  "LEDGER_VALUE_HIGH = 1"

definition DEBT_REPAID_PER_SERVING :: float64 where
  "DEBT_REPAID_PER_SERVING = 1"

definition DEBT_REPAID_PER_ENGAGEMENT :: float64 where
  "DEBT_REPAID_PER_ENGAGEMENT = 1"

definition mk_coverage_obligation :: "coverage_obligation \<Rightarrow> ledger_error + coverage_obligation" where
  "mk_coverage_obligation ob =
    bindE (guardsE
      [(LEDGER_VALUE_LOW \<le> co_debt_value ob \<and> co_debt_value ob \<le> LEDGER_VALUE_HIGH, DebtOutOfRange),
       (\<not> (co_accrual_paused ob \<and> co_pause_reason ob \<in> {None, Some []}), PausedWithoutReason),
       (\<not> (\<not> co_accrual_paused ob \<and> co_pause_reason ob \<noteq> None), ReasonWithoutPause)]) (\<lambda>_. Inr ob)"

record event_outcome =
  eo_obligation :: coverage_obligation
  eo_changed :: bool

definition ledger_instant :: "py_env \<Rightarrow> string \<Rightarrow> string \<Rightarrow> ledger_error + py_datetime" where
  "ledger_instant env text field = wrapE LedgerInstant (parse_instant env text field)"

definition accrue :: "py_env \<Rightarrow> coverage_obligation \<Rightarrow> float64 \<Rightarrow> string \<Rightarrow> ledger_error + event_outcome" where
  "accrue env ob amount stamp =
    bindE (ledger_instant env stamp ''at'') (\<lambda>_.
      if amount < 0 then Inl NegativeAccrual
      else if co_accrual_paused ob then Inr \<lparr>eo_obligation = ob, eo_changed = False\<rparr>
      else if amount = 0 then Inr \<lparr>eo_obligation = ob, eo_changed = False\<rparr>
      else if LEDGER_VALUE_HIGH < fadd (co_debt_value ob) amount then Inl AccrualLeavesRange
      else bindE (mk_coverage_obligation (ob\<lparr>co_debt_value := fadd (co_debt_value ob) amount\<rparr>)) (\<lambda>moved.
        Inr \<lparr>eo_obligation = moved, eo_changed = True\<rparr>))"

definition repay :: "coverage_obligation \<Rightarrow> float64 \<Rightarrow> ledger_error + coverage_obligation" where
  "repay ob amount = mk_coverage_obligation (ob\<lparr>co_debt_value := max LEDGER_VALUE_LOW (fsub (co_debt_value ob) amount)\<rparr>)"

definition serve :: "py_env \<Rightarrow> coverage_obligation \<Rightarrow> string \<Rightarrow> ledger_error + coverage_obligation" where
  "serve env ob stamp =
    bindE (ledger_instant env stamp ''at'') (\<lambda>_.
      if co_accrual_paused ob then Inl ServedWhilePaused
      else bindE (mk_coverage_obligation (ob\<lparr>co_last_served_at := Some stamp\<rparr>)) (\<lambda>stamped.
        repay stamped DEBT_REPAID_PER_SERVING))"

definition engage :: "py_env \<Rightarrow> coverage_obligation \<Rightarrow> string \<Rightarrow> ledger_error + coverage_obligation" where
  "engage env ob stamp =
    bindE (ledger_instant env stamp ''at'') (\<lambda>_.
      if co_accrual_paused ob then Inl EngagedWhilePaused
      else bindE (mk_coverage_obligation (ob\<lparr>co_last_engaged_at := Some stamp\<rparr>)) (\<lambda>stamped.
        repay stamped DEBT_REPAID_PER_ENGAGEMENT))"

definition apply_ledger_event ::
  "py_env \<Rightarrow> coverage_obligation \<Rightarrow> ledger_event \<Rightarrow> string \<Rightarrow> ledger_error + event_outcome" where
  "apply_ledger_event env ob event stamp =
    (if event \<in> set SERVING_EVENTS
     then bindE (serve env ob stamp) (\<lambda>served. Inr \<lparr>eo_obligation = served, eo_changed = (served \<noteq> ob)\<rparr>)
     else bindE (ledger_instant env stamp ''at'') (\<lambda>_. Inr \<lparr>eo_obligation = ob, eo_changed = False\<rparr>))"

definition SERVICE_STATE_RUNGS :: "(float64 \<times> coverage_service_state) list" where
  "SERVICE_STATE_RUNGS = [(decimal 75 100, CRITICAL), (decimal 50 100, COVERAGE_DUE), (decimal 25 100, WATCH),
     (decimal 0 1, COVERAGE_NONE)]"

definition coverage_service_state_of :: "coverage_obligation \<Rightarrow> coverage_service_state" where
  "coverage_service_state_of ob =
    (if co_accrual_paused ob then COVERAGE_NONE
     else case find (\<lambda>(rung, state). rung \<le> co_debt_value ob) SERVICE_STATE_RUNGS of
       None \<Rightarrow> COVERAGE_NONE | Some (rung, state) \<Rightarrow> state)"

section \<open>Overexposure\<close>

definition OVEREXPOSURE_WINDOW_DAYS :: int where
  "OVEREXPOSURE_WINDOW_DAYS = 7"

definition OVEREXPOSURE_RUNGS :: "(int \<times> string) list" where
  "OVEREXPOSURE_RUNGS = [(4, ''SATURATED''), (3, ''HIGH''), (2, ''MEDIUM''), (1, ''LOW''), (0, ''NONE'')]"

definition overexposure_band_of :: "int \<Rightarrow> ledger_error + string" where
  "overexposure_band_of n =
    (if n < 0 then Inl NegativePresentationCount
     else case find (\<lambda>(rung, band). rung \<le> n) OVEREXPOSURE_RUNGS of
       None \<Rightarrow> Inr (snd (last OVEREXPOSURE_RUNGS)) | Some (rung, band) \<Rightarrow> Inr band)"

record ledger_window =
  lw_start :: string
  lw_end :: string

text \<open>The chained comparison reads the end only when the start lies before.\<close>

definition window_contains :: "py_env \<Rightarrow> ledger_window \<Rightarrow> string \<Rightarrow> ledger_error + bool" where
  "window_contains env window stamp =
    bindE (ledger_instant env stamp ''at'') (\<lambda>moment.
    bindE (ledger_instant env (lw_start window) ''start'') (\<lambda>start.
      if \<not> instant_of start < instant_of moment then Inr False
      else bindE (ledger_instant env (lw_end window) ''end'') (\<lambda>finish. Inr (instant_of moment \<le> instant_of finish))))"

record ledger_event_record =
  le_event :: ledger_event
  le_at :: string

record target_ledger_row =
  tl_target_key :: string
  tl_events :: "ledger_event_record list"
  tl_overexposure_window :: "ledger_window option"
  tl_probe_counts :: int
  tl_review_offers :: int

definition new_ledger_row :: "string \<Rightarrow> target_ledger_row" where
  "new_ledger_row key = \<lparr>tl_target_key = key, tl_events = [], tl_overexposure_window = None, tl_probe_counts = 0,
     tl_review_offers = 0\<rparr>"

definition record_on_row :: "py_env \<Rightarrow> target_ledger_row \<Rightarrow> ledger_event \<Rightarrow> string \<Rightarrow> ledger_error + target_ledger_row" where
  "record_on_row env row event stamp =
    bindE (ledger_instant env stamp ''at'') (\<lambda>_. Inr (row\<lparr>tl_events := tl_events row @ [\<lparr>le_event = event, le_at = stamp\<rparr>]\<rparr>))"

definition events_of :: "target_ledger_row \<Rightarrow> ledger_event list \<Rightarrow> string list" where
  "events_of row wanted = map le_at (filter (\<lambda>r. le_event r \<in> set wanted) (tl_events row))"

text \<open>\<^verbatim>\<open>max(stamps, key=...)\<close>: the first of the latest; every stamp is parsed.\<close>

definition latest_stamp :: "py_env \<Rightarrow> string list \<Rightarrow> ledger_error + string option" where
  "latest_stamp env stamps =
    bindE (traverseE (\<lambda>text. bindE (ledger_instant env text ''at'') (\<lambda>d. Inr (instant_of d, text))) stamps) (\<lambda>keyed.
      Inr (case keyed of [] \<Rightarrow> None | first # rest \<Rightarrow> Some (snd (max_by fst first rest))))"

definition last_selected_at :: "py_env \<Rightarrow> target_ledger_row \<Rightarrow> ledger_error + string option" where
  "last_selected_at env row = latest_stamp env (events_of row [CANDIDATE_SELECTED])"

definition last_presented_at :: "py_env \<Rightarrow> target_ledger_row \<Rightarrow> ledger_error + string option" where
  "last_presented_at env row = latest_stamp env (events_of row EXPOSURE_EVENTS)"

definition teaching_exposure_counts :: "target_ledger_row \<Rightarrow> int" where
  "teaching_exposure_counts row = int (length (filter (\<lambda>r. le_event r = TEACHING_PRESENTED) (tl_events row)))"

definition recent_skips :: "target_ledger_row \<Rightarrow> int" where
  "recent_skips row = int (length (filter (\<lambda>r. le_event r = LEDGER_USER_SKIP) (tl_events row)))"

definition presentations :: "target_ledger_row \<Rightarrow> ledger_event_record list" where
  "presentations row = filter (\<lambda>r. le_event r \<in> set EXPOSURE_EVENTS) (tl_events row)"

record overexposure_reading =
  or_band :: string
  or_count :: nat
  or_window :: ledger_window
  or_last_presented_at :: "string option"

definition fallback_window :: "py_env \<Rightarrow> string \<Rightarrow> ledger_error + ledger_window" where
  "fallback_window env as_of =
    bindE (ledger_instant env as_of ''as_of'') (\<lambda>moment.
      case add_timedelta moment (- OVEREXPOSURE_WINDOW_DAYS * DAY_MICROSECONDS) of
        None \<Rightarrow> Inl LedgerOverflowRaised
      | Some start \<Rightarrow> Inr \<lparr>lw_start = env_isoformat env start, lw_end = as_of\<rparr>)"

fun inside_window :: "py_env \<Rightarrow> ledger_window \<Rightarrow> ledger_event_record list \<Rightarrow> ledger_error + ledger_event_record list" where
  "inside_window env window [] = Inr []"
| "inside_window env window (r # rs) =
    bindE (window_contains env window (le_at r)) (\<lambda>inside.
    bindE (inside_window env window rs) (\<lambda>rest. Inr (if inside then r # rest else rest)))"

definition overexposure_of :: "py_env \<Rightarrow> target_ledger_row option \<Rightarrow> string \<Rightarrow> ledger_error + overexposure_reading" where
  "overexposure_of env row as_of =
    bindE (case row of
        None \<Rightarrow> fallback_window env as_of
      | Some r \<Rightarrow> (case tl_overexposure_window r of None \<Rightarrow> fallback_window env as_of | Some w \<Rightarrow> Inr w)) (\<lambda>window.
    bindE (inside_window env window (case row of None \<Rightarrow> [] | Some r \<Rightarrow> presentations r)) (\<lambda>inside.
    bindE (overexposure_band_of (int (length inside))) (\<lambda>band.
    bindE (case row of None \<Rightarrow> Inr None | Some r \<Rightarrow> last_presented_at env r) (\<lambda>last_presented.
      Inr \<lparr>or_band = band, or_count = length inside, or_window = window, or_last_presented_at = last_presented\<rparr>))))"

section \<open>The ledger\<close>

definition PLANNING_LEDGER_MODEL_VERSION :: string where
  "PLANNING_LEDGER_MODEL_VERSION = ''pl1''"

record planning_ledger =
  pl_rows :: "(string \<times> target_ledger_row) list"
  pl_obligations :: "coverage_obligation list"
  pl_coverage_debt_rollups :: "(string \<times> float64) list"
  pl_recent_target_families :: "string list"
  pl_version :: string

record ledger_readings =
  lr_target_id :: string
  lr_overexposure :: overexposure_reading
  lr_obligation :: "coverage_obligation option"
  lr_service_state :: coverage_service_state

definition row_of :: "planning_ledger \<Rightarrow> string \<Rightarrow> target_ledger_row option" where
  "row_of ledger key = map_of (pl_rows ledger) key"

definition record_event ::
  "py_env \<Rightarrow> planning_ledger \<Rightarrow> string \<Rightarrow> ledger_event \<Rightarrow> string \<Rightarrow> ledger_error + planning_ledger" where
  "record_event env ledger key event stamp =
    bindE (record_on_row env (case row_of ledger key of None \<Rightarrow> new_ledger_row key | Some r \<Rightarrow> r) event stamp) (\<lambda>updated.
      Inr (ledger\<lparr>pl_rows := AList.update key updated (pl_rows ledger)\<rparr>))"

definition obligations_for :: "planning_ledger \<Rightarrow> string \<Rightarrow> coverage_obligation list" where
  "obligations_for ledger target =
    sort_key co_obligation_key (filter (\<lambda>ob. co_target_or_family_id ob = target) (pl_obligations ledger))"

definition target_scoped_obligations_for :: "planning_ledger \<Rightarrow> string \<Rightarrow> coverage_obligation list" where
  "target_scoped_obligations_for ledger target =
    filter (\<lambda>ob. co_scope_type ob = OBLIGATION_TARGET) (obligations_for ledger target)"

definition governing_obligation_of :: "planning_ledger \<Rightarrow> string \<Rightarrow> coverage_obligation option" where
  "governing_obligation_of ledger target =
    (case sort_key co_obligation_key (filter (\<lambda>ob. \<not> co_accrual_paused ob) (target_scoped_obligations_for ledger target)) of
       [] \<Rightarrow> None | first # rest \<Rightarrow> Some (max_by co_debt_value first rest))"

definition serviceable_obligations :: "planning_ledger \<Rightarrow> coverage_obligation list" where
  "serviceable_obligations ledger =
    sort_key co_obligation_key (filter (\<lambda>ob. \<not> co_accrual_paused ob \<and> LEDGER_VALUE_LOW < co_debt_value ob
      \<and> co_scope_type ob = OBLIGATION_TARGET) (pl_obligations ledger))"

text \<open>The keys of a dictionary filled with \<^verbatim>\<open>setdefault\<close>: first occurrences, in order.\<close>

definition first_occurrences :: "'a list \<Rightarrow> 'a list" where
  "first_occurrences xs = rev (remdups (rev xs))"

definition serviceable_targets :: "planning_ledger \<Rightarrow> string list" where
  "serviceable_targets ledger = first_occurrences (map co_target_or_family_id
     (filter (\<lambda>ob. co_scope_type ob = OBLIGATION_TARGET) (serviceable_obligations ledger)))"

definition readings_for :: "py_env \<Rightarrow> planning_ledger \<Rightarrow> string \<Rightarrow> string \<Rightarrow> ledger_error + ledger_readings" where
  "readings_for env ledger target as_of =
    bindE (overexposure_of env (row_of ledger target) as_of) (\<lambda>overexposure.
      Inr \<lparr>lr_target_id = target, lr_overexposure = overexposure,
        lr_obligation = governing_obligation_of ledger target,
        lr_service_state = (case governing_obligation_of ledger target of
          None \<Rightarrow> COVERAGE_NONE | Some ob \<Rightarrow> coverage_service_state_of ob)\<rparr>)"

end
