(* ===== verification/Candidate_Supply.thy ===== *)
theory Candidate_Supply
  imports Candidate_Readings Prerequisites Feature_Assembly Planner_Kernel Planning_Ledger Session_Budget Schedule_Policy
begin

text \<open>
  \<^verbatim>\<open>elc/planner/candidates.py\<close>, second part: the generation pass.  Every face it reads is an optional function
  of the inputs whose left value is a domain error's code; SHA-256 is a parameter.  The reasons of gaps and
  refusals are prose and left out.
\<close>

section \<open>Inputs\<close>

record content_target_view =
  tv_target_mode :: string
  tv_learning_intent :: string
  tv_evidence_modality :: string

record opportunity_observation =
  oo_current_user_errors :: "string list"
  oo_expression_needs :: "string list"
  oo_natural_use_expansions :: "string list"
  oo_pragmatic_register_opportunities :: "string list"
  oo_current_context_transfers :: "string list"

text \<open>A view is the keys of its two buckets.\<close>

record review_view =
  rw_due_items :: "(string \<times> string \<times> evidence_modality) list"
  rw_overdue_items :: "(string \<times> string \<times> evidence_modality) list"

record schedule_port =
  sp_get_schedule_item :: "string \<Rightarrow> string \<Rightarrow> evidence_modality \<Rightarrow> string + schedule_row option"
  sp_get_schedule_view :: "string \<Rightarrow> string + review_view"

record candidate_supply_inputs =
  ci_as_of :: string
  ci_targets :: "(string + (string \<times> string) list) option"
  ci_target_rows :: "(string \<Rightarrow> string + content_target_view) option"
  ci_readiness :: "readiness_port option"
  ci_prerequisites :: "prerequisite_port option"
  ci_learner_state :: "learner_state_port option"
  ci_schedule :: "schedule_port option"
  ci_constraints :: "planner_constraint_view option"
  ci_priority :: "conversation_priority_view option"
  ci_observation :: "opportunity_observation option"
  ci_ledger :: "planning_ledger option"

record source_gap =
  sg_source :: candidate_source
  sg_authority :: candidate_authority

datatype refusal_gate = GATE_TARGET_ROW | GATE_MODALITY | GATE_CONTENT_READINESS | GATE_SCHEDULE_ROW
  | GATE_MODE_INTENT_PAIR | GATE_OUTSIDE_SUPPLY

record target_refusal =
  tr_target_id :: string
  tr_gate :: refusal_gate
  tr_source :: "candidate_source option"

record candidate_supply =
  cs_proposals :: "candidate_proposal list"
  cs_gaps :: "source_gap list"
  cs_refusals :: "target_refusal list"
  cs_readiness :: "(string \<times> string option) list"
  cs_scope :: scope_resolution

definition proposals_of :: "candidate_supply \<Rightarrow> candidate_source \<Rightarrow> candidate_proposal list" where
  "proposals_of supply source = filter (\<lambda>p. candidate_source_word source \<in> set (origins p)) (cs_proposals supply)"

definition candidate_readiness_of :: "candidate_supply \<Rightarrow> (string \<times> string option) list" where
  "candidate_readiness_of supply =
    concat (map (\<lambda>target. case map_of (cs_readiness supply) target of None \<Rightarrow> [] | Some level \<Rightarrow> [(target, level)])
      (sorted_set (map focus_target (cs_proposals supply))))"

definition sources_answered :: "candidate_supply \<Rightarrow> candidate_source list" where
  "sources_answered supply =
    filter (\<lambda>source. list_ex (\<lambda>p. candidate_source_word source \<in> set (origins p)) (cs_proposals supply)) CANDIDATE_SOURCES"

text \<open>Everything that is raised: the generator's own error, a word outside its enum, the ledger core's error
  and a failed \<^verbatim>\<open>assert\<close>.\<close>

datatype supply_error = NotABandOf factor_name string | LiteralOnLadder factor_name | NoObligationFor string
  | NoUrgencyFor string | ScaffoldBelowFloor cost_factor | UnknownReadinessWord string | UnknownTargetMode string
  | UnknownLearningIntent string | SupplyLedger ledger_error | SupplyAssertion

record target_context =
  tx_target_type :: string
  tx_target_id :: string
  tx_row :: content_target_view
  tx_modality :: evidence_modality
  tx_level :: readiness_level
  tx_prerequisites :: prerequisite_outcome
  tx_schedule_row :: schedule_row
  tx_flags :: "string list"
  tx_auto_suppressed :: bool
  tx_review_suppressed :: bool
  tx_ledger :: "ledger_readings option"

section \<open>The declared vector\<close>

fun resolve_reading :: "factor_name \<Rightarrow> reading_value \<Rightarrow> supply_error + float64" where
  "resolve_reading factor (Band band) =
    (case FACTOR_BAND_VALUES factor of
       None \<Rightarrow> Inl (NotABandOf factor band)
     | Some bands \<Rightarrow> (case map_of bands band of None \<Rightarrow> Inl (NotABandOf factor band) | Some v \<Rightarrow> Inr v))"
| "resolve_reading factor (Literal v) =
    (if factor \<notin> set BANDLESS_FACTORS then Inl (LiteralOnLadder factor) else Inr v)"

definition benefit_reading :: "source_reading \<Rightarrow> benefit_factor \<Rightarrow> supply_error + benefit_factor \<times> float64" where
  "benefit_reading reading f =
    bindE (resolve_reading (Benefit f) (case map_of (rd_benefit reading) f of None \<Rightarrow> ABSENT_READINGS (Benefit f) | Some v \<Rightarrow> v))
      (\<lambda>x. Inr (f, x))"

definition cost_reading :: "source_reading \<Rightarrow> cost_factor \<Rightarrow> supply_error + cost_factor \<times> float64" where
  "cost_reading reading f =
    bindE (resolve_reading (Cost f) (case map_of (rd_cost reading) f of None \<Rightarrow> ABSENT_READINGS (Cost f) | Some v \<Rightarrow> v))
      (\<lambda>x. Inr (f, x))"

type_synonym factor_vectors = "(benefit_factor \<Rightarrow> float64 option) \<times> (cost_factor \<Rightarrow> float64 option)"

definition ledger_factors ::
  "source_reading \<Rightarrow> target_context \<Rightarrow> factor_vectors \<Rightarrow> supply_error + factor_vectors" where
  "ledger_factors reading ctx vectors =
    (case tx_ledger ctx of
       None \<Rightarrow> Inr vectors
     | Some readings \<Rightarrow>
       bindE (resolve_reading (Cost OVEREXPOSURE) (Band (or_band (lr_overexposure readings)))) (\<lambda>exposed.
         if rd_source reading \<noteq> COVERAGE_DEBT_SOURCE then Inr (fst vectors, (snd vectors)(OVEREXPOSURE \<mapsto> exposed))
         else (case lr_obligation readings of
             None \<Rightarrow> Inl (NoObligationFor (tx_target_id ctx))
           | Some obligation \<Rightarrow>
             bindE (resolve_reading (Benefit COVERAGE_DEBT) (Literal (co_debt_value obligation))) (\<lambda>debt.
               Inr ((fst vectors)(COVERAGE_DEBT \<mapsto> debt), (snd vectors)(OVEREXPOSURE \<mapsto> exposed))))))"

definition scaffold_floor :: "cost_factor \<Rightarrow> float64" where
  "scaffold_floor name = (if name = SUPPORT_COST then SCAFFOLD_MIN_SUPPORT_COST else SCAFFOLD_MIN_COGNITIVE_LOAD)"

definition raise_to_scaffold ::
  "cost_factor \<Rightarrow> (cost_factor \<Rightarrow> float64 option) \<Rightarrow> supply_error + (cost_factor \<Rightarrow> float64 option)" where
  "raise_to_scaffold name costs =
    bindE (resolve_reading (Cost name) (Band (the (SCAFFOLD_BANDS name)))) (\<lambda>raised.
      if raised < scaffold_floor name then Inl (ScaffoldBelowFloor name)
      else Inr (costs(name \<mapsto> max (the (costs name)) raised)))"

definition declared_vector ::
  "source_reading \<Rightarrow> target_context \<Rightarrow> candidate_supply_inputs \<Rightarrow> bool \<Rightarrow> supply_error + factor_vectors" where
  "declared_vector reading ctx inputs scaffold =
    bindE (traverseE (benefit_reading reading) BENEFIT_FACTORS) (\<lambda>bs.
    bindE (traverseE (cost_reading reading) COST_FACTORS) (\<lambda>cs.
    bindE (ledger_factors reading ctx (map_of bs, map_of cs)) (\<lambda>(benefits, costs).
    bindE (case schedule_urgency_of (Some (tx_schedule_row ctx)) CURRENT of
        None \<Rightarrow> Inl (NoUrgencyFor (tx_target_id ctx)) | Some urgency \<Rightarrow> Inr urgency) (\<lambda>urgency.
    bindE (case interruption_cost_band_of (ci_priority inputs) of
        None \<Rightarrow> Inr costs
      | Some band \<Rightarrow> bindE (resolve_reading (Cost INTERRUPTION_COST) (Band band)) (\<lambda>x. Inr (costs(INTERRUPTION_COST \<mapsto> x)))) (\<lambda>priced.
    bindE (if scaffold then bindE (raise_to_scaffold SUPPORT_COST priced) (raise_to_scaffold COGNITIVE_LOAD) else Inr priced) (\<lambda>final.
      Inr (benefits(SCHEDULE_URGENCY \<mapsto> urgency), final)))))))"

section \<open>Identity\<close>

definition target_mode_members :: "(string \<times> target_mode) list" where
  "target_mode_members = map (\<lambda>m. (target_mode_word m, m)) [RESOURCE_PRACTICE, CAPABILITY_PRACTICE, MODE_PROBE, REVIEW, MODE_TRANSFER]"

definition learning_intent_members :: "(string \<times> learning_intent) list" where
  "learning_intent_members = map (\<lambda>i. (learning_intent_word i, i)) [ESTABLISH, DEVELOP, WITHDRAW_SUPPORT, CONSOLIDATE,
     INTENT_PROBE, INTENT_TRANSFER, EXPAND_REPERTOIRE]"

definition modality_members :: "(string \<times> evidence_modality) list" where
  "modality_members = map (\<lambda>m. (modality_word m, m)) [TEXT_PRODUCTION, TEXT_COMPREHENSION]"

definition canonical_key_of ::
  "candidate_source \<Rightarrow> string \<Rightarrow> target_mode \<Rightarrow> evidence_modality \<Rightarrow> learning_intent \<Rightarrow> string" where
  "canonical_key_of source target_id mode modality intent =
    target_id @ ''|'' @ target_mode_word mode @ ''|'' @ modality_word modality @ ''|'' @ learning_intent_word intent @
    ''|'' @ candidate_source_word source"

definition candidate_id_of :: "(string \<Rightarrow> string) \<Rightarrow> candidate_source \<Rightarrow> string \<Rightarrow> string" where
  "candidate_id_of sha256_hex source key = ''cp-'' @ take 24 (sha256_hex (candidate_source_word source @ [CHR 0x1F] @ key))"

definition practice_mode :: "content_target_view \<Rightarrow> supply_error + target_mode option" where
  "practice_mode row =
    (case map_of target_mode_members (tv_target_mode row) of
       None \<Rightarrow> Inl (UnknownTargetMode (tv_target_mode row))
     | Some mode \<Rightarrow> Inr (if mode \<in> {RESOURCE_PRACTICE, CAPABILITY_PRACTICE} then Some mode else None))"

section \<open>Gaps\<close>

text \<open>\<open>None\<close>: the authority is none of the input's faces.\<close>

fun face_absent :: "candidate_authority \<Rightarrow> candidate_supply_inputs \<Rightarrow> bool option" where
  "face_absent TARGET_SUPPLY inputs = Some (ci_targets inputs = None)"
| "face_absent TARGET_ROW inputs = Some (ci_target_rows inputs = None)"
| "face_absent CONTENT_READINESS inputs = Some (ci_readiness inputs = None)"
| "face_absent SCHEDULE_ROW inputs = Some (ci_schedule inputs = None)"
| "face_absent SCHEDULE_VIEW inputs = Some (ci_schedule inputs = None)"
| "face_absent LEARNER_STATE inputs = Some (ci_learner_state inputs = None)"
| "face_absent TURN_OPPORTUNITY inputs = Some (ci_observation inputs = None)"
| "face_absent CONSTRAINT_VIEW inputs = Some (ci_constraints inputs = None)"
| "face_absent PLANNING_LEDGER inputs = Some (ci_ledger inputs = None)"
| "face_absent _ inputs = None"

definition gap_for :: "candidate_source \<Rightarrow> candidate_supply_inputs \<Rightarrow> source_gap option" where
  "gap_for source inputs =
    (case find (\<lambda>authority. face_absent authority inputs = Some True) COMMON_FACES of
       Some authority \<Rightarrow> Some \<lparr>sg_source = source, sg_authority = authority\<rparr>
     | None \<Rightarrow>
       if face_absent (SOURCE_AUTHORITY source) inputs = Some False then None
       else Some \<lparr>sg_source = source, sg_authority = SOURCE_AUTHORITY source\<rparr>)"

section \<open>Contexts\<close>

type_synonym supply_notes = "(string \<times> string option) list \<times> target_refusal list"

definition refuse :: "string \<Rightarrow> refusal_gate \<Rightarrow> candidate_source option \<Rightarrow> target_refusal" where
  "refuse target_id gate source = \<lparr>tr_target_id = target_id, tr_gate = gate, tr_source = source\<rparr>"

definition suppressed_by :: "planner_constraint_type \<Rightarrow> candidate_supply_inputs \<Rightarrow> string \<Rightarrow> string \<Rightarrow> bool" where
  "suppressed_by kind inputs target_type target_id =
    (case ci_constraints inputs of None \<Rightarrow> False
     | Some view \<Rightarrow> list_ex (\<lambda>entry. applies_to entry target_type target_id) (entries_of_type view kind))"

definition flags_read :: "candidate_supply_inputs \<Rightarrow> string \<Rightarrow> evidence_modality \<Rightarrow> string list" where
  "flags_read inputs target_id modality =
    (case ci_learner_state inputs of None \<Rightarrow> []
     | Some face \<Rightarrow> (case face target_id modality of Inr (Some flags) \<Rightarrow> flags | _ \<Rightarrow> []))"

definition READINESS_WORD :: "readiness_level \<Rightarrow> string" where
  "READINESS_WORD level = fst (the (find (\<lambda>(w, l). l = level) READINESS_MEMBERS))"

definition target_context_for ::
  "py_env \<Rightarrow> candidate_supply_inputs \<Rightarrow> string \<times> string \<Rightarrow> supply_notes \<Rightarrow> supply_error + target_context option \<times> supply_notes" where
  "target_context_for env inputs target notes =
    (case (target, notes, ci_target_rows inputs, ci_schedule inputs) of
       ((target_type, target_id), (levels, refusals), Some rows, Some schedule) \<Rightarrow>
         (case rows target_id of
            Inl code \<Rightarrow> Inr (None, levels, refusals @ [refuse target_id GATE_TARGET_ROW None])
          | Inr row \<Rightarrow>
         (case map_of modality_members (tv_evidence_modality row) of
            None \<Rightarrow> Inr (None, levels, refusals @ [refuse target_id GATE_MODALITY None])
          | Some modality \<Rightarrow>
         bindE (wrapE UnknownReadinessWord (readiness_of_target target_id (ci_readiness inputs))) (\<lambda>outcome.
         let levels' = AList.update target_id (map_option READINESS_WORD (ro_level outcome)) levels in
         (case ro_level outcome of
            None \<Rightarrow> Inr (None, levels', refusals @ [refuse target_id GATE_CONTENT_READINESS None])
          | Some level \<Rightarrow>
         (case sp_get_schedule_item schedule target_type target_id modality of
            Inl code \<Rightarrow> Inr (None, levels', refusals @ [refuse target_id GATE_SCHEDULE_ROW None])
          | Inr None \<Rightarrow> Inr (None, levels', refusals @ [refuse target_id GATE_SCHEDULE_ROW None])
          | Inr (Some scheduled) \<Rightarrow>
         bindE (case ci_ledger inputs of None \<Rightarrow> Inr None
             | Some ledger \<Rightarrow> bindE (wrapE SupplyLedger (readings_for env ledger target_id (ci_as_of inputs))) (\<lambda>r. Inr (Some r))) (\<lambda>readings.
           Inr (Some \<lparr>tx_target_type = target_type, tx_target_id = target_id, tx_row = row, tx_modality = modality,
               tx_level = level,
               tx_prerequisites = prerequisite_state_of target_type target_id modality (ci_prerequisites inputs)
                 (ci_learner_state inputs),
               tx_schedule_row = scheduled, tx_flags = flags_read inputs target_id modality,
               tx_auto_suppressed = suppressed_by DO_NOT_AUTO_TEACH inputs target_type target_id,
               tx_review_suppressed = suppressed_by SUPPRESS_REVIEW inputs target_type target_id,
               tx_ledger = readings\<rparr>, levels', refusals)))))))
     | _ \<Rightarrow> Inl SupplyAssertion)"

fun contexts_of ::
  "py_env \<Rightarrow> candidate_supply_inputs \<Rightarrow> (string \<times> string) list \<Rightarrow> (string \<times> target_context) list \<Rightarrow> supply_notes
   \<Rightarrow> supply_error + (string \<times> target_context) list \<times> supply_notes" where
  "contexts_of env inputs [] contexts notes = Inr (contexts, notes)"
| "contexts_of env inputs (target # targets) contexts notes =
    bindE (target_context_for env inputs target notes) (\<lambda>(found, notes').
      contexts_of env inputs targets
        (case found of None \<Rightarrow> contexts | Some ctx \<Rightarrow> AList.update (tx_target_id ctx) ctx contexts) notes')"

section \<open>What a source wants\<close>

fun OBSERVATION_FIELD :: "candidate_source \<Rightarrow> (opportunity_observation \<Rightarrow> string list) option" where
  "OBSERVATION_FIELD CURRENT_USER_ERROR = Some oo_current_user_errors"
| "OBSERVATION_FIELD EXPRESSION_NEED = Some oo_expression_needs"
| "OBSERVATION_FIELD NATURAL_USE_EXPANSION = Some oo_natural_use_expansions"
| "OBSERVATION_FIELD PRAGMATIC_REGISTER_OPPORTUNITY = Some oo_pragmatic_register_opportunities"
| "OBSERVATION_FIELD CURRENT_CONTEXT_TRANSFER_OPPORTUNITY = Some oo_current_context_transfers"
| "OBSERVATION_FIELD _ = None"

definition has_no_state :: "target_context \<Rightarrow> candidate_supply_inputs \<Rightarrow> supply_error + bool" where
  "has_no_state ctx inputs =
    (case ci_learner_state inputs of
       None \<Rightarrow> Inl SupplyAssertion
     | Some face \<Rightarrow> Inr (case face (tx_target_id ctx) (tx_modality ctx) of
         Inl code \<Rightarrow> False | Inr None \<Rightarrow> True | Inr (Some flags) \<Rightarrow> INSUFFICIENT_EVIDENCE_FLAG \<in> set flags))"

definition context_targets :: "(target_context \<Rightarrow> bool) \<Rightarrow> (string \<times> target_context) list \<Rightarrow> string list" where
  "context_targets wanted contexts = map tx_target_id (filter wanted (map snd contexts))"

definition due_key :: "review_view \<Rightarrow> target_context \<Rightarrow> bool" where
  "due_key view ctx \<longleftrightarrow> (tx_target_type ctx, tx_target_id ctx, tx_modality ctx) \<in> set (rw_due_items view @ rw_overdue_items view)"

definition wanted_by ::
  "candidate_source \<Rightarrow> (string \<times> target_context) list \<Rightarrow> candidate_supply_inputs \<Rightarrow> scope_resolution
   \<Rightarrow> supply_error + string list" where
  "wanted_by source contexts inputs scope =
    (case OBSERVATION_FIELD source of
       Some field \<Rightarrow> (case ci_observation inputs of None \<Rightarrow> Inl SupplyAssertion | Some observed \<Rightarrow> Inr (field observed))
     | None \<Rightarrow>
       if source = MANUAL_USER_REQUEST then Inr (map rt_target_id (sr_request_targets scope))
       else if source = SCHEDULED_REVIEW_SOURCE then
         (case ci_schedule inputs of
            None \<Rightarrow> Inl SupplyAssertion
          | Some schedule \<Rightarrow> (case sp_get_schedule_view schedule (ci_as_of inputs) of
              Inl code \<Rightarrow> Inr [] | Inr view \<Rightarrow> Inr (context_targets (due_key view) contexts)))
       else if source = CONFIRMED_GAP then Inr (context_targets (\<lambda>ctx. CONFIRMED_GAP_FLAG \<in> set (tx_flags ctx)) contexts)
       else if source = SUPPORT_WITHDRAWAL then Inr (context_targets (\<lambda>ctx. ''SUPPORT_DEPENDENT'' \<in> set (tx_flags ctx)) contexts)
       else if source = UNKNOWN_PROBE then
         bindE (traverseE (\<lambda>(k, ctx). bindE (has_no_state ctx inputs) (\<lambda>b. Inr (b, tx_target_id ctx))) contexts)
           (\<lambda>judged. Inr (map snd (filter fst judged)))
       else if source = COVERAGE_DEBT_SOURCE then
         (case ci_ledger inputs of None \<Rightarrow> Inl SupplyAssertion | Some ledger \<Rightarrow> Inr (serviceable_targets ledger))
       else Inr [])"

section \<open>Building\<close>

definition proposal_for ::
  "(string \<Rightarrow> string) \<Rightarrow> candidate_source \<Rightarrow> target_context \<Rightarrow> candidate_supply_inputs \<Rightarrow> target_mode \<Rightarrow> learning_intent
   \<Rightarrow> supply_error + candidate_proposal" where
  "proposal_for sha256_hex source ctx inputs mode intent =
    (let scaffold = po_scaffoldable (tx_prerequisites ctx) \<or> po_state (tx_prerequisites ctx) = READY_WITH_SCAFFOLD;
         initiated = (source = MANUAL_USER_REQUEST);
         key = canonical_key_of source (tx_target_id ctx) mode (tx_modality ctx) intent
     in bindE (declared_vector (SOURCE_READINGS source) ctx inputs scaffold) (\<lambda>(benefits, costs).
       Inr \<lparr>candidate_id = candidate_id_of sha256_hex source key, canonical_key = key,
         focus_target = tx_target_id ctx, target_mode = mode, learning_intent = intent,
         evidence_modality = tx_modality ctx, opportunity_binding_class = candidate_source_word source,
         initiative_class = rd_initiative (SOURCE_READINGS source), benefit = benefits, cost = costs,
         origins = [candidate_source_word source], user_initiated = initiated, request_aligned = initiated, request_priority = 0,
         content_readiness = tx_level ctx, prerequisite_state = po_state (tx_prerequisites ctx),
         prerequisite_scaffoldable = scaffold,
         coverage_service_state = (if source = COVERAGE_DEBT_SOURCE
           then (case tx_ledger ctx of None \<Rightarrow> COVERAGE_NONE | Some readings \<Rightarrow> lr_service_state readings) else COVERAGE_NONE),
         modality_available = True, expired = False, deprecated = False,
         suppressed = (tx_auto_suppressed ctx \<and> \<not> initiated \<or> tx_review_suppressed ctx \<and> mode = REVIEW),
         runtime_generated_ready = False, task_aligned = False, critical_repair = False, goal_relation = GOAL_NONE,
         schedule_row = Some (tx_schedule_row ctx)\<rparr>))"

definition build_candidate ::
  "(string \<Rightarrow> string) \<Rightarrow> candidate_source \<Rightarrow> target_context \<Rightarrow> candidate_supply_inputs
   \<Rightarrow> supply_error + target_refusal + candidate_proposal" where
  "build_candidate sha256_hex source ctx inputs =
    bindE (case rd_mode (SOURCE_READINGS source) of None \<Rightarrow> practice_mode (tx_row ctx) | Some mode \<Rightarrow> Inr (Some mode)) (\<lambda>shape.
      case shape of
        None \<Rightarrow> Inr (Inl (refuse (tx_target_id ctx) GATE_MODE_INTENT_PAIR (Some source)))
      | Some mode \<Rightarrow>
        bindE (case rd_intent (SOURCE_READINGS source) of
            Some intent \<Rightarrow> Inr intent
          | None \<Rightarrow> (case map_of learning_intent_members (tv_learning_intent (tx_row ctx)) of
              None \<Rightarrow> Inl (UnknownLearningIntent (tv_learning_intent (tx_row ctx))) | Some intent \<Rightarrow> Inr intent)) (\<lambda>intent.
          if intent \<notin> set (MODE_ALLOWED_INTENTS mode)
          then Inr (Inl (refuse (tx_target_id ctx) GATE_MODE_INTENT_PAIR (Some source)))
          else bindE (proposal_for sha256_hex source ctx inputs mode intent) (\<lambda>p. Inr (Inr p))))"

section \<open>The pass\<close>

fun serve_targets ::
  "(string \<Rightarrow> string) \<Rightarrow> candidate_supply_inputs \<Rightarrow> (string \<times> target_context) list \<Rightarrow> candidate_source \<Rightarrow> string list
   \<Rightarrow> candidate_proposal list \<times> target_refusal list \<Rightarrow> supply_error + candidate_proposal list \<times> target_refusal list" where
  "serve_targets sha256_hex inputs contexts source [] (proposals, refusals) = Inr (proposals, refusals)"
| "serve_targets sha256_hex inputs contexts source (target_id # targets) (proposals, refusals) =
    bindE (case map_of contexts target_id of
        None \<Rightarrow>
          if list_ex (\<lambda>r. tr_target_id r = target_id \<and> tr_source r = None) refusals then Inr (proposals, refusals)
          else Inr (proposals, refusals @ [refuse target_id GATE_OUTSIDE_SUPPLY (Some source)])
      | Some ctx \<Rightarrow>
        bindE (build_candidate sha256_hex source ctx inputs) (\<lambda>built.
          case built of Inl refusal \<Rightarrow> Inr (proposals, refusals @ [refusal]) | Inr p \<Rightarrow> Inr (proposals @ [p], refusals)))
      (serve_targets sha256_hex inputs contexts source targets)"

fun serve_sources ::
  "(string \<Rightarrow> string) \<Rightarrow> candidate_supply_inputs \<Rightarrow> scope_resolution \<Rightarrow> (string \<times> target_context) list \<Rightarrow> candidate_source list
   \<Rightarrow> candidate_proposal list \<times> target_refusal list \<Rightarrow> supply_error + candidate_proposal list \<times> target_refusal list" where
  "serve_sources sha256_hex inputs scope contexts [] acc = Inr acc"
| "serve_sources sha256_hex inputs scope contexts (source # sources) acc =
    bindE (wanted_by source contexts inputs scope) (\<lambda>targets.
    bindE (serve_targets sha256_hex inputs contexts source targets acc)
      (serve_sources sha256_hex inputs scope contexts sources))"

definition generate ::
  "(string \<Rightarrow> string) \<Rightarrow> py_env \<Rightarrow> candidate_supply_inputs \<Rightarrow> candidate_source list \<Rightarrow> supply_error + candidate_supply" where
  "generate sha256_hex env inputs sources =
    (let gaps = concat (map (\<lambda>source. case gap_for source inputs of None \<Rightarrow> [] | Some gap \<Rightarrow> [gap]) sources);
         active = filter (\<lambda>source. gap_for source inputs = None) sources;
         scope = resolve_user_intent_scope (ci_constraints inputs)
     in bindE (case ci_targets inputs of
           None \<Rightarrow> Inr (gaps, active, [], [], [])
         | Some (Inl code) \<Rightarrow>
             Inr (gaps @ map (\<lambda>source. \<lparr>sg_source = source, sg_authority = TARGET_SUPPLY\<rparr>) active, [], [], [], [])
         | Some (Inr facts) \<Rightarrow>
             bindE (contexts_of env inputs facts [] ([], [])) (\<lambda>(contexts, levels, refusals).
               Inr (gaps, active, contexts, levels, refusals)))
       (\<lambda>(gaps', active', contexts, levels, refusals).
         bindE (serve_sources sha256_hex inputs scope contexts active' ([], refusals)) (\<lambda>(proposals, refusals').
           Inr \<lparr>cs_proposals = proposals, cs_gaps = gaps', cs_refusals = refusals', cs_readiness = sort_key fst levels,
             cs_scope = scope\<rparr>)))"

definition generate_track_a ::
  "(string \<Rightarrow> string) \<Rightarrow> py_env \<Rightarrow> candidate_supply_inputs \<Rightarrow> supply_error + candidate_supply" where
  "generate_track_a sha256_hex env inputs = generate sha256_hex env inputs TRACK_A_SOURCES"

definition generate_track_b ::
  "(string \<Rightarrow> string) \<Rightarrow> py_env \<Rightarrow> candidate_supply_inputs \<Rightarrow> supply_error + candidate_supply" where
  "generate_track_b sha256_hex env inputs = generate sha256_hex env inputs TRACK_B_SOURCES"

definition generate_candidates ::
  "(string \<Rightarrow> string) \<Rightarrow> py_env \<Rightarrow> candidate_supply_inputs \<Rightarrow> supply_error + candidate_supply" where
  "generate_candidates sha256_hex env inputs = generate sha256_hex env inputs CANDIDATE_SOURCES"

end
