(* ===== verification/Automatic_Turn.thy ===== *)
theory Automatic_Turn
  imports Automatic_Teaching Schedule_Handshake Candidate_Supply
begin

text \<open>
  \<^verbatim>\<open>elc/runtime/automatic_turn.py\<close> and \<^verbatim>\<open>elc/planner/shadow.py\<close>: from the authorities a turn reads to one
  automatic decision.  A read that is not wired, raises or refuses is a missing leg, so the reads arrive as
  options; the notes about them are prose and left out.  The candidate supply is injected, or generated over
  the same reads and the faces of the wiring.
\<close>

section \<open>What the turn read\<close>

record identified_snapshot = learning_snapshot +
  ls_learning_snapshot_id :: "string option"

record versioned_policy = teaching_policy +
  vp_policy_version :: "string option"

record turn_reads =
  tr_learning_snapshot :: "identified_snapshot option"
  tr_learning_watermark :: "int option"
  tr_schedule_view :: "scheduler_view option"
  tr_teaching_policy :: "versioned_policy option"
  tr_goal_portfolio :: "goal_portfolio option"
  tr_constraint_view :: "planner_constraint_view option"
  tr_lock_state :: "string option"
  tr_curriculum_version :: "string option"
  tr_session_budget :: "session_budget_view option"

section \<open>The run\<close>

definition assembly_of_reads :: "turn_reads \<Rightarrow> conversation_priority_view option \<Rightarrow> candidate_supply \<Rightarrow> assembly_input" where
  "assembly_of_reads reads priority supply =
    \<lparr>ai_learning_snapshot = map_option learning_snapshot.truncate (tr_learning_snapshot reads),
     ai_current_learning_watermark = tr_learning_watermark reads,
     ai_schedule_view = map_option planner_view (tr_schedule_view reads),
     ai_teaching_policy = map_option teaching_policy.truncate (tr_teaching_policy reads),
     ai_goal_portfolio = tr_goal_portfolio reads,
     ai_curriculum_readiness = Some (candidate_readiness_of supply),
     ai_constraint_view_present = (tr_constraint_view reads \<noteq> None),
     ai_natural_break_available = natural_break_available_of priority\<rparr>"

text \<open>\<^verbatim>\<open>run_shadow\<close>: the assembled authority and the supplied proposals, run by the kernel.\<close>

definition run_shadow ::
  "turn_reads \<Rightarrow> conversation_priority_view option \<Rightarrow> user_intent_scope \<Rightarrow> candidate_supply \<Rightarrow> string
   \<Rightarrow> planner_error + kernel_result" where
  "run_shadow reads priority scope supply decision_cycle_id =
    plan \<lparr>pi_decision_cycle_id = decision_cycle_id,
      pi_planning_context = Some (assemble_feature_authority (assembly_of_reads reads priority supply)),
      pi_user_intent_scope = scope, pi_proposals = cs_proposals supply\<rparr>"

definition would_have_selected :: "kernel_result \<Rightarrow> string option" where
  "would_have_selected result =
    (case po_decision (kr_outcome result) of None \<Rightarrow> None | Some decision \<Rightarrow> pd_selected_candidate_id decision)"

section \<open>The plan of the turn\<close>

record automatic_turn_plan =
  atp_run :: kernel_result
  atp_scope :: scope_resolution
  atp_conversation_priority_view :: "conversation_priority_view option"
  atp_session_budget_view :: "session_budget_view option"
  atp_controls :: teaching_control_facts
  atp_bindings :: decision_cycle_record
  atp_selected :: "candidate_proposal option"

datatype turn_error = UnknownLockWord string | PlannerRunRefused planner_error | SelectedNotSupplied string
  | NothingSelected | TargetRowUnread string | SupplyRaised supply_error

definition selected_of :: "kernel_result \<Rightarrow> candidate_supply \<Rightarrow> turn_error + candidate_proposal option" where
  "selected_of result supply =
    (case would_have_selected result of
       None \<Rightarrow> Inr None
     | Some selected \<Rightarrow>
         (case find (\<lambda>p. candidate_id p = selected) (cs_proposals supply) of
            None \<Rightarrow> Inl (SelectedNotSupplied selected) | Some p \<Rightarrow> Inr (Some p)))"

definition bindings_of :: "turn_reads \<Rightarrow> string \<Rightarrow> decision_cycle_record" where
  "bindings_of reads decision_cycle_id =
    \<lparr>dc_decision_cycle_id = decision_cycle_id,
     dc_learning_snapshot_id = (case tr_learning_snapshot reads of None \<Rightarrow> None | Some s \<Rightarrow> ls_learning_snapshot_id s),
     dc_evidence_watermark = map_option evidence_watermark (tr_learning_snapshot reads),
     dc_curriculum_version = tr_curriculum_version reads,
     dc_policy_version = (case tr_teaching_policy reads of None \<Rightarrow> None | Some p \<Rightarrow> vp_policy_version p)\<rparr>"

definition turn_controls ::
  "session_budget_view option \<Rightarrow> conversation_priority_view option \<Rightarrow> kernel_result \<Rightarrow> rollout_stage option
   \<Rightarrow> teaching_control_facts" where
  "turn_controls budget priority result stage =
    (derived_controls budget priority)\<lparr>ctl_automatic_teaching_enabled :=
      cx_automatic_teaching_enabled (pt_context (kr_trace result)) \<and> stage_allows_automatic stage\<rparr>"

definition priority_of_lock :: "string option \<Rightarrow> turn_error + conversation_priority_view option" where
  "priority_of_lock lock_state =
    (case lock_state of
       None \<Rightarrow> Inr None
     | Some word \<Rightarrow> (case conversation_priority_view_of word of
         None \<Rightarrow> Inl (UnknownLockWord word) | Some view \<Rightarrow> Inr (Some view)))"

definition assemble_automatic_turn ::
  "turn_reads \<Rightarrow> rollout_stage option \<Rightarrow> candidate_supply \<Rightarrow> string \<Rightarrow> turn_error + automatic_turn_plan" where
  "assemble_automatic_turn reads stage supply decision_cycle_id =
    bindE (priority_of_lock (tr_lock_state reads)) (\<lambda>priority.
    bindE (wrapE PlannerRunRefused (run_shadow reads priority
        (sr_scope (resolve_user_intent_scope (tr_constraint_view reads))) supply decision_cycle_id)) (\<lambda>run.
    bindE (selected_of run supply) (\<lambda>selected.
      Inr \<lparr>atp_run = run, atp_scope = resolve_user_intent_scope (tr_constraint_view reads),
        atp_conversation_priority_view = priority, atp_session_budget_view = tr_session_budget reads,
        atp_controls = turn_controls (tr_session_budget reads) priority run stage,
        atp_bindings = bindings_of reads decision_cycle_id, atp_selected = selected\<rparr>)))"

section \<open>The supply of the turn\<close>

text \<open>The faces of the wiring the supply is generated over; the ledger is what its read answered.  The error
  detectors are a function of the learner's text, \<open>None\<close> where they raise.\<close>

record curriculum_face =
  cf_get_target :: "string \<Rightarrow> string + content_target_view"
  cf_readiness :: readiness_port
  cf_prerequisites :: prerequisite_port

record turn_faces =
  tf_supply :: "(string + (string \<times> string) list) option"
  tf_curriculum :: "curriculum_face option"
  tf_learning :: "learner_state_port option"
  tf_scheduler :: "schedule_port option"
  tf_error_detectors :: "(string \<Rightarrow> string list option) option"
  tf_ledger :: "planning_ledger option"

definition turn_observation :: "turn_faces \<Rightarrow> string option \<Rightarrow> opportunity_observation option" where
  "turn_observation faces user_text =
    (case (tf_error_detectors faces, user_text) of
       (Some detect, Some said) \<Rightarrow>
         if said = [] then None
         else (case detect said of
             None \<Rightarrow> None
           | Some errors \<Rightarrow> Some \<lparr>oo_current_user_errors = errors, oo_expression_needs = [], oo_natural_use_expansions = [],
               oo_pragmatic_register_opportunities = [], oo_current_context_transfers = []\<rparr>)
     | _ \<Rightarrow> None)"

definition supply_inputs_of ::
  "string \<Rightarrow> turn_faces \<Rightarrow> turn_reads \<Rightarrow> conversation_priority_view option \<Rightarrow> string option \<Rightarrow> candidate_supply_inputs" where
  "supply_inputs_of as_of faces reads priority user_text =
    \<lparr>ci_as_of = as_of, ci_targets = tf_supply faces, ci_target_rows = map_option cf_get_target (tf_curriculum faces),
     ci_readiness = map_option cf_readiness (tf_curriculum faces),
     ci_prerequisites = map_option cf_prerequisites (tf_curriculum faces), ci_learner_state = tf_learning faces,
     ci_schedule = tf_scheduler faces, ci_constraints = tr_constraint_view reads, ci_priority = priority,
     ci_observation = turn_observation faces user_text, ci_ledger = tf_ledger faces\<rparr>"

text \<open>The same assembly with no supply injected.\<close>

definition assemble_generated_turn ::
  "(string \<Rightarrow> string) \<Rightarrow> py_env \<Rightarrow> string \<Rightarrow> turn_faces \<Rightarrow> turn_reads \<Rightarrow> rollout_stage option \<Rightarrow> string option \<Rightarrow> string
   \<Rightarrow> turn_error + automatic_turn_plan" where
  "assemble_generated_turn sha256_hex env as_of faces reads stage user_text decision_cycle_id =
    bindE (priority_of_lock (tr_lock_state reads)) (\<lambda>priority.
    bindE (wrapE SupplyRaised (generate_candidates sha256_hex env (supply_inputs_of as_of faces reads priority user_text)))
      (\<lambda>supply. assemble_automatic_turn reads stage supply decision_cycle_id))"

section \<open>The moment template\<close>

fun intent_scope_word :: "user_intent_scope \<Rightarrow> string" where
  "intent_scope_word OPEN = ''OPEN''"
| "intent_scope_word LEARNING_REQUEST = ''LEARNING_REQUEST''"
| "intent_scope_word TARGETED_LEARNING_REQUEST = ''TARGETED_LEARNING_REQUEST''"
| "intent_scope_word JUST_CHAT = ''JUST_CHAT''"
| "intent_scope_word NON_LEARNING_TASK = ''NON_LEARNING_TASK''"
| "intent_scope_word ACTIVE_TEACHING_CONTINUATION = ''ACTIVE_TEACHING_CONTINUATION''"

text \<open>The columns of the moment that no operation of the store reads (the target's type among them) are
  left out, as in \<open>moment_row\<close>; an absent creation time is the empty one.\<close>

definition automatic_moment_template ::
  "string \<Rightarrow> string \<Rightarrow> string option \<Rightarrow> string \<Rightarrow> candidate_proposal \<Rightarrow> string \<times> moment_row" where
  "automatic_moment_template turn_id conversation_id persona_id decision_cycle_id candidate =
    (automatic_moment_id turn_id,
     \<lparr>mr_conversation_id = conversation_id, mr_persona_id = persona_id, mr_source = FROM_AUTOMATIC,
      mr_decision_cycle_id = decision_cycle_id, mr_candidate_id = candidate_id candidate,
      mr_focus_target_id = focus_target candidate, mr_learning_snapshot_id = None, mr_curriculum_version = None,
      mr_policy_version = None, mr_gate_decision_id = automatic_gate_decision_id turn_id,
      mr_target_mode = target_mode_word (target_mode candidate),
      mr_learning_intent = learning_intent_word (learning_intent candidate), mr_evidence_watermark = None,
      mr_lifecycle_state = MOMENT_OPENING, mr_presentation_phase = ''INITIAL_PROMPT'', mr_attempt_index = 0,
      mr_support_level = ''NONE'', mr_completion_outcome = None, mr_abort_reason = None, mr_state_version = 1,
      mr_created_at = [], mr_opened_at = None, mr_teaching_terminal_at = None, mr_closed_at = None\<rparr>)"

definition moment_template_of ::
  "automatic_turn_plan \<Rightarrow> string \<Rightarrow> string \<Rightarrow> string option \<Rightarrow> string \<Rightarrow> (string \<Rightarrow> string option)
   \<Rightarrow> turn_error + string \<times> moment_row" where
  "moment_template_of turn_plan turn_id conversation_id persona_id decision_cycle_id target_type_of =
    (case atp_selected turn_plan of
       None \<Rightarrow> Inl NothingSelected
     | Some candidate \<Rightarrow>
         (case target_type_of (focus_target candidate) of
            None \<Rightarrow> Inl (TargetRowUnread (focus_target candidate))
          | Some target_type \<Rightarrow>
              Inr (automatic_moment_template turn_id conversation_id persona_id decision_cycle_id candidate)))"

section \<open>The decision of the turn\<close>

definition template_of_plan ::
  "automatic_turn_plan \<Rightarrow> string \<Rightarrow> string \<Rightarrow> string option \<Rightarrow> string \<Rightarrow> (string \<Rightarrow> string option)
   \<Rightarrow> turn_error + (string \<times> moment_row) option" where
  "template_of_plan turn_plan turn_id conversation_id persona_id decision_cycle_id target_type_of =
    (if atp_selected turn_plan = None then Inr None
     else bindE (moment_template_of turn_plan turn_id conversation_id persona_id decision_cycle_id target_type_of)
       (\<lambda>template. Inr (Some template)))"

definition decide_automatic_turn ::
  "trace_prose \<Rightarrow> int \<Rightarrow> string \<Rightarrow> (string \<Rightarrow> string option) \<Rightarrow> (string \<times> string) list option \<Rightarrow> automatic_turn_plan
   \<Rightarrow> string \<Rightarrow> string \<Rightarrow> string option \<Rightarrow> decision_cycle_record \<Rightarrow> int
   \<Rightarrow> automatic_db \<Rightarrow> ((turn_error + automatic_error) + automatic_teaching_result) \<times> automatic_db" where
  "decide_automatic_turn prose fence now target_type_of provenance turn_plan turn_id conversation_id persona_id cycle owner_epoch db =
    (case template_of_plan turn_plan turn_id conversation_id persona_id (dc_decision_cycle_id cycle) target_type_of of
       Inl e \<Rightarrow> (Inl (Inl e), db)
     | Inr template \<Rightarrow>
         (let turn = \<lparr>tt_turn_id = turn_id, tt_conversation_id = conversation_id, tt_persona_id = persona_id,
                tt_cycle = cycle, tt_moment = template, tt_owner_epoch = owner_epoch\<rparr>;
              gated = (case atp_selected turn_plan of None \<Rightarrow> False | Some p \<Rightarrow> ''CURRENT_USER_ERROR'' \<in> set (origins p));
              decided = decide_automatic_teaching prose fence now turn (kr_outcome (atp_run turn_plan))
                (Some (kr_trace (atp_run turn_plan))) (atp_controls turn_plan) (intent_scope_word (sr_scope (atp_scope turn_plan)))
                (atp_session_budget_view turn_plan \<noteq> None) gated provenance db
          in (case fst decided of Inl e \<Rightarrow> Inl (Inr e) | Inr result \<Rightarrow> Inr result, snd decided)))"

end
