(* ===== verification/Planner_Record_Properties.thy ===== *)
theory Planner_Record_Properties
  imports Planner_Records Planner_Results Replayed_Write
begin

text \<open>
  What the durable planner rows guarantee: a cycle is recorded as one unit or not at all, the recorded
  unit replays and nothing else may take its place, and the rows of a kernel run read back as what the
  kernel returned.  \<open>records_inv\<close> is the invariant of the tables, \<open>planner_step\<close> the relation of the writes
  and of the changes other stores make to the rows referred to.
\<close>

section \<open>One write\<close>

lemma write_cycle_fields [simp]:
  fixes prose now turn out codes trace and db :: planner_db
  defines "c \<equiv> es_decision_cycle_id (po_execution_status out)" and "db' \<equiv> write_cycle prose now turn out codes trace db"
  shows "pdb_newest_epoch db' = pdb_newest_epoch db" "pdb_cycle_turn db' = pdb_cycle_turn db"
    "pdb_statuses db' = pdb_statuses db @ [(c, po_execution_status out)]"
    "pdb_evaluations db' = pdb_evaluations db @ [(pe_planner_evaluation_id (po_evaluation out),
       evaluation_row_of prose c (po_evaluation out) trace now)]"
    "pdb_decisions db' = pdb_decisions db @ (case po_decision out of None \<Rightarrow> [] | Some d \<Rightarrow> [(pd_planner_decision_id d, d)])"
    "pdb_cycle_decision db' = (case po_decision out of None \<Rightarrow> pdb_cycle_decision db
       | Some d \<Rightarrow> AList.update c (pd_planner_decision_id d) (pdb_cycle_decision db))"
    "pdb_outcomes db' = AList.update turn \<lparr>rt_decision_cycle_id = Some c,
       rt_outcome = runtime_decision_outcome_of (es_status (po_execution_status out)), rt_reason_codes = codes\<rparr> (pdb_outcomes db)"
  unfolding db'_def c_def by (simp_all add: write_cycle_def write_decision_def Let_def split: option.split)

lemma record_Inr_cases:
  assumes run: "record_planner_cycle prose fence now turn out codes trace db = Inr (recs, db')"
  obtains (replay) durable where "record_refusal out = None" "pdb_newest_epoch db = Some fence"
      "map_of (pdb_cycle_turn db) (es_decision_cycle_id (po_execution_status out)) = Some turn"
      "map_of (pdb_statuses db) (es_decision_cycle_id (po_execution_status out)) = Some durable"
      "replay_cycle prose turn out trace durable db = Inr recs" "db' = db"
    | (new) "record_refusal out = None" "pdb_newest_epoch db = Some fence"
      "map_of (pdb_cycle_turn db) (es_decision_cycle_id (po_execution_status out)) = Some turn"
      "map_of (pdb_statuses db) (es_decision_cycle_id (po_execution_status out)) = None"
      "record_integrity out db" "db' = write_cycle prose now turn out codes trace db"
      "read_cycle_records prose db' (es_decision_cycle_id (po_execution_status out)) turn = Inr (Some recs)"
proof -
  let ?c = "es_decision_cycle_id (po_execution_status out)"
  have refusal: "record_refusal out = None"
    using run by (simp add: record_planner_cycle_def split: option.splits)
  from run refusal have epoch: "pdb_newest_epoch db = Some fence"
    and turn: "map_of (pdb_cycle_turn db) ?c = Some turn"
    by (auto simp: record_planner_cycle_def Let_def require_current_planner_epoch_def result_simps
        split: option.splits if_splits)
  show thesis
  proof (cases "map_of (pdb_statuses db) ?c")
    case (Some durable)
    then have "bindE (replay_cycle prose turn out trace durable db) (\<lambda>records. Inr (records, db)) = Inr (recs, db')"
      using run refusal epoch turn
      by (simp add: record_planner_cycle_def Let_def require_current_planner_epoch_def checkE_def)
    then have "replay_cycle prose turn out trace durable db = Inr recs" "db' = db" by (auto simp: result_simps)
    with refusal epoch turn Some show thesis by (rule replay)
  next
    case None
    let ?db = "write_cycle prose now turn out codes trace db"
    have step: "record_planner_cycle prose fence now turn out codes trace db =
        (if \<not> record_integrity out db then Inl RecordIntegrityRefused
         else bindE (read_cycle_records prose ?db ?c turn)
           (\<lambda>read. case read of None \<Rightarrow> Inl EvaluationMissingRaised | Some records \<Rightarrow> Inr (records, ?db)))"
      using None refusal epoch turn
      by (simp add: record_planner_cycle_def Let_def require_current_planner_epoch_def checkE_def)
    then have integrity: "record_integrity out db" using run by (simp split: if_splits)
    with step run obtain read where read: "read_cycle_records prose ?db ?c turn = Inr read"
      by (cases "read_cycle_records prose ?db ?c turn") auto
    with step run integrity have "read = Some recs" "db' = ?db" by (auto split: option.splits)
    with integrity read have res: "record_integrity out db" "db' = ?db" "read_cycle_records prose db' ?c turn = Inr (Some recs)"
      by simp_all
    from refusal epoch turn None res show thesis by (rule new)
  qed
qed

lemma record_refusal_None:
  "record_refusal out = None \<longleftrightarrow>
    pe_decision_cycle_id (po_evaluation out) = es_decision_cycle_id (po_execution_status out)
    \<and> (\<forall>d. po_decision out = Some d \<longrightarrow> pd_decision_cycle_id d = es_decision_cycle_id (po_execution_status out)
        \<and> pd_planner_evaluation_id d = pe_planner_evaluation_id (po_evaluation out))"
  by (auto simp: record_refusal_def Let_def split: option.splits if_splits)

section \<open>The invariant\<close>

definition trace_column_ok :: "planner_evaluation_row \<Rightarrow> bool" where
  "trace_column_ok row \<longleftrightarrow> (\<exists>doc. fdoc_version doc = FACTOR_TRACE_VERSION \<and> pev_factor_trace row = document_payload doc)"

definition records_inv :: "planner_db \<Rightarrow> bool" where
  "records_inv db \<longleftrightarrow>
    distinct (map fst (pdb_statuses db)) \<and> distinct (map fst (pdb_evaluations db)) \<and> distinct (map fst (pdb_decisions db))
    \<and> distinct (map (pev_decision_cycle_id \<circ> snd) (pdb_evaluations db))
    \<and> distinct (map (pd_decision_cycle_id \<circ> snd) (pdb_decisions db))
    \<and> set (map (pev_decision_cycle_id \<circ> snd) (pdb_evaluations db)) = set (map fst (pdb_statuses db))
    \<and> (\<forall>(c, s) \<in> set (pdb_statuses db). es_decision_cycle_id s = c \<and> known (pdb_cycle_turn db) c)
    \<and> (\<forall>(k, e) \<in> set (pdb_evaluations db). trace_column_ok e)
    \<and> (\<forall>(k, d) \<in> set (pdb_decisions db). pd_planner_decision_id d = k
        \<and> pd_decision_cycle_id d \<in> set (map fst (pdb_statuses db))
        \<and> (\<exists>e. (pd_planner_evaluation_id d, e) \<in> set (pdb_evaluations db) \<and> pev_decision_cycle_id e = pd_decision_cycle_id d))
    \<and> (\<forall>c k. map_of (pdb_cycle_decision db) c = Some k \<longleftrightarrow> (\<exists>d. (k, d) \<in> set (pdb_decisions db) \<and> pd_decision_cycle_id d = c))
    \<and> (\<forall>turn row. map_of (pdb_outcomes db) turn = Some row \<longrightarrow>
        (\<exists>c s. rt_decision_cycle_id row = Some c \<and> map_of (pdb_cycle_turn db) c = Some turn
          \<and> map_of (pdb_statuses db) c = Some s \<and> rt_outcome row = runtime_decision_outcome_of (es_status s)))"

lemma unrecorded_cycle:
  assumes "records_inv db" and "map_of (pdb_statuses db) c = None"
  shows "c \<notin> set (map fst (pdb_statuses db))" "c \<notin> (pev_decision_cycle_id \<circ> snd) ` set (pdb_evaluations db)"
    "c \<notin> (pd_decision_cycle_id \<circ> snd) ` set (pdb_decisions db)" "map_of (pdb_cycle_decision db) c = None"
proof -
  show fresh: "c \<notin> set (map fst (pdb_statuses db))" using assms(2) by (simp add: map_of_eq_None_iff)
  then show "c \<notin> (pev_decision_cycle_id \<circ> snd) ` set (pdb_evaluations db)"
    using assms(1) by (simp add: records_inv_def)
  show none: "c \<notin> (pd_decision_cycle_id \<circ> snd) ` set (pdb_decisions db)"
    using fresh assms(1) by (fastforce simp: records_inv_def)
  show "map_of (pdb_cycle_decision db) c = None"
  proof (rule ccontr)
    assume "map_of (pdb_cycle_decision db) c \<noteq> None"
    then obtain k where "map_of (pdb_cycle_decision db) c = Some k" by blast
    then have "\<exists>d. (k, d) \<in> set (pdb_decisions db) \<and> pd_decision_cycle_id d = c"
      using assms(1) by (simp add: records_inv_def)
    then show False using none by force
  qed
qed

lemma evaluation_row_ok [simp]:
  "trace_column_ok (evaluation_row_of prose c ev trace now)"
  "pev_decision_cycle_id (evaluation_row_of prose c ev trace now) = c"
proof -
  have "fdoc_version (trace_document_of prose ev trace) = FACTOR_TRACE_VERSION"
    by (simp add: trace_document_of_def factor_trace_of_def)
  then show "trace_column_ok (evaluation_row_of prose c ev trace now)"
    by (auto simp: trace_column_ok_def evaluation_row_of_def)
qed (simp add: evaluation_row_of_def)


lemma find_snoc: "\<forall>x \<in> set xs. \<not> P x \<Longrightarrow> find P (xs @ ys) = find P ys"
  by (induction xs) auto

lemma first_of_cycle_snoc:
  assumes "c \<notin> (f \<circ> snd) ` set t"
  shows "first_of_cycle f c (t @ rows) = first_of_cycle f c rows"
  using assms unfolding first_of_cycle_def by (intro find_snoc) (auto simp: split_beta)

lemma first_of_cycle_None: "first_of_cycle f c t = None \<longleftrightarrow> c \<notin> (f \<circ> snd) ` set t"
  by (force simp: first_of_cycle_def find_None_iff)

lemma first_of_cycle_Some: "first_of_cycle f c t = Some (k, r) \<Longrightarrow> (k, r) \<in> set t \<and> f r = c"
  by (auto simp: first_of_cycle_def find_Some_iff) (metis nth_mem)

lemma first_of_cycle_unique:
  assumes "distinct (map (f \<circ> snd) t)" and "(k, r) \<in> set t"
  shows "first_of_cycle f (f r) t = Some (k, r)"
  using assms by (induction t) (force simp: first_of_cycle_def)+

text \<open>What the store reads after writing a fresh cycle: exactly the unit it was handed.\<close>

definition written_records ::
  "trace_prose \<Rightarrow> string \<Rightarrow> string \<Rightarrow> planning_outcome \<Rightarrow> string list \<Rightarrow> planner_trace option \<Rightarrow> planner_cycle_records" where
  "written_records prose now turn out codes trace =
    (let status = po_execution_status out; ev = po_evaluation out
     in \<lparr>pcr_execution_status = status,
         pcr_evaluation = \<lparr>per_planner_evaluation_id = pe_planner_evaluation_id ev,
           per_decision_cycle_id = es_decision_cycle_id status,
           per_frontier_candidate_ids = pe_frontier_candidate_ids ev,
           per_ranked_candidate_ids = ranked_candidate_ids ev,
           per_factor_trace = StructuredTrace (trace_document_of prose ev trace),
           per_planner_version = pe_planner_version ev, per_policy_profile_version = pe_policy_version ev,
           per_created_at = now\<rparr>,
         pcr_decision = po_decision out,
         pcr_runtime_decision_outcome = Some \<lparr>rdo_turn_id = turn, rdo_decision_cycle_id = Some (es_decision_cycle_id status),
           rdo_outcome = runtime_decision_outcome_of (es_status status), rdo_reason_codes = codes\<rparr>\<rparr>)"

lemma map_of_append_fresh: "map_of t k = None \<Longrightarrow> map_of (t @ [(k, v)]) k = Some v"
  by (simp add: map_add_def)

lemma read_written:
  assumes inv: "records_inv db" and fresh: "map_of (pdb_statuses db) (es_decision_cycle_id (po_execution_status out)) = None"
    and refusal: "record_refusal out = None"
  shows "read_cycle_records prose (write_cycle prose now turn out codes trace db)
      (es_decision_cycle_id (po_execution_status out)) turn
    = Inr (Some (written_records prose now turn out codes trace))"
proof -
  let ?c = "es_decision_cycle_id (po_execution_status out)"
  note un = unrecorded_cycle [OF inv fresh]
  let ?row = "evaluation_row_of prose ?c (po_evaluation out) trace now"
  have status: "map_of (pdb_statuses db @ [(?c, po_execution_status out)]) ?c = Some (po_execution_status out)"
    by (rule map_of_append_fresh [OF fresh])
  have evaluation: "first_of_cycle pev_decision_cycle_id ?c
      (pdb_evaluations db @ [(pe_planner_evaluation_id (po_evaluation out), ?row)])
      = Some (pe_planner_evaluation_id (po_evaluation out), ?row)"
    unfolding first_of_cycle_snoc [OF un(2)] by (simp add: first_of_cycle_def)
  have decision: "map_option snd (first_of_cycle pd_decision_cycle_id ?c
      (pdb_decisions db @ (case po_decision out of None \<Rightarrow> [] | Some d \<Rightarrow> [(pd_planner_decision_id d, d)]))) = po_decision out"
    unfolding first_of_cycle_snoc [OF un(3)] using refusal
    by (auto simp: first_of_cycle_def record_refusal_None split: option.split)
  have row: "evaluation_from_row prose (pe_planner_evaluation_id (po_evaluation out), ?row)
      = Inr (pcr_evaluation (written_records prose now turn out codes trace))"
    by (simp add: evaluation_from_row_def evaluation_row_of_def written_records_def Let_def trace_document_of_def)
  show ?thesis
    unfolding read_cycle_records_def write_cycle_fields status evaluation option.case row decision
    by (simp add: written_records_def Let_def outcome_record_def update_conv)
qed


section \<open>The invariant is kept\<close>

lemma records_invE:
  assumes "records_inv db"
  obtains "distinct (map fst (pdb_statuses db))" "distinct (map fst (pdb_evaluations db))"
    "distinct (map fst (pdb_decisions db))" "distinct (map (pev_decision_cycle_id \<circ> snd) (pdb_evaluations db))"
    "distinct (map (pd_decision_cycle_id \<circ> snd) (pdb_decisions db))"
    "set (map (pev_decision_cycle_id \<circ> snd) (pdb_evaluations db)) = set (map fst (pdb_statuses db))"
    "\<And>c s. (c, s) \<in> set (pdb_statuses db) \<Longrightarrow> es_decision_cycle_id s = c \<and> known (pdb_cycle_turn db) c"
    "\<And>k e. (k, e) \<in> set (pdb_evaluations db) \<Longrightarrow> trace_column_ok e"
    "\<And>k d. (k, d) \<in> set (pdb_decisions db) \<Longrightarrow> pd_planner_decision_id d = k
        \<and> pd_decision_cycle_id d \<in> set (map fst (pdb_statuses db))
        \<and> (\<exists>e. (pd_planner_evaluation_id d, e) \<in> set (pdb_evaluations db) \<and> pev_decision_cycle_id e = pd_decision_cycle_id d)"
    "\<And>c k. map_of (pdb_cycle_decision db) c = Some k \<longleftrightarrow> (\<exists>d. (k, d) \<in> set (pdb_decisions db) \<and> pd_decision_cycle_id d = c)"
    "\<And>turn row. map_of (pdb_outcomes db) turn = Some row \<Longrightarrow>
        \<exists>c s. rt_decision_cycle_id row = Some c \<and> map_of (pdb_cycle_turn db) c = Some turn
          \<and> map_of (pdb_statuses db) c = Some s \<and> rt_outcome row = runtime_decision_outcome_of (es_status s)"
  using assms unfolding records_inv_def split_beta by (elim conjE) (rule that; fastforce)

lemma inv_write:
  assumes inv: "records_inv db" and refusal: "record_refusal out = None" and keys: "record_integrity out db"
    and turn: "map_of (pdb_cycle_turn db) (es_decision_cycle_id (po_execution_status out)) = Some turn"
    and fresh: "map_of (pdb_statuses db) (es_decision_cycle_id (po_execution_status out)) = None"
  shows "records_inv (write_cycle prose now turn out codes trace db)"
proof -
  let ?c = "es_decision_cycle_id (po_execution_status out)" and ?db = "write_cycle prose now turn out codes trace db"
  note un = unrecorded_cycle [OF inv fresh]
  from inv show ?thesis
  proof (rule records_invE)
    assume 1: "distinct (map fst (pdb_statuses db))" and 2: "distinct (map fst (pdb_evaluations db))"
      and 3: "distinct (map fst (pdb_decisions db))" and 4: "distinct (map (pev_decision_cycle_id \<circ> snd) (pdb_evaluations db))"
      and 5: "distinct (map (pd_decision_cycle_id \<circ> snd) (pdb_decisions db))"
      and 6: "set (map (pev_decision_cycle_id \<circ> snd) (pdb_evaluations db)) = set (map fst (pdb_statuses db))"
      and 7: "\<And>c s. (c, s) \<in> set (pdb_statuses db) \<Longrightarrow> es_decision_cycle_id s = c \<and> known (pdb_cycle_turn db) c"
      and 8: "\<And>k e. (k, e) \<in> set (pdb_evaluations db) \<Longrightarrow> trace_column_ok e"
      and 9: "\<And>k d. (k, d) \<in> set (pdb_decisions db) \<Longrightarrow> pd_planner_decision_id d = k
        \<and> pd_decision_cycle_id d \<in> set (map fst (pdb_statuses db))
        \<and> (\<exists>e. (pd_planner_evaluation_id d, e) \<in> set (pdb_evaluations db) \<and> pev_decision_cycle_id e = pd_decision_cycle_id d)"
      and 10: "\<And>c k. map_of (pdb_cycle_decision db) c = Some k \<longleftrightarrow> (\<exists>d. (k, d) \<in> set (pdb_decisions db) \<and> pd_decision_cycle_id d = c)"
      and 11: "\<And>turn row. map_of (pdb_outcomes db) turn = Some row \<Longrightarrow>
        \<exists>c s. rt_decision_cycle_id row = Some c \<and> map_of (pdb_cycle_turn db) c = Some turn
          \<and> map_of (pdb_statuses db) c = Some s \<and> rt_outcome row = runtime_decision_outcome_of (es_status s)"
    have new_evaluation: "pe_planner_evaluation_id (po_evaluation out) \<notin> fst ` set (pdb_evaluations db)"
      and new_decision: "\<And>d. po_decision out = Some d \<Longrightarrow> pd_planner_decision_id d \<notin> fst ` set (pdb_decisions db)"
      using keys by (auto simp: record_integrity_def known_def map_of_eq_None_iff)
    have d1: "distinct (map fst (pdb_statuses ?db))" using 1 un(1) by simp
    have d2: "distinct (map fst (pdb_evaluations ?db))" using 2 new_evaluation by simp
    have d3: "distinct (map fst (pdb_decisions ?db))" using 3 new_decision by (auto split: option.split)
    have d4: "distinct (map (pev_decision_cycle_id \<circ> snd) (pdb_evaluations ?db))" using 4 un(2) by simp
    have cycle_of: "\<And>d. po_decision out = Some d \<Longrightarrow> pd_decision_cycle_id d = ?c"
      using refusal by (simp add: record_refusal_None)
    have d5: "distinct (map (pd_decision_cycle_id \<circ> snd) (pdb_decisions ?db))"
      using 5 un(3) cycle_of by (auto split: option.split)
    have d6: "set (map (pev_decision_cycle_id \<circ> snd) (pdb_evaluations ?db)) = set (map fst (pdb_statuses ?db))"
      using 6 by simp
    have d7: "\<forall>(c, s) \<in> set (pdb_statuses ?db). es_decision_cycle_id s = c \<and> known (pdb_cycle_turn ?db) c"
      using 7 turn by (auto simp: known_def)
    have d8: "\<forall>(k, e) \<in> set (pdb_evaluations ?db). trace_column_ok e" using 8 by auto
    have d9: "\<forall>(k, d) \<in> set (pdb_decisions ?db). pd_planner_decision_id d = k
        \<and> pd_decision_cycle_id d \<in> set (map fst (pdb_statuses ?db))
        \<and> (\<exists>e. (pd_planner_evaluation_id d, e) \<in> set (pdb_evaluations ?db) \<and> pev_decision_cycle_id e = pd_decision_cycle_id d)"
    proof -
      have "pd_planner_decision_id d = k \<and> pd_decision_cycle_id d \<in> set (map fst (pdb_statuses ?db))
        \<and> (\<exists>e. (pd_planner_evaluation_id d, e) \<in> set (pdb_evaluations ?db) \<and> pev_decision_cycle_id e = pd_decision_cycle_id d)"
        if "(k, d) \<in> set (pdb_decisions ?db)" for k d
      proof (cases "(k, d) \<in> set (pdb_decisions db)")
        case True
        with 9 [OF this] show ?thesis by auto
      next
        case False
        with that have "po_decision out = Some d" "k = pd_planner_decision_id d" by (auto split: option.splits)
        with refusal show ?thesis by (force simp: record_refusal_None)
      qed
      then show ?thesis by blast
    qed
    have d10: "map_of (pdb_cycle_decision ?db) c = Some k \<longleftrightarrow> (\<exists>d. (k, d) \<in> set (pdb_decisions ?db) \<and> pd_decision_cycle_id d = c)" for c k
    proof (cases "po_decision out")
      case None
      then show ?thesis using 10 by simp
    next
      case (Some d)
      show ?thesis
      proof (cases "c = ?c")
        case True
        then have "\<not> (\<exists>d. (k, d) \<in> set (pdb_decisions db) \<and> pd_decision_cycle_id d = c)" using un(3) by force
        then show ?thesis using Some True cycle_of by (auto simp: update_conv)
      next
        case False
        then show ?thesis using Some 10 cycle_of by (auto simp: update_conv)
      qed
    qed
    have d11: "\<exists>c s. rt_decision_cycle_id row = Some c \<and> map_of (pdb_cycle_turn ?db) c = Some turn'
          \<and> map_of (pdb_statuses ?db) c = Some s \<and> rt_outcome row = runtime_decision_outcome_of (es_status s)"
      if row: "map_of (pdb_outcomes ?db) turn' = Some row" for turn' row
    proof (cases "turn' = turn")
      case True
      with row turn fresh show ?thesis by (auto simp: update_conv map_add_def)
    next
      case False
      with row have "map_of (pdb_outcomes db) turn' = Some row" by (simp add: update_conv)
      from 11 [OF this] obtain c s where cs: "rt_decision_cycle_id row = Some c"
        "map_of (pdb_cycle_turn db) c = Some turn'" "map_of (pdb_statuses db) c = Some s"
        "rt_outcome row = runtime_decision_outcome_of (es_status s)" by blast
      moreover have "map_of (pdb_statuses ?db) c = Some s" using cs(3) fresh by (auto simp: map_add_def)
      ultimately show ?thesis by auto
    qed
    show ?thesis unfolding records_inv_def using d1 d2 d3 d4 d5 d6 d7 d8 d9 d10 d11 by blast
  qed
qed

lemma cycle_inv_record:
  assumes "records_inv db" and "record_planner_cycle prose fence now turn out codes trace db = Inr (recs, db')"
  shows "records_inv db'"
  using assms(2) by (cases rule: record_Inr_cases) (use assms(1) inv_write in auto)


section \<open>Recording replays\<close>

definition recorded_unit :: "trace_prose \<Rightarrow> planner_cycle_records \<Rightarrow> planning_outcome \<Rightarrow> planner_trace option \<Rightarrow> bool" where
  "recorded_unit prose recs out trace \<longleftrightarrow>
    es_status (pcr_execution_status recs) = es_status (po_execution_status out)
    \<and> es_error_code (pcr_execution_status recs) = es_error_code (po_execution_status out)
    \<and> same_evaluation prose (po_evaluation out) trace (pcr_evaluation recs)
    \<and> pcr_decision recs = po_decision out"

definition writable_records :: "int \<Rightarrow> planner_db \<Rightarrow> bool" where
  "writable_records fence db \<longleftrightarrow> records_inv db \<and> pdb_newest_epoch db = Some fence"

fun cycle_row :: "trace_prose \<Rightarrow> string \<times> string \<Rightarrow> planner_db \<Rightarrow> record_error + planner_cycle_records option" where
  "cycle_row prose (cycle, turn) db =
    (if map_of (pdb_cycle_turn db) cycle = Some turn then read_cycle_records prose db cycle turn else Inr None)"

type_synonym cycle_content = "string \<times> planning_outcome \<times> string list \<times> planner_trace option"

fun record_content ::
  "trace_prose \<Rightarrow> int \<Rightarrow> string \<Rightarrow> cycle_content \<Rightarrow> planner_db \<Rightarrow> record_error + planner_cycle_records \<times> planner_db" where
  "record_content prose fence now (turn, out, codes, trace) db = record_planner_cycle prose fence now turn out codes trace db"

fun content_key :: "cycle_content \<Rightarrow> string \<times> string" where
  "content_key (turn, out, codes, trace) = (es_decision_cycle_id (po_execution_status out), turn)"

fun content_stored :: "trace_prose \<Rightarrow> planner_cycle_records \<Rightarrow> cycle_content \<Rightarrow> bool" where
  "content_stored prose recs (turn, out, codes, trace) \<longleftrightarrow> record_refusal out = None \<and> recorded_unit prose recs out trace"

lemma read_status:
  assumes "read_cycle_records prose db c turn = Inr (Some recs)"
  shows "map_of (pdb_statuses db) c = Some (pcr_execution_status recs)"
  using assms by (auto simp: read_cycle_records_def result_simps split: option.splits)

lemma replay_cycle_of_read:
  assumes "read_cycle_records prose db (es_decision_cycle_id (po_execution_status out)) turn = Inr (Some recs)"
  shows "replay_cycle prose turn out trace (pcr_execution_status recs) db =
    (if es_status (pcr_execution_status recs) \<noteq> es_status (po_execution_status out)
       \<or> es_error_code (pcr_execution_status recs) \<noteq> es_error_code (po_execution_status out) then Inl StatusContradicted
     else if \<not> same_evaluation prose (po_evaluation out) trace (pcr_evaluation recs) then Inl EvaluationContradicted
     else if pcr_decision recs \<noteq> po_decision out then Inl DecisionContradicted else Inr recs)"
  using assms by (simp add: replay_cycle_def Let_def)

lemma record_of_recorded:
  assumes "pdb_newest_epoch db = Some fence" and "record_refusal out = None"
    and "map_of (pdb_cycle_turn db) (es_decision_cycle_id (po_execution_status out)) = Some turn"
    and "read_cycle_records prose db (es_decision_cycle_id (po_execution_status out)) turn = Inr (Some recs)"
  shows "record_planner_cycle prose fence now turn out codes trace db =
    bindE (replay_cycle prose turn out trace (pcr_execution_status recs) db) (\<lambda>records. Inr (records, db))"
  using assms read_status [OF assms(4)]
  by (simp add: record_planner_cycle_def Let_def require_current_planner_epoch_def checkE_def)

lemma read_found:
  assumes "map_of (pdb_statuses db) c = Some durable" and "replay_cycle prose turn out trace durable db = Inr recs"
    and "c = es_decision_cycle_id (po_execution_status out)"
  shows "read_cycle_records prose db c turn = Inr (Some recs) \<and> recorded_unit prose recs out trace"
proof -
  from assms(2,3) have "read_cycle_records prose db c turn = Inr (Some recs)"
    by (auto simp: replay_cycle_def Let_def result_simps split: if_splits option.splits)
  moreover from read_status [OF this] assms(1) have "durable = pcr_execution_status recs" by simp
  ultimately show ?thesis
    using assms(2,3) replay_cycle_of_read [of prose db out turn recs trace]
    by (auto simp: recorded_unit_def split: if_splits)
qed

lemma written_unit: "recorded_unit prose (written_records prose now turn out codes trace) out trace"
  by (simp add: recorded_unit_def written_records_def Let_def same_evaluation_def)

lemma record_stores:
  assumes "writable_records fence db" and run: "record_planner_cycle prose fence now turn out codes trace db = Inr (recs, db')"
  shows "writable_records fence db' \<and> record_refusal out = None
    \<and> map_of (pdb_cycle_turn db') (es_decision_cycle_id (po_execution_status out)) = Some turn
    \<and> read_cycle_records prose db' (es_decision_cycle_id (po_execution_status out)) turn = Inr (Some recs)
    \<and> recorded_unit prose recs out trace"
proof -
  have inv: "records_inv db" "records_inv db'" using assms cycle_inv_record by (auto simp: writable_records_def)
  from run show ?thesis
  proof (cases rule: record_Inr_cases)
    case (replay durable)
    then show ?thesis using assms(1) read_found [OF replay(4,5) refl] by simp
  next
    case new
    have "recs = written_records prose now turn out codes trace"
      using read_written [OF inv(1) new(4,1)] new(6,7) by simp
    then show ?thesis using inv(2) new written_unit by (simp add: writable_records_def)
  qed
qed

interpretation cycles: replayed_write "cycle_row prose" "record_content prose fence" content_key "content_stored prose"
    "writable_records fence" for prose fence
proof unfold_locales
  fix db now r s db'
  assume "writable_records fence db" and run: "record_content prose fence now r db = Inr (s, db')"
  then show "writable_records fence db' \<and> cycle_row prose (content_key r) db' = Inr (Some s) \<and> content_stored prose s r"
    using record_stores by (cases r) force
next
  fix db r s now
  assume "writable_records fence db" and "cycle_row prose (content_key r) db = Inr (Some s)" and "content_stored prose s r"
  then show "record_content prose fence now r db = Inr (s, db)"
    by (cases r) (auto simp: writable_records_def record_of_recorded replay_cycle_of_read recorded_unit_def split: if_splits)
qed


section \<open>Reachable tables\<close>

text \<open>\<^verbatim>\<open>PlanningOutcome.__post_init__\<close> lets no other outcome exist.\<close>

definition outcome_ok :: "planning_outcome \<Rightarrow> bool" where
  "outcome_ok out \<longleftrightarrow> (po_decision out \<noteq> None \<longleftrightarrow> es_status (po_execution_status out) = SUCCEEDED)"

inductive planner_step :: "planner_db \<Rightarrow> planner_db \<Rightarrow> bool" where
  step_record: "record_planner_cycle prose fence now turn out codes trace db = Inr (recs, db') \<Longrightarrow> outcome_ok out \<Longrightarrow> planner_step db db'"
| step_cycle: "\<not> known (pdb_cycle_turn db) c \<Longrightarrow> planner_step db (db\<lparr>pdb_cycle_turn := pdb_cycle_turn db @ [(c, turn)]\<rparr>)"
| step_epoch: "planner_step db (db\<lparr>pdb_newest_epoch := epoch\<rparr>)"

inductive planner_reachable :: "planner_db \<Rightarrow> bool" where
  reach_empty: "pdb_cycle_decision db = [] \<Longrightarrow> pdb_statuses db = [] \<Longrightarrow> pdb_evaluations db = [] \<Longrightarrow> pdb_decisions db = []
    \<Longrightarrow> pdb_outcomes db = [] \<Longrightarrow> planner_reachable db"
| reach_step: "planner_reachable db \<Longrightarrow> planner_step db db' \<Longrightarrow> planner_reachable db'"

definition decided_iff_succeeded :: "planner_db \<Rightarrow> bool" where
  "decided_iff_succeeded db \<longleftrightarrow> (\<forall>(c, s) \<in> set (pdb_statuses db).
    es_status s = SUCCEEDED \<longleftrightarrow> c \<in> (pd_decision_cycle_id \<circ> snd) ` set (pdb_decisions db))"

lemma other_fields:
  shows "pdb_newest_epoch (db\<lparr>pdb_cycle_turn := x\<rparr>) = pdb_newest_epoch db"
    "pdb_cycle_turn (db\<lparr>pdb_cycle_turn := x\<rparr>) = x"
    "pdb_cycle_decision (db\<lparr>pdb_cycle_turn := x\<rparr>) = pdb_cycle_decision db"
    "pdb_statuses (db\<lparr>pdb_cycle_turn := x\<rparr>) = pdb_statuses db"
    "pdb_evaluations (db\<lparr>pdb_cycle_turn := x\<rparr>) = pdb_evaluations db"
    "pdb_decisions (db\<lparr>pdb_cycle_turn := x\<rparr>) = pdb_decisions db"
    "pdb_outcomes (db\<lparr>pdb_cycle_turn := x\<rparr>) = pdb_outcomes db"
    "pdb_newest_epoch (db\<lparr>pdb_newest_epoch := e\<rparr>) = e"
    "pdb_cycle_turn (db\<lparr>pdb_newest_epoch := e\<rparr>) = pdb_cycle_turn db"
    "pdb_cycle_decision (db\<lparr>pdb_newest_epoch := e\<rparr>) = pdb_cycle_decision db"
    "pdb_statuses (db\<lparr>pdb_newest_epoch := e\<rparr>) = pdb_statuses db"
    "pdb_evaluations (db\<lparr>pdb_newest_epoch := e\<rparr>) = pdb_evaluations db"
    "pdb_decisions (db\<lparr>pdb_newest_epoch := e\<rparr>) = pdb_decisions db"
    "pdb_outcomes (db\<lparr>pdb_newest_epoch := e\<rparr>) = pdb_outcomes db"
  by simp_all

lemma inv_cycle:
  assumes inv: "records_inv db" and new: "\<not> known (pdb_cycle_turn db) c"
  shows "records_inv (db\<lparr>pdb_cycle_turn := pdb_cycle_turn db @ [(c, turn)]\<rparr>)"
proof -
  have keep: "map_of (pdb_cycle_turn db @ [(c, turn)]) c' = Some t" if "map_of (pdb_cycle_turn db) c' = Some t" for c' t
    using that new by (auto simp: known_def map_add_def)
  have known: "known (pdb_cycle_turn db @ [(c, turn)]) c'" if "known (pdb_cycle_turn db) c'" for c'
    using that keep by (auto simp: known_def)
  show ?thesis
    using inv unfolding records_inv_def other_fields
  proof (elim conjE, intro conjI, goal_cases)
    case 7
    then show ?case using known by auto
  next
    case 11
    then show ?case by (meson keep)
  qed assumption+
qed

lemma cycle_inv_step: "planner_step db db' \<Longrightarrow> records_inv db \<Longrightarrow> records_inv db'"
proof (induction rule: planner_step.induct)
  case (step_epoch db epoch)
  then show ?case unfolding records_inv_def other_fields by assumption
qed (use cycle_inv_record inv_cycle in blast)+

lemma decided_step: "planner_step db db' \<Longrightarrow> records_inv db \<Longrightarrow> decided_iff_succeeded db \<Longrightarrow> decided_iff_succeeded db'"
proof (induction rule: planner_step.induct)
  case (step_record prose fence now turn out codes trace db recs db')
  from step_record(1) show ?case
  proof (cases rule: record_Inr_cases)
    case replay
    then show ?thesis using step_record by simp
  next
    case new
    note un = unrecorded_cycle [OF step_record(3) new(4)]
    let ?c = "es_decision_cycle_id (po_execution_status out)"
    have decides: "po_decision out \<noteq> None \<longleftrightarrow> es_status (po_execution_status out) = SUCCEEDED"
      using step_record(2) by (simp add: outcome_ok_def)
    have cycles: "(pd_decision_cycle_id \<circ> snd) ` set (pdb_decisions db') =
        (pd_decision_cycle_id \<circ> snd) ` set (pdb_decisions db) \<union> (if po_decision out = None then {} else {?c})"
      using new(1) by (auto simp: new(6) record_refusal_None split: option.split)
    have "es_status s = SUCCEEDED \<longleftrightarrow> c \<in> (pd_decision_cycle_id \<circ> snd) ` set (pdb_decisions db')"
      if "(c, s) \<in> set (pdb_statuses db')" for c s
    proof (cases "(c, s) \<in> set (pdb_statuses db)")
      case True
      then have "c \<noteq> ?c" using un(1) by force
      then show ?thesis using True step_record(4) unfolding cycles by (auto simp: decided_iff_succeeded_def)
    next
      case False
      then have "c = ?c" "s = po_execution_status out" using that by (auto simp: new(6))
      then show ?thesis using un(3) decides unfolding cycles by auto
    qed
    then show ?thesis by (auto simp: decided_iff_succeeded_def)
  qed
qed (simp_all add: decided_iff_succeeded_def)

lemma planner_reachable_inv: "planner_reachable db \<Longrightarrow> records_inv db \<and> decided_iff_succeeded db"
proof (induction rule: planner_reachable.induct)
  case (reach_empty db)
  then show ?case by (simp add: records_inv_def decided_iff_succeeded_def)
qed (use cycle_inv_step decided_step in blast)


section \<open>Properties\<close>

lemma first_of_recorded:
  assumes "c \<in> set (map (f \<circ> snd) t)"
  obtains k r where "first_of_cycle f c t = Some (k, r)" "(k, r) \<in> set t" "f r = c"
proof -
  from assms have "first_of_cycle f c t \<noteq> None" by (auto simp: first_of_cycle_None)
  then obtain k r where "first_of_cycle f c t = Some (k, r)" by auto
  with first_of_cycle_Some [OF this] that show thesis by blast
qed

lemma trace_column_decodes: "trace_column_ok row \<Longrightarrow> \<exists>doc. decode_factor_trace prose (pev_factor_trace row) = Inr (StructuredTrace doc)"
  by (auto simp: trace_column_ok_def decode_document_payload)

lemma outcome_names_cycle:
  assumes "records_inv db" and "get_runtime_decision_outcome db turn = Some outcome"
  shows "\<exists>c s. rdo_decision_cycle_id outcome = Some c \<and> map_of (pdb_cycle_turn db) c = Some turn
    \<and> get_planner_execution_status db c = Some s \<and> (rdo_outcome outcome = NORMAL \<longleftrightarrow> es_status s = SUCCEEDED)"
proof -
  have normal: "runtime_decision_outcome_of s = NORMAL \<longleftrightarrow> s = SUCCEEDED" for s by (cases s) auto
  from assms(2) obtain row where row: "map_of (pdb_outcomes db) turn = Some row" "outcome = outcome_record turn row"
    by (auto simp: get_runtime_decision_outcome_def)
  from assms(1) obtain c s where "rt_decision_cycle_id row = Some c" "map_of (pdb_cycle_turn db) c = Some turn"
    "map_of (pdb_statuses db) c = Some s" "rt_outcome row = runtime_decision_outcome_of (es_status s)"
    by (rule records_invE) (metis row(1))
  then show ?thesis using row(2) normal by (simp add: outcome_record_def get_planner_execution_status_def)
qed

lemma unit_of_cycle:
  assumes "records_inv db" and decided: "decided_iff_succeeded db"
  shows "case get_planner_execution_status db c of
      None \<Rightarrow> first_of_cycle pev_decision_cycle_id c (pdb_evaluations db) = None
        \<and> get_planner_decision_for_cycle db c = None \<and> get_planner_decision_id db c = None
    | Some s \<Rightarrow> (\<exists>!k. \<exists>e. (k, e) \<in> set (pdb_evaluations db) \<and> pev_decision_cycle_id e = c)
        \<and> (es_status s = SUCCEEDED \<longleftrightarrow> get_planner_decision_for_cycle db c \<noteq> None)
        \<and> get_planner_decision_id db c = map_option pd_planner_decision_id (get_planner_decision_for_cycle db c)
        \<and> (\<forall>turn. \<exists>recs. read_cycle_records prose db c turn = Inr (Some recs) \<and> pcr_execution_status recs = s
            \<and> pcr_decision recs = get_planner_decision_for_cycle db c)"
  using assms(1)
proof (cases rule: records_invE)
  case inv: 1
  show ?thesis
  proof (cases "map_of (pdb_statuses db) c")
    case None
    then show ?thesis
      using unrecorded_cycle [OF assms(1) None]
      by (simp add: get_planner_execution_status_def get_planner_decision_for_cycle_def get_planner_decision_id_def
          first_of_cycle_None)
  next
    case (Some s)
    then have c: "(c, s) \<in> set (pdb_statuses db)" by (rule map_of_SomeD)
    then have "c \<in> set (map (pev_decision_cycle_id \<circ> snd) (pdb_evaluations db))" using inv(6) by force
    then obtain k e where e: "first_of_cycle pev_decision_cycle_id c (pdb_evaluations db) = Some (k, e)"
      "(k, e) \<in> set (pdb_evaluations db)" "pev_decision_cycle_id e = c" by (rule first_of_recorded)
    have unique: "\<exists>!k. \<exists>e. (k, e) \<in> set (pdb_evaluations db) \<and> pev_decision_cycle_id e = c"
    proof (rule ex1I [of _ k])
      fix k' assume "\<exists>e. (k', e) \<in> set (pdb_evaluations db) \<and> pev_decision_cycle_id e = c"
      then obtain e' where "(k', e') \<in> set (pdb_evaluations db)" "pev_decision_cycle_id e' = c" by blast
      with first_of_cycle_unique [OF inv(4) this(1)] e(1) show "k' = k" by simp
    qed (use e in blast)
    have success: "es_status s = SUCCEEDED \<longleftrightarrow> get_planner_decision_for_cycle db c \<noteq> None"
      using decided c by (auto simp: decided_iff_succeeded_def get_planner_decision_for_cycle_def first_of_cycle_None)
    have pointer: "get_planner_decision_id db c = map_option pd_planner_decision_id (get_planner_decision_for_cycle db c)"
    proof (cases "first_of_cycle pd_decision_cycle_id c (pdb_decisions db)")
      case None
      then have no: "pd_decision_cycle_id d \<noteq> c" if "(k, d) \<in> set (pdb_decisions db)" for k d
        using that unfolding first_of_cycle_None by force
      have "map_of (pdb_cycle_decision db) c \<noteq> Some k" for k
        unfolding inv(10) using no by blast
      then have "map_of (pdb_cycle_decision db) c = None" by (cases "map_of (pdb_cycle_decision db) c") auto
      with None show ?thesis by (simp add: get_planner_decision_id_def get_planner_decision_for_cycle_def)
    next
      case (Some kd)
      then obtain kd1 d where kd: "first_of_cycle pd_decision_cycle_id c (pdb_decisions db) = Some (kd1, d)"
        by (cases kd) auto
      with first_of_cycle_Some [OF this] have "map_of (pdb_cycle_decision db) c = Some kd1" "pd_planner_decision_id d = kd1"
        using inv(9) inv(10) [of c kd1] by auto
      with kd show ?thesis by (simp add: get_planner_decision_id_def get_planner_decision_for_cycle_def)
    qed
    obtain doc where "decode_factor_trace prose (pev_factor_trace e) = Inr (StructuredTrace doc)"
      using trace_column_decodes [OF inv(8) [OF e(2)]] by blast
    then have "\<exists>recs. read_cycle_records prose db c turn = Inr (Some recs) \<and> pcr_execution_status recs = s
          \<and> pcr_decision recs = get_planner_decision_for_cycle db c" for turn
      using Some e(1) by (simp add: read_cycle_records_def evaluation_from_row_def get_planner_decision_for_cycle_def)
    with unique success pointer Some show ?thesis by (simp add: get_planner_execution_status_def)
  qed
qed

text \<open>
  C31: A planner cycle is durable as one unit or not at all.  In every reachable database a cycle without a
  status row has no evaluation, no decision and no back-reference; a cycle with one has exactly one
  evaluation whose trace decodes, has a decision exactly when its status is \<^verbatim>\<open>SUCCEEDED\<close>, its
  \<^verbatim>\<open>planner_decision_id\<close> names that decision, and the whole unit reads back.  The runtime outcome of a turn
  names a recorded cycle of that turn and is \<^verbatim>\<open>NORMAL\<close> exactly when that cycle succeeded.
\<close>

theorem planner_cycle_is_one_unit:
  assumes "planner_reachable db"
  shows "(\<forall>c. case get_planner_execution_status db c of
          None \<Rightarrow> first_of_cycle pev_decision_cycle_id c (pdb_evaluations db) = None
            \<and> get_planner_decision_for_cycle db c = None \<and> get_planner_decision_id db c = None
        | Some s \<Rightarrow> (\<exists>!k. \<exists>e. (k, e) \<in> set (pdb_evaluations db) \<and> pev_decision_cycle_id e = c)
            \<and> (es_status s = SUCCEEDED \<longleftrightarrow> get_planner_decision_for_cycle db c \<noteq> None)
            \<and> get_planner_decision_id db c = map_option pd_planner_decision_id (get_planner_decision_for_cycle db c)
            \<and> (\<forall>turn. \<exists>recs. read_cycle_records prose db c turn = Inr (Some recs) \<and> pcr_execution_status recs = s
                \<and> pcr_decision recs = get_planner_decision_for_cycle db c))
    \<and> (\<forall>turn outcome. get_runtime_decision_outcome db turn = Some outcome \<longrightarrow>
        (\<exists>c s. rdo_decision_cycle_id outcome = Some c \<and> map_of (pdb_cycle_turn db) c = Some turn
          \<and> get_planner_execution_status db c = Some s \<and> (rdo_outcome outcome = NORMAL \<longleftrightarrow> es_status s = SUCCEEDED)))"
proof (intro conjI allI impI)
  fix c
  show "case get_planner_execution_status db c of
      None \<Rightarrow> first_of_cycle pev_decision_cycle_id c (pdb_evaluations db) = None
        \<and> get_planner_decision_for_cycle db c = None \<and> get_planner_decision_id db c = None
    | Some s \<Rightarrow> (\<exists>!k. \<exists>e. (k, e) \<in> set (pdb_evaluations db) \<and> pev_decision_cycle_id e = c)
        \<and> (es_status s = SUCCEEDED \<longleftrightarrow> get_planner_decision_for_cycle db c \<noteq> None)
        \<and> get_planner_decision_id db c = map_option pd_planner_decision_id (get_planner_decision_for_cycle db c)
        \<and> (\<forall>turn. \<exists>recs. read_cycle_records prose db c turn = Inr (Some recs) \<and> pcr_execution_status recs = s
            \<and> pcr_decision recs = get_planner_decision_for_cycle db c)"
    using planner_reachable_inv [OF assms] by (intro unit_of_cycle) auto
next
  fix turn outcome
  assume "get_runtime_decision_outcome db turn = Some outcome"
  then show "\<exists>c s. rdo_decision_cycle_id outcome = Some c \<and> map_of (pdb_cycle_turn db) c = Some turn
      \<and> get_planner_execution_status db c = Some s \<and> (rdo_outcome outcome = NORMAL \<longleftrightarrow> es_status s = SUCCEEDED)"
    using planner_reachable_inv [OF assms] by (intro outcome_names_cycle) auto
qed

definition same_unit ::
  "trace_prose \<Rightarrow> planning_outcome \<Rightarrow> planner_trace option \<Rightarrow> planning_outcome \<Rightarrow> planner_trace option \<Rightarrow> bool" where
  "same_unit prose out trace out' trace' \<longleftrightarrow>
    es_status (po_execution_status out') = es_status (po_execution_status out)
    \<and> es_error_code (po_execution_status out') = es_error_code (po_execution_status out)
    \<and> pe_frontier_candidate_ids (po_evaluation out') = pe_frontier_candidate_ids (po_evaluation out)
    \<and> ranked_candidate_ids (po_evaluation out') = ranked_candidate_ids (po_evaluation out)
    \<and> trace_document_of prose (po_evaluation out') trace' = trace_document_of prose (po_evaluation out) trace
    \<and> pe_planner_version (po_evaluation out') = pe_planner_version (po_evaluation out)
    \<and> pe_policy_version (po_evaluation out') = pe_policy_version (po_evaluation out)
    \<and> po_decision out' = po_decision out"

lemma same_unit_recorded:
  assumes "recorded_unit prose recs out trace"
  shows "recorded_unit prose recs out' trace' \<longleftrightarrow> same_unit prose out trace out' trace'"
proof -
  have "per_factor_trace (pcr_evaluation recs) = StructuredTrace (trace_document_of prose (po_evaluation out) trace)"
    using assms by (simp add: recorded_unit_def same_evaluation_def)
  then show ?thesis using assms unfolding recorded_unit_def same_unit_def same_evaluation_def by auto
qed

text \<open>
  A recorded cycle is recorded once.  After a successful recording, submitting the same unit again, at
  any later time and with any reason codes, answers with the same durable records and changes nothing; any
  other well-formed submission for that cycle and turn is answered the same way if it agrees on status,
  error code, frontier, ranking, factor trace, versions and decision, and otherwise refused as a
  contradiction of the status, the evaluation or the decision.
\<close>

theorem planner_cycle_recorded_once:
  assumes "planner_reachable db"
    and run: "record_planner_cycle prose fence now turn out codes trace db = Inr (recs, db')"
  shows "record_planner_cycle prose fence now' turn out codes' trace db' = Inr (recs, db')
    \<and> (\<forall>now' out' codes' trace'. record_refusal out' = None
        \<and> es_decision_cycle_id (po_execution_status out') = es_decision_cycle_id (po_execution_status out) \<longrightarrow>
        (if same_unit prose out trace out' trace'
         then record_planner_cycle prose fence now' turn out' codes' trace' db' = Inr (recs, db')
         else record_planner_cycle prose fence now' turn out' codes' trace' db'
           \<in> Inl ` {StatusContradicted, EvaluationContradicted, DecisionContradicted}))"
proof -
  have "pdb_newest_epoch db = Some fence" using run by (cases rule: record_Inr_cases) auto
  then have writable: "writable_records fence db"
    using planner_reachable_inv [OF assms(1)] by (simp add: writable_records_def)
  note stored = record_stores [OF writable run]
  have other: "if same_unit prose out trace out' trace'
       then record_planner_cycle prose fence now' turn out' codes' trace' db' = Inr (recs, db')
       else record_planner_cycle prose fence now' turn out' codes' trace' db'
         \<in> Inl ` {StatusContradicted, EvaluationContradicted, DecisionContradicted}"
    if "record_refusal out' = None" "es_decision_cycle_id (po_execution_status out') = es_decision_cycle_id (po_execution_status out)"
    for now' out' codes' trace'
  proof -
    have same: "same_unit prose out trace out' trace' \<longleftrightarrow> recorded_unit prose recs out' trace'"
      using stored same_unit_recorded by blast
    have read: "read_cycle_records prose db' (es_decision_cycle_id (po_execution_status out')) turn = Inr (Some recs)"
      using stored that(2) by simp
    have again: "record_planner_cycle prose fence now' turn out' codes' trace' db' =
        bindE (replay_cycle prose turn out' trace' (pcr_execution_status recs) db') (\<lambda>records. Inr (records, db'))"
      using stored that read by (intro record_of_recorded) (auto simp: writable_records_def)
    show ?thesis unfolding same again replay_cycle_of_read [OF read] by (auto simp: recorded_unit_def)
  qed
  have "record_content prose fence now' (turn, out, codes', trace) db' = Inr (recs, db')"
    using cycles.stored_replays [of fence db' prose "(turn, out, codes', trace)" recs] stored by simp
  then have "record_planner_cycle prose fence now' turn out codes' trace db' = Inr (recs, db')" by simp
  moreover note other
  ultimately show ?thesis by (intro conjI allI impI) (assumption, elim conjE, rule other)
qed

lemma kernel_outcome_ok:
  assumes "plan inp = Inr r"
  shows "record_refusal (kr_outcome r) = None \<and> outcome_ok (kr_outcome r)
    \<and> es_decision_cycle_id (po_execution_status (kr_outcome r)) = pi_decision_cycle_id inp
    \<and> runtime_decision_outcome_of (es_status (po_execution_status (kr_outcome r))) = pt_runtime_outcome (kr_trace r)"
  using assms
proof (cases rule: plan_result_cases)
  case (undecided cs assembled)
  then show ?thesis
    by (simp add: undecided_result_def record_refusal_None outcome_ok_def context_of_def context_trace_of_def)
next
  case (decided cs assembled pars)
  then show ?thesis
    by (simp add: decided_result_def record_refusal_None outcome_ok_def Let_def evaluation_record_def)
qed

lemma kernel_recorded:
  assumes run: "plan inp = Inr r" and inv: "records_inv db" and "pdb_newest_epoch db = Some fence"
    and "map_of (pdb_cycle_turn db) (pi_decision_cycle_id inp) = Some turn"
    and fresh: "map_of (pdb_statuses db) (pi_decision_cycle_id inp) = None"
    and "record_integrity (kr_outcome r) db"
  shows "read_cycle_records prose (write_cycle prose now turn (kr_outcome r) codes (Some (kr_trace r)) db) (pi_decision_cycle_id inp) turn
      = Inr (Some (written_records prose now turn (kr_outcome r) codes (Some (kr_trace r))))"
    and "record_planner_cycle prose fence now turn (kr_outcome r) codes (Some (kr_trace r)) db
      = Inr (written_records prose now turn (kr_outcome r) codes (Some (kr_trace r)),
             write_cycle prose now turn (kr_outcome r) codes (Some (kr_trace r)) db)"
proof -
  note ok = kernel_outcome_ok [OF run]
  show read: "read_cycle_records prose (write_cycle prose now turn (kr_outcome r) codes (Some (kr_trace r)) db) (pi_decision_cycle_id inp) turn
      = Inr (Some (written_records prose now turn (kr_outcome r) codes (Some (kr_trace r))))"
    using read_written [OF inv, of "kr_outcome r" prose now turn codes "Some (kr_trace r)"] fresh ok by simp
  then show "record_planner_cycle prose fence now turn (kr_outcome r) codes (Some (kr_trace r)) db
      = Inr (written_records prose now turn (kr_outcome r) codes (Some (kr_trace r)),
             write_cycle prose now turn (kr_outcome r) codes (Some (kr_trace r)) db)"
    using ok fresh assms(3,4,6)
    by (simp add: record_planner_cycle_def Let_def require_current_planner_epoch_def checkE_def)
qed

text \<open>
  C32: Whatever the kernel returns can be recorded, and reads back as what the kernel returned: for a run of
  the kernel over an unrecorded cycle of the turn, with the store's epoch current and the two identifiers
  unused, recording succeeds; the records then hold the kernel's status and decision, a structured trace
  whose candidates are the kernel's, in identifier order, field for field, and the runtime outcome of the
  kernel's trace for the turn.
\<close>

theorem kernel_run_reads_back:
  assumes run: "plan inp = Inr r" and "planner_reachable db" and "pdb_newest_epoch db = Some fence"
    and "map_of (pdb_cycle_turn db) (pi_decision_cycle_id inp) = Some turn"
    and "get_planner_execution_status db (pi_decision_cycle_id inp) = None"
    and "record_integrity (kr_outcome r) db"
  shows "\<exists>recs db'. record_planner_cycle prose fence now turn (kr_outcome r) codes (Some (kr_trace r)) db = Inr (recs, db')
    \<and> read_cycle_records prose db' (pi_decision_cycle_id inp) turn = Inr (Some recs)
    \<and> pcr_execution_status recs = po_execution_status (kr_outcome r)
    \<and> get_planner_decision_for_cycle db' (pi_decision_cycle_id inp) = po_decision (kr_outcome r)
    \<and> per_factor_trace (pcr_evaluation recs) = StructuredTrace
        \<lparr>fdoc_version = ''ft1'', fdoc_provenance = ''KERNEL_TRACE'',
         fdoc_reasons = map (line_prose prose) (pe_reason_trace (po_evaluation (kr_outcome r))),
         fdoc_candidates = map (candidate_document prose) (sort_key ct_candidate_id (pt_candidates (kr_trace r)))\<rparr>
    \<and> get_runtime_decision_outcome db' turn = Some \<lparr>rdo_turn_id = turn,
        rdo_decision_cycle_id = Some (pi_decision_cycle_id inp), rdo_outcome = pt_runtime_outcome (kr_trace r),
        rdo_reason_codes = codes\<rparr>"
proof -
  let ?out = "kr_outcome r" and ?c = "pi_decision_cycle_id inp"
  note ok = kernel_outcome_ok [OF run]
  have inv: "records_inv db" using planner_reachable_inv assms(2) by blast
  have fresh: "map_of (pdb_statuses db) ?c = None" using assms(5) by (simp add: get_planner_execution_status_def)
  let ?db = "write_cycle prose now turn ?out codes (Some (kr_trace r)) db"
    and ?recs = "written_records prose now turn ?out codes (Some (kr_trace r))"
  note k = kernel_recorded [OF run inv assms(3,4) fresh assms(6), of prose now codes]
  have read: "read_cycle_records prose ?db ?c turn = Inr (Some ?recs)" by (rule k(1))
  have "record_planner_cycle prose fence now turn ?out codes (Some (kr_trace r)) db = Inr (?recs, ?db)" by (rule k(2))
  moreover have "get_planner_decision_for_cycle ?db ?c = po_decision ?out"
  proof -
    have "first_of_cycle pd_decision_cycle_id ?c (pdb_decisions ?db) =
        first_of_cycle pd_decision_cycle_id ?c (case po_decision ?out of None \<Rightarrow> [] | Some d \<Rightarrow> [(pd_planner_decision_id d, d)])"
      using unrecorded_cycle(3) [OF inv fresh] by (simp add: first_of_cycle_snoc)
    then show ?thesis using ok
      by (auto simp: get_planner_decision_for_cycle_def first_of_cycle_def record_refusal_None split: option.split)
  qed
  moreover have "get_runtime_decision_outcome ?db turn = Some \<lparr>rdo_turn_id = turn,
        rdo_decision_cycle_id = Some ?c, rdo_outcome = pt_runtime_outcome (kr_trace r), rdo_reason_codes = codes\<rparr>"
    using ok by (simp add: get_runtime_decision_outcome_def outcome_record_def update_conv)
  ultimately show ?thesis
    using read
    by (intro exI [of _ ?recs] exI [of _ ?db])
      (simp add: written_records_def Let_def trace_document_of_def factor_trace_of_def FACTOR_TRACE_VERSION_def
        FACTOR_TRACE_PROVENANCE_KERNEL_def)
qed

section \<open>A concrete run\<close>

definition demo_prose :: trace_prose where
  "demo_prose = \<lparr>line_prose = (\<lambda>_. ''line''), gap_prose = (\<lambda>_. ''gap''), str_of = (\<lambda>_. [])\<rparr>"

definition demo_records :: planner_db where
  "demo_records = \<lparr>pdb_newest_epoch = Some 1, pdb_cycle_turn = [(''cycle-1'', ''turn-1'')], pdb_cycle_decision = [],
     pdb_statuses = [], pdb_evaluations = [], pdb_decisions = [], pdb_outcomes = []\<rparr>"

lemma demo_records_reachable: "planner_reachable demo_records"
  by (rule reach_empty) (simp_all add: demo_records_def)

lemma demo_integrity: "record_integrity out demo_records"
  by (simp add: record_integrity_def demo_records_def known_def split: option.split)

lemma demo_cycle: "pi_decision_cycle_id sample_input = ''cycle-1''"
  by (simp add: sample_input_def)

theorem kernel_run_reads_back_witness:
  "\<exists>r recs db'. plan sample_input = Inr r
    \<and> record_planner_cycle demo_prose 1 ''now'' ''turn-1'' (kr_outcome r) [] (Some (kr_trace r)) demo_records = Inr (recs, db')
    \<and> get_planner_decision_for_cycle db' ''cycle-1'' = po_decision (kr_outcome r)"
proof -
  obtain r where r: "plan sample_input = Inr r" using sample_plan by blast
  have start: "pdb_newest_epoch demo_records = Some 1"
    "map_of (pdb_cycle_turn demo_records) (pi_decision_cycle_id sample_input) = Some ''turn-1''"
    "get_planner_execution_status demo_records (pi_decision_cycle_id sample_input) = None"
    by (simp_all add: demo_records_def demo_cycle get_planner_execution_status_def)
  from kernel_run_reads_back [OF r demo_records_reachable start demo_integrity, of demo_prose "''now''" "[]"] r
  show ?thesis unfolding demo_cycle by blast
qed

lemma demo_recorded:
  "\<exists>r db' recs. plan sample_input = Inr r \<and> planner_reachable db'
    \<and> record_planner_cycle demo_prose 1 ''now'' ''turn-1'' (kr_outcome r) [] (Some (kr_trace r)) demo_records = Inr (recs, db')
    \<and> get_planner_execution_status db' ''cycle-1'' \<noteq> None"
proof -
  obtain r where r: "plan sample_input = Inr r" using sample_plan by blast
  note ok = kernel_outcome_ok [OF r, unfolded demo_cycle]
  let ?db = "write_cycle demo_prose ''now'' ''turn-1'' (kr_outcome r) [] (Some (kr_trace r)) demo_records"
    and ?recs = "written_records demo_prose ''now'' ''turn-1'' (kr_outcome r) [] (Some (kr_trace r))"
  have fields: "pdb_newest_epoch demo_records = Some 1" "pdb_cycle_turn demo_records = [(''cycle-1'', ''turn-1'')]"
    "pdb_statuses demo_records = []" by (simp_all add: demo_records_def)
  have "read_cycle_records demo_prose ?db ''cycle-1'' ''turn-1'' = Inr (Some ?recs)"
    using read_written [of demo_records "kr_outcome r" demo_prose "''now''" "''turn-1''" "[]" "Some (kr_trace r)"]
      planner_reachable_inv [OF demo_records_reachable] ok by (simp add: fields)
  then have run: "record_planner_cycle demo_prose 1 ''now'' ''turn-1'' (kr_outcome r) [] (Some (kr_trace r)) demo_records
      = Inr (?recs, ?db)"
    using ok demo_integrity
    by (simp add: record_planner_cycle_def Let_def require_current_planner_epoch_def checkE_def fields)
  then have "planner_reachable ?db"
    using reach_step [OF demo_records_reachable step_record [OF run]] ok by blast
  moreover have "get_planner_execution_status ?db ''cycle-1'' \<noteq> None"
    using ok by (simp add: get_planner_execution_status_def fields)
  ultimately show ?thesis using r run by blast
qed

theorem planner_cycle_recorded_once_witness:
  "\<exists>r recs db'. plan sample_input = Inr r
    \<and> record_planner_cycle demo_prose 1 ''later'' ''turn-1'' (kr_outcome r) [''again''] (Some (kr_trace r)) db' = Inr (recs, db')
    \<and> db' \<noteq> demo_records"
proof -
  obtain r db' recs where r: "plan sample_input = Inr r" "get_planner_execution_status db' ''cycle-1'' \<noteq> None"
    "record_planner_cycle demo_prose 1 ''now'' ''turn-1'' (kr_outcome r) [] (Some (kr_trace r)) demo_records = Inr (recs, db')"
    using demo_recorded by blast
  moreover have "db' \<noteq> demo_records" using r(2) by (auto simp: get_planner_execution_status_def demo_records_def)
  ultimately show ?thesis
    using planner_cycle_recorded_once [OF demo_records_reachable r(3), of "''later''" "[''again'']"] by blast
qed

theorem planner_cycle_is_one_unit_witness:
  "\<exists>db' s. get_planner_execution_status db' ''cycle-1'' = Some s
    \<and> (es_status s = SUCCEEDED \<longleftrightarrow> get_planner_decision_for_cycle db' ''cycle-1'' \<noteq> None)"
proof -
  obtain db' s where db': "planner_reachable db'" "get_planner_execution_status db' ''cycle-1'' = Some s"
    using demo_recorded by blast
  from planner_cycle_is_one_unit [OF this(1), THEN conjunct1, THEN spec, of "''cycle-1''" demo_prose] db'(2)
  show ?thesis by auto
qed

end
