(* ===== verification/Automatic_Lemmas.thy ===== *)
theory Automatic_Lemmas
  imports Automatic_Turn Planner_Record_Properties Moment_Invariant Gate_Lemmas
begin

text \<open>
  What an automatic decision does, step by step: when the Gate's trace is replayed, when the Gate allows,
  what the store makes of the request, and that an opening is the only way the moments, the locks and the
  prepared actions change.
\<close>

section \<open>The Gate's answer\<close>

text \<open>The facts no control objects to.\<close>

definition controls_clear :: "teaching_control_facts \<Rightarrow> bool" where
  "controls_clear c \<longleftrightarrow> ctl_safety_privacy_status c = ''ALLOW'' \<and> ctl_subject_status c = ''ACTIVE''
    \<and> ctl_authorization_status c = ''VALID'' \<and> ctl_target_status c = ''VALID'' \<and> ctl_content_status c = ''VALID''
    \<and> ctl_learning_snapshot_status c = ''VALID'' \<and> ctl_gate_state_status c = ''COMPLETE'' \<and> \<not> ctl_target_suppressed c
    \<and> ctl_automatic_teaching_enabled c \<and> \<not> ctl_hard_protected_flow c
    \<and> \<not> ctl_automatic_session_budget_exhausted c \<and> \<not> ctl_hard_cooldown_active c"

lemma observed_none: "observed_lock_state holder None = ''NONE'' \<longleftrightarrow> holder = None"
  by (simp add: observed_lock_state_def split: option.split)

text \<open>The one way the Gate says ALLOW to the unit.\<close>

definition gate_clear :: "teaching_control_facts \<Rightarrow> string \<Rightarrow> string \<Rightarrow> string \<Rightarrow> string option \<Rightarrow> bool" where
  "gate_clear controls cycle candidate scope holder \<longleftrightarrow>
    controls_clear controls \<and> scope = ''OPEN'' \<and> cycle \<noteq> [] \<and> candidate \<noteq> [] \<and> holder = None"

lemma gate_allows_iff:
  "(\<exists>v. decide_automatic_open (gate_facts_of controls status candidate scope (observed_lock_state holder None)) = Inr v
      \<and> gv_decision v = Some ALLOW)
    \<longleftrightarrow> gate_clear controls (es_decision_cycle_id status) candidate scope holder"
    (is "(\<exists>v. decide_automatic_open ?f = Inr v \<and> _) \<longleftrightarrow> ?R")
proof
  assume "\<exists>v. decide_automatic_open ?f = Inr v \<and> gv_decision v = Some ALLOW"
  then obtain v where v: "decide_automatic_open ?f = Inr v" "gv_decision v = Some ALLOW" by blast
  then have "allowed v" by (cases rule: auto_open.verdict_cases) (auto simp: allowed_def)
  moreover have "of_decision_cycle_id ?f \<noteq> []" "of_candidate_id ?f \<noteq> []"
    using v(1)
    by (auto simp: auto_open.decide_Inr_iff validate_automatic_open_def check_opening_facts_def result_simps split: if_splits)
  ultimately show ?R
    using automatic_open_clear [OF v(1)] observed_none [of holder]
    by (simp add: gate_facts_of_def gate_clear_def controls_clear_def)
next
  assume clear: ?R
  have "validate_automatic_open ?f = Inr ()"
    using clear
    by (simp add: validate_automatic_open_def check_opening_facts_def check_planner_authorized_open_def
        check_fact_values_def fact_value_guards_def gate_facts_of_def gate_clear_def controls_clear_def
        observed_lock_state_def GATE_CONTEXTS_def OPEN_ACTIONS_def USER_INTENT_SCOPES_def vocabulary_defs
        SNAPSHOT_STATUSES_def result_simps)
  then obtain v where v: "decide_automatic_open ?f = Inr v" by (auto simp: auto_open.decide_Inr_iff)
  with clear have "allowed v"
    using automatic_open_clear [OF v] by (simp add: gate_facts_of_def gate_clear_def controls_clear_def observed_lock_state_def)
  with v show "\<exists>v. decide_automatic_open ?f = Inr v \<and> gv_decision v = Some ALLOW" by (auto simp: allowed_def)
qed

section \<open>The durable trace\<close>

definition open_trace :: "teaching_db \<Rightarrow> string \<Rightarrow> bool" where
  "open_trace db cycle \<longleftrightarrow>
    (\<exists>(k, d) \<in> set (db_gate_decisions db). gd_decision_cycle_id d = cycle \<and> gd_context d = CONTEXT_OPEN)
    \<or> (\<exists>(k, s) \<in> set (db_gate_statuses db). gs_decision_cycle_id s = Some cycle \<and> gs_gate_context s = CONTEXT_OPEN)"

lemma filter_gate_decisions:
  "filter (\<lambda>(k, d). gd_context d = CONTEXT_OPEN) (get_gate_decisions db cycle) = [] \<longleftrightarrow>
    \<not> (\<exists>(k, d) \<in> set (db_gate_decisions db). gd_decision_cycle_id d = cycle \<and> gd_context d = CONTEXT_OPEN)"
  by (fastforce simp: get_gate_decisions_def filter_empty_conv)

lemma filter_gate_statuses:
  "filter (\<lambda>(k, s). gs_gate_context s = CONTEXT_OPEN) (get_gate_execution_statuses db cycle) = [] \<longleftrightarrow>
    \<not> (\<exists>(k, s) \<in> set (db_gate_statuses db). gs_decision_cycle_id s = Some cycle \<and> gs_gate_context s = CONTEXT_OPEN)"
  by (fastforce simp: get_gate_execution_statuses_def filter_empty_conv)

lemma durable_gate_replay_None:
  "durable_gate_replay turn records db = None \<longleftrightarrow> \<not> open_trace db (dc_decision_cycle_id (tt_cycle turn))"
  unfolding open_trace_def de_Morgan_disj filter_gate_decisions [symmetric] filter_gate_statuses [symmetric]
  by (simp add: durable_gate_replay_def Let_def)

section \<open>The store's answer\<close>

definition store_accepts ::
  "int \<Rightarrow> automatic_teaching_turn \<Rightarrow> teaching_control_facts \<Rightarrow> string \<Rightarrow> teaching_db \<Rightarrow> bool" where
  "store_accepts fence turn controls candidate db \<longleftrightarrow>
    moment_template_refusal turn = None \<and> db_newest_epoch db = Some fence
    \<and> map_of (db_turn_owner db) (tt_turn_id turn) = Some (tt_owner_epoch turn)
    \<and> moment_for_cycle db (dc_decision_cycle_id (tt_cycle turn)) = None
    \<and> open_integrity db (cp2_open_request turn controls candidate (snd (the (tt_moment turn))))"

definition opened_db :: "string \<Rightarrow> automatic_teaching_turn \<Rightarrow> teaching_control_facts \<Rightarrow> string \<Rightarrow> teaching_db \<Rightarrow> teaching_db" where
  "opened_db now turn controls candidate db =
    commit_open now db (cp2_open_request turn controls candidate (snd (the (tt_moment turn))))"

lemma request_moment:
  "mr_decision_cycle_id (oq_moment (cp2_open_request turn controls candidate template)) = dc_decision_cycle_id (tt_cycle turn)"
  by (simp add: cp2_open_request_def moment_of_template_def)

lemma open_request_run:
  "open_teaching_moment fence (cp2_open_request turn controls candidate template) now db =
    (if db_newest_epoch db \<noteq> Some fence then Inl StaleStoreEpoch
     else case map_of (db_turn_owner db) (tt_turn_id turn) of
       None \<Rightarrow> Inl NOT_FOUND
     | Some owner \<Rightarrow>
         if owner \<noteq> tt_owner_epoch turn then Inl AUTHORITY_VIOLATION
         else case moment_for_cycle db (dc_decision_cycle_id (tt_cycle turn)) of
           Some existing \<Rightarrow> Inr (existing, db)
         | None \<Rightarrow> if open_integrity db (cp2_open_request turn controls candidate template)
           then Inr (automatic_moment_id (tt_turn_id turn), commit_open now db (cp2_open_request turn controls candidate template))
           else Inl CONFLICT)"
  by (simp add: open_teaching_moment_def cp2_open_request_def moment_of_template_def open_status_def open_decision_def
      require_current_epoch_def checkE_def split: option.split)

definition same_openings :: "teaching_db \<Rightarrow> teaching_db \<Rightarrow> bool" where
  "same_openings db db' \<longleftrightarrow> db_moments db' = db_moments db \<and> db_locks db' = db_locks db \<and> db_actions db' = db_actions db"

lemma same_openings_refl [simp]: "same_openings db db"
  by (simp add: same_openings_def)

lemma gate_fact_openings:
  "record_gate_denial fence now s status g decision db = Inr (x, db') \<Longrightarrow> same_openings db db'"
  "record_gate_degraded fence now s status db = Inr (x, db') \<Longrightarrow> same_openings db db'"
  by (auto simp: same_openings_def record_gate_denial_def record_gate_degraded_def
      record_gate_pair_def insert_defs result_simps split: if_splits)

lemma opened_changes: "\<not> same_openings db (opened_db now turn controls candidate db)"
  by (simp add: same_openings_def opened_db_def commit_open_moments)

definition opened_result :: "automatic_teaching_turn \<Rightarrow> gate_verdict \<Rightarrow> planner_cycle_records \<Rightarrow> automatic_teaching_result" where
  "opened_result turn verdict records =
    \<lparr>ar_gate_verdict = Some (worded_verdict verdict), ar_moment_id = Some (automatic_moment_id (tt_turn_id turn)),
     ar_action_id = Some (automatic_action_id (tt_turn_id turn)), ar_planner_records = records,
     ar_normal_persona_generation = False\<rparr>"

lemma record_denial_openings: "same_openings (ad_teaching db) (ad_teaching (snd (record_denial fence now turn controls candidate v records db)))"
  by (auto simp: record_denial_def dest: gate_fact_openings split: sum.split prod.split)

lemma apply_verdict_openings:
  "(if gv_decision verdict = Some ALLOW \<and> store_accepts fence turn controls candidate (ad_teaching db)
    then apply_verdict fence now turn controls candidate verdict records db =
      (Inr (opened_result turn verdict records), db\<lparr>ad_teaching := opened_db now turn controls candidate (ad_teaching db)\<rparr>)
    else same_openings (ad_teaching db) (ad_teaching (snd (apply_verdict fence now turn controls candidate verdict records db))))"
proof (cases "gv_decision verdict")
  case None
  then show ?thesis
    by (auto simp: apply_verdict_def dest: gate_fact_openings split: sum.split prod.split)
next
  case (Some d)
  then show ?thesis
  proof (cases d)
    case DENY
    with Some show ?thesis by (simp add: apply_verdict_def record_denial_openings)
  next
    case ALLOW
    with Some show ?thesis
      by (auto simp: apply_verdict_def open_allowed_def open_request_run store_accepts_def opened_db_def opened_result_def
          split: option.split)
  qed
qed

text \<open>When a selected candidate opens a moment, and nothing else touches the openings.\<close>

definition opening_due ::
  "int \<Rightarrow> automatic_teaching_turn \<Rightarrow> teaching_control_facts \<Rightarrow> string \<Rightarrow> bool \<Rightarrow> bool \<Rightarrow> (string \<times> string) list option
   \<Rightarrow> string \<Rightarrow> string \<Rightarrow> teaching_db \<Rightarrow> bool" where
  "opening_due fence turn controls scope readable gated provenance candidate cycle db \<longleftrightarrow>
    \<not> open_trace db (dc_decision_cycle_id (tt_cycle turn)) \<and> readable \<and> provenance_codes turn gated provenance = []
    \<and> gate_clear controls cycle candidate scope (get_lock_moment_id db (tt_conversation_id turn))
    \<and> store_accepts fence turn controls candidate db"

lemma decide_selected_openings:
  fixes fence now turn controls scope readable gated provenance candidate records and db :: automatic_db
  defines "due \<equiv> opening_due fence turn controls scope readable gated provenance candidate
      (es_decision_cycle_id (pcr_execution_status records)) (ad_teaching db)"
    and "run \<equiv> decide_selected fence now turn controls scope readable gated provenance candidate records db"
  shows "if due then \<exists>v. gv_decision v = Some ALLOW \<and> run = (Inr (opened_result turn v records),
      db\<lparr>ad_teaching := opened_db now turn controls candidate (ad_teaching db)\<rparr>)
    else same_openings (ad_teaching db) (ad_teaching (snd run))"
proof -
  let ?f = "gate_facts_of controls (pcr_execution_status records) candidate scope
      (observed_lock_state (get_lock_moment_id (ad_teaching db) (tt_conversation_id turn)) None)"
  show ?thesis
  proof (cases "decide_automatic_open ?f")
    case (Inl fault)
    then have "\<not> due"
      using gate_allows_iff [of controls "pcr_execution_status records" candidate scope, symmetric]
      by (simp add: due_def opening_due_def)
    with Inl show ?thesis
      by (auto simp: run_def decide_selected_def authorization_refusal_def record_denial_openings ask_gate_def split: option.split)
  next
    case (Inr v)
    then have "gate_clear controls (es_decision_cycle_id (pcr_execution_status records)) candidate scope
        (get_lock_moment_id (ad_teaching db) (tt_conversation_id turn)) \<longleftrightarrow> gv_decision v = Some ALLOW"
      using gate_allows_iff [of controls "pcr_execution_status records" candidate scope, symmetric] by simp
    with Inr show ?thesis
      using apply_verdict_openings [of v fence turn controls candidate db now records]
        durable_gate_replay_None [of turn records "ad_teaching db"]
      by (auto simp: run_def due_def opening_due_def decide_selected_def authorization_refusal_def record_denial_openings
          ask_gate_def split: option.split)
  qed
qed

section \<open>One decision\<close>

lemma kernel_selection:
  assumes "plan inp = Inr r"
  shows "would_have_selected r = pt_selected_candidate_id (kr_trace r)
    \<and> (\<forall>d. po_decision (kr_outcome r) = Some d \<longrightarrow> (pd_decision d = SELECT \<longleftrightarrow> would_have_selected r \<noteq> None))
    \<and> (would_have_selected r \<noteq> None \<longrightarrow> es_status (po_execution_status (kr_outcome r)) = SUCCEEDED)"
  using assms
proof (cases rule: plan_result_cases)
  case (undecided cs assembled)
  then show ?thesis by (simp add: undecided_result_def would_have_selected_def)
next
  case (decided cs assembled pars)
  then show ?thesis by (simp add: decided_result_def Let_def would_have_selected_def selected_id_of_def)
qed

lemma selected_of_recorded:
  assumes "plan inp = Inr r" and "recorded_unit prose records (kr_outcome r) trace"
  shows "selected_candidate records = would_have_selected r"
proof (cases "po_decision (kr_outcome r)")
  case None
  with assms show ?thesis by (simp add: recorded_unit_def selected_candidate_def would_have_selected_def)
next
  case (Some d)
  then have sel: "would_have_selected r = pd_selected_candidate_id d" by (simp add: would_have_selected_def)
  note k = kernel_selection [OF assms(1)]
  have d: "pd_decision d = SELECT \<longleftrightarrow> pd_selected_candidate_id d \<noteq> None"
    and s: "pd_selected_candidate_id d \<noteq> None \<longrightarrow> es_status (po_execution_status (kr_outcome r)) = SUCCEEDED"
    using k Some unfolding sel by blast+
  then show ?thesis
    using Some assms(2) unfolding sel recorded_unit_def selected_candidate_def
    by (cases "pd_selected_candidate_id d") simp_all
qed

lemma record_runs_current:
  assumes "planner_reachable db" and "record_planner_cycle prose fence now turn out codes trace db = Inr (records, db')"
  shows "recorded_unit prose records out trace" "writable_records fence db" "writable_records fence db'"
    "record_planner_cycle prose fence now' turn out codes' trace db' = Inr (records, db')"
    "es_decision_cycle_id (pcr_execution_status records) = es_decision_cycle_id (po_execution_status out)"
proof -
  have "pdb_newest_epoch db = Some fence" using assms(2) by (cases rule: record_Inr_cases) auto
  then show w: "writable_records fence db" using planner_reachable_inv [OF assms(1)] by (simp add: writable_records_def)
  note s = record_stores [OF w assms(2)]
  then show "recorded_unit prose records out trace" "writable_records fence db'" by blast+
  from s have "(es_decision_cycle_id (po_execution_status out), pcr_execution_status records) \<in> set (pdb_statuses db')"
    using read_status by (blast intro: map_of_SomeD)
  then show "es_decision_cycle_id (pcr_execution_status records) = es_decision_cycle_id (po_execution_status out)"
    using s by (auto simp: writable_records_def records_inv_def)
  show "record_planner_cycle prose fence now' turn out codes' trace db' = Inr (records, db')"
    using s record_of_recorded [of db' fence out turn prose records now' codes' trace]
      replay_cycle_of_read [of prose db' out turn records trace]
    by (simp add: writable_records_def recorded_unit_def)
qed

lemma decision_openings:
  assumes plan: "plan inp = Inr r" and "planner_reachable (ad_planner db)"
    and run: "decide_automatic_teaching prose fence now turn (kr_outcome r) (Some (kr_trace r)) controls scope readable
        gated provenance db = (out, db')"
  defines "t \<equiv> ad_teaching db"
    and "recorded \<equiv> record_planner_cycle prose fence now (tt_turn_id turn) (kr_outcome r) [] (Some (kr_trace r)) (ad_planner db)"
  shows "if (\<exists>records planner. recorded = Inr (records, planner)) \<and> (\<exists>c. would_have_selected r = Some c
        \<and> opening_due fence turn controls scope readable gated provenance c (pi_decision_cycle_id inp) t)
    then \<exists>c v records. would_have_selected r = Some c \<and> gv_decision v = Some ALLOW
      \<and> out = Inr (opened_result turn v records) \<and> ad_teaching db' = opened_db now turn controls c t
    else same_openings t (ad_teaching db')"
proof (cases recorded)
  case (Inl e)
  with run show ?thesis by (simp add: decide_automatic_teaching_def recorded_def t_def)
next
  case (Inr rp)
  obtain records planner where rp: "rp = (records, planner)" by fastforce
  with Inr have rec: "recorded = Inr (records, planner)" by simp
  note cur = record_runs_current [OF assms(2) rec [unfolded recorded_def]]
  have sel: "selected_candidate records = would_have_selected r" by (rule selected_of_recorded [OF plan cur(1)])
  show ?thesis
  proof (cases "would_have_selected r")
    case None
    with run rec sel show ?thesis by (auto simp: decide_automatic_teaching_def recorded_def t_def)
  next
    case (Some c)
    have "es_decision_cycle_id (pcr_execution_status records) = pi_decision_cycle_id inp"
      using cur(5) kernel_outcome_ok [OF plan] by simp
    moreover have "decide_selected fence now turn controls scope readable gated provenance c records (db\<lparr>ad_planner := planner\<rparr>)
        = (out, db')"
      using run rec sel Some by (simp add: decide_automatic_teaching_def recorded_def)
    ultimately show ?thesis
      using decide_selected_openings [of fence turn controls scope readable gated provenance c records "db\<lparr>ad_planner := planner\<rparr>" now]
        rec Some by (auto simp: t_def split: if_splits)
  qed
qed

section \<open>Coming back to a decided cycle\<close>

definition ids_unused :: "automatic_teaching_turn \<Rightarrow> teaching_db \<Rightarrow> bool" where
  "ids_unused turn db \<longleftrightarrow> \<not> known (db_gate_statuses db) (automatic_gate_execution_status_id (tt_turn_id turn))
    \<and> \<not> known (db_gate_decisions db) (automatic_gate_decision_id (tt_turn_id turn))
    \<and> moment_for_cycle db (dc_decision_cycle_id (tt_cycle turn)) = None"

definition settled :: "automatic_teaching_turn \<Rightarrow> planner_cycle_records \<Rightarrow> automatic_teaching_result \<Rightarrow> teaching_db \<Rightarrow> bool" where
  "settled turn records result db \<longleftrightarrow> durable_gate_replay turn records db = Some (Inr (result\<lparr>ar_action_id := None\<rparr>))"

lemma settled_decision:
  assumes "\<not> open_trace db (dc_decision_cycle_id (tt_cycle turn))"
    and "db_gate_decisions db' = db_gate_decisions db @ [(g, d)]"
    and "gd_decision_cycle_id d = dc_decision_cycle_id (tt_cycle turn)" and "gd_context d = CONTEXT_OPEN"
  shows "durable_gate_replay turn records db' = Some (Inr (replayed_decision records
    (if gd_decision d = ALLOW then moment_for_cycle db' (dc_decision_cycle_id (tt_cycle turn)) else None) d))"
proof -
  have "filter (\<lambda>(k, d). gd_context d = CONTEXT_OPEN) (filter (\<lambda>(k, d). gd_decision_cycle_id d = dc_decision_cycle_id (tt_cycle turn))
      (db_gate_decisions db)) = []"
    using assms(1) by (fastforce simp: open_trace_def filter_empty_conv)
  then have "filter (\<lambda>(k, d). gd_context d = CONTEXT_OPEN) (get_gate_decisions db' (dc_decision_cycle_id (tt_cycle turn))) = [(g, d)]"
    using assms(2-4) by (simp add: get_gate_decisions_def filter_sort)
  then show ?thesis by (simp add: durable_gate_replay_def Let_def)
qed

lemma settled_status:
  assumes "\<not> open_trace db (dc_decision_cycle_id (tt_cycle turn))"
    and "db_gate_decisions db' = db_gate_decisions db" and "db_gate_statuses db' = db_gate_statuses db @ [(k, s)]"
    and "gs_decision_cycle_id s = Some (dc_decision_cycle_id (tt_cycle turn))" and "gs_gate_context s = CONTEXT_OPEN"
    and "gs_status s \<noteq> GATE_SUCCEEDED"
  shows "durable_gate_replay turn records db' = Some (Inr (ordinary_turn (Some \<lparr>av_execution_status = GATE_DEGRADED,
    av_decision = None, av_primary_reason = None, av_reasons = [], av_missing_or_unknown = gs_missing_or_unknown s,
    av_policy_version = GATE_POLICY_VERSION\<rparr>) records))"
proof -
  have "filter (\<lambda>(k, s). gs_gate_context s = CONTEXT_OPEN) (filter (\<lambda>(k, s). gs_decision_cycle_id s = Some (dc_decision_cycle_id (tt_cycle turn)))
      (db_gate_statuses db)) = []"
    using assms(1) by (fastforce simp: open_trace_def filter_empty_conv)
  then have "filter (\<lambda>(k, s). gs_gate_context s = CONTEXT_OPEN)
      (get_gate_execution_statuses db' (dc_decision_cycle_id (tt_cycle turn))) = [(k, s)]"
    using assms(3-5) by (simp add: get_gate_execution_statuses_def filter_sort)
  moreover have "filter (\<lambda>(k, d). gd_context d = CONTEXT_OPEN) (get_gate_decisions db' (dc_decision_cycle_id (tt_cycle turn))) = []"
    using assms(1,2) by (simp add: filter_gate_decisions open_trace_def)
  ultimately show ?thesis using assms(6) by (simp add: durable_gate_replay_def Let_def)
qed

lemma update_action_None [simp]: "ar_action_id res = None \<Longrightarrow> res\<lparr>ar_action_id := None\<rparr> = res"
  by (cases res) simp

text \<open>A verdict as the trace can tell it back.\<close>

definition denies :: "automatic_verdict \<Rightarrow> bool" where
  "denies v \<longleftrightarrow> av_execution_status v = GATE_SUCCEEDED \<and> av_decision v = Some DENY \<and> av_reasons v \<noteq> []
    \<and> av_primary_reason v = Some (hd (av_reasons v)) \<and> av_missing_or_unknown v = [] \<and> av_policy_version v = GATE_POLICY_VERSION"

lemma denies_eq: "denies v \<Longrightarrow> v = \<lparr>av_execution_status = GATE_SUCCEEDED, av_decision = Some DENY,
    av_primary_reason = (case av_reasons v of [] \<Rightarrow> None | r # _ \<Rightarrow> Some r), av_reasons = av_reasons v,
    av_missing_or_unknown = [], av_policy_version = GATE_POLICY_VERSION\<rparr>"
  by (cases v) (auto simp: denies_def split: list.split)

lemma denial_settled:
  assumes "\<not> open_trace (ad_teaching db) (dc_decision_cycle_id (tt_cycle turn))" and "ids_unused turn (ad_teaching db)"
    and run: "record_denial fence now turn controls candidate v records db = (Inr res, db')" and "denies v"
  shows "settled turn records res (ad_teaching db') \<and> ad_planner db' = ad_planner db \<and> ar_planner_records res = records"
proof -
  let ?d = "(open_decision turn candidate DENY (av_reasons v))\<lparr>gd_created_at := Some now\<rparr>"
  from run have res: "res = ordinary_turn (Some v) records" and planner: "ad_planner db' = ad_planner db"
    and "db_gate_decisions (ad_teaching db') = db_gate_decisions (ad_teaching db)
        @ [(automatic_gate_decision_id (tt_turn_id turn), ?d)]"
    using assms(2)
    by (auto simp: record_denial_def record_gate_denial_def record_gate_pair_def gate_fact_recorded_def ids_unused_def
        insert_defs result_simps split: sum.splits prod.splits if_splits)
  note settled = settled_decision [OF assms(1) this(3), of records]
  have "replayed_decision records None ?d = ordinary_turn (Some v) records"
    using denies_eq [OF assms(4)] by (simp add: replayed_decision_def ordinary_turn_def open_decision_def)
  with settled res planner show ?thesis
    by (simp add: settled_def open_decision_def ordinary_turn_def)
qed

lemma worded_denies:
  assumes "decide_automatic_open f = Inr v" and "gv_decision v = Some DENY"
  shows "denies (worded_verdict v)"
proof -
  have "v = verdict_from (critical_unknown f) (automatic_open_reasons f)"
    using assms(1) by (simp add: auto_open.decide_Inr_iff)
  then have "gv_policy_version v = GATE_POLICY_VERSION" by (auto simp: verdict_from_def Let_def)
  with assms show ?thesis
    by (cases rule: auto_open.verdict_cases) (auto simp: denies_def worded_verdict_def hd_map)
qed

lemma gate_policy:
  assumes "decide_automatic_open f = Inr v"
  shows "gv_policy_version v = GATE_POLICY_VERSION"
  using assms by (auto simp: auto_open.decide_Inr_iff verdict_from_def Let_def)

lemma degraded_settled:
  assumes "\<not> open_trace (ad_teaching db) (dc_decision_cycle_id (tt_cycle turn))" and "ids_unused turn (ad_teaching db)"
    and gate: "decide_automatic_open f = Inr v" and none: "gv_decision v = None"
    and run: "apply_verdict fence now turn controls candidate v records db = (Inr res, db')"
  shows "settled turn records res (ad_teaching db') \<and> ad_planner db' = ad_planner db \<and> ar_planner_records res = records"
proof -
  let ?s = "(open_status turn controls (gv_execution_status v) (gv_missing_or_unknown v))\<lparr>gs_created_at := Some now\<rparr>"
  from gate none have v: "gv_execution_status v = GATE_DEGRADED" "gv_primary_reason v = None" "gv_reasons v = []"
    by (cases rule: auto_open.verdict_cases; simp)+
  from run none have res: "res = ordinary_turn (Some (worded_verdict v)) records" and planner: "ad_planner db' = ad_planner db"
    and rows: "db_gate_decisions (ad_teaching db') = db_gate_decisions (ad_teaching db)"
      "db_gate_statuses (ad_teaching db') = db_gate_statuses (ad_teaching db)
        @ [(automatic_gate_execution_status_id (tt_turn_id turn), ?s)]"
    using assms(2)
    by (auto simp: apply_verdict_def record_gate_degraded_def gate_fact_recorded_def ids_unused_def time_or_def open_status_def
        insert_defs result_simps split: sum.splits prod.splits if_splits)
  have "worded_verdict v = \<lparr>av_execution_status = GATE_DEGRADED, av_decision = None, av_primary_reason = None, av_reasons = [],
      av_missing_or_unknown = gs_missing_or_unknown ?s, av_policy_version = GATE_POLICY_VERSION\<rparr>"
    using v none gate_policy [OF gate] by (simp add: worded_verdict_def open_status_def)
  with settled_status [OF assms(1) rows, of records] v res planner show ?thesis
    by (simp add: settled_def open_status_def ordinary_turn_def)
qed

lemma allow_settled:
  assumes "\<not> open_trace (ad_teaching db) (dc_decision_cycle_id (tt_cycle turn))" and "ids_unused turn (ad_teaching db)"
    and gate: "decide_automatic_open f = Inr v" and allow: "gv_decision v = Some ALLOW"
    and run: "apply_verdict fence now turn controls candidate v records db = (Inr res, db')"
  shows "settled turn records res (ad_teaching db') \<and> ad_planner db' = ad_planner db \<and> ar_planner_records res = records"
proof -
  let ?rq = "cp2_open_request turn controls candidate (snd (the (tt_moment turn)))"
  let ?d = "(open_decision turn candidate ALLOW [])\<lparr>gd_created_at := Some (time_or None (opening_time now ?rq))\<rparr>"
  have "moment_for_cycle (ad_teaching db) (dc_decision_cycle_id (tt_cycle turn)) = None"
    using assms(2) by (simp add: ids_unused_def)
  with run allow have res: "res = opened_result turn v records" and planner: "ad_planner db' = ad_planner db"
    and db': "ad_teaching db' = commit_open now (ad_teaching db) ?rq"
    by (auto simp: apply_verdict_def open_allowed_def open_request_run opened_result_def split: option.splits if_splits)
  have rows: "db_gate_decisions (ad_teaching db') = db_gate_decisions (ad_teaching db)
      @ [(automatic_gate_decision_id (tt_turn_id turn), ?d)]"
    by (simp add: db' commit_open_def insert_defs cp2_open_request_def open_decision_def)
  have moment: "moment_for_cycle (ad_teaching db') (dc_decision_cycle_id (tt_cycle turn)) = Some (automatic_moment_id (tt_turn_id turn))"
    using assms(2)
    by (auto simp: db' moment_for_cycle_def commit_open_moments ids_unused_def cp2_open_request_def moment_of_template_def
        split: list.splits prod.splits)
  from gate allow have v: "gv_execution_status v = GATE_SUCCEEDED" "gv_primary_reason v = None" "gv_reasons v = []"
    "gv_missing_or_unknown v = []"
    by (cases rule: auto_open.verdict_cases; simp)+
  have "replayed_decision records (Some (automatic_moment_id (tt_turn_id turn))) ?d = res\<lparr>ar_action_id := None\<rparr>"
    using v allow gate_policy [OF gate]
    by (simp add: res replayed_decision_def opened_result_def open_decision_def worded_verdict_def)
  then show ?thesis
    using settled_decision [OF assms(1) rows, of records] moment planner res
    by (simp add: settled_def open_decision_def opened_result_def)
qed

lemma selected_settled:
  assumes ids: "ids_unused turn (ad_teaching db)"
    and run: "decide_selected fence now turn controls scope readable gated provenance candidate records db = (Inr res, db')"
  shows "settled turn records res (ad_teaching db') \<and> ad_planner db' = ad_planner db"
proof (cases "durable_gate_replay turn records (ad_teaching db)")
  case (Some replay)
  then have "ar_action_id res = None" if "replay = Inr res"
    using that by (auto simp: durable_gate_replay_def Let_def replayed_decision_def ordinary_turn_def split: if_splits)
  with Some run show ?thesis by (auto simp: decide_selected_def settled_def)
next
  case None
  note new = None [unfolded durable_gate_replay_None]
  have deny: "settled turn records res (ad_teaching db') \<and> ad_planner db' = ad_planner db"
    if "authorization_refusal fence now turn controls candidate reasons records db = (Inr res, db')" "reasons \<noteq> []" for reasons
    using denial_settled [OF new ids that(1) [unfolded authorization_refusal_def]] that(2) by (simp add: denies_def)
  show ?thesis
  proof (cases "readable \<and> provenance_codes turn gated provenance = []")
    case True
    with None run obtain f v where gate: "decide_automatic_open f = Inr v"
      and applied: "apply_verdict fence now turn controls candidate v records db = (Inr res, db')"
      by (auto simp: decide_selected_def ask_gate_def Let_def split: sum.splits)
    show ?thesis
    proof (cases "gv_decision v")
      case None
      show ?thesis using degraded_settled [OF new ids gate None applied] by blast
    next
      case (Some d)
      show ?thesis
      proof (cases d)
        case ALLOW
        with Some show ?thesis using allow_settled [OF new ids gate _ applied] by blast
      next
        case DENY
        with Some have v: "gv_decision v = Some DENY" by simp
        with applied have "record_denial fence now turn controls candidate (worded_verdict v) records db = (Inr res, db')"
          by (simp add: apply_verdict_def)
        then show ?thesis using denial_settled [OF new ids _ worded_denies [OF gate v]] by blast
      qed
    qed
  next
    case False
    with None run deny show ?thesis by (auto simp: decide_selected_def split: if_splits)
  qed
qed

lemma settled_replays:
  assumes "settled turn records res (ad_teaching db)"
  shows "decide_selected fence now turn controls scope readable gated provenance candidate records db
    = (Inr (res\<lparr>ar_action_id := None\<rparr>), db)"
  using assms by (simp add: settled_def decide_selected_def)

end
