(* ===== verification/Session_Budget_Properties.thy ===== *)
theory Session_Budget_Properties
  imports Session_Budget Binary64
begin

text \<open>
  What the session budget counts: the automatic openings of the conversation, the cooldown after the
  newest of them, and the skips and rejections of the last hour.  The cooldown is a float, yet it is
  positive exactly when less than a minute of whole microseconds has passed.
\<close>

section \<open>The cooldown's float\<close>

lemma dyadic_exact:
  assumes "\<bar>k\<bar> \<le> 2 ^ 53" and "n \<le> 1074"
  shows "rnd64 (of_int k / 2 ^ n) = of_int k / 2 ^ n"
proof -
  have "of_int k / 2 ^ n = (of_int k * 2 powi (- int n) :: rat)"
    by (simp add: power_int_minus divide_inverse)
  then show ?thesis using rnd64_int_multiple [of "- int n" k] assms by simp
qed

lemma cooldown_open:
  assumes "us < 60000000"
  shows "0 < fsub COOLDOWN_WINDOW_SECONDS (total_seconds us)"
proof -
  have "of_int us / 1000000 \<le> (of_int 62914559 / 2 ^ 20 :: rat)"
    using assms by (simp add: divide_le_eq)
  then have "total_seconds us \<le> of_int 62914559 / 2 ^ 20"
    using rnd64_mono dyadic_exact [of 62914559 20] by (fastforce simp: total_seconds_def)
  then have "fsub COOLDOWN_WINDOW_SECONDS (of_int 62914559 / 2 ^ 20) \<le> fsub COOLDOWN_WINDOW_SECONDS (total_seconds us)"
    by (intro fsub_mono) simp_all
  moreover have "fsub COOLDOWN_WINDOW_SECONDS (of_int 62914559 / 2 ^ 20) = of_int 1 / 2 ^ 20"
    using dyadic_exact [of 1 20] by (simp add: fsub_def COOLDOWN_WINDOW_SECONDS_def)
  ultimately show ?thesis by (simp add: order_less_le_trans [rotated])
qed

lemma cooldown_over:
  assumes "60000000 \<le> us"
  shows "fsub COOLDOWN_WINDOW_SECONDS (total_seconds us) \<le> 0"
proof -
  have "60 \<le> (of_int us / 1000000 :: rat)" using assms by (simp add: le_divide_eq)
  then have "60 \<le> total_seconds us"
    using rnd64_mono dyadic_exact [of 60 0] by (fastforce simp: total_seconds_def)
  then have "fsub COOLDOWN_WINDOW_SECONDS (total_seconds us) \<le> fsub COOLDOWN_WINDOW_SECONDS 60"
    by (intro fsub_mono) simp_all
  then show ?thesis by (simp add: COOLDOWN_WINDOW_SECONDS_def)
qed

lemma cooldown_positive_iff:
  "0 < cooldown_remaining now newest \<longleftrightarrow> (\<exists>opened. newest = Some opened \<and> now - opened < 60000000)"
  using cooldown_open cooldown_over
  by (auto simp: cooldown_remaining_def not_less less_max_iff_disj split: option.split) (meson not_le)+

section \<open>The two loops\<close>

definition automatic_rows :: "string \<Rightarrow> moment_row table \<Rightarrow> moment_row table" where
  "automatic_rows conversation moments = filter (\<lambda>(k, r). mr_conversation_id r = conversation \<and> mr_source r = FROM_AUTOMATIC) moments"

definition opened_instant :: "py_env \<Rightarrow> string \<times> moment_row \<Rightarrow> int option" where
  "opened_instant env = (\<lambda>(k, r). case optional_instant env (mr_opened_at r) (opened_field k) of Inl _ \<Rightarrow> None | Inr d \<Rightarrow> Some (instant_of d))"

definition terminal_instant :: "py_env \<Rightarrow> string \<times> moment_row \<Rightarrow> int option" where
  "terminal_instant env = (\<lambda>(k, r). case optional_instant env (mr_teaching_terminal_at r) (terminal_field k) of Inl _ \<Rightarrow> None | Inr d \<Rightarrow> Some (instant_of d))"

fun newest_of :: "int \<Rightarrow> int option \<Rightarrow> int option list \<Rightarrow> int option" where
  "newest_of now n [] = n"
| "newest_of now n (None # ts) = newest_of now n ts"
| "newest_of now n (Some t # ts) = newest_of now (if now < t then n else case n of None \<Rightarrow> Some t | Some m \<Rightarrow> Some (max m t)) ts"

lemma count_openings_Inr:
  "count_openings env now (used, newest) rows = Inr (u, n) \<longleftrightarrow>
    (\<forall>x \<in> set (filter (\<lambda>(k, r). mr_source r = FROM_AUTOMATIC) rows). opened_instant env x \<noteq> None)
    \<and> u = used + length (filter (\<lambda>(k, r). mr_source r = FROM_AUTOMATIC) rows)
    \<and> n = newest_of now newest (map (opened_instant env) (filter (\<lambda>(k, r). mr_source r = FROM_AUTOMATIC) rows))"
proof (induction rows arbitrary: used newest)
  case (Cons row rows)
  obtain k r where row: "row = (k, r)" by fastforce
  show ?case
  proof (cases "optional_instant env (mr_opened_at r) (opened_field k)")
    case (Inl e)
    then show ?thesis using Cons.IH by (auto simp: row opened_instant_def result_simps)
  next
    case (Inr d)
    then have "opened_instant env (k, r) = Some (instant_of d)" by (simp add: opened_instant_def)
    then show ?thesis using Inr Cons.IH
      by (auto simp: row max_def not_less split: option.split)
  qed
qed auto

lemma newest_of_Some:
  "newest_of now n ts = Some m \<longleftrightarrow> (\<forall>t. Some t \<in> set ts \<and> t \<le> now \<longrightarrow> t \<le> m) \<and> (\<forall>k. n = Some k \<longrightarrow> k \<le> m)
    \<and> (n = Some m \<or> Some m \<in> set ts \<and> m \<le> now)"
proof (induction ts arbitrary: n)
  case (Cons a ts)
  show ?case
  proof (cases a)
    case (Some t)
    then show ?thesis using Cons.IH by (cases n) (auto simp: max_def)
  qed (simp add: Cons.IH)
qed auto

lemma newest_of_None: "newest_of now n ts = None \<longleftrightarrow> n = None \<and> (\<forall>t. Some t \<in> set ts \<longrightarrow> now < t)"
proof (induction ts arbitrary: n)
  case (Cons a ts)
  show ?case
  proof (cases a)
    case (Some t)
    then show ?thesis using Cons.IH by (cases n) auto
  qed (simp add: Cons.IH)
qed auto

definition closed_in_hour :: "py_env \<Rightarrow> int \<Rightarrow> string \<Rightarrow> string \<times> moment_row \<Rightarrow> bool" where
  "closed_in_hour env now word = (\<lambda>(k, r). mr_abort_reason r = Some word
    \<and> (\<exists>t. terminal_instant env (k, r) = Some t \<and> now - 3600000000 \<le> t \<and> t \<le> now))"

lemma count_closures_Inr:
  assumes "count_closures env (now - 3600000000) now (s, j) rows = Inr (s', j')"
  shows "s' = s + length (filter (closed_in_hour env now ''USER_SKIP'') rows)
    \<and> j' = j + length (filter (closed_in_hour env now ''USER_REJECTED_TARGET'') rows)"
  using assms
proof (induction rows arbitrary: s j)
  case (Cons row rows)
  obtain k r where row: "row = (k, r)" by fastforce
  show ?case
  proof (cases "mr_abort_reason r \<in> Some ` set RECENT_CLOSURE_WORDS")
    case False
    then show ?thesis using Cons by (simp add: row closed_in_hour_def RECENT_CLOSURE_WORDS_def)
  next
    case True
    then obtain d where d: "optional_instant env (mr_teaching_terminal_at r) (terminal_field k) = Inr d"
      using Cons.prems by (auto simp: row result_simps)
    then have t: "terminal_instant env (k, r) = Some (instant_of d)" by (simp add: terminal_instant_def)
    let ?in = "now - 3600000000 \<le> instant_of d \<and> instant_of d \<le> now"
    have "count_closures env (now - 3600000000) now
        (if ?in \<and> mr_abort_reason r = Some ''USER_SKIP'' then s + 1 else s,
         if ?in \<and> mr_abort_reason r \<noteq> Some ''USER_SKIP'' then j + 1 else j) rows = Inr (s', j')"
      using Cons.prems True d by (auto simp: row split: if_splits)
    note IH = Cons.IH [OF this]
    from True have "mr_abort_reason r = Some ''USER_SKIP'' \<or> mr_abort_reason r = Some ''USER_REJECTED_TARGET''"
      by (auto simp: RECENT_CLOSURE_WORDS_def)
    then show ?thesis using IH t by (auto simp: row closed_in_hour_def)
  qed
qed simp

section \<open>The budget\<close>

lemma automatic_of_conversation:
  "filter (\<lambda>(k, r). mr_source r = FROM_AUTOMATIC) (conversation_rows conversation moments) = automatic_rows conversation moments"
  by (auto simp: conversation_rows_def automatic_rows_def intro!: filter_cong)

lemma cooldown_of_view:
  assumes "session_budget_view_of env conversation as_of policy moments = Inr view"
  obtains now where "parse_instant env as_of ''as_of'' = Inr now"
    and "0 < sb_cooldown_remaining view \<longleftrightarrow> (\<exists>x \<in> set (automatic_rows conversation moments). \<exists>t.
      opened_instant env x = Some t \<and> t \<le> instant_of now \<and> instant_of now - t < 60000000)"
    and "\<forall>x \<in> set (automatic_rows conversation moments). opened_instant env x \<noteq> None"
    and "sb_automatic_teaching_used view = length (automatic_rows conversation moments)"
    and "0 \<le> sb_cooldown_remaining view"
    and "sb_recent_skips view = length (filter (closed_in_hour env (instant_of now) ''USER_SKIP'') (conversation_rows conversation moments))"
    and "sb_recent_rejections view
      = length (filter (closed_in_hour env (instant_of now) ''USER_REJECTED_TARGET'') (conversation_rows conversation moments))"
    and "sb_automatic_teaching_remaining view = None"
proof -
  from assms obtain now used newest from_time skips rejections where now: "parse_instant env as_of ''as_of'' = Inr now"
    and openings: "count_openings env (instant_of now) (0, None) (conversation_rows conversation moments) = Inr (used, newest)"
    and from_time: "add_timedelta now (- RECENT_TEACHING_WINDOW_SECONDS * 1000000) = Some from_time"
    and closures: "count_closures env (instant_of from_time) (instant_of now) (0, 0) (conversation_rows conversation moments)
      = Inr (skips, rejections)"
    and view: "sb_automatic_teaching_used view = used" "sb_cooldown_remaining view = cooldown_remaining (instant_of now) newest"
      "sb_recent_skips view = skips" "sb_recent_rejections view = rejections" "sb_automatic_teaching_remaining view = None"
    by (auto simp: session_budget_view_of_def result_simps split: option.splits)
  have f: "instant_of from_time = instant_of now - 3600000000"
    using from_time by (auto simp: add_timedelta_Some RECENT_TEACHING_WINDOW_SECONDS_def instant_of_def)
  note o = openings [unfolded count_openings_Inr automatic_of_conversation]
  have n: "newest = newest_of (instant_of now) None (map (opened_instant env) (automatic_rows conversation moments))"
    using o by simp
  have mem: "Some t \<in> set (map (opened_instant env) rows) \<longleftrightarrow> (\<exists>x \<in> set rows. opened_instant env x = Some t)" for t rows
    by (auto simp: image_iff eq_commute)
  have newest: "newest = Some m \<longleftrightarrow> (\<forall>x \<in> set (automatic_rows conversation moments). \<forall>t. opened_instant env x = Some t \<and> t \<le> instant_of now \<longrightarrow> t \<le> m)
      \<and> (\<exists>x \<in> set (automatic_rows conversation moments). opened_instant env x = Some m \<and> m \<le> instant_of now)" for m
    unfolding n newest_of_Some mem by blast
  have "0 < sb_cooldown_remaining view \<longleftrightarrow> (\<exists>x \<in> set (automatic_rows conversation moments). \<exists>t.
      opened_instant env x = Some t \<and> t \<le> instant_of now \<and> instant_of now - t < 60000000)"
  proof
    assume "0 < sb_cooldown_remaining view"
    then obtain m where "newest = Some m" "instant_of now - m < 60000000" by (auto simp: view cooldown_positive_iff)
    with newest show "\<exists>x \<in> set (automatic_rows conversation moments). \<exists>t.
      opened_instant env x = Some t \<and> t \<le> instant_of now \<and> instant_of now - t < 60000000" by blast
  next
    assume "\<exists>x \<in> set (automatic_rows conversation moments). \<exists>t.
      opened_instant env x = Some t \<and> t \<le> instant_of now \<and> instant_of now - t < 60000000"
    then obtain x t where x: "x \<in> set (automatic_rows conversation moments)" "opened_instant env x = Some t"
      "t \<le> instant_of now" "instant_of now - t < 60000000" by blast
    then have "newest \<noteq> None" unfolding n newest_of_None mem by force
    then obtain m where m: "newest = Some m" by blast
    with newest x have "t \<le> m" by blast
    with m x show "0 < sb_cooldown_remaining view" by (auto simp: view cooldown_positive_iff)
  qed
  moreover have "0 \<le> sb_cooldown_remaining view" by (simp add: view cooldown_remaining_def split: option.split)
  ultimately show thesis
    using that [OF now] o view count_closures_Inr [OF closures [unfolded f]] by simp
qed

text \<open>
  A budget view counts what the conversation's moments say: every automatic moment is an automatic use,
  the cooldown is positive exactly when one of them was opened, at or before the instant, less than sixty
  seconds earlier (to the microsecond, although the cooldown is a float), and the skips and rejections are
  those closed in the hour before the instant, both ends included; no limit on the number of automatic
  teachings is reported.
\<close>

theorem session_budget_counts:
  assumes "session_budget_view_of env conversation as_of policy moments = Inr view"
  shows "\<exists>now. parse_instant env as_of ''as_of'' = Inr now
    \<and> sb_automatic_teaching_used view = length (automatic_rows conversation moments)
    \<and> (0 < sb_cooldown_remaining view \<longleftrightarrow> (\<exists>x \<in> set (automatic_rows conversation moments). \<exists>t.
        opened_instant env x = Some t \<and> t \<le> instant_of now \<and> instant_of now - t < 60000000))
    \<and> 0 \<le> sb_cooldown_remaining view
    \<and> sb_recent_skips view
        = length (filter (closed_in_hour env (instant_of now) ''USER_SKIP'') (conversation_rows conversation moments))
    \<and> sb_recent_rejections view
        = length (filter (closed_in_hour env (instant_of now) ''USER_REJECTED_TARGET'') (conversation_rows conversation moments))
    \<and> sb_automatic_teaching_remaining view = None"
  using assms by (rule cooldown_of_view) blast

section \<open>A concrete conversation\<close>

text \<open>The conversation already had an automatic moment, opened at the epoch and closed since.\<close>

definition past_row :: moment_row where
  "past_row = \<lparr>mr_conversation_id = ''c'', mr_persona_id = None, mr_source = FROM_AUTOMATIC,
     mr_decision_cycle_id = ''cycle-0'', mr_candidate_id = ''k'', mr_focus_target_id = ''y'', mr_learning_snapshot_id = None,
     mr_curriculum_version = None, mr_policy_version = None, mr_gate_decision_id = ''g0'',
     mr_target_mode = ''REVIEW'', mr_learning_intent = ''CONSOLIDATE'', mr_evidence_watermark = None,
     mr_lifecycle_state = CLOSED, mr_presentation_phase = ''INITIAL_PROMPT'', mr_attempt_index = 0,
     mr_support_level = ''NONE'', mr_completion_outcome = None, mr_abort_reason = None, mr_state_version = 3,
     mr_created_at = ''t0'', mr_opened_at = Some (demo_time 0), mr_teaching_terminal_at = None, mr_closed_at = None\<rparr>"

definition recent_rows :: "moment_row table" where
  "recent_rows = [(''m0'', past_row), (''m1'', past_row\<lparr>mr_opened_at := Some (demo_time 3970000000)\<rparr>)]"

lemma recent_budget: "\<exists>view. session_budget_view_of demo_env ''c'' (demo_time 4000000000) None recent_rows = Inr view"
  by (simp add: session_budget_view_of_def recent_rows_def parse_instant_def demo_reads optional_instant_def
      conversation_rows_def past_row_def add_timedelta_def instant_of_def datetime_in_range_def DATETIME_SPAN_def
      RECENT_TEACHING_WINDOW_SECONDS_def DAY_MICROSECONDS_def)

theorem session_budget_counts_witness:
  "\<exists>view. session_budget_view_of demo_env ''c'' (demo_time 4000000000) None recent_rows = Inr view
    \<and> sb_automatic_teaching_used view = 2 \<and> 0 < sb_cooldown_remaining view"
proof -
  obtain view where view: "session_budget_view_of demo_env ''c'' (demo_time 4000000000) None recent_rows = Inr view"
    using recent_budget by blast
  have rows: "automatic_rows ''c'' recent_rows = recent_rows" by (simp add: automatic_rows_def recent_rows_def past_row_def)
  have opened: "opened_instant demo_env (''m1'', past_row\<lparr>mr_opened_at := Some (demo_time 3970000000)\<rparr>) = Some 3970000000"
    by (simp add: opened_instant_def optional_instant_def parse_instant_def demo_reads instant_of_def)
  obtain now where now: "parse_instant demo_env (demo_time 4000000000) ''as_of'' = Inr now"
    and counts: "sb_automatic_teaching_used view = length recent_rows"
      "0 < sb_cooldown_remaining view \<longleftrightarrow> (\<exists>x \<in> set recent_rows. \<exists>t.
        opened_instant demo_env x = Some t \<and> t \<le> instant_of now \<and> instant_of now - t < 60000000)"
    using session_budget_counts [OF view] unfolding rows by blast
  have "instant_of now = 4000000000" using now by (simp add: parse_instant_def demo_reads instant_of_def) (auto simp: instant_of_def)
  with view counts opened show ?thesis by (auto simp: recent_rows_def)
qed

end
