(* ===== verification/Automatic_Demo.thy ===== *)
theory Automatic_Demo
  imports Automatic_Lemmas Session_Budget_Properties
begin

text \<open>
  A concrete turn that opens a moment automatically, run through every stage: the reads, the feature
  authority, the kernel's float arithmetic, the durable records, the Gate and the store.  It supplies the
  witnesses of the automatic properties.
\<close>

section \<open>Float bounds\<close>

lemma rnd64_within:
  assumes "\<bar>k\<bar> \<le> 2 ^ 53" "\<bar>m\<bar> \<le> 2 ^ 53" and "of_int k / 64 \<le> x" "x \<le> of_int m / 64"
  shows "of_int k / 64 \<le> rnd64 x \<and> rnd64 x \<le> of_int m / 64"
  using dyadic_exact [OF assms(1), of 6] dyadic_exact [OF assms(2), of 6] rnd64_mono [OF assms(3)] rnd64_mono [OF assms(4)]
  by simp

lemma fadd_0 [simp]: "is_float64 s \<Longrightarrow> fadd s 0 = s" "is_float64 s \<Longrightarrow> fadd 0 s = s" "is_float64 s \<Longrightarrow> fsub s 0 = s"
  by (simp_all add: fadd_def fsub_def is_float64_def)

lemma py_sum_loop_0: "is_float64 s \<Longrightarrow> is_float64 c \<Longrightarrow> py_sum_loop s c (0 # xs) = py_sum_loop s c xs"
  by (simp add: Let_def)

lemma two_weights:
  fixes a b :: float64
  assumes "is_float64 a" "is_float64 b" and a: "10/64 \<le> a" "a \<le> 11/64" and b: "8/64 \<le> b" "b \<le> 9/64"
  shows "decimal 195 1000 \<le> py_sum [a, 0, 0, 0, 0, b, 0, 0, 0, 0, 0]" (is ?bound)
    and "is_float64 (py_sum [a, 0, 0, 0, 0, b, 0, 0, 0, 0, 0])" (is ?float)
proof -
  let ?t = "fadd a b" and ?d = "fadd (fsub a (fadd a b)) b"
  have t: "18/64 \<le> ?t" "?t \<le> 20/64"
    using rnd64_within [of 18 20 "a + b"] a b by (simp_all add: fadd_def)
  have s: "- 10/64 \<le> fsub a ?t" "fsub a ?t \<le> - 7/64"
    using rnd64_within [of "- 10" "- 7" "a - ?t"] a t by (simp_all add: fsub_def)
  have d: "- 2/64 \<le> ?d" "?d \<le> 2/64"
    using rnd64_within [of "- 2" 2 "fsub a ?t + b"] b s by (simp_all add: fadd_def)
  have r: "16/64 \<le> fadd ?t ?d"
    using rnd64_within [of 16 22 "?t + ?d"] t d by (simp add: fadd_def)
  have le: "\<bar>b\<bar> \<le> \<bar>a\<bar>" using a b by simp
  have low: "decimal 195 1000 \<le> 16/64"
    using rnd64_within [of 12 13 "195/1000"] by (simp add: decimal_def)
  have sum: "py_sum [a, 0, 0, 0, 0, b, 0, 0, 0, 0, 0] = (if ?d = 0 then ?t else fadd ?t ?d)"
    using assms(1,2) le by (simp add: py_sum_loop_0 Let_def del: py_sum_loop.simps(2)) (simp add: Let_def)
  then show ?bound using r low t by (simp split: if_split)
  show ?float unfolding sum by simp
qed

section \<open>The planner's part\<close>

definition auto_benefit :: "benefit_factor \<Rightarrow> float64" where
  "auto_benefit f = (if f \<in> {LEARNING_NEED, CONTEXT_FIT} then 1 else 0)"

definition auto_proposal :: candidate_proposal where
  "auto_proposal = \<lparr>candidate_id = ''a'', canonical_key = ''k1'', focus_target = ''x'',
     target_mode = REVIEW, learning_intent = CONSOLIDATE, evidence_modality = TEXT_PRODUCTION,
     opportunity_binding_class = ''none'', initiative_class = REACTIVE,
     benefit = (\<lambda>f. Some (auto_benefit f)), cost = (\<lambda>f. Some 0), origins = [''SCHEDULED_REVIEW''],
     user_initiated = False, request_aligned = False, request_priority = 0,
     content_readiness = R3_TEACHING_READY, prerequisite_state = READY,
     prerequisite_scaffoldable = False, coverage_service_state = COVERAGE_NONE,
     modality_available = True, expired = False, deprecated = False, suppressed = False,
     runtime_generated_ready = False, task_aligned = False, critical_repair = False,
     goal_relation = GOAL_NONE,
     schedule_row = Some \<lparr>review_state = DUE, review_urgency = Some 0, source_learning_watermark = ''7''\<rparr>\<rparr>"

definition auto_candidate :: canonical_candidate where
  "auto_candidate = merge_group ''k1'' auto_proposal []"

definition auto_supply :: candidate_supply where
  "auto_supply = \<lparr>cs_proposals = [auto_proposal], cs_gaps = [], cs_refusals = [], cs_readiness = [(''x'', Some ''R3'')],
     cs_scope = resolve_user_intent_scope None\<rparr>"

lemma auto_readiness: "candidate_readiness_of auto_supply = [(''x'', Some ''R3'')]"
  by (simp add: candidate_readiness_of_def auto_supply_def auto_proposal_def sorted_set_def)

definition auto_authority :: feature_authority where
  "auto_authority = \<lparr>fa_status = COMPLETE, fa_snapshot_status = VALID, fa_schedule_authority = CURRENT,
     fa_missing_authorities = [], fa_natural_break_available = True, fa_planner_profile = Some BALANCED,
     fa_automatic_teaching_enabled = True, fa_policy_mapping_version = POLICY_PROFILE_MAPPING_VERSION, fa_reasons = []\<rparr>"

definition auto_input :: planning_input where
  "auto_input = \<lparr>pi_decision_cycle_id = ''cycle-1'', pi_planning_context = Some auto_authority,
     pi_user_intent_scope = OPEN, pi_proposals = [auto_proposal]\<rparr>"

lemma auto_canonical: "canonicalize_proposals (pi_proposals auto_input) = Inr [auto_candidate]"
  by (simp add: canonicalize_proposals_def auto_input_def sorted_set_def canonicalize_group_def
      group_of_def checkE_def auto_candidate_def auto_proposal_def)

lemma auto_assembly:
  "assemble_candidate_factors auto_candidate (Some auto_authority)
     = Inr \<lparr>as_candidate_id = ''a'',
         as_benefit = map (\<lambda>f. \<lparr>fr_factor = Benefit f, fr_value = auto_benefit f,
           fr_source = (if f = SCHEDULE_URGENCY then AUTHORITY else DECLARED),
           fr_authority = (if f = SCHEDULE_URGENCY then Some SCHEDULE else None)\<rparr>) BENEFIT_FACTORS,
         as_cost = map (\<lambda>f. \<lparr>fr_factor = Cost f, fr_value = 0, fr_source = DECLARED,
           fr_authority = None\<rparr>) COST_FACTORS,
         as_gaps = []\<rparr>"
  by (simp add: assemble_candidate_factors_def auto_candidate_def merge_group_def auto_proposal_def auto_benefit_def
      validate_identity_def checkE_def validate_declared_vector_def checked_reading_def
      BENEFIT_FACTORS_def COST_FACTORS_def validate_scaffold_costs_def scaffolded_def
      schedule_leg_def auto_authority_def schedule_urgency_of_def
      owned_schedule_def number_def goal_leg_def goal_relevance_of_def owned_goal_def dict_of_def)


definition auto_assemblies :: "factor_assembly list" where
  "auto_assemblies = [case assemble_candidate_factors auto_candidate (Some auto_authority) of Inr a \<Rightarrow> a]"

lemma auto_planned: "planned auto_input [auto_candidate] auto_assemblies"
  by (simp add: planned_def auto_canonical refuse_contradictory_scope_def auto_assemblies_def)
    (simp add: auto_input_def auto_assembly)

lemma auto_verdict: "vd_parameters (verdict_of auto_input auto_assemblies) = Some (POLICY_PROFILES BALANCED)"
  by (simp add: verdict_of_def context_verdict_def auto_input_def auto_authority_def auto_assemblies_def)
    (simp add: auto_assembly [unfolded auto_authority_def])

lemma decimal_grid: "decimal 17 100 \<in> {10/64 .. 11/64}" "decimal 13 100 \<in> {8/64 .. 9/64}"
  using rnd64_within [of 10 11 "17/100"] rnd64_within [of 8 9 "13/100"] by (simp_all add: decimal_def)

lemma fmul_simps [simp]: "fmul x 0 = 0" "is_float64 x \<Longrightarrow> fmul x 1 = x" "is_float64 x \<Longrightarrow> fmul 1 x = x"
  by (simp_all add: fmul_def is_float64_def)

lemma auto_score: "decimal 195 1000 \<le> sc_utility (score (hd auto_assemblies) auto_candidate (POLICY_PROFILES BALANCED) nb)"
proof -
  have one: "decimal 1 1 = 1" using is_float64_more(4) by (simp add: decimal_def is_float64_def)
  have benefits: "map (\<lambda>f. fmul (BENEFIT_WEIGHTS f) (the (value_of (hd auto_assemblies) (Benefit f)))) BENEFIT_FACTORS
      = [decimal 17 100, 0, 0, 0, 0, decimal 13 100, 0, 0, 0, 0, 0]"
    by (simp add: auto_assemblies_def auto_assembly BENEFIT_FACTORS_def COST_FACTORS_def value_of_def auto_benefit_def)
  have costs: "py_sum (map (\<lambda>f. fmul (COST_WEIGHTS f) (the (value_of (hd auto_assemblies) (Cost f)))) COST_FACTORS) = 0"
    by (simp add: auto_assemblies_def auto_assembly BENEFIT_FACTORS_def COST_FACTORS_def value_of_def)
  show ?thesis
    using two_weights [of "decimal 17 100" "decimal 13 100"] decimal_grid
    by (simp add: score_def Let_def benefits costs one auto_candidate_def merge_group_def auto_proposal_def
        del: py_sum.simps py_sum_loop.simps)
qed


lemma auto_admitted: "admitted (context_for auto_input (POLICY_PROFILES BALANCED) [auto_candidate] auto_assemblies) (set [auto_candidate])
    = {auto_candidate}"
proof -
  have "exclusion_of auto_candidate OPEN = None"
    by (simp add: auto_candidate_def merge_group_def auto_proposal_def exclusion_of_def readiness_floor_def)
  then show ?thesis
    using auto_score
    by (auto simp: admitted_def context_for_def utility_of_def assembly_dict_def dict_of_def auto_input_def auto_assemblies_def)
qed

lemma auto_plan:
  obtains r where "plan auto_input = Inr r" "would_have_selected r = Some ''a''"
    "cx_automatic_teaching_enabled (pt_context (kr_trace r)) = True"
proof -
  let ?run = "run_of auto_input (POLICY_PROFILES BALANCED) [auto_candidate] auto_assemblies"
  let ?r = "decided_result auto_input (context_of auto_input auto_assemblies) [auto_candidate]
      (assembly_dict [auto_candidate] auto_assemblies) ?run"
  have r: "plan auto_input = Inr ?r"
    using plan_result [OF auto_planned] by (simp add: auto_verdict)
  let ?k = "context_for auto_input (POLICY_PROFILES BALANCED) [auto_candidate] auto_assemblies"
  have "fst (decide ?run) \<noteq> None"
    using decide_run(3) [OF auto_planned, of "POLICY_PROFILES BALANCED"] auto_admitted by simp
  then have some: "selected_id_of ?run \<noteq> None" by (simp add: selected_id_of_def)
  have "choice ?k (set [auto_candidate]) \<subseteq> {auto_candidate}"
    using contenders_admitted [of _ ?k "set [auto_candidate]"] auto_admitted
    by (auto simp: choice_def tie_winners_def near_best_def)
  then have "set_option (selected_id_of ?run) \<subseteq> {''a''}"
    using decide_run(1) [OF auto_planned, of "POLICY_PROFILES BALANCED", symmetric]
    by (auto simp: auto_candidate_def merge_group_def auto_proposal_def)
  with some have "selected_id_of ?run = Some ''a''" by auto
  then have "would_have_selected ?r = Some ''a''"
    by (simp add: decided_result_def Let_def would_have_selected_def)
  moreover have "cx_automatic_teaching_enabled (pt_context (kr_trace ?r)) = True"
    by (simp add: decided_result_def Let_def context_of_def context_trace_of_def auto_input_def auto_authority_def)
  ultimately show thesis using that r by blast
qed

section \<open>The turn\<close>

definition auto_teaching_db :: teaching_db where
  "auto_teaching_db = \<lparr>db_newest_epoch = Some 1, db_conversations = [''c''], db_user_turns = [],
     db_turn_owner = [(''turn-0'', 1), (''turn-1'', 1)], db_cycle_turn = [(''cycle-0'', ''turn-0''), (''cycle-1'', ''turn-1'')],
     db_gate_statuses = [], db_gate_decisions = [], db_moments = [(''m0'', past_row)], db_actions = [], db_locks = [],
     db_attempts = [], db_evaluations = []\<rparr>"

definition auto_db :: automatic_db where
  "auto_db = \<lparr>ad_planner = demo_records, ad_teaching = auto_teaching_db\<rparr>"

definition auto_as_of :: string where
  "auto_as_of = demo_time 4000000000"

definition auto_view :: session_budget_view where
  "auto_view = \<lparr>sb_conversation_id = ''c'', sb_policy_version = None, sb_automatic_teaching_used = 1,
     sb_automatic_teaching_remaining = None, sb_probe_budget_remaining = None,
     sb_cooldown_remaining = cooldown_remaining 4000000000 (Some 0), sb_recent_skips = 0, sb_recent_rejections = 0,
     sb_fatigue_signal = None, sb_as_of = auto_as_of\<rparr>"

lemma auto_budget: "get_session_budget_view demo_env (Some (Inr None)) ''c'' auto_as_of auto_teaching_db = Inr auto_view"
  by (simp add: get_session_budget_view_def session_budget_view_of_def list_moments_for_conversation_def auto_teaching_db_def
      auto_as_of_def parse_instant_def demo_reads optional_instant_def conversation_rows_def past_row_def add_timedelta_def
      instant_of_def datetime_in_range_def DATETIME_SPAN_def RECENT_TEACHING_WINDOW_SECONDS_def DAY_MICROSECONDS_def auto_view_def)

lemma auto_rested: "\<not> 0 < sb_cooldown_remaining auto_view"
  by (simp add: auto_view_def cooldown_positive_iff)

definition auto_reads :: turn_reads where
  "auto_reads = \<lparr>tr_learning_snapshot = Some \<lparr>evidence_watermark = 7, ls_learning_snapshot_id = Some ''ls-1''\<rparr>,
     tr_learning_watermark = Some 7, tr_schedule_view = Some \<lparr>vw_schedule_version = ''s1'', vw_as_of = auto_as_of,
       vw_due_items = [], vw_overdue_items = [], vw_upcoming = []\<rparr>,
     tr_teaching_policy = Some \<lparr>teaching_frequency = ''BALANCED'', vp_policy_version = None\<rparr>,
     tr_goal_portfolio = Some \<lparr>assessment_targets = []\<rparr>,
     tr_constraint_view = Some (build_view [] auto_as_of ''c''), tr_lock_state = Some ''NONE'', tr_curriculum_version = None,
     tr_session_budget = Some auto_view\<rparr>"

lemma auto_assembled: "assemble_feature_authority (assembly_of_reads auto_reads (conversation_priority_view_of ''NONE'') auto_supply) = auto_authority"
  by (simp add: assemble_feature_authority_def assembly_of_reads_def auto_reads_def auto_readiness leg_defs planner_view_def
      schedule_authority_of_def rows_of_def profile_mapping_of_def TEACHING_FREQUENCY_TO_PROFILE_def dict_of_def
      learning_snapshot.truncate_def teaching_policy.truncate_def natural_break_available_of_def conversation_priority_view_of_def
      build_view_def auto_authority_def POLICY_PROFILE_MAPPING_VERSION_def)


lemma auto_template: "template_of_plan turn_plan ''turn-1'' ''c'' None ''cycle-1'' (\<lambda>_. Some ''RESOURCE'')
    = Inr (Some (automatic_moment_template ''turn-1'' ''c'' None ''cycle-1'' auto_proposal))"
  if "atp_selected turn_plan = Some auto_proposal"
  using that by (simp add: template_of_plan_def moment_template_of_def)

definition auto_turn :: automatic_teaching_turn where
  "auto_turn = \<lparr>tt_turn_id = ''turn-1'', tt_conversation_id = ''c'', tt_persona_id = None,
     tt_cycle = bindings_of auto_reads ''cycle-1'',
     tt_moment = Some (automatic_moment_template ''turn-1'' ''c'' None ''cycle-1'' auto_proposal), tt_owner_epoch = 1\<rparr>"

definition auto_controls :: teaching_control_facts where
  "auto_controls = (derived_controls (Some auto_view) (conversation_priority_view_of ''NONE''))\<lparr>ctl_automatic_teaching_enabled := True\<rparr>"

lemma auto_controls_clear: "controls_clear auto_controls"
  using auto_rested
  by (simp add: controls_clear_def auto_controls_def derived_controls_def automatic_controls_of_def Let_def
      conversation_priority_view_of_def) (simp add: auto_view_def)

lemma auto_ids [simp]: "tt_turn_id auto_turn = ''turn-1''" "tt_conversation_id auto_turn = ''c''"
  "dc_decision_cycle_id (tt_cycle auto_turn) = ''cycle-1''" "tt_owner_epoch auto_turn = 1"
  by (simp_all add: auto_turn_def bindings_of_def)

lemma auto_integrity: "open_integrity auto_teaching_db (cp2_open_request auto_turn controls ''a''
    (snd (automatic_moment_template ''turn-1'' ''c'' None ''cycle-1'' auto_proposal)))" if "ctl_authorization_status controls = ''VALID''"
  using that
  by (simp add: open_integrity_def cp2_open_request_def status_integrity_def decision_integrity_def open_status_def open_decision_def
      moment_of_template_def automatic_moment_template_def auto_teaching_db_def known_def known_or_null_def moment_row_ok_def
      TARGET_MODE_WORDS_def LEARNING_INTENT_WORDS_def AUTHORIZATION_STATUSES_def auto_proposal_def automatic_moment_id_def
      automatic_action_id_def automatic_gate_decision_id_def automatic_gate_execution_status_id_def)
    (simp add: auto_turn_def bindings_of_def auto_reads_def)

lemma auto_accepts: "store_accepts 1 auto_turn auto_controls ''a'' auto_teaching_db"
proof -
  have "ctl_authorization_status auto_controls = ''VALID''"
    by (simp add: auto_controls_def derived_controls_def Let_def)
  then have integrity: "open_integrity auto_teaching_db (cp2_open_request auto_turn auto_controls ''a'' (snd (the (tt_moment auto_turn))))"
    using auto_integrity by (simp add: auto_turn_def)
  have "moment_template_refusal auto_turn = None"
    by (simp add: moment_template_refusal_def auto_turn_def automatic_moment_template_def)
  with integrity show ?thesis
    by (simp add: store_accepts_def) (simp add: auto_teaching_db_def moment_for_cycle_def past_row_def)
qed

lemma auto_untraced: "\<not> open_trace auto_teaching_db cycle" "ids_unused auto_turn auto_teaching_db"
  "get_lock_moment_id auto_teaching_db c = None"
  by (simp_all add: open_trace_def ids_unused_def auto_teaching_db_def known_def moment_for_cycle_def past_row_def get_lock_moment_id_def)

lemma auto_due: "opening_due 1 auto_turn auto_controls ''OPEN'' True False provenance ''a'' ''cycle-1'' auto_teaching_db"
  using auto_accepts auto_controls_clear auto_untraced
  by (simp add: opening_due_def gate_clear_def provenance_codes_def)

lemma auto_reachable: "planner_reachable (ad_planner auto_db)"
  by (simp add: auto_db_def demo_records_reachable)

lemma auto_recorded:
  assumes "plan auto_input = Inr r"
  shows "\<exists>unit. record_planner_cycle demo_prose 1 ''now'' ''turn-1'' (kr_outcome r) [] (Some (kr_trace r)) (ad_planner auto_db) = Inr unit"
  using kernel_recorded(2) [OF assms, of demo_records 1 "''turn-1''" demo_prose "''now''" "[]"] demo_integrity
    planner_reachable_inv [OF demo_records_reachable]
  by (simp add: auto_input_def auto_db_def) (simp add: demo_records_def)

lemma auto_opens:
  obtains r v records db' where "plan auto_input = Inr r" "would_have_selected r = Some ''a''"
    "decide_automatic_teaching demo_prose 1 ''now'' auto_turn (kr_outcome r) (Some (kr_trace r)) auto_controls ''OPEN'' True False None
      auto_db = (Inr (opened_result auto_turn v records), db')"
    "cx_automatic_teaching_enabled (pt_context (kr_trace r)) = True"
    "ad_teaching db' = opened_db ''now'' auto_turn auto_controls ''a'' auto_teaching_db"
proof -
  obtain r where r: "plan auto_input = Inr r" "would_have_selected r = Some ''a''"
      "cx_automatic_teaching_enabled (pt_context (kr_trace r)) = True" by (rule auto_plan)
  obtain out db' where run: "decide_automatic_teaching demo_prose 1 ''now'' auto_turn (kr_outcome r) (Some (kr_trace r)) auto_controls
      ''OPEN'' True False None auto_db = (out, db')" by fastforce
  have "pi_decision_cycle_id auto_input = ''cycle-1''" "ad_teaching auto_db = auto_teaching_db"
    by (simp_all add: auto_input_def auto_db_def)
  then show thesis
    using decision_openings [OF r(1) auto_reachable run] auto_recorded [OF r(1)] auto_due r run that by auto
qed


lemma auto_shadow: "run_shadow auto_reads (conversation_priority_view_of ''NONE'') OPEN auto_supply ''cycle-1'' = plan auto_input"
  unfolding run_shadow_def auto_assembled auto_input_def by (simp add: auto_supply_def)

lemma auto_stage:
  obtains turn_plan out db' where "assemble_automatic_turn auto_reads (Some STAGE_BALANCED) auto_supply ''cycle-1'' = Inr turn_plan"
    "decide_automatic_turn demo_prose 1 ''now'' (\<lambda>_. Some ''RESOURCE'') None turn_plan ''turn-1'' ''c'' None
      (bindings_of auto_reads ''cycle-1'') 1 auto_db = (out, db')"
    "\<not> same_openings (ad_teaching auto_db) (ad_teaching db')"
proof -
  obtain r v records db' where r: "plan auto_input = Inr r" "would_have_selected r = Some ''a''"
      "decide_automatic_teaching demo_prose 1 ''now'' auto_turn (kr_outcome r) (Some (kr_trace r)) auto_controls ''OPEN'' True False None
        auto_db = (Inr (opened_result auto_turn v records), db')"
      "cx_automatic_teaching_enabled (pt_context (kr_trace r)) = True"
      "ad_teaching db' = opened_db ''now'' auto_turn auto_controls ''a'' auto_teaching_db" by (rule auto_opens)
  have scope: "sr_scope (resolve_user_intent_scope (tr_constraint_view auto_reads)) = OPEN"
    by (simp add: auto_reads_def resolve_user_intent_scope_def build_view_def entries_of_type_def)
  have lock: "priority_of_lock (tr_lock_state auto_reads) = Inr (conversation_priority_view_of ''NONE'')"
    by (simp add: auto_reads_def priority_of_lock_def conversation_priority_view_of_def)
  have selected: "selected_of r auto_supply = Inr (Some auto_proposal)"
    using r(2) by (simp add: selected_of_def auto_supply_def) (simp add: auto_proposal_def)
  have budget: "tr_session_budget auto_reads = Some auto_view" by (simp add: auto_reads_def)
  have controls: "turn_controls (Some auto_view) (conversation_priority_view_of ''NONE'') r (Some STAGE_BALANCED) = auto_controls"
    using r(4) by (simp add: turn_controls_def auto_controls_def stage_allows_automatic_def AUTOMATIC_STAGES_def)
  define turn_plan where "turn_plan = \<lparr>atp_run = r, atp_scope = resolve_user_intent_scope (tr_constraint_view auto_reads),
      atp_conversation_priority_view = conversation_priority_view_of ''NONE'', atp_session_budget_view = Some auto_view,
      atp_controls = auto_controls, atp_bindings = bindings_of auto_reads ''cycle-1'', atp_selected = Some auto_proposal\<rparr>"
  have plan: "assemble_automatic_turn auto_reads (Some STAGE_BALANCED) auto_supply ''cycle-1'' = Inr turn_plan"
    unfolding assemble_automatic_turn_def lock scope turn_plan_def budget
    by (simp add: auto_shadow r(1) selected controls)
  have ungated: "\<not> ''CURRENT_USER_ERROR'' \<in> set (origins auto_proposal)" by (simp add: auto_proposal_def)
  have cycle: "dc_decision_cycle_id (bindings_of auto_reads ''cycle-1'') = ''cycle-1''" by (simp add: bindings_of_def)
  have template: "template_of_plan turn_plan ''turn-1'' ''c'' None ''cycle-1'' (\<lambda>_. Some ''RESOURCE'')
      = Inr (Some (automatic_moment_template ''turn-1'' ''c'' None ''cycle-1'' auto_proposal))"
    by (rule auto_template) (simp add: turn_plan_def)
  have "decide_automatic_turn demo_prose 1 ''now'' (\<lambda>_. Some ''RESOURCE'') None turn_plan ''turn-1'' ''c'' None
      (bindings_of auto_reads ''cycle-1'') 1 auto_db = (Inr (opened_result auto_turn v records), db')"
    unfolding decide_automatic_turn_def cycle template using r(3) scope ungated
    by (simp add: turn_plan_def Let_def flip: auto_turn_def)
  moreover have "\<not> same_openings (ad_teaching auto_db) (ad_teaching db')"
    using r(5) opened_changes by (simp add: auto_db_def)
  ultimately show thesis using that plan by blast
qed

end
