(* ===== verification/Automatic_Properties.thy ===== *)
theory Automatic_Properties
  imports Automatic_Demo
begin

text \<open>
  The properties of the automatic decision: when it opens a moment and with what effects, that a decided
  cycle answers the same for ever, and what a whole turn, from its reads to the store, opens and when.
\<close>

section \<open>When a moment opens\<close>

text \<open>
  C28: A decision over a kernel run opens a moment exactly when the run is recorded and selects a candidate,
  the cycle has no earlier Gate trace, the session budget could be read, the provenance leg has no
  objection, every control and fact is healthy with the choice left open and the conversation's lock free,
  and the store accepts the request.  Then exactly one moment in OPENING naming that candidate, its lock and
  its prepared action are added with the stored ALLOW, and the turn goes to teaching; otherwise moments,
  locks and actions are untouched.
\<close>

theorem automatic_opening_exact:
  fixes db :: automatic_db
  assumes "plan inp = Inr r" and "planner_reachable (ad_planner db)"
    and "decide_automatic_teaching prose fence now turn (kr_outcome r) (Some (kr_trace r)) controls scope readable
        gated provenance db = (out, db')"
  defines "t \<equiv> ad_teaching db" and "t' \<equiv> ad_teaching db'"
  shows "if (\<exists>unit. record_planner_cycle prose fence now (tt_turn_id turn) (kr_outcome r) [] (Some (kr_trace r)) (ad_planner db) = Inr unit)
      \<and> (\<exists>c. would_have_selected r = Some c \<and> c \<noteq> [] \<and> store_accepts fence turn controls c t)
      \<and> pi_decision_cycle_id inp \<noteq> [] \<and> \<not> open_trace t (dc_decision_cycle_id (tt_cycle turn))
      \<and> readable \<and> provenance_codes turn gated provenance = [] \<and> controls_clear controls \<and> scope = ''OPEN''
      \<and> get_lock_moment_id t (tt_conversation_id turn) = None
    then \<exists>res row decision action. out = Inr res \<and> \<not> ar_normal_persona_generation res
      \<and> ar_moment_id res = Some (automatic_moment_id (tt_turn_id turn))
      \<and> ar_action_id res = Some (automatic_action_id (tt_turn_id turn))
      \<and> db_moments t' = db_moments t @ [(automatic_moment_id (tt_turn_id turn), row)]
      \<and> Some (mr_candidate_id row) = would_have_selected r \<and> mr_source row = FROM_AUTOMATIC
      \<and> mr_lifecycle_state row = MOMENT_OPENING \<and> mr_conversation_id row = tt_conversation_id turn
      \<and> db_locks t' = db_locks t @ [(tt_conversation_id turn, \<lparr>lk_moment_id = automatic_moment_id (tt_turn_id turn), lk_state_version = 1\<rparr>)]
      \<and> db_actions t' = db_actions t @ [(automatic_action_id (tt_turn_id turn), action)]
      \<and> db_gate_decisions t' = db_gate_decisions t @ [(automatic_gate_decision_id (tt_turn_id turn), decision)]
      \<and> gd_decision decision = ALLOW \<and> gd_reason_codes decision = []
    else same_openings t t'"
proof -
  have conversation: "mr_conversation_id (snd (the (tt_moment turn))) = tt_conversation_id turn"
    if "store_accepts fence turn controls c t" for c
    using that by (auto simp: store_accepts_def moment_template_refusal_def split: option.splits if_splits)
  show ?thesis
    using decision_openings [OF assms(1-3)] conversation
    unfolding opening_due_def gate_clear_def t_def t'_def
    by (auto simp: opened_db_def commit_open_def insert_defs cp2_open_request_def moment_of_template_def stamp_moment_def
        open_decision_def opened_result_def LOCK_STATE_VERSION_AT_OPEN_def Let_def split: if_splits)
qed

theorem automatic_opening_exact_witness:
  "\<exists>r out db' row. plan auto_input = Inr r
    \<and> decide_automatic_teaching demo_prose 1 ''now'' auto_turn (kr_outcome r) (Some (kr_trace r)) auto_controls ''OPEN''
        True False None auto_db = (out, db')
    \<and> db_moments (ad_teaching db') = db_moments auto_teaching_db @ [(''tm-turn-1-automatic'', row)]"
proof -
  obtain r v records db' where r: "plan auto_input = Inr r" "would_have_selected r = Some ''a''"
      "decide_automatic_teaching demo_prose 1 ''now'' auto_turn (kr_outcome r) (Some (kr_trace r)) auto_controls ''OPEN'' True False None
        auto_db = (Inr (opened_result auto_turn v records), db')" by (rule auto_opens)
  have ids: "pi_decision_cycle_id auto_input = ''cycle-1''" "ad_teaching auto_db = auto_teaching_db"
      "automatic_moment_id ''turn-1'' = ''tm-turn-1-automatic''"
    by (simp_all add: auto_input_def auto_db_def automatic_moment_id_def)
  have "provenance_codes auto_turn False None = []" by (simp add: provenance_codes_def)
  then show ?thesis
    using automatic_opening_exact [OF r(1) auto_reachable r(3)] auto_recorded [OF r(1)] r auto_accepts auto_controls_clear auto_untraced
    by (auto simp: ids)
qed

section \<open>Coming back\<close>

text \<open>
  C30: A cycle is decided once: after a decision that reached the Gate (or was refused before it), deciding the
  cycle again, whatever the controls, the scope, the budget, the provenance and the clock say by then, gives
  the same verdict, moment and course of the turn and writes nothing; only the action is not announced again.
\<close>

theorem automatic_reentry_replays:
  assumes "planner_reachable (ad_planner db)" and "ids_unused turn (ad_teaching db)"
    and "decide_automatic_teaching prose fence now turn out trace controls scope readable gated provenance db = (Inr res, db')"
    and "ar_gate_verdict res \<noteq> None"
  shows "decide_automatic_teaching prose fence now' turn out trace controls' scope' readable' gated' provenance' db'
    = (Inr (res\<lparr>ar_action_id := None\<rparr>), db')"
proof -
  from assms(3) obtain records planner
    where rec: "record_planner_cycle prose fence now (tt_turn_id turn) out [] trace (ad_planner db) = Inr (records, planner)"
    by (auto simp: decide_automatic_teaching_def split: sum.splits)
  from assms(3,4) rec obtain c where c: "selected_candidate records = Some c"
    and run: "decide_selected fence now turn controls scope readable gated provenance c records (db\<lparr>ad_planner := planner\<rparr>)
      = (Inr res, db')"
    by (auto simp: decide_automatic_teaching_def ordinary_turn_def split: option.splits)
  have s: "settled turn records res (ad_teaching db')" "ad_planner db' = planner"
    using selected_settled [OF _ run] assms(2) by simp_all
  have "record_planner_cycle prose fence now' (tt_turn_id turn) out [] trace (ad_planner db') = Inr (records, ad_planner db')"
    using record_runs_current(4) [OF assms(1) rec] s(2) by simp
  then show ?thesis
    using settled_replays [OF s(1)] c by (simp add: decide_automatic_teaching_def)
qed

theorem automatic_reentry_replays_witness:
  "\<exists>r res db'. plan auto_input = Inr r \<and> ar_moment_id res = Some ''tm-turn-1-automatic''
    \<and> decide_automatic_teaching demo_prose 1 ''later'' auto_turn (kr_outcome r) (Some (kr_trace r))
        (auto_controls\<lparr>ctl_automatic_teaching_enabled := False\<rparr>) ''JUST_CHAT'' False True None db' = (Inr res, db')"
proof -
  obtain r v records db' where r: "plan auto_input = Inr r" "would_have_selected r = Some ''a''"
      "decide_automatic_teaching demo_prose 1 ''now'' auto_turn (kr_outcome r) (Some (kr_trace r)) auto_controls ''OPEN'' True False None
        auto_db = (Inr (opened_result auto_turn v records), db')" by (rule auto_opens)
  have "ids_unused auto_turn (ad_teaching auto_db)" by (simp add: auto_db_def auto_untraced)
  from automatic_reentry_replays [OF auto_reachable this r(3)] r(1) show ?thesis
    by (intro exI [of _ r] exI [of _ "(opened_result auto_turn v records)\<lparr>ar_action_id := None\<rparr>"] exI [of _ db'])
      (simp add: opened_result_def automatic_moment_id_def)
qed

section \<open>From the reads to the store\<close>

lemma intent_scope_word_OPEN: "intent_scope_word s = ''OPEN'' \<longleftrightarrow> s = OPEN"
  by (cases s) simp_all

lemma turn_controls_clear:
  assumes "controls_clear (turn_controls (Some view) priority run stage)"
  shows "stage_allows_automatic stage \<and> cx_automatic_teaching_enabled (pt_context (kr_trace run))
    \<and> \<not> 0 < sb_cooldown_remaining view \<and> (\<forall>p. priority = Some p \<longrightarrow> cp_flow_priority p \<noteq> FLOW_PROTECTED)"
  using assms by (auto simp: controls_clear_def turn_controls_def derived_controls_def automatic_controls_of_def Let_def)

lemma assembled_plan:
  assumes "assemble_automatic_turn reads stage supply cycle_id = Inr turn_plan"
  obtains priority where "priority_of_lock (tr_lock_state reads) = Inr priority"
    and "run_shadow reads priority (sr_scope (resolve_user_intent_scope (tr_constraint_view reads))) supply cycle_id = Inr (atp_run turn_plan)"
    and "selected_of (atp_run turn_plan) supply = Inr (atp_selected turn_plan)"
    and "atp_controls turn_plan = turn_controls (tr_session_budget reads) priority (atp_run turn_plan) stage"
    and "atp_session_budget_view turn_plan = tr_session_budget reads"
    and "atp_scope turn_plan = resolve_user_intent_scope (tr_constraint_view reads)"
  using assms by (auto simp: assemble_automatic_turn_def result_simps)

lemma selected_of_Some:
  assumes "selected_of run supply = Inr selected" and "would_have_selected run = Some c"
  obtains p where "selected = Some p" "p \<in> set (cs_proposals supply)" "candidate_id p = c"
  using assms by (auto simp: selected_of_def find_Some_iff split: option.splits)

text \<open>
  C29: When a turn opens a moment automatically, end to end: the rollout stage and the teaching policy allow
  automatic teaching, the latest constraints leave the choice to the runtime, the turn's reads saw no teaching
  in progress and a readable budget, the moment is for the focus of a supplied proposal the kernel selected,
  and, when the budget is the store's own, no automatic moment of the conversation was opened in the minute
  before the instant it was read at.
\<close>

theorem automatic_turn_opens_when_due:
  assumes turn_plan: "assemble_automatic_turn reads stage supply cycle_id = Inr turn_plan"
    and "planner_reachable (ad_planner db)"
    and run: "decide_automatic_turn prose fence now target_type_of provenance turn_plan turn_id conversation persona
        cycle epoch db = (out, db')"
    and "\<not> same_openings (ad_teaching db) (ad_teaching db')"
  shows "stage_allows_automatic stage \<and> cx_automatic_teaching_enabled (pt_context (kr_trace (atp_run turn_plan)))
    \<and> sr_scope (resolve_user_intent_scope (tr_constraint_view reads)) = OPEN
    \<and> tr_lock_state reads \<in> {None, Some ''NONE''} \<and> get_lock_moment_id (ad_teaching db) conversation = None
    \<and> (\<exists>p row. p \<in> set (cs_proposals supply) \<and> would_have_selected (atp_run turn_plan) = Some (candidate_id p)
        \<and> db_moments (ad_teaching db') = db_moments (ad_teaching db) @ [(automatic_moment_id turn_id, row)]
        \<and> mr_candidate_id row = candidate_id p \<and> mr_focus_target_id row = focus_target p)
    \<and> (\<exists>view. tr_session_budget reads = Some view
        \<and> (\<forall>env policy as_of. get_session_budget_view env policy conversation as_of (ad_teaching db) = Inr view \<longrightarrow>
            (\<exists>instant. parse_instant env as_of ''as_of'' = Inr instant
              \<and> (\<forall>x \<in> set (automatic_rows conversation (db_moments (ad_teaching db))).
                  \<exists>opened. opened_instant env x = Some opened
                    \<and> (opened \<le> instant_of instant \<longrightarrow> 60000000 \<le> instant_of instant - opened)))))"
proof -
  obtain priority where p: "priority_of_lock (tr_lock_state reads) = Inr priority"
      "run_shadow reads priority (sr_scope (resolve_user_intent_scope (tr_constraint_view reads))) supply cycle_id = Inr (atp_run turn_plan)"
      "selected_of (atp_run turn_plan) supply = Inr (atp_selected turn_plan)"
      "atp_controls turn_plan = turn_controls (tr_session_budget reads) priority (atp_run turn_plan) stage"
      "atp_session_budget_view turn_plan = tr_session_budget reads"
      "atp_scope turn_plan = resolve_user_intent_scope (tr_constraint_view reads)"
    using turn_plan by (rule assembled_plan)
  from run assms(4) obtain template where template: "template_of_plan turn_plan turn_id conversation persona
      (dc_decision_cycle_id cycle) target_type_of = Inr template"
    by (auto simp: decide_automatic_turn_def split: sum.splits)
  define turn where "turn = \<lparr>tt_turn_id = turn_id, tt_conversation_id = conversation, tt_persona_id = persona,
      tt_cycle = cycle, tt_moment = template, tt_owner_epoch = epoch\<rparr>"
  define gated where "gated = (case atp_selected turn_plan of None \<Rightarrow> False | Some p \<Rightarrow> ''CURRENT_USER_ERROR'' \<in> set (origins p))"
  obtain out' where decided: "decide_automatic_teaching prose fence now turn (kr_outcome (atp_run turn_plan))
      (Some (kr_trace (atp_run turn_plan))) (atp_controls turn_plan) (intent_scope_word (sr_scope (atp_scope turn_plan)))
      (atp_session_budget_view turn_plan \<noteq> None) gated provenance db = (out', db')"
    using run template by (auto simp: decide_automatic_turn_def Let_def turn_def gated_def prod_eq_iff)
  obtain c v records where c: "would_have_selected (atp_run turn_plan) = Some c"
    and due: "opening_due fence turn (atp_controls turn_plan) (intent_scope_word (sr_scope (atp_scope turn_plan)))
        (atp_session_budget_view turn_plan \<noteq> None) gated provenance c cycle_id (ad_teaching db)"
    and opened: "ad_teaching db' = opened_db now turn (atp_controls turn_plan) c (ad_teaching db)"
    using decision_openings [OF p(2) [unfolded run_shadow_def] assms(2) decided] assms(4) by (auto split: if_splits)
  from due have clear: "controls_clear (atp_controls turn_plan)" and scope: "sr_scope (atp_scope turn_plan) = OPEN"
    and lock: "get_lock_moment_id (ad_teaching db) conversation = None" and readable: "tr_session_budget reads \<noteq> None"
    by (simp_all add: opening_due_def gate_clear_def intent_scope_word_OPEN turn_def p)
  obtain view where view: "tr_session_budget reads = Some view" using readable by blast
  note cl = turn_controls_clear [OF clear [unfolded p(4) view]]
  obtain q where q: "atp_selected turn_plan = Some q" "q \<in> set (cs_proposals supply)" "candidate_id q = c"
    by (rule selected_of_Some [OF p(3) c])
  have row: "template = Some (automatic_moment_template turn_id conversation persona (dc_decision_cycle_id cycle) q)"
    using template q by (auto simp: template_of_plan_def moment_template_of_def result_simps split: option.splits)
  have free: "tr_lock_state reads \<in> {None, Some ''NONE''}"
    using p(1) cl by (auto simp: priority_of_lock_def conversation_priority_view_of_def split: option.splits if_splits)
  have spaced: "\<exists>instant. parse_instant env as_of ''as_of'' = Inr instant
      \<and> (\<forall>x \<in> set (automatic_rows conversation (db_moments (ad_teaching db))).
          \<exists>opened. opened_instant env x = Some opened \<and> (opened \<le> instant_of instant \<longrightarrow> 60000000 \<le> instant_of instant - opened))"
    if budget: "get_session_budget_view env policy conversation as_of (ad_teaching db) = Inr view" for env policy as_of
  proof -
    have rows: "set (automatic_rows conversation (list_moments_for_conversation (ad_teaching db) conversation))
        = set (automatic_rows conversation (db_moments (ad_teaching db)))"
      by (auto simp: automatic_rows_def list_moments_for_conversation_def)
    from budget obtain profile where "session_budget_view_of env conversation as_of profile
        (list_moments_for_conversation (ad_teaching db) conversation) = Inr view"
      by (auto simp: get_session_budget_view_def split: option.splits sum.splits)
    then show ?thesis
      by (rule cooldown_of_view) (use cl rows in \<open>force simp: not_less\<close>)
  qed
  have "\<exists>p row. p \<in> set (cs_proposals supply) \<and> would_have_selected (atp_run turn_plan) = Some (candidate_id p)
        \<and> db_moments (ad_teaching db') = db_moments (ad_teaching db) @ [(automatic_moment_id turn_id, row)]
        \<and> mr_candidate_id row = candidate_id p \<and> mr_focus_target_id row = focus_target p"
    using q c row
    by (auto simp: opened opened_db_def commit_open_moments cp2_open_request_def turn_def moment_of_template_def
        stamp_moment_def automatic_moment_template_def Let_def)
  with cl scope lock free spaced view show ?thesis by (auto simp: p)
qed

theorem automatic_turn_opens_when_due_witness:
  "\<exists>turn_plan out db' row. assemble_automatic_turn auto_reads (Some STAGE_BALANCED) auto_supply ''cycle-1'' = Inr turn_plan
    \<and> decide_automatic_turn demo_prose 1 ''now'' (\<lambda>_. Some ''RESOURCE'') None turn_plan ''turn-1'' ''c'' None
        (bindings_of auto_reads ''cycle-1'') 1 auto_db = (out, db')
    \<and> db_moments (ad_teaching db') = db_moments (ad_teaching auto_db) @ [(automatic_moment_id ''turn-1'', row)]"
proof -
  obtain turn_plan out db' where run: "assemble_automatic_turn auto_reads (Some STAGE_BALANCED) auto_supply ''cycle-1'' = Inr turn_plan"
    "decide_automatic_turn demo_prose 1 ''now'' (\<lambda>_. Some ''RESOURCE'') None turn_plan ''turn-1'' ''c'' None
      (bindings_of auto_reads ''cycle-1'') 1 auto_db = (out, db')"
    "\<not> same_openings (ad_teaching auto_db) (ad_teaching db')" by (rule auto_stage)
  then show ?thesis
    using automatic_turn_opens_when_due [OF run(1) auto_reachable run(2,3)] by blast
qed

end
