(* ===== verification/Delivery_Records.thy ===== *)
theory Delivery_Records
  imports Prelude Python_Text "HOL-Library.Sublist"
begin

text \<open>
  \<^verbatim>\<open>elc/runtime/delivery_records.py\<close>, \<^verbatim>\<open>elc/runtime/exposure_reconciliation.py\<close> and
  \<^verbatim>\<open>elc/platform/db/delivery_store.py\<close>: the five delivery tables of \<^verbatim>\<open>migrations/0018\<close> as typed rows, their
  writes with the replay, advance and refinement rules, the exposure estimate a delivery leaves and what
  a render acknowledgment may make of it, and the coordinator's two entries over them.  The parent table
  is the list of generation actions with their owner epochs; the reason code arrays are lists.
\<close>

section \<open>Words\<close>

definition DELIVERY_STATE_WORDS :: "string list" where
  "DELIVERY_STATE_WORDS = [''NOT_SENT'', ''SENDING'', ''SENT_PARTIAL'', ''SENT_COMPLETE'', ''FAILED'', ''CANCELLED'']"

definition EXPOSURE_CERTAINTY_WORDS :: "string list" where
  "EXPOSURE_CERTAINTY_WORDS = [''CONFIRMED_RENDERED'', ''SERVER_SENT_UNCONFIRMED'', ''UNKNOWN'']"

definition EXPOSURE_LEVEL_WORDS :: "string list" where
  "EXPOSURE_LEVEL_WORDS = [''NONE'', ''PARTIAL'', ''FULL'']"

definition EXPOSURE_WORD_COLUMNS :: "string list" where
  "EXPOSURE_WORD_COLUMNS = [''exposure_level'', ''max_possible_exposure'', ''confirmed_exposure'']"

text \<open>A refusal names the column.\<close>

definition word_refusal :: "string \<Rightarrow> string \<Rightarrow> string list \<Rightarrow> string option" where
  "word_refusal column word ws = (if word \<in> set ws then None else Some column)"

definition state_word_refusal :: "string \<Rightarrow> string option" where
  "state_word_refusal state = word_refusal ''state'' state DELIVERY_STATE_WORDS"

definition certainty_word_refusal :: "string \<Rightarrow> string option" where
  "certainty_word_refusal certainty = word_refusal ''certainty'' certainty EXPOSURE_CERTAINTY_WORDS"

definition exposure_word_refusal :: "string \<Rightarrow> string \<Rightarrow> string option" where
  "exposure_word_refusal column word =
    (if column \<notin> set EXPOSURE_WORD_COLUMNS then Some column else word_refusal column word EXPOSURE_LEVEL_WORDS)"

section \<open>Rows\<close>

record server_delivery_record =
  sd_action_id :: string
  sd_assistant_turn_id :: string
  sd_state :: string
  sd_sent_prefix :: string
  sd_last_chunk_seq :: int
  sd_started_at :: string
  sd_terminal_at :: "string option"

record client_render_ack =
  ca_action_id :: string
  ca_assistant_turn_id :: string
  ca_rendered_chunk_seq :: int
  ca_rendered_text_hash :: string
  ca_acked_at :: string
  ca_final_rendered :: bool

record exposure_estimate =
  ee_action_id :: string
  ee_certainty :: string
  ee_exposure_level :: string
  ee_max_possible_exposure :: string
  ee_confirmed_exposure :: string
  ee_derivation_reason :: string

datatype validator_decision = VALIDATOR_ACCEPT | VALIDATOR_RETRY | VALIDATOR_FALLBACK | VALIDATOR_ABORT_DELIVERY

record validator_result =
  vr_validator_result_id :: string
  vr_action_id :: string
  vr_attempt_no :: int
  vr_decision :: validator_decision
  vr_reason_codes :: "string list"
  vr_validator_version :: string
  vr_created_at :: "string option"

record pre_delivery_guard_result =
  pg_pre_delivery_guard_result_id :: string
  pg_action_id :: string
  pg_decision :: string
  pg_reason_codes :: "string list"
  pg_checked_lineage_version :: string
  pg_created_at :: string

section \<open>The estimate a delivery leaves\<close>

definition ACK_CERTAINTY_LADDER :: "string list" where
  "ACK_CERTAINTY_LADDER = [''UNKNOWN'', ''SERVER_SENT_UNCONFIRMED'', ''CONFIRMED_RENDERED'']"

definition EXPOSURE_LEVEL_LADDER :: "string list" where
  "EXPOSURE_LEVEL_LADDER = [''NONE'', ''PARTIAL'', ''FULL'']"

definition DELIVERY_STATES_WITH_AN_ESTIMATE :: "string list" where
  "DELIVERY_STATES_WITH_AN_ESTIMATE = [''SENT_COMPLETE'', ''SENT_PARTIAL'', ''FAILED'', ''CANCELLED'']"

text \<open>The \<^verbatim>\<open>ValueError\<close>s name what they refuse.\<close>

datatype exposure_error = NotACertainty string | NotAnExposureWord string | NotATerminalState string
  | AckNamesOtherAction

definition certainty_rank :: "string \<Rightarrow> exposure_error + nat" where
  "certainty_rank word = (case index_of ACK_CERTAINTY_LADDER word of None \<Rightarrow> Inl (NotACertainty word) | Some i \<Rightarrow> Inr i)"

definition exposure_rank :: "string \<Rightarrow> exposure_error + nat" where
  "exposure_rank word = (case index_of EXPOSURE_LEVEL_LADDER word of None \<Rightarrow> Inl (NotAnExposureWord word) | Some i \<Rightarrow> Inr i)"

text \<open>\<^verbatim>\<open>ladder.index\<close> raises \<^verbatim>\<open>ValueError\<close> off the ladder.\<close>

definition higher_word :: "(string \<Rightarrow> exposure_error + nat) \<Rightarrow> string \<Rightarrow> string \<Rightarrow> exposure_error + string" where
  "higher_word rank word lower =
    bindE (rank word) (\<lambda>i. bindE (rank lower) (\<lambda>j. Inr (if i < j then lower else word)))"

record delivery_exposure_facts =
  df_terminal_state :: "string option"
  df_sent_prefix :: string
  df_send_attempted :: bool
  df_full_text_length :: "nat option"
  df_released_prefix :: "string option"

definition streamed_facts :: "string \<Rightarrow> string \<Rightarrow> string \<Rightarrow> string \<Rightarrow> delivery_exposure_facts" where
  "streamed_facts terminal_state sent_prefix validated_text released_prefix =
    \<lparr>df_terminal_state = Some terminal_state, df_sent_prefix = sent_prefix, df_send_attempted = True,
     df_full_text_length = Some (length validated_text), df_released_prefix = Some released_prefix\<rparr>"

definition buffered_facts :: "string \<Rightarrow> string \<Rightarrow> delivery_exposure_facts" where
  "buffered_facts delivered state =
    \<lparr>df_terminal_state = Some state, df_sent_prefix = delivered, df_send_attempted = True,
     df_full_text_length = None, df_released_prefix = None\<rparr>"

definition sent_length :: "delivery_exposure_facts \<Rightarrow> nat" where
  "sent_length facts = length (df_sent_prefix facts)"

definition covers_the_whole_text :: "delivery_exposure_facts \<Rightarrow> bool" where
  "covers_the_whole_text facts \<longleftrightarrow> (case df_full_text_length facts of None \<Rightarrow> True | Some n \<Rightarrow> n \<le> sent_length facts)"

definition sent_level :: "delivery_exposure_facts \<Rightarrow> string" where
  "sent_level facts =
    (if df_sent_prefix facts = [] then ''NONE''
     else if df_terminal_state facts = Some ''SENT_COMPLETE'' \<and> covers_the_whole_text facts then ''FULL''
     else ''PARTIAL'')"

definition released_level :: "delivery_exposure_facts \<Rightarrow> string" where
  "released_level facts =
    (case df_released_prefix facts of
       None \<Rightarrow> sent_level facts
     | Some released \<Rightarrow>
         if released = [] then sent_level facts
         else (case df_full_text_length facts of
             None \<Rightarrow> ''FULL'' | Some n \<Rightarrow> if n \<le> length released then ''FULL'' else ''PARTIAL''))"

definition NO_ACK :: string where
  "NO_ACK = ''; no render ack''"

definition ACK_MARKERS :: "string list" where
  "ACK_MARKERS = [NO_ACK, ''; render ack'']"

definition released_beyond_record :: "delivery_exposure_facts \<Rightarrow> string" where
  "released_beyond_record facts =
    (let released = (case df_released_prefix facts of None \<Rightarrow> 0 | Some s \<Rightarrow> length s)
     in ''; the client boundary may hold more than the record shows ('' @
        (case df_full_text_length facts of
           None \<Rightarrow> ''released '' @ nat_text released @ '' chars''
         | Some n \<Rightarrow> ''released '' @ nat_text released @ '' of '' @ nat_text n @ '' chars'') @ '')'')"

definition exposure_reason :: "delivery_exposure_facts \<Rightarrow> string \<Rightarrow> string \<Rightarrow> string" where
  "exposure_reason facts level highest =
    (if sent_length facts = 0 then ''nothing was sent''
     else case df_full_text_length facts of
       None \<Rightarrow> ''sent '' @ nat_text (sent_length facts) @ '' chars''
     | Some n \<Rightarrow> ''sent '' @ nat_text (sent_length facts) @ '' of '' @ nat_text n @ '' chars'')
    @ (case df_terminal_state facts of
         None \<Rightarrow> ''; no server delivery record''
       | Some state \<Rightarrow>
           if state = ''SENT_COMPLETE''
           then (if level = ''FULL'' then [] else ''; the sent prefix is short of the validated text'')
           else if state = ''SENT_PARTIAL'' then ''; partial send''
           else if state = ''CANCELLED'' then ''; the send was cancelled''
           else if state = ''FAILED'' then ''; the delivery failed''
           else ''; the delivery did not complete'')
    @ (if highest = level then [] else released_beyond_record facts) @ NO_ACK"

definition exposure_estimate_of :: "string \<Rightarrow> delivery_exposure_facts \<Rightarrow> exposure_error + exposure_estimate" where
  "exposure_estimate_of action_id facts =
    bindE (case df_terminal_state facts of
        None \<Rightarrow> Inr ()
      | Some state \<Rightarrow> checkE (state \<in> set DELIVERY_STATES_WITH_AN_ESTIMATE) (NotATerminalState state)) (\<lambda>_.
    bindE (higher_word exposure_rank (sent_level facts) (released_level facts)) (\<lambda>highest.
      Inr \<lparr>ee_action_id = action_id,
        ee_certainty = (if df_send_attempted facts then ''SERVER_SENT_UNCONFIRMED'' else ''UNKNOWN''),
        ee_exposure_level = sent_level facts, ee_max_possible_exposure = highest, ee_confirmed_exposure = ''NONE'',
        ee_derivation_reason = exposure_reason facts (sent_level facts) highest\<rparr>))"

section \<open>What an acknowledgment makes of it\<close>

text \<open>\<^verbatim>\<open>str.find\<close>: the index of the first occurrence.\<close>

fun text_find :: "string \<Rightarrow> string \<Rightarrow> nat option" where
  "text_find needle [] = (if needle = [] then Some 0 else None)"
| "text_find needle (c # s) = (if prefix needle (c # s) then Some 0 else map_option Suc (text_find needle s))"

fun cut_at_marker :: "string list \<Rightarrow> string \<Rightarrow> string" where
  "cut_at_marker [] reason = reason"
| "cut_at_marker (m # ms) reason = (case text_find m reason of Some i \<Rightarrow> take i reason | None \<Rightarrow> cut_at_marker ms reason)"

definition base_reason :: "string \<Rightarrow> string" where
  "base_reason reason = cut_at_marker ACK_MARKERS reason"

definition refined_reason :: "exposure_estimate \<Rightarrow> client_render_ack \<Rightarrow> string" where
  "refined_reason estimate ack =
    base_reason (ee_derivation_reason estimate) @ ''; render ack for chunk '' @ int_text (ca_rendered_chunk_seq ack) @
    (if ca_final_rendered ack then '' (final): everything the server sent was rendered''
     else '': the client rendered part of what was sent'')"

definition refine_with_ack :: "exposure_estimate \<Rightarrow> client_render_ack \<Rightarrow> exposure_error + exposure_estimate" where
  "refine_with_ack estimate ack =
    (if ca_action_id ack \<noteq> ee_action_id estimate then Inl AckNamesOtherAction
     else bindE (exposure_rank (ee_exposure_level estimate)) (\<lambda>level.
       if level = 0 then Inr estimate
       else bindE (higher_word certainty_rank (ee_certainty estimate) ''CONFIRMED_RENDERED'') (\<lambda>certainty.
         bindE (if ca_final_rendered ack
           then higher_word exposure_rank (ee_confirmed_exposure estimate) (ee_max_possible_exposure estimate)
           else Inr (ee_confirmed_exposure estimate)) (\<lambda>confirmed.
           if certainty = ee_certainty estimate \<and> confirmed = ee_confirmed_exposure estimate then Inr estimate
           else Inr (estimate\<lparr>ee_certainty := certainty, ee_confirmed_exposure := confirmed,
             ee_derivation_reason := refined_reason estimate ack\<rparr>)))))"

text \<open>\<^verbatim>\<open>refinement_refusal\<close>: the column a refinement may not move, or a raise off the ladders.\<close>

definition refinement_refusal :: "exposure_estimate \<Rightarrow> exposure_estimate \<Rightarrow> exposure_error + string option" where
  "refinement_refusal before after =
    (if ee_action_id after \<noteq> ee_action_id before then Inr (Some ''action_id'')
     else if ee_exposure_level before \<noteq> ee_exposure_level after then Inr (Some ''exposure_level'')
     else if ee_max_possible_exposure before \<noteq> ee_max_possible_exposure after then Inr (Some ''max_possible_exposure'')
     else bindE (certainty_rank (ee_certainty after)) (\<lambda>a. bindE (certainty_rank (ee_certainty before)) (\<lambda>b.
       if a < b then Inr (Some ''certainty'')
       else bindE (exposure_rank (ee_confirmed_exposure after)) (\<lambda>c. bindE (exposure_rank (ee_confirmed_exposure before)) (\<lambda>d.
         if c < d then Inr (Some ''confirmed_exposure'') else Inr None)))))"

section \<open>The tables\<close>

record delivery_db =
  dd_newest_epoch :: "int option"
  dd_actions :: "(string \<times> int) list"
  dd_deliveries :: "server_delivery_record list"
  dd_acks :: "client_render_ack list"
  dd_estimates :: "exposure_estimate list"
  dd_validators :: "validator_result list"
  dd_guards :: "pre_delivery_guard_result list"

datatype delivery_error = DeliveryWordRefused string | DeliveryUnstamped | DeliveryConflict
  | DeliveryAdvanceRefused string | DeliveryEstimateMissing | RefinementRefused string
  | DeliveryIntegrityRefused | StaleDeliveryStoreRaised | DeliveryRaised exposure_error | DeliveryFaceMissing

definition require_current_delivery_epoch :: "int \<Rightarrow> delivery_db \<Rightarrow> delivery_error + unit" where
  "require_current_delivery_epoch fence db = checkE (dd_newest_epoch db = Some fence) StaleDeliveryStoreRaised"

definition known_action :: "string \<Rightarrow> delivery_db \<Rightarrow> bool" where
  "known_action action_id db \<longleftrightarrow> action_id \<in> fst ` set (dd_actions db)"

definition read_server_delivery :: "string \<Rightarrow> delivery_db \<Rightarrow> server_delivery_record option" where
  "read_server_delivery action_id db = find (\<lambda>r. sd_action_id r = action_id) (dd_deliveries db)"

definition read_ack :: "string \<Rightarrow> int \<Rightarrow> delivery_db \<Rightarrow> client_render_ack option" where
  "read_ack action_id chunk db = find (\<lambda>r. ca_action_id r = action_id \<and> ca_rendered_chunk_seq r = chunk) (dd_acks db)"

definition read_estimate :: "string \<Rightarrow> delivery_db \<Rightarrow> exposure_estimate option" where
  "read_estimate action_id db = find (\<lambda>r. ee_action_id r = action_id) (dd_estimates db)"

definition read_validator :: "string \<Rightarrow> delivery_db \<Rightarrow> validator_result option" where
  "read_validator result_id db = find (\<lambda>r. vr_validator_result_id r = result_id) (dd_validators db)"

definition read_guard :: "string \<Rightarrow> delivery_db \<Rightarrow> pre_delivery_guard_result option" where
  "read_guard result_id db = find (\<lambda>r. pg_pre_delivery_guard_result_id r = result_id) (dd_guards db)"

section \<open>Writes\<close>

definition same_server_row :: "server_delivery_record \<Rightarrow> server_delivery_record \<Rightarrow> bool" where
  "same_server_row durable submitted \<longleftrightarrow>
    sd_assistant_turn_id durable = sd_assistant_turn_id submitted \<and> sd_state durable = sd_state submitted
    \<and> sd_sent_prefix durable = sd_sent_prefix submitted \<and> sd_last_chunk_seq durable = sd_last_chunk_seq submitted
    \<and> sd_started_at durable = sd_started_at submitted \<and> sd_terminal_at durable = sd_terminal_at submitted"

definition advance_refusal :: "server_delivery_record \<Rightarrow> server_delivery_record \<Rightarrow> string option" where
  "advance_refusal durable submitted =
    (if sd_assistant_turn_id submitted \<noteq> sd_assistant_turn_id durable then Some ''assistant_turn_id''
     else if sd_started_at submitted \<noteq> sd_started_at durable then Some ''started_at''
     else if sd_terminal_at durable \<noteq> None \<and> sd_terminal_at submitted \<noteq> sd_terminal_at durable then Some ''terminal_at''
     else if sd_last_chunk_seq submitted < sd_last_chunk_seq durable then Some ''last_chunk_seq''
     else if \<not> prefix (sd_sent_prefix durable) (sd_sent_prefix submitted) then Some ''sent_prefix''
     else None)"

definition record_server_delivery ::
  "int \<Rightarrow> server_delivery_record \<Rightarrow> delivery_db \<Rightarrow> delivery_error + server_delivery_record \<times> delivery_db" where
  "record_server_delivery fence record db =
    (case state_word_refusal (sd_state record) of
       Some column \<Rightarrow> Inl (DeliveryWordRefused column)
     | None \<Rightarrow> bindE (require_current_delivery_epoch fence db) (\<lambda>_.
         case read_server_delivery (sd_action_id record) db of
           None \<Rightarrow>
             if known_action (sd_action_id record) db
             then Inr (record, db\<lparr>dd_deliveries := dd_deliveries db @ [record]\<rparr>) else Inl DeliveryIntegrityRefused
         | Some durable \<Rightarrow>
             if same_server_row durable record then Inr (durable, db)
             else (case advance_refusal durable record of
                 Some column \<Rightarrow> Inl (DeliveryAdvanceRefused column)
               | None \<Rightarrow> Inr (record, db\<lparr>dd_deliveries :=
                   map (\<lambda>r. if sd_action_id r = sd_action_id record then record else r) (dd_deliveries db)\<rparr>))))"

text \<open>The append faces: replay what is the same, refuse what differs, insert what is new.\<close>

definition insert_or_replay :: "'r option \<Rightarrow> ('r \<Rightarrow> bool) \<Rightarrow> 'r \<Rightarrow> bool \<Rightarrow> 'd \<Rightarrow> 'd \<Rightarrow> delivery_error + 'r \<times> 'd" where
  "insert_or_replay durable same row integrity inserted db =
    (case durable of
       Some d \<Rightarrow> if same d then Inr (d, db) else Inl DeliveryConflict
     | None \<Rightarrow> if integrity then Inr (row, inserted) else Inl DeliveryIntegrityRefused)"

definition same_ack :: "client_render_ack \<Rightarrow> client_render_ack \<Rightarrow> bool" where
  "same_ack durable submitted \<longleftrightarrow>
    ca_assistant_turn_id durable = ca_assistant_turn_id submitted
    \<and> ca_rendered_text_hash durable = ca_rendered_text_hash submitted
    \<and> ca_acked_at durable = ca_acked_at submitted \<and> ca_final_rendered durable = ca_final_rendered submitted"

definition append_client_render_ack ::
  "int \<Rightarrow> client_render_ack \<Rightarrow> delivery_db \<Rightarrow> delivery_error + client_render_ack \<times> delivery_db" where
  "append_client_render_ack fence ack db =
    bindE (require_current_delivery_epoch fence db) (\<lambda>_.
      insert_or_replay (read_ack (ca_action_id ack) (ca_rendered_chunk_seq ack) db) (\<lambda>d. same_ack d ack) ack
        (known_action (ca_action_id ack) db) (db\<lparr>dd_acks := dd_acks db @ [ack]\<rparr>) db)"

definition append_validator_result ::
  "int \<Rightarrow> validator_result \<Rightarrow> delivery_db \<Rightarrow> delivery_error + validator_result \<times> delivery_db" where
  "append_validator_result fence result db =
    (if vr_created_at result = None then Inl DeliveryUnstamped
     else bindE (require_current_delivery_epoch fence db) (\<lambda>_.
       insert_or_replay (read_validator (vr_validator_result_id result) db) (\<lambda>d. d = result) result
         (known_action (vr_action_id result) db) (db\<lparr>dd_validators := dd_validators db @ [result]\<rparr>) db))"

definition append_pre_delivery_guard_result ::
  "int \<Rightarrow> pre_delivery_guard_result \<Rightarrow> delivery_db \<Rightarrow> delivery_error + pre_delivery_guard_result \<times> delivery_db" where
  "append_pre_delivery_guard_result fence result db =
    bindE (require_current_delivery_epoch fence db) (\<lambda>_.
      insert_or_replay (read_guard (pg_pre_delivery_guard_result_id result) db) (\<lambda>d. d = result) result
        (known_action (pg_action_id result) db \<and> pg_decision result \<in> {''VALID'', ''INVALIDATE_ACTION''})
        (db\<lparr>dd_guards := dd_guards db @ [result]\<rparr>) db)"

definition estimate_words_refusal :: "exposure_estimate \<Rightarrow> string option" where
  "estimate_words_refusal estimate =
    (case certainty_word_refusal (ee_certainty estimate) of Some c \<Rightarrow> Some c
     | None \<Rightarrow> (case exposure_word_refusal ''exposure_level'' (ee_exposure_level estimate) of Some c \<Rightarrow> Some c
     | None \<Rightarrow> (case exposure_word_refusal ''max_possible_exposure'' (ee_max_possible_exposure estimate) of Some c \<Rightarrow> Some c
     | None \<Rightarrow> exposure_word_refusal ''confirmed_exposure'' (ee_confirmed_exposure estimate))))"

definition record_initial_exposure_estimate ::
  "int \<Rightarrow> exposure_estimate \<Rightarrow> delivery_db \<Rightarrow> delivery_error + exposure_estimate \<times> delivery_db" where
  "record_initial_exposure_estimate fence estimate db =
    (case estimate_words_refusal estimate of
       Some column \<Rightarrow> Inl (DeliveryWordRefused column)
     | None \<Rightarrow> bindE (require_current_delivery_epoch fence db) (\<lambda>_.
         insert_or_replay (read_estimate (ee_action_id estimate) db) (\<lambda>d. d = estimate) estimate
           (known_action (ee_action_id estimate) db) (db\<lparr>dd_estimates := dd_estimates db @ [estimate]\<rparr>) db))"

definition moved_estimate :: "exposure_estimate \<Rightarrow> exposure_estimate \<Rightarrow> exposure_estimate" where
  "moved_estimate submitted durable = durable\<lparr>ee_certainty := ee_certainty submitted,
     ee_confirmed_exposure := ee_confirmed_exposure submitted,
     ee_derivation_reason := ee_derivation_reason submitted\<rparr>"

definition refine_exposure_estimate ::
  "int \<Rightarrow> exposure_estimate \<Rightarrow> delivery_db \<Rightarrow> delivery_error + exposure_estimate \<times> delivery_db" where
  "refine_exposure_estimate fence estimate db =
    (case estimate_words_refusal estimate of
       Some column \<Rightarrow> Inl (DeliveryWordRefused column)
     | None \<Rightarrow> bindE (require_current_delivery_epoch fence db) (\<lambda>_.
         case read_estimate (ee_action_id estimate) db of
           None \<Rightarrow> Inl DeliveryEstimateMissing
         | Some durable \<Rightarrow>
             if durable = estimate then Inr (durable, db)
             else bindE (wrapE DeliveryRaised (refinement_refusal durable estimate)) (\<lambda>illegal.
               case illegal of
                 Some column \<Rightarrow> Inl (RefinementRefused column)
               | None \<Rightarrow> Inr (moved_estimate estimate durable, db\<lparr>dd_estimates :=
                   map (\<lambda>e. if ee_action_id e = ee_action_id estimate then moved_estimate estimate e else e)
                     (dd_estimates db)\<rparr>))))"

section \<open>Reads\<close>

definition get_server_delivery_record :: "string \<Rightarrow> delivery_db \<Rightarrow> server_delivery_record option" where
  "get_server_delivery_record action_id db = read_server_delivery action_id db"

definition unterminal_delivery_records :: "int \<Rightarrow> delivery_db \<Rightarrow> string list" where
  "unterminal_delivery_records current_epoch db =
    map sd_action_id (sort_key (\<lambda>r. (sd_started_at r, sd_action_id r))
      (filter (\<lambda>r. sd_terminal_at r = None \<and> (case map_of (dd_actions db) (sd_action_id r) of
         None \<Rightarrow> False | Some epoch \<Rightarrow> epoch \<noteq> current_epoch)) (dd_deliveries db)))"

definition get_exposure_estimate :: "string \<Rightarrow> delivery_db \<Rightarrow> exposure_estimate option" where
  "get_exposure_estimate action_id db = read_estimate action_id db"

definition list_client_render_acks :: "string \<Rightarrow> delivery_db \<Rightarrow> client_render_ack list" where
  "list_client_render_acks action_id db =
    sort_key ca_rendered_chunk_seq (filter (\<lambda>r. ca_action_id r = action_id) (dd_acks db))"

definition list_validator_results :: "string \<Rightarrow> delivery_db \<Rightarrow> validator_result list" where
  "list_validator_results action_id db =
    sort_key (\<lambda>r. (vr_attempt_no r, vr_validator_result_id r)) (filter (\<lambda>r. vr_action_id r = action_id) (dd_validators db))"

definition list_pre_delivery_guard_results :: "string \<Rightarrow> delivery_db \<Rightarrow> pre_delivery_guard_result list" where
  "list_pre_delivery_guard_results action_id db =
    sort_key (\<lambda>r. (pg_created_at r, pg_pre_delivery_guard_result_id r)) (filter (\<lambda>r. pg_action_id r = action_id) (dd_guards db))"

section \<open>The coordinator's entries\<close>

text \<open>
  \<^verbatim>\<open>runtime/controller.py\<close>: the initial estimate of a delivery, and an acknowledgment with the refinement it
  causes.  A note is the failure that was reported instead of raised; joined notes are kept in order.
\<close>

datatype estimate_note = EstimateUnderivable exposure_error | EstimateWriteRaised delivery_error
  | EstimateWriteRefused delivery_error | EstimateAbsent | RefinementRaised delivery_error | RefinementWriteRefused delivery_error
  | EarlierNote string

definition write_initial_estimate ::
  "bool \<Rightarrow> int \<Rightarrow> string \<Rightarrow> delivery_exposure_facts \<Rightarrow> estimate_note list \<Rightarrow> delivery_db
   \<Rightarrow> exposure_estimate option \<times> estimate_note list \<times> delivery_db" where
  "write_initial_estimate wired fence action_id facts note db =
    (if \<not> wired then (None, note, db)
     else case exposure_estimate_of action_id facts of
       Inl e \<Rightarrow> (None, note @ [EstimateUnderivable e], db)
     | Inr estimate \<Rightarrow>
         (case record_initial_exposure_estimate fence estimate db of
            Inl e \<Rightarrow> (None, note @ [if e = StaleDeliveryStoreRaised then EstimateWriteRaised e else EstimateWriteRefused e], db)
          | Inr (written, db') \<Rightarrow> (Some written, note, db')))"

record render_ack_receipt =
  rr_ack :: client_render_ack
  rr_estimate :: "exposure_estimate option"
  rr_refined :: bool
  rr_note :: "estimate_note option"

definition raised_by_refinement :: "delivery_error \<Rightarrow> bool" where
  "raised_by_refinement e \<longleftrightarrow> (case e of StaleDeliveryStoreRaised \<Rightarrow> True | DeliveryRaised f \<Rightarrow> True | _ \<Rightarrow> False)"

definition accept_render_ack ::
  "bool \<Rightarrow> int \<Rightarrow> client_render_ack \<Rightarrow> delivery_db \<Rightarrow> delivery_error + render_ack_receipt \<times> delivery_db" where
  "accept_render_ack wired fence ack db =
    (if \<not> wired then Inl DeliveryFaceMissing
     else bindE (append_client_render_ack fence ack db) (\<lambda>(appended, db1).
       case get_exposure_estimate (ca_action_id ack) db1 of
         None \<Rightarrow> Inr (\<lparr>rr_ack = appended, rr_estimate = None, rr_refined = False, rr_note = Some EstimateAbsent\<rparr>, db1)
       | Some estimate \<Rightarrow>
         (case refine_with_ack estimate appended of
            Inl e \<Rightarrow> Inr (\<lparr>rr_ack = appended, rr_estimate = None, rr_refined = False,
                rr_note = Some (RefinementRaised (DeliveryRaised e))\<rparr>, db1)
          | Inr refined \<Rightarrow>
              if refined = estimate
              then Inr (\<lparr>rr_ack = appended, rr_estimate = Some estimate, rr_refined = False, rr_note = None\<rparr>, db1)
              else (case refine_exposure_estimate fence refined db1 of
                  Inl e \<Rightarrow> Inr (\<lparr>rr_ack = appended, rr_estimate = None, rr_refined = False,
                      rr_note = Some (if raised_by_refinement e then RefinementRaised e else RefinementWriteRefused e)\<rparr>, db1)
                | Inr (written, db2) \<Rightarrow>
                    Inr (\<lparr>rr_ack = appended, rr_estimate = Some written, rr_refined = True, rr_note = None\<rparr>, db2)))))"

end
