(* ===== verification/Delivery_Properties.thy ===== *)
theory Delivery_Properties
  imports Delivery_Records Replayed_Write
begin

text \<open>
  What the delivery rows promise: an appended fact stays as it was appended and replays, the delivery row
  and the exposure estimate only move upward, and any acknowledgments, in any order and however often
  repeated, leave the estimate they entail.
\<close>

section \<open>Replay\<close>

lemma insert_or_replay_Inr [result_simps]:
  "insert_or_replay durable same row ok inserted db = Inr (r, db') \<longleftrightarrow>
    durable = Some r \<and> same r \<and> db' = db \<or> durable = None \<and> ok \<and> r = row \<and> db' = inserted"
  by (auto simp: insert_or_replay_def split: option.splits)

lemma find_snoc_row: "find P (xs @ [x]) = (case find P xs of Some y \<Rightarrow> Some y | None \<Rightarrow> if P x then Some x else None)"
  by (induction xs) auto

lemma find_key_SomeD: "find (\<lambda>r. k r = a) rs = Some r \<Longrightarrow> k r = a"
  by (auto simp: find_Some_iff)

lemma find_update:
  assumes "\<And>r. k (f r) = k r"
  shows "find (\<lambda>r. k r = a) (map (\<lambda>r. if k r = q then f r else r) rs) =
    (if a = q then map_option f (find (\<lambda>r. k r = a) rs) else find (\<lambda>r. k r = a) rs)"
  by (induction rs) (auto simp: assms)

interpretation acks: replayed_write "\<lambda>(a, c) db. Inr (read_ack a c db)" "\<lambda>now ack db. append_client_render_ack fence ack db"
  "\<lambda>ack. (ca_action_id ack, ca_rendered_chunk_seq ack)" same_ack "\<lambda>db. dd_newest_epoch db = Some fence" for fence
  by unfold_locales (auto simp: append_client_render_ack_def require_current_delivery_epoch_def result_simps
      read_ack_def find_snoc_row same_ack_def bindE_checkE)

interpretation validators: replayed_write "\<lambda>i db. Inr (read_validator i db)"
  "\<lambda>now result db. append_validator_result fence result db" vr_validator_result_id
  "\<lambda>d result. d = result \<and> vr_created_at result \<noteq> None" "\<lambda>db. dd_newest_epoch db = Some fence" for fence
  by unfold_locales (auto simp: append_validator_result_def require_current_delivery_epoch_def result_simps
      read_validator_def find_snoc_row bindE_checkE split: if_splits)

interpretation guards: replayed_write "\<lambda>i db. Inr (read_guard i db)"
  "\<lambda>now result db. append_pre_delivery_guard_result fence result db" pg_pre_delivery_guard_result_id
  "\<lambda>d result. d = result" "\<lambda>db. dd_newest_epoch db = Some fence" for fence
  by unfold_locales (auto simp: append_pre_delivery_guard_result_def require_current_delivery_epoch_def result_simps
      read_guard_def find_snoc_row bindE_checkE)

interpretation estimates: replayed_write "\<lambda>a db. Inr (read_estimate a db)"
  "\<lambda>now e db. record_initial_exposure_estimate fence e db" ee_action_id
  "\<lambda>d e. d = e \<and> estimate_words_refusal e = None" "\<lambda>db. dd_newest_epoch db = Some fence" for fence
  by unfold_locales (auto simp: record_initial_exposure_estimate_def require_current_delivery_epoch_def result_simps
      read_estimate_def find_snoc_row bindE_checkE split: option.splits)

lemma same_server_row_eq: "sd_action_id d = sd_action_id r \<Longrightarrow> same_server_row d r \<longleftrightarrow> d = r"
  by (cases d; cases r) (auto simp: same_server_row_def)

lemma record_server_delivery_Inr:
  "record_server_delivery fence r db = Inr (s, db') \<longleftrightarrow>
    state_word_refusal (sd_state r) = None \<and> dd_newest_epoch db = Some fence \<and> s = r
    \<and> (case read_server_delivery (sd_action_id r) db of
        None \<Rightarrow> known_action (sd_action_id r) db \<and> db' = db\<lparr>dd_deliveries := dd_deliveries db @ [r]\<rparr>
      | Some d \<Rightarrow> d = r \<and> db' = db \<or> d \<noteq> r \<and> advance_refusal d r = None
          \<and> db' = db\<lparr>dd_deliveries := map (\<lambda>x. if sd_action_id x = sd_action_id r then r else x) (dd_deliveries db)\<rparr>)"
proof (cases "read_server_delivery (sd_action_id r) db")
  case None
  then show ?thesis
    by (auto simp: record_server_delivery_def require_current_delivery_epoch_def result_simps split: option.splits)
next
  case (Some d)
  then have "same_server_row d r \<longleftrightarrow> d = r"
    by (intro same_server_row_eq) (auto simp: read_server_delivery_def find_Some_iff)
  then show ?thesis
    using Some
    by (auto simp: record_server_delivery_def require_current_delivery_epoch_def result_simps split: option.splits if_splits)
qed

lemma find_replace:
  "find (\<lambda>x. k x = a) (map (\<lambda>x. if k x = k r then r else x) xs) =
    (if a = k r then map_option (\<lambda>_. r) (find (\<lambda>x. k x = a) xs) else find (\<lambda>x. k x = a) xs)"
  by (induction xs) auto

lemma read_after_advance:
  assumes "read_server_delivery (sd_action_id r) db = Some d"
  shows "read_server_delivery a (db\<lparr>dd_deliveries := map (\<lambda>x. if sd_action_id x = sd_action_id r then r else x) (dd_deliveries db)\<rparr>)
    = (if a = sd_action_id r then Some r else read_server_delivery a db)"
  using assms by (simp add: read_server_delivery_def find_replace)

interpretation deliveries: replayed_write "\<lambda>a db. Inr (read_server_delivery a db)"
  "\<lambda>now r db. record_server_delivery fence r db" sd_action_id
  "\<lambda>d r. d = r \<and> state_word_refusal (sd_state r) = None" "\<lambda>db. dd_newest_epoch db = Some fence" for fence
proof unfold_locales
  fix db db' :: delivery_db and now :: string and r s
  assume "dd_newest_epoch db = Some fence" and "record_server_delivery fence r db = Inr (s, db')"
  then show "dd_newest_epoch db' = Some fence \<and> Inr (read_server_delivery (sd_action_id r) db') = Inr (Some s)
      \<and> s = r \<and> state_word_refusal (sd_state r) = None"
    using read_after_advance [of r db]
    by (auto simp: record_server_delivery_Inr read_server_delivery_def find_snoc_row split: option.splits)
next
  fix db :: delivery_db and now :: string and r s
  assume "dd_newest_epoch db = Some fence" and "Inr (read_server_delivery (sd_action_id r) db) = Inr (Some s)"
    and "s = r \<and> state_word_refusal (sd_state r) = None"
  then show "record_server_delivery fence r db = Inr (s, db)"
    by (simp add: record_server_delivery_Inr)
qed

section \<open>Facts only grow\<close>

definition cert_le :: "string \<Rightarrow> string \<Rightarrow> bool" where
  "cert_le w w' \<longleftrightarrow> (\<exists>i j. certainty_rank w = Inr i \<and> certainty_rank w' = Inr j \<and> i \<le> j)"

definition level_le :: "string \<Rightarrow> string \<Rightarrow> bool" where
  "level_le w w' \<longleftrightarrow> (\<exists>i j. exposure_rank w = Inr i \<and> exposure_rank w' = Inr j \<and> i \<le> j)"

definition refined_to :: "exposure_estimate \<Rightarrow> exposure_estimate \<Rightarrow> bool" where
  "refined_to e e' \<longleftrightarrow> e' = e \<or> ee_action_id e' = ee_action_id e \<and> ee_exposure_level e' = ee_exposure_level e
    \<and> ee_max_possible_exposure e' = ee_max_possible_exposure e \<and> cert_le (ee_certainty e) (ee_certainty e')
    \<and> level_le (ee_confirmed_exposure e) (ee_confirmed_exposure e')"

definition advanced_to :: "server_delivery_record \<Rightarrow> server_delivery_record \<Rightarrow> bool" where
  "advanced_to r r' \<longleftrightarrow> sd_action_id r' = sd_action_id r \<and> sd_assistant_turn_id r' = sd_assistant_turn_id r
    \<and> sd_started_at r' = sd_started_at r \<and> sd_last_chunk_seq r \<le> sd_last_chunk_seq r'
    \<and> prefix (sd_sent_prefix r) (sd_sent_prefix r') \<and> (sd_terminal_at r \<noteq> None \<longrightarrow> sd_terminal_at r' = sd_terminal_at r)"

definition kept :: "('k \<Rightarrow> 'd \<Rightarrow> 'r option) \<Rightarrow> ('r \<Rightarrow> 'r \<Rightarrow> bool) \<Rightarrow> 'd \<Rightarrow> 'd \<Rightarrow> bool" where
  "kept read moves db db' \<longleftrightarrow> (\<forall>k r. read k db = Some r \<longrightarrow> (\<exists>r'. read k db' = Some r' \<and> moves r r'))"

lemma keptI: "(\<And>k r. read k db = Some r \<Longrightarrow> \<exists>r'. read k db' = Some r' \<and> moves r r') \<Longrightarrow> kept read moves db db'"
  by (simp add: kept_def)

lemma kept_trans:
  assumes "\<And>a b c. moves a b \<Longrightarrow> moves b c \<Longrightarrow> moves a c" and "kept read moves db db1" and "kept read moves db1 db2"
  shows "kept read moves db db2"
  using assms unfolding kept_def by blast

definition delivery_grows :: "delivery_db \<Rightarrow> delivery_db \<Rightarrow> bool" where
  "delivery_grows db db' \<longleftrightarrow> kept read_server_delivery advanced_to db db'
    \<and> kept (\<lambda>(a, c). read_ack a c) (=) db db' \<and> kept read_validator (=) db db' \<and> kept read_guard (=) db db'
    \<and> kept read_estimate refined_to db db'"

lemma moves_refl [simp]: "advanced_to r r" "refined_to e e"
  by (simp_all add: advanced_to_def refined_to_def)

lemma advanced_to_trans: "advanced_to a b \<Longrightarrow> advanced_to b c \<Longrightarrow> advanced_to a c"
  by (auto simp: advanced_to_def intro: prefix_order.trans)

lemma refined_to_trans: "refined_to a b \<Longrightarrow> refined_to b c \<Longrightarrow> refined_to a c"
  by (auto simp: refined_to_def cert_le_def level_le_def)

lemma grows_trans: "delivery_grows a b \<Longrightarrow> delivery_grows b c \<Longrightarrow> delivery_grows a c"
  unfolding delivery_grows_def
  by (blast intro: kept_trans advanced_to_trans refined_to_trans trans)

lemma kept_same: "(\<And>r. moves r r) \<Longrightarrow> (\<And>k. read k db' = read k db) \<Longrightarrow> kept read moves db db'"
  by (simp add: kept_def)

lemma reads_independent [simp]:
  "read_server_delivery a (db\<lparr>dd_acks := x1\<rparr>) = read_server_delivery a db"
  "read_server_delivery a (db\<lparr>dd_estimates := x2\<rparr>) = read_server_delivery a db"
  "read_server_delivery a (db\<lparr>dd_validators := x3\<rparr>) = read_server_delivery a db"
  "read_server_delivery a (db\<lparr>dd_guards := x4\<rparr>) = read_server_delivery a db"
  "read_ack a c (db\<lparr>dd_deliveries := x5\<rparr>) = read_ack a c db" "read_ack a c (db\<lparr>dd_estimates := x2\<rparr>) = read_ack a c db"
  "read_ack a c (db\<lparr>dd_validators := x3\<rparr>) = read_ack a c db" "read_ack a c (db\<lparr>dd_guards := x4\<rparr>) = read_ack a c db"
  "read_estimate a (db\<lparr>dd_deliveries := x5\<rparr>) = read_estimate a db" "read_estimate a (db\<lparr>dd_acks := x1\<rparr>) = read_estimate a db"
  "read_estimate a (db\<lparr>dd_validators := x3\<rparr>) = read_estimate a db" "read_estimate a (db\<lparr>dd_guards := x4\<rparr>) = read_estimate a db"
  "read_validator i (db\<lparr>dd_deliveries := x5\<rparr>) = read_validator i db" "read_validator i (db\<lparr>dd_acks := x1\<rparr>) = read_validator i db"
  "read_validator i (db\<lparr>dd_estimates := x2\<rparr>) = read_validator i db" "read_validator i (db\<lparr>dd_guards := x4\<rparr>) = read_validator i db"
  "read_guard i (db\<lparr>dd_deliveries := x5\<rparr>) = read_guard i db" "read_guard i (db\<lparr>dd_acks := x1\<rparr>) = read_guard i db"
  "read_guard i (db\<lparr>dd_estimates := x2\<rparr>) = read_guard i db" "read_guard i (db\<lparr>dd_validators := x3\<rparr>) = read_guard i db"
  by (simp_all add: read_server_delivery_def read_ack_def read_estimate_def read_validator_def read_guard_def)

lemma grows_refl [simp]: "delivery_grows db db"
  by (simp add: delivery_grows_def kept_def)

lemma advance_allowed:
  assumes "advance_refusal d r = None" and "sd_action_id d = sd_action_id r"
  shows "advanced_to d r"
  using assms by (auto simp: advance_refusal_def advanced_to_def split: if_splits)

lemma grows_delivery: "record_server_delivery fence r db = Inr (s, db') \<Longrightarrow> delivery_grows db db'"
proof -
  assume "record_server_delivery fence r db = Inr (s, db')"
  then consider "db' = db" | "read_server_delivery (sd_action_id r) db = None" "db' = db\<lparr>dd_deliveries := dd_deliveries db @ [r]\<rparr>"
    | d where "read_server_delivery (sd_action_id r) db = Some d" "advance_refusal d r = None"
      "db' = db\<lparr>dd_deliveries := map (\<lambda>x. if sd_action_id x = sd_action_id r then r else x) (dd_deliveries db)\<rparr>"
    by (auto simp: record_server_delivery_Inr split: option.splits)
  then show ?thesis
  proof cases
    case 2
    have "kept read_server_delivery advanced_to db db'"
      unfolding 2(2) by (intro keptI) (simp add: read_server_delivery_def find_snoc_row)
    then show ?thesis
      using 2(2) by (auto simp: delivery_grows_def intro!: kept_same)
  next
    case (3 d)
    have "sd_action_id d = sd_action_id r"
      using 3(1) by (auto simp: read_server_delivery_def dest: find_key_SomeD)
    then have "kept read_server_delivery advanced_to db db'"
      using advance_allowed [OF 3(2)] 3(1) unfolding 3(3) by (intro keptI) (auto simp: read_after_advance [OF 3(1)])
    then show ?thesis
      using 3(3) by (auto simp: delivery_grows_def intro!: kept_same)
  qed simp
qed

lemma grows_ack: "append_client_render_ack fence ack db = Inr (s, db') \<Longrightarrow> delivery_grows db db'"
  by (auto simp: append_client_render_ack_def result_simps delivery_grows_def kept_def)
    (auto simp: read_ack_def find_snoc_row)

lemma grows_validator: "append_validator_result fence r db = Inr (s, db') \<Longrightarrow> delivery_grows db db'"
  by (auto simp: append_validator_result_def result_simps delivery_grows_def kept_def split: if_splits)
    (auto simp: read_validator_def find_snoc_row)

lemma grows_guard: "append_pre_delivery_guard_result fence r db = Inr (s, db') \<Longrightarrow> delivery_grows db db'"
  by (auto simp: append_pre_delivery_guard_result_def result_simps delivery_grows_def kept_def)
    (auto simp: read_guard_def find_snoc_row)

lemma grows_initial: "record_initial_exposure_estimate fence e db = Inr (s, db') \<Longrightarrow> delivery_grows db db'"
  by (auto simp: record_initial_exposure_estimate_def result_simps delivery_grows_def kept_def split: option.splits)
    (auto simp: read_estimate_def find_snoc_row)

lemma read_after_refinement:
  assumes "read_estimate (ee_action_id e) db = Some d"
  shows "read_estimate a (db\<lparr>dd_estimates := map (\<lambda>x. if ee_action_id x = ee_action_id e then moved_estimate e x else x)
      (dd_estimates db)\<rparr>) = (if a = ee_action_id e then Some (moved_estimate e d) else read_estimate a db)"
  using assms find_update [of ee_action_id "moved_estimate e"] by (auto simp: read_estimate_def moved_estimate_def)

lemma refine_exposure_Inr:
  "refine_exposure_estimate fence e db = Inr (s, db') \<longleftrightarrow>
    estimate_words_refusal e = None \<and> dd_newest_epoch db = Some fence
    \<and> (\<exists>d. read_estimate (ee_action_id e) db = Some d \<and>
      (d = e \<and> s = e \<and> db' = db \<or> d \<noteq> e \<and> refinement_refusal d e = Inr None \<and> s = moved_estimate e d
        \<and> db' = db\<lparr>dd_estimates := map (\<lambda>x. if ee_action_id x = ee_action_id e then moved_estimate e x else x) (dd_estimates db)\<rparr>))"
  by (auto simp: refine_exposure_estimate_def require_current_delivery_epoch_def result_simps
      split: option.splits if_splits)

lemma refinement_allowed:
  assumes "refinement_refusal d e = Inr None"
  shows "refined_to d e" and "moved_estimate e d = e"
  using assms by (auto simp: refinement_refusal_def refined_to_def cert_le_def level_le_def moved_estimate_def result_simps
      not_less split: if_splits)

lemma grows_refinement: "refine_exposure_estimate fence e db = Inr (s, db') \<Longrightarrow> delivery_grows db db'"
proof -
  assume "refine_exposure_estimate fence e db = Inr (s, db')"
  then consider "db' = db" | d where "read_estimate (ee_action_id e) db = Some d" "refinement_refusal d e = Inr None"
    "db' = db\<lparr>dd_estimates := map (\<lambda>x. if ee_action_id x = ee_action_id e then moved_estimate e x else x) (dd_estimates db)\<rparr>"
    by (auto simp: refine_exposure_Inr)
  then show ?thesis
  proof cases
    case (2 d)
    have "kept read_estimate refined_to db db'"
      using refinement_allowed [OF 2(2)] 2(1) unfolding 2(3) by (intro keptI) (auto simp: read_after_refinement [OF 2(1)])
    then show ?thesis using 2(3) by (auto simp: delivery_grows_def intro!: kept_same)
  qed simp
qed

text \<open>The writes of the store, as steps.\<close>

inductive delivery_step :: "delivery_db \<Rightarrow> delivery_db \<Rightarrow> bool" where
  "record_server_delivery fence r db = Inr (s, db') \<Longrightarrow> delivery_step db db'"
| "append_client_render_ack fence ack db = Inr (s1, db') \<Longrightarrow> delivery_step db db'"
| "append_validator_result fence v db = Inr (s2, db') \<Longrightarrow> delivery_step db db'"
| "append_pre_delivery_guard_result fence g db = Inr (s3, db') \<Longrightarrow> delivery_step db db'"
| "record_initial_exposure_estimate fence e db = Inr (s4, db') \<Longrightarrow> delivery_step db db'"
| "refine_exposure_estimate fence e db = Inr (s4, db') \<Longrightarrow> delivery_step db db'"
| "delivery_step db (db\<lparr>dd_newest_epoch := Some n\<rparr>)"
| "delivery_step db (db\<lparr>dd_actions := dd_actions db @ [a]\<rparr>)"

lemma step_grows: "delivery_step db db' \<Longrightarrow> delivery_grows db db'"
proof (induction rule: delivery_step.induct)
  case (7 db n)
  show ?case
    by (simp add: delivery_grows_def kept_def read_server_delivery_def read_ack_def read_estimate_def read_validator_def read_guard_def)
next
  case (8 db a)
  show ?case
    by (simp add: delivery_grows_def kept_def read_server_delivery_def read_ack_def read_estimate_def read_validator_def read_guard_def)
qed (blast intro: grows_delivery grows_ack grows_validator grows_guard grows_initial grows_refinement)+

lemma steps_grow: "delivery_step\<^sup>*\<^sup>* db db' \<Longrightarrow> delivery_grows db db'"
  by (induction rule: rtranclp_induct) (auto intro: grows_trans step_grows)

text \<open>
  C37: Along every sequence of the store's writes nothing that was recorded is taken back.  A delivery keeps
  its assistant turn and its start, its sent prefix is only extended, its chunk number never falls and a
  terminal instant stays; acknowledgments, validator and guard results stay as they were appended; an
  exposure estimate keeps its levels while its certainty and its confirmed exposure only rise.
\<close>

theorem delivered_facts_only_grow:
  assumes "delivery_step\<^sup>*\<^sup>* db db'"
  shows "(\<forall>a r. get_server_delivery_record a db = Some r \<longrightarrow> (\<exists>r'. get_server_delivery_record a db' = Some r'
      \<and> sd_assistant_turn_id r' = sd_assistant_turn_id r \<and> sd_started_at r' = sd_started_at r
      \<and> sd_last_chunk_seq r \<le> sd_last_chunk_seq r' \<and> prefix (sd_sent_prefix r) (sd_sent_prefix r')
      \<and> (sd_terminal_at r \<noteq> None \<longrightarrow> sd_terminal_at r' = sd_terminal_at r)))
    \<and> (\<forall>a c. read_ack a c db \<noteq> None \<longrightarrow> read_ack a c db' = read_ack a c db)
    \<and> (\<forall>i. read_validator i db \<noteq> None \<longrightarrow> read_validator i db' = read_validator i db)
    \<and> (\<forall>i. read_guard i db \<noteq> None \<longrightarrow> read_guard i db' = read_guard i db)
    \<and> (\<forall>a e. get_exposure_estimate a db = Some e \<longrightarrow> (\<exists>e'. get_exposure_estimate a db' = Some e'
      \<and> ee_exposure_level e' = ee_exposure_level e \<and> ee_max_possible_exposure e' = ee_max_possible_exposure e
      \<and> (ee_certainty e' = ee_certainty e \<or> cert_le (ee_certainty e) (ee_certainty e'))
      \<and> (ee_confirmed_exposure e' = ee_confirmed_exposure e \<or> level_le (ee_confirmed_exposure e) (ee_confirmed_exposure e'))))"
proof -
  have "kept read_server_delivery advanced_to db db'" "kept (\<lambda>(a, c). read_ack a c) (=) db db'"
    "kept read_validator (=) db db'" "kept read_guard (=) db db'" "kept read_estimate refined_to db db'"
    using steps_grow [OF assms] by (simp_all add: delivery_grows_def)
  then show ?thesis
    unfolding kept_def get_server_delivery_record_def get_exposure_estimate_def advanced_to_def refined_to_def
    by (intro conjI) (blast | fastforce)+
qed

section \<open>Acknowledgments\<close>

definition ok_estimate :: "exposure_estimate \<Rightarrow> bool" where
  "ok_estimate e \<longleftrightarrow> ee_exposure_level e \<in> set EXPOSURE_LEVEL_WORDS \<and> ee_max_possible_exposure e \<in> set EXPOSURE_LEVEL_WORDS
    \<and> ee_certainty e \<in> set EXPOSURE_CERTAINTY_WORDS \<and> ee_confirmed_exposure e \<in> {''NONE'', ee_max_possible_exposure e}"

lemma exposure_ranks [simp]:
  "exposure_rank ''NONE'' = Inr 0" "exposure_rank ''PARTIAL'' = Inr 1" "exposure_rank ''FULL'' = Inr 2"
  "certainty_rank ''UNKNOWN'' = Inr 0" "certainty_rank ''SERVER_SENT_UNCONFIRMED'' = Inr 1"
  "certainty_rank ''CONFIRMED_RENDERED'' = Inr 2"
  by (simp_all add: exposure_rank_def certainty_rank_def EXPOSURE_LEVEL_LADDER_def ACK_CERTAINTY_LADDER_def)

definition refined_by :: "exposure_estimate \<Rightarrow> client_render_ack \<Rightarrow> exposure_estimate" where
  "refined_by e ack =
    (let confirmed = (if ca_final_rendered ack then ee_max_possible_exposure e else ee_confirmed_exposure e)
     in if ee_exposure_level e = ''NONE'' \<or> ee_certainty e = ''CONFIRMED_RENDERED'' \<and> confirmed = ee_confirmed_exposure e then e
        else e\<lparr>ee_certainty := ''CONFIRMED_RENDERED'', ee_confirmed_exposure := confirmed,
          ee_derivation_reason := refined_reason e ack\<rparr>)"

lemma refine_ok:
  assumes "ok_estimate e" and "ca_action_id ack = ee_action_id e"
  shows "refine_with_ack e ack = Inr (refined_by e ack)"
proof -
  have "higher_word certainty_rank (ee_certainty e) ''CONFIRMED_RENDERED'' = Inr ''CONFIRMED_RENDERED''"
    using assms(1) by (auto simp: ok_estimate_def higher_word_def EXPOSURE_CERTAINTY_WORDS_def)
  moreover have "higher_word exposure_rank (ee_confirmed_exposure e) (ee_max_possible_exposure e)
      = Inr (ee_max_possible_exposure e)"
    using assms(1) by (auto simp: ok_estimate_def higher_word_def EXPOSURE_LEVEL_WORDS_def)
  moreover have "exposure_rank (ee_exposure_level e) = Inr 0 \<longleftrightarrow> ee_exposure_level e = ''NONE''"
    "\<exists>i. exposure_rank (ee_exposure_level e) = Inr i"
    using assms(1) by (auto simp: ok_estimate_def EXPOSURE_LEVEL_WORDS_def)
  ultimately show ?thesis
    using assms(2) by (auto simp: refine_with_ack_def refined_by_def Let_def)
qed

lemma refined_by_ok:
  assumes "ok_estimate e"
  shows "ok_estimate (refined_by e ack)" and "ee_action_id (refined_by e ack) = ee_action_id e"
    and "ee_exposure_level (refined_by e ack) = ee_exposure_level e"
    and "ee_max_possible_exposure (refined_by e ack) = ee_max_possible_exposure e"
    and "ee_exposure_level e = ''NONE'' \<Longrightarrow> refined_by e ack = e"
    and "ee_exposure_level e \<noteq> ''NONE'' \<Longrightarrow> ee_certainty (refined_by e ack) = ''CONFIRMED_RENDERED''
      \<and> ee_confirmed_exposure (refined_by e ack)
        = (if ca_final_rendered ack then ee_max_possible_exposure e else ee_confirmed_exposure e)"
  using assms by (auto simp: refined_by_def ok_estimate_def Let_def EXPOSURE_CERTAINTY_WORDS_def)

lemma cert_le_words: "w \<in> set EXPOSURE_CERTAINTY_WORDS \<Longrightarrow> cert_le w w \<and> cert_le w ''CONFIRMED_RENDERED''"
  by (auto simp: cert_le_def EXPOSURE_CERTAINTY_WORDS_def)

lemma level_le_words: "w \<in> set EXPOSURE_LEVEL_WORDS \<Longrightarrow> level_le w w \<and> level_le ''NONE'' w"
  by (auto simp: level_le_def EXPOSURE_LEVEL_WORDS_def)

lemma refinement_legal:
  assumes "ok_estimate e"
  shows "refinement_refusal e (refined_by e ack) = Inr None" and "estimate_words_refusal (refined_by e ack) = None"
proof -
  show "estimate_words_refusal (refined_by e ack) = None"
    using refined_by_ok(1) [OF assms, of ack]
    by (auto simp: estimate_words_refusal_def ok_estimate_def certainty_word_refusal_def exposure_word_refusal_def
        word_refusal_def EXPOSURE_WORD_COLUMNS_def EXPOSURE_LEVEL_WORDS_def)
  have "ee_certainty (refined_by e ack) \<in> {ee_certainty e, ''CONFIRMED_RENDERED''}"
    by (simp add: refined_by_def Let_def)
  then have "cert_le (ee_certainty e) (ee_certainty (refined_by e ack))"
    using assms cert_le_words by (auto simp: ok_estimate_def)
  moreover have "ee_confirmed_exposure (refined_by e ack) \<in> {ee_confirmed_exposure e, ee_max_possible_exposure e}"
    by (simp add: refined_by_def Let_def)
  then have "level_le (ee_confirmed_exposure e) (ee_confirmed_exposure (refined_by e ack))"
    using assms level_le_words [of "''NONE''"] level_le_words
    by (auto simp: ok_estimate_def) (auto simp: EXPOSURE_LEVEL_WORDS_def)
  ultimately show "refinement_refusal e (refined_by e ack) = Inr None"
    using refined_by_ok(2-4) [OF assms, of ack] by (auto simp: refinement_refusal_def cert_le_def level_le_def)
qed

lemma accept_one:
  assumes live: "dd_newest_epoch db = Some fence" and held: "read_estimate (ca_action_id ack) db = Some e" and ok: "ok_estimate e"
    and accepted: "accept_render_ack True fence ack db = Inr (receipt, db')"
  shows "dd_newest_epoch db' = Some fence \<and> rr_note receipt = None
    \<and> (\<exists>ack'. ca_final_rendered ack' = ca_final_rendered ack \<and> read_estimate (ca_action_id ack) db' = Some (refined_by e ack')
        \<and> rr_estimate receipt = Some (refined_by e ack'))"
proof -
  obtain ack' db1 where a: "append_client_render_ack fence ack db = Inr (ack', db1)"
    using accepted by (auto simp: accept_render_ack_def result_simps)
  then have ack': "ca_action_id ack' = ca_action_id ack" "ca_final_rendered ack' = ca_final_rendered ack"
    "dd_newest_epoch db1 = Some fence" "read_estimate (ca_action_id ack) db1 = Some e"
    using live held
    by (auto simp: append_client_render_ack_def result_simps read_ack_def same_ack_def find_Some_iff)
  have name: "ee_action_id e = ca_action_id ack"
    using held by (auto simp: read_estimate_def dest: find_key_SomeD)
  have refined: "refine_with_ack e ack' = Inr (refined_by e ack')"
    using ok ack'(1) name by (intro refine_ok) simp_all
  show ?thesis
  proof (cases "refined_by e ack' = e")
    case True
    then show ?thesis
      using accepted a ack' refined by (auto simp: accept_render_ack_def get_exposure_estimate_def)
  next
    case False
    let ?r = "refined_by e ack'"
    have legal: "refinement_refusal e ?r = Inr None" "estimate_words_refusal ?r = None" "ee_action_id ?r = ca_action_id ack"
      using refinement_legal [OF ok, of ack'] refined_by_ok(2) [OF ok, of ack'] name by simp_all
    let ?db2 = "db1\<lparr>dd_estimates := map (\<lambda>x. if ee_action_id x = ee_action_id ?r then moved_estimate ?r x else x) (dd_estimates db1)\<rparr>"
    have "refine_exposure_estimate fence ?r db1 = Inr (?r, ?db2)"
      using legal ack' False refinement_allowed(2) [OF legal(1)] by (simp add: refine_exposure_Inr)
    then have "accept_render_ack True fence ack db
        = Inr (\<lparr>rr_ack = ack', rr_estimate = Some ?r, rr_refined = True, rr_note = None\<rparr>, ?db2)"
      using a ack' refined False by (simp add: accept_render_ack_def get_exposure_estimate_def)
    moreover have "read_estimate (ca_action_id ack) ?db2 = Some ?r"
      using read_after_refinement [of ?r db1 e "ca_action_id ack"] legal(3) ack'(4) refinement_allowed(2) [OF legal(1)] by simp
    ultimately show ?thesis
      using accepted ack' by auto
  qed
qed

fun accept_render_acks ::
  "int \<Rightarrow> client_render_ack list \<Rightarrow> delivery_db \<Rightarrow> delivery_error + render_ack_receipt list \<times> delivery_db" where
  "accept_render_acks fence [] db = Inr ([], db)"
| "accept_render_acks fence (ack # acks) db =
    bindE (accept_render_ack True fence ack db) (\<lambda>(receipt, db1).
    bindE (accept_render_acks fence acks db1) (\<lambda>(receipts, db2). Inr (receipt # receipts, db2)))"

lemma accept_many:
  assumes "dd_newest_epoch db = Some fence" and "read_estimate a db = Some e" and "ok_estimate e"
    and "list_all (\<lambda>ack. ca_action_id ack = a) acks" and "accept_render_acks fence acks db = Inr (receipts, db')"
  shows "\<exists>e'. read_estimate a db' = Some e' \<and> ok_estimate e' \<and> ee_exposure_level e' = ee_exposure_level e
    \<and> ee_max_possible_exposure e' = ee_max_possible_exposure e
    \<and> ee_certainty e' = (if ee_exposure_level e = ''NONE'' \<or> acks = [] then ee_certainty e else ''CONFIRMED_RENDERED'')
    \<and> ee_confirmed_exposure e' = (if ee_exposure_level e \<noteq> ''NONE'' \<and> list_ex ca_final_rendered acks
        then ee_max_possible_exposure e else ee_confirmed_exposure e)
    \<and> list_all (\<lambda>r. rr_note r = None) receipts"
  using assms
proof (induction acks arbitrary: db e receipts)
  case (Cons ack acks)
  then obtain r db1 rs where one: "accept_render_ack True fence ack db = Inr (r, db1)"
    and rest: "accept_render_acks fence acks db1 = Inr (rs, db')" "receipts = r # rs"
    by (auto simp: result_simps)
  have "read_estimate (ca_action_id ack) db = Some e" using Cons.prems(2,4) by simp
  from accept_one [OF Cons.prems(1) this Cons.prems(3) one] Cons.prems(4) obtain ack' where
    next_state: "dd_newest_epoch db1 = Some fence" "rr_note r = None" "ca_final_rendered ack' = ca_final_rendered ack"
      "read_estimate a db1 = Some (refined_by e ack')"
    by auto
  note by_ack = refined_by_ok [OF Cons.prems(3), of ack']
  obtain e' where "read_estimate a db' = Some e'" "ok_estimate e'"
    "ee_exposure_level e' = ee_exposure_level (refined_by e ack')"
    "ee_max_possible_exposure e' = ee_max_possible_exposure (refined_by e ack')"
    "ee_certainty e' = (if ee_exposure_level (refined_by e ack') = ''NONE'' \<or> acks = [] then ee_certainty (refined_by e ack')
       else ''CONFIRMED_RENDERED'')"
    "ee_confirmed_exposure e' = (if ee_exposure_level (refined_by e ack') \<noteq> ''NONE'' \<and> list_ex ca_final_rendered acks
       then ee_max_possible_exposure (refined_by e ack') else ee_confirmed_exposure (refined_by e ack'))"
    "list_all (\<lambda>r. rr_note r = None) rs"
    using Cons.IH [OF next_state(1,4) by_ack(1) _ rest(1)] Cons.prems(4) by auto
  then show ?case
    using by_ack(3-6) next_state(2,3) rest(2)
    by (cases "ee_exposure_level e = ''NONE''") simp_all
qed simp

lemma derived_ok:
  assumes "exposure_estimate_of a facts = Inr e"
  shows "ok_estimate e" and "ee_confirmed_exposure e = ''NONE''" and "ee_exposure_level e = ''NONE'' \<longleftrightarrow> df_sent_prefix facts = []"
proof -
  have levels: "sent_level facts \<in> set EXPOSURE_LEVEL_WORDS" "released_level facts \<in> set EXPOSURE_LEVEL_WORDS"
    "sent_level facts = ''NONE'' \<longleftrightarrow> df_sent_prefix facts = []"
    by (auto simp: sent_level_def released_level_def EXPOSURE_LEVEL_WORDS_def split: option.splits)
  obtain highest where "higher_word exposure_rank (sent_level facts) (released_level facts) = Inr highest"
    and e: "ee_exposure_level e = sent_level facts" "ee_max_possible_exposure e = highest" "ee_confirmed_exposure e = ''NONE''"
      "ee_certainty e = (if df_send_attempted facts then ''SERVER_SENT_UNCONFIRMED'' else ''UNKNOWN'')"
    using assms by (auto simp: exposure_estimate_of_def result_simps)
  then have "highest \<in> set EXPOSURE_LEVEL_WORDS"
    using levels by (auto simp: higher_word_def result_simps split: if_splits)
  then show "ok_estimate e" "ee_confirmed_exposure e = ''NONE''" "ee_exposure_level e = ''NONE'' \<longleftrightarrow> df_sent_prefix facts = []"
    using e levels by (auto simp: ok_estimate_def EXPOSURE_CERTAINTY_WORDS_def)
qed

lemma write_initial_cases:
  assumes "write_initial_estimate True fence a facts note db0 = (Some e, note', db)"
  shows "exposure_estimate_of a facts = Inr e" and "dd_newest_epoch db = Some fence" and "read_estimate a db = Some e"
proof -
  obtain e0 where derived: "exposure_estimate_of a facts = Inr e0" and put: "record_initial_exposure_estimate fence e0 db0 = Inr (e, db)"
    using assms by (auto simp: write_initial_estimate_def split: sum.splits)
  then have live: "dd_newest_epoch db0 = Some fence"
    by (auto simp: record_initial_exposure_estimate_def require_current_delivery_epoch_def result_simps split: option.splits)
  have "ee_action_id e0 = a"
    using derived by (auto simp: exposure_estimate_of_def result_simps)
  then show "exposure_estimate_of a facts = Inr e" "dd_newest_epoch db = Some fence" "read_estimate a db = Some e"
    using estimates.put_stored [OF live put] derived by auto
qed

text \<open>
  C38: What a delivery leaves and the acknowledgments that follow determine the estimate.  However many
  acknowledgments of the action are accepted, in whatever order and however often repeated, the levels stay
  those of the delivery; the certainty is confirmed as soon as something was sent and one arrived; the
  confirmed exposure is the highest the delivery admits as soon as one was final, and none before; nothing
  sent confirms nothing.  No refinement is ever refused or raised.
\<close>

theorem acknowledgments_determine_the_estimate:
  assumes "write_initial_estimate True fence a facts note db0 = (Some e, note', db)"
    and "list_all (\<lambda>ack. ca_action_id ack = a) acks" and "accept_render_acks fence acks db = Inr (receipts, db')"
  shows "list_all (\<lambda>r. rr_note r = None) receipts
    \<and> (\<exists>e'. get_exposure_estimate a db' = Some e' \<and> ee_exposure_level e' = sent_level facts
      \<and> ee_max_possible_exposure e' = ee_max_possible_exposure e
      \<and> ee_certainty e' = (if df_sent_prefix facts \<noteq> [] \<and> acks \<noteq> [] then ''CONFIRMED_RENDERED''
          else if df_send_attempted facts then ''SERVER_SENT_UNCONFIRMED'' else ''UNKNOWN'')
      \<and> ee_confirmed_exposure e' = (if df_sent_prefix facts \<noteq> [] \<and> list_ex ca_final_rendered acks
          then ee_max_possible_exposure e else ''NONE''))"
proof -
  note initial = write_initial_cases [OF assms(1)]
  note ok = derived_ok [OF initial(1)]
  have first: "ee_exposure_level e = sent_level facts"
    "ee_certainty e = (if df_send_attempted facts then ''SERVER_SENT_UNCONFIRMED'' else ''UNKNOWN'')"
    using initial(1) by (auto simp: exposure_estimate_of_def result_simps)
  from accept_many [OF initial(2,3) ok(1) assms(2,3)] show ?thesis
    using first ok(2,3) by (auto simp: get_exposure_estimate_def)
qed

section \<open>Concrete runs\<close>

definition demo_deliveries :: delivery_db where
  "demo_deliveries = \<lparr>dd_newest_epoch = Some 1, dd_actions = [(''a1'', 1)], dd_deliveries = [], dd_acks = [],
     dd_estimates = [], dd_validators = [], dd_guards = []\<rparr>"

definition demo_delivery :: "string \<Rightarrow> string \<Rightarrow> int \<Rightarrow> string option \<Rightarrow> server_delivery_record" where
  "demo_delivery state sent chunk terminal = \<lparr>sd_action_id = ''a1'', sd_assistant_turn_id = ''t1'', sd_state = state,
     sd_sent_prefix = sent, sd_last_chunk_seq = chunk, sd_started_at = ''2026'', sd_terminal_at = terminal\<rparr>"

definition demo_ack :: "int \<Rightarrow> bool \<Rightarrow> client_render_ack" where
  "demo_ack chunk final = \<lparr>ca_action_id = ''a1'', ca_assistant_turn_id = ''t1'', ca_rendered_chunk_seq = chunk,
     ca_rendered_text_hash = ''h'', ca_acked_at = ''2027'', ca_final_rendered = final\<rparr>"

definition delivery_after :: "server_delivery_record \<Rightarrow> delivery_db" where
  "delivery_after r = demo_deliveries\<lparr>dd_deliveries := [r]\<rparr>"

lemma demo_delivery_runs:
  "record_server_delivery 1 (demo_delivery ''CANCELLED'' ''Hel'' 1 (Some ''2028'')) demo_deliveries
    = Inr (demo_delivery ''CANCELLED'' ''Hel'' 1 (Some ''2028''), delivery_after (demo_delivery ''CANCELLED'' ''Hel'' 1 (Some ''2028'')))"
  "record_server_delivery 1 (demo_delivery ''SENT_COMPLETE'' ''Hello'' 2 (Some ''2028''))
      (delivery_after (demo_delivery ''CANCELLED'' ''Hel'' 1 (Some ''2028'')))
    = Inr (demo_delivery ''SENT_COMPLETE'' ''Hello'' 2 (Some ''2028''),
        delivery_after (demo_delivery ''SENT_COMPLETE'' ''Hello'' 2 (Some ''2028'')))"
  by (simp_all add: record_server_delivery_Inr state_word_refusal_def word_refusal_def DELIVERY_STATE_WORDS_def
      read_server_delivery_def demo_deliveries_def delivery_after_def demo_delivery_def known_action_def advance_refusal_def)

theorem delivered_facts_only_grow_witness:
  "delivery_step\<^sup>*\<^sup>* (delivery_after (demo_delivery ''CANCELLED'' ''Hel'' 1 (Some ''2028'')))
     (delivery_after (demo_delivery ''SENT_COMPLETE'' ''Hello'' 2 (Some ''2028'')))
   \<and> (\<exists>r'. get_server_delivery_record ''a1'' (delivery_after (demo_delivery ''SENT_COMPLETE'' ''Hello'' 2 (Some ''2028''))) = Some r'
        \<and> prefix ''Hel'' (sd_sent_prefix r'))"
proof -
  have steps: "delivery_step\<^sup>*\<^sup>* (delivery_after (demo_delivery ''CANCELLED'' ''Hel'' 1 (Some ''2028'')))
     (delivery_after (demo_delivery ''SENT_COMPLETE'' ''Hello'' 2 (Some ''2028'')))"
    using delivery_step.intros(1) [OF demo_delivery_runs(2)] by blast
  have "get_server_delivery_record ''a1'' (delivery_after (demo_delivery ''CANCELLED'' ''Hel'' 1 (Some ''2028'')))
      = Some (demo_delivery ''CANCELLED'' ''Hel'' 1 (Some ''2028''))"
    by (simp add: get_server_delivery_record_def read_server_delivery_def delivery_after_def demo_delivery_def)
  then have "\<exists>r'. get_server_delivery_record ''a1'' (delivery_after (demo_delivery ''SENT_COMPLETE'' ''Hello'' 2 (Some ''2028''))) = Some r'
      \<and> prefix (sd_sent_prefix (demo_delivery ''CANCELLED'' ''Hel'' 1 (Some ''2028''))) (sd_sent_prefix r')"
    using delivered_facts_only_grow [OF steps] by blast
  with steps show ?thesis by (simp add: demo_delivery_def)
qed

theorem acknowledgments_determine_the_estimate_witness:
  "\<exists>e db receipts db'. write_initial_estimate True 1 ''a1'' (buffered_facts ''Hello'' ''SENT_COMPLETE'') [] demo_deliveries = (Some e, [], db)
     \<and> accept_render_acks 1 [demo_ack 2 True, demo_ack 1 False] db = Inr (receipts, db')
     \<and> (\<exists>e'. get_exposure_estimate ''a1'' db' = Some e' \<and> ee_certainty e' = ''CONFIRMED_RENDERED''
          \<and> ee_confirmed_exposure e' = ee_max_possible_exposure e)"
proof -
  let ?facts = "buffered_facts ''Hello'' ''SENT_COMPLETE''"
  obtain e where e: "exposure_estimate_of ''a1'' ?facts = Inr e"
    by (simp add: exposure_estimate_of_def buffered_facts_def DELIVERY_STATES_WITH_AN_ESTIMATE_def checkE_def higher_word_def
        sent_level_def released_level_def covers_the_whole_text_def)
  have name: "ee_action_id e = ''a1''"
    using e by (auto simp: exposure_estimate_of_def result_simps)
  let ?db = "demo_deliveries\<lparr>dd_estimates := [e]\<rparr>"
  have "estimate_words_refusal e = None"
    using derived_ok(1) [OF e]
    by (auto simp: estimate_words_refusal_def ok_estimate_def certainty_word_refusal_def exposure_word_refusal_def
        word_refusal_def EXPOSURE_WORD_COLUMNS_def EXPOSURE_LEVEL_WORDS_def)
  then have initial: "write_initial_estimate True 1 ''a1'' ?facts [] demo_deliveries = (Some e, [], ?db)"
    using name by (simp add: write_initial_estimate_def e record_initial_exposure_estimate_def
        require_current_delivery_epoch_def insert_or_replay_def read_estimate_def demo_deliveries_def known_action_def checkE_def)
  have accepts: "\<exists>r db1. accept_render_ack True 1 (demo_ack n final) db = Inr (r, db1) \<and> dd_newest_epoch db1 = Some 1
      \<and> dd_actions db1 = [(''a1'', 1)] \<and> dd_acks db1 = dd_acks db @ [demo_ack n final]"
    if "dd_newest_epoch db = Some 1" "dd_actions db = [(''a1'', 1)]" "read_ack ''a1'' n db = None" for n final db
  proof -
    have "append_client_render_ack 1 (demo_ack n final) db = Inr (demo_ack n final, db\<lparr>dd_acks := dd_acks db @ [demo_ack n final]\<rparr>)"
      using that by (simp add: append_client_render_ack_def require_current_delivery_epoch_def insert_or_replay_def
          demo_ack_def known_action_def checkE_def)
    then show ?thesis
      using that by (auto simp: accept_render_ack_def refine_exposure_Inr split: option.splits sum.splits)
  qed
  obtain r1 db1 where one: "accept_render_ack True 1 (demo_ack 2 True) ?db = Inr (r1, db1)" "dd_newest_epoch db1 = Some 1"
    "dd_actions db1 = [(''a1'', 1)]" "dd_acks db1 = [demo_ack 2 True]"
    using accepts [of ?db 2 True] by (auto simp: demo_deliveries_def read_ack_def)
  obtain r2 db2 where two: "accept_render_ack True 1 (demo_ack 1 False) db1 = Inr (r2, db2)"
    using accepts [of db1 1 False] one by (auto simp: read_ack_def demo_ack_def)
  have acks: "accept_render_acks 1 [demo_ack 2 True, demo_ack 1 False] ?db = Inr ([r1, r2], db2)"
    by (simp add: one two)
  have mine: "list_all (\<lambda>ack. ca_action_id ack = ''a1'') [demo_ack 2 True, demo_ack 1 False]"
    by (simp add: demo_ack_def)
  have flags: "df_sent_prefix ?facts \<noteq> []" "list_ex ca_final_rendered [demo_ack 2 True, demo_ack 1 False]"
    by (simp_all add: buffered_facts_def demo_ack_def)
  have "\<exists>e'. get_exposure_estimate ''a1'' db2 = Some e' \<and> ee_certainty e' = ''CONFIRMED_RENDERED''
      \<and> ee_confirmed_exposure e' = ee_max_possible_exposure e"
    using acknowledgments_determine_the_estimate [OF initial mine acks] flags by auto
  with initial acks show ?thesis by blast
qed

text \<open>
  A terminal delivery row is not frozen: the advance rule compares only the terminal instant, so a row
  that ended as cancelled after a part of the text is replaced by one that names the same instant, a longer
  text and a complete send.
\<close>

theorem terminal_row_is_rewritten:
  "\<exists>db r db' r'. delivery_step\<^sup>*\<^sup>* demo_deliveries db \<and> get_server_delivery_record ''a1'' db = Some r
     \<and> sd_terminal_at r = Some ''2028'' \<and> sd_state r = ''CANCELLED'' \<and> sd_sent_prefix r = ''Hel''
     \<and> record_server_delivery 1 r' db = Inr (r', db') \<and> get_server_delivery_record ''a1'' db' = Some r'
     \<and> sd_state r' = ''SENT_COMPLETE'' \<and> sd_sent_prefix r' = ''Hello''"
proof -
  have "delivery_step\<^sup>*\<^sup>* demo_deliveries (delivery_after (demo_delivery ''CANCELLED'' ''Hel'' 1 (Some ''2028'')))"
    using delivery_step.intros(1) [OF demo_delivery_runs(1)] by blast
  then show ?thesis
    using demo_delivery_runs(2)
    by (intro exI conjI) (assumption | simp add: get_server_delivery_record_def read_server_delivery_def delivery_after_def demo_delivery_def)+
qed

end
