(* ===== verification/Ledger_Store.thy ===== *)
theory Ledger_Store
  imports Planning_Ledger Schedule_Store Trace_Document "HOL-Library.Multiset"
begin

text \<open>
  \<^verbatim>\<open>elc/planner/ledger_store.py\<close>: the three tables of \<^verbatim>\<open>migrations/0016\<close> and \<^verbatim>\<open>0017\<close> as rows of SQLite
  values, the decoders, the transaction that appends an event with the projection and the obligations it
  leaves, and the reads that hold a projection against its log.  The column \<^verbatim>\<open>overexposure_window\<close> is kept as
  what \<^verbatim>\<open>json.loads\<close> makes of it.  The error value carries the column or the raised exception.
\<close>

section \<open>Columns\<close>

datatype window_column = WINDOW_NULL | WINDOW_NOT_TEXT | WINDOW_NOT_JSON | WINDOW_JSON json

record ledger_columns =
  lc_ledger_key :: sql_value
  lc_ledger_key_type :: sql_value
  lc_last_selected_at :: sql_value
  lc_last_presented_at :: sql_value
  lc_teaching_exposure_counts :: sql_value
  lc_probe_counts :: sql_value
  lc_review_offers :: sql_value
  lc_recent_skips :: sql_value
  lc_overexposure_window :: window_column
  lc_version :: sql_value

record ledger_event_columns =
  lv_event_id :: sql_value
  lv_ledger_key :: sql_value
  lv_event :: sql_value
  lv_as_of :: sql_value
  lv_moment_id :: sql_value

record obligation_columns =
  ob_obligation_key :: sql_value
  ob_scope_type :: sql_value
  ob_target_or_family_id :: sql_value
  ob_goal_id :: sql_value
  ob_window_start :: sql_value
  ob_window_end :: sql_value
  ob_debt_value :: sql_value
  ob_accrual_paused :: sql_value
  ob_pause_reason :: sql_value
  ob_last_served_at :: sql_value
  ob_last_engaged_at :: sql_value

record ledger_log_row =
  ler_event_id :: string
  ler_ledger_key :: string
  ler_event :: ledger_event
  ler_as_of :: string
  ler_moment_id :: "string option"

record ledger_row_projection =
  lpr_ledger_key :: string
  lpr_ledger_key_type :: ledger_key_type
  lpr_last_selected_at :: "string option"
  lpr_last_presented_at :: "string option"
  lpr_teaching_exposure_counts :: int
  lpr_probe_counts :: int
  lpr_review_offers :: int
  lpr_recent_skips :: int
  lpr_overexposure_window :: "ledger_window option"
  lpr_version :: string

fun ledger_event_word :: "ledger_event \<Rightarrow> string" where
  "ledger_event_word CANDIDATE_SELECTED = ''candidate_selected''"
| "ledger_event_word TEACHING_PRESENTED = ''teaching_presented''"
| "ledger_event_word HINT_PRESENTED = ''hint_presented''"
| "ledger_event_word REVEAL_PRESENTED = ''reveal_presented''"
| "ledger_event_word LEDGER_USER_SKIP = ''user_skip''"

definition LEDGER_EVENT_MEMBERS :: "(string \<times> ledger_event) list" where
  "LEDGER_EVENT_MEMBERS = map (\<lambda>e. (ledger_event_word e, e)) LEDGER_EVENTS"

fun key_type_word :: "ledger_key_type \<Rightarrow> string" where
  "key_type_word KEY_TARGET = ''TARGET''"
| "key_type_word KEY_TARGET_FAMILY = ''TARGET_FAMILY''"

definition LEDGER_KEY_TYPES :: "(string \<times> ledger_key_type) list" where
  "LEDGER_KEY_TYPES = [(''TARGET'', KEY_TARGET), (''TARGET_FAMILY'', KEY_TARGET_FAMILY)]"

section \<open>Decoding\<close>

fun integer_column :: "string \<Rightarrow> sql_value \<Rightarrow> string + int" where
  "integer_column column (SQL_INTEGER i) = Inr i"
| "integer_column column _ = Inl column"

fun number_column :: "string \<Rightarrow> sql_value \<Rightarrow> string + float64" where
  "number_column column (SQL_INTEGER i) = Inr (rnd64 (of_int i))"
| "number_column column (SQL_REAL x) = Inr x"
| "number_column column _ = Inl column"

fun zero_one_column :: "string \<Rightarrow> sql_value \<Rightarrow> string + bool" where
  "zero_one_column column (SQL_INTEGER i) = (if i \<in> {0, 1} then Inr (i = 1) else Inl column)"
| "zero_one_column column (SQL_REAL x) = (if x \<in> {0, 1} then Inr (x = 1) else Inl column)"
| "zero_one_column column _ = Inl column"

definition window_document :: "ledger_window option \<Rightarrow> window_column" where
  "window_document window =
    (case window of None \<Rightarrow> WINDOW_NULL
     | Some w \<Rightarrow> WINDOW_JSON (JObject [(''end'', JText (lw_end w)), (''start'', JText (lw_start w))]))"

definition text_member :: "string \<Rightarrow> (string \<times> json) list \<Rightarrow> string \<Rightarrow> string + string" where
  "text_member name members column = (case map_of members name of Some (JText s) \<Rightarrow> Inr s | _ \<Rightarrow> Inl column)"

fun window_from_document :: "window_column \<Rightarrow> string + ledger_window option" where
  "window_from_document WINDOW_NULL = Inr None"
| "window_from_document (WINDOW_JSON (JObject members)) =
    (if set (map fst members) \<noteq> {''start'', ''end''} then Inl ''overexposure_window''
     else bindE (text_member ''start'' members ''overexposure_window.start'') (\<lambda>start.
          bindE (text_member ''end'' members ''overexposure_window.end'') (\<lambda>finish.
            Inr (Some \<lparr>lw_start = start, lw_end = finish\<rparr>))))"
| "window_from_document _ = Inl ''overexposure_window''"

definition projection_from_row :: "ledger_columns \<Rightarrow> string + ledger_row_projection" where
  "projection_from_row row =
    bindE (text_column ''ledger_key'' (lc_ledger_key row)) (\<lambda>key.
    bindE (enum_column LEDGER_KEY_TYPES ''ledger_key_type'' (lc_ledger_key_type row)) (\<lambda>key_type.
    bindE (optional_text_column ''last_selected_at'' (lc_last_selected_at row)) (\<lambda>selected.
    bindE (optional_text_column ''last_presented_at'' (lc_last_presented_at row)) (\<lambda>presented.
    bindE (integer_column ''teaching_exposure_counts'' (lc_teaching_exposure_counts row)) (\<lambda>exposures.
    bindE (integer_column ''probe_counts'' (lc_probe_counts row)) (\<lambda>probes.
    bindE (integer_column ''review_offers'' (lc_review_offers row)) (\<lambda>offers.
    bindE (integer_column ''recent_skips'' (lc_recent_skips row)) (\<lambda>skips.
    bindE (window_from_document (lc_overexposure_window row)) (\<lambda>window.
    bindE (text_column ''version'' (lc_version row)) (\<lambda>version.
      Inr \<lparr>lpr_ledger_key = key, lpr_ledger_key_type = key_type, lpr_last_selected_at = selected,
        lpr_last_presented_at = presented, lpr_teaching_exposure_counts = exposures, lpr_probe_counts = probes,
        lpr_review_offers = offers, lpr_recent_skips = skips, lpr_overexposure_window = window,
        lpr_version = version\<rparr>))))))))))"

definition ledger_event_from_row :: "ledger_event_columns \<Rightarrow> string + ledger_log_row" where
  "ledger_event_from_row row =
    bindE (text_column ''event_id'' (lv_event_id row)) (\<lambda>event_id.
    bindE (text_column ''ledger_key'' (lv_ledger_key row)) (\<lambda>key.
    bindE (enum_column LEDGER_EVENT_MEMBERS ''event'' (lv_event row)) (\<lambda>event.
    bindE (text_column ''as_of'' (lv_as_of row)) (\<lambda>as_of.
    bindE (optional_text_column ''moment_id'' (lv_moment_id row)) (\<lambda>moment.
      Inr \<lparr>ler_event_id = event_id, ler_ledger_key = key, ler_event = event, ler_as_of = as_of,
        ler_moment_id = moment\<rparr>)))))"

definition obligation_from_row :: "obligation_columns \<Rightarrow> string + coverage_obligation" where
  "obligation_from_row row =
    bindE (text_column ''obligation_key'' (ob_obligation_key row)) (\<lambda>key.
    bindE (text_column ''scope_type'' (ob_scope_type row)) (\<lambda>scope.
    bindE (text_column ''target_or_family_id'' (ob_target_or_family_id row)) (\<lambda>target.
    bindE (optional_text_column ''goal_id'' (ob_goal_id row)) (\<lambda>goal.
    bindE (text_column ''window_start'' (ob_window_start row)) (\<lambda>start.
    bindE (text_column ''window_end'' (ob_window_end row)) (\<lambda>finish.
    bindE (number_column ''debt_value'' (ob_debt_value row)) (\<lambda>debt.
    bindE (zero_one_column ''accrual_paused'' (ob_accrual_paused row)) (\<lambda>paused.
    bindE (optional_text_column ''pause_reason'' (ob_pause_reason row)) (\<lambda>reason.
    bindE (optional_text_column ''last_served_at'' (ob_last_served_at row)) (\<lambda>served.
    bindE (optional_text_column ''last_engaged_at'' (ob_last_engaged_at row)) (\<lambda>engaged.
      wrapE (\<lambda>_. ''coverage_obligation'') (mk_coverage_obligation
        \<lparr>co_obligation_key = key, co_scope_type = scope, co_target_or_family_id = target, co_goal_id = goal,
         co_window_start = start, co_window_end = finish, co_debt_value = debt, co_accrual_paused = paused,
         co_pause_reason = reason, co_last_served_at = served, co_last_engaged_at = engaged\<rparr>))))))))))))"

section \<open>The tables and their reads\<close>

record ledger_db =
  ld_newest_epoch :: "int option"
  ld_rows :: "ledger_columns list"
  ld_obligations :: "obligation_columns list"
  ld_events :: "ledger_event_columns list"

datatype ledger_store_error = EventNotLast | LedgerEventRewritten | KeyFaceMoved | BaseLogMoved
  | LedgerIntegrityRefused | LedgerRowDirty string | ProjectionContradictsLog string
  | StaleLedgerStoreRaised | LedgerRaised ledger_error

definition require_current_ledger_epoch :: "int \<Rightarrow> ledger_db \<Rightarrow> ledger_store_error + unit" where
  "require_current_ledger_epoch fence db = checkE (ld_newest_epoch db = Some fence) StaleLedgerStoreRaised"

definition get_ledger_projection :: "string \<Rightarrow> ledger_db \<Rightarrow> ledger_store_error + ledger_row_projection option" where
  "get_ledger_projection key db =
    (case find (\<lambda>row. lc_ledger_key row = SQL_TEXT key) (ld_rows db) of None \<Rightarrow> Inr None
     | Some row \<Rightarrow> wrapE LedgerRowDirty (bindE (projection_from_row row) (\<lambda>p. Inr (Some p))))"

definition list_ledger_events :: "string \<Rightarrow> ledger_db \<Rightarrow> ledger_store_error + ledger_log_row list" where
  "list_ledger_events key db =
    wrapE LedgerRowDirty (traverseE ledger_event_from_row
      (sort_key (\<lambda>row. (sql_order (lv_as_of row), sql_order (lv_event_id row)))
        (filter (\<lambda>row. lv_ledger_key row = SQL_TEXT key) (ld_events db))))"

definition ledger_event_row :: "string \<Rightarrow> ledger_db \<Rightarrow> ledger_store_error + ledger_log_row option" where
  "ledger_event_row event_id db =
    (case find (\<lambda>row. lv_event_id row = SQL_TEXT event_id) (ld_events db) of None \<Rightarrow> Inr None
     | Some row \<Rightarrow> wrapE LedgerRowDirty (bindE (ledger_event_from_row row) (\<lambda>e. Inr (Some e))))"

definition has_ledger_event :: "string \<Rightarrow> ledger_db \<Rightarrow> bool" where
  "has_ledger_event event_id db = list_ex (\<lambda>row. lv_event_id row = SQL_TEXT event_id) (ld_events db)"

definition logged :: "ledger_log_row \<Rightarrow> ledger_event_record" where
  "logged row = \<lparr>le_event = ler_event row, le_at = ler_as_of row\<rparr>"

definition row_from_log :: "ledger_row_projection \<Rightarrow> ledger_log_row list \<Rightarrow> target_ledger_row" where
  "row_from_log p events = \<lparr>tl_target_key = lpr_ledger_key p, tl_events = map logged events,
     tl_overexposure_window = lpr_overexposure_window p, tl_probe_counts = lpr_probe_counts p,
     tl_review_offers = lpr_review_offers p\<rparr>"

definition get_ledger_row :: "py_env \<Rightarrow> string \<Rightarrow> ledger_db \<Rightarrow> ledger_store_error + target_ledger_row option" where
  "get_ledger_row env key db =
    bindE (get_ledger_projection key db) (\<lambda>projection.
      case projection of
        None \<Rightarrow> Inr None
      | Some p \<Rightarrow>
        bindE (list_ledger_events key db) (\<lambda>events.
        bindE (wrapE LedgerRaised (last_selected_at env (row_from_log p events))) (\<lambda>selected.
        bindE (wrapE LedgerRaised (last_presented_at env (row_from_log p events))) (\<lambda>presented.
        bindE (guardsE
          [(lpr_last_selected_at p = selected, ProjectionContradictsLog ''last_selected_at''),
           (lpr_last_presented_at p = presented, ProjectionContradictsLog ''last_presented_at''),
           (lpr_teaching_exposure_counts p = teaching_exposure_counts (row_from_log p events),
            ProjectionContradictsLog ''teaching_exposure_counts''),
           (lpr_recent_skips p = recent_skips (row_from_log p events), ProjectionContradictsLog ''recent_skips'')]) (\<lambda>_.
          Inr (Some (row_from_log p events)))))))"

definition get_obligation :: "string \<Rightarrow> ledger_db \<Rightarrow> ledger_store_error + coverage_obligation option" where
  "get_obligation key db =
    (case find (\<lambda>row. ob_obligation_key row = SQL_TEXT key) (ld_obligations db) of None \<Rightarrow> Inr None
     | Some row \<Rightarrow> wrapE LedgerRowDirty (bindE (obligation_from_row row) (\<lambda>ob. Inr (Some ob))))"

definition list_obligations :: "string option \<Rightarrow> ledger_db \<Rightarrow> ledger_store_error + coverage_obligation list" where
  "list_obligations target db =
    wrapE LedgerRowDirty (traverseE obligation_from_row
      (sort_key (\<lambda>row. sql_order (ob_obligation_key row))
        (filter (\<lambda>row. case target of None \<Rightarrow> True | Some t \<Rightarrow> ob_target_or_family_id row = SQL_TEXT t)
          (ld_obligations db))))"

fun read_rows ::
  "py_env \<Rightarrow> ledger_db \<Rightarrow> ledger_columns list \<Rightarrow> (string \<times> target_ledger_row) list
   \<Rightarrow> ledger_store_error + (string \<times> target_ledger_row) list" where
  "read_rows env db [] built = Inr built"
| "read_rows env db (stored # rest) built =
    bindE (wrapE LedgerRowDirty (text_column ''ledger_key'' (lc_ledger_key stored))) (\<lambda>key.
    bindE (get_ledger_row env key db) (\<lambda>row.
      read_rows env db rest (case row of None \<Rightarrow> built | Some r \<Rightarrow> AList.update key r built)))"

definition read_ledger :: "py_env \<Rightarrow> ledger_db \<Rightarrow> ledger_store_error + planning_ledger" where
  "read_ledger env db =
    bindE (read_rows env db (sort_key (\<lambda>row. sql_order (lc_ledger_key row)) (ld_rows db)) []) (\<lambda>rows.
    bindE (list_obligations None db) (\<lambda>obligations.
      Inr \<lparr>pl_rows = rows, pl_obligations = obligations, pl_coverage_debt_rollups = [],
        pl_recent_target_families = [], pl_version = PLANNING_LEDGER_MODEL_VERSION\<rparr>))"

section \<open>Writes\<close>

text \<open>\<^verbatim>\<open>ON CONFLICT DO UPDATE\<close>: the row with the key is replaced where it stands.\<close>

definition upsert_row :: "('r \<Rightarrow> sql_value) \<Rightarrow> 'r \<Rightarrow> 'r list \<Rightarrow> 'r list" where
  "upsert_row key_of row rows =
    (if list_ex (\<lambda>r. key_of r = key_of row) rows then map (\<lambda>r. if key_of r = key_of row then row else r) rows
     else rows @ [row])"

definition write_projection ::
  "py_env \<Rightarrow> target_ledger_row \<Rightarrow> ledger_key_type \<Rightarrow> ledger_db \<Rightarrow> ledger_error + ledger_db" where
  "write_projection env row key_type db =
    bindE (last_selected_at env row) (\<lambda>selected.
    bindE (last_presented_at env row) (\<lambda>presented.
      Inr (db\<lparr>ld_rows := upsert_row lc_ledger_key
        \<lparr>lc_ledger_key = SQL_TEXT (tl_target_key row), lc_ledger_key_type = SQL_TEXT (key_type_word key_type),
         lc_last_selected_at = sql_optional_text selected, lc_last_presented_at = sql_optional_text presented,
         lc_teaching_exposure_counts = SQL_INTEGER (teaching_exposure_counts row),
         lc_probe_counts = SQL_INTEGER (tl_probe_counts row), lc_review_offers = SQL_INTEGER (tl_review_offers row),
         lc_recent_skips = SQL_INTEGER (recent_skips row),
         lc_overexposure_window = window_document (tl_overexposure_window row),
         lc_version = SQL_TEXT PLANNING_LEDGER_MODEL_VERSION\<rparr> (ld_rows db)\<rparr>)))"

definition obligation_columns_of :: "coverage_obligation \<Rightarrow> obligation_columns" where
  "obligation_columns_of ob =
    \<lparr>ob_obligation_key = SQL_TEXT (co_obligation_key ob), ob_scope_type = SQL_TEXT (co_scope_type ob),
     ob_target_or_family_id = SQL_TEXT (co_target_or_family_id ob), ob_goal_id = sql_optional_text (co_goal_id ob),
     ob_window_start = SQL_TEXT (co_window_start ob), ob_window_end = SQL_TEXT (co_window_end ob),
     ob_debt_value = SQL_REAL (co_debt_value ob), ob_accrual_paused = SQL_INTEGER (if co_accrual_paused ob then 1 else 0),
     ob_pause_reason = sql_optional_text (co_pause_reason ob),
     ob_last_served_at = sql_optional_text (co_last_served_at ob),
     ob_last_engaged_at = sql_optional_text (co_last_engaged_at ob)\<rparr>"

text \<open>The pause agreement of the migration's CHECK.\<close>

definition obligation_integrity :: "coverage_obligation \<Rightarrow> bool" where
  "obligation_integrity ob \<longleftrightarrow> co_accrual_paused ob = (co_pause_reason ob \<noteq> None)"

definition write_obligation :: "coverage_obligation \<Rightarrow> ledger_db \<Rightarrow> ledger_db" where
  "write_obligation ob db =
    db\<lparr>ld_obligations := upsert_row ob_obligation_key (obligation_columns_of ob) (ld_obligations db)\<rparr>"

definition ledger_event_columns_of :: "ledger_log_row \<Rightarrow> ledger_event_columns" where
  "ledger_event_columns_of row =
    \<lparr>lv_event_id = SQL_TEXT (ler_event_id row), lv_ledger_key = SQL_TEXT (ler_ledger_key row),
     lv_event = SQL_TEXT (ledger_event_word (ler_event row)), lv_as_of = SQL_TEXT (ler_as_of row),
     lv_moment_id = sql_optional_text (ler_moment_id row)\<rparr>"

record ledger_append =
  la_event_id :: string
  la_event :: ledger_event
  la_row :: target_ledger_row
  la_key_type :: ledger_key_type
  la_obligations :: "coverage_obligation list"
  la_moment_id :: "string option"

definition offered_event :: "ledger_append \<Rightarrow> ledger_log_row" where
  "offered_event a = \<lparr>ler_event_id = la_event_id a, ler_ledger_key = tl_target_key (la_row a),
     ler_event = la_event a, ler_as_of = le_at (last (tl_events (la_row a))), ler_moment_id = la_moment_id a\<rparr>"

definition same_ledger_event :: "ledger_log_row \<Rightarrow> ledger_append \<Rightarrow> bool" where
  "same_ledger_event durable a \<longleftrightarrow>
    ler_event durable = la_event a \<and> ler_ledger_key durable = tl_target_key (la_row a)
    \<and> ler_as_of durable = le_at (last (tl_events (la_row a))) \<and> ler_moment_id durable = la_moment_id a"

definition append_ledger_event ::
  "py_env \<Rightarrow> ledger_append \<Rightarrow> ledger_db \<Rightarrow> ledger_store_error + ledger_log_row \<times> ledger_db" where
  "append_ledger_event env a db =
    bindE (list_ledger_events (tl_target_key (la_row a)) db) (\<lambda>durable_log.
    bindE (get_ledger_projection (tl_target_key (la_row a)) db) (\<lambda>stored.
      if (case stored of None \<Rightarrow> False | Some p \<Rightarrow> lpr_ledger_key_type p \<noteq> la_key_type a) then Inl KeyFaceMoved
      else if mset (map logged durable_log) \<noteq> mset (butlast (tl_events (la_row a))) then Inl BaseLogMoved
      else bindE (wrapE LedgerRaised (write_projection env (la_row a) (la_key_type a) db)) (\<lambda>projected.
        if list_all obligation_integrity (la_obligations a)
        then Inr (offered_event a, fold write_obligation (la_obligations a)
          (projected\<lparr>ld_events := ld_events projected @ [ledger_event_columns_of (offered_event a)]\<rparr>))
        else Inl LedgerIntegrityRefused)))"

definition record_ledger_event ::
  "py_env \<Rightarrow> int \<Rightarrow> ledger_append \<Rightarrow> ledger_db \<Rightarrow> ledger_store_error + ledger_log_row \<times> ledger_db" where
  "record_ledger_event env fence a db =
    (if tl_events (la_row a) = [] \<or> le_event (last (tl_events (la_row a))) \<noteq> la_event a then Inl EventNotLast
     else bindE (require_current_ledger_epoch fence db) (\<lambda>_.
       bindE (ledger_event_row (la_event_id a) db) (\<lambda>durable.
         case durable of
           Some d \<Rightarrow> if same_ledger_event d a then Inr (d, db) else Inl LedgerEventRewritten
         | None \<Rightarrow> append_ledger_event env a db)))"

definition upsert_obligation ::
  "int \<Rightarrow> coverage_obligation \<Rightarrow> ledger_db \<Rightarrow> ledger_store_error + coverage_obligation \<times> ledger_db" where
  "upsert_obligation fence ob db =
    bindE (require_current_ledger_epoch fence db) (\<lambda>_.
      if obligation_integrity ob then Inr (ob, write_obligation ob db) else Inl LedgerIntegrityRefused)"

end
