(* ===== verification/Planning_Ledger_Properties.thy ===== *)
theory Planning_Ledger_Properties
  imports Planning_Ledger
begin

text \<open>
  What the pure planner ledger promises: an obligation stays well formed along every history of accruals,
  events and engagements, its debt is what accrued since it was last repaid, the overexposure reading
  counts the presentations of the window, and the governing obligation does not depend on row order.
\<close>

section \<open>Obligations\<close>

definition valid_obligation :: "coverage_obligation \<Rightarrow> bool" where
  "valid_obligation ob \<longleftrightarrow> 0 \<le> co_debt_value ob \<and> co_debt_value ob \<le> 1
    \<and> (if co_accrual_paused ob then co_pause_reason ob \<notin> {None, Some []} else co_pause_reason ob = None)"

lemma mk_coverage_obligation_Inr:
  "mk_coverage_obligation ob = Inr ob' \<longleftrightarrow> ob' = ob \<and> valid_obligation ob"
  by (auto simp: mk_coverage_obligation_def result_simps valid_obligation_def LEDGER_VALUE_LOW_def
      LEDGER_VALUE_HIGH_def)

lemma mk_valid: "valid_obligation ob \<Longrightarrow> mk_coverage_obligation ob = Inr ob"
  by (simp add: mk_coverage_obligation_Inr)

lemma ledger_instant_Inl: "ledger_instant env s f = Inl e \<Longrightarrow> \<exists>i. e = LedgerInstant i"
  by (auto simp: ledger_instant_def result_simps)

lemma repaid_debt: "0 \<le> d \<Longrightarrow> d \<le> 1 \<Longrightarrow> max LEDGER_VALUE_LOW (fsub d 1) = 0"
  using fsub_mono [of d 1 1 1] by (simp add: LEDGER_VALUE_LOW_def max_def)

lemma repay_valid:
  assumes "valid_obligation ob"
  shows "repay ob DEBT_REPAID_PER_SERVING = Inr (ob\<lparr>co_debt_value := 0\<rparr>)"
    and "repay ob DEBT_REPAID_PER_ENGAGEMENT = Inr (ob\<lparr>co_debt_value := 0\<rparr>)"
  using assms repaid_debt [of "co_debt_value ob"]
  by (auto simp: repay_def DEBT_REPAID_PER_SERVING_def DEBT_REPAID_PER_ENGAGEMENT_def mk_coverage_obligation_Inr
      valid_obligation_def)

lemma accrue_cases:
  assumes "valid_obligation ob"
  shows "accrue env ob amount stamp = (case ledger_instant env stamp ''at'' of
      Inl e \<Rightarrow> Inl e
    | Inr _ \<Rightarrow> if amount < 0 then Inl NegativeAccrual
        else if co_accrual_paused ob \<or> amount = 0 then Inr \<lparr>eo_obligation = ob, eo_changed = False\<rparr>
        else if 1 < fadd (co_debt_value ob) amount then Inl AccrualLeavesRange
        else Inr \<lparr>eo_obligation = ob\<lparr>co_debt_value := fadd (co_debt_value ob) amount\<rparr>, eo_changed = True\<rparr>)"
proof -
  have "valid_obligation (ob\<lparr>co_debt_value := fadd (co_debt_value ob) amount\<rparr>)"
    if "0 \<le> amount" and "fadd (co_debt_value ob) amount \<le> 1"
    using assms that fadd_nonneg [of "co_debt_value ob" amount] by (auto simp: valid_obligation_def split: if_splits)
  then show ?thesis
    by (auto simp: accrue_def LEDGER_VALUE_HIGH_def mk_valid split: sum.splits)
qed

lemma serve_cases:
  assumes "valid_obligation ob"
  shows "serve env ob stamp = (case ledger_instant env stamp ''at'' of
      Inl e \<Rightarrow> Inl e
    | Inr _ \<Rightarrow> if co_accrual_paused ob then Inl ServedWhilePaused
        else Inr (ob\<lparr>co_last_served_at := Some stamp, co_debt_value := 0\<rparr>))"
    and "engage env ob stamp = (case ledger_instant env stamp ''at'' of
      Inl e \<Rightarrow> Inl e
    | Inr _ \<Rightarrow> if co_accrual_paused ob then Inl EngagedWhilePaused
        else Inr (ob\<lparr>co_last_engaged_at := Some stamp, co_debt_value := 0\<rparr>))"
proof -
  have "valid_obligation (ob\<lparr>co_last_served_at := Some stamp\<rparr>)"
    "valid_obligation (ob\<lparr>co_last_engaged_at := Some stamp\<rparr>)"
    using assms by (auto simp: valid_obligation_def split: if_splits)
  then show "serve env ob stamp = (case ledger_instant env stamp ''at'' of
      Inl e \<Rightarrow> Inl e
    | Inr _ \<Rightarrow> if co_accrual_paused ob then Inl ServedWhilePaused
        else Inr (ob\<lparr>co_last_served_at := Some stamp, co_debt_value := 0\<rparr>))"
    "engage env ob stamp = (case ledger_instant env stamp ''at'' of
      Inl e \<Rightarrow> Inl e
    | Inr _ \<Rightarrow> if co_accrual_paused ob then Inl EngagedWhilePaused
        else Inr (ob\<lparr>co_last_engaged_at := Some stamp, co_debt_value := 0\<rparr>))"
    by (auto simp: serve_def engage_def repay_valid mk_valid split: sum.splits)
qed

lemma SERVING_EVENTS_eq: "SERVING_EVENTS = [TEACHING_PRESENTED]"
  by (simp add: SERVING_EVENTS_def LEDGER_EVENTS_def)

lemma EXPOSURE_EVENTS_eq: "EXPOSURE_EVENTS = [TEACHING_PRESENTED, HINT_PRESENTED, REVEAL_PRESENTED]"
  by (simp add: EXPOSURE_EVENTS_def LEDGER_EVENTS_def)

text \<open>The history of one obligation: the calls a caller makes, in order.\<close>

datatype debt_call = Accrue float64 string | Happened ledger_event string | Engaged string

fun debt_step :: "py_env \<Rightarrow> debt_call \<Rightarrow> coverage_obligation \<Rightarrow> ledger_error + coverage_obligation" where
  "debt_step env (Accrue amount stamp) ob = bindE (accrue env ob amount stamp) (\<lambda>out. Inr (eo_obligation out))"
| "debt_step env (Happened event stamp) ob =
    bindE (apply_ledger_event env ob event stamp) (\<lambda>out. Inr (eo_obligation out))"
| "debt_step env (Engaged stamp) ob = engage env ob stamp"

fun debt_run :: "py_env \<Rightarrow> debt_call list \<Rightarrow> coverage_obligation \<Rightarrow> ledger_error + coverage_obligation" where
  "debt_run env [] ob = Inr ob"
| "debt_run env (call # calls) ob = bindE (debt_step env call ob) (debt_run env calls)"

text \<open>What one call does to the debt of an obligation that is not paused.\<close>

fun debt_after :: "debt_call \<Rightarrow> float64 \<Rightarrow> float64" where
  "debt_after (Accrue amount stamp) d = (if amount = 0 then d else fadd d amount)"
| "debt_after (Happened event stamp) d = (if event = TEACHING_PRESENTED then 0 else d)"
| "debt_after (Engaged stamp) d = 0"

definition same_commitment :: "coverage_obligation \<Rightarrow> coverage_obligation \<Rightarrow> bool" where
  "same_commitment ob ob' \<longleftrightarrow> ob' = ob\<lparr>co_debt_value := co_debt_value ob',
     co_last_served_at := co_last_served_at ob', co_last_engaged_at := co_last_engaged_at ob'\<rparr>"

lemma same_commitment_refl [simp]: "same_commitment ob ob"
  by (simp add: same_commitment_def)

lemma same_commitment_trans: "same_commitment a b \<Longrightarrow> same_commitment b c \<Longrightarrow> same_commitment a c"
  by (cases a; cases b; cases c) (simp add: same_commitment_def)

definition documented_refusal :: "ledger_error \<Rightarrow> bool" where
  "documented_refusal e \<longleftrightarrow> e \<in> {NegativeAccrual, AccrualLeavesRange, ServedWhilePaused, EngagedWhilePaused}
     \<or> (\<exists>i. e = LedgerInstant i)"

lemma debt_step_outcome:
  assumes "valid_obligation ob"
  shows "case debt_step env call ob of
      Inl e \<Rightarrow> documented_refusal e
    | Inr ob' \<Rightarrow> valid_obligation ob' \<and> same_commitment ob ob'
        \<and> (if co_accrual_paused ob then ob' = ob else co_debt_value ob' = debt_after call (co_debt_value ob))"
proof (cases call)
  case (Accrue amount stamp)
  show ?thesis
    using assms fadd_nonneg [of "co_debt_value ob" amount] ledger_instant_Inl [of env stamp "''at''"]
    by (auto simp: Accrue accrue_cases [OF assms] documented_refusal_def same_commitment_def valid_obligation_def
        split: sum.splits if_splits)
next
  case (Happened event stamp)
  show ?thesis
    using assms ledger_instant_Inl [of env stamp "''at''"]
    by (auto simp: Happened apply_ledger_event_def SERVING_EVENTS_eq serve_cases [OF assms] documented_refusal_def
        same_commitment_def valid_obligation_def split: sum.splits if_splits)
next
  case (Engaged stamp)
  show ?thesis
    using assms ledger_instant_Inl [of env stamp "''at''"]
    by (auto simp: Engaged serve_cases [OF assms] documented_refusal_def same_commitment_def valid_obligation_def
        split: sum.splits if_splits)
qed

lemma same_commitment_paused: "same_commitment ob ob' \<Longrightarrow> co_accrual_paused ob' = co_accrual_paused ob"
  by (cases ob; cases ob') (simp add: same_commitment_def)

lemma debt_run_outcome:
  assumes "valid_obligation ob"
  shows "case debt_run env calls ob of
      Inl e \<Rightarrow> documented_refusal e
    | Inr ob' \<Rightarrow> valid_obligation ob' \<and> same_commitment ob ob'
        \<and> (if co_accrual_paused ob then ob' = ob else co_debt_value ob' = fold debt_after calls (co_debt_value ob))"
  using assms
proof (induction calls arbitrary: ob)
  case (Cons call calls)
  show ?case
  proof (cases "debt_step env call ob")
    case (Inl e)
    then show ?thesis using debt_step_outcome [OF Cons.prems, where env = env and call = call] by simp
  next
    case (Inr ob1)
    then have step: "valid_obligation ob1" "same_commitment ob ob1"
      "if co_accrual_paused ob then ob1 = ob else co_debt_value ob1 = debt_after call (co_debt_value ob)"
      using debt_step_outcome [OF Cons.prems, where env = env and call = call] by simp_all
    show ?thesis
      using Cons.IH [OF step(1)] step same_commitment_paused [OF step(2)]
      by (auto simp: Inr split: sum.splits if_splits intro: same_commitment_trans)
  qed
qed simp

text \<open>The last call that repays splits a history.\<close>

fun repays :: "debt_call \<Rightarrow> bool" where
  "repays (Accrue amount stamp) = False"
| "repays (Happened event stamp) = (event = TEACHING_PRESENTED)"
| "repays (Engaged stamp) = True"

definition accruals :: "debt_call list \<Rightarrow> float64 list" where
  "accruals calls = concat (map (\<lambda>call. case call of Accrue amount stamp \<Rightarrow> if amount = 0 then [] else [amount] | _ \<Rightarrow> []) calls)"

lemma repays_debt: "repays call \<Longrightarrow> debt_after call d = 0"
  by (cases call) auto

lemma unrepaid_debt: "list_all (Not \<circ> repays) calls \<Longrightarrow> fold debt_after calls d = foldl fadd d (accruals calls)"
proof (induction calls arbitrary: d)
  case (Cons call calls)
  then show ?case by (cases call) (auto simp: accruals_def)
qed (simp add: accruals_def)


definition demo_obligation :: "string \<Rightarrow> float64 \<Rightarrow> coverage_obligation" where
  "demo_obligation key debt = \<lparr>co_obligation_key = key, co_scope_type = ''TARGET'', co_target_or_family_id = ''t1'',
     co_goal_id = None, co_window_start = demo_time 0, co_window_end = demo_time 9, co_debt_value = debt,
     co_accrual_paused = False, co_pause_reason = None, co_last_served_at = None, co_last_engaged_at = None\<rparr>"

definition paused_obligation :: coverage_obligation where
  "paused_obligation = (demo_obligation ''o2'' 1)\<lparr>co_accrual_paused := True, co_pause_reason := Some ''GOAL_PAUSED''\<rparr>"

lemma demo_obligation_valid:
  "0 \<le> d \<Longrightarrow> d \<le> 1 \<Longrightarrow> valid_obligation (demo_obligation k d)" "valid_obligation paused_obligation"
  by (simp_all add: valid_obligation_def demo_obligation_def paused_obligation_def)

lemma demo_instant: "ledger_instant demo_env (demo_time h) f = Inr \<lparr>dt_local = h, dt_utcoffset = Some 0\<rparr>"
  by (simp add: ledger_instant_def parse_instant_def demo_reads)

text \<open>
  C33: An obligation that could be constructed stays one along every history of accruals, events and
  engagements: its debt stays in the unit interval, its identity, scope, window and pause never move, a
  paused one is not touched at all, and a call that does not return one raises a refusal of its own
  (a bad instant, a negative accrual, an accrual out of range, a service of a paused debt), never the
  constructor's.
\<close>

theorem obligation_history_typed:
  assumes "mk_coverage_obligation drawn = Inr ob"
  shows "(\<forall>ob'. debt_run env calls ob = Inr ob' \<longrightarrow>
      mk_coverage_obligation ob' = Inr ob' \<and> 0 \<le> co_debt_value ob' \<and> co_debt_value ob' \<le> 1
      \<and> same_commitment ob ob' \<and> (co_accrual_paused ob \<longrightarrow> ob' = ob))
    \<and> (\<forall>e. debt_run env calls ob = Inl e \<longrightarrow> documented_refusal e)"
proof -
  have "valid_obligation ob"
    using assms by (simp add: mk_coverage_obligation_Inr)
  from debt_run_outcome [OF this, where env = env and calls = calls] show ?thesis
    by (auto simp: mk_coverage_obligation_Inr valid_obligation_def split: sum.splits if_splits)
qed

theorem obligation_history_typed_witness:
  "(\<exists>ob'. debt_run demo_env [Happened TEACHING_PRESENTED (demo_time 3)] (demo_obligation ''o1'' 1) = Inr ob'
     \<and> mk_coverage_obligation ob' = Inr ob')
   \<and> debt_run demo_env [Engaged (demo_time 3)] paused_obligation = Inl EngagedWhilePaused
   \<and> documented_refusal EngagedWhilePaused"
proof -
  have valid: "valid_obligation (demo_obligation ''o1'' 1)"
    by (rule demo_obligation_valid) simp_all
  note one = obligation_history_typed [OF mk_valid [OF valid], where env = demo_env and calls = "[Happened TEACHING_PRESENTED (demo_time 3)]"]
  note two = obligation_history_typed [OF mk_valid [OF demo_obligation_valid(2)], where env = demo_env
      and calls = "[Engaged (demo_time 3)]"]
  have run: "debt_run demo_env [Happened TEACHING_PRESENTED (demo_time 3)] (demo_obligation ''o1'' 1)
      = Inr ((demo_obligation ''o1'' 1)\<lparr>co_last_served_at := Some (demo_time 3), co_debt_value := 0\<rparr>)"
    using serve_cases(1) [OF valid, where env = demo_env and stamp = "demo_time 3"]
    by (simp add: apply_ledger_event_def SERVING_EVENTS_eq demo_instant) (simp add: demo_obligation_def)
  have refused: "debt_run demo_env [Engaged (demo_time 3)] paused_obligation = Inl EngagedWhilePaused"
    using serve_cases(2) [OF demo_obligation_valid(2), where env = demo_env and stamp = "demo_time 3"]
    by (simp add: demo_instant) (simp add: paused_obligation_def)
  from one two run refused demo_obligation_valid show ?thesis by simp
qed

text \<open>
  C34: Debt is repaid by a delivered teaching or an engagement and by nothing else: whatever came before,
  after the last of them the debt is the rounded sum, in order, of what accrued since.
\<close>

theorem debt_is_accrual_since_service:
  assumes "mk_coverage_obligation drawn = Inr ob" and "\<not> co_accrual_paused ob"
    and "repays service" and "list_all (Not \<circ> repays) since"
    and "debt_run env (before @ service # since) ob = Inr ob'"
  shows "co_debt_value ob' = foldl fadd 0 (accruals since)"
proof -
  have "valid_obligation ob"
    using assms(1) by (simp add: mk_coverage_obligation_Inr)
  from debt_run_outcome [OF this, where env = env and calls = "before @ service # since"]
  have "co_debt_value ob' = fold debt_after (before @ service # since) (co_debt_value ob)"
    using assms(2,5) by simp
  also have "\<dots> = foldl fadd 0 (accruals since)"
    using assms(3,4) by (simp add: repays_debt unrepaid_debt)
  finally show ?thesis .
qed

theorem debt_is_accrual_since_service_witness:
  "\<exists>ob'. debt_run demo_env [Accrue (1/2) (demo_time 1), Happened TEACHING_PRESENTED (demo_time 2), Accrue (1/4) (demo_time 3),
       Happened LEDGER_USER_SKIP (demo_time 4)] (demo_obligation ''o1'' (1/4)) = Inr ob'
     \<and> co_debt_value ob' = 1/4"
proof -
  have sums: "fadd (1/4) (1/2) = 3/4" "fadd 0 (1/4) = 1/4"
    by code_simp+
  have calls: "[Accrue (1/2) (demo_time 1), Happened TEACHING_PRESENTED (demo_time 2), Accrue (1/4) (demo_time 3),
      Happened LEDGER_USER_SKIP (demo_time 4)] = [Accrue (1/2) (demo_time 1)] @ Happened TEACHING_PRESENTED (demo_time 2)
      # [Accrue (1/4) (demo_time 3), Happened LEDGER_USER_SKIP (demo_time 4)]"
    by simp
  have valid: "valid_obligation (demo_obligation ''o1'' (1/4))"
    by (rule demo_obligation_valid) simp_all
  have "\<exists>ob'. debt_run demo_env [Accrue (1/2) (demo_time 1), Happened TEACHING_PRESENTED (demo_time 2),
      Accrue (1/4) (demo_time 3), Happened LEDGER_USER_SKIP (demo_time 4)] (demo_obligation ''o1'' (1/4)) = Inr ob'"
    using valid by (simp add: accrue_cases serve_cases demo_instant sums apply_ledger_event_def SERVING_EVENTS_eq
        demo_obligation_def valid_obligation_def)
  then obtain ob' where run: "debt_run demo_env ([Accrue (1/2) (demo_time 1)] @ Happened TEACHING_PRESENTED (demo_time 2)
      # [Accrue (1/4) (demo_time 3), Happened LEDGER_USER_SKIP (demo_time 4)]) (demo_obligation ''o1'' (1/4)) = Inr ob'"
    unfolding calls by blast
  have "co_debt_value ob' = 1/4"
    using debt_is_accrual_since_service [OF mk_valid [OF valid] _ _ _ run] by (simp add: demo_obligation_def accruals_def sums)
  then show ?thesis using run unfolding calls by blast
qed

section \<open>The overexposure reading\<close>

definition stamp_instant :: "py_env \<Rightarrow> string \<Rightarrow> int option" where
  "stamp_instant env stamp = (case ledger_instant env stamp [] of Inl e \<Rightarrow> None | Inr d \<Rightarrow> Some (instant_of d))"

lemma ledger_instant_Inr:
  "ledger_instant env stamp f = Inr d \<longleftrightarrow> stamp \<noteq> [] \<and> env_fromisoformat env stamp = Some d \<and> dt_utcoffset d \<noteq> None"
  by (simp add: ledger_instant_def result_simps parse_instant_Inr)

lemma stamp_instant_Some:
  "stamp_instant env stamp = Some t \<longleftrightarrow> (\<exists>d. (\<forall>f. ledger_instant env stamp f = Inr d) \<and> t = instant_of d)"
proof (cases "ledger_instant env stamp []")
  case (Inl e)
  then have "\<not> (\<forall>f. ledger_instant env stamp f = Inr d)" for d
    by (metis sum.distinct(1))
  then show ?thesis by (simp add: stamp_instant_def Inl)
next
  case (Inr d)
  then have "ledger_instant env stamp f = Inr d" for f by (simp add: ledger_instant_Inr)
  then show ?thesis by (auto simp: stamp_instant_def)
qed

lemma stamp_readsE:
  assumes "stamp_instant env stamp \<noteq> None"
  obtains d where "\<And>f. ledger_instant env stamp f = Inr d" and "stamp_instant env stamp = Some (instant_of d)"
  using assms stamp_instant_Some [of env stamp] by blast

lemma window_contains_reads:
  assumes "stamp_instant env stamp = Some t" and "stamp_instant env (lw_start w) = Some lo"
    and "stamp_instant env (lw_end w) = Some hi"
  shows "window_contains env w stamp = Inr (lo < t \<and> t \<le> hi)"
  using assms by (auto simp: window_contains_def stamp_instant_Some)

lemma inside_window_reads:
  assumes "stamp_instant env (lw_start w) = Some lo" and "stamp_instant env (lw_end w) = Some hi"
    and "\<forall>r \<in> set rs. stamp_instant env (le_at r) \<noteq> None"
  shows "inside_window env w rs = Inr (filter (\<lambda>r. lo < the (stamp_instant env (le_at r))
      \<and> the (stamp_instant env (le_at r)) \<le> hi) rs)"
  using assms(3)
proof (induction rs)
  case (Cons r rs)
  then obtain t where "stamp_instant env (le_at r) = Some t" by auto
  with Cons show ?case
    by (simp add: window_contains_reads [OF _ assms(1,2)])
qed simp

lemma latest_stamp_reads:
  assumes "\<forall>s \<in> set stamps. stamp_instant env s \<noteq> None"
  shows "latest_stamp env stamps = Inr (case stamps of [] \<Rightarrow> None
    | first # rest \<Rightarrow> Some (max_by (\<lambda>s. the (stamp_instant env s)) first rest))"
proof -
  let ?t = "\<lambda>s. the (stamp_instant env s)"
  have "traverseE (\<lambda>text. bindE (ledger_instant env text ''at'') (\<lambda>d. Inr (instant_of d, text))) stamps
      = Inr (map (\<lambda>s. (?t s, s)) stamps)"
    using assms
  proof (induction stamps)
    case (Cons s stamps)
    then obtain d where "\<And>f. ledger_instant env s f = Inr d" and "stamp_instant env s = Some (instant_of d)"
      using stamp_readsE [of env s] by auto
    with Cons show ?case by simp
  qed simp
  moreover have "max_by fst (?t x, x) (map (\<lambda>s. (?t s, s)) xs) = (?t (max_by ?t x xs), max_by ?t x xs)" for x xs
    by (induction xs arbitrary: x) auto
  ultimately show ?thesis
    by (simp add: latest_stamp_def split: list.splits)
qed

lemma fallback_window_reads:
  assumes "iso_round_trip env" and "ledger_instant env as_of f = Inr now"
    and "datetime_in_range (now\<lparr>dt_local := dt_local now - 7 * DAY_MICROSECONDS\<rparr>)"
  obtains w where "fallback_window env as_of = Inr w"
    and "stamp_instant env (lw_start w) = Some (instant_of now - 7 * DAY_MICROSECONDS)"
    and "stamp_instant env (lw_end w) = Some (instant_of now)"
proof -
  have moved: "add_timedelta now (- OVEREXPOSURE_WINDOW_DAYS * DAY_MICROSECONDS)
      = Some (now\<lparr>dt_local := dt_local now - 7 * DAY_MICROSECONDS\<rparr>)"
    using assms(3) by (simp add: add_timedelta_def OVEREXPOSURE_WINDOW_DAYS_def Let_def)
  have reads: "ledger_instant env as_of g = Inr now" for g
    using assms(2) by (simp add: ledger_instant_Inr)
  have start: "ledger_instant env (env_isoformat env (now\<lparr>dt_local := dt_local now - 7 * DAY_MICROSECONDS\<rparr>)) g
      = Inr (now\<lparr>dt_local := dt_local now - 7 * DAY_MICROSECONDS\<rparr>)" for g
    using assms by (auto simp: ledger_instant_Inr iso_round_trip_def)
  show ?thesis
  proof (rule that)
    show "fallback_window env as_of = Inr \<lparr>lw_start =
        env_isoformat env (now\<lparr>dt_local := dt_local now - 7 * DAY_MICROSECONDS\<rparr>), lw_end = as_of\<rparr>"
      using moved by (simp add: fallback_window_def reads)
  qed (auto simp: reads stamp_instant_Some start instant_of_moved [of now "- 7 * DAY_MICROSECONDS", simplified])
qed

lemma overexposure_band_exact:
  "overexposure_band_of (int n) = Inr (if n = 0 then ''NONE'' else if n = 1 then ''LOW'' else if n = 2 then ''MEDIUM''
     else if n = 3 then ''HIGH'' else ''SATURATED'')"
  by (auto simp: overexposure_band_of_def OVEREXPOSURE_RUNGS_def)

definition presentations_between :: "py_env \<Rightarrow> int \<Rightarrow> int \<Rightarrow> target_ledger_row \<Rightarrow> nat" where
  "presentations_between env lo hi row = length (filter (\<lambda>r.
     le_event r \<in> {TEACHING_PRESENTED, HINT_PRESENTED, REVEAL_PRESENTED}
     \<and> (case stamp_instant env (le_at r) of None \<Rightarrow> False | Some t \<Rightarrow> lo < t \<and> t \<le> hi)) (tl_events row))"

definition readable_log :: "py_env \<Rightarrow> target_ledger_row \<Rightarrow> bool" where
  "readable_log env row \<longleftrightarrow> list_all (\<lambda>r. stamp_instant env (le_at r) \<noteq> None) (tl_events row)"

lemma overexposure_counts:
  assumes "readable_log env row" and "stamp_instant env (lw_start w) = Some lo"
    and "stamp_instant env (lw_end w) = Some hi"
    and "(case tl_overexposure_window row of None \<Rightarrow> fallback_window env as_of | Some w \<Rightarrow> Inr w) = Inr w"
  shows "\<exists>reading. overexposure_of env (Some row) as_of = Inr reading
      \<and> or_count reading = presentations_between env lo hi row
      \<and> overexposure_band_of (int (or_count reading)) = Inr (or_band reading)"
proof -
  have seen: "\<forall>r \<in> set (presentations row). stamp_instant env (le_at r) \<noteq> None"
    using assms(1) by (auto simp: readable_log_def presentations_def list_all_iff)
  then have stamps: "\<forall>s \<in> set (events_of row EXPOSURE_EVENTS). stamp_instant env s \<noteq> None"
    by (auto simp: events_of_def presentations_def)
  have "filter (\<lambda>r. lo < the (stamp_instant env (le_at r)) \<and> the (stamp_instant env (le_at r)) \<le> hi) (presentations row)
      = filter (\<lambda>r. le_event r \<in> {TEACHING_PRESENTED, HINT_PRESENTED, REVEAL_PRESENTED}
         \<and> (case stamp_instant env (le_at r) of None \<Rightarrow> False | Some t \<Rightarrow> lo < t \<and> t \<le> hi)) (tl_events row)"
    using assms(1) by (auto simp: presentations_def EXPOSURE_EVENTS_eq readable_log_def list_all_iff
        intro!: filter_cong split: option.splits)
  then have "inside_window env w (presentations row) = Inr (filter (\<lambda>r.
      le_event r \<in> {TEACHING_PRESENTED, HINT_PRESENTED, REVEAL_PRESENTED}
      \<and> (case stamp_instant env (le_at r) of None \<Rightarrow> False | Some t \<Rightarrow> lo < t \<and> t \<le> hi)) (tl_events row))"
    using inside_window_reads [OF assms(2,3) seen] by simp
  then show ?thesis
    using assms(4) latest_stamp_reads [OF stamps]
    by (simp add: overexposure_of_def last_presented_at_def overexposure_band_exact presentations_between_def)
qed

text \<open>
  The overexposure reading never fails on a log whose stamps are readable, and without a window of
  its own the row is read over the seven days up to the cycle's instant, the start excluded: it counts
  exactly the teaching, hint and reveal presentations in them (selections and skips never), and the band
  is the count's rung, saturated from four.
\<close>

theorem overexposure_reads_the_week:
  assumes "iso_round_trip env" and "readable_log env row" and "tl_overexposure_window row = None"
    and "ledger_instant env as_of ''as_of'' = Inr now"
    and "datetime_in_range (now\<lparr>dt_local := dt_local now - 7 * DAY_MICROSECONDS\<rparr>)"
  shows "\<exists>reading. overexposure_of env (Some row) as_of = Inr reading
      \<and> or_count reading = presentations_between env (instant_of now - 7 * DAY_MICROSECONDS) (instant_of now) row
      \<and> or_band reading = [''NONE'', ''LOW'', ''MEDIUM'', ''HIGH'', ''SATURATED''] ! min 4 (or_count reading)"
proof -
  obtain w where w: "fallback_window env as_of = Inr w"
    "stamp_instant env (lw_start w) = Some (instant_of now - 7 * DAY_MICROSECONDS)"
    "stamp_instant env (lw_end w) = Some (instant_of now)"
    using fallback_window_reads [OF assms(1,4,5)] .
  obtain reading where reading: "overexposure_of env (Some row) as_of = Inr reading"
    "or_count reading = presentations_between env (instant_of now - 7 * DAY_MICROSECONDS) (instant_of now) row"
    "overexposure_band_of (int (or_count reading)) = Inr (or_band reading)"
    using overexposure_counts [OF assms(2) w(2,3), of as_of] w(1) assms(3) by auto
  have "or_band reading = [''NONE'', ''LOW'', ''MEDIUM'', ''HIGH'', ''SATURATED''] ! min 4 (or_count reading)"
    using reading(3) by (auto simp: overexposure_band_exact min_def nth_Cons' split: if_splits)
  with reading show ?thesis by blast
qed

definition demo_row :: target_ledger_row where
  "demo_row = (new_ledger_row ''t1'')\<lparr>tl_events :=
     [\<lparr>le_event = TEACHING_PRESENTED, le_at = demo_time 0\<rparr>, \<lparr>le_event = HINT_PRESENTED, le_at = demo_time DAY_MICROSECONDS\<rparr>,
      \<lparr>le_event = CANDIDATE_SELECTED, le_at = demo_time DAY_MICROSECONDS\<rparr>,
      \<lparr>le_event = REVEAL_PRESENTED, le_at = demo_time (7 * DAY_MICROSECONDS)\<rparr>]\<rparr>"

lemma demo_stamp [simp]: "stamp_instant demo_env (demo_time h) = Some h"
  by (simp add: stamp_instant_def demo_instant instant_of_def)

theorem overexposure_reads_the_week_witness:
  "\<exists>reading. overexposure_of demo_env (Some demo_row) (demo_time (7 * DAY_MICROSECONDS)) = Inr reading
     \<and> or_count reading = 2 \<and> or_band reading = ''MEDIUM''"
proof -
  have "readable_log demo_env demo_row" "tl_overexposure_window demo_row = None"
    by (simp_all add: readable_log_def demo_row_def new_ledger_row_def)
  moreover have "datetime_in_range (\<lparr>dt_local = 7 * DAY_MICROSECONDS, dt_utcoffset = Some 0\<rparr>
      \<lparr>dt_local := dt_local \<lparr>dt_local = 7 * DAY_MICROSECONDS, dt_utcoffset = Some 0\<rparr> - 7 * DAY_MICROSECONDS\<rparr>)"
    by (simp add: datetime_in_range_def DATETIME_SPAN_def DAY_MICROSECONDS_def)
  ultimately obtain reading where
    "overexposure_of demo_env (Some demo_row) (demo_time (7 * DAY_MICROSECONDS)) = Inr reading"
    "or_count reading = presentations_between demo_env 0 (7 * DAY_MICROSECONDS) demo_row"
    "or_band reading = [''NONE'', ''LOW'', ''MEDIUM'', ''HIGH'', ''SATURATED''] ! min 4 (or_count reading)"
    using overexposure_reads_the_week [OF demo_iso_round_trip _ _ demo_instant, of demo_row "7 * DAY_MICROSECONDS"]
    by (auto simp: instant_of_def)
  moreover have "presentations_between demo_env 0 (7 * DAY_MICROSECONDS) demo_row = 2"
    by (simp add: presentations_between_def demo_row_def new_ledger_row_def DAY_MICROSECONDS_def)
  ultimately show ?thesis by auto
qed

section \<open>The governing obligation\<close>

lemma max_by_first:
  assumes "sorted (map k (x # ys))" and "z \<in> insert x (set ys)" and "f z = f (max_by f x ys)"
  shows "(k (max_by f x ys) :: 'b::linorder) \<le> k z"
  using assms
proof (induction ys arbitrary: x z)
  case (Cons y ys)
  show ?case
  proof (cases "f x < f y")
    case True
    have "f y \<le> f (max_by f y ys)" by (rule max_by_ge) simp
    then have "z \<noteq> x" using True Cons.prems(3) by auto
    then show ?thesis using Cons.IH [of y z] Cons.prems True by simp
  next
    case False
    show ?thesis
    proof (cases "z = y")
      case True
      have "f x \<le> f (max_by f x ys)" by (rule max_by_ge) simp
      then have "f x = f (max_by f x ys)"
        using False True Cons.prems(3) by simp
      then have "k (max_by f x ys) \<le> k x"
        using Cons.IH [of x x] Cons.prems(1) by simp
      also have "k x \<le> k y" using Cons.prems(1) by simp
      finally show ?thesis using False True by simp
    next
      case other: False
      then show ?thesis using Cons.IH [of x z] Cons.prems False by auto
    qed
  qed
qed simp

text \<open>The debts a target can be served for.\<close>

definition live_debts :: "planning_ledger \<Rightarrow> string \<Rightarrow> coverage_obligation set" where
  "live_debts ledger target = {ob \<in> set (pl_obligations ledger). co_target_or_family_id ob = target
     \<and> co_scope_type ob = ''TARGET'' \<and> \<not> co_accrual_paused ob}"

lemma governing_candidates:
  "set (sort_key co_obligation_key (filter (\<lambda>ob. \<not> co_accrual_paused ob) (target_scoped_obligations_for ledger target)))
    = live_debts ledger target"
  by (auto simp: target_scoped_obligations_for_def obligations_for_def live_debts_def OBLIGATION_TARGET_def)

lemma governing_None: "governing_obligation_of ledger target = None \<longleftrightarrow> live_debts ledger target = {}"
proof -
  let ?c = "sort_key co_obligation_key (filter (\<lambda>ob. \<not> co_accrual_paused ob) (target_scoped_obligations_for ledger target))"
  have "governing_obligation_of ledger target = None \<longleftrightarrow> ?c = []"
    by (simp add: governing_obligation_of_def split: list.splits)
  also have "\<dots> \<longleftrightarrow> set ?c = {}"
    by (rule set_empty [symmetric])
  finally show ?thesis unfolding governing_candidates .
qed

lemma governing_Some:
  assumes "governing_obligation_of ledger target = Some ob"
  shows "ob \<in> live_debts ledger target"
    and "\<forall>o' \<in> live_debts ledger target. co_debt_value o' \<le> co_debt_value ob
      \<and> (co_debt_value o' = co_debt_value ob \<longrightarrow> co_obligation_key ob \<le> co_obligation_key o')"
proof -
  let ?c = "sort_key co_obligation_key (filter (\<lambda>ob. \<not> co_accrual_paused ob) (target_scoped_obligations_for ledger target))"
  obtain first rest where c: "?c = first # rest" "ob = max_by co_debt_value first rest"
    using assms by (auto simp: governing_obligation_of_def split: list.splits)
  have set_c: "insert first (set rest) = live_debts ledger target"
    using governing_candidates [of ledger target] c(1) by simp
  have sorted_c: "sorted (map co_obligation_key (first # rest))"
    unfolding c(1) [symmetric] by simp
  show "ob \<in> live_debts ledger target"
    using max_by_in [of co_debt_value first rest] set_c c(2) by simp
  show "\<forall>o' \<in> live_debts ledger target. co_debt_value o' \<le> co_debt_value ob
      \<and> (co_debt_value o' = co_debt_value ob \<longrightarrow> co_obligation_key ob \<le> co_obligation_key o')"
    unfolding set_c [symmetric] c(2)
    using max_by_ge [of _ first rest co_debt_value] max_by_first [OF sorted_c, of _ co_debt_value] by blast
qed

lemma service_state_exact:
  "coverage_service_state_of ob =
    (if co_accrual_paused ob \<or> co_debt_value ob < 1/4 then COVERAGE_NONE
     else if co_debt_value ob < 1/2 then WATCH else if co_debt_value ob < 3/4 then COVERAGE_DUE else CRITICAL)"
proof -
  have rungs: "decimal 75 100 = 3/4" "decimal 50 100 = 1/2" "decimal 25 100 = 1/4" "decimal 0 1 = 0"
    by code_simp+
  show ?thesis
    by (auto simp: coverage_service_state_of_def SERVICE_STATE_RUNGS_def rungs)
qed

lemma governing_facts:
  assumes "distinct (map co_obligation_key (pl_obligations ledger))"
    and "readings_for env ledger target as_of = Inr reading"
  shows "lr_obligation reading = None \<longleftrightarrow> live_debts ledger target = {}"
    and "lr_obligation reading = Some ob \<longleftrightarrow> ob \<in> live_debts ledger target
      \<and> (\<forall>o' \<in> live_debts ledger target. co_debt_value o' < co_debt_value ob
           \<or> co_debt_value o' = co_debt_value ob \<and> co_obligation_key ob \<le> co_obligation_key o')"
    and "lr_service_state reading = (case lr_obligation reading of None \<Rightarrow> COVERAGE_NONE
      | Some ob \<Rightarrow> if co_debt_value ob < 1/4 then COVERAGE_NONE else if co_debt_value ob < 1/2 then WATCH
          else if co_debt_value ob < 3/4 then COVERAGE_DUE else CRITICAL)"
proof -
  have governs: "lr_obligation reading = governing_obligation_of ledger target"
    "lr_service_state reading = (case governing_obligation_of ledger target of None \<Rightarrow> COVERAGE_NONE
       | Some ob \<Rightarrow> coverage_service_state_of ob)"
    using assms(2) by (auto simp: readings_for_def result_simps)
  then show "lr_obligation reading = None \<longleftrightarrow> live_debts ledger target = {}"
    by (simp add: governing_None)
  have same: "a = b" if "a \<in> live_debts ledger target" "b \<in> live_debts ledger target"
    "co_obligation_key a = co_obligation_key b" for a b
    using that assms(1) by (auto simp: live_debts_def distinct_map dest: inj_onD)
  show "lr_obligation reading = Some ob \<longleftrightarrow> ob \<in> live_debts ledger target
      \<and> (\<forall>o' \<in> live_debts ledger target. co_debt_value o' < co_debt_value ob
           \<or> co_debt_value o' = co_debt_value ob \<and> co_obligation_key ob \<le> co_obligation_key o')" (is "_ \<longleftrightarrow> ?best")
  proof
    assume "lr_obligation reading = Some ob"
    then show ?best using governing_Some [of ledger target ob] governs by (auto simp: less_le)
  next
    assume best: ?best
    then obtain g where g: "governing_obligation_of ledger target = Some g"
      using governing_None [of ledger target] by (cases "governing_obligation_of ledger target") auto
    note gov = governing_Some [OF g]
    have "co_debt_value g = co_debt_value ob" and "co_obligation_key g = co_obligation_key ob"
      using best gov by fastforce+
    then have "g = ob" using best gov(1) same by blast
    then show "lr_obligation reading = Some ob" using g governs by simp
  qed
  show "lr_service_state reading = (case lr_obligation reading of None \<Rightarrow> COVERAGE_NONE
      | Some ob \<Rightarrow> if co_debt_value ob < 1/4 then COVERAGE_NONE else if co_debt_value ob < 1/2 then WATCH
          else if co_debt_value ob < 3/4 then COVERAGE_DUE else CRITICAL)"
    using governing_Some(1) [of ledger target] governs
    by (auto simp: service_state_exact live_debts_def split: option.splits)
qed

text \<open>
  With distinct obligation keys the governing obligation of a target is the one with the largest debt
  among its unpaused target-scoped obligations, the least key deciding a tie, whatever order the rows have;
  there is none exactly when there is no such obligation.  The service state read off it is the rung of
  its debt (watch from a quarter, due from a half, critical from three quarters).
\<close>

theorem governing_obligation_exact:
  assumes "distinct (map co_obligation_key (pl_obligations ledger))"
    and "readings_for env ledger target as_of = Inr reading"
  shows "(lr_obligation reading = None \<longleftrightarrow> live_debts ledger target = {})
    \<and> (\<forall>ob. lr_obligation reading = Some ob \<longleftrightarrow> ob \<in> live_debts ledger target
      \<and> (\<forall>o' \<in> live_debts ledger target. co_debt_value o' < co_debt_value ob
           \<or> co_debt_value o' = co_debt_value ob \<and> co_obligation_key ob \<le> co_obligation_key o'))
    \<and> lr_service_state reading = (case lr_obligation reading of None \<Rightarrow> COVERAGE_NONE
      | Some ob \<Rightarrow> if co_debt_value ob < 1/4 then COVERAGE_NONE else if co_debt_value ob < 1/2 then WATCH
          else if co_debt_value ob < 3/4 then COVERAGE_DUE else CRITICAL)"
  by (intro conjI allI governing_facts [OF assms])

definition demo_ledger :: planning_ledger where
  "demo_ledger = \<lparr>pl_rows = [(''t1'', demo_row)],
     pl_obligations = [demo_obligation ''o3'' (1/2), paused_obligation, demo_obligation ''o1'' (1/2), demo_obligation ''o0'' 0],
     pl_coverage_debt_rollups = [], pl_recent_target_families = [], pl_version = PLANNING_LEDGER_MODEL_VERSION\<rparr>"

theorem governing_obligation_exact_witness:
  "\<exists>reading. readings_for demo_env demo_ledger ''t1'' (demo_time (7 * DAY_MICROSECONDS)) = Inr reading
     \<and> lr_obligation reading = Some (demo_obligation ''o1'' (1/2)) \<and> lr_service_state reading = COVERAGE_DUE"
proof -
  obtain w where w: "fallback_window demo_env (demo_time (7 * DAY_MICROSECONDS)) = Inr w"
    "stamp_instant demo_env (lw_start w) = Some 0" "stamp_instant demo_env (lw_end w) = Some (7 * DAY_MICROSECONDS)"
    by (rule fallback_window_reads [OF demo_iso_round_trip demo_instant, of "7 * DAY_MICROSECONDS"])
      (auto simp: datetime_in_range_def DATETIME_SPAN_def DAY_MICROSECONDS_def instant_of_def)
  have "readable_log demo_env demo_row" "tl_overexposure_window demo_row = None"
    by (simp_all add: readable_log_def demo_row_def new_ledger_row_def)
  then obtain reading where
    r: "readings_for demo_env demo_ledger ''t1'' (demo_time (7 * DAY_MICROSECONDS)) = Inr reading"
    using overexposure_counts [of demo_env demo_row w 0 "7 * DAY_MICROSECONDS"] w
    by (fastforce simp: readings_for_def row_of_def demo_ledger_def)
  have keys: "distinct (map co_obligation_key (pl_obligations demo_ledger))"
    by (simp add: demo_ledger_def demo_obligation_def paused_obligation_def)
  have "live_debts demo_ledger ''t1'' = {demo_obligation ''o3'' (1/2), demo_obligation ''o1'' (1/2), demo_obligation ''o0'' 0}"
    by (auto simp: live_debts_def demo_ledger_def demo_obligation_def paused_obligation_def)
  then have "lr_obligation reading = Some (demo_obligation ''o1'' (1/2))"
    using governing_obligation_exact [OF keys r] by (simp add: demo_obligation_def less_eq_char_def)
  then show ?thesis
    using conjunct2 [OF conjunct2 [OF governing_obligation_exact [OF keys r]]] r by (simp add: demo_obligation_def)
qed

end
