(* ===== verification/Ledger_Store_Lemmas.thy ===== *)
theory Ledger_Store_Lemmas
  imports Ledger_Store Planning_Ledger_Properties Schedule_Invariant
begin

text \<open>
  The ledger's tables as typed rows: decoding inverts encoding, so every read of tables the store wrote is
  an operation on lists of typed rows, and the two writes change those lists by one row.
\<close>

section \<open>Encoding and decoding\<close>

definition projection_columns :: "ledger_row_projection \<Rightarrow> ledger_columns" where
  "projection_columns p =
    \<lparr>lc_ledger_key = SQL_TEXT (lpr_ledger_key p), lc_ledger_key_type = SQL_TEXT (key_type_word (lpr_ledger_key_type p)),
     lc_last_selected_at = sql_optional_text (lpr_last_selected_at p),
     lc_last_presented_at = sql_optional_text (lpr_last_presented_at p),
     lc_teaching_exposure_counts = SQL_INTEGER (lpr_teaching_exposure_counts p),
     lc_probe_counts = SQL_INTEGER (lpr_probe_counts p), lc_review_offers = SQL_INTEGER (lpr_review_offers p),
     lc_recent_skips = SQL_INTEGER (lpr_recent_skips p),
     lc_overexposure_window = window_document (lpr_overexposure_window p), lc_version = SQL_TEXT (lpr_version p)\<rparr>"

lemma ledger_words:
  "map_of LEDGER_EVENT_MEMBERS (ledger_event_word e) = Some e"
  "map_of LEDGER_KEY_TYPES (key_type_word k) = Some k"
  subgoal by (cases e) (simp_all add: LEDGER_EVENT_MEMBERS_def LEDGER_EVENTS_def)
  subgoal by (cases k) (simp_all add: LEDGER_KEY_TYPES_def)
  done

lemma window_round_trip [simp]: "window_from_document (window_document w) = Inr w"
  by (auto simp: window_document_def text_member_def split: option.split)

lemma decode_projection_columns [simp]: "projection_from_row (projection_columns p) = Inr p"
  by (simp add: projection_from_row_def projection_columns_def ledger_words)

lemma decode_ledger_event_columns [simp]: "ledger_event_from_row (ledger_event_columns_of e) = Inr e"
  by (simp add: ledger_event_from_row_def ledger_event_columns_of_def ledger_words)

lemma decode_obligation_columns: "valid_obligation ob \<Longrightarrow> obligation_from_row (obligation_columns_of ob) = Inr ob"
  by (cases ob; cases "co_accrual_paused ob")
    (simp_all add: obligation_from_row_def obligation_columns_of_def mk_valid)

lemma traverse_ledger [simp]: "traverseE ledger_event_from_row (map ledger_event_columns_of es) = Inr es"
  by (induction es) simp_all

lemma traverse_obligations:
  "list_all valid_obligation obs \<Longrightarrow> traverseE obligation_from_row (map obligation_columns_of obs) = Inr obs"
  by (induction obs) (simp_all add: decode_obligation_columns)

lemma ledger_keys [simp]:
  "lc_ledger_key (projection_columns p) = SQL_TEXT (lpr_ledger_key p)"
  "lv_event_id (ledger_event_columns_of e) = SQL_TEXT (ler_event_id e)"
  "lv_ledger_key (ledger_event_columns_of e) = SQL_TEXT (ler_ledger_key e)"
  "ob_obligation_key (obligation_columns_of ob) = SQL_TEXT (co_obligation_key ob)"
  "ob_target_or_family_id (obligation_columns_of ob) = SQL_TEXT (co_target_or_family_id ob)"
  by (simp_all add: projection_columns_def ledger_event_columns_of_def obligation_columns_of_def)

section \<open>Typed tables\<close>

record ledger_tables =
  lt_rows :: "ledger_row_projection list"
  lt_events :: "ledger_log_row list"
  lt_obligations :: "coverage_obligation list"

definition encodes :: "ledger_tables \<Rightarrow> ledger_db \<Rightarrow> bool" where
  "encodes t db \<longleftrightarrow> ld_rows db = map projection_columns (lt_rows t)
    \<and> ld_events db = map ledger_event_columns_of (lt_events t)
    \<and> ld_obligations db = map obligation_columns_of (lt_obligations t)"

definition log_order :: "ledger_log_row \<Rightarrow> string \<times> string" where
  "log_order e = (ler_as_of e, ler_event_id e)"

definition log_of :: "string \<Rightarrow> ledger_log_row list \<Rightarrow> ledger_log_row list" where
  "log_of key events = sort_key log_order (filter (\<lambda>e. ler_ledger_key e = key) events)"

lemma encodes_projection:
  assumes "encodes t db"
  shows "get_ledger_projection key db = Inr (find (\<lambda>p. lpr_ledger_key p = key) (lt_rows t))"
  using assms by (auto simp: encodes_def get_ledger_projection_def find_map comp_def split: option.split)

lemma encodes_event:
  assumes "encodes t db"
  shows "ledger_event_row event_id db = Inr (find (\<lambda>e. ler_event_id e = event_id) (lt_events t))"
  using assms by (auto simp: encodes_def ledger_event_row_def find_map comp_def split: option.split)

lemma encodes_log:
  assumes "encodes t db"
  shows "list_ledger_events key db = Inr (log_of key (lt_events t))"
proof -
  let ?f = "\<lambda>(a, b). ((2, 0, a), (2, 0, b)) :: (nat \<times> rat \<times> string) \<times> (nat \<times> rat \<times> string)"
  have "sort_key (\<lambda>row. (sql_order (lv_as_of row), sql_order (lv_event_id row))) (map ledger_event_columns_of es)
      = map ledger_event_columns_of (sort_key (\<lambda>e. ?f (log_order e)) es)" for es
    by (simp add: sort_key_map comp_def ledger_event_columns_of_def log_order_def)
  moreover have "sort_key (\<lambda>e. ?f (log_order e)) es = sort_key log_order es" for es
    by (rule sort_key_order) (auto simp: less_eq_prod_def less_prod_def split: prod.splits)
  ultimately show ?thesis
    using assms by (simp add: list_ledger_events_def encodes_def filter_map comp_def log_of_def)
qed

lemma encodes_obligations:
  assumes "encodes t db" and "list_all valid_obligation (lt_obligations t)"
  shows "list_obligations None db = Inr (sort_key co_obligation_key (lt_obligations t))"
    and "get_obligation key db = Inr (find (\<lambda>ob. co_obligation_key ob = key) (lt_obligations t))"
proof -
  have "sort_key (\<lambda>row. sql_order (ob_obligation_key row)) (map obligation_columns_of (lt_obligations t))
      = map obligation_columns_of (sort_key (\<lambda>ob. (2, 0, co_obligation_key ob) :: nat \<times> rat \<times> string) (lt_obligations t))"
    by (simp add: sort_key_map comp_def)
  also have "sort_key (\<lambda>ob. (2, 0, co_obligation_key ob) :: nat \<times> rat \<times> string) (lt_obligations t)
      = sort_key co_obligation_key (lt_obligations t)"
    by (rule sort_key_order) simp
  finally have sorted_rows: "sort_key (\<lambda>row. sql_order (ob_obligation_key row)) (map obligation_columns_of (lt_obligations t))
      = map obligation_columns_of (sort_key co_obligation_key (lt_obligations t))" .
  have "list_all valid_obligation (sort_key co_obligation_key (lt_obligations t))"
    using assms(2) by (simp add: list_all_iff)
  then show "list_obligations None db = Inr (sort_key co_obligation_key (lt_obligations t))"
    using assms(1) by (simp add: list_obligations_def encodes_def traverse_obligations sorted_rows)
  show "get_obligation key db = Inr (find (\<lambda>ob. co_obligation_key ob = key) (lt_obligations t))"
  proof (cases "find (\<lambda>ob. co_obligation_key ob = key) (lt_obligations t)")
    case None
    then show ?thesis using assms(1) by (simp add: get_obligation_def encodes_def find_map comp_def)
  next
    case (Some ob)
    then have "valid_obligation ob"
      using assms(2) by (auto simp: find_Some_iff list_all_iff)
    then show ?thesis
      using assms(1) Some by (simp add: get_obligation_def encodes_def find_map comp_def decode_obligation_columns)
  qed
qed

section \<open>The upsert\<close>

definition put_keyed :: "('a \<Rightarrow> 'k) \<Rightarrow> 'a \<Rightarrow> 'a list \<Rightarrow> 'a list" where
  "put_keyed k x xs = (if list_ex (\<lambda>y. k y = k x) xs then map (\<lambda>y. if k y = k x then x else y) xs else xs @ [x])"

lemma upsert_row_map:
  assumes "\<And>x y. (key_of (enc x) = key_of (enc y)) = (k x = k y)"
  shows "upsert_row key_of (enc x) (map enc xs) = map enc (put_keyed k x xs)"
  using assms by (auto simp: upsert_row_def put_keyed_def list_ex_iff)

lemma put_keyed_set: "distinct (map k xs) \<Longrightarrow> set (put_keyed k x xs) = insert x {y \<in> set xs. k y \<noteq> k x}"
  by (auto simp: put_keyed_def list_ex_iff)

lemma put_keyed_keys: "map k (put_keyed k x xs) = (if k x \<in> k ` set xs then map k xs else map k xs @ [k x])"
  by (auto simp: put_keyed_def list_ex_iff rev_image_eqI)

lemma put_keyed_distinct: "distinct (map k xs) \<Longrightarrow> distinct (map k (put_keyed k x xs))"
  by (simp add: put_keyed_keys)

lemma find_put_keyed: "find (\<lambda>y. k y = q) (put_keyed k x xs) = (if q = k x then Some x else find (\<lambda>y. k y = q) xs)"
proof -
  have mapped: "find (\<lambda>y. k y = q) (map (\<lambda>y. if k y = k x then x else y) ys) =
      (if q = k x then (if list_ex (\<lambda>y. k y = q) ys then Some x else None) else find (\<lambda>y. k y = q) ys)" for ys
    by (induction ys) auto
  have "find (\<lambda>y. k y = q) (xs @ [x]) = (if q = k x \<and> \<not> list_ex (\<lambda>y. k y = q) xs then Some x else find (\<lambda>y. k y = q) xs)"
    by (induction xs) auto
  with mapped [of xs] show ?thesis
    by (cases "q = k x"; cases "list_ex (\<lambda>y. k y = k x) xs") (simp_all add: put_keyed_def)
qed

lemma encodes_write_obligation:
  "encodes t db \<Longrightarrow> encodes (t\<lparr>lt_obligations := put_keyed co_obligation_key ob (lt_obligations t)\<rparr>) (write_obligation ob db)"
  by (simp add: encodes_def write_obligation_def upsert_row_map [where k = co_obligation_key])

lemma encodes_fold_obligations:
  "encodes t db \<Longrightarrow> encodes (t\<lparr>lt_obligations := fold (put_keyed co_obligation_key) obs (lt_obligations t)\<rparr>)
     (fold write_obligation obs db)"
proof (induction obs arbitrary: t db)
  case (Cons ob obs)
  then show ?case using Cons.IH [OF encodes_write_obligation [OF Cons.prems]] by simp
qed simp

lemma write_obligation_others [simp]:
  "ld_newest_epoch (fold write_obligation obs db) = ld_newest_epoch db"
  "ld_events (fold write_obligation obs db) = ld_events db"
  "ld_rows (fold write_obligation obs db) = ld_rows db"
  by (induction obs arbitrary: db) (simp_all add: write_obligation_def)

text \<open>The projection a row leaves.\<close>

definition leaves :: "py_env \<Rightarrow> target_ledger_row \<Rightarrow> ledger_row_projection \<Rightarrow> bool" where
  "leaves env row p \<longleftrightarrow> tl_target_key row = lpr_ledger_key p
    \<and> last_selected_at env row = Inr (lpr_last_selected_at p)
    \<and> last_presented_at env row = Inr (lpr_last_presented_at p)
    \<and> lpr_teaching_exposure_counts p = teaching_exposure_counts row \<and> lpr_recent_skips p = recent_skips row
    \<and> lpr_probe_counts p = tl_probe_counts row \<and> lpr_review_offers p = tl_review_offers row
    \<and> lpr_overexposure_window p = tl_overexposure_window row \<and> lpr_version p = PLANNING_LEDGER_MODEL_VERSION"

lemma write_projection_Inr:
  "write_projection env row kt db = Inr db' \<longleftrightarrow>
    (\<exists>p. leaves env row p \<and> lpr_ledger_key_type p = kt
      \<and> db' = db\<lparr>ld_rows := upsert_row lc_ledger_key (projection_columns p) (ld_rows db)\<rparr>)" (is "?l \<longleftrightarrow> ?r")
proof
  assume ?l
  then obtain s q where sq: "last_selected_at env row = Inr s" "last_presented_at env row = Inr q"
    by (auto simp: write_projection_def result_simps)
  let ?p = "\<lparr>lpr_ledger_key = tl_target_key row, lpr_ledger_key_type = kt, lpr_last_selected_at = s,
    lpr_last_presented_at = q, lpr_teaching_exposure_counts = teaching_exposure_counts row,
    lpr_probe_counts = tl_probe_counts row, lpr_review_offers = tl_review_offers row,
    lpr_recent_skips = recent_skips row, lpr_overexposure_window = tl_overexposure_window row,
    lpr_version = PLANNING_LEDGER_MODEL_VERSION\<rparr>"
  have "leaves env row ?p" "lpr_ledger_key_type ?p = kt"
    by (simp_all add: leaves_def sq)
  moreover have "db' = db\<lparr>ld_rows := upsert_row lc_ledger_key (projection_columns ?p) (ld_rows db)\<rparr>"
    using \<open>?l\<close> by (simp add: write_projection_def sq projection_columns_def)
  ultimately show ?r by blast
next
  assume ?r
  then show ?l by (auto simp: write_projection_def leaves_def projection_columns_def)
qed

end
