(* ===== verification/Ledger_Store_Properties.thy ===== *)
theory Ledger_Store_Properties
  imports Ledger_Store_Lemmas
begin

text \<open>
  The durable planner ledger over every sequence of its writes: the tables encode typed tables whose rows
  are projections of their logs, an event is recorded once, a stale base is refused, and the rows read
  back as their logs as long as an instant is spelled one way; a last theorem shows what happens otherwise.
\<close>

section \<open>The invariant\<close>

definition ledger_inv :: "py_env \<Rightarrow> ledger_tables \<Rightarrow> bool" where
  "ledger_inv env t \<longleftrightarrow>
    distinct (map lpr_ledger_key (lt_rows t)) \<and> distinct (map ler_event_id (lt_events t))
    \<and> distinct (map co_obligation_key (lt_obligations t)) \<and> list_all valid_obligation (lt_obligations t)
    \<and> (\<forall>p \<in> set (lt_rows t). \<exists>row. leaves env row p \<and> tl_events row \<noteq> []
        \<and> mset (tl_events row) = mset (map logged (filter (\<lambda>e. ler_ledger_key e = lpr_ledger_key p) (lt_events t))))
    \<and> (\<forall>e \<in> set (lt_events t). ler_ledger_key e \<in> lpr_ledger_key ` set (lt_rows t))"

definition appended :: "ledger_append \<Rightarrow> ledger_row_projection \<Rightarrow> ledger_tables \<Rightarrow> ledger_tables" where
  "appended a p t = t\<lparr>lt_rows := put_keyed lpr_ledger_key p (lt_rows t), lt_events := lt_events t @ [offered_event a],
     lt_obligations := fold (put_keyed co_obligation_key) (la_obligations a) (lt_obligations t)\<rparr>"

definition ends_with_event :: "ledger_append \<Rightarrow> bool" where
  "ends_with_event a \<longleftrightarrow> tl_events (la_row a) \<noteq> [] \<and> le_event (last (tl_events (la_row a))) = la_event a"

lemma logged_offered: "ends_with_event a \<Longrightarrow> logged (offered_event a) = last (tl_events (la_row a))"
  by (simp add: ends_with_event_def logged_def offered_event_def)

lemma mset_log_of: "mset (map logged (log_of key es)) = mset (map logged (filter (\<lambda>e. ler_ledger_key e = key) es))"
  by (simp add: log_of_def)

lemma append_typed:
  assumes "encodes t db" and "append_ledger_event env a db = Inr (e, db')" and "ends_with_event a"
  shows "\<exists>p. leaves env (la_row a) p \<and> lpr_ledger_key_type p = la_key_type a \<and> e = offered_event a
    \<and> mset (butlast (tl_events (la_row a))) = mset (map logged (log_of (tl_target_key (la_row a)) (lt_events t)))
    \<and> list_all obligation_integrity (la_obligations a) \<and> encodes (appended a p t) db'
    \<and> ld_newest_epoch db' = ld_newest_epoch db"
proof -
  from assms(2) obtain p where p: "leaves env (la_row a) p" "lpr_ledger_key_type p = la_key_type a"
    and base: "mset (map logged (log_of (tl_target_key (la_row a)) (lt_events t))) = mset (butlast (tl_events (la_row a)))"
    and ok: "list_all obligation_integrity (la_obligations a)" "e = offered_event a"
    and db': "db' = fold write_obligation (la_obligations a)
      (db\<lparr>ld_rows := upsert_row lc_ledger_key (projection_columns p) (ld_rows db),
          ld_events := ld_events db @ [ledger_event_columns_of (offered_event a)]\<rparr>)"
    by (auto simp: append_ledger_event_def encodes_log [OF assms(1)] encodes_projection [OF assms(1)] result_simps
        write_projection_Inr split: if_splits)
  have "encodes (t\<lparr>lt_rows := put_keyed lpr_ledger_key p (lt_rows t), lt_events := lt_events t @ [offered_event a]\<rparr>)
      (db\<lparr>ld_rows := upsert_row lc_ledger_key (projection_columns p) (ld_rows db),
          ld_events := ld_events db @ [ledger_event_columns_of (offered_event a)]\<rparr>)"
    using assms(1) by (simp add: encodes_def upsert_row_map [where k = lpr_ledger_key])
  from encodes_fold_obligations [OF this, of "la_obligations a"]
  have "encodes (appended a p t) db'"
    by (simp add: appended_def db')
  with p base ok show ?thesis by (auto simp: db')
qed

lemma fold_put_keyed:
  assumes "distinct (map k xs)"
  shows "distinct (map k (fold (put_keyed k) ys xs)) \<and> set (fold (put_keyed k) ys xs) \<subseteq> set ys \<union> set xs"
  using assms
proof (induction ys arbitrary: xs)
  case (Cons y ys)
  then show ?case
    using Cons.IH [OF put_keyed_distinct [OF Cons.prems], of y] put_keyed_set [OF Cons.prems, of y] by auto
qed simp

lemma append_keeps_inv:
  assumes inv: "ledger_inv env t" and row: "leaves env (la_row a) p" "ends_with_event a"
    and base: "mset (butlast (tl_events (la_row a))) = mset (map logged (log_of (tl_target_key (la_row a)) (lt_events t)))"
    and fresh: "la_event_id a \<notin> ler_event_id ` set (lt_events t)" and obs: "list_all valid_obligation (la_obligations a)"
  shows "ledger_inv env (appended a p t)"
proof -
  have key: "lpr_ledger_key p = tl_target_key (la_row a)" "ler_ledger_key (offered_event a) = tl_target_key (la_row a)"
    "ler_event_id (offered_event a) = la_event_id a"
    using row by (simp_all add: leaves_def offered_event_def)
  have rows: "set (put_keyed lpr_ledger_key p (lt_rows t)) = insert p {q \<in> set (lt_rows t). lpr_ledger_key q \<noteq> lpr_ledger_key p}"
    using inv by (intro put_keyed_set) (simp add: ledger_inv_def)
  have whole: "mset (tl_events (la_row a)) = mset (map logged (filter (\<lambda>e. ler_ledger_key e = lpr_ledger_key p)
      (lt_events t @ [offered_event a])))"
  proof -
    have "tl_events (la_row a) = butlast (tl_events (la_row a)) @ [logged (offered_event a)]"
      using row(2) by (simp add: logged_offered) (simp add: ends_with_event_def)
    then have "mset (tl_events (la_row a)) = mset (butlast (tl_events (la_row a))) + {#logged (offered_event a)#}"
      by (metis mset_append mset_single_iff)
    then show ?thesis
      using base by (simp only: mset_log_of) (simp add: key)
  qed
  have projected: "\<exists>row. leaves env row q \<and> tl_events row \<noteq> []
      \<and> mset (tl_events row) = mset (map logged (filter (\<lambda>e. ler_ledger_key e = lpr_ledger_key q)
          (lt_events t @ [offered_event a])))" if "q \<in> set (put_keyed lpr_ledger_key p (lt_rows t))" for q
  proof (cases "q = p")
    case True
    then show ?thesis using row whole by (auto simp: ends_with_event_def)
  next
    case False
    then have "q \<in> set (lt_rows t)" "lpr_ledger_key q \<noteq> tl_target_key (la_row a)"
      using that rows key by auto
    then show ?thesis using inv key by (auto simp: ledger_inv_def)
  qed
  have obligations: "distinct (map co_obligation_key (lt_obligations (appended a p t)))
      \<and> list_all valid_obligation (lt_obligations (appended a p t))"
    using inv obs fold_put_keyed [of co_obligation_key "lt_obligations t" "la_obligations a"]
    by (auto simp: ledger_inv_def appended_def list_all_iff)
  have homes: "ler_ledger_key e \<in> lpr_ledger_key ` set (put_keyed lpr_ledger_key p (lt_rows t))"
    if "e \<in> set (lt_events t @ [offered_event a])" for e
  proof (cases "ler_ledger_key e = lpr_ledger_key p")
    case True
    then show ?thesis by (simp add: rows)
  next
    case False
    then have "e \<in> set (lt_events t)" using that key by auto
    then obtain q where "q \<in> set (lt_rows t)" "lpr_ledger_key q = ler_ledger_key e"
      using inv by (auto simp: ledger_inv_def)
    then show ?thesis using False by (auto simp: rows intro!: image_eqI [of _ _ q])
  qed
  show ?thesis
    using inv obligations projected homes fresh key
    by (simp add: ledger_inv_def appended_def put_keyed_distinct)
qed

section \<open>The reachable ledgers\<close>

definition ledger_ok :: "py_env \<Rightarrow> ledger_db \<Rightarrow> bool" where
  "ledger_ok env db \<longleftrightarrow> (\<exists>t. encodes t db \<and> ledger_inv env t)"

inductive reachable_ledger :: "py_env \<Rightarrow> ledger_db \<Rightarrow> bool" for env where
  created: "reachable_ledger env \<lparr>ld_newest_epoch = None, ld_rows = [], ld_obligations = [], ld_events = []\<rparr>"
| epoch: "reachable_ledger env db \<Longrightarrow> reachable_ledger env (db\<lparr>ld_newest_epoch := Some n\<rparr>)"
| recorded: "reachable_ledger env db \<Longrightarrow> list_all valid_obligation (la_obligations a) \<Longrightarrow>
    record_ledger_event env fence a db = Inr (e, db') \<Longrightarrow> reachable_ledger env db'"
| upserted: "reachable_ledger env db \<Longrightarrow> valid_obligation ob \<Longrightarrow>
    upsert_obligation fence ob db = Inr (ob', db') \<Longrightarrow> reachable_ledger env db'"

lemma record_cases:
  assumes "record_ledger_event env fence a db = Inr (e, db')" and "encodes t db"
  shows "ends_with_event a \<and> ld_newest_epoch db = Some fence
    \<and> (case find (\<lambda>e. ler_event_id e = la_event_id a) (lt_events t) of
         Some d \<Rightarrow> same_ledger_event d a \<and> e = d \<and> db' = db
       | None \<Rightarrow> append_ledger_event env a db = Inr (e, db'))"
  using assms
  by (auto simp: record_ledger_event_def require_current_ledger_epoch_def result_simps ends_with_event_def
      encodes_event [OF assms(2)] split: if_splits option.splits)

lemma ledger_ok_record:
  assumes "ledger_ok env db" and "list_all valid_obligation (la_obligations a)"
    and "record_ledger_event env fence a db = Inr (e, db')"
  shows "ledger_ok env db'"
proof -
  obtain t where t: "encodes t db" "ledger_inv env t"
    using assms(1) by (auto simp: ledger_ok_def)
  note cases = record_cases [OF assms(3) t(1)]
  show ?thesis
  proof (cases "find (\<lambda>e. ler_event_id e = la_event_id a) (lt_events t)")
    case (Some d)
    then show ?thesis using cases assms(1) by simp
  next
    case None
    then have fresh: "la_event_id a \<notin> ler_event_id ` set (lt_events t)"
      by (simp add: find_key_None)
    obtain p where p: "leaves env (la_row a) p" "encodes (appended a p t) db'"
      "mset (butlast (tl_events (la_row a))) = mset (map logged (log_of (tl_target_key (la_row a)) (lt_events t)))"
      using append_typed [OF t(1), where env = env and a = a and e = e and db' = db'] cases None
      unfolding mset_map by auto
    have "ledger_inv env (appended a p t)"
      using append_keeps_inv [OF t(2) p(1) _ p(3) fresh assms(2)] cases by simp
    with p(2) show ?thesis by (auto simp: ledger_ok_def)
  qed
qed

lemma ledger_ok_upsert:
  assumes "ledger_ok env db" and "valid_obligation ob" and "upsert_obligation fence ob db = Inr (ob', db')"
  shows "ledger_ok env db'"
proof -
  obtain t where t: "encodes t db" "ledger_inv env t"
    using assms(1) by (auto simp: ledger_ok_def)
  let ?obs = "put_keyed co_obligation_key ob (lt_obligations t)"
  have "db' = write_obligation ob db"
    using assms(3) by (auto simp: upsert_obligation_def result_simps split: if_splits)
  then have "encodes (t\<lparr>lt_obligations := ?obs\<rparr>) db'"
    using encodes_write_obligation [OF t(1)] by simp
  moreover have "ledger_inv env (t\<lparr>lt_obligations := ?obs\<rparr>)"
    using t(2) assms(2) put_keyed_set [of co_obligation_key "lt_obligations t" ob]
    by (auto simp: ledger_inv_def put_keyed_distinct list_all_iff)
  ultimately show ?thesis by (auto simp: ledger_ok_def)
qed

lemma reachable_ledger_ok: "reachable_ledger env db \<Longrightarrow> ledger_ok env db"
proof (induction rule: reachable_ledger.induct)
  case created
  have "encodes \<lparr>lt_rows = [], lt_events = [], lt_obligations = []\<rparr>
      \<lparr>ld_newest_epoch = None, ld_rows = [], ld_obligations = [], ld_events = []\<rparr>"
    and "ledger_inv env \<lparr>lt_rows = [], lt_events = [], lt_obligations = []\<rparr>"
    by (simp_all add: encodes_def ledger_inv_def)
  then show ?case unfolding ledger_ok_def by blast
next
  case (epoch db n)
  then show ?case by (auto simp: ledger_ok_def encodes_def)
qed (blast intro: ledger_ok_record ledger_ok_upsert)+

section \<open>Reading a row\<close>

definition spelled_once :: "py_env \<Rightarrow> ledger_log_row list \<Rightarrow> bool" where
  "spelled_once env es \<longleftrightarrow> (\<forall>a \<in> set es. \<forall>b \<in> set es.
    stamp_instant env (ler_as_of a) \<noteq> None \<and> stamp_instant env (ler_as_of a) = stamp_instant env (ler_as_of b)
    \<longrightarrow> ler_as_of a = ler_as_of b)"

lemma latest_stamp_readable:
  assumes "latest_stamp env xs = Inr r" and "s \<in> set xs"
  shows "stamp_instant env s \<noteq> None"
proof -
  from assms(1) obtain keyed where
    "traverseE (\<lambda>text. bindE (ledger_instant env text ''at'') (\<lambda>d. Inr (instant_of d, text))) xs = Inr keyed"
    by (auto simp: latest_stamp_def result_simps)
  then obtain d where "ledger_instant env s ''at'' = Inr d"
    using assms(2) by (induction xs arbitrary: keyed) (auto simp: result_simps)
  then have "ledger_instant env s [] = Inr d"
    by (simp add: ledger_instant_Inr)
  then show ?thesis by (simp add: stamp_instant_def)
qed

lemma latest_stamp_perm:
  assumes same: "mset xs = mset ys" and xs: "latest_stamp env xs = Inr r"
    and once: "\<And>s s'. s \<in> set xs \<Longrightarrow> s' \<in> set xs \<Longrightarrow> stamp_instant env s \<noteq> None \<Longrightarrow>
      stamp_instant env s = stamp_instant env s' \<Longrightarrow> s = s'"
  shows "latest_stamp env ys = Inr r"
proof -
  let ?t = "\<lambda>s. the (stamp_instant env s)"
  have sets: "set ys = set xs" using same by (metis set_mset_mset)
  have reads: "\<forall>s \<in> set xs. stamp_instant env s \<noteq> None"
    using latest_stamp_readable [OF xs] by blast
  then have reads_ys: "\<forall>s \<in> set ys. stamp_instant env s \<noteq> None"
    unfolding sets .
  show ?thesis
  proof (cases xs)
    case Nil
    then show ?thesis using same xs by simp
  next
    case (Cons x xs')
    then obtain y ys' where ys: "ys = y # ys'" using same by (cases ys) auto
    let ?m = "max_by ?t x xs'" and ?n = "max_by ?t y ys'"
    have "?m \<in> set xs" "?n \<in> set xs"
      using max_by_in [of ?t x xs'] max_by_in [of ?t y ys'] sets Cons ys by auto
    moreover have "?t ?m = ?t ?n"
    proof -
      have "?t ?m = Max (?t ` insert x (set xs'))" and "?t ?n = Max (?t ` insert y (set ys'))"
        by (rule max_by_key)+
      moreover have "insert y (set ys') = insert x (set xs')"
        using sets Cons ys by simp
      ultimately show ?thesis by presburger
    qed
    ultimately have "stamp_instant env ?m = stamp_instant env ?n"
      using reads by (intro option.expand) auto
    then have "?m = ?n"
      using once [of ?m ?n] reads \<open>?m \<in> set xs\<close> \<open>?n \<in> set xs\<close> by blast
    then show ?thesis
      using latest_stamp_reads [OF reads] latest_stamp_reads [OF reads_ys] xs Cons ys by simp
  qed
qed

lemma mset_events_of:
  assumes "mset (tl_events row) = mset (tl_events row')"
  shows "mset (events_of row wanted) = mset (events_of row' wanted)"
  using assms by (simp add: events_of_def)

lemma leaves_perm:
  assumes "leaves env row p" and events: "mset (tl_events row) = mset (map logged es)"
    and "spelled_once env es" and key: "lpr_ledger_key p = key"
  shows "leaves env (row_from_log p es) p"
proof -
  have built: "mset (tl_events row) = mset (tl_events (row_from_log p es))"
    using events by (simp add: row_from_log_def)
  have once: "s = s'" if st: "s \<in> set (events_of row wanted)" "s' \<in> set (events_of row wanted)"
    "stamp_instant env s \<noteq> None" "stamp_instant env s = stamp_instant env s'" for s s' wanted
  proof -
    have "set (tl_events row) = logged ` set es"
      using events by (metis set_map set_mset_mset)
    then obtain a b where "a \<in> set es" "b \<in> set es" "s = ler_as_of a" "s' = ler_as_of b"
      using st(1,2) by (auto simp: events_of_def logged_def)
    then show ?thesis using assms(3) st(3,4) by (auto simp: spelled_once_def)
  qed
  have stamps: "latest_stamp env (events_of (row_from_log p es) wanted) = Inr r"
    if "latest_stamp env (events_of row wanted) = Inr r" for wanted r
    using latest_stamp_perm [OF mset_events_of [OF built] that] once by blast
  have counts: "length (filter P (tl_events row)) = length (filter P (tl_events (row_from_log p es)))" for P
    using built by (metis mset_filter size_mset)
  show ?thesis
    using assms(1) stamps counts
    by (simp add: leaves_def last_selected_at_def last_presented_at_def teaching_exposure_counts_def recent_skips_def)
      (simp add: row_from_log_def)
qed

lemma read_row_of_leaves:
  assumes "encodes t db" and "find (\<lambda>p. lpr_ledger_key p = key) (lt_rows t) = Some p"
    and "leaves env (row_from_log p (log_of key (lt_events t))) p"
  shows "get_ledger_row env key db = Inr (Some (row_from_log p (log_of key (lt_events t))))"
  using assms(3)
  by (simp add: get_ledger_row_def encodes_projection [OF assms(1)] encodes_log [OF assms(1)] assms(2) leaves_def)

lemma spelled_log_of: "spelled_once env (log_of key es) = spelled_once env (filter (\<lambda>e. ler_ledger_key e = key) es)"
  by (simp add: spelled_once_def log_of_def)

lemma inv_row:
  assumes "ledger_inv env t" and "find (\<lambda>p. lpr_ledger_key p = key) (lt_rows t) = Some p"
  obtains row where "leaves env row p" and "tl_events row \<noteq> []" and "lpr_ledger_key p = key"
    and "mset (tl_events row) = mset (map logged (log_of key (lt_events t)))"
proof -
  from assms(2) have p: "p \<in> set (lt_rows t)" "lpr_ledger_key p = key"
    by (auto simp: find_Some_iff)
  with assms(1) obtain row where "leaves env row p" "tl_events row \<noteq> []"
    "mset (tl_events row) = mset (map logged (filter (\<lambda>e. ler_ledger_key e = key) (lt_events t)))"
    unfolding ledger_inv_def by blast
  then show thesis using that p(2) unfolding mset_log_of by blast
qed

lemma read_row_typed:
  assumes "encodes t db" and "ledger_inv env t" and "spelled_once env (log_of key (lt_events t))"
  shows "get_ledger_row env key db = Inr (map_option (\<lambda>p. row_from_log p (log_of key (lt_events t)))
      (find (\<lambda>p. lpr_ledger_key p = key) (lt_rows t)))"
    and "find (\<lambda>p. lpr_ledger_key p = key) (lt_rows t) = None \<longleftrightarrow> log_of key (lt_events t) = []"
proof -
  show "get_ledger_row env key db = Inr (map_option (\<lambda>p. row_from_log p (log_of key (lt_events t)))
      (find (\<lambda>p. lpr_ledger_key p = key) (lt_rows t)))"
  proof (cases "find (\<lambda>p. lpr_ledger_key p = key) (lt_rows t)")
    case None
    then show ?thesis by (simp add: get_ledger_row_def encodes_projection [OF assms(1)])
  next
    case (Some p)
    obtain row where row: "leaves env row p" "tl_events row \<noteq> []" "lpr_ledger_key p = key"
      "mset (tl_events row) = mset (map logged (log_of key (lt_events t)))"
      by (rule inv_row [OF assms(2) Some])
    from leaves_perm [OF row(1,4) assms(3) row(3)] show ?thesis
      using read_row_of_leaves [OF assms(1) Some] by (simp add: Some)
  qed
  show "find (\<lambda>p. lpr_ledger_key p = key) (lt_rows t) = None \<longleftrightarrow> log_of key (lt_events t) = []"
  proof (cases "find (\<lambda>p. lpr_ledger_key p = key) (lt_rows t)")
    case None
    then have "key \<notin> lpr_ledger_key ` set (lt_rows t)" by (simp add: find_key_None)
    then have "filter (\<lambda>e. ler_ledger_key e = key) (lt_events t) = []"
      using assms(2) by (auto simp: ledger_inv_def filter_empty_conv)
    then show ?thesis by (simp add: None log_of_def)
  next
    case (Some p)
    obtain row where "leaves env row p" "tl_events row \<noteq> []" "lpr_ledger_key p = key"
      "mset (tl_events row) = mset (map logged (log_of key (lt_events t)))"
      by (rule inv_row [OF assms(2) Some])
    then show ?thesis by (auto simp: Some)
  qed
qed

text \<open>
  C35: In every ledger the store's writes can produce, a key's events are listed in the order of their
  stamps and identifiers; and as long as no instant of the key is spelled in two ways, the row reads back
  as exactly that log: a stored projection never contradicts it, and there is a row exactly when something
  was logged.
\<close>

theorem ledger_row_is_its_log:
  assumes "reachable_ledger env db"
  shows "\<exists>log. list_ledger_events key db = Inr log \<and> sorted (map (\<lambda>e. (ler_as_of e, ler_event_id e)) log)
    \<and> list_all (\<lambda>e. ler_ledger_key e = key) log
    \<and> (spelled_once env log \<longrightarrow> (\<exists>found. get_ledger_row env key db = Inr found
        \<and> (case found of None \<Rightarrow> log = []
           | Some row \<Rightarrow> log \<noteq> [] \<and> tl_target_key row = key \<and> tl_events row = map logged log)))"
proof -
  obtain t where t: "encodes t db" "ledger_inv env t"
    using reachable_ledger_ok [OF assms] by (auto simp: ledger_ok_def)
  let ?log = "log_of key (lt_events t)"
  have "sorted (map (\<lambda>e. (ler_as_of e, ler_event_id e)) ?log)"
    using sorted_sort_key [of log_order] by (simp add: log_of_def log_order_def [abs_def])
  moreover have "list_all (\<lambda>e. ler_ledger_key e = key) ?log"
    by (auto simp: log_of_def list_all_iff)
  moreover have "\<exists>found. get_ledger_row env key db = Inr found
      \<and> (case found of None \<Rightarrow> ?log = []
         | Some row \<Rightarrow> ?log \<noteq> [] \<and> tl_target_key row = key \<and> tl_events row = map logged ?log)"
    if "spelled_once env ?log"
    using read_row_typed [OF t that]
    by (cases "find (\<lambda>p. lpr_ledger_key p = key) (lt_rows t)") (auto simp: row_from_log_def find_Some_iff)
  ultimately show ?thesis using encodes_log [OF t(1)] by blast
qed

section \<open>Writing an event\<close>

lemma append_fresh:
  assumes "encodes t db" and "leaves env (la_row a) p" and "lpr_ledger_key_type p = la_key_type a"
    and "case find (\<lambda>q. lpr_ledger_key q = tl_target_key (la_row a)) (lt_rows t) of None \<Rightarrow> True
      | Some q \<Rightarrow> lpr_ledger_key_type q = la_key_type a"
    and "mset (butlast (tl_events (la_row a))) = mset (map logged (log_of (tl_target_key (la_row a)) (lt_events t)))"
    and "list_all obligation_integrity (la_obligations a)"
  shows "\<exists>db'. append_ledger_event env a db = Inr (offered_event a, db')"
proof -
  have "write_projection env (la_row a) (la_key_type a) db
      = Inr (db\<lparr>ld_rows := upsert_row lc_ledger_key (projection_columns p) (ld_rows db)\<rparr>)"
    using assms(2,3) by (auto simp: write_projection_Inr)
  then show ?thesis
    using assms(4-6) unfolding append_ledger_event_def encodes_log [OF assms(1)] encodes_projection [OF assms(1)]
    by (auto split: option.split)
qed

lemma record_fresh:
  assumes "encodes t db" and "ld_newest_epoch db = Some fence" and "ends_with_event a"
    and "la_event_id a \<notin> ler_event_id ` set (lt_events t)"
  shows "record_ledger_event env fence a db = append_ledger_event env a db"
proof -
  have "find (\<lambda>e. ler_event_id e = la_event_id a) (lt_events t) = None"
    using assms(4) by (simp add: find_key_None)
  then show ?thesis
    using assms(2,3) by (simp add: record_ledger_event_def require_current_ledger_epoch_def encodes_event [OF assms(1)]
        ends_with_event_def checkE_def)
qed

lemma record_step:
  assumes t: "encodes t db" and live: "ld_newest_epoch db = Some fence" and ends: "ends_with_event a"
    and fresh: "la_event_id a \<notin> ler_event_id ` set (lt_events t)"
    and face: "case find (\<lambda>q. lpr_ledger_key q = tl_target_key (la_row a)) (lt_rows t) of None \<Rightarrow> True
      | Some q \<Rightarrow> lpr_ledger_key_type q = la_key_type a"
    and base: "mset (butlast (tl_events (la_row a))) = mset (map logged (log_of (tl_target_key (la_row a)) (lt_events t)))"
    and obs: "list_all obligation_integrity (la_obligations a)"
    and readable: "last_selected_at env (la_row a) = Inr s" "last_presented_at env (la_row a) = Inr q"
  obtains p db' where "record_ledger_event env fence a db = Inr (offered_event a, db')" and "leaves env (la_row a) p"
    and "lpr_ledger_key_type p = la_key_type a" and "encodes (appended a p t) db'" and "ld_newest_epoch db' = Some fence"
proof -
  have "\<exists>p. leaves env (la_row a) p \<and> lpr_ledger_key_type p = la_key_type a"
    by (rule exI [of _ "\<lparr>lpr_ledger_key = tl_target_key (la_row a), lpr_ledger_key_type = la_key_type a,
        lpr_last_selected_at = s, lpr_last_presented_at = q,
        lpr_teaching_exposure_counts = teaching_exposure_counts (la_row a),
        lpr_probe_counts = tl_probe_counts (la_row a), lpr_review_offers = tl_review_offers (la_row a),
        lpr_recent_skips = recent_skips (la_row a), lpr_overexposure_window = tl_overexposure_window (la_row a),
        lpr_version = PLANNING_LEDGER_MODEL_VERSION\<rparr>"]) (simp add: leaves_def readable)
  then obtain db' where db': "append_ledger_event env a db = Inr (offered_event a, db')"
    using append_fresh [OF t _ _ face base obs] by blast
  from append_typed [OF t db' ends] show thesis
    using that [of db'] record_fresh [OF t live ends fresh, of env] db' live by auto
qed

lemma readable_stamps:
  assumes "readable_log env row"
  obtains s q where "last_selected_at env row = Inr s" and "last_presented_at env row = Inr q"
proof -
  have stamps: "\<forall>s \<in> set (events_of row wanted). stamp_instant env s \<noteq> None" for wanted
    using assms by (auto simp: readable_log_def events_of_def list_all_iff)
  show thesis
    using that latest_stamp_reads [OF stamps [of "[CANDIDATE_SELECTED]"]] latest_stamp_reads [OF stamps [of EXPOSURE_EVENTS]]
    by (auto simp: last_selected_at_def last_presented_at_def)
qed

lemma encodes_has_event: "encodes t db \<Longrightarrow> has_ledger_event x db \<longleftrightarrow> x \<in> ler_event_id ` set (lt_events t)"
  by (auto simp: has_ledger_event_def encodes_def list_ex_iff)

lemma append_found:
  assumes "append_ledger_event env a db = Inr (e, db')" and "ledger_event_row (la_event_id a) db = Inr None"
  shows "ld_newest_epoch db' = ld_newest_epoch db \<and> e = offered_event a
    \<and> ledger_event_row (la_event_id a) db' = Inr (Some (offered_event a))"
proof -
  obtain p where db': "ld_newest_epoch db' = ld_newest_epoch db" "e = offered_event a"
    "ld_events db' = ld_events db @ [ledger_event_columns_of (offered_event a)]"
    using assms(1) by (auto simp: append_ledger_event_def result_simps write_projection_Inr split: if_splits)
  have "find (\<lambda>row. lv_event_id row = SQL_TEXT (la_event_id a)) (ld_events db) = None"
    using assms(2) by (auto simp: ledger_event_row_def result_simps split: option.splits)
  moreover have "find P (xs @ [x]) = (if P x then Some x else None)" if "find P xs = None"
    for P x and xs :: "ledger_event_columns list"
    using that by (induction xs) (auto split: if_splits)
  moreover have "ler_event_id (offered_event a) = la_event_id a"
    by (simp add: offered_event_def)
  ultimately show ?thesis
    using db' by (simp add: ledger_event_row_def)
qed

lemma record_ledger_Inr:
  "record_ledger_event env fence a db = Inr (e, db') \<longleftrightarrow>
    ends_with_event a \<and> ld_newest_epoch db = Some fence
    \<and> (ledger_event_row (la_event_id a) db = Inr (Some e) \<and> same_ledger_event e a \<and> db' = db
       \<or> ledger_event_row (la_event_id a) db = Inr None \<and> append_ledger_event env a db = Inr (e, db'))"
  by (auto simp: record_ledger_event_def require_current_ledger_epoch_def result_simps ends_with_event_def
      split: if_splits option.splits)

lemma same_offered: "same_ledger_event (offered_event a) a"
  by (simp add: same_ledger_event_def offered_event_def)

text \<open>The log is one of the replayed writes: the clock plays no part in it.\<close>

interpretation ledger_log: replayed_write ledger_event_row "\<lambda>now a db. record_ledger_event env fence a db" la_event_id
  "\<lambda>durable a. same_ledger_event durable a \<and> ends_with_event a" "\<lambda>db. ld_newest_epoch db = Some fence"
  for env fence
proof unfold_locales
  fix db db' :: ledger_db and now a s
  assume "ld_newest_epoch db = Some fence" and "record_ledger_event env fence a db = Inr (s, db')"
  then show "ld_newest_epoch db' = Some fence \<and> ledger_event_row (la_event_id a) db' = Inr (Some s)
      \<and> same_ledger_event s a \<and> ends_with_event a"
    using append_found [of env a db s db'] same_offered [of a] by (auto simp: record_ledger_Inr)
next
  fix db :: ledger_db and now a s
  assume "ld_newest_epoch db = Some fence" and "ledger_event_row (la_event_id a) db = Inr (Some s)"
    and "same_ledger_event s a \<and> ends_with_event a"
  then show "record_ledger_event env fence a db = Inr (s, db)"
    by (simp add: record_ledger_Inr)
qed

lemma record_rewritten:
  assumes "ledger_event_row (la_event_id b) db = Inr (Some e)" and "ld_newest_epoch db = Some fence"
    and "ends_with_event b" and "\<not> same_ledger_event e b"
  shows "record_ledger_event env fence b db = Inl LedgerEventRewritten"
  using assms by (simp add: record_ledger_event_def require_current_ledger_epoch_def checkE_def ends_with_event_def)

lemma same_is_offered:
  assumes "ledger_event_row (la_event_id b) db = Inr (Some e)"
  shows "same_ledger_event e b \<longleftrightarrow> offered_event b = e"
proof -
  from assms obtain row where "lv_event_id row = SQL_TEXT (la_event_id b)" "ledger_event_from_row row = Inr e"
    by (auto simp: ledger_event_row_def result_simps find_Some_iff split: option.splits)
  then have "ler_event_id e = la_event_id b"
    by (auto simp: ledger_event_from_row_def result_simps)
  then show ?thesis by (cases e) (auto simp: same_ledger_event_def offered_event_def)
qed

text \<open>
  C36: An event is recorded once.  After any accepted call the call can be repeated and answers with the
  same row and no change, and the same identifier with another key, word, stamp or moment is refused.  A
  call with a new identifier adds exactly that event to its key's log, leaves every other key's log alone,
  and was offered with exactly the stored log as its base.
\<close>

theorem ledger_event_recorded_once:
  assumes "reachable_ledger env db" and "record_ledger_event env fence a db = Inr (e, db')"
  shows "record_ledger_event env fence a db' = Inr (e, db')
    \<and> (\<forall>b. la_event_id b = la_event_id a \<and> ends_with_event b \<and> offered_event b \<noteq> e \<longrightarrow>
        record_ledger_event env fence b db' = Inl LedgerEventRewritten)
    \<and> (\<not> has_ledger_event (la_event_id a) db \<longrightarrow>
        (\<forall>key. \<exists>old new. list_ledger_events key db = Inr old \<and> list_ledger_events key db' = Inr new
          \<and> (if key = tl_target_key (la_row a)
             then mset new = mset old + {#e#} \<and> mset (tl_events (la_row a)) = mset (map logged new)
             else new = old)))"
proof -
  have live: "ld_newest_epoch db = Some fence"
    using assms(2) by (simp add: record_ledger_Inr)
  note stored = ledger_log.put_stored [OF live assms(2)]
  have rewritten: "record_ledger_event env fence b db' = Inl LedgerEventRewritten"
    if "la_event_id b = la_event_id a" "ends_with_event b" "offered_event b \<noteq> e" for b
    using record_rewritten [of b db' e fence env] same_is_offered [of b db' e] stored that by simp
  obtain t where t: "encodes t db" "ledger_inv env t"
    using reachable_ledger_ok [OF assms(1)] by (auto simp: ledger_ok_def)
  have grown: "\<forall>key. \<exists>old new. list_ledger_events key db = Inr old \<and> list_ledger_events key db' = Inr new
      \<and> (if key = tl_target_key (la_row a)
         then mset new = mset old + {#e#} \<and> mset (tl_events (la_row a)) = mset (map logged new) else new = old)"
    if "\<not> has_ledger_event (la_event_id a) db"
  proof
    fix key
    have ends: "ends_with_event a"
      using assms(2) by (simp add: record_ledger_Inr)
    have "append_ledger_event env a db = Inr (e, db')"
      using assms(2) that record_fresh [OF t(1) live ends, of env] by (simp add: encodes_has_event [OF t(1)])
    from append_typed [OF t(1) this ends] obtain p where e: "e = offered_event a" "encodes (appended a p t) db'"
      and base: "mset (butlast (tl_events (la_row a))) = mset (map logged (log_of (tl_target_key (la_row a)) (lt_events t)))"
      by blast
    have key_e: "ler_ledger_key (offered_event a) = tl_target_key (la_row a)"
      by (simp add: offered_event_def)
    have logs: "list_ledger_events key db = Inr (log_of key (lt_events t))"
      "list_ledger_events key db' = Inr (log_of key (lt_events t @ [offered_event a]))"
      using encodes_log [OF t(1)] encodes_log [OF e(2)] by (simp_all add: appended_def)
    have "tl_events (la_row a) = butlast (tl_events (la_row a)) @ [logged (offered_event a)]"
      using ends by (simp add: logged_offered) (simp add: ends_with_event_def)
    then have "mset (tl_events (la_row a)) = mset (butlast (tl_events (la_row a))) + {#logged (offered_event a)#}"
      by (metis mset_append mset_single_iff)
    then show "\<exists>old new. list_ledger_events key db = Inr old \<and> list_ledger_events key db' = Inr new
      \<and> (if key = tl_target_key (la_row a)
         then mset new = mset old + {#e#} \<and> mset (tl_events (la_row a)) = mset (map logged new) else new = old)"
      unfolding logs using base key_e e(1) by (auto simp: log_of_def)
  qed
  from ledger_log.put_again [OF live assms(2)] rewritten grown show ?thesis by blast
qed

text \<open>
  Two writers that read the same log cannot both append to it: once one of them has, the other's base
  is stale and its event is refused, whatever it is, so no update is lost and nothing is written.
\<close>

theorem stale_base_refused:
  assumes "reachable_ledger env db" and "record_ledger_event env fence a db = Inr (e, db')"
    and "\<not> has_ledger_event (la_event_id a) db" and "\<not> has_ledger_event (la_event_id b) db"
    and "la_event_id b \<noteq> la_event_id a" and "ends_with_event b"
    and "tl_target_key (la_row b) = tl_target_key (la_row a)" and "la_key_type b = la_key_type a"
    and "mset (butlast (tl_events (la_row b))) = mset (butlast (tl_events (la_row a)))"
  shows "record_ledger_event env fence b db' = Inl BaseLogMoved"
proof -
  have live: "ld_newest_epoch db = Some fence" and ends: "ends_with_event a"
    using assms(2) by (simp_all add: record_ledger_Inr)
  obtain t where t: "encodes t db" "ledger_inv env t"
    using reachable_ledger_ok [OF assms(1)] by (auto simp: ledger_ok_def)
  have "append_ledger_event env a db = Inr (e, db')"
    using assms(2,3) record_fresh [OF t(1) live ends, of env] by (simp add: encodes_has_event [OF t(1)])
  from append_typed [OF t(1) this ends] obtain p where p: "leaves env (la_row a) p" "lpr_ledger_key_type p = la_key_type a"
    "mset (butlast (tl_events (la_row a))) = mset (map logged (log_of (tl_target_key (la_row a)) (lt_events t)))"
    "encodes (appended a p t) db'" "ld_newest_epoch db' = Some fence"
    using live by auto
  have key: "lpr_ledger_key p = tl_target_key (la_row a)"
    using p(1) by (simp add: leaves_def)
  have "la_event_id b \<notin> ler_event_id ` set (lt_events (appended a p t))"
    using assms(4,5) by (auto simp: encodes_has_event [OF t(1)] appended_def offered_event_def)
  from record_fresh [OF p(4,5) assms(6) this, of env]
  have "record_ledger_event env fence b db' = append_ledger_event env b db'" .
  moreover have "mset (map logged (log_of (tl_target_key (la_row a)) (lt_events (appended a p t))))
      \<noteq> mset (butlast (tl_events (la_row b)))"
    unfolding assms(9) p(3) by (simp add: appended_def log_of_def offered_event_def)
  ultimately show ?thesis
    by (simp add: append_ledger_event_def encodes_log [OF p(4)] encodes_projection [OF p(4)] assms(7,8))
      (simp add: appended_def find_put_keyed key p(2) assms(8))
qed

section \<open>Reading the whole ledger\<close>

lemma find_same_rows:
  assumes "distinct (map k xs)" and "distinct (map k ys)" and "set xs = set ys"
  shows "find (\<lambda>y. k y = q) xs = find (\<lambda>y. k y = q) ys"
proof -
  have find_map_of: "find (\<lambda>y. k y = q) zs = map_of (map (\<lambda>y. (k y, y)) zs) q" for zs
    by (induction zs) auto
  have "map_of (map (\<lambda>y. (k y, y)) xs) = map_of (map (\<lambda>y. (k y, y)) ys)"
    using assms by (subst map_of_inject_set) (simp_all add: comp_def)
  then show ?thesis by (simp add: find_map_of)
qed

lemma map_of_update: "map_of (AList.update k v xs) = (map_of xs)(k \<mapsto> v)"
  by (rule update_conv')

lemma read_rows_reads:
  assumes "\<And>p. p \<in> set ps \<Longrightarrow> get_ledger_row env (lpr_ledger_key p) db = Inr (h (lpr_ledger_key p))"
  shows "\<exists>rows. read_rows env db (map projection_columns ps) built = Inr rows
    \<and> (\<forall>k. map_of rows k = (if k \<in> lpr_ledger_key ` set ps \<and> h k \<noteq> None then h k else map_of built k))"
  using assms
proof (induction ps arbitrary: built)
  case (Cons p ps)
  let ?k = "lpr_ledger_key p"
  let ?built = "case h ?k of None \<Rightarrow> built | Some r \<Rightarrow> AList.update ?k r built"
  from Cons.IH [of ?built] Cons.prems obtain rows where
    rows: "read_rows env db (map projection_columns ps) ?built = Inr rows"
    "\<forall>k. map_of rows k = (if k \<in> lpr_ledger_key ` set ps \<and> h k \<noteq> None then h k else map_of ?built k)"
    by auto
  have "read_rows env db (map projection_columns (p # ps)) built = Inr rows"
    using rows(1) Cons.prems [of p] by simp
  moreover have "map_of rows k = (if k \<in> lpr_ledger_key ` set (p # ps) \<and> h k \<noteq> None then h k else map_of built k)" for k
    using rows(2) by (auto simp: map_of_update split: option.splits)
  ultimately show ?case by blast
qed simp

text \<open>
  In every ledger the store's writes can produce, if no instant of a key is spelled in two ways, the
  whole ledger reads without a refusal: it holds under each key the row that key reads alone, and its
  obligations are valid, one per key, in key order, and each the one its own read answers.
\<close>

theorem read_ledger_complete:
  assumes "reachable_ledger env db"
    and "\<forall>key log. list_ledger_events key db = Inr log \<longrightarrow> spelled_once env log"
  shows "\<exists>ledger. read_ledger env db = Inr ledger
    \<and> (\<forall>key. get_ledger_row env key db = Inr (row_of ledger key))
    \<and> (\<forall>key. get_obligation key db = Inr (find (\<lambda>ob. co_obligation_key ob = key) (pl_obligations ledger)))
    \<and> sorted (map co_obligation_key (pl_obligations ledger)) \<and> distinct (map co_obligation_key (pl_obligations ledger))
    \<and> (\<forall>ob \<in> set (pl_obligations ledger). mk_coverage_obligation ob = Inr ob)"
proof -
  obtain t where t: "encodes t db" "ledger_inv env t"
    using reachable_ledger_ok [OF assms(1)] by (auto simp: ledger_ok_def)
  define h where "h key = map_option (\<lambda>p. row_from_log p (log_of key (lt_events t)))
    (find (\<lambda>p. lpr_ledger_key p = key) (lt_rows t))" for key
  have reads: "get_ledger_row env key db = Inr (h key)" for key
    unfolding h_def by (rule read_row_typed [OF t]) (use assms(2) encodes_log [OF t(1)] in blast)
  have keys: "h key \<noteq> None \<longleftrightarrow> key \<in> lpr_ledger_key ` set (lt_rows t)" for key
    using find_key_None [of lpr_ledger_key key "lt_rows t"] by (auto simp: h_def)
  let ?ps = "sort_key (\<lambda>p. sql_order (SQL_TEXT (lpr_ledger_key p))) (lt_rows t)"
  obtain rows where rows: "read_rows env db (map projection_columns ?ps) [] = Inr rows"
    "\<forall>k. map_of rows k = (if k \<in> lpr_ledger_key ` set ?ps \<and> h k \<noteq> None then h k else map_of [] k)"
    using read_rows_reads [of ?ps env db h "[]"] reads by blast
  have sorted_rows: "sort_key (\<lambda>row. sql_order (lc_ledger_key row)) (ld_rows db) = map projection_columns ?ps"
    using t(1) by (simp add: encodes_def sort_key_map)
  have row_keys: "map_of rows k = h k" for k
    using rows(2) keys [of k] by (cases "h k") auto
  have valid: "list_all valid_obligation (lt_obligations t)" and distinct_obs: "distinct (map co_obligation_key (lt_obligations t))"
    using t(2) by (simp_all add: ledger_inv_def)
  let ?obs = "sort_key co_obligation_key (lt_obligations t)"
  have read: "read_ledger env db = Inr \<lparr>pl_rows = rows, pl_obligations = ?obs, pl_coverage_debt_rollups = [],
      pl_recent_target_families = [], pl_version = PLANNING_LEDGER_MODEL_VERSION\<rparr>"
    using rows(1) by (simp add: read_ledger_def sorted_rows encodes_obligations(1) [OF t(1) valid])
  have dist: "distinct (map co_obligation_key ?obs)"
    using distinct_obs by (simp add: distinct_map)
  have "find (\<lambda>ob. co_obligation_key ob = key) ?obs = find (\<lambda>ob. co_obligation_key ob = key) (lt_obligations t)" for key
    using dist distinct_obs by (intro find_same_rows) simp_all
  then show ?thesis
    using read reads row_keys dist valid encodes_obligations(2) [OF t(1) valid]
    by (auto simp: row_of_def list_all_iff mk_coverage_obligation_Inr)
qed

end
