(* ===== verification/Exposure.thy ===== *)
theory Exposure
  imports Ledger_Store_Properties Moment_Store "HOL-Library.Sublist"
begin

text \<open>
  \<^verbatim>\<open>elc/runtime/exposure.py\<close> and the coordinator's three entries over it (\<^verbatim>\<open>runtime/controller.py\<close>,
  \<^verbatim>\<open>_with_exposure\<close>, \<^verbatim>\<open>_record_skip_exposure\<close> and \<^verbatim>\<open>_ensure_exposure_once\<close>): which delivery is an event of the
  planning ledger, the unit that appends it with the obligations it changes, and the failure that is carried
  as a note instead of changing the delivery.
\<close>

section \<open>The event of a delivery\<close>

definition LEDGER_EVENT_BY_DELIVERY :: "(string \<times> ledger_event) list" where
  "LEDGER_EVENT_BY_DELIVERY = [(''OPENING'', TEACHING_PRESENTED), (''HINT'', HINT_PRESENTED), (''REVEAL'', REVEAL_PRESENTED)]"

definition UNMAPPED_DELIVERY_KINDS :: "string list" where
  "UNMAPPED_DELIVERY_KINDS = [''RETRY'', ''EXPLANATION'', ''RESUME'']"

text \<open>The \<^verbatim>\<open>ValueError\<close> names the unknown kind.\<close>

definition ledger_event_of :: "string \<Rightarrow> string + ledger_event option" where
  "ledger_event_of kind =
    (if kind \<notin> fst ` set LEDGER_EVENT_BY_DELIVERY \<and> kind \<notin> set UNMAPPED_DELIVERY_KINDS then Inl kind
     else Inr (map_of LEDGER_EVENT_BY_DELIVERY kind))"

definition exposure_event_id :: "string \<Rightarrow> string" where
  "exposure_event_id action_id = ''ev-'' @ action_id"

definition skip_event_id :: "string \<Rightarrow> string" where
  "skip_event_id moment_id = ''ev-skip-'' @ moment_id"

section \<open>The unit\<close>

fun changed_obligations ::
  "py_env \<Rightarrow> ledger_event \<Rightarrow> string \<Rightarrow> coverage_obligation list \<Rightarrow> ledger_error + coverage_obligation list" where
  "changed_obligations env event stamp [] = Inr []"
| "changed_obligations env event stamp (ob # obs) =
    bindE (apply_ledger_event env ob event stamp) (\<lambda>outcome.
    bindE (changed_obligations env event stamp obs) (\<lambda>changed.
      Inr (if eo_changed outcome then eo_obligation outcome # changed else changed)))"

definition record_exposure_event ::
  "py_env \<Rightarrow> int \<Rightarrow> string \<Rightarrow> ledger_event \<Rightarrow> string \<Rightarrow> string option \<Rightarrow> string \<Rightarrow> ledger_db
   \<Rightarrow> ledger_store_error + ledger_log_row \<times> ledger_db" where
  "record_exposure_event env fence event_id event target_key moment_id stamp db =
    bindE (get_ledger_row env target_key db) (\<lambda>existing.
    bindE (wrapE LedgerRaised (record_on_row env
      (case existing of None \<Rightarrow> new_ledger_row target_key | Some row \<Rightarrow> row) event stamp)) (\<lambda>appended.
    bindE (list_obligations (Some target_key) db) (\<lambda>carried.
    bindE (wrapE LedgerRaised (changed_obligations env event stamp carried)) (\<lambda>changed.
      record_ledger_event env fence \<lparr>la_event_id = event_id, la_event = event, la_row = appended,
        la_key_type = KEY_TARGET, la_obligations = changed, la_moment_id = moment_id\<rparr> db))))"

definition record_exposure ::
  "py_env \<Rightarrow> int \<Rightarrow> string \<Rightarrow> ledger_event \<Rightarrow> string \<Rightarrow> string \<Rightarrow> string \<Rightarrow> ledger_db
   \<Rightarrow> ledger_store_error + ledger_log_row \<times> ledger_db" where
  "record_exposure env fence event_id event target_key moment_id stamp db =
    record_exposure_event env fence event_id event target_key (Some moment_id) stamp db"

definition record_skip ::
  "py_env \<Rightarrow> int \<Rightarrow> string \<Rightarrow> string \<Rightarrow> string \<Rightarrow> string \<Rightarrow> ledger_db
   \<Rightarrow> ledger_store_error + ledger_log_row \<times> ledger_db" where
  "record_skip env fence event_id target_key moment_id stamp db =
    record_exposure_event env fence event_id LEDGER_USER_SKIP target_key (Some moment_id) stamp db"

section \<open>The coordinator's entries\<close>

definition DELIVERY_KIND_BY_SLOT :: "(string \<times> string) list" where
  "DELIVERY_KIND_BY_SLOT =
    [(''teaching-open'', ''OPENING''), (''automatic-open'', ''OPENING''), (''hint'', ''HINT''), (''retry'', ''RETRY''),
     (''reveal'', ''REVEAL''), (''explanation'', ''EXPLANATION''), (''resume'', ''RESUME'')]"

text \<open>A stable sort by length, descending, then its head.\<close>

definition delivery_kind_of_action :: "string \<Rightarrow> string option" where
  "delivery_kind_of_action action_id =
    (case sort_key (\<lambda>(slot, kind). - int (length slot))
       (filter (\<lambda>(slot, kind). suffix (''-'' @ slot) action_id) DELIVERY_KIND_BY_SLOT) of
       [] \<Rightarrow> None | (slot, kind) # _ \<Rightarrow> Some kind)"

text \<open>
  The text of a failure: a \<^verbatim>\<open>ValueError\<close>'s own text, another exception's, or a refusal's message, and the
  moment that is not durable; an earlier note of the delivery is kept in front.
\<close>

datatype exposure_note = UnknownDeliveryKind string | ExposureInputError ledger_error | ExposureRaised ledger_store_error
  | ExposureRefused ledger_store_error | ExposureMomentMissing string string | NoteBefore string

record teaching_action_delivery =
  tad_action_id :: string
  tad_assistant_turn_id :: "string option"
  tad_text :: "string option"
  tad_outcome :: string
  tad_turn_status :: string
  tad_state_version :: int
  tad_ledger_event :: "string option"
  tad_ledger_failure :: "exposure_note list"

definition joined_note :: "exposure_note list \<Rightarrow> exposure_note \<Rightarrow> exposure_note list" where
  "joined_note existing note = existing @ [note]"

text \<open>Which failures of the unit are exceptions: the stale fence and the ledger core's own errors.\<close>

fun exposure_exception :: "ledger_store_error \<Rightarrow> bool" where
  "exposure_exception StaleLedgerStoreRaised = True"
| "exposure_exception (LedgerRaised e) = True"
| "exposure_exception _ = False"

fun delivery_failure :: "ledger_store_error \<Rightarrow> exposure_note" where
  "delivery_failure (LedgerRaised e) = (if e = LedgerOverflowRaised then ExposureRaised (LedgerRaised e) else ExposureInputError e)"
| "delivery_failure StaleLedgerStoreRaised = ExposureRaised StaleLedgerStoreRaised"
| "delivery_failure e = ExposureRefused e"

definition failure_note :: "ledger_store_error \<Rightarrow> exposure_note" where
  "failure_note e = (if exposure_exception e then ExposureRaised e else ExposureRefused e)"

definition with_exposure ::
  "py_env \<Rightarrow> bool \<Rightarrow> int \<Rightarrow> string \<Rightarrow> string \<Rightarrow> moment_row \<Rightarrow> string \<Rightarrow> teaching_action_delivery \<Rightarrow> ledger_db
   \<Rightarrow> teaching_action_delivery \<times> ledger_db" where
  "with_exposure env wired fence now moment_id moment delivery_kind delivered db =
    (if \<not> wired then (delivered, db)
     else case ledger_event_of delivery_kind of
       Inl kind \<Rightarrow> (delivered\<lparr>tad_ledger_failure := joined_note (tad_ledger_failure delivered) (UnknownDeliveryKind kind)\<rparr>, db)
     | Inr None \<Rightarrow> (delivered, db)
     | Inr (Some event) \<Rightarrow>
         (case record_exposure env fence (exposure_event_id (tad_action_id delivered)) event
             (mr_focus_target_id moment) moment_id now db of
            Inl e \<Rightarrow> (delivered\<lparr>tad_ledger_failure := joined_note (tad_ledger_failure delivered) (delivery_failure e)\<rparr>, db)
          | Inr (written, db') \<Rightarrow> (delivered\<lparr>tad_ledger_event := Some (ledger_event_word event)\<rparr>, db')))"

definition record_skip_exposure ::
  "py_env \<Rightarrow> bool \<Rightarrow> int \<Rightarrow> string \<Rightarrow> string \<Rightarrow> moment_row \<Rightarrow> ledger_db
   \<Rightarrow> (string option \<times> exposure_note option) \<times> ledger_db" where
  "record_skip_exposure env wired fence now moment_id moment db =
    (if \<not> wired then ((None, None), db)
     else case record_skip env fence (skip_event_id moment_id) (mr_focus_target_id moment) moment_id now db of
       Inl e \<Rightarrow> ((None, Some (failure_note e)), db)
     | Inr (written, db') \<Rightarrow> ((Some (ledger_event_word LEDGER_USER_SKIP), None), db'))"

text \<open>The word the log holds, whether it was written now, and the reason a write that was owed did not happen.\<close>

definition ensure_exposure_once ::
  "py_env \<Rightarrow> bool \<Rightarrow> int \<Rightarrow> string \<Rightarrow> (string \<Rightarrow> moment_row option) \<Rightarrow> string \<Rightarrow> string option \<Rightarrow> bool \<Rightarrow> ledger_db
   \<Rightarrow> (string option \<times> bool \<times> exposure_note option) \<times> ledger_db" where
  "ensure_exposure_once env wired fence now get_moment action_id action_moment presented db =
    (if \<not> presented \<or> \<not> wired then ((None, False, None), db)
     else case delivery_kind_of_action action_id of
       None \<Rightarrow> ((None, False, None), db)
     | Some kind \<Rightarrow>
       (case ledger_event_of kind of
          Inl k \<Rightarrow> ((None, False, Some (UnknownDeliveryKind k)), db)
        | Inr None \<Rightarrow> ((None, False, None), db)
        | Inr (Some event) \<Rightarrow>
          (case action_moment of
             None \<Rightarrow> ((None, False, None), db)
           | Some moment_id \<Rightarrow>
             (case get_moment moment_id of
                None \<Rightarrow> ((None, False, Some (ExposureMomentMissing action_id moment_id)), db)
              | Some moment \<Rightarrow>
                if has_ledger_event (exposure_event_id action_id) db
                then ((Some (ledger_event_word event), False, None), db)
                else (case record_exposure env fence (exposure_event_id action_id) event
                    (mr_focus_target_id moment) moment_id now db of
                  Inl e \<Rightarrow> ((None, False, Some (failure_note e)), db)
                | Inr (written, db') \<Rightarrow> ((Some (ledger_event_word event), True, None), db'))))))"

end
