(* ===== verification/Ledger_Store_Demo.thy ===== *)
theory Ledger_Store_Demo
  imports Ledger_Store_Properties
begin

text \<open>
  Concrete runs of the durable ledger: the statements of the store's properties at a ledger with one key,
  and the run in which one instant spelled in two ways leaves a row that is refused by its own reader.
\<close>

definition demo_at :: "int \<Rightarrow> int \<Rightarrow> string" where
  "demo_at off h = demo_isoformat \<lparr>dt_local = h + off, dt_utcoffset = Some off\<rparr>"

lemma demo_at_instant [simp]: "stamp_instant demo_env (demo_at off h) = Some h"
proof -
  have "ledger_instant demo_env (demo_at off h) f = Inr \<lparr>dt_local = h + off, dt_utcoffset = Some off\<rparr>" for f
    by (simp add: ledger_instant_Inr demo_at_def demo_env_def demo_round_trip) (simp add: demo_isoformat_def)
  then show ?thesis by (simp add: stamp_instant_def instant_of_def)
qed

definition shown :: "string \<Rightarrow> ledger_event_record" where
  "shown stamp = \<lparr>le_event = TEACHING_PRESENTED, le_at = stamp\<rparr>"

definition shown_append :: "string \<Rightarrow> string list \<Rightarrow> ledger_append" where
  "shown_append event_id stamps = \<lparr>la_event_id = event_id, la_event = TEACHING_PRESENTED,
     la_row = (new_ledger_row ''t1'')\<lparr>tl_events := map shown stamps\<rparr>, la_key_type = KEY_TARGET,
     la_obligations = [demo_obligation ''o1'' 0], la_moment_id = Some ''m1''\<rparr>"

lemma shown_append_simps [simp]:
  "la_event_id (shown_append x ss) = x" "la_key_type (shown_append x ss) = KEY_TARGET"
  "tl_events (la_row (shown_append x ss)) = map shown ss" "tl_target_key (la_row (shown_append x ss)) = ''t1''"
  "la_obligations (shown_append x ss) = [demo_obligation ''o1'' 0]" "le_at (shown s) = s"
  "ends_with_event (shown_append x ss) = (ss \<noteq> [])"
  by (auto simp: shown_append_def new_ledger_row_def shown_def ends_with_event_def last_map)

lemma demo_debt [simp]: "obligation_integrity (demo_obligation k d)"
  by (simp add: obligation_integrity_def demo_obligation_def)

definition empty_ledger :: ledger_db where
  "empty_ledger = \<lparr>ld_newest_epoch = Some 1, ld_rows = [], ld_obligations = [], ld_events = []\<rparr>"

definition no_tables :: ledger_tables where
  "no_tables = \<lparr>lt_rows = [], lt_events = [], lt_obligations = []\<rparr>"

lemma empty_ledger_reachable: "reachable_ledger env empty_ledger" "encodes no_tables empty_ledger"
  "ld_newest_epoch empty_ledger = Some 1" "\<not> has_ledger_event x empty_ledger"
  using reachable_ledger.epoch [OF reachable_ledger.created, of env 1]
  by (simp_all add: empty_ledger_def no_tables_def encodes_def has_ledger_event_def)

lemma shown_readable: "\<forall>s \<in> set ss. stamp_instant demo_env s \<noteq> None \<Longrightarrow> readable_log demo_env (la_row (shown_append x ss))"
  by (auto simp: readable_log_def list_all_iff)

lemma first_shown:
  assumes "stamp_instant demo_env s \<noteq> None"
  obtains p db where "record_ledger_event demo_env 1 (shown_append ''e1'' [s]) empty_ledger
      = Inr (offered_event (shown_append ''e1'' [s]), db)"
    and "leaves demo_env (la_row (shown_append ''e1'' [s])) p" and "lpr_ledger_key_type p = KEY_TARGET"
    and "encodes (appended (shown_append ''e1'' [s]) p no_tables) db" and "ld_newest_epoch db = Some 1"
    and "reachable_ledger demo_env db"
proof -
  obtain a b where stamps: "last_selected_at demo_env (la_row (shown_append ''e1'' [s])) = Inr a"
    "last_presented_at demo_env (la_row (shown_append ''e1'' [s])) = Inr b"
    by (rule readable_stamps [OF shown_readable [of "[s]" "''e1''"]]) (use assms in auto)
  obtain p db where step: "record_ledger_event demo_env 1 (shown_append ''e1'' [s]) empty_ledger
      = Inr (offered_event (shown_append ''e1'' [s]), db)"
    "leaves demo_env (la_row (shown_append ''e1'' [s])) p" "lpr_ledger_key_type p = KEY_TARGET"
    "encodes (appended (shown_append ''e1'' [s]) p no_tables) db" "ld_newest_epoch db = Some 1"
    by (rule record_step [OF empty_ledger_reachable(2,3) _ _ _ _ _ stamps])
      (use assms in \<open>auto simp: no_tables_def log_of_def\<close>)
  have "reachable_ledger demo_env db"
    by (rule reachable_ledger.recorded [OF empty_ledger_reachable(1) _ step(1)]) (simp add: demo_obligation_valid)
  with step that show thesis by blast
qed

lemma first_log:
  assumes "encodes (appended (shown_append ''e1'' [s]) p no_tables) db"
  shows "list_ledger_events ''t1'' db = Inr [offered_event (shown_append ''e1'' [s])]"
  by (simp add: encodes_log [OF assms]) (simp add: appended_def no_tables_def log_of_def offered_event_def)

theorem ledger_row_is_its_log_witness:
  "\<exists>db row. reachable_ledger demo_env db \<and> get_ledger_row demo_env ''t1'' db = Inr (Some row)
     \<and> tl_events row = [shown (demo_time 5)]"
proof -
  obtain p db where db: "reachable_ledger demo_env db" "encodes (appended (shown_append ''e1'' [demo_time 5]) p no_tables) db"
    by (rule first_shown [of "demo_time 5"]) auto
  have log: "list_ledger_events ''t1'' db = Inr [offered_event (shown_append ''e1'' [demo_time 5])]"
    by (rule first_log [OF db(2)])
  have "logged (offered_event (shown_append ''e1'' [demo_time 5])) = shown (demo_time 5)"
    using logged_offered [of "shown_append ''e1'' [demo_time 5]"] by simp
  then have "\<exists>row. get_ledger_row demo_env ''t1'' db = Inr (Some row) \<and> tl_events row = [shown (demo_time 5)]"
    using ledger_row_is_its_log [OF db(1), of "''t1''"] log
    by (auto simp: spelled_once_def split: option.splits)
  with db(1) show ?thesis by blast
qed

theorem ledger_event_recorded_once_witness:
  "\<exists>e db. record_ledger_event demo_env 1 (shown_append ''e1'' [demo_time 5]) empty_ledger = Inr (e, db)
     \<and> record_ledger_event demo_env 1 (shown_append ''e1'' [demo_time 5]) db = Inr (e, db)
     \<and> record_ledger_event demo_env 1 (shown_append ''e1'' [demo_time 6]) db = Inl LedgerEventRewritten
     \<and> list_ledger_events ''t1'' db = Inr [e]"
proof -
  obtain p db where db: "record_ledger_event demo_env 1 (shown_append ''e1'' [demo_time 5]) empty_ledger
      = Inr (offered_event (shown_append ''e1'' [demo_time 5]), db)"
    "encodes (appended (shown_append ''e1'' [demo_time 5]) p no_tables) db"
    by (rule first_shown [of "demo_time 5"]) auto
  have "demo_time 5 \<noteq> demo_time 6"
    by (metis demo_stamp numeral_eq_iff option.inject semiring_norm(88))
  then have "offered_event (shown_append ''e1'' [demo_time 6]) \<noteq> offered_event (shown_append ''e1'' [demo_time 5])"
    by (simp add: offered_event_def)
  with ledger_event_recorded_once [OF empty_ledger_reachable(1) db(1)] first_log [OF db(2)] db(1)
  show ?thesis by (metis shown_append_simps(1,7) list.distinct(1))
qed

theorem stale_base_refused_witness:
  "\<exists>e db. record_ledger_event demo_env 1 (shown_append ''e1'' [demo_time 5]) empty_ledger = Inr (e, db)
     \<and> record_ledger_event demo_env 1 (shown_append ''e2'' [demo_time 6]) db = Inl BaseLogMoved"
proof -
  obtain p db where db: "record_ledger_event demo_env 1 (shown_append ''e1'' [demo_time 5]) empty_ledger
      = Inr (offered_event (shown_append ''e1'' [demo_time 5]), db)"
    by (rule first_shown [of "demo_time 5"]) auto
  with stale_base_refused [OF empty_ledger_reachable(1) db empty_ledger_reachable(4,4), of "shown_append ''e2'' [demo_time 6]"]
  show ?thesis by auto
qed

theorem read_ledger_complete_witness:
  "\<exists>db ledger row. reachable_ledger demo_env db \<and> read_ledger demo_env db = Inr ledger
     \<and> row_of ledger ''t1'' = Some row \<and> map co_obligation_key (pl_obligations ledger) = [''o1'']"
proof -
  obtain p db where db: "reachable_ledger demo_env db" "leaves demo_env (la_row (shown_append ''e1'' [demo_time 5])) p"
    "encodes (appended (shown_append ''e1'' [demo_time 5]) p no_tables) db"
    by (rule first_shown [of "demo_time 5"]) auto
  let ?t = "appended (shown_append ''e1'' [demo_time 5]) p no_tables"
  have tables: "lt_rows ?t = [p]" "lt_events ?t = [offered_event (shown_append ''e1'' [demo_time 5])]"
    "lt_obligations ?t = [demo_obligation ''o1'' 0]"
    by (simp_all add: appended_def no_tables_def put_keyed_def)
  have key: "lpr_ledger_key p = ''t1''"
    using db(2) by (simp add: leaves_def)
  have "spelled_once demo_env log" if "list_ledger_events key db = Inr log" for key log
    using that by (auto simp: encodes_log [OF db(3)] tables log_of_def spelled_once_def split: if_splits)
  then obtain ledger where ledger: "read_ledger demo_env db = Inr ledger"
    "\<forall>key. get_ledger_row demo_env key db = Inr (row_of ledger key)"
    using read_ledger_complete [OF db(1)] by blast
  have "get_ledger_row demo_env ''t1'' db \<noteq> Inr None"
    by (auto simp: get_ledger_row_def encodes_projection [OF db(3)] tables key result_simps)
  then obtain row where "row_of ledger ''t1'' = Some row"
    using ledger(2) by (cases "row_of ledger ''t1''") auto
  moreover have "pl_obligations ledger = [demo_obligation ''o1'' 0]"
    using ledger(1) encodes_obligations(1) [OF db(3)]
    by (auto simp: read_ledger_def result_simps tables demo_obligation_valid)
  ultimately show ?thesis
    using ledger(1) db(1) by (auto simp: demo_obligation_def)
qed

section \<open>One instant in two spellings\<close>

lemma two_texts: "demo_at 5 10 = ''5T15''" "demo_time 10 = ''0T10''" "''0T10'' < (''5T15'' :: string)"
  by code_simp+

lemma first_row:
  assumes "leaves demo_env (la_row (shown_append ''e1'' [s])) p" and "encodes (appended (shown_append ''e1'' [s]) p no_tables) db"
  shows "get_ledger_row demo_env ''t1'' db = Inr (Some (la_row (shown_append ''e1'' [s])))"
proof -
  let ?a = "shown_append ''e1'' [s]"
  have log: "log_of ''t1'' (lt_events (appended ?a p no_tables)) = [offered_event ?a]"
    and row: "find (\<lambda>p. lpr_ledger_key p = ''t1'') (lt_rows (appended ?a p no_tables)) = Some p"
    using assms(1) by (simp_all add: appended_def no_tables_def put_keyed_def log_of_def offered_event_def leaves_def)
  have logged_a: "logged (offered_event ?a) = shown s"
    using logged_offered [of ?a] by simp
  have "row_from_log p [offered_event ?a] = la_row ?a"
    using assms(1) logged_a by (simp add: row_from_log_def leaves_def) (simp add: shown_append_def new_ledger_row_def)?
  then show ?thesis
    using read_row_of_leaves [OF assms(2) row, of demo_env] assms(1) log by simp
qed

lemma second_shown:
  assumes "leaves demo_env (la_row (shown_append ''e1'' [s])) p" and "lpr_ledger_key_type p = KEY_TARGET"
    and "encodes (appended (shown_append ''e1'' [s]) p no_tables) db" and "ld_newest_epoch db = Some 1"
    and "reachable_ledger demo_env db" and "stamp_instant demo_env s \<noteq> None" and "stamp_instant demo_env u \<noteq> None"
  obtains q db2 where
    "record_ledger_event demo_env 1 (shown_append ''e2'' [s, u]) db = Inr (offered_event (shown_append ''e2'' [s, u]), db2)"
    and "leaves demo_env (la_row (shown_append ''e2'' [s, u])) q"
    and "encodes (appended (shown_append ''e2'' [s, u]) q (appended (shown_append ''e1'' [s]) p no_tables)) db2"
    and "reachable_ledger demo_env db2"
proof -
  let ?a = "shown_append ''e1'' [s]" and ?b = "shown_append ''e2'' [s, u]"
  have logged_a: "logged (offered_event ?a) = shown s"
    using logged_offered [of ?a] by simp
  have key: "lpr_ledger_key p = ''t1''"
    using assms(1) by (simp add: leaves_def)
  obtain c d where stamps: "last_selected_at demo_env (la_row ?b) = Inr c" "last_presented_at demo_env (la_row ?b) = Inr d"
    by (rule readable_stamps [OF shown_readable [of "[s, u]" "''e2''"]]) (use assms in auto)
  obtain q db2 where step: "record_ledger_event demo_env 1 ?b db = Inr (offered_event ?b, db2)"
    "leaves demo_env (la_row ?b) q" "encodes (appended ?b q (appended ?a p no_tables)) db2"
    by (rule record_step [OF assms(3,4) _ _ _ _ _ stamps])
      (use assms key logged_a in \<open>auto simp: appended_def no_tables_def put_keyed_def log_of_def shown_readable offered_event_def\<close>)
  have "reachable_ledger demo_env db2"
    by (rule reachable_ledger.recorded [OF assms(5) _ step(1)]) (simp add: demo_obligation_valid)
  with step that show thesis by blast
qed

lemma presented_stamp:
  assumes "tl_events row = [shown s, shown u]" and "stamp_instant demo_env s = Some t" and "stamp_instant demo_env u = Some t"
  shows "last_presented_at demo_env row = Inr (Some s)" and "last_selected_at demo_env row = Inr None"
  using latest_stamp_reads [of "[s, u]" demo_env] assms
  by (simp_all add: last_presented_at_def last_selected_at_def events_of_def EXPOSURE_EVENTS_eq shown_def latest_stamp_def)

text \<open>
  The comparison of the offered base with the stored log ignores the order, but the projection's stamp
  is the first of the latest and depends on it.  A presentation recorded at an instant spelled with one
  offset, then another at the same instant spelled in UTC, on the row the store itself read back: both
  appends are accepted and the row is from then on refused by its own reader, its projection
  contradicting its log.
\<close>

theorem two_spellings_lock_row:
  "\<exists>db1 row1 row2 e db2. reachable_ledger demo_env db1 \<and> get_ledger_row demo_env ''t1'' db1 = Inr (Some row1)
     \<and> record_on_row demo_env row1 TEACHING_PRESENTED (demo_time 10) = Inr row2
     \<and> record_ledger_event demo_env 1 ((shown_append ''e2'' [])\<lparr>la_row := row2\<rparr>) db1 = Inr (e, db2)
     \<and> reachable_ledger demo_env db2
     \<and> get_ledger_row demo_env ''t1'' db2 = Inl (ProjectionContradictsLog ''last_presented_at'')"
proof -
  let ?s = "demo_at 5 10" and ?u = "demo_time 10"
  let ?a = "shown_append ''e1'' [?s]" and ?b = "shown_append ''e2'' [?s, ?u]"
  obtain p db where first: "leaves demo_env (la_row ?a) p" "lpr_ledger_key_type p = KEY_TARGET"
    "encodes (appended ?a p no_tables) db" "ld_newest_epoch db = Some 1" "reachable_ledger demo_env db"
    by (rule first_shown [of ?s]) auto
  obtain q db2 where second: "record_ledger_event demo_env 1 ?b db = Inr (offered_event ?b, db2)"
    "leaves demo_env (la_row ?b) q" "encodes (appended ?b q (appended ?a p no_tables)) db2" "reachable_ledger demo_env db2"
    by (rule second_shown [OF first, of ?u]) simp_all
  have row2: "record_on_row demo_env (la_row ?a) TEACHING_PRESENTED ?u = Inr (la_row ?b)"
    by (simp add: record_on_row_def demo_instant shown_append_def new_ledger_row_def shown_def)
  have same: "(shown_append ''e2'' [])\<lparr>la_row := la_row ?b\<rparr> = ?b"
    by (simp add: shown_append_def)
  let ?t = "appended ?b q (appended ?a p no_tables)"
  have log: "log_of ''t1'' (lt_events ?t) = [offered_event ?b, offered_event ?a]"
    by (simp add: appended_def no_tables_def log_of_def offered_event_def log_order_def two_texts)
  have row: "find (\<lambda>p. lpr_ledger_key p = ''t1'') (lt_rows ?t) = Some q"
    using second(2) by (simp add: appended_def find_put_keyed leaves_def)
  have "tl_events (row_from_log q [offered_event ?b, offered_event ?a]) = [shown ?u, shown ?s]"
    using logged_offered [of ?a] logged_offered [of ?b] by (simp add: row_from_log_def)
  note read = presented_stamp [OF this demo_stamp demo_at_instant]
  have "lpr_last_presented_at q = Some ?s" "lpr_last_selected_at q = None"
    using second(2) presented_stamp [of "la_row ?b" ?s ?u 10] by (simp_all add: leaves_def)
  moreover have "?s \<noteq> ?u" by (simp add: two_texts)
  ultimately have "get_ledger_row demo_env ''t1'' db2 = Inl (ProjectionContradictsLog ''last_presented_at'')"
    using read by (simp add: get_ledger_row_def encodes_projection [OF second(3)] encodes_log [OF second(3)] log row)
  with first(5) first_row [OF first(1,3)] row2 second(1,4) same show ?thesis by metis
qed

end
