(* ===== verification/Exposure_Properties.thy ===== *)
theory Exposure_Properties
  imports Exposure Ledger_Store_Demo
begin

text \<open>
  What an exposure write leaves: the exact outcome of the unit over the durable ledger, and the repair face
  that writes a delivery's event at most once whatever happens in between.
\<close>

section \<open>The obligations an event changes\<close>

definition served_by :: "ledger_event \<Rightarrow> string \<Rightarrow> coverage_obligation \<Rightarrow> coverage_obligation" where
  "served_by event stamp ob =
    (if event = TEACHING_PRESENTED then ob\<lparr>co_last_served_at := Some stamp, co_debt_value := 0\<rparr> else ob)"

lemma served_by_simps [simp]:
  "co_obligation_key (served_by event stamp ob) = co_obligation_key ob"
  "co_target_or_family_id (served_by event stamp ob) = co_target_or_family_id ob"
  "co_accrual_paused (served_by event stamp ob) = co_accrual_paused ob"
  "valid_obligation ob \<Longrightarrow> valid_obligation (served_by event stamp ob)"
  by (auto simp: served_by_def valid_obligation_def)

lemma apply_event_exact:
  assumes "valid_obligation ob" and "stamp_instant env stamp \<noteq> None"
  shows "apply_ledger_event env ob event stamp =
    (if event = TEACHING_PRESENTED \<and> co_accrual_paused ob then Inl ServedWhilePaused
     else Inr \<lparr>eo_obligation = served_by event stamp ob, eo_changed = (served_by event stamp ob \<noteq> ob)\<rparr>)"
proof -
  from assms(2) obtain d where "\<And>f. ledger_instant env stamp f = Inr d"
    using stamp_readsE by blast
  then show ?thesis
    using serve_cases [OF assms(1), of env stamp]
    by (auto simp: apply_ledger_event_def SERVING_EVENTS_eq served_by_def)
qed

lemma changed_obligations_exact:
  assumes "list_all valid_obligation obs" and "stamp_instant env stamp \<noteq> None"
  shows "changed_obligations env event stamp obs =
    (if event = TEACHING_PRESENTED \<and> list_ex co_accrual_paused obs then Inl ServedWhilePaused
     else Inr (map (served_by event stamp) (filter (\<lambda>ob. served_by event stamp ob \<noteq> ob) obs)))"
  using assms(1) by (induction obs) (auto simp: apply_event_exact [OF _ assms(2)])

section \<open>The tables after the write\<close>

definition carried_by :: "ledger_tables \<Rightarrow> string \<Rightarrow> coverage_obligation list" where
  "carried_by t key = sort_key co_obligation_key (filter (\<lambda>ob. co_target_or_family_id ob = key) (lt_obligations t))"

lemma encodes_carried:
  assumes "encodes t db" and "list_all valid_obligation (lt_obligations t)"
  shows "list_obligations (Some key) db = Inr (carried_by t key)"
proof -
  let ?obs = "filter (\<lambda>ob. co_target_or_family_id ob = key) (lt_obligations t)"
  have "sort_key (\<lambda>row. sql_order (ob_obligation_key row)) (map obligation_columns_of ?obs)
      = map obligation_columns_of (sort_key (\<lambda>ob. (2, 0, co_obligation_key ob) :: nat \<times> rat \<times> string) ?obs)"
    by (simp add: sort_key_map comp_def)
  also have "sort_key (\<lambda>ob. (2, 0, co_obligation_key ob) :: nat \<times> rat \<times> string) ?obs = sort_key co_obligation_key ?obs"
    by (rule sort_key_order) simp
  finally show ?thesis
    using assms by (simp add: list_obligations_def encodes_def filter_map comp_def carried_by_def list_all_iff
        traverse_obligations)
qed

lemma fold_put_image:
  assumes "distinct (map k xs)" and "set zs \<subseteq> set xs" and "\<And>x. k (f x) = k x"
  shows "fold (put_keyed k) (map f zs) xs = map (\<lambda>x. if x \<in> set zs then f x else x) xs"
  using assms(2)
proof (induction zs rule: rev_induct)
  case (snoc z zs)
  let ?g = "\<lambda>x. if x \<in> set zs then f x else x"
  have inj: "k x = k z \<longleftrightarrow> x = z" if "x \<in> set xs" for x
    using assms(1) snoc.prems that by (auto simp: distinct_map inj_on_def)
  have "list_ex (\<lambda>y. k y = k (f z)) (map ?g xs)"
  proof -
    have "?g z \<in> set (map ?g xs)" and "k (?g z) = k (f z)"
      using snoc.prems assms(3) by auto
    then show ?thesis unfolding list_ex_iff by blast
  qed
  then have "put_keyed k (f z) (map ?g xs) = map (\<lambda>x. if x \<in> set (zs @ [z]) then f x else x) xs"
    using inj assms(3) by (auto simp: put_keyed_def)
  then show ?case using snoc by simp
qed simp

lemma served_tables:
  assumes "distinct (map co_obligation_key (lt_obligations t))"
  shows "fold (put_keyed co_obligation_key)
      (map (served_by event stamp) (filter (\<lambda>ob. served_by event stamp ob \<noteq> ob) (carried_by t key))) (lt_obligations t)
    = map (\<lambda>ob. if co_target_or_family_id ob = key then served_by event stamp ob else ob) (lt_obligations t)"
  using assms by (subst fold_put_image) (auto simp: carried_by_def)

lemma carried_after:
  assumes "distinct (map co_obligation_key (lt_obligations t))" and "lt_obligations t'
    = map (\<lambda>ob. if co_target_or_family_id ob = key then served_by event stamp ob else ob) (lt_obligations t)"
  shows "carried_by t' other = (if other = key then map (served_by event stamp) (carried_by t key) else carried_by t other)"
proof -
  have "filter (\<lambda>ob. co_target_or_family_id ob = other)
      (map (\<lambda>ob. if co_target_or_family_id ob = key then served_by event stamp ob else ob) obs)
      = (if other = key then map (served_by event stamp) (filter (\<lambda>ob. co_target_or_family_id ob = key) obs)
         else filter (\<lambda>ob. co_target_or_family_id ob = other) obs)" for obs
    by (induction obs) auto
  then show ?thesis
    by (simp add: carried_by_def assms(2) sort_key_map comp_def)
qed

section \<open>The exact outcome of the unit\<close>

lemma latest_stamp_grows:
  assumes "latest_stamp env xs = Inr r" and "stamp_instant env s \<noteq> None"
  shows "\<exists>r'. latest_stamp env (xs @ [s]) = Inr r'"
  using latest_stamp_readable [OF assms(1)] assms(2) latest_stamp_reads [of "xs @ [s]" env] by auto

lemma recorded_row_reads:
  assumes "last_selected_at env row = Inr a" and "last_presented_at env row = Inr b" and "stamp_instant env s \<noteq> None"
    and "row' = row\<lparr>tl_events := tl_events row @ [\<lparr>le_event = event, le_at = s\<rparr>]\<rparr>"
  shows "\<exists>c. last_selected_at env row' = Inr c" and "\<exists>d. last_presented_at env row' = Inr d"
proof -
  have "\<exists>r'. latest_stamp env (events_of row' wanted) = Inr r'" if "latest_stamp env (events_of row wanted) = Inr r"
    for wanted r
    using latest_stamp_grows [OF that assms(3)] that by (simp add: assms(4) events_of_def)
  then show "\<exists>c. last_selected_at env row' = Inr c" and "\<exists>d. last_presented_at env row' = Inr d"
    using assms(1,2) by (auto simp: last_selected_at_def last_presented_at_def)
qed

definition key_row :: "ledger_tables \<Rightarrow> string \<Rightarrow> target_ledger_row" where
  "key_row t key = (case find (\<lambda>p. lpr_ledger_key p = key) (lt_rows t) of
     None \<Rightarrow> new_ledger_row key | Some p \<Rightarrow> row_from_log p (log_of key (lt_events t)))"

lemma key_row_reads:
  assumes "encodes t db" and "ledger_inv env t" and "spelled_once env (log_of key (lt_events t))"
  shows "\<exists>found. get_ledger_row env key db = Inr found
      \<and> (case found of None \<Rightarrow> new_ledger_row key | Some row \<Rightarrow> row) = key_row t key"
    and "tl_target_key (key_row t key) = key" and "tl_events (key_row t key) = map logged (log_of key (lt_events t))"
    and "\<exists>a. last_selected_at env (key_row t key) = Inr a" and "\<exists>b. last_presented_at env (key_row t key) = Inr b"
proof -
  note row = read_row_typed [OF assms]
  show "\<exists>found. get_ledger_row env key db = Inr found
      \<and> (case found of None \<Rightarrow> new_ledger_row key | Some row \<Rightarrow> row) = key_row t key"
    using row(1) by (cases "find (\<lambda>p. lpr_ledger_key p = key) (lt_rows t)") (auto simp: key_row_def)
  have found: "tl_target_key (key_row t key) = key \<and> tl_events (key_row t key) = map logged (log_of key (lt_events t))
      \<and> (\<exists>a. last_selected_at env (key_row t key) = Inr a) \<and> (\<exists>b. last_presented_at env (key_row t key) = Inr b)"
  proof (cases "find (\<lambda>p. lpr_ledger_key p = key) (lt_rows t)")
    case None
    then show ?thesis
      using row(2) by (simp add: key_row_def new_ledger_row_def last_selected_at_def last_presented_at_def events_of_def
          latest_stamp_def)
  next
    case (Some p)
    obtain r where r: "leaves env r p" "tl_events r \<noteq> []" "lpr_ledger_key p = key"
      "mset (tl_events r) = mset (map logged (log_of key (lt_events t)))"
      by (rule inv_row [OF assms(2) Some])
    have "leaves env (row_from_log p (log_of key (lt_events t))) p"
      by (rule leaves_perm [OF r(1,4) assms(3) r(3)])
    then show ?thesis
      using r(3) by (auto simp: key_row_def Some leaves_def row_from_log_def)
  qed
  then show "tl_target_key (key_row t key) = key" and "tl_events (key_row t key) = map logged (log_of key (lt_events t))"
    and "\<exists>a. last_selected_at env (key_row t key) = Inr a" and "\<exists>b. last_presented_at env (key_row t key) = Inr b"
    by blast+
qed

definition exposure_append ::
  "ledger_tables \<Rightarrow> string \<Rightarrow> ledger_event \<Rightarrow> string \<Rightarrow> string option \<Rightarrow> string \<Rightarrow> ledger_append" where
  "exposure_append t x event key m now = \<lparr>la_event_id = x, la_event = event,
     la_row = (key_row t key)\<lparr>tl_events := tl_events (key_row t key) @ [\<lparr>le_event = event, le_at = now\<rparr>]\<rparr>,
     la_key_type = KEY_TARGET,
     la_obligations = map (served_by event now) (filter (\<lambda>ob. served_by event now ob \<noteq> ob) (carried_by t key)),
     la_moment_id = m\<rparr>"

lemma exposure_append_simps [simp]:
  "la_event_id (exposure_append t x event key m now) = x" "la_event (exposure_append t x event key m now) = event"
  "la_key_type (exposure_append t x event key m now) = KEY_TARGET"
  "tl_events (la_row (exposure_append t x event key m now)) = tl_events (key_row t key) @ [\<lparr>le_event = event, le_at = now\<rparr>]"
  "tl_target_key (la_row (exposure_append t x event key m now)) = tl_target_key (key_row t key)"
  "ends_with_event (exposure_append t x event key m now)"
  by (simp_all add: exposure_append_def ends_with_event_def)

lemma valid_carried: "ledger_inv env t \<Longrightarrow> list_all valid_obligation (carried_by t key)"
  by (simp add: ledger_inv_def carried_by_def list_all_iff)

lemma exposure_append_obligations:
  "ledger_inv env t \<Longrightarrow> list_all valid_obligation (la_obligations (exposure_append t x event key m now))"
  using valid_carried [of env t key] by (auto simp: exposure_append_def list_all_iff)

lemma valid_integrity: "valid_obligation ob \<Longrightarrow> obligation_integrity ob"
  by (auto simp: valid_obligation_def obligation_integrity_def split: if_splits)

lemma exposure_unfold:
  assumes "encodes t db" and "ledger_inv env t" and "spelled_once env (log_of key (lt_events t))"
    and "stamp_instant env now \<noteq> None"
  shows "record_exposure_event env fence x event key m now db =
    (if event = TEACHING_PRESENTED \<and> list_ex co_accrual_paused (carried_by t key) then Inl (LedgerRaised ServedWhilePaused)
     else record_ledger_event env fence (exposure_append t x event key m now) db)"
proof -
  obtain d where d: "\<And>f. ledger_instant env now f = Inr d"
    using stamp_readsE [OF assms(4)] by blast
  obtain found where "get_ledger_row env key db = Inr found"
    and "(case found of None \<Rightarrow> new_ledger_row key | Some row \<Rightarrow> row) = key_row t key"
    using key_row_reads(1) [OF assms(1-3)] by blast
  moreover have "list_obligations (Some key) db = Inr (carried_by t key)"
    using encodes_carried [OF assms(1)] assms(2) by (simp add: ledger_inv_def)
  ultimately show ?thesis
    by (simp add: record_exposure_event_def record_on_row_def d exposure_append_def
        changed_obligations_exact [OF valid_carried [OF assms(2)] assms(4)])
qed

lemma exposure_fresh:
  assumes "encodes t db" and "ledger_inv env t" and "spelled_once env (log_of key (lt_events t))"
    and "stamp_instant env now \<noteq> None" and "ld_newest_epoch db = Some fence" and "x \<notin> ler_event_id ` set (lt_events t)"
    and "\<forall>p. find (\<lambda>p. lpr_ledger_key p = key) (lt_rows t) = Some p \<longrightarrow> lpr_ledger_key_type p = KEY_TARGET"
  obtains p db' where "record_ledger_event env fence (exposure_append t x event key m now) db
      = Inr (offered_event (exposure_append t x event key m now), db')"
    and "encodes (appended (exposure_append t x event key m now) p t) db'"
    and "ledger_inv env (appended (exposure_append t x event key m now) p t)"
proof -
  let ?a = "exposure_append t x event key m now"
  note row = key_row_reads [OF assms(1-3)]
  obtain b c where "last_selected_at env (key_row t key) = Inr b" "last_presented_at env (key_row t key) = Inr c"
    using row(4,5) by blast
  then obtain b' c' where reads: "last_selected_at env (la_row ?a) = Inr b'" "last_presented_at env (la_row ?a) = Inr c'"
    using recorded_row_reads [of env "key_row t key" b c now "la_row ?a" event] assms(4) by (auto simp: exposure_append_def)
  have face: "case find (\<lambda>q. lpr_ledger_key q = tl_target_key (la_row ?a)) (lt_rows t) of None \<Rightarrow> True
      | Some q \<Rightarrow> lpr_ledger_key_type q = la_key_type ?a"
    using assms(7) by (simp add: row(2) split: option.split)
  have base: "mset (butlast (tl_events (la_row ?a))) = mset (map logged (log_of (tl_target_key (la_row ?a)) (lt_events t)))"
    by (simp add: row(2,3))
  have obs: "list_all valid_obligation (la_obligations ?a)"
    by (rule exposure_append_obligations [OF assms(2)])
  then have integrity: "list_all obligation_integrity (la_obligations ?a)"
    by (simp add: list_all_iff valid_integrity)
  obtain p db' where step: "record_ledger_event env fence ?a db = Inr (offered_event ?a, db')" "leaves env (la_row ?a) p"
    "encodes (appended ?a p t) db'"
    by (rule record_step [OF assms(1,5) _ _ face base integrity reads]) (use assms(6) in simp_all)
  have "ledger_inv env (appended ?a p t)"
    by (rule append_keeps_inv [OF assms(2) step(2) _ base _ obs]) (use assms(6) in simp_all)
  with step that show thesis by blast
qed

lemma appended_obligations:
  assumes "ledger_inv env t"
  shows "lt_obligations (appended (exposure_append t x event key m now) p t)
    = map (\<lambda>ob. if co_target_or_family_id ob = key then served_by event now ob else ob) (lt_obligations t)"
  using assms served_tables [of t event now key] by (simp add: appended_def ledger_inv_def exposure_append_def)

text \<open>
  C39: What an exposure write leaves, exactly.  Over any ledger the store's writes can produce, for a key
  whose instants are each spelled one way and whose face is a target, a fresh event at a readable instant is
  refused as soon as it is a presented teaching and some obligation the key carries is paused.  Otherwise it
  is written: the key's log grows by exactly that event, a presented teaching repays every obligation the
  key carries in full and stamps it served, any other event leaves them as they were, and no other key's
  obligation moves.
\<close>

theorem exposure_write_exact:
  assumes "reachable_ledger env db" and "ld_newest_epoch db = Some fence" and "\<not> has_ledger_event x db"
    and "\<forall>log. list_ledger_events key db = Inr log \<longrightarrow> spelled_once env log"
    and "\<forall>p. get_ledger_projection key db = Inr (Some p) \<longrightarrow> lpr_ledger_key_type p = KEY_TARGET"
    and "stamp_instant env now \<noteq> None"
  shows "\<exists>carried log. list_obligations (Some key) db = Inr carried \<and> list_ledger_events key db = Inr log \<and>
    (if event = TEACHING_PRESENTED \<and> (\<exists>ob \<in> set carried. co_accrual_paused ob)
     then record_exposure env fence x event key m now db = Inl (LedgerRaised ServedWhilePaused)
     else \<exists>e db' log'. record_exposure env fence x event key m now db = Inr (e, db')
       \<and> e = \<lparr>ler_event_id = x, ler_ledger_key = key, ler_event = event, ler_as_of = now, ler_moment_id = Some m\<rparr>
       \<and> list_ledger_events key db' = Inr log' \<and> mset log' = mset log + {#e#}
       \<and> list_obligations (Some key) db' = Inr (if event = TEACHING_PRESENTED
           then map (\<lambda>ob. ob\<lparr>co_last_served_at := Some now, co_debt_value := 0\<rparr>) carried else carried)
       \<and> (\<forall>other. other \<noteq> key \<longrightarrow> list_obligations (Some other) db' = list_obligations (Some other) db))"
proof -
  obtain t where t: "encodes t db" "ledger_inv env t"
    using reachable_ledger_ok [OF assms(1)] by (auto simp: ledger_ok_def)
  have valid: "list_all valid_obligation (lt_obligations t)" and dist: "distinct (map co_obligation_key (lt_obligations t))"
    using t(2) by (simp_all add: ledger_inv_def)
  have once: "spelled_once env (log_of key (lt_events t))"
    using assms(4) encodes_log [OF t(1)] by blast
  note unfolded = exposure_unfold [OF t once assms(6), of fence x event "Some m"]
  have reads: "list_obligations (Some k) db = Inr (carried_by t k)" "list_ledger_events key db = Inr (log_of key (lt_events t))" for k
    using encodes_carried [OF t(1) valid] encodes_log [OF t(1)] by simp_all
  show ?thesis
  proof (cases "event = TEACHING_PRESENTED \<and> list_ex co_accrual_paused (carried_by t key)")
    case True
    then show ?thesis using unfolded reads by (auto simp: record_exposure_def list_ex_iff)
  next
    case False
    let ?a = "exposure_append t x event key (Some m) now"
    have fresh: "x \<notin> ler_event_id ` set (lt_events t)"
      using assms(3) by (simp add: encodes_has_event [OF t(1)])
    have face: "\<forall>p. find (\<lambda>p. lpr_ledger_key p = key) (lt_rows t) = Some p \<longrightarrow> lpr_ledger_key_type p = KEY_TARGET"
      using assms(5) encodes_projection [OF t(1)] by simp
    obtain p db' where step: "record_ledger_event env fence ?a db = Inr (offered_event ?a, db')"
      "encodes (appended ?a p t) db'" "ledger_inv env (appended ?a p t)"
      by (rule exposure_fresh [OF t once assms(6,2) fresh face])
    have e: "offered_event ?a = \<lparr>ler_event_id = x, ler_ledger_key = key, ler_event = event, ler_as_of = now, ler_moment_id = Some m\<rparr>"
      by (simp add: offered_event_def key_row_reads(2) [OF t once]) (simp add: exposure_append_def)
    have log': "list_ledger_events key db' = Inr (log_of key (lt_events t @ [offered_event ?a]))"
      using encodes_log [OF step(2)] by (simp add: appended_def)
    have after: "list_obligations (Some k) db' = Inr (if k = key then map (served_by event now) (carried_by t key) else carried_by t k)" for k
      using encodes_carried [OF step(2)] step(3) carried_after [OF dist appended_obligations [OF t(2)]]
      by (simp add: ledger_inv_def)
    show ?thesis
      using False step(1) unfolded reads log' after e
      by (auto simp: record_exposure_def list_ex_iff log_of_def served_by_def [abs_def])
  qed
qed

section \<open>Concrete writes\<close>

definition owing_ledger :: "coverage_obligation list \<Rightarrow> ledger_db" where
  "owing_ledger obs = fold write_obligation obs empty_ledger"

lemma owing_one:
  "reachable_ledger env (owing_ledger [demo_obligation ''o1'' (1/2)])"
  "reachable_ledger env (owing_ledger [demo_obligation ''o1'' (1/2), paused_obligation])"
proof -
  show one: "reachable_ledger env (owing_ledger [demo_obligation ''o1'' (1/2)])"
    by (rule reachable_ledger.upserted [OF empty_ledger_reachable(1) demo_obligation_valid(1), of "1/2" 1 "''o1''"])
      (simp_all add: upsert_obligation_def require_current_ledger_epoch_def owing_ledger_def empty_ledger_def write_obligation_def checkE_def
        obligation_integrity_def demo_obligation_def)
  show "reachable_ledger env (owing_ledger [demo_obligation ''o1'' (1/2), paused_obligation])"
    by (rule reachable_ledger.upserted [OF one demo_obligation_valid(2), of 1 paused_obligation])
      (simp_all add: upsert_obligation_def require_current_ledger_epoch_def owing_ledger_def empty_ledger_def write_obligation_def checkE_def
        obligation_integrity_def paused_obligation_def demo_obligation_def)
qed

lemma owing_ledger_simps [simp]:
  "ld_newest_epoch (owing_ledger obs) = Some 1" "ld_events (owing_ledger obs) = []" "ld_rows (owing_ledger obs) = []"
  "list_ledger_events key (owing_ledger obs) = Inr []" "\<not> has_ledger_event x (owing_ledger obs)"
  "get_ledger_projection key (owing_ledger obs) = Inr None"
  by (simp_all add: owing_ledger_def empty_ledger_def list_ledger_events_def has_ledger_event_def get_ledger_projection_def)

lemma owing_carried:
  "list_obligations (Some ''t1'') (owing_ledger [demo_obligation ''o1'' (1/2)]) = Inr [demo_obligation ''o1'' (1/2)]"
  "list_obligations (Some ''t1'') (owing_ledger [demo_obligation ''o1'' (1/2), paused_obligation])
    = Inr [demo_obligation ''o1'' (1/2), paused_obligation]"
proof -
  have t: "encodes \<lparr>lt_rows = [], lt_events = [], lt_obligations = fold (put_keyed co_obligation_key) obs []\<rparr> (owing_ledger obs)" for obs
    using encodes_fold_obligations [OF empty_ledger_reachable(2), of obs] by (simp add: owing_ledger_def no_tables_def)
  have valid: "valid_obligation (demo_obligation ''o1'' (1/2))"
    by (rule demo_obligation_valid) simp_all
  show "list_obligations (Some ''t1'') (owing_ledger [demo_obligation ''o1'' (1/2)]) = Inr [demo_obligation ''o1'' (1/2)]"
    by (subst encodes_carried [OF t]) (simp_all add: carried_by_def put_keyed_def valid, simp add: demo_obligation_def)
  show "list_obligations (Some ''t1'') (owing_ledger [demo_obligation ''o1'' (1/2), paused_obligation])
    = Inr [demo_obligation ''o1'' (1/2), paused_obligation]"
    by (subst encodes_carried [OF t]) (simp_all add: carried_by_def put_keyed_def valid demo_obligation_valid(2),
        simp_all add: paused_obligation_def demo_obligation_def)
qed

theorem exposure_write_exact_witness:
  "(\<exists>e db'. record_exposure demo_env 1 ''ev-a'' TEACHING_PRESENTED ''t1'' ''m1'' (demo_at 0 5)
       (owing_ledger [demo_obligation ''o1'' (1/2)]) = Inr (e, db')
     \<and> list_obligations (Some ''t1'') db' = Inr [(demo_obligation ''o1'' 0)\<lparr>co_last_served_at := Some (demo_at 0 5)\<rparr>])
   \<and> record_exposure demo_env 1 ''ev-a'' TEACHING_PRESENTED ''t1'' ''m1'' (demo_at 0 5)
       (owing_ledger [demo_obligation ''o1'' (1/2), paused_obligation]) = Inl (LedgerRaised ServedWhilePaused)"
proof
  note outcome = exposure_write_exact [where x = "''ev-a''" and key = "''t1''" and fence = 1 and env = demo_env
      and now = "demo_at 0 5" and event = TEACHING_PRESENTED and m = "''m1''"]
  have flags: "\<not> co_accrual_paused (demo_obligation ''o1'' (1/2))" "co_accrual_paused paused_obligation"
    by (simp_all add: demo_obligation_def paused_obligation_def)
  show "\<exists>e db'. record_exposure demo_env 1 ''ev-a'' TEACHING_PRESENTED ''t1'' ''m1'' (demo_at 0 5)
       (owing_ledger [demo_obligation ''o1'' (1/2)]) = Inr (e, db')
     \<and> list_obligations (Some ''t1'') db' = Inr [(demo_obligation ''o1'' 0)\<lparr>co_last_served_at := Some (demo_at 0 5)\<rparr>]"
    using outcome [OF owing_one(1)] owing_carried(1) flags
    by (auto simp: spelled_once_def) (simp add: demo_obligation_def)
  show "record_exposure demo_env 1 ''ev-a'' TEACHING_PRESENTED ''t1'' ''m1'' (demo_at 0 5)
       (owing_ledger [demo_obligation ''o1'' (1/2), paused_obligation]) = Inl (LedgerRaised ServedWhilePaused)"
    using outcome [OF owing_one(2)] owing_carried(2) flags by (simp add: spelled_once_def)
qed

section \<open>At most once\<close>

text \<open>Whatever the store's writers do after a point in time.\<close>

inductive ledger_move :: "py_env \<Rightarrow> ledger_db \<Rightarrow> ledger_db \<Rightarrow> bool" for env where
  moved_epoch: "ledger_move env db (db\<lparr>ld_newest_epoch := Some n\<rparr>)"
| moved_event: "list_all valid_obligation (la_obligations a) \<Longrightarrow> record_ledger_event env fence a db = Inr (e, db') \<Longrightarrow>
    ledger_move env db db'"
| moved_obligation: "valid_obligation ob \<Longrightarrow> upsert_obligation fence ob db = Inr (ob', db') \<Longrightarrow> ledger_move env db db'"

lemma record_events_grow:
  assumes "record_ledger_event env fence a db = Inr (e, db')"
  shows "set (ld_events db) \<subseteq> set (ld_events db')"
  using assms by (auto simp: record_ledger_Inr append_ledger_event_def result_simps write_projection_Inr split: if_splits)

lemma upsert_events: "upsert_obligation fence ob db = Inr (ob', db') \<Longrightarrow> ld_events db' = ld_events db"
  by (auto simp: upsert_obligation_def write_obligation_def result_simps split: if_splits)

lemma ledger_move_keeps:
  assumes "ledger_move env db db'" and "reachable_ledger env db"
  shows "reachable_ledger env db' \<and> (has_ledger_event x db \<longrightarrow> has_ledger_event x db')"
  using assms
proof (cases rule: ledger_move.cases)
  case (moved_epoch n)
  then show ?thesis using reachable_ledger.epoch [OF assms(2), of n] by (simp add: has_ledger_event_def)
next
  case (moved_event a fence e)
  then show ?thesis
    using reachable_ledger.recorded [OF assms(2) moved_event] record_events_grow [OF moved_event(2)]
    by (auto simp: has_ledger_event_def list_ex_iff)
next
  case (moved_obligation ob fence ob')
  then show ?thesis
    using reachable_ledger.upserted [OF assms(2) moved_obligation] upsert_events [OF moved_obligation(2)]
    by (simp add: has_ledger_event_def)
qed

lemma ledger_moves_keep:
  assumes "(ledger_move env)\<^sup>*\<^sup>* db db'" and "reachable_ledger env db"
  shows "reachable_ledger env db' \<and> (has_ledger_event x db \<longrightarrow> has_ledger_event x db')"
  using assms by (induction rule: rtranclp_induct) (use ledger_move_keeps in blast)+

lemma one_row_per_event:
  assumes "reachable_ledger env db"
  shows "length (filter (\<lambda>row. lv_event_id row = SQL_TEXT x) (ld_events db)) = (if has_ledger_event x db then 1 else 0)"
proof -
  obtain t where t: "encodes t db" "ledger_inv env t"
    using reachable_ledger_ok [OF assms] by (auto simp: ledger_ok_def)
  have counted: "length (filter (\<lambda>e. ler_event_id e = x) es) = (if x \<in> ler_event_id ` set es then 1 else 0)"
    if "distinct (map ler_event_id es)" for es
    using that by (induction es) (auto simp: filter_empty_conv)
  have "distinct (map ler_event_id (lt_events t))"
    using t(2) by (simp add: ledger_inv_def)
  moreover have "ld_events db = map ledger_event_columns_of (lt_events t)"
    using t(1) by (simp add: encodes_def)
  ultimately show ?thesis
    using counted [of "lt_events t"] unfolding encodes_has_event [OF t(1), of x] by (simp add: filter_map comp_def)
qed

text \<open>The unit over any ledger: what it writes is reachable and holds the event; a known event changes nothing.\<close>

lemma changed_obligations_valid:
  assumes "list_all valid_obligation obs" and "changed_obligations env event stamp obs = Inr changed"
  shows "list_all valid_obligation changed"
  using assms
proof (induction obs arbitrary: changed)
  case (Cons ob obs)
  have "valid_obligation (eo_obligation out)" if "apply_ledger_event env ob event stamp = Inr out" for out
  proof -
    have "ledger_instant env stamp ''at'' \<noteq> Inl e" for e
      using that by (auto simp: apply_ledger_event_def serve_def split: if_splits)
    then obtain d where "ledger_instant env stamp ''at'' = Inr d"
      by (cases "ledger_instant env stamp ''at''") auto
    then have "ledger_instant env stamp [] = Inr d"
      by (simp add: ledger_instant_Inr)
    then have "stamp_instant env stamp \<noteq> None"
      by (simp add: stamp_instant_def)
    then show ?thesis
      using that Cons.prems(1) by (auto simp: apply_event_exact split: if_splits)
  qed
  then show ?case using Cons by (auto simp: result_simps split: if_splits)
qed simp

lemma exposure_event_step:
  assumes "reachable_ledger env db" and "record_exposure_event env fence x event key m now db = Inr (e, db')"
  shows "reachable_ledger env db' \<and> has_ledger_event x db' \<and> (has_ledger_event x db \<longrightarrow> db' = db)"
proof -
  obtain t where t: "encodes t db" "ledger_inv env t"
    using reachable_ledger_ok [OF assms(1)] by (auto simp: ledger_ok_def)
  from assms(2) obtain row carried changed where
    carried: "list_obligations (Some key) db = Inr carried" "changed_obligations env event now carried = Inr changed"
    and rec: "record_ledger_event env fence \<lparr>la_event_id = x, la_event = event, la_row = row, la_key_type = KEY_TARGET,
      la_obligations = changed, la_moment_id = m\<rparr> db = Inr (e, db')" (is "record_ledger_event _ _ ?a _ = _")
    by (auto simp: record_exposure_event_def result_simps)
  have "carried = carried_by t key"
    using carried(1) encodes_carried [OF t(1), of key] t(2) by (simp add: ledger_inv_def)
  then have "list_all valid_obligation (la_obligations ?a)"
    using changed_obligations_valid [OF _ carried(2)] valid_carried [OF t(2)] by simp
  from reachable_ledger.recorded [OF assms(1) this rec] have reach: "reachable_ledger env db'" .
  have "ledger_event_row x db = Inr None \<or> db' = db \<and> ledger_event_row x db = Inr (Some e)"
    and found: "ledger_event_row x db' = Inr (Some e)"
    using rec append_found [of env ?a db e db'] by (auto simp: record_ledger_Inr)
  moreover have "has_ledger_event x d \<longleftrightarrow> ledger_event_row x d \<noteq> Inr None" for d
  proof (cases "find (\<lambda>row. lv_event_id row = SQL_TEXT x) (ld_events d)")
    case None
    moreover from this have "\<not> has_ledger_event x d"
      by (simp add: has_ledger_event_def list_ex_iff find_None_iff)
    ultimately show ?thesis by (simp add: ledger_event_row_def)
  next
    case (Some row)
    then have "row \<in> set (ld_events d)" "lv_event_id row = SQL_TEXT x"
      by (auto simp: find_Some_iff)
    then show ?thesis
      by (auto simp: has_ledger_event_def ledger_event_row_def list_ex_iff Some result_simps)
  qed
  ultimately show ?thesis using reach by auto
qed

lemma exposure_known:
  assumes "reachable_ledger env db" and "has_ledger_event x db"
  shows "case record_exposure env fence x event key m now db of Inl e \<Rightarrow> True | Inr (e, db') \<Rightarrow> db' = db"
  using exposure_event_step [OF assms(1)] assms(2) by (auto simp: record_exposure_def split: sum.split)

lemma with_exposure_known:
  assumes "reachable_ledger env db" and "has_ledger_event (exposure_event_id (tad_action_id delivered)) db"
  shows "snd (with_exposure env wired fence now m moment kind delivered db) = db"
proof -
  have "d = db" if "record_exposure env fence (exposure_event_id (tad_action_id delivered)) event
      (mr_focus_target_id moment) m now db = Inr (e, d)" for event e d
    using exposure_known [OF assms, of fence event "mr_focus_target_id moment" m now] that by simp
  then show ?thesis by (auto simp: with_exposure_def split: sum.split option.split)
qed

text \<open>
  C40: The event of a delivery is written at most once.  For a presented action whose slot names a kind with
  a word and whose moment is durable, the repair face answers the word exactly when the log then holds the
  action's event, says that it wrote it exactly when it was not there before, and otherwise reports why and
  changes nothing.  Once the event is there it is there for good, whatever the store's writers do
  afterwards: there is exactly one row of it, a later repair finds it and writes nothing, and a second pass
  of the delivery leg at any instant writes nothing.
\<close>

theorem exposure_recorded_exactly_once:
  assumes "reachable_ledger env db" and "delivery_kind_of_action a = Some kind"
    and "ledger_event_of kind = Inr (Some event)" and "get_moment m = Some moment"
    and "ensure_exposure_once env True fence now get_moment a (Some m) True db = ((word, wrote, note), db')"
  shows "(word = Some (ledger_event_word event) \<longleftrightarrow> has_ledger_event (exposure_event_id a) db')
    \<and> (wrote \<longleftrightarrow> \<not> has_ledger_event (exposure_event_id a) db \<and> has_ledger_event (exposure_event_id a) db')
    \<and> (note = None \<longleftrightarrow> word \<noteq> None) \<and> (\<not> wrote \<longrightarrow> db' = db)
    \<and> (word \<noteq> None \<longrightarrow> (\<forall>later. (ledger_move env)\<^sup>*\<^sup>* db' later \<longrightarrow>
        length (filter (\<lambda>row. lv_event_id row = SQL_TEXT (exposure_event_id a)) (ld_events later)) = 1
        \<and> (\<forall>fence now. ensure_exposure_once env True fence now get_moment a (Some m) True later = ((word, False, None), later))
        \<and> (\<forall>wired fence now kind delivered. tad_action_id delivered = a \<longrightarrow>
             snd (with_exposure env wired fence now m moment kind delivered later) = later)))"
proof -
  let ?x = "exposure_event_id a"
  have ensure: "ensure_exposure_once env True fence now get_moment a (Some m) True d =
    (if has_ledger_event ?x d then ((Some (ledger_event_word event), False, None), d)
     else case record_exposure env fence ?x event (mr_focus_target_id moment) m now d of
       Inl e \<Rightarrow> ((None, False, Some (failure_note e)), d)
     | Inr (written, d') \<Rightarrow> ((Some (ledger_event_word event), True, None), d'))" for fence now d
    using assms(2-4) by (simp add: ensure_exposure_once_def)
  have step: "reachable_ledger env d \<and> has_ledger_event ?x d"
    if "record_exposure env fence ?x event (mr_focus_target_id moment) m now db = Inr (e, d)" for e d
    using exposure_event_step [OF assms(1)] that unfolding record_exposure_def by blast
  have answer: "reachable_ledger env db' \<and> (word = Some (ledger_event_word event) \<longleftrightarrow> has_ledger_event ?x db')
      \<and> (wrote \<longleftrightarrow> \<not> has_ledger_event ?x db \<and> has_ledger_event ?x db') \<and> (note = None \<longleftrightarrow> word \<noteq> None)
      \<and> (\<not> wrote \<longrightarrow> db' = db) \<and> (word \<noteq> None \<longrightarrow> word = Some (ledger_event_word event))"
    using assms(1,5) step unfolding ensure by (auto split: if_splits sum.splits)
  have later: "length (filter (\<lambda>row. lv_event_id row = SQL_TEXT ?x) (ld_events d)) = 1
      \<and> (\<forall>fence now. ensure_exposure_once env True fence now get_moment a (Some m) True d = ((word, False, None), d))
      \<and> (\<forall>wired fence now kind delivered. tad_action_id delivered = a \<longrightarrow>
           snd (with_exposure env wired fence now m moment kind delivered d) = d)"
    if "word \<noteq> None" "(ledger_move env)\<^sup>*\<^sup>* db' d" for d
  proof -
    have "reachable_ledger env d" "has_ledger_event ?x d"
      using ledger_moves_keep [OF that(2), of ?x] answer that(1) by auto
    then show ?thesis
      using one_row_per_event [of env d ?x] with_exposure_known [of env d] answer that(1) by (simp add: ensure)
  qed
  show ?thesis using answer later by blast
qed

definition shown_moment :: moment_row where
  "shown_moment = \<lparr>mr_conversation_id = ''c'', mr_persona_id = None, mr_source = FROM_AUTOMATIC,
     mr_decision_cycle_id = ''d'', mr_candidate_id = ''k'', mr_focus_target_id = ''t1'', mr_learning_snapshot_id = None,
     mr_curriculum_version = None, mr_policy_version = None, mr_gate_decision_id = ''g'',
     mr_target_mode = ''REVIEW'', mr_learning_intent = ''DEVELOP'', mr_evidence_watermark = Some 0,
     mr_lifecycle_state = MOMENT_OPENING, mr_presentation_phase = ''INITIAL_PROMPT'', mr_attempt_index = 0,
     mr_support_level = ''NONE'', mr_completion_outcome = None, mr_abort_reason = None, mr_state_version = 1,
     mr_created_at = ''t0'', mr_opened_at = None, mr_teaching_terminal_at = None, mr_closed_at = None\<rparr>"

lemma opening_slot: "delivery_kind_of_action ''x-teaching-open'' = Some ''OPENING''"
  "ledger_event_of ''OPENING'' = Inr (Some TEACHING_PRESENTED)"
  by (simp_all add: delivery_kind_of_action_def DELIVERY_KIND_BY_SLOT_def suffix_def ledger_event_of_def
      LEDGER_EVENT_BY_DELIVERY_def)

lemma first_exposure:
  "\<exists>e db'. record_exposure demo_env 1 x event ''t1'' m (demo_at 0 5) empty_ledger = Inr (e, db')"
proof -
  have inv: "ledger_inv demo_env no_tables"
    by (simp add: ledger_inv_def no_tables_def)
  obtain p db' where "record_ledger_event demo_env 1 (exposure_append no_tables x event ''t1'' (Some m) (demo_at 0 5)) empty_ledger
      = Inr (offered_event (exposure_append no_tables x event ''t1'' (Some m) (demo_at 0 5)), db')"
    by (rule exposure_fresh [OF empty_ledger_reachable(2) inv, where now = "demo_at 0 5" and fence = 1 and key = "''t1''"])
      (simp_all add: empty_ledger_reachable(3), simp_all add: no_tables_def spelled_once_def log_of_def)
  moreover have "carried_by no_tables ''t1'' = []"
    by (simp add: carried_by_def no_tables_def)
  ultimately show ?thesis
    using exposure_unfold [OF empty_ledger_reachable(2) inv, of "''t1''" "demo_at 0 5" 1 x event "Some m"]
    by (simp add: record_exposure_def no_tables_def spelled_once_def log_of_def)
qed

theorem exposure_recorded_exactly_once_witness:
  "\<exists>db'. ensure_exposure_once demo_env True 1 (demo_at 0 5) (\<lambda>m. Some shown_moment) ''x-teaching-open'' (Some ''m1'') True empty_ledger
       = ((Some ''teaching_presented'', True, None), db')
     \<and> ensure_exposure_once demo_env True 1 (demo_at 0 7) (\<lambda>m. Some shown_moment) ''x-teaching-open'' (Some ''m1'') True db'
       = ((Some ''teaching_presented'', False, None), db')"
proof -
  obtain e db' where "record_exposure demo_env 1 (exposure_event_id ''x-teaching-open'') TEACHING_PRESENTED ''t1'' ''m1''
      (demo_at 0 5) empty_ledger = Inr (e, db')"
    using first_exposure by blast
  then have ensured: "ensure_exposure_once demo_env True 1 (demo_at 0 5) (\<lambda>m. Some shown_moment) ''x-teaching-open'' (Some ''m1'') True
      empty_ledger = ((Some ''teaching_presented'', True, None), db')"
    by (simp add: ensure_exposure_once_def opening_slot empty_ledger_reachable(4) shown_moment_def)
  have "(ledger_move demo_env)\<^sup>*\<^sup>* db' db'" by simp
  with exposure_recorded_exactly_once [OF empty_ledger_reachable(1) opening_slot refl ensured] ensured
  show ?thesis by blast
qed

end
