(* ===== verification/Candidate_Lemmas.thy ===== *)
theory Candidate_Lemmas
  imports Candidate_Supply Planner_Results Planning_Ledger_Properties
begin

text \<open>
  The input contract of the planner as a property of a list of proposals, and the generator's proposals
  against it: a canonical key names its candidate, and every declared vector is total and in range.
\<close>

section \<open>What the planner accepts\<close>

definition unit_vector :: "('f \<Rightarrow> float64 option) \<Rightarrow> bool" where
  "unit_vector v \<longleftrightarrow> (\<forall>f. \<exists>x. v f = Some x \<and> 0 \<le> x \<and> x \<le> 1)"

definition ready_proposal :: "candidate_proposal \<Rightarrow> bool" where
  "ready_proposal p \<longleftrightarrow> canonical_key p \<noteq> [] \<and> learning_intent p \<in> set (MODE_ALLOWED_INTENTS (target_mode p))
    \<and> request_priority p = 0 \<and> unit_vector (benefit p) \<and> unit_vector (cost p)
    \<and> (prerequisite_state p = READY_WITH_SCAFFOLD \<or> prerequisite_scaffoldable p \<longrightarrow>
        SCAFFOLD_MIN_SUPPORT_COST \<le> the (cost p SUPPORT_COST) \<and> SCAFFOLD_MIN_COGNITIVE_LOAD \<le> the (cost p COGNITIVE_LOAD))
    \<and> schedule_urgency_of (schedule_row p) CURRENT = benefit p SCHEDULE_URGENCY"

definition accepted_proposals :: "user_intent_scope \<Rightarrow> candidate_proposal list \<Rightarrow> bool" where
  "accepted_proposals scope ps \<longleftrightarrow> list_all ready_proposal ps
    \<and> (\<forall>p \<in> set ps. \<forall>q \<in> set ps. canonical_key p = canonical_key q \<longrightarrow> p = q)
    \<and> (\<forall>p \<in> set ps. \<forall>q \<in> set ps. candidate_id p = candidate_id q \<longrightarrow> canonical_key p = canonical_key q)
    \<and> (scope = JUST_CHAT \<longrightarrow> \<not> list_ex user_initiated ps)"

lemma acceptedD:
  assumes "accepted_proposals scope ps"
  shows "p \<in> set ps \<Longrightarrow> ready_proposal p" and "scope = JUST_CHAT \<Longrightarrow> p \<in> set ps \<Longrightarrow> \<not> user_initiated p"
    and "p \<in> set ps \<Longrightarrow> q \<in> set ps \<Longrightarrow> canonical_key p = canonical_key q \<Longrightarrow> p = q"
    and "p \<in> set ps \<Longrightarrow> q \<in> set ps \<Longrightarrow> candidate_id p = candidate_id q \<Longrightarrow> canonical_key p = canonical_key q"
  using assms unfolding accepted_proposals_def list_all_iff list_ex_iff by blast+

lemma traverse_pure: "(\<And>x. x \<in> set xs \<Longrightarrow> f x = Inr (g x)) \<Longrightarrow> traverseE f xs = Inr (map g xs)"
  by (induction xs) auto

lemma group_same:
  assumes "accepted_proposals scope ps" and "p \<in> set ps"
  shows "\<exists>n. group_of ps (canonical_key p) = replicate (Suc n) p"
proof -
  let ?g = "group_of ps (canonical_key p)"
  have "\<forall>q \<in> set ps. canonical_key p = canonical_key q \<longrightarrow> p = q"
    using acceptedD(3) [OF assms] by blast
  then have "\<forall>q \<in> set ?g. q = p"
    unfolding group_of_def by fastforce
  then have "replicate (length ?g) p = ?g"
    by (rule replicate_length_same)
  moreover have "?g \<noteq> []"
    using assms(2) by (auto simp: group_of_def filter_empty_conv)
  ultimately show ?thesis by (metis length_greater_0_conv gr0_implies_Suc)
qed

lemma canonical_group:
  assumes "accepted_proposals scope ps" and "p \<in> set ps"
  shows "\<exists>n. canonicalize_group ps (canonical_key p) = Inr (merge_group (canonical_key p) p (replicate n p))"
proof -
  obtain n where n: "group_of ps (canonical_key p) = replicate (Suc n) p"
    using group_same [OF assms] by blast
  have "check_mergeable k p p = Inr ()" for k
    by (simp add: check_mergeable_def identity_conflict_def checkE_def)
  then have "traverseE (check_mergeable k p) (replicate n p) = Inr (map (\<lambda>q. ()) (replicate n p))" for k
    by (intro traverse_pure) (auto simp: in_set_replicate)
  then show ?thesis
    by (auto simp: canonicalize_group_def Let_def n)
qed

lemma merge_same [simp]:
  "candidate_id (merge_group k p (replicate n p)) = candidate_id p"
  "request_priority (merge_group k p (replicate n p)) = request_priority p"
  "user_initiated (merge_group k p (replicate n p)) = user_initiated p"
  "learning_intent (merge_group k p (replicate n p)) = learning_intent p"
  "target_mode (merge_group k p (replicate n p)) = target_mode p"
  "benefit (merge_group k p (replicate n p)) = benefit p" "cost (merge_group k p (replicate n p)) = cost p"
  "prerequisite_state (merge_group k p (replicate n p)) = prerequisite_state p"
  "prerequisite_scaffoldable (merge_group k p (replicate n p)) = prerequisite_scaffoldable p"
  "schedule_row (merge_group k p (replicate n p)) = schedule_row p"
  "focus_target (merge_group k p (replicate n p)) = focus_target p"
proof -
  have single: "Min (set (map f (p # replicate n p))) = f p" for f :: "candidate_proposal \<Rightarrow> 'x :: linorder"
  proof -
    have "set (map f (p # replicate n p)) = {f p}" by auto
    then show ?thesis by (simp only: Min_singleton)
  qed
  show "candidate_id (merge_group k p (replicate n p)) = candidate_id p"
    using single [of candidate_id] by (simp only: merge_group_def Let_def candidate_proposal.select_convs)
  show "request_priority (merge_group k p (replicate n p)) = request_priority p"
    using single [of request_priority] by (simp only: merge_group_def Let_def candidate_proposal.select_convs)
  show "user_initiated (merge_group k p (replicate n p)) = user_initiated p"
    by (cases n) (auto simp: merge_group_def Let_def list_ex_iff)
qed (simp_all add: merge_group_def Let_def)

lemma assemble_ready:
  assumes "ready_proposal p"
  shows "\<exists>a. assemble_candidate_factors (merge_group k p (replicate n p)) authority = Inr a"
proof -
  let ?c = "merge_group k p (replicate n p)"
  have p: "learning_intent p \<in> set (MODE_ALLOWED_INTENTS (target_mode p))" "request_priority p = 0"
    "unit_vector (benefit p)" "unit_vector (cost p)"
    "prerequisite_state p = READY_WITH_SCAFFOLD \<or> prerequisite_scaffoldable p \<Longrightarrow>
        SCAFFOLD_MIN_SUPPORT_COST \<le> the (cost p SUPPORT_COST) \<and> SCAFFOLD_MIN_COGNITIVE_LOAD \<le> the (cost p COGNITIVE_LOAD)"
    "schedule_urgency_of (schedule_row p) CURRENT = benefit p SCHEDULE_URGENCY"
    using assms by (auto simp: ready_proposal_def)
  have vector: "\<exists>rs. traverseE (\<lambda>f. checked_reading i (wrap f) (v f)) fs = Inr rs"
    if uv: "unit_vector v" for i and wrap :: "'f \<Rightarrow> factor_name" and v fs
  proof (induction fs)
    case (Cons f fs)
    obtain x where "v f = Some x" "0 \<le> x" "x \<le> 1"
      using uv unfolding unit_vector_def by blast
    then show ?case using Cons by (auto simp: checked_reading_def)
  qed simp
  obtain bs cs where "traverseE (\<lambda>f. checked_reading (candidate_id p) (Benefit f) (benefit p f)) BENEFIT_FACTORS = Inr bs"
    "traverseE (\<lambda>f. checked_reading (candidate_id p) (Cost f) (cost p f)) COST_FACTORS = Inr cs"
    using vector [OF p(3), of "candidate_id p" Benefit] vector [OF p(4), of "candidate_id p" Cost] by blast
  moreover have "validate_scaffold_costs ?c = Inr ()"
    using p(5) by (auto simp: validate_scaffold_costs_def scaffolded_def)
  moreover have "\<exists>v g. schedule_leg ?c authority = Inr (v, g) \<and> (\<exists>o1. owned_schedule v g = Inr o1)"
    using p(3,6) by (auto simp: schedule_leg_def Let_def owned_schedule_def number_def unit_vector_def
        split: option.split)
  moreover have "\<exists>r g. goal_leg ?c authority = Inr (r, g)"
    by (auto simp: goal_leg_def Let_def goal_relevance_of_def)
  ultimately show ?thesis
    using p(1,2) by (auto simp: assemble_candidate_factors_def validate_identity_def validate_declared_vector_def checkE_def)
qed

lemma accepted_planned:
  assumes "accepted_proposals (pi_user_intent_scope inp) (pi_proposals inp)"
  shows "\<exists>cs assembled. planned inp cs assembled
    \<and> (\<forall>c \<in> set cs. \<exists>p \<in> set (pi_proposals inp). candidate_id c = candidate_id p \<and> focus_target c = focus_target p)"
proof -
  let ?ps = "pi_proposals inp" and ?scope = "pi_user_intent_scope inp"
  let ?keys = "sorted_set (map canonical_key ?ps)"
  note accepted = assms
  have "\<exists>p n. p \<in> set ?ps \<and> canonical_key p = k \<and> canonicalize_group ?ps k = Inr (merge_group k p (replicate n p))"
    if "k \<in> set ?keys" for k
    using that canonical_group [OF accepted] by (auto simp: sorted_set_def)
  then obtain rep n where rep: "\<And>k. k \<in> set ?keys \<Longrightarrow> rep k \<in> set ?ps \<and> canonical_key (rep k) = k
      \<and> canonicalize_group ?ps k = Inr (merge_group k (rep k) (replicate (n k) (rep k)))"
    by metis
  let ?c = "\<lambda>k. merge_group k (rep k) (replicate (n k) (rep k))"
  have groups: "traverseE (canonicalize_group ?ps) ?keys = Inr (map ?c ?keys)"
    using rep by (intro traverse_pure) simp
  have same_id: "canonical_key p = canonical_key q" if "p \<in> set ?ps" "q \<in> set ?ps" "candidate_id p = candidate_id q" for p q
    using acceptedD(4) [OF accepted that] .
  have "inj_on (\<lambda>k. candidate_id (rep k)) (set ?keys)"
  proof (rule inj_onI)
    fix k l assume "k \<in> set ?keys" "l \<in> set ?keys" "candidate_id (rep k) = candidate_id (rep l)"
    then show "k = l" using rep [of k] rep [of l] same_id [of "rep k" "rep l"] by simp
  qed
  then have distinct_ids: "distinct (map candidate_id (map ?c ?keys))"
    by (simp add: distinct_map comp_def sorted_set_def)
  have keyed: "traverseE (\<lambda>p. checkE (canonical_key p \<noteq> []) (PlannerInputError (NoCanonicalKey (candidate_id p)))) ?ps
      = Inr (map (\<lambda>p. ()) ?ps)"
    using acceptedD(1) [OF accepted] by (intro traverse_pure) (simp add: ready_proposal_def checkE_def)
  have canonical: "canonicalize_proposals ?ps = Inr (map ?c ?keys)"
    unfolding canonicalize_proposals_def keyed bindE.simps groups using distinct_ids by (simp add: checkE_def)
  have scope: "refuse_contradictory_scope ?scope (map ?c ?keys) = Inr ()"
  proof (cases "?scope = JUST_CHAT")
    case True
    then have "traverseE (\<lambda>c. checkE (\<not> user_initiated c) (PlannerInputError (ContradictoryScope (candidate_id c)))) (map ?c ?keys)
        = Inr (map (\<lambda>c. ()) (map ?c ?keys))"
      using acceptedD(2) [OF accepted] rep by (intro traverse_pure) (auto simp: checkE_def)
    then show ?thesis by (simp add: refuse_contradictory_scope_def True)
  qed (simp add: refuse_contradictory_scope_def)
  have "\<exists>a. assemble_candidate_factors (?c k) (pi_planning_context inp) = Inr a" if "k \<in> set ?keys" for k
    using rep [OF that] acceptedD(1) [OF accepted] by (intro assemble_ready) blast
  then obtain a where a: "\<And>k. k \<in> set ?keys \<Longrightarrow> assemble_candidate_factors (?c k) (pi_planning_context inp) = Inr (a k)"
    by metis
  have "traverseE (\<lambda>c. assemble_candidate_factors c (pi_planning_context inp)) (map ?c ?keys)
      = Inr (map (\<lambda>k. a k) ?keys)"
    using traverse_pure [of ?keys "\<lambda>k. assemble_candidate_factors (?c k) (pi_planning_context inp)" a] a
    by (simp add: traverseE_Inr_iff list_all2_map1)
  then have "planned inp (map ?c ?keys) (map a ?keys)"
    using canonical scope by (simp add: planned_def)
  moreover have "\<exists>p \<in> set ?ps. candidate_id c = candidate_id p \<and> focus_target c = focus_target p"
    if "c \<in> set (map ?c ?keys)" for c
    using that rep unfolding set_map by fastforce
  ultimately show ?thesis by blast
qed

section \<open>A canonical key names its candidate\<close>

lemma last_separator:
  assumes "xs @ sep # ys = xs' @ sep # ys'" and "sep \<notin> set ys" and "sep \<notin> set ys'"
  shows "xs = xs' \<and> ys = ys'"
proof -
  have "rev ys @ sep # rev xs = rev ys' @ sep # rev xs'"
    using arg_cong [OF assms(1), of rev] by simp
  moreover have "takeWhile (\<lambda>c. c \<noteq> sep) (rev zs @ sep # us) = rev zs" if "sep \<notin> set zs" for zs us
  proof -
    have "takeWhile (\<lambda>c. c \<noteq> sep) (rev zs @ sep # us) = rev zs @ takeWhile (\<lambda>c. c \<noteq> sep) (sep # us)"
      using that by (intro takeWhile_append2) auto
    then show ?thesis by simp
  qed
  ultimately have "rev ys = rev ys'"
    using assms(2,3) by metis
  then show ?thesis using assms(1) by simp
qed

lemma words_without_bar:
  "CHR ''|'' \<notin> set (candidate_source_word s)" "CHR ''|'' \<notin> set (target_mode_word m)"
  "CHR ''|'' \<notin> set (modality_word v)" "CHR ''|'' \<notin> set (learning_intent_word i)"
  subgoal by (cases s) simp_all
  subgoal by (cases m) simp_all
  subgoal by (cases v) simp_all
  subgoal by (cases i) simp_all
  done

lemma words_inj:
  "candidate_source_word s = candidate_source_word s' \<longleftrightarrow> s = s'" "target_mode_word m = target_mode_word m' \<longleftrightarrow> m = m'"
  "modality_word v = modality_word v' \<longleftrightarrow> v = v'" "learning_intent_word i = learning_intent_word i' \<longleftrightarrow> i = i'"
  subgoal by (cases s; cases s') simp_all
  subgoal by (cases m; cases m') simp_all
  subgoal by (cases v; cases v') simp_all
  subgoal by (cases i; cases i') simp_all
  done

lemma canonical_key_inj:
  "canonical_key_of s t m v i = canonical_key_of s' t' m' v' i' \<longleftrightarrow> s = s' \<and> t = t' \<and> m = m' \<and> v = v' \<and> i = i'"
  (is "?l \<longleftrightarrow> ?r")
proof
  assume ?l
  then have "(((t @ CHR ''|'' # target_mode_word m) @ CHR ''|'' # modality_word v) @ CHR ''|'' # learning_intent_word i) @ CHR ''|'' # candidate_source_word s
      = (((t' @ CHR ''|'' # target_mode_word m') @ CHR ''|'' # modality_word v') @ CHR ''|'' # learning_intent_word i') @ CHR ''|'' # candidate_source_word s'"
    by (simp add: canonical_key_of_def)
  from last_separator [OF this words_without_bar(1) words_without_bar(1)] have 1:
    "((t @ CHR ''|'' # target_mode_word m) @ CHR ''|'' # modality_word v) @ CHR ''|'' # learning_intent_word i
      = ((t' @ CHR ''|'' # target_mode_word m') @ CHR ''|'' # modality_word v') @ CHR ''|'' # learning_intent_word i'"
    "s = s'" by (simp_all add: words_inj)
  from last_separator [OF 1(1) words_without_bar(4) words_without_bar(4)] have 2:
    "(t @ CHR ''|'' # target_mode_word m) @ CHR ''|'' # modality_word v
      = (t' @ CHR ''|'' # target_mode_word m') @ CHR ''|'' # modality_word v'" "i = i'"
    by (simp_all add: words_inj)
  from last_separator [OF 2(1) words_without_bar(3) words_without_bar(3)] have 3:
    "t @ CHR ''|'' # target_mode_word m = t' @ CHR ''|'' # target_mode_word m'" "v = v'"
    by (simp_all add: words_inj)
  from last_separator [OF 3(1) words_without_bar(2) words_without_bar(2)] show ?r
    using 1 2 3 by (simp add: words_inj)
qed simp

section \<open>Declared vectors\<close>

definition in_unit :: "float64 \<Rightarrow> bool" where
  "in_unit x \<longleftrightarrow> 0 \<le> x \<and> x \<le> 1"

lemmas reading_defs = current_user_error_reading_def expression_need_reading_def natural_use_expansion_reading_def
  pragmatic_register_opportunity_reading_def manual_user_request_reading_def
  current_context_transfer_opportunity_reading_def confirmed_gap_reading_def scheduled_review_reading_def
  unknown_probe_reading_def transfer_expansion_reading_def support_withdrawal_reading_def core_coverage_reading_def
  goal_specific_target_reading_def coverage_debt_reading_def

lemma decimal_unit [simp]:
  assumes "0 \<le> n" and "n \<le> m" and "0 < m"
  shows "in_unit (decimal n m)"
proof -
  have "of_int n / of_int m \<le> (1 :: rat)"
    using assms by (simp add: divide_le_eq)
  then have "decimal n m \<le> rnd64 1"
    unfolding decimal_def by (rule rnd64_mono)
  moreover have "rnd64 1 = 1"
    using is_float64_more(4) by (simp add: is_float64_def)
  ultimately show ?thesis
    using assms by (simp add: in_unit_def decimal_nonneg)
qed

lemma band_in_unit:
  assumes "resolve_reading factor (Band band) = Inr x"
  shows "in_unit x"
proof -
  from assms obtain bands where bands: "FACTOR_BAND_VALUES factor = Some bands" "(band, x) \<in> set bands"
    by (auto split: option.splits dest: map_of_SomeD)
  have "list_all (\<lambda>(w, v). in_unit v) bands" if "BENEFIT_BAND_VALUES f = Some bands" for f
    using that by (cases f) auto
  moreover have "list_all (\<lambda>(w, v). in_unit v) (COST_BAND_VALUES f)" for f
    by (cases f) auto
  ultimately have "list_all (\<lambda>(w, v). in_unit v) bands"
    using bands(1) by (cases factor) auto
  then show ?thesis using bands(2) by (auto simp: list_all_iff)
qed

lemma readings_are_bands:
  "map_of (rd_benefit (SOURCE_READINGS source)) f = Some v \<Longrightarrow> v = Literal 1 \<or> (\<exists>b. v = Band b)"
  "map_of (rd_cost (SOURCE_READINGS source)) g = Some v \<Longrightarrow> \<exists>b. v = Band b"
  subgoal by (cases source) (auto simp: reading_defs split: if_splits)
  subgoal by (cases source) (auto simp: reading_defs split: if_splits)
  done

lemma benefit_reading_unit:
  assumes "benefit_reading (SOURCE_READINGS source) f = Inr r"
  shows "fst r = f \<and> in_unit (snd r)"
proof -
  let ?v = "case map_of (rd_benefit (SOURCE_READINGS source)) f of None \<Rightarrow> ABSENT_READINGS (Benefit f) | Some v \<Rightarrow> v"
  have "?v = Literal 1 \<or> ?v = Literal 0 \<or> (\<exists>b. ?v = Band b)"
    using readings_are_bands(1) [of source f] by (cases f) (auto split: option.split)
  then have "in_unit x" if "resolve_reading (Benefit f) ?v = Inr x" for x
    using that band_in_unit [of "Benefit f"] by (auto simp: in_unit_def split: if_splits)
  then show ?thesis
    using assms by (auto simp: benefit_reading_def result_simps simp del: resolve_reading.simps)
qed

lemma cost_reading_unit:
  assumes "cost_reading (SOURCE_READINGS source) f = Inr r"
  shows "fst r = f \<and> in_unit (snd r)"
proof -
  let ?v = "case map_of (rd_cost (SOURCE_READINGS source)) f of None \<Rightarrow> ABSENT_READINGS (Cost f) | Some v \<Rightarrow> v"
  have "\<exists>b. ?v = Band b"
    using readings_are_bands(2) [of source f] by (cases f) (auto split: option.split)
  then have "in_unit x" if "resolve_reading (Cost f) ?v = Inr x" for x
    using that band_in_unit [of "Cost f"] by auto
  then show ?thesis
    using assms by (auto simp: cost_reading_def result_simps simp del: resolve_reading.simps)
qed

lemma vector_of_readings:
  assumes "traverseE g fs = Inr rs" and "\<And>f r. g f = Inr r \<Longrightarrow> fst r = f \<and> in_unit (snd r)" and "set fs = UNIV"
  shows "unit_vector (map_of rs)"
proof -
  have l: "list_all2 (\<lambda>f r. g f = Inr r) fs rs"
    using assms(1) by (simp add: traverseE_Inr_iff)
  then have "map fst rs = fs"
    using assms(2) by (induction fs rs rule: list_all2_induct) auto
  moreover have "\<forall>r \<in> set rs. in_unit (snd r)"
    using l assms(2) by (induction fs rs rule: list_all2_induct) auto
  ultimately have "\<exists>x. map_of rs f = Some x \<and> in_unit x" for f
  proof -
    have "f \<in> fst ` set rs" using \<open>map fst rs = fs\<close> assms(3) by (metis UNIV_I set_map)
    then obtain x where x: "map_of rs f = Some x"
      by (metis map_of_eq_None_iff option.exhaust)
    then have "in_unit x"
      using \<open>\<forall>r \<in> set rs. in_unit (snd r)\<close> map_of_SomeD [OF x] by force
    with x show ?thesis by blast
  qed
  then show ?thesis by (auto simp: unit_vector_def in_unit_def)
qed

lemma unit_vector_upd: "unit_vector v \<Longrightarrow> in_unit x \<Longrightarrow> unit_vector (v(f \<mapsto> x))"
  by (auto simp: unit_vector_def in_unit_def)

lemma raise_to_scaffold_Inr:
  assumes "raise_to_scaffold name costs = Inr costs'" and "unit_vector costs"
  shows "unit_vector costs'" and "scaffold_floor name \<le> the (costs' name)" and "f \<noteq> name \<Longrightarrow> costs' f = costs f"
proof -
  from assms(1) obtain x where x: "resolve_reading (Cost name) (Band (the (SCAFFOLD_BANDS name))) = Inr x"
    "\<not> x < scaffold_floor name" "costs' = costs(name \<mapsto> max (the (costs name)) x)"
    by (auto simp: raise_to_scaffold_def result_simps simp del: resolve_reading.simps split: if_splits)
  have "in_unit x"
    using x(1) by (rule band_in_unit)
  moreover have "in_unit (the (costs name))"
    using assms(2) by (metis in_unit_def option.sel unit_vector_def)
  ultimately have "in_unit (max (the (costs name)) x)"
    by (simp add: max_def)
  then show "unit_vector costs'"
    unfolding x(3) by (rule unit_vector_upd [OF assms(2)])
  show "scaffold_floor name \<le> the (costs' name)" and "f \<noteq> name \<Longrightarrow> costs' f = costs f"
    using x(2) by (simp_all add: x(3) max_def)
qed

definition priced_context :: "target_context \<Rightarrow> bool" where
  "priced_context ctx \<longleftrightarrow> (case review_urgency (tx_schedule_row ctx) of None \<Rightarrow> True | Some u \<Rightarrow> in_unit u)
    \<and> (case tx_ledger ctx of None \<Rightarrow> True | Some readings \<Rightarrow>
        (case lr_obligation readings of None \<Rightarrow> True | Some ob \<Rightarrow> in_unit (co_debt_value ob)))"

lemma ledger_factors_unit:
  assumes "ledger_factors reading ctx (b, c) = Inr (b', c')" and "unit_vector b" "unit_vector c" and "priced_context ctx"
  shows "unit_vector b' \<and> unit_vector c'"
proof (cases "tx_ledger ctx")
  case None
  then show ?thesis using assms by (simp add: ledger_factors_def)
next
  case (Some readings)
  then obtain x where r: "resolve_reading (Cost OVEREXPOSURE) (Band (or_band (lr_overexposure readings))) = Inr x"
    and rest: "(if rd_source reading \<noteq> COVERAGE_DEBT_SOURCE then Inr (fst (b, c), (snd (b, c))(OVEREXPOSURE \<mapsto> x))
      else (case lr_obligation readings of None \<Rightarrow> Inl (NoObligationFor (tx_target_id ctx))
        | Some obligation \<Rightarrow> bindE (resolve_reading (Benefit COVERAGE_DEBT) (Literal (co_debt_value obligation)))
            (\<lambda>debt. Inr ((fst (b, c))(COVERAGE_DEBT \<mapsto> debt), (snd (b, c))(OVEREXPOSURE \<mapsto> x))))) = Inr (b', c')"
    using assms(1) by (auto simp: ledger_factors_def bindE_Inr_iff simp del: resolve_reading.simps)
  have "c' = c(OVEREXPOSURE \<mapsto> x)"
    and "b' = b \<or> (\<exists>ob. lr_obligation readings = Some ob \<and> b' = b(COVERAGE_DEBT \<mapsto> co_debt_value ob))"
    using rest by (auto simp: bindE_Inr_iff split: if_splits option.splits)
  then show ?thesis
    using assms(2-4) Some unit_vector_upd [OF assms(3) band_in_unit [OF r]]
    by (auto simp: priced_context_def intro: unit_vector_upd)
qed

lemma schedule_urgency_unit:
  assumes "schedule_urgency_of (Some row) CURRENT = Some u"
    and "case review_urgency row of None \<Rightarrow> True | Some u \<Rightarrow> in_unit u"
  shows "in_unit u"
  using assms by (cases "review_state row")
    (auto simp: schedule_urgency_of_def SCHEDULE_URGENCY_BANDS_def split: option.splits)

lemma declared_vector_unit:
  assumes "declared_vector (SOURCE_READINGS source) ctx inputs scaffold = Inr (b, c)" and "priced_context ctx"
  shows "unit_vector b" and "unit_vector c"
    and "schedule_urgency_of (Some (tx_schedule_row ctx)) CURRENT = b SCHEDULE_URGENCY"
    and "scaffold \<Longrightarrow> SCAFFOLD_MIN_SUPPORT_COST \<le> the (c SUPPORT_COST) \<and> SCAFFOLD_MIN_COGNITIVE_LOAD \<le> the (c COGNITIVE_LOAD)"
proof -
  from assms(1) obtain bs cs b1 c1 u c2 where
    bs: "traverseE (benefit_reading (SOURCE_READINGS source)) BENEFIT_FACTORS = Inr bs"
    and cs: "traverseE (cost_reading (SOURCE_READINGS source)) COST_FACTORS = Inr cs"
    and l: "ledger_factors (SOURCE_READINGS source) ctx (map_of bs, map_of cs) = Inr (b1, c1)"
    and u0: "(case schedule_urgency_of (Some (tx_schedule_row ctx)) CURRENT of None \<Rightarrow> Inl (NoUrgencyFor (tx_target_id ctx))
        | Some urgency \<Rightarrow> Inr urgency) = Inr u"
    and c2: "(case interruption_cost_band_of (ci_priority inputs) of None \<Rightarrow> Inr c1
        | Some band \<Rightarrow> bindE (resolve_reading (Cost INTERRUPTION_COST) (Band band)) (\<lambda>x. Inr (c1(INTERRUPTION_COST \<mapsto> x)))) = Inr c2"
    and c: "(if scaffold then bindE (raise_to_scaffold SUPPORT_COST c2) (raise_to_scaffold COGNITIVE_LOAD) else Inr c2) = Inr c"
    and b: "b = b1(SCHEDULE_URGENCY \<mapsto> u)"
    unfolding declared_vector_def by (auto simp: bindE_Inr_iff simp del: resolve_reading.simps)
  have u: "schedule_urgency_of (Some (tx_schedule_row ctx)) CURRENT = Some u"
    using u0 by (simp split: option.splits)
  have "unit_vector (map_of bs)" and "unit_vector (map_of cs)"
    using vector_of_readings [OF bs benefit_reading_unit] vector_of_readings [OF cs cost_reading_unit] by simp_all
  then have 1: "unit_vector b1" "unit_vector c1"
    using ledger_factors_unit [OF l _ _ assms(2)] by simp_all
  have "in_unit u"
    using schedule_urgency_unit [OF u] assms(2) by (simp add: priced_context_def)
  then show "unit_vector b" and "schedule_urgency_of (Some (tx_schedule_row ctx)) CURRENT = b SCHEDULE_URGENCY"
    using u 1(1) unit_vector_upd by (auto simp: b)
  have 2: "unit_vector c2"
  proof (cases "interruption_cost_band_of (ci_priority inputs)")
    case (Some band)
    then obtain x where x: "resolve_reading (Cost INTERRUPTION_COST) (Band band) = Inr x" "c2 = c1(INTERRUPTION_COST \<mapsto> x)"
      using c2 by (auto simp: bindE_Inr_iff simp del: resolve_reading.simps)
    show ?thesis unfolding x(2) by (rule unit_vector_upd [OF 1(2) band_in_unit [OF x(1)]])
  qed (use c2 1(2) in simp)
  have "unit_vector c \<and> (scaffold \<longrightarrow> SCAFFOLD_MIN_SUPPORT_COST \<le> the (c SUPPORT_COST)
      \<and> SCAFFOLD_MIN_COGNITIVE_LOAD \<le> the (c COGNITIVE_LOAD))"
  proof (cases scaffold)
    case True
    with c obtain c3 where c3: "raise_to_scaffold SUPPORT_COST c2 = Inr c3" "raise_to_scaffold COGNITIVE_LOAD c3 = Inr c"
      by (auto simp: result_simps)
    note first = raise_to_scaffold_Inr [OF c3(1) 2]
    note second = raise_to_scaffold_Inr [OF c3(2) first(1)]
    show ?thesis
      using first(2) second(1,2) second(3) [of SUPPORT_COST] by (simp add: scaffold_floor_def)
  qed (use c 2 in auto)
  then show "unit_vector c" and "scaffold \<Longrightarrow> SCAFFOLD_MIN_SUPPORT_COST \<le> the (c SUPPORT_COST)
      \<and> SCAFFOLD_MIN_COGNITIVE_LOAD \<le> the (c COGNITIVE_LOAD)"
    by blast+
qed

end
