(* ===== verification/Candidate_Generation.thy ===== *)
theory Candidate_Generation
  imports Candidate_Lemmas
begin

text \<open>
  What the generation pass computes, loop by loop: the contexts it builds are grounded in the content row,
  the readiness grade and the schedule row of a supplied target; a source's candidates are those its claim
  earned; every wanted target ends as a proposal or as a refusal.
\<close>

section \<open>Contexts\<close>

definition grounded :: "py_env \<Rightarrow> candidate_supply_inputs \<Rightarrow> string \<Rightarrow> string \<Rightarrow> target_context \<Rightarrow> bool" where
  "grounded env inputs target_type target_id ctx \<longleftrightarrow> tx_target_type ctx = target_type \<and> tx_target_id ctx = target_id
    \<and> (\<exists>rows. ci_target_rows inputs = Some rows \<and> rows target_id = Inr (tx_row ctx))
    \<and> map_of modality_members (tv_evidence_modality (tx_row ctx)) = Some (tx_modality ctx)
    \<and> (\<exists>outcome. readiness_of_target target_id (ci_readiness inputs) = Inr outcome \<and> ro_level outcome = Some (tx_level ctx))
    \<and> (\<exists>schedule. ci_schedule inputs = Some schedule
        \<and> sp_get_schedule_item schedule target_type target_id (tx_modality ctx) = Inr (Some (tx_schedule_row ctx)))
    \<and> tx_flags ctx = flags_read inputs target_id (tx_modality ctx)
    \<and> (case ci_ledger inputs of None \<Rightarrow> tx_ledger ctx = None
       | Some ledger \<Rightarrow> \<exists>readings. tx_ledger ctx = Some readings \<and> readings_for env ledger target_id (ci_as_of inputs) = Inr readings)"

lemma target_context_cases:
  assumes "target_context_for env inputs (ty, t) (levels, refusals) = Inr (found, levels', refusals')"
  shows "case found of None \<Rightarrow> (\<exists>gate. refusals' = refusals @ [refuse t gate None]) \<and> \<not> (\<exists>ctx. grounded env inputs ty t ctx)
    | Some ctx \<Rightarrow> refusals' = refusals \<and> grounded env inputs ty t ctx"
proof -
  from assms obtain rows schedule where faces: "ci_target_rows inputs = Some rows" "ci_schedule inputs = Some schedule"
    by (auto simp: target_context_for_def split: option.splits)
  show ?thesis
  proof (cases "rows t")
    case (Inl e)
    then show ?thesis using assms faces by (auto simp: target_context_for_def grounded_def)
  next
    case (Inr row)
    note row = this
    show ?thesis
    proof (cases "map_of modality_members (tv_evidence_modality row)")
      case None
      then show ?thesis using assms faces row by (auto simp: target_context_for_def grounded_def)
    next
      case (Some m)
      with assms faces row obtain outcome where outcome: "readiness_of_target t (ci_readiness inputs) = Inr outcome"
        by (auto simp: target_context_for_def bindE_Inr_iff) (auto simp: result_simps)
      show ?thesis
        using assms faces row Some outcome
        by (auto simp: target_context_for_def Let_def grounded_def result_simps split: option.splits sum.splits)
    qed
  qed
qed

definition contexts_grounded ::
  "py_env \<Rightarrow> candidate_supply_inputs \<Rightarrow> (string \<times> string) set \<Rightarrow> (string \<times> target_context) list \<Rightarrow> bool" where
  "contexts_grounded env inputs given contexts \<longleftrightarrow>
    (\<forall>t ctx. map_of contexts t = Some ctx \<longrightarrow> (\<exists>ty. (ty, t) \<in> given \<and> grounded env inputs ty t ctx))
    \<and> (\<forall>(k, ctx) \<in> set contexts. k = tx_target_id ctx \<and> map_of contexts k = Some ctx)"

lemma contexts_groundedD:
  assumes "contexts_grounded env inputs given contexts"
  shows "map_of contexts t = Some ctx \<Longrightarrow> \<exists>ty. (ty, t) \<in> given \<and> grounded env inputs ty t ctx"
    and "map_of contexts t = Some ctx \<Longrightarrow> tx_target_id ctx = t"
    and "(k, ctx) \<in> set contexts \<Longrightarrow> k = tx_target_id ctx \<and> map_of contexts k = Some ctx"
  using assms unfolding contexts_grounded_def grounded_def by blast+

lemma no_contexts [simp]: "contexts_grounded env inputs given []"
  by (simp add: contexts_grounded_def)

lemma set_update_distinct:
  "distinct (map fst kvs) \<Longrightarrow> set (AList.update k v kvs) = {(k', v') \<in> set kvs. k' \<noteq> k} \<union> {(k, v)}"
  by (induction kvs) (auto simp: image_iff)

lemma contexts_of_grounded:
  assumes "contexts_of env inputs targets contexts (levels, refusals) = Inr (contexts', levels', refusals')"
    and "contexts_grounded env inputs given contexts" and "distinct (map fst contexts)" and "set targets \<subseteq> given"
  shows "contexts_grounded env inputs given contexts' \<and> distinct (map fst contexts')"
  using assms
proof (induction targets arbitrary: contexts levels refusals)
  case (Cons target targets)
  obtain ty t where target: "target = (ty, t)" by (cases target)
  with Cons.prems(1) obtain found levels1 refusals1 where
    step: "target_context_for env inputs (ty, t) (levels, refusals) = Inr (found, levels1, refusals1)"
    and rest: "contexts_of env inputs targets
      (case found of None \<Rightarrow> contexts | Some ctx \<Rightarrow> AList.update (tx_target_id ctx) ctx contexts) (levels1, refusals1)
        = Inr (contexts', levels', refusals')"
    by (auto simp: bindE_Inr_iff)
  have given: "(ty, t) \<in> given" "set targets \<subseteq> given"
    using Cons.prems(4) target by auto
  show ?case
  proof (cases found)
    case None
    then show ?thesis using Cons.IH [OF rest] Cons.prems given by simp
  next
    case (Some ctx)
    then have ctx: "grounded env inputs ty t ctx" "tx_target_id ctx = t"
      using target_context_cases [OF step] by (auto simp: grounded_def)
    have "contexts_grounded env inputs given (AList.update t ctx contexts)"
      unfolding contexts_grounded_def set_update_distinct [OF Cons.prems(3)] update_conv'
      using contexts_groundedD [OF Cons.prems(2)] ctx given(1) by auto
    then show ?thesis
      using Cons.IH [OF rest] Some ctx(2) Cons.prems(3) given(2) by (simp add: distinct_update)
  qed
qed simp

text \<open>What the walk leaves of a target: its context, or a refusal that names no source.\<close>

definition unserved :: "target_refusal list \<Rightarrow> string \<Rightarrow> bool" where
  "unserved refusals t \<longleftrightarrow> (\<exists>r \<in> set refusals. tr_target_id r = t \<and> tr_source r = None)"

lemma contexts_of_refusals:
  assumes "contexts_of env inputs targets contexts (levels, refusals) = Inr (contexts', levels', refusals')"
  shows "(\<exists>new. refusals' = refusals @ new \<and> (\<forall>r \<in> set new. tr_source r = None \<and> tr_target_id r \<in> snd ` set targets))
    \<and> (\<forall>t \<in> snd ` set targets \<union> dom (map_of contexts). t \<in> dom (map_of contexts') \<or> unserved refusals' t)"
  using assms
proof (induction targets arbitrary: contexts levels refusals)
  case (Cons target targets)
  obtain ty t where target: "target = (ty, t)" by (cases target)
  with Cons.prems(1) obtain found levels1 refusals1 where
    step: "target_context_for env inputs (ty, t) (levels, refusals) = Inr (found, levels1, refusals1)"
    and rest: "contexts_of env inputs targets
      (case found of None \<Rightarrow> contexts | Some ctx \<Rightarrow> AList.update (tx_target_id ctx) ctx contexts) (levels1, refusals1)
        = Inr (contexts', levels', refusals')"
    by (auto simp: bindE_Inr_iff)
  note ih = Cons.IH [OF rest]
  show ?case
  proof (cases found)
    case None
    then obtain gate where gate: "refusals1 = refusals @ [refuse t gate None]"
      using target_context_cases [OF step] by auto
    from ih obtain new where new: "refusals' = refusals1 @ new"
      "\<forall>r \<in> set new. tr_source r = None \<and> tr_target_id r \<in> snd ` set targets" by blast
    have "unserved refusals' t"
      unfolding new(1) gate by (simp add: unserved_def refuse_def)
    then show ?thesis
      using ih new target gate None by (auto simp: refuse_def)
  next
    case (Some ctx)
    then have ctx: "refusals1 = refusals" "tx_target_id ctx = t"
      using target_context_cases [OF step] by (auto simp: grounded_def)
    have "dom (map_of (AList.update t ctx contexts)) = insert t (dom (map_of contexts))"
      by (simp add: update_conv')
    then have "(\<exists>new. refusals' = refusals @ new \<and> (\<forall>r \<in> set new. tr_source r = None \<and> tr_target_id r \<in> snd ` set targets))
        \<and> (\<forall>u \<in> snd ` set targets \<union> insert t (dom (map_of contexts)). u \<in> dom (map_of contexts') \<or> unserved refusals' u)"
      using ih Some ctx by simp
    moreover have "snd ` set (target # targets) = insert t (snd ` set targets)"
      by (simp add: target)
    ultimately show ?thesis by (simp only:) blast
  qed
qed (auto simp: unserved_def)

lemma contexts_of_complete:
  assumes "contexts_of env inputs targets contexts (levels, refusals) = Inr (contexts', levels', refusals')"
  shows "dom (map_of contexts) \<subseteq> dom (map_of contexts')"
    and "(ty, t) \<in> set targets \<Longrightarrow> grounded env inputs ty t ctx \<Longrightarrow> t \<in> dom (map_of contexts')"
    and "(ty, t) \<in> set targets \<Longrightarrow> \<not> (\<exists>ctx. grounded env inputs ty t ctx) \<Longrightarrow> \<exists>gate. refuse t gate None \<in> set refusals'"
  using assms
proof (atomize (full), induction targets arbitrary: contexts levels refusals)
  case (Cons target targets)
  obtain ty' t' where target: "target = (ty', t')" by (cases target)
  with Cons.prems obtain found levels1 refusals1 where
    step: "target_context_for env inputs (ty', t') (levels, refusals) = Inr (found, levels1, refusals1)"
    and rest: "contexts_of env inputs targets
      (case found of None \<Rightarrow> contexts | Some ctx \<Rightarrow> AList.update (tx_target_id ctx) ctx contexts) (levels1, refusals1)
        = Inr (contexts', levels', refusals')"
    by (auto simp: bindE_Inr_iff)
  note ih = Cons.IH [OF rest]
  have kept: "set refusals1 \<subseteq> set refusals'"
    using contexts_of_refusals [OF rest] by auto
  show ?case
  proof (cases found)
    case None
    then have "\<exists>gate. refuse t' gate None \<in> set refusals'" and no: "\<not> (\<exists>ctx. grounded env inputs ty' t' ctx)"
      using target_context_cases [OF step] kept by auto
    then show ?thesis
      using ih None target by auto
  next
    case (Some c)
    then have c: "grounded env inputs ty' t' c" "tx_target_id c = t'"
      using target_context_cases [OF step] by (auto simp: grounded_def)
    have "dom (map_of (AList.update t' c contexts)) = insert t' (dom (map_of contexts))"
      by (simp add: update_conv')
    with ih Some c(2) have sub: "insert t' (dom (map_of contexts)) \<subseteq> dom (map_of contexts')"
      by simp
    with ih Some c target show ?thesis by auto
  qed
qed simp

lemma grounded_same:
  assumes "grounded env inputs ty t c" and "grounded env inputs ty t c'"
  shows "tx_row c = tx_row c'" and "tx_modality c = tx_modality c'" and "tx_flags c = tx_flags c'"
    and "tx_target_type c = tx_target_type c'" and "tx_target_id c = tx_target_id c'"
proof -
  show row: "tx_row c = tx_row c'" and "tx_target_type c = tx_target_type c'" and "tx_target_id c = tx_target_id c'"
    using assms by (auto simp: grounded_def)
  show m: "tx_modality c = tx_modality c'"
    using assms row by (auto simp: grounded_def)
  show "tx_flags c = tx_flags c'"
    using assms m by (auto simp: grounded_def)
qed

section \<open>One source's candidates\<close>

lemma build_refusal:
  assumes "build_candidate sha256_hex source ctx inputs = Inr (Inl r)"
  shows "r = refuse (tx_target_id ctx) GATE_MODE_INTENT_PAIR (Some source)"
  using assms by (auto simp: build_candidate_def bindE_Inr_iff split: option.splits if_splits)

lemma build_proposal:
  assumes "build_candidate sha256_hex source ctx inputs = Inr (Inr p)"
  obtains mode intent benefits costs where "intent \<in> set (MODE_ALLOWED_INTENTS mode)"
    and "target_mode p = mode" "learning_intent p = intent" "focus_target p = tx_target_id ctx"
    and "canonical_key p = canonical_key_of source (tx_target_id ctx) mode (tx_modality ctx) intent"
    and "candidate_id p = candidate_id_of sha256_hex source (canonical_key p)"
    and "opportunity_binding_class p = candidate_source_word source" "origins p = [candidate_source_word source]"
    and "user_initiated p \<longleftrightarrow> source = MANUAL_USER_REQUEST" "request_priority p = 0"
    and "benefit p = benefits" "cost p = costs" "schedule_row p = Some (tx_schedule_row ctx)"
    and "prerequisite_state p = po_state (tx_prerequisites ctx)" "content_readiness p = tx_level ctx"
    and "evidence_modality p = tx_modality ctx"
    and "prerequisite_scaffoldable p \<longleftrightarrow> po_scaffoldable (tx_prerequisites ctx) \<or> po_state (tx_prerequisites ctx) = READY_WITH_SCAFFOLD"
    and "declared_vector (SOURCE_READINGS source) ctx inputs (prerequisite_scaffoldable p) = Inr (benefits, costs)"
    and "proposal_for sha256_hex source ctx inputs mode intent = Inr p"
proof -
  from assms obtain mode intent where mi: "intent \<in> set (MODE_ALLOWED_INTENTS mode)"
    "proposal_for sha256_hex source ctx inputs mode intent = Inr p"
    by (auto simp: build_candidate_def bindE_Inr_iff split: option.splits if_splits)
  from mi(2) obtain benefits costs where v: "declared_vector (SOURCE_READINGS source) ctx inputs
      (po_scaffoldable (tx_prerequisites ctx) \<or> po_state (tx_prerequisites ctx) = READY_WITH_SCAFFOLD) = Inr (benefits, costs)"
    by (auto simp: proposal_for_def Let_def bindE_Inr_iff)
  note p = mi(2) [unfolded proposal_for_def Let_def v bindE.simps case_prod_conv sum.inject, symmetric]
  show thesis
    using v by (intro that [OF mi(1)]) (simp_all add: p mi(2) [unfolded p])
qed

lemma build_names:
  assumes "build_candidate sha256_hex source ctx inputs = Inr (Inr p)"
  shows "focus_target p = tx_target_id ctx" and "origins p = [candidate_source_word source]"
    and "user_initiated p \<longleftrightarrow> source = MANUAL_USER_REQUEST"
    and "candidate_id p = candidate_id_of sha256_hex source (canonical_key p)"
    and "opportunity_binding_class p = candidate_source_word source"
    and "schedule_row p = Some (tx_schedule_row ctx)" and "content_readiness p = tx_level ctx"
  by (rule build_proposal [OF assms]; assumption)+

lemma build_ready:
  assumes "build_candidate sha256_hex source ctx inputs = Inr (Inr p)" and "priced_context ctx"
  shows "ready_proposal p"
  using assms(1)
proof (rule build_proposal)
  fix mode intent benefits costs
  assume p: "intent \<in> set (MODE_ALLOWED_INTENTS mode)" "target_mode p = mode" "learning_intent p = intent"
    "canonical_key p = canonical_key_of source (tx_target_id ctx) mode (tx_modality ctx) intent" "request_priority p = 0"
    "benefit p = benefits" "cost p = costs" "schedule_row p = Some (tx_schedule_row ctx)"
    "prerequisite_state p = po_state (tx_prerequisites ctx)"
    "prerequisite_scaffoldable p \<longleftrightarrow> po_scaffoldable (tx_prerequisites ctx) \<or> po_state (tx_prerequisites ctx) = READY_WITH_SCAFFOLD"
    and v: "declared_vector (SOURCE_READINGS source) ctx inputs (prerequisite_scaffoldable p) = Inr (benefits, costs)"
  note unit = declared_vector_unit [OF v assms(2)]
  have "prerequisite_state p = READY_WITH_SCAFFOLD \<Longrightarrow> prerequisite_scaffoldable p"
    using p by simp
  then show "ready_proposal p"
    using p unit by (auto simp: ready_proposal_def canonical_key_of_def)
qed

definition made :: "(string \<Rightarrow> string) \<Rightarrow> candidate_supply_inputs \<Rightarrow> (string \<times> target_context) list \<Rightarrow> candidate_source
    \<Rightarrow> candidate_proposal \<Rightarrow> bool" where
  "made sha256_hex inputs contexts source p \<longleftrightarrow> (\<exists>ctx. map_of contexts (focus_target p) = Some ctx
    \<and> build_candidate sha256_hex source ctx inputs = Inr (Inr p))"

lemma made_same_key:
  assumes "made sha256_hex inputs contexts source p" "made sha256_hex inputs contexts source' q"
    and "contexts_grounded env inputs given contexts" and "canonical_key p = canonical_key q"
  shows "p = q"
proof -
  from assms(1) obtain ctx where c: "map_of contexts (focus_target p) = Some ctx" "build_candidate sha256_hex source ctx inputs = Inr (Inr p)"
    by (auto simp: made_def)
  from assms(2) obtain ctx' where c': "map_of contexts (focus_target q) = Some ctx'" "build_candidate sha256_hex source' ctx' inputs = Inr (Inr q)"
    by (auto simp: made_def)
  from c(2) show ?thesis
  proof (rule build_proposal)
    fix mode intent
    assume p: "canonical_key p = canonical_key_of source (tx_target_id ctx) mode (tx_modality ctx) intent"
      "proposal_for sha256_hex source ctx inputs mode intent = Inr p"
    from c'(2) show "p = q"
    proof (rule build_proposal)
      fix mode' intent'
      assume q: "canonical_key q = canonical_key_of source' (tx_target_id ctx') mode' (tx_modality ctx') intent'"
        "proposal_for sha256_hex source' ctx' inputs mode' intent' = Inr q"
      then have same: "source = source'" "tx_target_id ctx = tx_target_id ctx'" "mode = mode'" "intent = intent'"
        using assms(4) p(1) by (simp_all add: canonical_key_inj)
      have "focus_target p = focus_target q"
        using contexts_groundedD(2) [OF assms(3) c(1)] contexts_groundedD(2) [OF assms(3) c'(1)] same(2) by simp
      then have "ctx = ctx'" using c(1) c'(1) by simp
      then show "p = q" using p(2) q(2) same by simp
    qed
  qed
qed

text \<open>A source's shape: the row's own practice mode or the source's mode, with an intent the mode allows.\<close>

definition fits :: "candidate_source \<Rightarrow> content_target_view \<Rightarrow> bool" where
  "fits source row \<longleftrightarrow> (\<exists>mode intent. intent \<in> set (MODE_ALLOWED_INTENTS mode)
    \<and> (case rd_mode (SOURCE_READINGS source) of Some m \<Rightarrow> mode = m
       | None \<Rightarrow> mode \<in> {RESOURCE_PRACTICE, CAPABILITY_PRACTICE} \<and> tv_target_mode row = target_mode_word mode)
    \<and> (case rd_intent (SOURCE_READINGS source) of Some i \<Rightarrow> intent = i
       | None \<Rightarrow> tv_learning_intent row = learning_intent_word intent))"

lemma mode_member: "map_of target_mode_members w = Some m \<longleftrightarrow> w = target_mode_word m"
  by (cases m) (auto simp: target_mode_members_def)

lemma intent_member: "map_of learning_intent_members w = Some i \<longleftrightarrow> w = learning_intent_word i"
  by (cases i) (auto simp: learning_intent_members_def)

lemma build_fits:
  assumes "build_candidate sha256_hex source ctx inputs = Inr built"
  shows "(\<exists>p. built = Inr p) \<longleftrightarrow> fits source (tx_row ctx)"
proof -
  from assms obtain shape where shape: "(case rd_mode (SOURCE_READINGS source) of None \<Rightarrow> practice_mode (tx_row ctx) | Some mode \<Rightarrow> Inr (Some mode)) = Inr shape"
    by (auto simp: build_candidate_def bindE_Inr_iff)
  show ?thesis
  proof (cases shape)
    case None
    then have "rd_mode (SOURCE_READINGS source) = None" "practice_mode (tx_row ctx) = Inr None"
      using shape by (auto split: option.splits)
    moreover from this(2) have "\<not> (tv_target_mode (tx_row ctx) = target_mode_word m \<and> m \<in> {RESOURCE_PRACTICE, CAPABILITY_PRACTICE})" for m
      by (auto simp: practice_mode_def mode_member words_inj split: option.splits if_splits)
    ultimately show ?thesis
      using assms by (auto simp: build_candidate_def fits_def)
  next
    case (Some mode)
    have mode: "(case rd_mode (SOURCE_READINGS source) of Some m \<Rightarrow> mode' = m
       | None \<Rightarrow> mode' \<in> {RESOURCE_PRACTICE, CAPABILITY_PRACTICE} \<and> tv_target_mode (tx_row ctx) = target_mode_word mode') \<longleftrightarrow> mode' = mode" for mode'
      using shape Some by (auto simp: practice_mode_def mode_member words_inj split: option.splits if_splits)
    from assms obtain intent where intent: "(case rd_intent (SOURCE_READINGS source) of Some intent \<Rightarrow> Inr intent
        | None \<Rightarrow> (case map_of learning_intent_members (tv_learning_intent (tx_row ctx)) of
            None \<Rightarrow> Inl (UnknownLearningIntent (tv_learning_intent (tx_row ctx))) | Some intent \<Rightarrow> Inr intent)) = Inr intent"
      unfolding build_candidate_def shape by (auto simp: Some bindE_Inr_iff)
    have intents: "(case rd_intent (SOURCE_READINGS source) of Some i \<Rightarrow> intent' = i
       | None \<Rightarrow> tv_learning_intent (tx_row ctx) = learning_intent_word intent') \<longleftrightarrow> intent' = intent" for intent'
      using intent by (auto simp: intent_member words_inj split: option.splits)
    have "fits source (tx_row ctx) \<longleftrightarrow> intent \<in> set (MODE_ALLOWED_INTENTS mode)"
      by (simp add: fits_def mode intents)
    moreover have "(\<exists>p. built = Inr p) \<longleftrightarrow> intent \<in> set (MODE_ALLOWED_INTENTS mode)"
      using assms unfolding build_candidate_def shape Some bindE.simps option.case intent
      by (auto simp: bindE_Inr_iff split: if_splits)
    ultimately show ?thesis by simp
  qed
qed

section \<open>The two loops\<close>

text \<open>What serving a target of a source leaves.\<close>

definition served :: "(string \<Rightarrow> string) \<Rightarrow> candidate_supply_inputs \<Rightarrow> (string \<times> target_context) list
    \<Rightarrow> candidate_proposal list \<Rightarrow> target_refusal list \<Rightarrow> candidate_source \<Rightarrow> string \<Rightarrow> bool" where
  "served sha256_hex inputs contexts ps rs source t \<longleftrightarrow>
    (case map_of contexts t of
       None \<Rightarrow> unserved rs t \<or> refuse t GATE_OUTSIDE_SUPPLY (Some source) \<in> set rs
     | Some ctx \<Rightarrow> (\<exists>p \<in> set ps. build_candidate sha256_hex source ctx inputs = Inr (Inr p))
         \<or> (\<exists>r \<in> set rs. build_candidate sha256_hex source ctx inputs = Inr (Inl r)))"

lemma served_mono:
  "served sha256_hex inputs contexts ps rs source t \<Longrightarrow> served sha256_hex inputs contexts (ps @ ps') (rs @ rs') source t"
  unfolding served_def unserved_def by (auto split: option.splits)

lemma serve_targets_spec:
  assumes "serve_targets sha256_hex inputs contexts source targets (ps, rs) = Inr (ps', rs')"
    and "contexts_grounded env inputs given contexts"
  shows "\<exists>new refs. ps' = ps @ new \<and> rs' = rs @ refs \<and> (\<forall>r \<in> set refs. tr_source r = Some source)
    \<and> (\<forall>p \<in> set new. focus_target p \<in> set targets \<and> made sha256_hex inputs contexts source p)
    \<and> (\<forall>t \<in> set targets. served sha256_hex inputs contexts ps' rs' source t)"
  using assms(1)
proof (induction targets arbitrary: ps rs)
  case (Cons t targets)
  have extend: ?case
    if step: "serve_targets sha256_hex inputs contexts source targets (ps @ n1, rs @ r1) = Inr (ps', rs')"
      and now: "served sha256_hex inputs contexts (ps @ n1) (rs @ r1) source t"
      and r1: "\<forall>r \<in> set r1. tr_source r = Some source"
      and n1: "\<forall>p \<in> set n1. focus_target p = t \<and> made sha256_hex inputs contexts source p" for n1 r1
  proof -
    from Cons.IH [OF step] obtain new refs where ih: "ps' = (ps @ n1) @ new" "rs' = (rs @ r1) @ refs"
      "\<forall>r \<in> set refs. tr_source r = Some source"
      "\<forall>p \<in> set new. focus_target p \<in> set targets \<and> made sha256_hex inputs contexts source p"
      "\<forall>u \<in> set targets. served sha256_hex inputs contexts ps' rs' source u" by blast
    have "served sha256_hex inputs contexts ps' rs' source t"
      unfolding ih(1,2) by (rule served_mono [OF now])
    then show ?thesis
      using ih r1 n1 by (intro exI [of _ "n1 @ new"] exI [of _ "r1 @ refs"]) auto
  qed
  show ?case
  proof (cases "map_of contexts t")
    case None
    show ?thesis
    proof (cases "list_ex (\<lambda>r. tr_target_id r = t \<and> tr_source r = None) rs")
      case True
      then show ?thesis
        using Cons.prems None by (intro extend [of "[]" "[]"]) (auto simp: served_def unserved_def list_ex_iff)
    next
      case False
      then show ?thesis
        using Cons.prems None by (intro extend [of "[]" "[refuse t GATE_OUTSIDE_SUPPLY (Some source)]"]) (auto simp: served_def refuse_def)
    qed
  next
    case (Some ctx)
    note ctx = this
    with Cons.prems obtain built where build: "build_candidate sha256_hex source ctx inputs = Inr built"
      by (cases "build_candidate sha256_hex source ctx inputs") auto
    have id: "tx_target_id ctx = t"
      by (rule contexts_groundedD(2) [OF assms(2) ctx])
    show ?thesis
    proof (cases built)
      case (Inl r)
      then have "tr_source r = Some source"
        using build_refusal build by (fastforce simp: refuse_def)
      then show ?thesis
        using Cons.prems ctx build Inl by (intro extend [of "[]" "[r]"]) (auto simp: served_def)
    next
      case (Inr p)
      have p: "focus_target p = t"
        using build [unfolded Inr] id by (auto elim: build_proposal)
      then have "made sha256_hex inputs contexts source p"
        using build Inr ctx by (auto simp: made_def)
      then show ?thesis
        using Cons.prems ctx build Inr p by (intro extend [of "[p]" "[]"]) (auto simp: served_def)
    qed
  qed
qed simp

lemma serve_sources_spec:
  assumes "serve_sources sha256_hex inputs scope contexts sources (ps, rs) = Inr (ps', rs')"
    and "contexts_grounded env inputs given contexts"
  shows "\<exists>new refs. ps' = ps @ new \<and> rs' = rs @ refs \<and> (\<forall>r \<in> set refs. tr_source r \<noteq> None)
    \<and> (\<forall>p \<in> set new. \<exists>source \<in> set sources. \<exists>targets. wanted_by source contexts inputs scope = Inr targets
        \<and> focus_target p \<in> set targets \<and> made sha256_hex inputs contexts source p)
    \<and> (\<forall>source \<in> set sources. \<exists>targets. wanted_by source contexts inputs scope = Inr targets
        \<and> (\<forall>t \<in> set targets. served sha256_hex inputs contexts ps' rs' source t))"
  using assms(1)
proof (induction sources arbitrary: ps rs)
  case (Cons source sources)
  from Cons.prems obtain targets ps1 rs1 where step: "wanted_by source contexts inputs scope = Inr targets"
    "serve_targets sha256_hex inputs contexts source targets (ps, rs) = Inr (ps1, rs1)"
    "serve_sources sha256_hex inputs scope contexts sources (ps1, rs1) = Inr (ps', rs')"
    by (auto simp: bindE_Inr_iff)
  from serve_targets_spec [OF step(2) assms(2)] obtain n1 r1 where one: "ps1 = ps @ n1" "rs1 = rs @ r1"
    "\<forall>r \<in> set r1. tr_source r = Some source"
    "\<forall>p \<in> set n1. focus_target p \<in> set targets \<and> made sha256_hex inputs contexts source p"
    "\<forall>t \<in> set targets. served sha256_hex inputs contexts ps1 rs1 source t" by blast
  from Cons.IH [OF step(3)] obtain n2 r2 where two: "ps' = ps1 @ n2" "rs' = rs1 @ r2"
    "\<forall>r \<in> set r2. tr_source r \<noteq> None"
    "\<forall>p \<in> set n2. \<exists>source \<in> set sources. \<exists>targets. wanted_by source contexts inputs scope = Inr targets
        \<and> focus_target p \<in> set targets \<and> made sha256_hex inputs contexts source p"
    "\<forall>source \<in> set sources. \<exists>targets. wanted_by source contexts inputs scope = Inr targets
        \<and> (\<forall>t \<in> set targets. served sha256_hex inputs contexts ps' rs' source t)" by blast
  have "\<forall>t \<in> set targets. served sha256_hex inputs contexts ps' rs' source t"
    using one(5) served_mono unfolding two(1,2) by blast
  moreover have "\<exists>src \<in> set (source # sources). \<exists>targets. wanted_by src contexts inputs scope = Inr targets
        \<and> focus_target p \<in> set targets \<and> made sha256_hex inputs contexts src p" if "p \<in> set (n1 @ n2)" for p
    using that one(4) two(4) step(1) by (auto; blast)
  ultimately show ?case
    using one(1-3) two(1-3,5) step(1) by (intro exI [of _ "n1 @ n2"] exI [of _ "r1 @ r2"]) auto
qed simp

section \<open>What earns a candidate\<close>

definition observed :: "(opportunity_observation \<Rightarrow> string list) \<Rightarrow> candidate_supply_inputs \<Rightarrow> string \<Rightarrow> bool" where
  "observed field inputs t \<longleftrightarrow> (\<exists>observation. ci_observation inputs = Some observation \<and> t \<in> set (field observation))"

text \<open>The sources that name targets by identifier: what the turn observed, what the user asked for, what the
  ledger owes.\<close>

fun named_by :: "candidate_supply_inputs \<Rightarrow> candidate_source \<Rightarrow> string \<Rightarrow> bool" where
  "named_by inputs CURRENT_USER_ERROR t \<longleftrightarrow> observed oo_current_user_errors inputs t"
| "named_by inputs EXPRESSION_NEED t \<longleftrightarrow> observed oo_expression_needs inputs t"
| "named_by inputs NATURAL_USE_EXPANSION t \<longleftrightarrow> observed oo_natural_use_expansions inputs t"
| "named_by inputs PRAGMATIC_REGISTER_OPPORTUNITY t \<longleftrightarrow> observed oo_pragmatic_register_opportunities inputs t"
| "named_by inputs CURRENT_CONTEXT_TRANSFER_OPPORTUNITY t \<longleftrightarrow> observed oo_current_context_transfers inputs t"
| "named_by inputs MANUAL_USER_REQUEST t \<longleftrightarrow> (\<exists>view entry. ci_constraints inputs = Some view
    \<and> entry \<in> set (pv_entries view) \<and> pe_constraint_type entry = MANUAL_FOCUS \<and> pe_target_id entry = Some t)"
| "named_by inputs COVERAGE_DEBT_SOURCE t \<longleftrightarrow> (\<exists>ledger ob. ci_ledger inputs = Some ledger \<and> ob \<in> set (pl_obligations ledger)
    \<and> co_scope_type ob = OBLIGATION_TARGET \<and> \<not> co_accrual_paused ob \<and> 0 < co_debt_value ob \<and> co_target_or_family_id ob = t)"
| "named_by inputs _ t \<longleftrightarrow> False"

text \<open>The sources that look for what they want among the targets.\<close>

fun earned :: "candidate_supply_inputs \<Rightarrow> target_context \<Rightarrow> candidate_source \<Rightarrow> bool" where
  "earned inputs ctx CONFIRMED_GAP \<longleftrightarrow> ''CONFIRMED_GAP'' \<in> set (tx_flags ctx)"
| "earned inputs ctx SCHEDULED_REVIEW_SOURCE \<longleftrightarrow> (\<exists>schedule view. ci_schedule inputs = Some schedule
    \<and> sp_get_schedule_view schedule (ci_as_of inputs) = Inr view
    \<and> (tx_target_type ctx, tx_target_id ctx, tx_modality ctx) \<in> set (rw_due_items view) \<union> set (rw_overdue_items view))"
| "earned inputs ctx UNKNOWN_PROBE \<longleftrightarrow> (\<exists>face. ci_learner_state inputs = Some face
    \<and> (face (tx_target_id ctx) (tx_modality ctx) = Inr None
       \<or> (\<exists>flags. face (tx_target_id ctx) (tx_modality ctx) = Inr (Some flags) \<and> ''INSUFFICIENT_EVIDENCE'' \<in> set flags)))"
| "earned inputs ctx SUPPORT_WITHDRAWAL \<longleftrightarrow> ''SUPPORT_DEPENDENT'' \<in> set (tx_flags ctx)"
| "earned inputs ctx source \<longleftrightarrow> named_by inputs source (tx_target_id ctx)"

lemma earned_same:
  assumes "tx_row c = tx_row c'" "tx_modality c = tx_modality c'" "tx_flags c = tx_flags c'"
    "tx_target_type c = tx_target_type c'" "tx_target_id c = tx_target_id c'"
  shows "earned inputs c source \<longleftrightarrow> earned inputs c' source"
  using assms by (cases source) (simp_all add: observed_def)

lemma requested_targets:
  "t \<in> set (map rt_target_id (sr_request_targets (resolve_user_intent_scope constraints))) \<longleftrightarrow>
    (\<exists>view entry. constraints = Some view \<and> entry \<in> set (pv_entries view)
      \<and> pe_constraint_type entry = MANUAL_FOCUS \<and> pe_target_id entry = Some t)"
proof (cases constraints)
  case (Some view)
  let ?targeted = "concat (map (\<lambda>e. case pe_target_id e of None \<Rightarrow> []
     | Some t \<Rightarrow> [\<lparr>rt_constraint_id = pe_constraint_id e, rt_target_type = pe_target_type e, rt_target_id = t\<rparr>])
     (entries_of_type view MANUAL_FOCUS))"
  have "sr_request_targets (resolve_user_intent_scope constraints) = ?targeted"
    by (simp add: Some resolve_user_intent_scope_def Let_def)
  moreover have "t \<in> set (map rt_target_id ?targeted) \<longleftrightarrow> (\<exists>e \<in> set (entries_of_type view MANUAL_FOCUS). pe_target_id e = Some t)"
    by (force simp: image_iff split: option.splits)
  ultimately show ?thesis by (auto simp: Some entries_of_type_def)
qed (simp add: resolve_user_intent_scope_def)

lemma just_chat_requests_nothing:
  "sr_scope (resolve_user_intent_scope constraints) = JUST_CHAT \<Longrightarrow> sr_request_targets (resolve_user_intent_scope constraints) = []"
  by (auto simp: resolve_user_intent_scope_def Let_def split: option.splits if_splits)

lemma serviceable:
  "t \<in> set (serviceable_targets ledger) \<longleftrightarrow> (\<exists>ob \<in> set (pl_obligations ledger). co_scope_type ob = OBLIGATION_TARGET
    \<and> \<not> co_accrual_paused ob \<and> 0 < co_debt_value ob \<and> co_target_or_family_id ob = t)"
  by (auto simp: serviceable_targets_def first_occurrences_def serviceable_obligations_def LEDGER_VALUE_LOW_def image_iff)

lemma in_context_targets:
  assumes "contexts_grounded env inputs given contexts" and "map_of contexts t = Some ctx"
  shows "t \<in> set (context_targets wanted contexts) \<longleftrightarrow> wanted ctx"
proof -
  have id: "tx_target_id ctx = t"
    by (rule contexts_groundedD(2) [OF assms])
  show ?thesis
  proof
    assume "t \<in> set (context_targets wanted contexts)"
    then obtain k c where c: "(k, c) \<in> set contexts" "wanted c" "tx_target_id c = t"
      by (auto simp: context_targets_def)
    then have "map_of contexts t = Some c"
      using contexts_groundedD(3) [OF assms(1) c(1)] c(3) by auto
    then show "wanted ctx" using assms(2) c(2) by simp
  next
    assume "wanted ctx"
    then have "ctx \<in> set (filter wanted (map snd contexts))"
      using map_of_SomeD [OF assms(2)] by force
    then show "t \<in> set (context_targets wanted contexts)"
      using id unfolding context_targets_def by force
  qed
qed

lemma probes_in_context_targets:
  assumes "ci_learner_state inputs = Some face"
  shows "wanted_by UNKNOWN_PROBE contexts inputs scope = Inr (context_targets
    (\<lambda>ctx. case face (tx_target_id ctx) (tx_modality ctx) of Inl code \<Rightarrow> False | Inr None \<Rightarrow> True
      | Inr (Some flags) \<Rightarrow> INSUFFICIENT_EVIDENCE_FLAG \<in> set flags) contexts)"
  (is "_ = Inr (context_targets ?judged contexts)")
proof -
  have "traverseE (\<lambda>(k, ctx). bindE (has_no_state ctx inputs) (\<lambda>b. Inr (b, tx_target_id ctx))) contexts
      = Inr (map (\<lambda>(k, ctx). (?judged ctx, tx_target_id ctx)) contexts)"
    by (intro traverse_pure) (auto simp: has_no_state_def assms)
  moreover have "map snd (filter fst (map (\<lambda>(k, ctx). (?judged ctx, tx_target_id ctx)) contexts)) = context_targets ?judged contexts"
    by (induction contexts) (auto simp: context_targets_def)
  ultimately show ?thesis by (simp add: wanted_by_def)
qed

lemma wanted_by_iff:
  assumes "wanted_by source contexts inputs (resolve_user_intent_scope (ci_constraints inputs)) = Inr targets"
    and "contexts_grounded env inputs given contexts" and "map_of contexts t = Some ctx"
  shows "t \<in> set targets \<longleftrightarrow> earned inputs ctx source"
proof -
  note known = in_context_targets [OF assms(2,3)]
  have id: "tx_target_id ctx = t"
    by (rule contexts_groundedD(2) [OF assms(2,3)])
  show ?thesis
  proof (cases source)
    case UNKNOWN_PROBE
    then obtain face where face: "ci_learner_state inputs = Some face \<or> contexts = []"
      using assms(1) by (cases "ci_learner_state inputs"; cases contexts) (auto simp: wanted_by_def has_no_state_def)
    with assms(3) have face: "ci_learner_state inputs = Some face" by auto
    have "targets = context_targets (\<lambda>ctx. case face (tx_target_id ctx) (tx_modality ctx) of Inl code \<Rightarrow> False | Inr None \<Rightarrow> True
        | Inr (Some flags) \<Rightarrow> INSUFFICIENT_EVIDENCE_FLAG \<in> set flags) contexts"
      using assms(1) by (simp add: UNKNOWN_PROBE probes_in_context_targets [OF face])
    then have "t \<in> set targets \<longleftrightarrow> (case face (tx_target_id ctx) (tx_modality ctx) of Inl code \<Rightarrow> False | Inr None \<Rightarrow> True
        | Inr (Some flags) \<Rightarrow> INSUFFICIENT_EVIDENCE_FLAG \<in> set flags)"
      by (simp only: known)
    also have "\<dots> \<longleftrightarrow> earned inputs ctx source"
      by (simp add: UNKNOWN_PROBE face INSUFFICIENT_EVIDENCE_FLAG_def split: sum.split option.split)
    finally show ?thesis .
  next
    case SCHEDULED_REVIEW_SOURCE
    with assms(1) obtain schedule where schedule: "ci_schedule inputs = Some schedule"
      by (cases "ci_schedule inputs") (auto simp: wanted_by_def)
    show ?thesis
    proof (cases "sp_get_schedule_view schedule (ci_as_of inputs)")
      case (Inl code)
      then show ?thesis using assms(1) schedule by (simp add: wanted_by_def SCHEDULED_REVIEW_SOURCE)
    next
      case (Inr view)
      then have "targets = context_targets (due_key view) contexts"
        using assms(1) schedule by (simp add: wanted_by_def SCHEDULED_REVIEW_SOURCE)
      then show ?thesis
        by (simp add: known due_key_def schedule Inr SCHEDULED_REVIEW_SOURCE)
    qed
  next
    case MANUAL_USER_REQUEST
    then show ?thesis
      using assms(1) requested_targets [of t "ci_constraints inputs"] id by (auto simp: wanted_by_def)
  next
    case COVERAGE_DEBT_SOURCE
    then show ?thesis
      using assms(1) id by (auto simp: wanted_by_def serviceable split: option.splits)
  qed (use assms(1) in \<open>cases "ci_observation inputs"; clarsimp simp: wanted_by_def observed_def CONFIRMED_GAP_FLAG_def known id\<close>)+
qed

lemma wanted_named:
  assumes "wanted_by source contexts inputs (resolve_user_intent_scope (ci_constraints inputs)) = Inr targets"
    and "named_by inputs source t"
  shows "t \<in> set targets"
  using assms requested_targets [of t "ci_constraints inputs"]
  by (cases source) (auto simp: wanted_by_def observed_def serviceable split: option.splits)

section \<open>The whole pass\<close>

definition supplied :: "candidate_supply_inputs \<Rightarrow> (string \<times> string) list" where
  "supplied inputs = (case ci_targets inputs of Some (Inr facts) \<Rightarrow> facts | _ \<Rightarrow> [])"

lemma gap_for_None:
  assumes "gap_for source inputs = None"
  shows "ci_targets inputs \<noteq> None" "ci_target_rows inputs \<noteq> None" "ci_readiness inputs \<noteq> None" "ci_schedule inputs \<noteq> None"
    and "face_absent (SOURCE_AUTHORITY source) inputs = Some False"
  using assms by (auto simp: gap_for_def COMMON_FACES_def split: option.splits if_splits)

lemma generate_run:
  assumes "generate sha256_hex env inputs sources = Inr supply"
  obtains contexts levels rs active where "contexts_grounded env inputs (set (supplied inputs)) contexts"
    and "serve_sources sha256_hex inputs (resolve_user_intent_scope (ci_constraints inputs)) contexts active ([], rs)
      = Inr (cs_proposals supply, cs_refusals supply)"
    and "cs_scope supply = resolve_user_intent_scope (ci_constraints inputs)"
    and "contexts_of env inputs (supplied inputs) [] ([], []) = Inr (contexts, levels, rs)"
    and "active = (case ci_targets inputs of Some (Inl code) \<Rightarrow> [] | _ \<Rightarrow> filter (\<lambda>source. gap_for source inputs = None) sources)"
    and "\<And>source. source \<in> set sources \<Longrightarrow> source \<notin> set active \<Longrightarrow> \<exists>g \<in> set (cs_gaps supply). sg_source g = source"
proof -
  let ?scope = "resolve_user_intent_scope (ci_constraints inputs)"
  let ?gaps = "concat (map (\<lambda>source. case gap_for source inputs of None \<Rightarrow> [] | Some gap \<Rightarrow> [gap]) sources)"
  let ?active = "filter (\<lambda>source. gap_for source inputs = None) sources"
  have gap_source: "sg_source g = source" if "gap_for source inputs = Some g" for source g
    using that by (auto simp: gap_for_def split: option.splits if_splits)
  have gapped: "\<exists>g \<in> set ?gaps. sg_source g = source" if member: "source \<in> set sources" "source \<notin> set ?active" for source
  proof -
    obtain g where g: "gap_for source inputs = Some g" using member by auto
    then have "g \<in> set ?gaps" using member(1) by force
    then show ?thesis using gap_source [OF g] by blast
  qed
  have grounded: "contexts_grounded env inputs (set (supplied inputs)) contexts"
    if "contexts_of env inputs (supplied inputs) [] ([], []) = Inr (contexts, levels, rs)" for contexts levels rs
    using contexts_of_grounded [OF that, of "set (supplied inputs)"] by simp
  consider (none) "ci_targets inputs = None" | (error) code where "ci_targets inputs = Some (Inl code)"
    | (facts) facts where "ci_targets inputs = Some (Inr facts)"
    by (metis option.exhaust sum.exhaust)
  then show thesis
  proof cases
    case none
    then have supplied: "supplied inputs = []" by (simp add: supplied_def)
    show thesis
      by (rule that [of "[]" ?active "[]" "[]"])
        (use assms none supplied grounded gapped in \<open>auto simp: generate_def Let_def bindE_Inr_iff\<close>)
  next
    case (error code)
    then have supplied: "supplied inputs = []" by (simp add: supplied_def)
    have "cs_gaps supply = ?gaps @ map (\<lambda>source. \<lparr>sg_source = source, sg_authority = TARGET_SUPPLY\<rparr>) ?active"
      using assms error by (auto simp: generate_def Let_def bindE_Inr_iff)
    then have "set (cs_gaps supply) = set ?gaps \<union> (\<lambda>source. \<lparr>sg_source = source, sg_authority = TARGET_SUPPLY\<rparr>) ` set ?active"
      by (simp only: set_append set_map)
    then have "\<exists>g \<in> set (cs_gaps supply). sg_source g = source" if "source \<in> set sources" for source
      using that gapped [of source] by (cases "source \<in> set ?active") force+
    then show thesis
      by (intro that [of "[]" "[]" "[]" "[]"])
        (use assms error supplied grounded in \<open>auto simp: generate_def Let_def bindE_Inr_iff\<close>)
  next
    case (facts facts)
    then have supplied: "supplied inputs = facts" by (simp add: supplied_def)
    from assms facts obtain contexts levels rs where run: "contexts_of env inputs facts [] ([], []) = Inr (contexts, levels, rs)"
      "serve_sources sha256_hex inputs ?scope contexts ?active ([], rs) = Inr (cs_proposals supply, cs_refusals supply)"
      "cs_scope supply = ?scope" "cs_gaps supply = ?gaps"
      by (auto simp: generate_def Let_def bindE_Inr_iff)
    show thesis
      by (rule that [of contexts ?active rs levels])
        (use run facts supplied grounded gapped in \<open>simp_all\<close>)
  qed
qed

section \<open>When the pass returns\<close>

lemma benefit_reading_total: "\<exists>r. benefit_reading (SOURCE_READINGS source) f = Inr r"
  by (cases source; cases f) (simp_all add: benefit_reading_def reading_defs BANDLESS_FACTORS_def)

lemma cost_reading_total: "\<exists>r. cost_reading (SOURCE_READINGS source) f = Inr r"
  by (cases source; cases f) (simp_all add: cost_reading_def reading_defs)

lemma overexposure_band_legal:
  assumes "overexposure_of env row as_of = Inr reading"
  shows "\<exists>x. resolve_reading (Cost OVEREXPOSURE) (Band (or_band reading)) = Inr x"
proof -
  from assms obtain n where n: "overexposure_band_of n = Inr (or_band reading)"
    by (auto simp: overexposure_of_def bindE_Inr_iff simp del: OVEREXPOSURE_RUNGS_def)
  then have "or_band reading \<in> snd ` set OVEREXPOSURE_RUNGS"
    by (auto simp: overexposure_band_of_def OVEREXPOSURE_RUNGS_def split: if_splits option.splits)
  then show ?thesis
    by (auto simp: OVEREXPOSURE_RUNGS_def)
qed

lemma scaffold_bands_reach: "decimal 25 100 \<le> decimal 5 10" "decimal 20 100 \<le> decimal 5 10"
  unfolding decimal_def by (rule rnd64_mono; simp)+

lemma raise_total:
  assumes "name = SUPPORT_COST \<or> name = COGNITIVE_LOAD"
  shows "\<exists>c. raise_to_scaffold name costs = Inr c"
  using assms scaffold_bands_reach
  by (auto simp: raise_to_scaffold_def scaffold_floor_def SCAFFOLD_MIN_SUPPORT_COST_def SCAFFOLD_MIN_COGNITIVE_LOAD_def)

lemma governing_of_serviceable:
  "t \<in> set (serviceable_targets ledger) \<Longrightarrow> governing_obligation_of ledger t \<noteq> None"
  by (auto simp: serviceable governing_None live_debts_def OBLIGATION_TARGET_def)

lemma declared_vector_total:
  assumes "\<And>r. tx_ledger ctx = Some r \<Longrightarrow> \<exists>x. resolve_reading (Cost OVEREXPOSURE) (Band (or_band (lr_overexposure r))) = Inr x"
    and "\<And>r. source = COVERAGE_DEBT_SOURCE \<Longrightarrow> tx_ledger ctx = Some r \<Longrightarrow> lr_obligation r \<noteq> None"
  shows "\<exists>v. declared_vector (SOURCE_READINGS source) ctx inputs scaffold = Inr v"
proof -
  obtain bs cs where b: "traverseE (benefit_reading (SOURCE_READINGS source)) BENEFIT_FACTORS = Inr bs"
    and c: "traverseE (cost_reading (SOURCE_READINGS source)) COST_FACTORS = Inr cs"
    using traverseE_total [of _ "benefit_reading (SOURCE_READINGS source)"] benefit_reading_total
      traverseE_total [of _ "cost_reading (SOURCE_READINGS source)"] cost_reading_total by metis
  have source: "rd_source (SOURCE_READINGS source) = source"
    by (cases source) (simp_all add: reading_defs)
  have "\<exists>b1 c1. ledger_factors (SOURCE_READINGS source) ctx (map_of bs, map_of cs) = Inr (b1, c1)"
  proof (cases "tx_ledger ctx")
    case (Some r)
    then obtain x where x: "resolve_reading (Cost OVEREXPOSURE) (Band (or_band (lr_overexposure r))) = Inr x"
      using assms(1) by blast
    show ?thesis
    proof (cases "source = COVERAGE_DEBT_SOURCE")
      case True
      then obtain ob where "lr_obligation r = Some ob" using assms(2) Some by blast
      then show ?thesis by (simp add: ledger_factors_def Some x source True BANDLESS_FACTORS_def del: resolve_reading.simps(1))
    qed (simp add: ledger_factors_def Some x source del: resolve_reading.simps)
  qed (simp add: ledger_factors_def)
  then obtain b1 c1 where l: "ledger_factors (SOURCE_READINGS source) ctx (map_of bs, map_of cs) = Inr (b1, c1)" by blast
  obtain u where u: "schedule_urgency_of (Some (tx_schedule_row ctx)) CURRENT = Some u"
    by (cases "review_urgency (tx_schedule_row ctx)") (auto simp: schedule_urgency_of_def)
  have "\<exists>c2. (case interruption_cost_band_of (ci_priority inputs) of None \<Rightarrow> Inr c1
        | Some band \<Rightarrow> bindE (resolve_reading (Cost INTERRUPTION_COST) (Band band)) (\<lambda>x. Inr (c1(INTERRUPTION_COST \<mapsto> x)))) = (Inr c2 :: supply_error + _)"
  proof (cases "ci_priority inputs")
    case (Some view)
    then show ?thesis by (cases "cp_flow_priority view") (simp_all add: interruption_cost_band_of_def)
  qed (simp add: interruption_cost_band_of_def)
  then obtain c2 where c2: "(case interruption_cost_band_of (ci_priority inputs) of None \<Rightarrow> Inr c1
        | Some band \<Rightarrow> bindE (resolve_reading (Cost INTERRUPTION_COST) (Band band)) (\<lambda>x. Inr (c1(INTERRUPTION_COST \<mapsto> x)))) = (Inr c2 :: supply_error + _)" ..
  have "\<exists>c3. (if scaffold then bindE (raise_to_scaffold SUPPORT_COST c2) (raise_to_scaffold COGNITIVE_LOAD) else Inr c2) = Inr c3"
    using raise_total [of SUPPORT_COST c2] raise_total [of COGNITIVE_LOAD] by (cases scaffold) auto
  then show ?thesis
    by (auto simp: declared_vector_def b c l u c2 simp del: resolve_reading.simps)
qed

text \<open>Both content faces are there, and what is read of a supplied target is in the vocabulary.\<close>

definition legible_target :: "py_env \<Rightarrow> candidate_supply_inputs \<Rightarrow> string \<Rightarrow> bool" where
  "legible_target env inputs t \<longleftrightarrow>
    (\<forall>rows row. ci_target_rows inputs = Some rows \<and> rows t = Inr row \<longrightarrow>
      tv_target_mode row \<in> fst ` set target_mode_members \<and> tv_learning_intent row \<in> fst ` set learning_intent_members)
    \<and> (\<exists>outcome. readiness_of_target t (ci_readiness inputs) = Inr outcome)
    \<and> (\<forall>ledger. ci_ledger inputs = Some ledger \<longrightarrow> (\<exists>readings. readings_for env ledger t (ci_as_of inputs) = Inr readings))"

definition legible :: "py_env \<Rightarrow> candidate_supply_inputs \<Rightarrow> bool" where
  "legible env inputs \<longleftrightarrow> (supplied inputs \<noteq> [] \<longrightarrow> ci_target_rows inputs \<noteq> None \<and> ci_schedule inputs \<noteq> None)
    \<and> (\<forall>t \<in> snd ` set (supplied inputs). legible_target env inputs t)"

lemma target_context_total:
  assumes "ci_target_rows inputs = Some rows" "ci_schedule inputs = Some schedule" "legible_target env inputs t"
  shows "\<exists>r. target_context_for env inputs (ty, t) (levels, refusals) = Inr r"
proof -
  obtain outcome where o: "readiness_of_target t (ci_readiness inputs) = Inr outcome"
    using assms(3) by (auto simp: legible_target_def)
  show ?thesis
  proof (cases "ci_ledger inputs")
    case None
    then show ?thesis
      by (simp add: target_context_for_def assms(1,2) o Let_def split: sum.split option.split)
  next
    case (Some ledger)
    then obtain readings where "readings_for env ledger t (ci_as_of inputs) = Inr readings"
      using assms(3) by (auto simp: legible_target_def)
    then show ?thesis
      by (simp add: target_context_for_def assms(1,2) o Some Let_def split: sum.split option.split)
  qed
qed

lemma contexts_of_total:
  assumes "ci_target_rows inputs = Some rows" "ci_schedule inputs = Some schedule"
    and "\<forall>t \<in> snd ` set targets. legible_target env inputs t"
  shows "\<exists>r. contexts_of env inputs targets contexts acc = Inr r"
  using assms(3)
proof (induction targets arbitrary: contexts acc)
  case (Cons target targets)
  obtain r where r: "target_context_for env inputs target acc = Inr r"
    using target_context_total [OF assms(1,2)] Cons.prems by (cases target; cases acc) force
  then show ?case using Cons by (cases r) auto
qed simp

lemma build_total:
  assumes "grounded env inputs ty t ctx" and "legible_target env inputs t"
    and "\<And>ledger. source = COVERAGE_DEBT_SOURCE \<Longrightarrow> ci_ledger inputs = Some ledger \<Longrightarrow> t \<in> set (serviceable_targets ledger)"
  shows "\<exists>built. build_candidate sha256_hex source ctx inputs = Inr built"
proof -
  have readings: "\<exists>ledger. ci_ledger inputs = Some ledger \<and> readings_for env ledger t (ci_as_of inputs) = Inr r" if "tx_ledger ctx = Some r" for r
    using assms(1) that by (auto simp: grounded_def split: option.splits)
  have v: "\<exists>v. declared_vector (SOURCE_READINGS source) ctx inputs scaffold = Inr v" for scaffold
  proof (rule declared_vector_total)
    fix r assume "tx_ledger ctx = Some r"
    then obtain ledger where l: "ci_ledger inputs = Some ledger" "readings_for env ledger t (ci_as_of inputs) = Inr r"
      using readings by blast
    then show "\<exists>x. resolve_reading (Cost OVEREXPOSURE) (Band (or_band (lr_overexposure r))) = Inr x"
      using overexposure_band_legal by (auto simp: readings_for_def bindE_Inr_iff simp del: resolve_reading.simps)
    show "lr_obligation r \<noteq> None" if "source = COVERAGE_DEBT_SOURCE"
      using l governing_of_serviceable [OF assms(3) [OF that l(1)]] by (auto simp: readings_for_def bindE_Inr_iff)
  qed
  obtain vec where vec: "\<And>scaffold. declared_vector (SOURCE_READINGS source) ctx inputs scaffold = Inr (vec scaffold)"
    using v by metis
  have p: "\<exists>p. proposal_for sha256_hex source ctx inputs mode intent = Inr p" for mode intent
    by (simp add: proposal_for_def Let_def vec case_prod_beta)
  have words: "tv_target_mode (tx_row ctx) \<in> fst ` set target_mode_members"
    "tv_learning_intent (tx_row ctx) \<in> fst ` set learning_intent_members"
    using assms(1,2) unfolding grounded_def legible_target_def by blast+
  then obtain m i where m: "map_of target_mode_members (tv_target_mode (tx_row ctx)) = Some m"
    and i: "map_of learning_intent_members (tv_learning_intent (tx_row ctx)) = Some i"
    by (metis map_of_eq_None_iff not_Some_eq)
  obtain shape where shape: "(case rd_mode (SOURCE_READINGS source) of None \<Rightarrow> practice_mode (tx_row ctx) | Some mode \<Rightarrow> Inr (Some mode)) = Inr shape"
    by (cases "rd_mode (SOURCE_READINGS source)") (simp_all add: practice_mode_def m)
  obtain intent where intent: "(case rd_intent (SOURCE_READINGS source) of Some intent \<Rightarrow> Inr intent
      | None \<Rightarrow> (case map_of learning_intent_members (tv_learning_intent (tx_row ctx)) of
          None \<Rightarrow> Inl (UnknownLearningIntent (tv_learning_intent (tx_row ctx))) | Some intent \<Rightarrow> Inr intent)) = Inr intent"
    by (cases "rd_intent (SOURCE_READINGS source)") (simp_all add: i)
  obtain q where q: "\<And>mode. proposal_for sha256_hex source ctx inputs mode intent = Inr (q mode)"
    using choice [of "\<lambda>mode p. proposal_for sha256_hex source ctx inputs mode intent = Inr p"] p by blast
  show ?thesis
    by (simp add: build_candidate_def shape intent q split: option.split)
qed

lemma serve_targets_total:
  assumes "contexts_grounded env inputs (set (supplied inputs)) contexts"
    and "\<forall>t \<in> snd ` set (supplied inputs). legible_target env inputs t"
    and "\<And>t ledger. t \<in> set targets \<Longrightarrow> source = COVERAGE_DEBT_SOURCE \<Longrightarrow> ci_ledger inputs = Some ledger \<Longrightarrow> t \<in> set (serviceable_targets ledger)"
  shows "\<exists>r. serve_targets sha256_hex inputs contexts source targets acc = Inr r"
  using assms(3)
proof (induction targets arbitrary: acc)
  case Nil
  show ?case by (cases acc) simp
next
  case (Cons t targets)
  obtain ps rs where acc: "acc = (ps, rs)" by (cases acc)
  have rest: "\<exists>r. serve_targets sha256_hex inputs contexts source targets acc' = Inr r" for acc'
    using Cons by simp
  show ?case
  proof (cases "map_of contexts t")
    case None
    then show ?thesis using rest by (simp add: acc)
  next
    case (Some ctx)
    obtain ty where g: "(ty, t) \<in> set (supplied inputs)" "grounded env inputs ty t ctx"
      using contexts_groundedD(1) [OF assms(1) Some] by blast
    then have "legible_target env inputs t" using assms(2) by force
    then obtain built where built: "build_candidate sha256_hex source ctx inputs = Inr built"
      using build_total [OF g(2), of source sha256_hex] Cons.prems by auto
    show ?thesis
      using rest by (cases built) (simp_all add: acc Some built)
  qed
qed

lemma wanted_total:
  assumes "gap_for source inputs = None"
  shows "\<exists>targets. wanted_by source contexts inputs scope = Inr targets"
proof (cases "source = UNKNOWN_PROBE")
  case True
  then obtain face where "ci_learner_state inputs = Some face"
    using gap_for_None(5) [OF assms] by auto
  then show ?thesis using probes_in_context_targets True by blast
next
  case False
  then show ?thesis
    using gap_for_None [OF assms] by (cases source) (auto simp: wanted_by_def split: option.split sum.split)
qed

lemma serve_sources_total:
  assumes "contexts_grounded env inputs (set (supplied inputs)) contexts"
    and "\<forall>t \<in> snd ` set (supplied inputs). legible_target env inputs t"
    and "\<forall>source \<in> set sources. gap_for source inputs = None"
  shows "\<exists>r. serve_sources sha256_hex inputs scope contexts sources acc = Inr r"
  using assms(3)
proof (induction sources arbitrary: acc)
  case (Cons source sources)
  obtain targets where w: "wanted_by source contexts inputs scope = Inr targets"
    using wanted_total Cons.prems by (metis list.set_intros(1))
  have "t \<in> set (serviceable_targets ledger)" if "t \<in> set targets" "source = COVERAGE_DEBT_SOURCE" "ci_ledger inputs = Some ledger" for t ledger
    using w that by (simp add: wanted_by_def)
  then obtain acc' where "serve_targets sha256_hex inputs contexts source targets acc = Inr acc'"
    using serve_targets_total [OF assms(1,2)] by metis
  then show ?case using Cons w by simp
qed simp

lemma generate_total:
  assumes "legible env inputs"
  shows "\<exists>supply. generate sha256_hex env inputs sources = Inr supply"
proof -
  let ?scope = "resolve_user_intent_scope (ci_constraints inputs)"
  let ?active = "filter (\<lambda>source. gap_for source inputs = None) sources"
  have legible: "\<forall>t \<in> snd ` set (supplied inputs). legible_target env inputs t"
    using assms by (simp add: legible_def)
  have "\<exists>r. contexts_of env inputs (supplied inputs) [] ([], []) = Inr r"
  proof (cases "supplied inputs = []")
    case False
    with assms obtain rows schedule where "ci_target_rows inputs = Some rows" "ci_schedule inputs = Some schedule"
      by (auto simp: legible_def)
    then show ?thesis using contexts_of_total legible by blast
  qed simp
  then obtain contexts levels rs where c: "contexts_of env inputs (supplied inputs) [] ([], []) = Inr (contexts, levels, rs)"
    by (metis surj_pair)
  have g: "contexts_grounded env inputs (set (supplied inputs)) contexts"
    using contexts_of_grounded [OF c, of "set (supplied inputs)"] by simp
  obtain ps rs' where s: "serve_sources sha256_hex inputs ?scope contexts ?active ([], rs) = Inr (ps, rs')"
    using serve_sources_total [OF g legible, of ?active sha256_hex ?scope "([], rs)"] by auto
  consider (none) "ci_targets inputs = None" | (error) code where "ci_targets inputs = Some (Inl code)"
    | (facts) facts where "ci_targets inputs = Some (Inr facts)"
    by (metis option.exhaust sum.exhaust)
  then show ?thesis
  proof cases
    case none
    then have "gap_for source inputs \<noteq> None" for source using gap_for_None(1) by blast
    then have "?active = []" by (auto simp: filter_empty_conv)
    then show ?thesis by (simp add: generate_def Let_def none)
  next
    case error
    then show ?thesis by (simp add: generate_def Let_def)
  next
    case (facts facts)
    then have "supplied inputs = facts" by (simp add: supplied_def)
    then show ?thesis using c s facts by (simp add: generate_def Let_def)
  qed
qed

section \<open>What the planner accepts of it\<close>

text \<open>The numbers the pass copies are proportions: the urgencies of the Scheduler's rows and the debts of
  constructed obligations.\<close>

definition priced :: "candidate_supply_inputs \<Rightarrow> bool" where
  "priced inputs \<longleftrightarrow>
    (\<forall>schedule ty t m row u. ci_schedule inputs = Some schedule \<and> sp_get_schedule_item schedule ty t m = Inr (Some row)
      \<and> review_urgency row = Some u \<longrightarrow> in_unit u)
    \<and> (\<forall>ledger. ci_ledger inputs = Some ledger \<longrightarrow> (\<forall>ob \<in> set (pl_obligations ledger). valid_obligation ob))"

text \<open>The 24 digits that are kept of a digest tell the identity texts of these proposals apart.\<close>

definition identity_text :: "candidate_proposal \<Rightarrow> string" where
  "identity_text p = opportunity_binding_class p @ CHR 0x1F # canonical_key p"

definition digests_differ :: "(string \<Rightarrow> string) \<Rightarrow> candidate_proposal list \<Rightarrow> bool" where
  "digests_differ sha256_hex ps \<longleftrightarrow> inj_on (\<lambda>text. take 24 (sha256_hex text)) (identity_text ` set ps)"

lemma grounded_priced:
  assumes "grounded env inputs ty t ctx" and "priced inputs"
  shows "priced_context ctx"
proof -
  from assms(1) obtain schedule where "ci_schedule inputs = Some schedule"
    "sp_get_schedule_item schedule ty t (tx_modality ctx) = Inr (Some (tx_schedule_row ctx))"
    by (auto simp: grounded_def)
  then have urgency: "case review_urgency (tx_schedule_row ctx) of None \<Rightarrow> True | Some u \<Rightarrow> in_unit u"
    using assms(2) unfolding priced_def by (auto split: option.split)
  have debt: "in_unit (co_debt_value ob)" if r: "tx_ledger ctx = Some readings" and ob: "lr_obligation readings = Some ob" for readings ob
  proof -
    from assms(1) r obtain ledger where l: "ci_ledger inputs = Some ledger" "readings_for env ledger t (ci_as_of inputs) = Inr readings"
      by (auto simp: grounded_def split: option.splits)
    then have "governing_obligation_of ledger t = Some ob"
      using ob by (auto simp: readings_for_def bindE_Inr_iff)
    then have "ob \<in> set (pl_obligations ledger)"
      using governing_Some(1) by (auto simp: live_debts_def)
    then show ?thesis using assms(2) l(1) by (auto simp: priced_def valid_obligation_def in_unit_def)
  qed
  show ?thesis
    using urgency debt by (auto simp: priced_context_def split: option.split)
qed

lemma separator_free: "CHR 0x1F \<notin> set (candidate_source_word s)"
  by (cases s) simp_all

lemma first_separator:
  assumes "xs @ sep # ys = xs' @ sep # ys'" and "sep \<notin> set xs" and "sep \<notin> set xs'"
  shows "xs = xs' \<and> ys = ys'"
proof -
  have "takeWhile (\<lambda>c. c \<noteq> sep) (zs @ sep # us) = zs" if "sep \<notin> set zs" for zs us
    using that by (induction zs) auto
  then have "xs = xs'" using assms by metis
  then show ?thesis using assms(1) by simp
qed

lemma same_id_same_key:
  assumes "build_candidate sha256_hex s c inputs = Inr (Inr p)" and "build_candidate sha256_hex s' c' inputs = Inr (Inr q)"
    and "digests_differ sha256_hex ps" and "p \<in> set ps" "q \<in> set ps" and "candidate_id p = candidate_id q"
  shows "canonical_key p = canonical_key q"
proof -
  have id: "candidate_id r = ''cp-'' @ take 24 (sha256_hex (identity_text r))"
    if "build_candidate sha256_hex s c inputs = Inr (Inr r)" for s c r
    by (simp add: build_names(4,5) [OF that] candidate_id_of_def identity_text_def)
  have "take 24 (sha256_hex (identity_text p)) = take 24 (sha256_hex (identity_text q))"
    using assms(6) by (simp add: id [OF assms(1)] id [OF assms(2)])
  then have "identity_text p = identity_text q"
    using assms(3-5) unfolding digests_differ_def by (auto dest: inj_onD)
  then show ?thesis
    using first_separator [OF _ separator_free separator_free, of s _ s']
    by (simp add: identity_text_def build_names(5) [OF assms(1)] build_names(5) [OF assms(2)])
qed

lemma generated_accepted:
  assumes "generate sha256_hex env inputs sources = Inr supply" and "priced inputs"
    and "digests_differ sha256_hex (cs_proposals supply)"
  shows "accepted_proposals (sr_scope (resolve_user_intent_scope (ci_constraints inputs))) (cs_proposals supply)"
  using assms(1)
proof (rule generate_run)
  let ?scope = "resolve_user_intent_scope (ci_constraints inputs)"
  fix contexts levels rs active
  assume g: "contexts_grounded env inputs (set (supplied inputs)) contexts"
    and s: "serve_sources sha256_hex inputs ?scope contexts active ([], rs) = Inr (cs_proposals supply, cs_refusals supply)"
  from serve_sources_spec [OF s g] have spec: "\<exists>source. (\<exists>targets. wanted_by source contexts inputs ?scope = Inr targets
      \<and> focus_target p \<in> set targets) \<and> made sha256_hex inputs contexts source p" if "p \<in> set (cs_proposals supply)" for p
    using that by (auto; blast)
  have made: "\<exists>source ctx. map_of contexts (focus_target p) = Some ctx \<and> build_candidate sha256_hex source ctx inputs = Inr (Inr p)
      \<and> (\<exists>targets. wanted_by source contexts inputs ?scope = Inr targets \<and> focus_target p \<in> set targets)"
    if "p \<in> set (cs_proposals supply)" for p
    using spec [OF that] unfolding made_def by blast
  have ready: "ready_proposal p" if p: "p \<in> set (cs_proposals supply)" for p
  proof -
    obtain source ctx where "map_of contexts (focus_target p) = Some ctx" "build_candidate sha256_hex source ctx inputs = Inr (Inr p)"
      using made [OF p] by blast
    then show ?thesis
      using build_ready grounded_priced [OF _ assms(2)] contexts_groundedD(1) [OF g] by blast
  qed
  have same: "p = q" if "p \<in> set (cs_proposals supply)" "q \<in> set (cs_proposals supply)" "canonical_key p = canonical_key q" for p q
    using spec [OF that(1)] spec [OF that(2)] made_same_key [OF _ _ g that(3)] by blast
  have ids: "canonical_key p = canonical_key q"
    if "p \<in> set (cs_proposals supply)" "q \<in> set (cs_proposals supply)" "candidate_id p = candidate_id q" for p q
    using made [OF that(1)] made [OF that(2)] same_id_same_key [OF _ _ assms(3) that] by blast
  have chat: "\<not> user_initiated p" if scope: "sr_scope ?scope = JUST_CHAT" and p: "p \<in> set (cs_proposals supply)" for p
  proof
    assume user: "user_initiated p"
    obtain source ctx targets where m: "build_candidate sha256_hex source ctx inputs = Inr (Inr p)"
      "wanted_by source contexts inputs ?scope = Inr targets" "focus_target p \<in> set targets"
      using made [OF p] by blast
    then have "source = MANUAL_USER_REQUEST"
      using user build_names(3) [OF m(1)] by simp
    then show False
      using m(2,3) just_chat_requests_nothing [OF scope] by (auto simp: wanted_by_def)
  qed
  show "accepted_proposals (sr_scope ?scope) (cs_proposals supply)"
    unfolding accepted_proposals_def list_all_iff list_ex_iff using ready same ids chat by blast
qed

end
