(* ===== verification/Candidate_Properties.thy ===== *)
theory Candidate_Properties
  imports Candidate_Generation
begin

text \<open>
  The candidate supply against what it promises: exactly which candidates a pass makes, that no claim of a
  running source goes without an answer, what a target's prerequisites make of it, and where the pass raises
  instead of reporting a gap.
\<close>

section \<open>A concrete supply\<close>

definition demo_view :: content_target_view where
  "demo_view = \<lparr>tv_target_mode = ''RESOURCE_PRACTICE'', tv_learning_intent = ''DEVELOP'',
     tv_evidence_modality = ''TEXT_PRODUCTION''\<rparr>"

definition demo_due :: schedule_row where
  "demo_due = \<lparr>review_state = DUE, review_urgency = None, source_learning_watermark = ''7''\<rparr>"

text \<open>Two supplied targets with a confirmed gap; only the first is scheduled, and due.\<close>

definition demo_supply_inputs :: candidate_supply_inputs where
  "demo_supply_inputs = \<lparr>ci_as_of = ''now'', ci_targets = Some (Inr [(''RESOURCE'', ''x''), (''RESOURCE'', ''y'')]),
     ci_target_rows = Some (\<lambda>t. Inr demo_view),
     ci_readiness = Some (\<lambda>t. Inr \<lparr>ra_level = Some ''R3_TEACHING_READY'', ra_missing_keys = []\<rparr>),
     ci_prerequisites = None, ci_learner_state = Some (\<lambda>t m. Inr (Some [''CONFIRMED_GAP''])),
     ci_schedule = Some \<lparr>sp_get_schedule_item = (\<lambda>ty t m. Inr (if t = ''x'' then Some demo_due else None)),
       sp_get_schedule_view = (\<lambda>as_of. Inr \<lparr>rw_due_items = [(''RESOURCE'', ''x'', TEXT_PRODUCTION)], rw_overdue_items = []\<rparr>)\<rparr>,
     ci_constraints = None, ci_priority = None,
     ci_observation = Some \<lparr>oo_current_user_errors = [''z''], oo_expression_needs = [], oo_natural_use_expansions = [],
       oo_pragmatic_register_opportunities = [], oo_current_context_transfers = []\<rparr>,
     ci_ledger = None\<rparr>"

definition demo_context :: target_context where
  "demo_context = \<lparr>tx_target_type = ''RESOURCE'', tx_target_id = ''x'', tx_row = demo_view, tx_modality = TEXT_PRODUCTION,
     tx_level = R3_TEACHING_READY,
     tx_prerequisites = prerequisite_state_of ''RESOURCE'' ''x'' TEXT_PRODUCTION None (ci_learner_state demo_supply_inputs),
     tx_schedule_row = demo_due, tx_flags = [''CONFIRMED_GAP''], tx_auto_suppressed = False, tx_review_suppressed = False,
     tx_ledger = None\<rparr>"

lemma demo_supplied: "supplied demo_supply_inputs = [(''RESOURCE'', ''x''), (''RESOURCE'', ''y'')]"
  by (simp add: supplied_def demo_supply_inputs_def)

lemma demo_words: "map_of modality_members ''TEXT_PRODUCTION'' = Some TEXT_PRODUCTION"
  "''RESOURCE_PRACTICE'' \<in> fst ` set target_mode_members" "''DEVELOP'' \<in> fst ` set learning_intent_members"
  by (auto simp: modality_members_def target_mode_members_def learning_intent_members_def)

lemma demo_legible: "legible env demo_supply_inputs"
  by (auto simp: legible_def legible_target_def demo_supplied)
    (auto simp: demo_supply_inputs_def demo_view_def demo_words readiness_of_target_def READINESS_MEMBERS_def)

lemma demo_grounded: "grounded env demo_supply_inputs ''RESOURCE'' ''x'' demo_context"
  by (simp add: grounded_def demo_context_def demo_supply_inputs_def demo_view_def demo_words readiness_of_target_def
      READINESS_MEMBERS_def flags_read_def)

lemma demo_ungrounded: "\<not> grounded env demo_supply_inputs ''RESOURCE'' ''y'' ctx"
  by (simp add: grounded_def demo_supply_inputs_def)

lemma demo_running: "gap_for CONFIRMED_GAP demo_supply_inputs = None" "gap_for CURRENT_USER_ERROR demo_supply_inputs = None"
  by (simp_all add: gap_for_def COMMON_FACES_def demo_supply_inputs_def)

lemma demo_fits: "fits CONFIRMED_GAP demo_view" "\<not> fits SUPPORT_WITHDRAWAL (demo_view\<lparr>tv_target_mode := ''REVIEW''\<rparr>)"
  by (auto simp: fits_def reading_defs demo_view_def intro: exI [of _ RESOURCE_PRACTICE])

section \<open>What a pass makes\<close>

lemma generated_active:
  assumes "generate sha256_hex env inputs sources = Inr supply" and "ci_targets inputs = Some (Inr facts)"
  obtains contexts rs where "contexts_grounded env inputs (set facts) contexts"
    and "\<And>ty t ctx. (ty, t) \<in> set facts \<Longrightarrow> grounded env inputs ty t ctx \<Longrightarrow> t \<in> dom (map_of contexts)"
    and "\<And>p. p \<in> set (cs_proposals supply) \<Longrightarrow> \<exists>source \<in> set sources. gap_for source inputs = None
      \<and> made sha256_hex inputs contexts source p \<and> (\<forall>ctx. map_of contexts (focus_target p) = Some ctx \<longrightarrow> earned inputs ctx source)"
    and "\<And>source t ctx. source \<in> set sources \<Longrightarrow> gap_for source inputs = None \<Longrightarrow> map_of contexts t = Some ctx
      \<Longrightarrow> earned inputs ctx source \<Longrightarrow> served sha256_hex inputs contexts (cs_proposals supply) (cs_refusals supply) source t"
    and "\<And>source. source \<in> set sources \<Longrightarrow> gap_for source inputs = None \<Longrightarrow> \<exists>targets. wanted_by source contexts inputs
        (resolve_user_intent_scope (ci_constraints inputs)) = Inr targets
      \<and> (\<forall>t \<in> set targets. served sha256_hex inputs contexts (cs_proposals supply) (cs_refusals supply) source t)"
    and "\<And>ty t. (ty, t) \<in> set facts \<Longrightarrow> \<not> (\<exists>ctx. grounded env inputs ty t ctx) \<Longrightarrow> \<exists>gate. refuse t gate None \<in> set (cs_refusals supply)"
    and "\<And>r. r \<in> set (cs_refusals supply) \<Longrightarrow> tr_source r = None \<Longrightarrow> tr_target_id r \<in> snd ` set facts"
  using assms(1)
proof (rule generate_run)
  fix contexts levels rs active
  assume g: "contexts_grounded env inputs (set (supplied inputs)) contexts"
    and s: "serve_sources sha256_hex inputs (resolve_user_intent_scope (ci_constraints inputs)) contexts active ([], rs)
      = Inr (cs_proposals supply, cs_refusals supply)"
    and c: "contexts_of env inputs (supplied inputs) [] ([], []) = Inr (contexts, levels, rs)"
    and active: "active = (case ci_targets inputs of Some (Inl code) \<Rightarrow> [] | _ \<Rightarrow> filter (\<lambda>source. gap_for source inputs = None) sources)"
  have facts: "supplied inputs = facts" by (simp add: supplied_def assms(2))
  have active: "set active = {source \<in> set sources. gap_for source inputs = None}"
    by (simp add: active assms(2))
  note g = g [unfolded facts]
  from serve_sources_spec [OF s g] obtain refs where spec: "cs_refusals supply = rs @ refs" "\<forall>r \<in> set refs. tr_source r \<noteq> None"
    "\<forall>p \<in> set (cs_proposals supply). \<exists>source \<in> set active. \<exists>targets. wanted_by source contexts inputs
        (resolve_user_intent_scope (ci_constraints inputs)) = Inr targets \<and> focus_target p \<in> set targets
        \<and> made sha256_hex inputs contexts source p"
    "\<forall>source \<in> set active. \<exists>targets. wanted_by source contexts inputs (resolve_user_intent_scope (ci_constraints inputs)) = Inr targets
        \<and> (\<forall>t \<in> set targets. served sha256_hex inputs contexts (cs_proposals supply) (cs_refusals supply) source t)"
    by auto
  note wanted = wanted_by_iff [OF _ g]
  have made: "\<exists>source \<in> set sources. gap_for source inputs = None \<and> made sha256_hex inputs contexts source p
      \<and> (\<forall>ctx. map_of contexts (focus_target p) = Some ctx \<longrightarrow> earned inputs ctx source)"
    if p: "p \<in> set (cs_proposals supply)" for p
  proof -
    from spec(3) p obtain source targets where s: "source \<in> set active" "wanted_by source contexts inputs
        (resolve_user_intent_scope (ci_constraints inputs)) = Inr targets" "focus_target p \<in> set targets"
        "made sha256_hex inputs contexts source p" by blast
    then have "\<forall>ctx. map_of contexts (focus_target p) = Some ctx \<longrightarrow> earned inputs ctx source"
      using wanted [OF s(2)] by blast
    then show ?thesis using s(1,4) active by blast
  qed
  have serves: "served sha256_hex inputs contexts (cs_proposals supply) (cs_refusals supply) source t"
    if "source \<in> set sources" "gap_for source inputs = None" "map_of contexts t = Some ctx" "earned inputs ctx source" for source t ctx
  proof -
    have "source \<in> set active" using that active by blast
    then obtain targets where s: "wanted_by source contexts inputs (resolve_user_intent_scope (ci_constraints inputs)) = Inr targets"
      "\<forall>t \<in> set targets. served sha256_hex inputs contexts (cs_proposals supply) (cs_refusals supply) source t"
      using spec(4) by blast
    then show ?thesis using wanted [OF s(1) that(3)] that(4) by blast
  qed
  have refused: "tr_target_id r \<in> snd ` set facts" if "r \<in> set (cs_refusals supply)" "tr_source r = None" for r
    using contexts_of_refusals [OF c] that spec(1,2) by (auto simp: facts)
  note complete = contexts_of_complete [OF c, unfolded facts]
  have none: "\<exists>gate. refuse t gate None \<in> set (cs_refusals supply)"
    if "(ty, t) \<in> set facts" "\<not> (\<exists>ctx. grounded env inputs ty t ctx)" for ty t
    using complete(3) [OF that] spec(1) by auto
  show thesis
  proof (rule that [OF g], goal_cases)
    case 1 then show ?case by (rule complete(2))
  next
    case 2 then show ?case by (rule made)
  next
    case 3 then show ?case by (rule serves)
  next
    case 4 then show ?case using spec(4) active by blast
  next
    case 5 then show ?case by (rule none)
  next
    case 6 then show ?case by (rule refused)
  qed
qed

text \<open>
  C7: Exactly which candidates a pass makes.  Over a readable supply whose targets have distinct
  identifiers, a source the pass was asked for has a candidate for a supplied target if and only if every
  face the source needs is there; the target is grounded: its content row is read and names a deliverable
  modality, its content is graded and the Scheduler holds its row; the source's own authority earned it: the
  turn observed it, the user asked for it, the learner's flags name it, the Scheduler calls it due, nothing
  is known of it, or the ledger owes it coverage; and the row's mode and intent fit the source.
\<close>

theorem supply_exact:
  assumes "generate sha256_hex env inputs sources = Inr supply" and "ci_targets inputs = Some (Inr facts)"
    and "distinct (map snd facts)" and "(ty, t) \<in> set facts" and "source \<in> set sources"
  shows "(\<exists>p \<in> set (cs_proposals supply). focus_target p = t \<and> origins p = [candidate_source_word source])
    \<longleftrightarrow> gap_for source inputs = None
      \<and> (\<exists>ctx. grounded env inputs ty t ctx \<and> earned inputs ctx source \<and> fits source (tx_row ctx))"
  using assms(1,2)
proof (rule generated_active)
  fix contexts rs
  assume g: "contexts_grounded env inputs (set facts) contexts"
    and found: "\<And>ty t ctx. (ty, t) \<in> set facts \<Longrightarrow> grounded env inputs ty t ctx \<Longrightarrow> t \<in> dom (map_of contexts)"
    and made: "\<And>p. p \<in> set (cs_proposals supply) \<Longrightarrow> \<exists>source \<in> set sources. gap_for source inputs = None
      \<and> made sha256_hex inputs contexts source p \<and> (\<forall>ctx. map_of contexts (focus_target p) = Some ctx \<longrightarrow> earned inputs ctx source)"
    and serves: "\<And>source t ctx. source \<in> set sources \<Longrightarrow> gap_for source inputs = None \<Longrightarrow> map_of contexts t = Some ctx
      \<Longrightarrow> earned inputs ctx source \<Longrightarrow> served sha256_hex inputs contexts (cs_proposals supply) (cs_refusals supply) source t"
  have here: "grounded env inputs ty t c" if "map_of contexts t = Some c" for c
    using contexts_groundedD(1) [OF g that] assms(3,4) eq_key_imp_eq_value [of "map prod.swap facts" t] by (force simp: comp_def)
  show ?thesis
  proof
    assume "\<exists>p \<in> set (cs_proposals supply). focus_target p = t \<and> origins p = [candidate_source_word source]"
    then obtain p s c where p: "p \<in> set (cs_proposals supply)" "focus_target p = t" "origins p = [candidate_source_word source]"
      and s: "gap_for s inputs = None" "map_of contexts t = Some c" "build_candidate sha256_hex s c inputs = Inr (Inr p)" "earned inputs c s"
      using made unfolding made_def by metis
    have "s = source"
      using build_names(2) [OF s(3)] p(3) by (simp add: words_inj)
    then show "gap_for source inputs = None \<and> (\<exists>ctx. grounded env inputs ty t ctx \<and> earned inputs ctx source \<and> fits source (tx_row ctx))"
      using s here [OF s(2)] build_fits [OF s(3)] by auto
  next
    assume "gap_for source inputs = None \<and> (\<exists>ctx. grounded env inputs ty t ctx \<and> earned inputs ctx source \<and> fits source (tx_row ctx))"
    then obtain ctx where running: "gap_for source inputs = None" and ctx: "grounded env inputs ty t ctx" "earned inputs ctx source" "fits source (tx_row ctx)"
      by blast
    obtain c where c: "map_of contexts t = Some c"
      using found [OF assms(4) ctx(1)] by blast
    note same = grounded_same [OF here [OF c] ctx(1)]
    have "earned inputs c source"
      using earned_same [OF same] ctx(2) by simp
    from serves [OF assms(5) running c this] obtain built where built: "build_candidate sha256_hex source c inputs = Inr built"
      "built \<in> Inl ` set (cs_refusals supply) \<union> Inr ` set (cs_proposals supply)"
      unfolding served_def c by auto
    with build_fits [OF built(1)] ctx(3) same(1) obtain p where p: "build_candidate sha256_hex source c inputs = Inr (Inr p)" "p \<in> set (cs_proposals supply)"
      by auto
    have "focus_target p = t" "origins p = [candidate_source_word source]"
      using build_names(1,2) [OF p(1)] contexts_groundedD(2) [OF g c] by simp_all
    then show "\<exists>p \<in> set (cs_proposals supply). focus_target p = t \<and> origins p = [candidate_source_word source]"
      using p(2) by blast
  qed
qed

lemma supply_exact_witness:
  "\<exists>supply. generate id demo_env demo_supply_inputs CANDIDATE_SOURCES = Inr supply
    \<and> (\<exists>p \<in> set (cs_proposals supply). focus_target p = ''x'' \<and> origins p = [candidate_source_word CONFIRMED_GAP])
    \<and> \<not> (\<exists>p \<in> set (cs_proposals supply). focus_target p = ''y'' \<and> origins p = [candidate_source_word CONFIRMED_GAP])"
proof -
  obtain made where run: "generate id demo_env demo_supply_inputs CANDIDATE_SOURCES = Inr made"
    using generate_total [OF demo_legible] by blast
  have "ci_targets demo_supply_inputs = Some (Inr [(''RESOURCE'', ''x''), (''RESOURCE'', ''y'')])"
    by (simp add: demo_supply_inputs_def)
  note exact = supply_exact [OF run this, of _ _ CONFIRMED_GAP]
  have "CONFIRMED_GAP \<in> set CANDIDATE_SOURCES"
    by (simp add: CANDIDATE_SOURCES_def TRACK_B_SOURCES_def)
  moreover have "\<exists>ctx. grounded demo_env demo_supply_inputs ''RESOURCE'' ''x'' ctx
      \<and> earned demo_supply_inputs ctx CONFIRMED_GAP \<and> fits CONFIRMED_GAP (tx_row ctx)"
    using demo_grounded demo_fits(1) by (intro exI [of _ demo_context]) (simp add: demo_context_def)
  ultimately show ?thesis
    using run exact [of "''RESOURCE''" "''x''"] exact [of "''RESOURCE''" "''y''"] demo_running(1) demo_ungrounded by simp
qed

text \<open>
  C8: No claim goes unanswered.  In a pass over a readable supply whose targets have distinct identifiers, a
  running source's claim on a target that becomes no candidate is recorded as a refusal at its gate: a target
  that is not grounded is refused once for all sources, a grounded target the source earned but whose row it
  does not fit is refused with the pair of mode and intent, and a target the source names that was not
  supplied is refused as outside the supply.
\<close>

theorem every_claim_is_answered:
  assumes "generate sha256_hex env inputs sources = Inr supply" and "ci_targets inputs = Some (Inr facts)"
    and "distinct (map snd facts)" and "source \<in> set sources" and "gap_for source inputs = None"
  shows "((ty, t) \<in> set facts \<longrightarrow> \<not> (\<exists>ctx. grounded env inputs ty t ctx) \<longrightarrow> (\<exists>gate. refuse t gate None \<in> set (cs_refusals supply)))
    \<and> ((ty, t) \<in> set facts \<longrightarrow> grounded env inputs ty t ctx \<longrightarrow> earned inputs ctx source \<longrightarrow> \<not> fits source (tx_row ctx)
      \<longrightarrow> refuse t GATE_MODE_INTENT_PAIR (Some source) \<in> set (cs_refusals supply))
    \<and> (named_by inputs source t \<longrightarrow> t \<notin> snd ` set facts \<longrightarrow> refuse t GATE_OUTSIDE_SUPPLY (Some source) \<in> set (cs_refusals supply))"
  using assms(1,2)
proof (rule generated_active)
  fix contexts rs
  assume g: "contexts_grounded env inputs (set facts) contexts"
    and found: "\<And>ty t ctx. (ty, t) \<in> set facts \<Longrightarrow> grounded env inputs ty t ctx \<Longrightarrow> t \<in> dom (map_of contexts)"
    and serves: "\<And>source t ctx. source \<in> set sources \<Longrightarrow> gap_for source inputs = None \<Longrightarrow> map_of contexts t = Some ctx
      \<Longrightarrow> earned inputs ctx source \<Longrightarrow> served sha256_hex inputs contexts (cs_proposals supply) (cs_refusals supply) source t"
    and wants: "\<And>source. source \<in> set sources \<Longrightarrow> gap_for source inputs = None \<Longrightarrow> \<exists>targets. wanted_by source contexts inputs
        (resolve_user_intent_scope (ci_constraints inputs)) = Inr targets
      \<and> (\<forall>t \<in> set targets. served sha256_hex inputs contexts (cs_proposals supply) (cs_refusals supply) source t)"
    and none: "\<And>ty t. (ty, t) \<in> set facts \<Longrightarrow> \<not> (\<exists>ctx. grounded env inputs ty t ctx) \<Longrightarrow> \<exists>gate. refuse t gate None \<in> set (cs_refusals supply)"
    and known: "\<And>r. r \<in> set (cs_refusals supply) \<Longrightarrow> tr_source r = None \<Longrightarrow> tr_target_id r \<in> snd ` set facts"
  have misfit: "refuse t GATE_MODE_INTENT_PAIR (Some source) \<in> set (cs_refusals supply)"
    if fact: "(ty, t) \<in> set facts" and ctx: "grounded env inputs ty t ctx" "earned inputs ctx source" "\<not> fits source (tx_row ctx)" for ctx
  proof -
    obtain c where c: "map_of contexts t = Some c"
      using found [OF fact ctx(1)] by blast
    have "grounded env inputs ty t c"
      using contexts_groundedD(1) [OF g c] assms(3) fact eq_key_imp_eq_value [of "map prod.swap facts" t] by (force simp: comp_def)
    note same = grounded_same [OF this ctx(1)]
    have "earned inputs c source"
      using earned_same [OF same] ctx(2) by simp
    from serves [OF assms(4,5) c this] obtain built where built: "build_candidate sha256_hex source c inputs = Inr built"
      "built \<in> Inl ` set (cs_refusals supply) \<union> Inr ` set (cs_proposals supply)"
      unfolding served_def c by auto
    with build_fits [OF built(1)] ctx(3) same(1) obtain r where r: "build_candidate sha256_hex source c inputs = Inr (Inl r)" "r \<in> set (cs_refusals supply)"
      by auto
    then show ?thesis
      using build_refusal [OF r(1)] contexts_groundedD(2) [OF g c] by simp
  qed
  have outside: "refuse t GATE_OUTSIDE_SUPPLY (Some source) \<in> set (cs_refusals supply)"
    if "named_by inputs source t" "t \<notin> snd ` set facts"
  proof -
    obtain targets where targets: "wanted_by source contexts inputs (resolve_user_intent_scope (ci_constraints inputs)) = Inr targets"
      "\<forall>t \<in> set targets. served sha256_hex inputs contexts (cs_proposals supply) (cs_refusals supply) source t"
      using wants [OF assms(4,5)] by blast
    have "map_of contexts t = None"
      using contexts_groundedD(1) [OF g, of t] that(2) by (cases "map_of contexts t") force+
    moreover have "served sha256_hex inputs contexts (cs_proposals supply) (cs_refusals supply) source t"
      using targets(2) wanted_named [OF targets(1) that(1)] by blast
    moreover have "\<not> unserved (cs_refusals supply) t"
      using known that(2) by (auto simp: unserved_def)
    ultimately show ?thesis by (simp add: served_def)
  qed
  show "((ty, t) \<in> set facts \<longrightarrow> \<not> (\<exists>ctx. grounded env inputs ty t ctx) \<longrightarrow> (\<exists>gate. refuse t gate None \<in> set (cs_refusals supply)))
    \<and> ((ty, t) \<in> set facts \<longrightarrow> grounded env inputs ty t ctx \<longrightarrow> earned inputs ctx source \<longrightarrow> \<not> fits source (tx_row ctx)
      \<longrightarrow> refuse t GATE_MODE_INTENT_PAIR (Some source) \<in> set (cs_refusals supply))
    \<and> (named_by inputs source t \<longrightarrow> t \<notin> snd ` set facts \<longrightarrow> refuse t GATE_OUTSIDE_SUPPLY (Some source) \<in> set (cs_refusals supply))"
    using none misfit outside by blast
qed

lemma every_claim_is_answered_witness:
  "\<exists>supply. generate id demo_env demo_supply_inputs CANDIDATE_SOURCES = Inr supply
    \<and> (\<exists>gate. refuse ''y'' gate None \<in> set (cs_refusals supply))
    \<and> refuse ''z'' GATE_OUTSIDE_SUPPLY (Some CURRENT_USER_ERROR) \<in> set (cs_refusals supply)"
proof -
  obtain made where run: "generate id demo_env demo_supply_inputs CANDIDATE_SOURCES = Inr made"
    using generate_total [OF demo_legible] by blast
  have facts: "ci_targets demo_supply_inputs = Some (Inr [(''RESOURCE'', ''x''), (''RESOURCE'', ''y'')])"
    by (simp add: demo_supply_inputs_def)
  have source: "CURRENT_USER_ERROR \<in> set CANDIDATE_SOURCES"
    by (simp add: CANDIDATE_SOURCES_def TRACK_A_SOURCES_def)
  have "named_by demo_supply_inputs CURRENT_USER_ERROR ''z''"
    by (simp add: observed_def demo_supply_inputs_def)
  then have "refuse ''z'' GATE_OUTSIDE_SUPPLY (Some CURRENT_USER_ERROR) \<in> set (cs_refusals made)"
    using every_claim_is_answered [OF run facts _ source demo_running(2), of _ "''z''"] by simp
  moreover have "\<exists>gate. refuse ''y'' gate None \<in> set (cs_refusals made)"
    using every_claim_is_answered [OF run facts _ source demo_running(2), of "''RESOURCE''" "''y''"] demo_ungrounded by simp
  ultimately show ?thesis using run by blast
qed

section \<open>Where the pass raises\<close>

text \<open>
  A supply whose targets are there without the content rows or without the Scheduler is reported by an
  assertion that fails: although the pass has already found a gap for every source it was asked for and no
  candidate could be made, it walks the targets, and the first one raises.
\<close>

theorem absent_face_raises:
  assumes "ci_targets inputs = Some (Inr facts)" and "facts \<noteq> []"
    and "ci_target_rows inputs = None \<or> ci_schedule inputs = None"
  shows "generate sha256_hex env inputs sources = Inl SupplyAssertion \<and> list_all (\<lambda>source. gap_for source inputs \<noteq> None) sources"
proof -
  obtain target rest where facts: "facts = target # rest"
    using assms(2) by (auto simp: neq_Nil_conv)
  have "target_context_for env inputs target ([], []) = Inl SupplyAssertion"
    using assms(3) by (auto simp: target_context_for_def split: option.split prod.split)
  then have "contexts_of env inputs facts [] ([], []) = Inl SupplyAssertion"
    by (simp add: facts)
  then have "generate sha256_hex env inputs sources = Inl SupplyAssertion"
    by (simp add: generate_def Let_def assms(1))
  moreover have "list_all (\<lambda>source. gap_for source inputs \<noteq> None) sources"
    using assms(3) gap_for_None(2,4) [of _ inputs] unfolding list_all_iff by blast
  ultimately show ?thesis by blast
qed

lemma absent_face_raises_witness:
  "generate id demo_env (demo_supply_inputs\<lparr>ci_target_rows := None\<rparr>) CANDIDATE_SOURCES = Inl SupplyAssertion"
  using absent_face_raises [of "demo_supply_inputs\<lparr>ci_target_rows := None\<rparr>" "[(''RESOURCE'', ''x''), (''RESOURCE'', ''y'')]"
      id demo_env CANDIDATE_SOURCES]
  by (simp add: demo_supply_inputs_def)

section \<open>Prerequisites\<close>

definition prerequisite_edges :: "prerequisite_port \<Rightarrow> string list \<Rightarrow> curriculum_edge set" where
  "prerequisite_edges port nodes = {e. \<exists>node edges. node \<in> set nodes \<and> pq_prerequisites_of port node = Inr edges
     \<and> e \<in> set edges \<and> is_a_prerequisite_of e node}"

text \<open>Some edge of the strength has a verdict among these.\<close>

definition some_edge :: "curriculum_edge set \<Rightarrow> evidence_modality \<Rightarrow> learner_state_port option \<Rightarrow> prerequisite_strength
    \<Rightarrow> prerequisite_verdict set \<Rightarrow> bool" where
  "some_edge edges modality learner_state strength verdicts \<longleftrightarrow>
    (\<exists>e \<in> edges. strength_of e = strength \<and> judge (ce_from_node e) modality learner_state \<in> verdicts)"

definition own_edges :: "string \<Rightarrow> curriculum_edge list \<Rightarrow> curriculum_edge set" where
  "own_edges node edges = {e \<in> set edges. is_a_prerequisite_of e node}"

lemma tally_edges_spec:
  defines "tallied \<equiv> \<lambda>node modality ls edges tally. tally_edges node modality ls edges tally"
  shows "et_edge_count (tallied node modality ls edges tally) = 0 \<longleftrightarrow> et_edge_count tally = 0 \<and> own_edges node edges = {}"
    and "et_blocked (tallied node modality ls edges tally) \<longleftrightarrow> et_blocked tally
      \<or> some_edge (own_edges node edges) modality ls STRENGTH_HARD {UNMET}"
    and "et_unknown (tallied node modality ls edges tally) \<longleftrightarrow> et_unknown tally
      \<or> some_edge (own_edges node edges) modality ls STRENGTH_HARD {UNJUDGED}"
    and "et_scaffold (tallied node modality ls edges tally) \<longleftrightarrow> et_scaffold tally
      \<or> some_edge (own_edges node edges) modality ls SCAFFOLDABLE {UNMET, UNJUDGED}"
  unfolding tallied_def
proof (atomize (full), induction edges arbitrary: tally)
  case (Cons edge edges)
  have own: "own_edges node (edge # edges) = (if is_a_prerequisite_of edge node then {edge} else {}) \<union> own_edges node edges"
    by (auto simp: own_edges_def)
  show ?case
    unfolding tally_edges.simps own
    by (cases "strength_of edge"; cases "judge (ce_from_node edge) modality ls") (auto simp: Cons.IH some_edge_def Let_def)
qed (simp add: own_edges_def some_edge_def)

lemma tally_nodes_None:
  "tally_nodes port modality ls nodes tally = None \<longleftrightarrow> (\<exists>node \<in> set nodes. \<exists>code. pq_prerequisites_of port node = Inl code)"
  by (induction nodes arbitrary: tally) (auto split: sum.split)

lemma tally_nodes_spec:
  assumes "tally_nodes port modality ls nodes tally = Some tally'"
  shows "(et_edge_count tally' = 0 \<longleftrightarrow> et_edge_count tally = 0 \<and> prerequisite_edges port nodes = {})
    \<and> (et_blocked tally' \<longleftrightarrow> et_blocked tally \<or> some_edge (prerequisite_edges port nodes) modality ls STRENGTH_HARD {UNMET})
    \<and> (et_unknown tally' \<longleftrightarrow> et_unknown tally \<or> some_edge (prerequisite_edges port nodes) modality ls STRENGTH_HARD {UNJUDGED})
    \<and> (et_scaffold tally' \<longleftrightarrow> et_scaffold tally \<or> some_edge (prerequisite_edges port nodes) modality ls SCAFFOLDABLE {UNMET, UNJUDGED})"
  using assms
proof (induction nodes arbitrary: tally)
  case Nil
  then show ?case by (simp add: prerequisite_edges_def some_edge_def)
next
  case (Cons node nodes)
  from Cons.prems obtain edges where edges: "pq_prerequisites_of port node = Inr edges"
    "tally_nodes port modality ls nodes (tally_edges node modality ls edges tally) = Some tally'"
    by (auto split: sum.splits)
  have split_edges: "prerequisite_edges port (node # nodes) = own_edges node edges \<union> prerequisite_edges port nodes"
    using edges(1) by (auto simp: prerequisite_edges_def own_edges_def)
  have some: "some_edge (a \<union> b) modality ls strength vs \<longleftrightarrow> some_edge a modality ls strength vs \<or> some_edge b modality ls strength vs" for a b strength vs
    by (auto simp: some_edge_def)
  show ?case
    using Cons.IH [OF edges(2)] unfolding split_edges some tally_edges_spec by blast
qed

text \<open>
  C9: The prerequisite state of a target, exactly and whatever the order of its edges.  Without a graph,
  without a curriculum node, or with a node whose edges cannot be read, it is unknown and promises no
  scaffold.  Otherwise an unmet hard prerequisite blocks the target, a hard prerequisite nobody judged leaves
  it unknown, a scaffoldable one that is not proven makes it ready with a scaffold, and else it is ready; a
  scaffold is offered exactly when it is not blocked and some scaffoldable prerequisite is not proven.  Soft
  prerequisites never count.
\<close>

theorem prerequisite_state_exact:
  "prerequisite_state_of target_type target_id modality prerequisites learner_state =
    (case prerequisites of
       None \<Rightarrow> \<lparr>po_state = PREREQ_UNKNOWN, po_scaffoldable = False, po_nodes = []\<rparr>
     | Some port \<Rightarrow>
       (let nodes = nodes_of target_type target_id port;
            some = some_edge (prerequisite_edges port nodes) modality learner_state
        in if nodes = [] \<or> (\<exists>node \<in> set nodes. \<exists>code. pq_prerequisites_of port node = Inl code)
           then \<lparr>po_state = PREREQ_UNKNOWN, po_scaffoldable = False, po_nodes = nodes\<rparr>
           else if some STRENGTH_HARD {UNMET} then \<lparr>po_state = BLOCKED, po_scaffoldable = False, po_nodes = nodes\<rparr>
           else \<lparr>po_state = (if some STRENGTH_HARD {UNJUDGED} then PREREQ_UNKNOWN
                else if some SCAFFOLDABLE {UNMET, UNJUDGED} then READY_WITH_SCAFFOLD else READY),
              po_scaffoldable = some SCAFFOLDABLE {UNMET, UNJUDGED}, po_nodes = nodes\<rparr>))"
proof (cases prerequisites)
  case (Some port)
  let ?nodes = "nodes_of target_type target_id port"
  show ?thesis
  proof (cases "tally_nodes port modality learner_state ?nodes NO_EDGES")
    case None
    then show ?thesis
      using tally_nodes_None [of port modality learner_state ?nodes NO_EDGES]
      by (cases ?nodes) (simp_all add: prerequisite_state_of_def Some Let_def del: tally_nodes.simps)
  next
    case (Some tally)
    have readable: "\<not> (\<exists>node \<in> set ?nodes. \<exists>code. pq_prerequisites_of port node = Inl code)"
      using tally_nodes_None [of port modality learner_state ?nodes NO_EDGES] Some by simp
    have none: "\<not> some_edge {} modality learner_state strength vs" for strength vs
      by (simp add: some_edge_def)
    note spec = tally_nodes_spec [OF Some, unfolded NO_EDGES_def, simplified]
    show ?thesis
      using Some \<open>prerequisites = Some port\<close> readable spec none
      by (cases ?nodes; cases "prerequisite_edges port ?nodes = {}")
        (auto simp: prerequisite_state_of_def Let_def outcome_of_tally_def simp del: tally_nodes.simps)
  qed
qed (simp add: prerequisite_state_of_def)

end
