(* ===== verification/Generated_Turn.thy ===== *)
theory Generated_Turn
  imports Automatic_Turn Candidate_Properties
begin




section \<open>A concrete generated turn\<close>














end
