(* ===== verification/Spec2Isabelle.thy ===== *)
theory Spec2Isabelle
  imports Planner_Properties Gate_Properties Ladder_Properties Reply_Properties Moment_Properties
    Estimator_Properties Schedule_Handshake Automatic_Properties Delivery_Properties
    Exposure_Properties Generated_Turn
begin

text \<open>
  A verification development of the English-learning companion's decision core (\<^verbatim>\<open>src/elc\<close>).

  \<^bold>\<open>The program.\<close>  The companion talks with a learner and now and then teaches.  The \<^emph>\<open>estimator\<close>
  (\<^verbatim>\<open>learning/estimator.py\<close>) projects committed evidence onto a state per learning target.  The
  \<^emph>\<open>review scheduler\<close> (\<^verbatim>\<open>scheduler/\<close>) keeps a row per target saying when it is due again.  The \<^emph>\<open>planning
  ledger\<close> (\<^verbatim>\<open>planner/ledger.py\<close>, \<^verbatim>\<open>ledger_store.py\<close>) remembers what was presented and what coverage is owed.
  The \<^emph>\<open>planner\<close> (\<^verbatim>\<open>planner/kernel.py\<close>, with \<^verbatim>\<open>feature_assembly.py\<close> and \<^verbatim>\<open>frontier.py\<close>) chooses at most one
  target to teach next, and \<^verbatim>\<open>platform/db/planner_store.py\<close> makes the cycle durable with its trace document.
  The \<^emph>\<open>automatic turn\<close> (\<^verbatim>\<open>runtime/automatic_turn.py\<close>, \<^verbatim>\<open>automatic_teaching.py\<close>) goes from the authorities a
  turn reads, the session budget (\<^verbatim>\<open>teaching/budget.py\<close>) and the constraint views to a kernel run and a
  decision.  The \<^emph>\<open>Teaching Gate\<close> (\<^verbatim>\<open>teaching/gate.py\<close>) authorizes or denies an opening or a continuation
  from facts the caller assembles.  An allowed opening is committed by the \<^emph>\<open>teaching store\<close>
  (\<^verbatim>\<open>teaching/store.py\<close>) as one transaction that creates the moment and takes the conversation's lock.
  While the moment is live, every learner reply runs the \<^emph>\<open>reply turn\<close> (\<^verbatim>\<open>runtime/controller.py\<close> over
  \<^verbatim>\<open>teaching/envelope.py\<close>, \<^verbatim>\<open>limits.py\<close>, \<^verbatim>\<open>next_action.py\<close>, \<^verbatim>\<open>flow.py\<close>): the reply is read, the next action
  decided under the limits, the Gate asked, and the action delivered or the moment closed.  What a
  delivery shows is decided by the \<^emph>\<open>help ladder\<close> (\<^verbatim>\<open>teaching/ladder.py\<close>).  What the client acknowledges is
  kept by the \<^emph>\<open>delivery store\<close> (\<^verbatim>\<open>platform/db/delivery_store.py\<close>) and reconciled to an exposure estimate
  (\<^verbatim>\<open>runtime/exposure_reconciliation.py\<close>); a delivered teaching is then written to the planning ledger
  (\<^verbatim>\<open>runtime/exposure.py\<close>), which the next planner run reads.  The \<^emph>\<open>candidate supply\<close> (\<^verbatim>\<open>planner/candidates.py\<close>, \<^verbatim>\<open>supply.py\<close>) makes the
  proposals a run chooses from out of the content rows, the Scheduler, the learner state and the ledger.

  \<^bold>\<open>Theories.\<close>
  \<^item> \<^verbatim>\<open>Prelude\<close>: the exception monad on sums, dictionaries, maxima, \<open>sorted_set\<close>, and their lemmas.
    \<^verbatim>\<open>Python_Text\<close>: text, JSON escapes and instants of the standard library.  \<^verbatim>\<open>Binary64\<close>: Python's float as
    IEEE binary64 on rationals, with monotone and idempotent rounding.  \<^verbatim>\<open>Replayed_Write\<close>: the contract of a
    durable write, the locales \<^verbatim>\<open>replayed_write\<close> (a repeated write is answered with the stored row and
    changes nothing) and its extension \<^verbatim>\<open>planned_write\<close>.
  \<^item> \<^verbatim>\<open>Planner_Types\<close>, \<^verbatim>\<open>Feature_Assembly\<close>, \<^verbatim>\<open>Frontier\<close>, \<^verbatim>\<open>Planner_Kernel\<close>: the data and the eleven steps of the
    planner run.  \<^verbatim>\<open>Planner_Lemmas\<close> inverts the run (locale \<^verbatim>\<open>strict_dominance\<close>, interpreted on the kernel's
    Pareto order), \<^verbatim>\<open>Planner_Spec\<close> states the abstract choice (eligible, active, strongest request,
    undominated, near-best, greatest tie key, least identifier), \<^verbatim>\<open>Planner_Results\<close> and \<^verbatim>\<open>Planner_Properties\<close>
    show that the run refines it and when it refuses.
  \<^item> \<^verbatim>\<open>Trace_Document\<close>, \<^verbatim>\<open>Planner_Records\<close>, \<^verbatim>\<open>Planner_Record_Properties\<close>: the structured trace, the rows of a
    planner cycle and their one transaction; the relation \<^verbatim>\<open>planner_step\<close>; the write as \<^verbatim>\<open>cycles\<close>, an
    interpretation of \<^verbatim>\<open>replayed_write\<close>; a kernel run reads back as it returned.
  \<^item> \<^verbatim>\<open>Gate\<close>: the four profiles.  \<^verbatim>\<open>Gate_Reference\<close>: the frozen baseline
    (\<^verbatim>\<open>behavioral_baselines/gate/teaching_gate_reference_v1_1.py\<close>).  \<^verbatim>\<open>Gate_Lemmas\<close> states what every profile
    promises as the locale \<^verbatim>\<open>gate_profile\<close> and agreement with the baseline as its extension
    \<^verbatim>\<open>reference_profile\<close>, interpreted on the four profiles; \<^verbatim>\<open>Gate_Properties\<close> reads the results off.
  \<^item> \<^verbatim>\<open>Ladder\<close>, \<^verbatim>\<open>Ladder_Properties\<close>: moves of the help ladder; the locale \<^verbatim>\<open>word_ranking\<close> is interpreted on the
    phases and on the support levels.
  \<^item> \<^verbatim>\<open>Teaching_Flow\<close>, \<^verbatim>\<open>Reply_Turn\<close>, \<^verbatim>\<open>Reply_Properties\<close>: envelope, limits, next action, the facts assembled
    for the Gate, and the turn as a list of calls with their failures.
  \<^item> \<^verbatim>\<open>Moment_Store\<close>: the durable rows and every write of the store.  \<^verbatim>\<open>Moment_Invariant\<close>: the lock invariant,
    its preservation, and the inductive relation \<^verbatim>\<open>store_step\<close> with its reachable states.
    \<^verbatim>\<open>Moment_Properties\<close>: one focus, one-way lifecycle, compare and swap, replay, recovery, and the
    composition with the reply turn (a closing plan always ends its moment and frees the lock).
  \<^item> \<^verbatim>\<open>Estimator\<close>, \<^verbatim>\<open>Estimator_Run\<close>: the profile, the mass of a claim, the aggregation and the projection.
    \<^verbatim>\<open>Estimator_Lemmas\<close>: grouping, the contract, signs and sizes of masses.  \<^verbatim>\<open>Estimator_Properties\<close>: when it
    raises, that its numbers are proportions, what it depends on, what transfer and dependency need.
  \<^item> \<^verbatim>\<open>Schedule_Policy\<close> (\<^verbatim>\<open>scheduler/types.py\<close>, \<^verbatim>\<open>spacing.py\<close>, \<^verbatim>\<open>authority.py\<close>), \<^verbatim>\<open>Schedule_Store\<close> (\<^verbatim>\<open>store.py\<close>,
    \<^verbatim>\<open>controller.py\<close>): the spacing law and the two tables as rows of SQLite values.  \<^verbatim>\<open>Schedule_Lemmas\<close>,
    \<^verbatim>\<open>Schedule_Invariant\<close>: decoding inverts encoding, the relation \<^verbatim>\<open>schedule_step\<close>, the writes as
    interpretations \<^verbatim>\<open>items\<close>, \<^verbatim>\<open>events\<close> of \<^verbatim>\<open>replayed_write\<close> and \<^verbatim>\<open>recompute\<close> of \<^verbatim>\<open>planned_write\<close>.
    \<^verbatim>\<open>Schedule_Properties\<close>: the exact row and the exact refusals, kept history, idle recomputation.
    \<^verbatim>\<open>Schedule_Handshake\<close>: the planner believes the view exactly when the scheduler calls it current.
  \<^item> \<^verbatim>\<open>Session_Budget\<close>, \<^verbatim>\<open>Session_Budget_Properties\<close>: what throttles automatic teaching.  \<^verbatim>\<open>Automatic_Teaching\<close>,
    \<^verbatim>\<open>Automatic_Turn\<close>, \<^verbatim>\<open>Automatic_Lemmas\<close>, \<^verbatim>\<open>Automatic_Demo\<close>, \<^verbatim>\<open>Automatic_Properties\<close>: the automatic decision,
    when it opens a moment and with which effects, replay on reentry, and a whole turn down to the store.
  \<^item> \<^verbatim>\<open>Planning_Ledger\<close>, \<^verbatim>\<open>Planning_Ledger_Properties\<close>: obligations, their debt, the governing obligation, the
    overexposure reading.  \<^verbatim>\<open>Ledger_Store\<close>, \<^verbatim>\<open>Ledger_Store_Lemmas\<close>, \<^verbatim>\<open>Ledger_Store_Properties\<close>,
    \<^verbatim>\<open>Ledger_Store_Demo\<close>: the three tables, \<^verbatim>\<open>reachable_ledger\<close>, the stored projection as a function of the
    log, and the append as \<^verbatim>\<open>ledger_log\<close>, an interpretation of \<^verbatim>\<open>replayed_write\<close>.
  \<^item> \<^verbatim>\<open>Delivery_Records\<close>, \<^verbatim>\<open>Delivery_Properties\<close>: acknowledgments, validators, guards and the exposure
    estimate; five interpretations of \<^verbatim>\<open>replayed_write\<close>; facts only grow (\<^verbatim>\<open>delivery_step\<close>), and the
    estimate depends only on which acknowledgments came.
  \<^item> \<^verbatim>\<open>Exposure\<close>, \<^verbatim>\<open>Exposure_Properties\<close>: the write of a delivered teaching to the ledger, exactly, and the
    repair face that records it at most once (\<^verbatim>\<open>ledger_move\<close>).
  \<^item> \<^verbatim>\<open>Candidate_Readings\<close>, \<^verbatim>\<open>Prerequisites\<close> (\<^verbatim>\<open>planner/supply.py\<close>), \<^verbatim>\<open>Candidate_Supply\<close> (\<^verbatim>\<open>planner/candidates.py\<close>):
    the fourteen sources and what they declare, the readiness and prerequisites of a target, and the pass
    that makes the proposals of a turn.  \<^verbatim>\<open>Candidate_Lemmas\<close>: what the planner accepts as a property of a list
    of proposals, keys that name their candidates, vectors in range.  \<^verbatim>\<open>Candidate_Generation\<close>: what each loop
    leaves, when the pass returns, that its proposals are accepted.  \<^verbatim>\<open>Candidate_Properties\<close>: exactly which
    candidates a pass makes, that no claim goes unanswered, the prerequisite state of a target.
    \<^verbatim>\<open>Generated_Turn\<close>: a turn that generates its own supply is always planned.

  \<^bold>\<open>Conventions.\<close>  A dataclass is a record, a \<^verbatim>\<open>StrEnum\<close> a datatype, or a string where the code compares
  words it does not check.  A raise or an \<^verbatim>\<open>Err\<close> is a left value.  A dictionary is an association list in
  insertion order, or a function where only lookup is used.  A table is an association list keyed by its
  primary key, or a list of rows of SQLite values where the code decodes and checks them; a short
  transaction is a function to an error, with nothing written, or to a new database, and the schema's
  constraints (\<^verbatim>\<open>src/migrations\<close>) are tested where the code relies on them.  Clocks and the writer's fence
  are arguments.  Every definition is total and executable, without fuel: all loops of these modules run
  over finite lists, so termination is by structural recursion.  Floats are exact binary64 without overflow
  and NaN, which the accepted ranges exclude.

  \<^bold>\<open>Parameters.\<close>  The reader and printer of ISO times are the record \<^verbatim>\<open>py_env\<close>; SHA-256 is a function on
  strings; the text of a float and the prose of a trace line are the record \<^verbatim>\<open>trace_prose\<close>; \<^verbatim>\<open>math.exp\<close> and
  \<^verbatim>\<open>datetime.fromisoformat\<close> are arguments of the estimator.  What a theorem needs of them it assumes by name
  (a hash that does not collide, a printed time that reads back), and its witness instantiates them.  The faces a turn
  reads through (learner state, readiness, schedule, prior records) are functions with a left value for the
  domain error.  The readings of the envelope are the classifier's output and are universally quantified.

  \<^bold>\<open>Divergences found.\<close>  Closed theorems show: the planner's merge depends on arrival order
  (\<^verbatim>\<open>plan_arrival_order_dependence\<close>); a hint ladder of four rungs raises (\<^verbatim>\<open>fourth_rung_raises\<close>); a soft
  stop is recorded as an ALLOW (\<^verbatim>\<open>soft_stop_recorded_as_allow\<close>); a plain transition can strand the lock
  (\<^verbatim>\<open>plain_transition_can_strand_the_lock\<close>); recovery can leave two closure words
  (\<^verbatim>\<open>recovery_can_leave_two_closures\<close>); the estimate depends on the order of simultaneous claims
  (\<^verbatim>\<open>order_of_equal_timestamps_matters\<close>) and transfer ignores the confidence floor
  (\<^verbatim>\<open>transfer_ignores_confidence_floor\<close>); one instant spelled two ways leaves a ledger row its own reader
  refuses (\<^verbatim>\<open>two_spellings_lock_row\<close>); a delivery row that has ended is written again
  (\<^verbatim>\<open>terminal_row_is_rewritten\<close>).  Exact characterizations show: a review window beyond the calendar raises
  (\<^verbatim>\<open>schedule_decision_refuses_iff\<close>); a history without an engaged event is given the first stage
  (\<^verbatim>\<open>schedule_row_exact\<close>); a delivered teaching of a target with a paused obligation is never recorded
  (\<^verbatim>\<open>exposure_write_exact\<close>).  A supply wired
  without the content rows or the Scheduler raises instead of reporting its gaps (\<^verbatim>\<open>absent_face_raises\<close>).

  \<^bold>\<open>Not modelled.\<close>  SQL reads that only project rows and the other SQLite stores; threads, streams and the
  lease; recovery and the projections of the runtime; the commit of evidence and
  the matching of attempts; the language-model providers, personas and the world simulation; the
  regular-expression detectors; the content compiler; deletion; HTTP and command-line hosts.  Curriculum
  readiness is pure and is the next candidate.
\<close>

end
